(* ===== verification/Prelude.thy ===== *)
theory Prelude
  imports Main "HOL-Library.Char_ord" "HOL-Library.List_Lexorder"
begin

text \<open>
  The vocabulary every component theory shares: Python exceptions and their subclass relation,
  results that are either an exception or a value, the short-circuit conditions Python writes as
  \<open>if a or b: raise E\<close>, and programs over a state that keep the state they reached when they
  raise. Two collections carry the component proofs: \<open>res_simps\<close> turns "this check succeeded"
  into the facts the check establishes, and \<open>raises_intros\<close> derives which exceptions a piece of
  code may raise.
\<close>

named_theorems res_simps \<open>inversion of successful checks\<close>
named_theorems raises_intros \<open>which exceptions a computation may raise\<close>
named_theorems keeps_intros \<open>preservation of a state invariant by programs\<close>

section \<open>Exceptions\<close>

datatype exn =
    ValueError | JSONDecodeError | UnicodeError | UnicodeDecodeError
  | RuntimeError | RecursionError
  | KeyError | IndexError | TypeError | AttributeError | OverflowError | StopIteration
  | OSError | FileNotFoundError | FileExistsError | ConnectionRefusedError | TimeoutError | URLError
  | SqliteError | IntegrityError
  | TimeoutExpired | CommandCleanupUncertain | SystemExit | KeyboardInterrupt

text \<open>The direct superclass, where it is itself a class some handler of the code names.\<close>

fun super :: "exn \<Rightarrow> exn option" where
  "super JSONDecodeError = Some ValueError"
| "super UnicodeDecodeError = Some UnicodeError"
| "super UnicodeError = Some ValueError"
| "super RecursionError = Some RuntimeError"
| "super FileNotFoundError = Some OSError"
| "super FileExistsError = Some OSError"
| "super ConnectionRefusedError = Some OSError"
| "super TimeoutError = Some OSError"
| "super URLError = Some OSError"
| "super IntegrityError = Some SqliteError"
| "super CommandCleanupUncertain = Some TimeoutExpired"
| "super _ = None"

definition isa :: "exn \<Rightarrow> exn \<Rightarrow> bool" where
  "isa e c \<longleftrightarrow> e = c \<or> super e = Some c
     \<or> (case super e of None \<Rightarrow> False | Some d \<Rightarrow> super d = Some c)"

text \<open>\<open>except (c1, c2, ...)\<close> catches an exception of one of the classes or of a subclass.\<close>

definition caught :: "exn list \<Rightarrow> exn \<Rightarrow> bool" where
  "caught cs e \<longleftrightarrow> list_ex (isa e) cs"

lemma caught_simps [simp]:
  "caught [] e \<longleftrightarrow> False"
  "caught (c # cs) e \<longleftrightarrow> isa e c \<or> caught cs e"
  by (simp_all add: caught_def)

lemma isa_refl [simp]: "isa e e"
  by (simp add: isa_def)

lemma isa_ValueError: "isa e ValueError \<longleftrightarrow>
    e = ValueError \<or> e = JSONDecodeError \<or> e = UnicodeError \<or> e = UnicodeDecodeError"
  by (cases e) (simp_all add: isa_def)

section \<open>Results\<close>

type_synonym 'a res = "exn + 'a"

definition bindR :: "'a res \<Rightarrow> ('a \<Rightarrow> 'b res) \<Rightarrow> 'b res" where
  "bindR m f = (case m of Inl e \<Rightarrow> Inl e | Inr x \<Rightarrow> f x)"

text \<open>\<open>raise_if c e k\<close> is \<open>if c: raise e\<close> followed by \<open>k\<close>; evaluating \<open>c\<close> may itself raise.\<close>

definition raise_if :: "bool res \<Rightarrow> exn \<Rightarrow> 'a res \<Rightarrow> 'a res" where
  "raise_if c e k = (case c of Inl x \<Rightarrow> Inl x | Inr b \<Rightarrow> if b then Inl e else k)"

text \<open>Python's \<open>or\<close> and \<open>and\<close>: operands left to right, stopping at the first that decides.\<close>

fun any_of :: "bool res list \<Rightarrow> bool res" where
  "any_of [] = Inr False"
| "any_of (c # cs) = (case c of Inl e \<Rightarrow> Inl e | Inr b \<Rightarrow> if b then Inr True else any_of cs)"

fun all_of :: "bool res list \<Rightarrow> bool res" where
  "all_of [] = Inr True"
| "all_of (c # cs) = (case c of Inl e \<Rightarrow> Inl e | Inr b \<Rightarrow> if b then all_of cs else Inr False)"

definition notR :: "bool res \<Rightarrow> bool res" where
  "notR c = (case c of Inl e \<Rightarrow> Inl e | Inr b \<Rightarrow> Inr (\<not> b))"

definition mapR :: "('a \<Rightarrow> 'b) \<Rightarrow> 'a res \<Rightarrow> 'b res" where
  "mapR f m = (case m of Inl e \<Rightarrow> Inl e | Inr x \<Rightarrow> Inr (f x))"

text \<open>\<open>[f(x) for x in xs]\<close> and a \<open>for\<close> loop that updates local variables and may raise.\<close>

fun traverse :: "('a \<Rightarrow> 'b res) \<Rightarrow> 'a list \<Rightarrow> 'b list res" where
  "traverse f [] = Inr []"
| "traverse f (x # xs) = (case f x of Inl e \<Rightarrow> Inl e
     | Inr y \<Rightarrow> (case traverse f xs of Inl e \<Rightarrow> Inl e | Inr ys \<Rightarrow> Inr (y # ys)))"

fun foldR :: "('s \<Rightarrow> 'a \<Rightarrow> 's res) \<Rightarrow> 's \<Rightarrow> 'a list \<Rightarrow> 's res" where
  "foldR f s [] = Inr s"
| "foldR f s (x # xs) = (case f s x of Inl e \<Rightarrow> Inl e | Inr s' \<Rightarrow> foldR f s' xs)"

text \<open>\<open>try: m except cs: raise e\<close>.\<close>

definition reraise :: "exn list \<Rightarrow> exn \<Rightarrow> 'a res \<Rightarrow> 'a res" where
  "reraise cs e m = (case m of Inl x \<Rightarrow> if caught cs x then Inl e else Inl x | Inr y \<Rightarrow> Inr y)"

text \<open>\<open>try: m except cs: return d\<close>.\<close>

definition default_on :: "exn list \<Rightarrow> 'a \<Rightarrow> 'a res \<Rightarrow> 'a res" where
  "default_on cs d m = (case m of Inl x \<Rightarrow> if caught cs x then Inr d else Inl x | Inr y \<Rightarrow> Inr y)"

lemma bindR_simps [simp]:
  "bindR (Inl e) f = Inl e"
  "bindR (Inr x) f = f x"
  by (simp_all add: bindR_def)

lemma raise_if_simps [simp]:
  "raise_if (Inl x) e k = Inl x"
  "raise_if (Inr True) e k = Inl e"
  "raise_if (Inr False) e k = k"
  by (simp_all add: raise_if_def)

lemma raise_if_Inr_bool: "raise_if (Inr b) e k = (if b then Inl e else k)"
  by (simp add: raise_if_def)

lemma bindR_eq_Inr [res_simps]: "bindR m f = Inr y \<longleftrightarrow> (\<exists>x. m = Inr x \<and> f x = Inr y)"
  by (cases m) simp_all

lemma raise_if_eq_Inr [res_simps]: "raise_if c e k = Inr y \<longleftrightarrow> c = Inr False \<and> k = Inr y"
  by (cases c) (simp_all add: raise_if_def)

lemma any_of_eq_False [res_simps]:
  "any_of (c # cs) = Inr False \<longleftrightarrow> c = Inr False \<and> any_of cs = Inr False"
  by (cases c) simp_all

lemma all_of_eq_True [res_simps]:
  "all_of (c # cs) = Inr True \<longleftrightarrow> c = Inr True \<and> all_of cs = Inr True"
  by (cases c) simp_all

text \<open>From here on a condition is unfolded only once its first operand is known.\<close>

declare any_of.simps(2) [simp del] all_of.simps(2) [simp del]

lemma any_of_steps [simp]:
  "any_of (Inl e # cs) = Inl e"
  "any_of (Inr True # cs) = Inr True"
  "any_of (Inr False # cs) = any_of cs"
  by (simp_all add: any_of.simps)

lemma all_of_steps [simp]:
  "all_of (Inl e # cs) = Inl e"
  "all_of (Inr True # cs) = all_of cs"
  "all_of (Inr False # cs) = Inr False"
  by (simp_all add: all_of.simps)

lemma any_of_all_False: "any_of cs = Inr False \<longleftrightarrow> (\<forall>c \<in> set cs. c = Inr False)"
  by (induction cs) (auto simp: any_of_eq_False)

lemma any_of_map_False [res_simps]:
  "any_of (map f xs) = Inr False \<longleftrightarrow> (\<forall>x \<in> set xs. f x = Inr False)"
  by (simp add: any_of_all_False)

lemma notR_eq [res_simps]:
  "notR c = Inr False \<longleftrightarrow> c = Inr True"
  "notR c = Inr True \<longleftrightarrow> c = Inr False"
  by (cases c; simp add: notR_def)+

lemma notR_simps [simp]: "notR (Inr b) = Inr (\<not> b)" "notR (Inl e) = Inl e"
  by (simp_all add: notR_def)

lemma mapR_simps [simp]: "mapR f (Inr b) = Inr (f b)" "mapR f (Inl e) = Inl e"
  by (simp_all add: mapR_def)

lemma mapR_eq_Inr [res_simps]: "mapR f m = Inr y \<longleftrightarrow> (\<exists>x. m = Inr x \<and> f x = y)"
  by (cases m) simp_all

lemma reraise_eq_Inr [res_simps]: "reraise cs e m = Inr y \<longleftrightarrow> m = Inr y"
  by (cases m) (simp_all add: reraise_def)

lemma reraise_Inr [simp]: "reraise cs e (Inr y) = Inr y"
  by (simp add: reraise_def)

lemma default_on_Inr [simp]: "default_on cs d (Inr y) = Inr y"
  by (simp add: default_on_def)

lemma traverse_eq_Inr: "traverse f xs = Inr ys \<longleftrightarrow> list_all2 (\<lambda>x y. f x = Inr y) xs ys"
proof (induction xs arbitrary: ys)
  case Nil
  then show ?case by auto
next
  case (Cons x xs)
  have "traverse f (x # xs) = Inr ys \<longleftrightarrow>
      (\<exists>z zs. f x = Inr z \<and> traverse f xs = Inr zs \<and> ys = z # zs)"
    by (auto split: sum.splits)
  then show ?case by (auto simp: Cons.IH list_all2_Cons1)
qed

lemma foldR_append: "foldR f s (xs @ ys) = bindR (foldR f s xs) (\<lambda>s'. foldR f s' ys)"
  by (induction xs arbitrary: s) (auto split: sum.splits)

lemma foldR_inv:
  assumes "foldR f s xs = Inr s'" and "P s"
    and "\<And>x t t'. x \<in> set xs \<Longrightarrow> P t \<Longrightarrow> f t x = Inr t' \<Longrightarrow> P t'"
  shows "P s'"
  using assms
proof (induction xs arbitrary: s)
  case Nil
  then show ?case by simp
next
  case (Cons x xs)
  then obtain t where t: "f s x = Inr t" "foldR f t xs = Inr s'"
    by (auto split: sum.splits)
  show ?case
    using Cons.IH [OF t(2)] Cons.prems(2,3) t(1) by (meson list.set_intros)
qed

subsection \<open>Which exceptions a computation may raise\<close>

definition raises :: "exn list \<Rightarrow> 'a res \<Rightarrow> bool" where
  "raises cs m \<longleftrightarrow> (\<forall>e. m = Inl e \<longrightarrow> caught cs e)"

lemma raises_Inr [raises_intros, simp]: "raises cs (Inr x)"
  by (simp add: raises_def)

lemma raises_Inl: "caught cs e \<Longrightarrow> raises cs (Inl e)"
  by (simp add: raises_def)

lemma raises_bindR [raises_intros]:
  "raises cs m \<Longrightarrow> (\<And>x. m = Inr x \<Longrightarrow> raises cs (f x)) \<Longrightarrow> raises cs (bindR m f)"
  by (cases m) (simp_all add: raises_def)

lemma raises_raise_if [raises_intros]:
  "raises cs c \<Longrightarrow> caught cs e \<Longrightarrow> (c = Inr False \<Longrightarrow> raises cs k) \<Longrightarrow> raises cs (raise_if c e k)"
  by (cases c) (auto simp: raises_def raise_if_def)

lemma raises_any_of_Nil [raises_intros]: "raises cs (any_of [])"
  by simp

lemma raises_any_of [raises_intros]:
  "raises cs c \<Longrightarrow> (c = Inr False \<Longrightarrow> raises cs (any_of bs)) \<Longrightarrow> raises cs (any_of (c # bs))"
  by (cases c) (auto simp: raises_def any_of.simps)

lemma raises_any_of_map [raises_intros]:
  "(\<And>x. x \<in> set xs \<Longrightarrow> raises cs (f x)) \<Longrightarrow> raises cs (any_of (map f xs))"
  by (induction xs) (auto simp: raises_def any_of.simps split: sum.splits)

lemma raises_all_of_Nil [raises_intros]: "raises cs (all_of [])"
  by simp

lemma raises_all_of [raises_intros]:
  "raises cs c \<Longrightarrow> (c = Inr True \<Longrightarrow> raises cs (all_of bs)) \<Longrightarrow> raises cs (all_of (c # bs))"
  by (cases c) (auto simp: raises_def all_of.simps)

lemma raises_notR [raises_intros]: "raises cs c \<Longrightarrow> raises cs (notR c)"
  by (cases c) (simp_all add: raises_def)

lemma raises_mapR [raises_intros]: "raises cs c \<Longrightarrow> raises cs (mapR f c)"
  by (cases c) (simp_all add: raises_def)

lemma raises_if [raises_intros]:
  "(b \<Longrightarrow> raises cs x) \<Longrightarrow> (\<not> b \<Longrightarrow> raises cs y) \<Longrightarrow> raises cs (if b then x else y)"
  by simp

lemma raises_case_option [raises_intros]:
  "(x = None \<Longrightarrow> raises cs a) \<Longrightarrow> (\<And>y. x = Some y \<Longrightarrow> raises cs (b y))
     \<Longrightarrow> raises cs (case x of None \<Rightarrow> a | Some y \<Rightarrow> b y)"
  by (cases x) simp_all

lemma raises_case_list [raises_intros]:
  "(x = [] \<Longrightarrow> raises cs a) \<Longrightarrow> (\<And>y ys. x = y # ys \<Longrightarrow> raises cs (b y ys))
     \<Longrightarrow> raises cs (case x of [] \<Rightarrow> a | y # ys \<Rightarrow> b y ys)"
  by (cases x) simp_all

lemma raises_case_prod [raises_intros]:
  "(\<And>y z. x = (y, z) \<Longrightarrow> raises cs (b y z)) \<Longrightarrow> raises cs (case x of (y, z) \<Rightarrow> b y z)"
  by (cases x) simp_all

lemma raises_traverse [raises_intros]:
  "(\<And>x. x \<in> set xs \<Longrightarrow> raises cs (f x)) \<Longrightarrow> raises cs (traverse f xs)"
  by (induction xs) (auto simp: raises_def split: sum.splits)

lemma raises_foldR [raises_intros]:
  "(\<And>s x. x \<in> set xs \<Longrightarrow> raises cs (f s x)) \<Longrightarrow> raises cs (foldR f s xs)"
proof (induction xs arbitrary: s)
  case Nil
  then show ?case by simp
next
  case (Cons x xs)
  then have "raises cs (f s x)" and "\<And>t. raises cs (foldR f t xs)" by simp_all
  then show ?case by (cases "f s x") (simp_all add: raises_def)
qed

lemma raises_mono: "raises cs m \<Longrightarrow> (\<And>e. caught cs e \<Longrightarrow> caught ds e) \<Longrightarrow> raises ds m"
  by (auto simp: raises_def)

lemma raises_reraise: "raises cs m \<Longrightarrow> raises [e] (reraise cs e m)"
  by (cases m) (auto simp: raises_def reraise_def)

lemma raises_reraise_more:
  "raises (cs @ ds) m \<Longrightarrow> raises (e # ds) (reraise cs e m)"
  by (cases m) (auto simp: raises_def reraise_def caught_def list_ex_iff)

section \<open>Programs over a state\<close>

text \<open>
  A statement that may raise keeps whatever it did to the state before it raised, so a program
  returns its result together with the state it reached.
\<close>

type_synonym ('s, 'a) prog = "'s \<Rightarrow> 'a res \<times> 's"

definition ret :: "'a \<Rightarrow> ('s, 'a) prog" where
  "ret x s = (Inr x, s)"

definition raiseP :: "exn \<Rightarrow> ('s, 'a) prog" where
  "raiseP e s = (Inl e, s)"

definition lift :: "'a res \<Rightarrow> ('s, 'a) prog" where
  "lift r s = (r, s)"

definition gets :: "('s \<Rightarrow> 'a) \<Rightarrow> ('s, 'a) prog" where
  "gets f s = (Inr (f s), s)"

definition modify :: "('s \<Rightarrow> 's) \<Rightarrow> ('s, unit) prog" where
  "modify f s = (Inr (), f s)"

definition bindP :: "('s, 'a) prog \<Rightarrow> ('a \<Rightarrow> ('s, 'b) prog) \<Rightarrow> ('s, 'b) prog" where
  "bindP m f s = (case m s of (Inl e, s') \<Rightarrow> (Inl e, s') | (Inr x, s') \<Rightarrow> f x s')"

definition seqP :: "('s, 'a) prog \<Rightarrow> ('s, 'b) prog \<Rightarrow> ('s, 'b) prog" where
  "seqP m k = bindP m (\<lambda>_. k)"

text \<open>\<open>raise_unless\<close>/\<open>raise_when\<close>: a guard on the state; \<open>on_exn\<close>: \<open>except BaseException as e\<close>;
  \<open>ensuring\<close>: \<open>finally\<close>, where the clean-up runs on both paths and its own exception wins.\<close>

definition raise_when :: "('s \<Rightarrow> bool res) \<Rightarrow> exn \<Rightarrow> ('s, unit) prog" where
  "raise_when c e s = (raise_if (c s) e (Inr ()), s)"

definition on_exn :: "('s, 'a) prog \<Rightarrow> (exn \<Rightarrow> ('s, 'a) prog) \<Rightarrow> ('s, 'a) prog" where
  "on_exn m h s = (case m s of (Inl e, s') \<Rightarrow> h e s' | (Inr x, s') \<Rightarrow> (Inr x, s'))"

definition ensuring :: "('s, 'a) prog \<Rightarrow> ('s, unit) prog \<Rightarrow> ('s, 'a) prog" where
  "ensuring m c s = (case m s of (r, s') \<Rightarrow>
     (case c s' of (Inl e, s'') \<Rightarrow> (Inl e, s'') | (Inr _, s'') \<Rightarrow> (r, s'')))"

definition whenP :: "bool \<Rightarrow> ('s, unit) prog \<Rightarrow> ('s, unit) prog" where
  "whenP b m = (if b then m else ret ())"

fun forP :: "'a list \<Rightarrow> ('a \<Rightarrow> ('s, unit) prog) \<Rightarrow> ('s, unit) prog" where
  "forP [] f = ret ()"
| "forP (x # xs) f = seqP (f x) (forP xs f)"

lemmas prog_defs = ret_def raiseP_def lift_def gets_def modify_def bindP_def seqP_def
  raise_when_def on_exn_def whenP_def

text \<open>An invariant that a program keeps whether it returns or raises.\<close>

definition keeps :: "('s \<Rightarrow> bool) \<Rightarrow> ('s, 'a) prog \<Rightarrow> bool" where
  "keeps I m \<longleftrightarrow> (\<forall>s. I s \<longrightarrow> I (snd (m s)))"

lemma keeps_ret [keeps_intros]: "keeps I (ret x)"
  by (simp add: keeps_def ret_def)

lemma keeps_raiseP [keeps_intros]: "keeps I (raiseP e)"
  by (simp add: keeps_def raiseP_def)

lemma keeps_lift [keeps_intros]: "keeps I (lift r)"
  by (simp add: keeps_def lift_def)

lemma keeps_gets [keeps_intros]: "keeps I (gets f)"
  by (simp add: keeps_def gets_def)

lemma keeps_raise_when [keeps_intros]: "keeps I (raise_when c e)"
  by (simp add: keeps_def raise_when_def)

lemma keeps_modify: "(\<And>s. I s \<Longrightarrow> I (f s)) \<Longrightarrow> keeps I (modify f)"
  by (simp add: keeps_def modify_def)

lemma keeps_bindP [keeps_intros]:
  "keeps I m \<Longrightarrow> (\<And>x. keeps I (f x)) \<Longrightarrow> keeps I (bindP m f)"
  unfolding keeps_def bindP_def
proof (intro allI impI)
  fix s assume m: "\<forall>s. I s \<longrightarrow> I (snd (m s))"
    and f: "\<And>x. \<forall>s. I s \<longrightarrow> I (snd (f x s))" and s: "I s"
  obtain r s' where rs: "m s = (r, s')" by fastforce
  with m s have "I s'" by (metis snd_conv)
  with f rs show "I (snd (case m s of (Inl e, s') \<Rightarrow> (Inl e, s') | (Inr x, s') \<Rightarrow> f x s'))"
    by (cases r) simp_all
qed

lemma keeps_seqP [keeps_intros]: "keeps I m \<Longrightarrow> keeps I k \<Longrightarrow> keeps I (seqP m k)"
  by (simp add: seqP_def keeps_bindP)

lemma keeps_on_exn [keeps_intros]:
  "keeps I m \<Longrightarrow> (\<And>e. keeps I (h e)) \<Longrightarrow> keeps I (on_exn m h)"
  by (fastforce simp: keeps_def on_exn_def split: prod.splits sum.splits)

lemma keeps_ensuring [keeps_intros]: "keeps I m \<Longrightarrow> keeps I c \<Longrightarrow> keeps I (ensuring m c)"
  by (fastforce simp: keeps_def ensuring_def split: prod.splits sum.splits)

lemma keeps_whenP [keeps_intros]: "keeps I m \<Longrightarrow> keeps I (whenP b m)"
  by (simp add: whenP_def keeps_ret)

lemma keeps_forP [keeps_intros]: "(\<And>x. keeps I (f x)) \<Longrightarrow> keeps I (forP xs f)"
  by (induction xs) (simp_all add: keeps_ret keeps_seqP)

lemma keeps_if [keeps_intros]:
  "(b \<Longrightarrow> keeps I x) \<Longrightarrow> (\<not> b \<Longrightarrow> keeps I y) \<Longrightarrow> keeps I (if b then x else y)"
  by simp

lemma keepsD: "keeps I m \<Longrightarrow> I s \<Longrightarrow> m s = (r, s') \<Longrightarrow> I s'"
  by (metis keeps_def snd_conv)

lemma bindP_eq_Inr [res_simps]:
  "bindP m f s = (Inr y, s') \<longleftrightarrow> (\<exists>x t. m s = (Inr x, t) \<and> f x t = (Inr y, s'))"
  by (auto simp: bindP_def split: prod.splits sum.splits)

lemma seqP_eq_Inr [res_simps]:
  "seqP m k s = (Inr y, s') \<longleftrightarrow> (\<exists>x t. m s = (Inr x, t) \<and> k t = (Inr y, s'))"
  by (simp add: seqP_def res_simps)

lemma raise_when_eq_Inr [res_simps]:
  "raise_when c e s = (Inr y, s') \<longleftrightarrow> c s = Inr False \<and> s' = s"
  by (auto simp: raise_when_def res_simps)

subsection \<open>Weakest preconditions\<close>

text \<open>\<open>wp m Q s\<close>: running \<open>m\<close> in \<open>s\<close> ends, with its result or its exception, in \<open>Q\<close>.\<close>

definition wp :: "('s, 'a) prog \<Rightarrow> ('a res \<Rightarrow> 's \<Rightarrow> bool) \<Rightarrow> 's \<Rightarrow> bool" where
  "wp m Q s \<longleftrightarrow> Q (fst (m s)) (snd (m s))"

text \<open>An exception goes past the rest of the program, a value into it.\<close>

definition thenQ :: "('a \<Rightarrow> ('s, 'b) prog) \<Rightarrow> ('b res \<Rightarrow> 's \<Rightarrow> bool) \<Rightarrow> 'a res \<Rightarrow> 's \<Rightarrow> bool" where
  "thenQ f Q r t \<longleftrightarrow> (case r of Inl e \<Rightarrow> Q (Inl e) t | Inr x \<Rightarrow> wp (f x) Q t)"

lemma thenQ_simps [simp]:
  "thenQ f Q (Inl e) t \<longleftrightarrow> Q (Inl e) t"
  "thenQ f Q (Inr x) t \<longleftrightarrow> wp (f x) Q t"
  by (simp_all add: thenQ_def)

lemma wp_ret [simp]: "wp (ret x) Q s \<longleftrightarrow> Q (Inr x) s"
  by (simp add: wp_def ret_def)

lemma wp_raiseP [simp]: "wp (raiseP e) Q s \<longleftrightarrow> Q (Inl e) s"
  by (simp add: wp_def raiseP_def)

lemma wp_lift [simp]: "wp (lift r) Q s \<longleftrightarrow> Q r s"
  by (simp add: wp_def lift_def)

lemma wp_gets [simp]: "wp (gets g) Q s \<longleftrightarrow> Q (Inr (g s)) s"
  by (simp add: wp_def gets_def)

lemma wp_modify [simp]: "wp (modify h) Q s \<longleftrightarrow> Q (Inr ()) (h s)"
  by (simp add: wp_def modify_def)

lemma wp_raise_when [simp]: "wp (raise_when c e) Q s \<longleftrightarrow> Q (raise_if (c s) e (Inr ())) s"
  by (simp add: wp_def raise_when_def)

lemma wp_bindP [simp]: "wp (bindP m f) Q s \<longleftrightarrow> wp m (thenQ f Q) s"
  by (auto simp: wp_def bindP_def thenQ_def split: prod.splits sum.splits)

lemma wp_seqP [simp]: "wp (seqP m k) Q s \<longleftrightarrow> wp m (thenQ (\<lambda>_. k) Q) s"
  by (simp add: seqP_def)

lemma wp_on_exn: "wp (on_exn m h) Q s \<longleftrightarrow>
    wp m (\<lambda>r t. case r of Inl e \<Rightarrow> wp (h e) Q t | Inr x \<Rightarrow> Q (Inr x) t) s"
  by (auto simp: wp_def on_exn_def split: prod.splits sum.splits)

lemma wp_mono: "wp m Q s \<Longrightarrow> (\<And>r t. Q r t \<Longrightarrow> Q' r t) \<Longrightarrow> wp m Q' s"
  by (simp add: wp_def)

lemma wp_D: "wp m Q s \<Longrightarrow> m s = (r, t) \<Longrightarrow> Q r t"
  by (simp add: wp_def)

lemma wp_I: "(\<And>r t. m s = (r, t) \<Longrightarrow> Q r t) \<Longrightarrow> wp m Q s"
  by (simp add: wp_def)

lemma thenQ_I:
  "(\<And>e. r = Inl e \<Longrightarrow> Q (Inl e) t) \<Longrightarrow> (\<And>x. r = Inr x \<Longrightarrow> wp (f x) Q t) \<Longrightarrow> thenQ f Q r t"
  by (cases r) simp_all

lemma keeps_wp: "keeps I m \<longleftrightarrow> (\<forall>s. I s \<longrightarrow> wp m (\<lambda>_. I) s)"
  by (simp add: keeps_def wp_def)

section \<open>Lists and strings\<close>

lemma list_all_simps_set: "list_all P xs \<longleftrightarrow> (\<forall>x \<in> set xs. P x)"
  by (simp add: list_all_iff)

text \<open>Character classes of the regular expressions in the source.\<close>

definition is_digit :: "char \<Rightarrow> bool" where
  "is_digit c \<longleftrightarrow> CHR ''0'' \<le> c \<and> c \<le> CHR ''9''"

definition is_lower :: "char \<Rightarrow> bool" where
  "is_lower c \<longleftrightarrow> CHR ''a'' \<le> c \<and> c \<le> CHR ''z''"

definition is_upper :: "char \<Rightarrow> bool" where
  "is_upper c \<longleftrightarrow> CHR ''A'' \<le> c \<and> c \<le> CHR ''Z''"

definition is_hexlow :: "char \<Rightarrow> bool" where
  "is_hexlow c \<longleftrightarrow> is_digit c \<or> (CHR ''a'' \<le> c \<and> c \<le> CHR ''f'')"

definition is_alnum :: "char \<Rightarrow> bool" where
  "is_alnum c \<longleftrightarrow> is_digit c \<or> is_lower c \<or> is_upper c"

text \<open>\<open>starts_with p s = Some r\<close> when \<open>s = p @ r\<close>.\<close>

fun strip_prefix :: "'a list \<Rightarrow> 'a list \<Rightarrow> 'a list option" where
  "strip_prefix [] s = Some s"
| "strip_prefix (c # p) [] = None"
| "strip_prefix (c # p) (d # s) = (if c = d then strip_prefix p s else None)"

lemma strip_prefix_Some [res_simps]: "strip_prefix p s = Some r \<longleftrightarrow> s = p @ r"
  by (induction p s rule: strip_prefix.induct) auto

lemma strip_prefix_append [simp]: "strip_prefix p (p @ r) = Some r"
  by (simp add: strip_prefix_Some)

text \<open>A pattern that is a fixed prefix followed by a body.\<close>

definition prefixed :: "string \<Rightarrow> (string \<Rightarrow> bool) \<Rightarrow> string \<Rightarrow> bool" where
  "prefixed p body s \<longleftrightarrow> (case strip_prefix p s of None \<Rightarrow> False | Some r \<Rightarrow> body r)"

lemma prefixed_iff: "prefixed p body s \<longleftrightarrow> (\<exists>r. s = p @ r \<and> body r)"
  by (auto simp: prefixed_def strip_prefix_Some split: option.splits)

lemma prefixed_append [simp]: "prefixed p body (p @ r) \<longleftrightarrow> body r"
  by (simp add: prefixed_def)

end
