(* ===== verification/Py_Values.thy ===== *)
theory Py_Values
  imports Prelude Complex_Main
begin

text \<open>
  Python values as the code under \<open>hat/\<close> handles them: what \<open>json.loads\<close> builds and
  \<open>json.dumps\<close> accepts. A \<open>dict\<close> is the list of its items in insertion order. Equality, truth,
  subscripts, \<open>.get\<close>, \<open>set(x)\<close>, membership and iteration follow the language: \<open>True == 1\<close> and
  \<open>1 == 1.0\<close> hold, dictionaries compare without order, a missing key raises \<open>KeyError\<close>, a
  subscript of a number raises \<open>TypeError\<close>, an unhashable element of a set raises \<open>TypeError\<close>.
  A string is a list of code points below 256 (HOL's \<open>char\<close>); values with other code points are
  outside the model.
\<close>

section \<open>Values\<close>

datatype pyfloat = Fin rat | PosInf | NegInf | NaN

datatype json =
    JNull
  | JBool bool
  | JInt int
  | JFloat pyfloat
  | JStr string
  | JArr "json list"
  | JObj "(string \<times> json) list"

fun is_obj :: "json \<Rightarrow> bool" where
  "is_obj (JObj _) = True" | "is_obj _ = False"

fun is_arr :: "json \<Rightarrow> bool" where
  "is_arr (JArr _) = True" | "is_arr _ = False"

fun is_str :: "json \<Rightarrow> bool" where
  "is_str (JStr _) = True" | "is_str _ = False"

text \<open>\<open>type(v) is int\<close>: \<open>bool\<close> is a different type.\<close>

fun is_int :: "json \<Rightarrow> bool" where
  "is_int (JInt _) = True" | "is_int _ = False"

fun is_bool :: "json \<Rightarrow> bool" where
  "is_bool (JBool _) = True" | "is_bool _ = False"

lemma is_obj_iff: "is_obj v \<longleftrightarrow> (\<exists>kvs. v = JObj kvs)"
  by (cases v) simp_all

lemma is_arr_iff: "is_arr v \<longleftrightarrow> (\<exists>xs. v = JArr xs)"
  by (cases v) simp_all

lemma is_str_iff: "is_str v \<longleftrightarrow> (\<exists>s. v = JStr s)"
  by (cases v) simp_all

lemma is_int_iff: "is_int v \<longleftrightarrow> (\<exists>n. v = JInt n)"
  by (cases v) simp_all

lemmas is_kind_iff = is_obj_iff is_arr_iff is_str_iff is_int_iff

text \<open>A test of a value's content under its type, false for every other type:
  \<open>isinstance(v, str) and p(v)\<close> and \<open>type(v) is int and p(v)\<close>.\<close>

definition str_and :: "json \<Rightarrow> (string \<Rightarrow> bool) \<Rightarrow> bool" where
  "str_and v p \<longleftrightarrow> (case v of JStr s \<Rightarrow> p s | _ \<Rightarrow> False)"

definition int_and :: "json \<Rightarrow> (int \<Rightarrow> bool) \<Rightarrow> bool" where
  "int_and v p \<longleftrightarrow> (case v of JInt n \<Rightarrow> p n | _ \<Rightarrow> False)"

lemma str_and_iff: "str_and v p \<longleftrightarrow> (\<exists>s. v = JStr s \<and> p s)"
  by (cases v) (simp_all add: str_and_def)

lemma int_and_iff: "int_and v p \<longleftrightarrow> (\<exists>n. v = JInt n \<and> p n)"
  by (cases v) (simp_all add: int_and_def)

lemma str_and_simps [simp]: "str_and (JStr s) p \<longleftrightarrow> p s"
  by (simp add: str_and_def)

lemma int_and_simps [simp]: "int_and (JInt n) p \<longleftrightarrow> p n"
  by (simp add: int_and_def)

section \<open>Truth and equality\<close>

definition truthy :: "json \<Rightarrow> bool" where
  "truthy v \<longleftrightarrow> (case v of JNull \<Rightarrow> False | JBool b \<Rightarrow> b | JInt n \<Rightarrow> n \<noteq> 0
     | JFloat f \<Rightarrow> f \<noteq> Fin 0 | JStr s \<Rightarrow> s \<noteq> [] | JArr xs \<Rightarrow> xs \<noteq> [] | JObj kvs \<Rightarrow> kvs \<noteq> [])"

fun num_of :: "json \<Rightarrow> pyfloat option" where
  "num_of (JBool b) = Some (Fin (if b then 1 else 0))"
| "num_of (JInt n) = Some (Fin (of_int n))"
| "num_of (JFloat f) = Some f"
| "num_of _ = None"

definition num_eq :: "json \<Rightarrow> json \<Rightarrow> bool" where
  "num_eq v w \<longleftrightarrow> (case (num_of v, num_of w) of
     (Some f, Some g) \<Rightarrow> f = g \<and> f \<noteq> NaN | _ \<Rightarrow> False)"

fun py_eq :: "json \<Rightarrow> json \<Rightarrow> bool"
  and py_eq_list :: "json list \<Rightarrow> json list \<Rightarrow> bool"
  and py_eq_items :: "(string \<times> json) list \<Rightarrow> (string \<times> json) list \<Rightarrow> bool" where
  "py_eq JNull w \<longleftrightarrow> w = JNull"
| "py_eq (JBool b) w \<longleftrightarrow> num_eq (JBool b) w"
| "py_eq (JInt n) w \<longleftrightarrow> num_eq (JInt n) w"
| "py_eq (JFloat f) w \<longleftrightarrow> num_eq (JFloat f) w"
| "py_eq (JStr s) w \<longleftrightarrow> w = JStr s"
| "py_eq (JArr xs) w \<longleftrightarrow> (case w of JArr ys \<Rightarrow> py_eq_list xs ys | _ \<Rightarrow> False)"
| "py_eq (JObj kvs) w \<longleftrightarrow>
     (case w of JObj kws \<Rightarrow> length kvs = length kws \<and> py_eq_items kvs kws | _ \<Rightarrow> False)"
| "py_eq_list [] ys \<longleftrightarrow> ys = []"
| "py_eq_list (x # xs) ys \<longleftrightarrow>
     (case ys of [] \<Rightarrow> False | y # ys' \<Rightarrow> py_eq x y \<and> py_eq_list xs ys')"
| "py_eq_items [] kws \<longleftrightarrow> True"
| "py_eq_items ((k, v) # kvs) kws \<longleftrightarrow>
     (case map_of kws k of None \<Rightarrow> False | Some w \<Rightarrow> py_eq v w) \<and> py_eq_items kvs kws"

lemma py_eq_JStr [simp]: "py_eq v (JStr s) \<longleftrightarrow> v = JStr s"
  by (cases v) (auto simp: num_eq_def)

lemma py_eq_JNull [simp]: "py_eq v JNull \<longleftrightarrow> v = JNull"
  by (cases v) (auto simp: num_eq_def)

lemma py_eq_ints [simp]: "py_eq (JInt m) (JInt n) \<longleftrightarrow> m = n"
  by (simp add: num_eq_def)

lemma py_eq_bools [simp]: "py_eq (JBool a) (JBool b) \<longleftrightarrow> a = b"
  by (simp add: num_eq_def)

lemma py_eq_bool_int [simp]: "py_eq (JBool b) (JInt n) \<longleftrightarrow> n = (if b then 1 else 0)"
  by (auto simp: num_eq_def)

lemma py_eq_nil_obj [simp]: "py_eq v (JObj []) \<longleftrightarrow> v = JObj []"
  by (cases v) (auto simp: num_eq_def)

lemma py_eq_nil_arr [simp]: "py_eq v (JArr []) \<longleftrightarrow> v = JArr []"
proof (cases v)
  case (JArr xs)
  then show ?thesis by (cases xs) simp_all
qed (auto simp: num_eq_def)

text \<open>Values with distinct keys in every dictionary and no NaN: what Python can hold apart from
  NaN. On them equality is reflexive.\<close>

fun proper :: "json \<Rightarrow> bool"
  and proper_list :: "json list \<Rightarrow> bool"
  and proper_items :: "(string \<times> json) list \<Rightarrow> bool" where
  "proper (JFloat f) \<longleftrightarrow> f \<noteq> NaN"
| "proper (JArr xs) \<longleftrightarrow> proper_list xs"
| "proper (JObj kvs) \<longleftrightarrow> distinct (map fst kvs) \<and> proper_items kvs"
| "proper _ \<longleftrightarrow> True"
| "proper_list [] \<longleftrightarrow> True"
| "proper_list (x # xs) \<longleftrightarrow> proper x \<and> proper_list xs"
| "proper_items [] \<longleftrightarrow> True"
| "proper_items ((k, v) # kvs) \<longleftrightarrow> proper v \<and> proper_items kvs"

lemma proper_list_iff: "proper_list xs \<longleftrightarrow> (\<forall>x \<in> set xs. proper x)"
  by (induction xs) auto

lemma proper_items_iff: "proper_items kvs \<longleftrightarrow> (\<forall>(k, v) \<in> set kvs. proper v)"
  by (induction kvs) auto

lemma py_eq_items_iff:
  "py_eq_items kvs kws \<longleftrightarrow>
     (\<forall>(k, v) \<in> set kvs. \<exists>w. map_of kws k = Some w \<and> py_eq v w)"
  by (induction kvs) (auto split: option.splits)

lemma py_eq_refl_all:
  "proper v \<Longrightarrow> py_eq v v"
  "proper_list xs \<Longrightarrow> py_eq_list xs xs"
  "proper_items kvs \<Longrightarrow> \<forall>(k, v) \<in> set kvs. py_eq v v"
  by (induction v and xs and kvs rule: proper_proper_list_proper_items.induct)
    (force simp: num_eq_def py_eq_items_iff map_of_eq_Some_iff)+

lemma py_eq_refl: "proper v \<Longrightarrow> py_eq v v"
  by (rule py_eq_refl_all)

section \<open>Access\<close>

definition getitem :: "json \<Rightarrow> string \<Rightarrow> json res" where
  "getitem v k = (case v of
     JObj kvs \<Rightarrow> (case map_of kvs k of None \<Rightarrow> Inl KeyError | Some x \<Rightarrow> Inr x)
   | _ \<Rightarrow> Inl TypeError)"

text \<open>\<open>v.get(k, d)\<close>; other types have no such method.\<close>

definition get_or :: "json \<Rightarrow> string \<Rightarrow> json \<Rightarrow> json res" where
  "get_or v k d = (case v of
     JObj kvs \<Rightarrow> Inr (case map_of kvs k of None \<Rightarrow> d | Some x \<Rightarrow> x)
   | _ \<Rightarrow> Inl AttributeError)"

abbreviation get_none :: "json \<Rightarrow> string \<Rightarrow> json res" where
  "get_none v k \<equiv> get_or v k JNull"

text \<open>\<open>k in v\<close> for a string \<open>k\<close>: keys, elements or substrings.\<close>

fun is_infix :: "'a list \<Rightarrow> 'a list \<Rightarrow> bool" where
  "is_infix p [] \<longleftrightarrow> p = []"
| "is_infix p (c # s) \<longleftrightarrow> strip_prefix p (c # s) \<noteq> None \<or> is_infix p s"

definition contains :: "json \<Rightarrow> string \<Rightarrow> bool res" where
  "contains v k = (case v of
     JObj kvs \<Rightarrow> Inr (k \<in> fst ` set kvs)
   | JArr xs \<Rightarrow> Inr (JStr k \<in> set xs)
   | JStr s \<Rightarrow> Inr (is_infix k s)
   | _ \<Rightarrow> Inl TypeError)"

text \<open>\<open>v[i]\<close> for an integer \<open>i\<close>, negative indices counting from the end.\<close>

definition py_index :: "nat \<Rightarrow> int \<Rightarrow> nat option" where
  "py_index len i = (if 0 \<le> i then (if nat i < len then Some (nat i) else None)
     else if nat (- i) \<le> len then Some (len - nat (- i)) else None)"

definition item_at :: "json \<Rightarrow> int \<Rightarrow> json res" where
  "item_at v i = (case v of
     JArr xs \<Rightarrow> (case py_index (length xs) i of Some k \<Rightarrow> Inr (nth xs k) | None \<Rightarrow> Inl IndexError)
   | JStr s \<Rightarrow> (case py_index (length s) i of Some k \<Rightarrow> Inr (JStr [nth s k]) | None \<Rightarrow> Inl IndexError)
   | JObj _ \<Rightarrow> Inl KeyError
   | _ \<Rightarrow> Inl TypeError)"

definition values_of :: "json \<Rightarrow> json list res" where
  "values_of v = (case v of JObj kvs \<Rightarrow> Inr (map snd kvs) | _ \<Rightarrow> Inl AttributeError)"

definition items_of :: "json \<Rightarrow> (string \<times> json) list res" where
  "items_of v = (case v of JObj kvs \<Rightarrow> Inr kvs | _ \<Rightarrow> Inl AttributeError)"

definition iter_of :: "json \<Rightarrow> json list res" where
  "iter_of v = (case v of
     JArr xs \<Rightarrow> Inr xs
   | JObj kvs \<Rightarrow> Inr (map (JStr \<circ> fst) kvs)
   | JStr s \<Rightarrow> Inr (map (\<lambda>c. JStr [c]) s)
   | _ \<Rightarrow> Inl TypeError)"

definition len_of :: "json \<Rightarrow> int res" where
  "len_of v = mapR (\<lambda>xs. int (length xs)) (iter_of v)"

fun hashable :: "json \<Rightarrow> bool" where
  "hashable (JArr _) = False" | "hashable (JObj _) = False" | "hashable _ = True"

text \<open>\<open>set(v)\<close> against a set of string constants; a list with an unhashable element raises.\<close>

definition elems_of :: "json \<Rightarrow> json list res" where
  "elems_of v = bindR (iter_of v) (\<lambda>xs. if list_all hashable xs then Inr xs else Inl TypeError)"

definition set_is :: "json \<Rightarrow> string list \<Rightarrow> bool res" where
  "set_is v ks = mapR (\<lambda>xs. set xs = JStr ` set ks) (elems_of v)"

definition set_covers :: "json \<Rightarrow> string list \<Rightarrow> bool res" where
  "set_covers v ks = mapR (\<lambda>xs. JStr ` set ks \<subseteq> set xs) (elems_of v)"

definition set_within :: "json \<Rightarrow> string list \<Rightarrow> bool res" where
  "set_within v ks = mapR (\<lambda>xs. set xs \<subseteq> JStr ` set ks) (elems_of v)"

text \<open>Membership in a tuple of string constants never raises; in a set or a dict it hashes.\<close>

definition in_tuple :: "json \<Rightarrow> string list \<Rightarrow> bool" where
  "in_tuple v ks \<longleftrightarrow> (\<exists>k \<in> set ks. v = JStr k)"

definition in_set :: "json \<Rightarrow> string list \<Rightarrow> bool res" where
  "in_set v ks = (if hashable v then Inr (in_tuple v ks) else Inl TypeError)"

text \<open>A compiled pattern's \<open>fullmatch\<close> on a value that need not be a string.\<close>

definition re_match :: "(string \<Rightarrow> bool) \<Rightarrow> json \<Rightarrow> bool res" where
  "re_match p v = (case v of JStr s \<Rightarrow> Inr (p s) | _ \<Rightarrow> Inl TypeError)"

text \<open>\<open>v < w\<close> on numbers and on strings.\<close>

fun float_less :: "pyfloat \<Rightarrow> pyfloat \<Rightarrow> bool" where
  "float_less (Fin a) (Fin b) \<longleftrightarrow> a < b"
| "float_less NaN _ \<longleftrightarrow> False"
| "float_less _ NaN \<longleftrightarrow> False"
| "float_less NegInf g \<longleftrightarrow> g \<noteq> NegInf"
| "float_less PosInf _ \<longleftrightarrow> False"
| "float_less (Fin _) PosInf \<longleftrightarrow> True"
| "float_less (Fin _) NegInf \<longleftrightarrow> False"

definition py_less :: "json \<Rightarrow> json \<Rightarrow> bool res" where
  "py_less v w = (case (num_of v, num_of w) of
     (Some f, Some g) \<Rightarrow> Inr (float_less f g)
   | _ \<Rightarrow> (case (v, w) of (JStr s, JStr t) \<Rightarrow> Inr (s < t) | _ \<Rightarrow> Inl TypeError))"

definition py_le :: "json \<Rightarrow> json \<Rightarrow> bool res" where
  "py_le v w = (case (num_of v, num_of w) of
     (Some f, Some g) \<Rightarrow> Inr (float_less f g \<or> f = g \<and> f \<noteq> NaN)
   | _ \<Rightarrow> (case (v, w) of (JStr s, JStr t) \<Rightarrow> Inr (s \<le> t) | _ \<Rightarrow> Inl TypeError))"

subsection \<open>What a successful access establishes\<close>

lemma getitem_eq_Inr [res_simps]:
  "getitem v k = Inr x \<longleftrightarrow> (\<exists>kvs. v = JObj kvs \<and> map_of kvs k = Some x)"
  by (cases v) (auto simp: getitem_def split: option.splits)

lemma getitem_JObj [simp]:
  "getitem (JObj kvs) k = (case map_of kvs k of None \<Rightarrow> Inl KeyError | Some x \<Rightarrow> Inr x)"
  by (simp add: getitem_def)

lemma get_or_JObj [simp]:
  "get_or (JObj kvs) k d = Inr (case map_of kvs k of None \<Rightarrow> d | Some x \<Rightarrow> x)"
  by (simp add: get_or_def)

lemma get_or_eq_Inr [res_simps]:
  "get_or v k d = Inr x \<longleftrightarrow>
     (\<exists>kvs. v = JObj kvs \<and> x = (case map_of kvs k of None \<Rightarrow> d | Some y \<Rightarrow> y))"
  by (cases v) (auto simp: get_or_def)

lemma values_of_JObj [simp]: "values_of (JObj kvs) = Inr (map snd kvs)"
  by (simp add: values_of_def)

lemma values_of_eq_Inr [res_simps]:
  "values_of v = Inr xs \<longleftrightarrow> (\<exists>kvs. v = JObj kvs \<and> xs = map snd kvs)"
  by (cases v) (auto simp: values_of_def)

lemma items_of_eq_Inr [res_simps]: "items_of v = Inr kvs \<longleftrightarrow> v = JObj kvs"
  by (cases v) (auto simp: items_of_def)

lemma items_of_JObj [simp]: "items_of (JObj kvs) = Inr kvs"
  by (simp add: items_of_def)

lemma iter_of_JArr [simp]: "iter_of (JArr xs) = Inr xs"
  by (simp add: iter_of_def)

lemma len_of_JArr [simp]: "len_of (JArr xs) = Inr (int (length xs))"
  by (simp add: len_of_def)

lemma hashable_map_JStr [simp]: "list_all hashable (map (JStr \<circ> fst) kvs)"
  by (induction kvs) simp_all

lemma elems_of_JObj [simp]: "elems_of (JObj kvs) = Inr (map (JStr \<circ> fst) kvs)"
  by (simp add: elems_of_def iter_of_def)

lemma JStr_image_eq [simp]: "JStr ` A = JStr ` B \<longleftrightarrow> A = B"
  by (simp add: inj_def inj_image_eq_iff)

lemma JStr_image_subset [simp]: "JStr ` A \<subseteq> JStr ` B \<longleftrightarrow> A \<subseteq> B"
  by (simp add: inj_def inj_image_subset_iff)

lemma JStr_keys: "(\<lambda>x. JStr (fst x)) ` A = JStr ` fst ` A"
  by (simp add: image_image)

lemma set_is_JObj [simp]: "set_is (JObj kvs) ks = Inr (fst ` set kvs = set ks)"
  by (simp add: set_is_def JStr_keys)

lemma set_covers_JObj [simp]: "set_covers (JObj kvs) ks = Inr (set ks \<subseteq> fst ` set kvs)"
  by (simp add: set_covers_def JStr_keys)

lemma set_within_JObj [simp]: "set_within (JObj kvs) ks = Inr (fst ` set kvs \<subseteq> set ks)"
  by (simp add: set_within_def JStr_keys)

lemma re_match_eq_Inr [res_simps]: "re_match p v = Inr b \<longleftrightarrow> (\<exists>s. v = JStr s \<and> b = p s)"
  by (cases v) (auto simp: re_match_def)

lemma re_match_JStr [simp]: "re_match p (JStr s) = Inr (p s)"
  by (simp add: re_match_def)

lemma in_set_eq_Inr [res_simps]:
  "in_set v ks = Inr b \<longleftrightarrow> hashable v \<and> b = in_tuple v ks"
  by (auto simp: in_set_def)

lemma in_tuple_JStr [simp]: "in_tuple (JStr s) ks \<longleftrightarrow> s \<in> set ks"
  by (auto simp: in_tuple_def)

lemma map_of_fst_Some: "k \<in> fst ` set kvs \<Longrightarrow> \<exists>v. map_of kvs k = Some v"
  by (meson image_iff map_of_eq_None_iff not_None_eq)

subsection \<open>Which exceptions the accesses raise\<close>

lemma raises_getitem [raises_intros]:
  "caught cs KeyError \<Longrightarrow> caught cs TypeError \<Longrightarrow> raises cs (getitem v k)"
  by (auto simp: raises_def getitem_def split: json.splits option.splits)

lemma raises_get_or [raises_intros]: "caught cs AttributeError \<Longrightarrow> raises cs (get_or v k d)"
  by (auto simp: raises_def get_or_def split: json.splits)

lemma raises_values_of [raises_intros]: "caught cs AttributeError \<Longrightarrow> raises cs (values_of v)"
  by (auto simp: raises_def values_of_def split: json.splits)

lemma raises_items_of [raises_intros]: "caught cs AttributeError \<Longrightarrow> raises cs (items_of v)"
  by (auto simp: raises_def items_of_def split: json.splits)

lemma raises_iter_of [raises_intros]: "caught cs TypeError \<Longrightarrow> raises cs (iter_of v)"
  by (auto simp: raises_def iter_of_def split: json.splits)

lemma raises_len_of [raises_intros]: "caught cs TypeError \<Longrightarrow> raises cs (len_of v)"
  by (simp add: len_of_def raises_intros)

lemma raises_elems_of [raises_intros]: "caught cs TypeError \<Longrightarrow> raises cs (elems_of v)"
  by (simp add: elems_of_def raises_intros raises_Inl)

lemma raises_set_is [raises_intros]: "caught cs TypeError \<Longrightarrow> raises cs (set_is v ks)"
  by (simp add: set_is_def raises_intros)

lemma raises_set_covers [raises_intros]: "caught cs TypeError \<Longrightarrow> raises cs (set_covers v ks)"
  by (simp add: set_covers_def raises_intros)

lemma raises_set_within [raises_intros]: "caught cs TypeError \<Longrightarrow> raises cs (set_within v ks)"
  by (simp add: set_within_def raises_intros)

lemma raises_contains [raises_intros]: "caught cs TypeError \<Longrightarrow> raises cs (contains v k)"
  by (auto simp: raises_def contains_def split: json.splits)

lemma raises_in_set [raises_intros]: "caught cs TypeError \<Longrightarrow> raises cs (in_set v ks)"
  by (auto simp: raises_def in_set_def)

lemma raises_re_match [raises_intros]: "caught cs TypeError \<Longrightarrow> raises cs (re_match p v)"
  by (auto simp: raises_def re_match_def split: json.splits)

lemma raises_item_at [raises_intros]:
  "caught cs KeyError \<Longrightarrow> caught cs TypeError \<Longrightarrow> caught cs IndexError \<Longrightarrow> raises cs (item_at v i)"
  by (auto simp: raises_def item_at_def split: json.splits option.splits)

lemma raises_py_less [raises_intros]: "caught cs TypeError \<Longrightarrow> raises cs (py_less v w)"
  by (auto simp: raises_def py_less_def split: option.splits json.splits)

lemma raises_py_le [raises_intros]: "caught cs TypeError \<Longrightarrow> raises cs (py_le v w)"
  by (auto simp: raises_def py_le_def split: option.splits json.splits)

section \<open>Idioms of the validators\<close>

text \<open>\<open>if c1 or c2 ...: raise ValueError\<close>, and a condition on \<open>v[k]\<close>.\<close>

abbreviation refuse_if :: "bool res list \<Rightarrow> 'a res \<Rightarrow> 'a res" where
  "refuse_if cs k \<equiv> raise_if (any_of cs) ValueError k"

abbreviation itm :: "json \<Rightarrow> string \<Rightarrow> (json \<Rightarrow> 'a res) \<Rightarrow> 'a res" where
  "itm v k f \<equiv> bindR (getitem v k) f"

abbreviation got :: "json \<Rightarrow> string \<Rightarrow> (json \<Rightarrow> 'a res) \<Rightarrow> 'a res" where
  "got v k f \<equiv> bindR (get_or v k JNull) f"

text \<open>\<open>v[k] != w\<close> and \<open>v.get(k) != w\<close> for a string constant.\<close>

definition differs :: "json \<Rightarrow> json \<Rightarrow> bool res" where
  "differs v w = Inr (\<not> py_eq v w)"

abbreviation item_not :: "json \<Rightarrow> string \<Rightarrow> string \<Rightarrow> bool res" where
  "item_not v k s \<equiv> itm v k (\<lambda>x. differs x (JStr s))"

abbreviation got_not :: "json \<Rightarrow> string \<Rightarrow> string \<Rightarrow> bool res" where
  "got_not v k s \<equiv> got v k (\<lambda>x. differs x (JStr s))"

lemma differs_False [res_simps]: "differs v w = Inr False \<longleftrightarrow> py_eq v w"
  by (simp add: differs_def)

lemma raises_differs [raises_intros]: "raises cs (differs v w)"
  by (simp add: differs_def)

lemma reraised_False [simp]: "Inr False \<noteq> (Inl e :: bool res)"
  by simp

lemma Inr_not_False [res_simps]: "Inr (\<not> b) = (Inr False :: bool res) \<longleftrightarrow> b"
  by simp

text \<open>\<open>sorted(xs)\<close>: strings or numbers; values of other kinds, when more than one, are taken to raise
  \<open>TypeError\<close> (Python would order lists of lists; every caller refuses them right after).\<close>

definition num_le :: "json \<Rightarrow> json \<Rightarrow> bool" where
  "num_le v w \<longleftrightarrow> (case (num_of v, num_of w) of
     (Some f, Some g) \<Rightarrow> float_less f g \<or> f = g | _ \<Rightarrow> False)"

fun insert_num :: "json \<Rightarrow> json list \<Rightarrow> json list" where
  "insert_num v [] = [v]"
| "insert_num v (w # ws) = (if num_le v w then v # w # ws else w # insert_num v ws)"

fun strings_of :: "json list \<Rightarrow> string list option" where
  "strings_of [] = Some []"
| "strings_of (v # vs) = (case v of JStr s \<Rightarrow> map_option (Cons s) (strings_of vs) | _ \<Rightarrow> None)"

definition py_sorted :: "json list \<Rightarrow> json list res" where
  "py_sorted vs = (case strings_of vs of
     Some ss \<Rightarrow> Inr (map JStr (sort ss))
   | None \<Rightarrow> if length vs \<le> 1 then Inr vs
       else if list_all (\<lambda>v. num_of v \<noteq> None) vs then Inr (foldr insert_num vs [])
       else Inl TypeError)"

text \<open>\<open>set(xs)\<close> as a list without repetitions; \<open>1 == True\<close> collapse.\<close>

fun dedup :: "json list \<Rightarrow> json list" where
  "dedup [] = []"
| "dedup (v # vs) = v # filter (\<lambda>w. \<not> py_eq v w) (dedup vs)"

definition py_set :: "json list \<Rightarrow> json list res" where
  "py_set vs = (if list_all hashable vs then Inr (dedup vs) else Inl TypeError)"

lemma strings_of_map [simp]: "strings_of (map JStr ss) = Some ss"
  by (induction ss) simp_all

lemma strings_of_Some [res_simps]: "strings_of vs = Some ss \<longleftrightarrow> vs = map JStr ss"
  by (induction vs arbitrary: ss) (auto split: json.splits)

lemma py_sorted_strings [simp]: "py_sorted (map JStr ss) = Inr (map JStr (sort ss))"
  by (simp add: py_sorted_def)

lemma hashable_strings [simp]: "list_all hashable (map JStr ss)"
  by (simp add: list_all_iff)

lemma dedup_strings: "\<exists>ts. dedup (map JStr ss) = map JStr ts \<and> distinct ts \<and> set ts = set ss"
proof (induction ss)
  case Nil
  then show ?case by simp
next
  case (Cons s ss)
  then obtain ts where ts: "dedup (map JStr ss) = map JStr ts" "distinct ts" "set ts = set ss"
    by blast
  have "filter (\<lambda>w. \<not> py_eq (JStr s) w) (map JStr ts) = map JStr (filter (\<lambda>t. t \<noteq> s) ts)"
    by (auto simp: filter_map comp_def)
  with ts show ?case
    by (intro exI [of _ "s # filter (\<lambda>t. t \<noteq> s) ts"]) auto
qed

lemma raises_py_sorted [raises_intros]: "caught cs TypeError \<Longrightarrow> raises cs (py_sorted vs)"
  by (auto simp: raises_def py_sorted_def split: option.splits if_splits)

lemma raises_py_set [raises_intros]: "caught cs TypeError \<Longrightarrow> raises cs (py_set vs)"
  by (auto simp: raises_def py_set_def)

lemma py_eq_list_strings [simp]: "py_eq_list (map JStr ss) (map JStr ts) \<longleftrightarrow> ss = ts"
proof (induction ss arbitrary: ts)
  case Nil
  then show ?case by (cases ts) simp_all
next
  case (Cons s ss)
  then show ?case by (cases ts) auto
qed

section \<open>Shared constants and patterns of the code\<close>

text \<open>\<open>node.DBS\<close> and \<open>recovery._DBS\<close>.\<close>

definition DBS :: "string list" where
  "DBS = [''main'', ''session'', ''aux'']"

text \<open>\<open>[0-9a-f]{n}\<close>.\<close>

definition hex_n :: "nat \<Rightarrow> string \<Rightarrow> bool" where
  "hex_n n s \<longleftrightarrow> length s = n \<and> list_all is_hexlow s"

abbreviation "hex64 \<equiv> hex_n 64"
abbreviation "hex32 \<equiv> hex_n 32"

definition epoch_char :: "char \<Rightarrow> bool" where
  "epoch_char c \<longleftrightarrow> is_lower c \<or> is_digit c \<or> c = CHR ''-''"

text \<open>\<open>d1-[a-z0-9-]+\<close> and the bounded \<open>d1-[a-z0-9-]{1,125}\<close>.\<close>

definition epoch_plus :: "string \<Rightarrow> bool" where
  "epoch_plus = prefixed ''d1-'' (\<lambda>r. r \<noteq> [] \<and> list_all epoch_char r)"

definition epoch_125 :: "string \<Rightarrow> bool" where
  "epoch_125 = prefixed ''d1-'' (\<lambda>r. r \<noteq> [] \<and> length r \<le> 125 \<and> list_all epoch_char r)"

text \<open>\<open>d3-[A-Za-z0-9-]{1,125}\<close> and \<open>(?:main|aux)_ops/d3-[A-Za-z0-9-]{1,125}\<close>.\<close>

definition d3_key :: "string \<Rightarrow> bool" where
  "d3_key = prefixed ''d3-'' (\<lambda>r. r \<noteq> [] \<and> length r \<le> 125 \<and>
     list_all (\<lambda>c. is_alnum c \<or> c = CHR ''-'') r)"

definition fault_op :: "string \<Rightarrow> bool" where
  "fault_op s \<longleftrightarrow> prefixed ''main_ops/'' d3_key s \<or> prefixed ''aux_ops/'' d3_key s"

lemma is_hexlow_epoch_char: "is_hexlow c \<Longrightarrow> epoch_char c"
  by (auto simp: is_hexlow_def epoch_char_def is_lower_def intro: order_trans [of _ "CHR ''f''"])

lemma hex_epoch_125: "hex_n n s \<Longrightarrow> 0 < n \<Longrightarrow> n \<le> 125 \<Longrightarrow> epoch_125 (''d1-'' @ s)"
  by (auto simp: epoch_125_def hex_n_def list_all_iff is_hexlow_epoch_char prefixed_def)

lemma epoch_125_plus: "epoch_125 s \<Longrightarrow> epoch_plus s"
  by (auto simp: epoch_125_def epoch_plus_def prefixed_iff)

text \<open>\<open>not 0 < v < 2**64\<close> on an integer value.\<close>

definition u64_pos :: "json \<Rightarrow> bool" where
  "u64_pos v \<longleftrightarrow> int_and v (\<lambda>n. 0 < n \<and> n < 2 ^ 64)"

end
