(* ===== verification/Json_Text.thy ===== *)
theory Json_Text
  imports Py_Values
begin

text \<open>
  What the code uses of Python's \<open>json\<close> module: \<open>loads\<close> with an \<open>object_pairs_hook\<close>, and \<open>dumps\<close>
  with ASCII escapes, either with compact separators or with the default ones, with or without
  sorted keys. The locale \<open>object_hook\<close> is the interface between the two: any hook that keeps a
  list of distinct keys as it is lets \<open>loads\<close> read back what \<open>dumps\<close> wrote. It is interpreted for
  the plain \<open>dict\<close> and for the hooks of the code that refuse duplicate keys.

  Not modelled: the interpreter's recursion limit, the digit limit of \<open>int(str)\<close>, the UTF-16 and
  UTF-32 detection of \<open>loads\<close> on bytes, code points above 255 (refused here), and the sign of zero.
\<close>

section \<open>Whitespace and numbers\<close>

definition is_ws :: "char \<Rightarrow> bool" where
  "is_ws c \<longleftrightarrow> c = CHR '' '' \<or> c = CHR 0x09 \<or> c = CHR 0x0A \<or> c = CHR 0x0D"

definition skip_ws :: "string \<Rightarrow> string" where
  "skip_ws = dropWhile is_ws"

definition digit_char :: "nat \<Rightarrow> char" where
  "digit_char d = char_of (48 + d)"

definition digit_val :: "char \<Rightarrow> nat" where
  "digit_val c = of_char c - 48"

fun show_nat :: "nat \<Rightarrow> string" where
  "show_nat n = (if n < 10 then [digit_char n] else show_nat (n div 10) @ [digit_char (n mod 10)])"

declare show_nat.simps [simp del]

definition read_nat :: "string \<Rightarrow> nat" where
  "read_nat = foldl (\<lambda>a c. 10 * a + digit_val c) 0"

definition show_int :: "int \<Rightarrow> string" where
  "show_int n = (if n < 0 then CHR ''-'' # show_nat (nat (- n)) else show_nat (nat n))"

lemma digit_char_0: "digit_char 0 = CHR ''0''"
  by (simp add: digit_char_def char_of_eq_iff)

lemma less_10_cases:
  assumes "d < (10 :: nat)" and "list_all P [0, 1, 2, 3, 4, 5, 6, 7, 8, 9]"
  shows "P d"
proof -
  have "d \<in> set [0, 1, 2, 3, 4, 5, 6, 7, 8, 9]" using assms(1) by (simp, presburger)
  with assms(2) show ?thesis by (metis list.pred_set)
qed

lemma digit_char_props [simp]:
  "n < 10 \<Longrightarrow> is_digit (digit_char n)"
  "n < 10 \<Longrightarrow> digit_val (digit_char n) = n"
  by (erule less_10_cases; simp add: is_digit_def digit_char_def digit_val_def less_eq_char_def)+

lemma is_digit_of_char: "is_digit c \<longleftrightarrow> 48 \<le> (of_char c :: nat) \<and> (of_char c :: nat) \<le> 57"
  by (simp add: is_digit_def less_eq_char_def)

lemma digit_char_digit_val: "is_digit c \<Longrightarrow> digit_char (digit_val c) = c"
  by (simp add: digit_char_def digit_val_def is_digit_of_char)

lemma show_nat_digits: "\<forall>c \<in> set (show_nat n). is_digit c"
proof (induction n rule: show_nat.induct)
  case (1 n)
  then show ?case by (subst show_nat.simps) (auto simp: ball_Un)
qed

lemma show_nat_nonempty [simp]: "show_nat n \<noteq> []"
  by (subst show_nat.simps) simp

lemma read_nat_snoc: "read_nat (s @ [c]) = 10 * read_nat s + digit_val c"
  by (simp add: read_nat_def)

lemma read_show_nat [simp]: "read_nat (show_nat n) = n"
proof (induction n rule: show_nat.induct)
  case (1 n)
  show ?case
  proof (cases "n < 10")
    case True
    then show ?thesis by (subst show_nat.simps) (simp add: read_nat_def)
  next
    case False
    with 1 show ?thesis by (subst show_nat.simps) (simp add: read_nat_snoc)
  qed
qed

lemma digit_char_inj: "m < 10 \<Longrightarrow> n < 10 \<Longrightarrow> digit_char m = digit_char n \<longleftrightarrow> m = n"
  by (metis digit_char_props(2))

lemma show_nat_head: "0 < n \<Longrightarrow> hd (show_nat n) \<noteq> CHR ''0''"
proof (induction n rule: show_nat.induct)
  case (1 n)
  show ?case
  proof (cases "n < 10")
    case True
    with 1 have "digit_char n \<noteq> CHR ''0''"
      using digit_char_inj [of n 0] digit_char_0 by simp
    with True show ?thesis by (subst show_nat.simps) simp
  next
    case False
    with 1 have "hd (show_nat (n div 10)) \<noteq> CHR ''0''" by simp
    with False show ?thesis by (subst show_nat.simps) (simp add: hd_append)
  qed
qed

lemma show_nat_0 [simp]: "show_nat 0 = ''0''"
  by (subst show_nat.simps) (simp add: digit_char_0)

subsection \<open>Binary floating point\<close>

text \<open>Rounding an exact value to the nearest double, ties to even, and Python's shortest
  \<open>repr\<close>; neither is needed for values without floats.\<close>

fun bit_length :: "nat \<Rightarrow> nat" where
  "bit_length n = (if n = 0 then 0 else Suc (bit_length (n div 2)))"

declare bit_length.simps [simp del]

definition rpow :: "rat \<Rightarrow> int \<Rightarrow> rat" where
  "rpow b k = (if 0 \<le> k then b ^ nat k else 1 / b ^ nat (- k))"

definition ilog2 :: "rat \<Rightarrow> int" where
  "ilog2 r = (let (a, b) = quotient_of r; k = int (bit_length (nat a)) - int (bit_length (nat b))
     in if rpow 2 k \<le> r then k else k - 1)"

definition round_even :: "rat \<Rightarrow> int" where
  "round_even x = (let f = floor x; d = x - of_int f
     in if d < 1 / 2 then f else if 1 / 2 < d then f + 1 else if even f then f else f + 1)"

definition round_double :: "rat \<Rightarrow> pyfloat" where
  "round_double r = (if r = 0 then Fin 0
     else let e = max (ilog2 \<bar>r\<bar> - 52) (- 1074);
              v = of_int (round_even (\<bar>r\<bar> / rpow 2 e)) * rpow 2 e
          in if 2 ^ 1024 \<le> v then (if r < 0 then NegInf else PosInf)
             else Fin (if r < 0 then - v else v))"

definition ilog10 :: "rat \<Rightarrow> int" where
  "ilog10 r = (let k = (ilog2 r * 30103) div 100000
     in if rpow 10 (k + 1) \<le> r then k + 1 else if r < rpow 10 k then k - 1 else k)"

definition decimal_n :: "rat \<Rightarrow> nat \<Rightarrow> int \<times> int" where
  "decimal_n r n = (let k = ilog10 r - int n + 1 in (round_even (r / rpow 10 k), k))"

definition shortest_decimal :: "rat \<Rightarrow> int \<times> int" where
  "shortest_decimal r =
     (case find (\<lambda>(m, k). round_double (of_int m * rpow 10 k) = Fin r)
             (map (decimal_n r) [1..<18]) of
        Some d \<Rightarrow> d | None \<Rightarrow> decimal_n r 17)"

definition strip_zeros :: "string \<Rightarrow> string" where
  "strip_zeros s = rev (dropWhile (\<lambda>c. c = CHR ''0'') (rev s))"

definition show_exp :: "int \<Rightarrow> string" where
  "show_exp e = (if e < 0 then ''-'' else ''+'') @
     (let s = show_nat (nat \<bar>e\<bar>) in if length s < 2 then CHR ''0'' # s else s)"

definition show_pos_float :: "rat \<Rightarrow> string" where
  "show_pos_float r =
     (let (m, k) = shortest_decimal r; all = show_nat (nat m); ds = strip_zeros all;
          point = int (length all) + k; n = length ds
      in if - 4 < point \<and> point \<le> 16 then
           (if point \<le> 0 then ''0.'' @ replicate (nat (- point)) (CHR ''0'') @ ds
            else if int n \<le> point then ds @ replicate (nat point - n) (CHR ''0'') @ ''.0''
            else take (nat point) ds @ ''.'' @ drop (nat point) ds)
         else take 1 ds @ (if n = 1 then [] else CHR ''.'' # drop 1 ds) @ ''e'' @ show_exp (point - 1))"

fun show_float :: "pyfloat \<Rightarrow> string" where
  "show_float (Fin r) = (if r = 0 then ''0.0''
     else if r < 0 then CHR ''-'' # show_pos_float (- r) else show_pos_float r)"
| "show_float PosInf = ''Infinity''"
| "show_float NegInf = ''-Infinity''"
| "show_float NaN = ''NaN''"

subsection \<open>Reading a number\<close>

text \<open>\<open>(-?(?:0|[1-9][0-9]*))(\.[0-9]+)?([eE][-+]?[0-9]+)?\<close>.\<close>

definition read_frac :: "string \<Rightarrow> string \<times> string" where
  "read_frac s = (case s of c # r \<Rightarrow>
       if c = CHR ''.'' \<and> takeWhile is_digit r \<noteq> []
       then (takeWhile is_digit r, dropWhile is_digit r) else ([], s)
     | [] \<Rightarrow> ([], s))"

definition read_exp :: "string \<Rightarrow> (int \<times> string) option" where
  "read_exp s = (case s of c # r \<Rightarrow>
       if c = CHR ''e'' \<or> c = CHR ''E'' then
         (let neg = (case r of d # _ \<Rightarrow> d = CHR ''-'' | [] \<Rightarrow> False);
              t = (case r of d # r' \<Rightarrow> if d = CHR ''-'' \<or> d = CHR ''+'' then r' else r | [] \<Rightarrow> []);
              ds = takeWhile is_digit t
          in if ds = [] then None
             else Some (if neg then - int (read_nat ds) else int (read_nat ds), dropWhile is_digit t))
       else None
     | [] \<Rightarrow> None)"

definition number_tail :: "bool \<Rightarrow> string \<Rightarrow> string \<Rightarrow> json \<times> string" where
  "number_tail neg ds r =
     (let (fs, r1) = read_frac r; sign = (if neg then - 1 else 1)
      in case read_exp r1 of
           None \<Rightarrow> if fs = [] then (JInt (sign * int (read_nat ds)), r1)
             else (JFloat (round_double (of_int sign * of_nat (read_nat (ds @ fs))
                     * rpow 10 (- int (length fs)))), r1)
         | Some (e, r2) \<Rightarrow> (JFloat (round_double (of_int sign * of_nat (read_nat (ds @ fs))
                     * rpow 10 (e - int (length fs)))), r2))"

definition read_number :: "string \<Rightarrow> (json \<times> string) res" where
  "read_number s =
     (let neg = (case s of c # _ \<Rightarrow> c = CHR ''-'' | [] \<Rightarrow> False);
          t = (if neg then tl s else s)
      in case t of [] \<Rightarrow> Inl JSONDecodeError
         | c # r \<Rightarrow> if c = CHR ''0'' then Inr (number_tail neg [c] r)
             else if is_digit c then Inr (number_tail neg (takeWhile is_digit t) (dropWhile is_digit t))
             else Inl JSONDecodeError)"

section \<open>Strings\<close>

definition hex_char :: "nat \<Rightarrow> char" where
  "hex_char d = (if d < 10 then char_of (48 + d) else char_of (87 + d))"

definition hex_val :: "char \<Rightarrow> nat option" where
  "hex_val c = (if is_digit c then Some (digit_val c)
     else if CHR ''a'' \<le> c \<and> c \<le> CHR ''f'' then Some (of_char c - 87)
     else if CHR ''A'' \<le> c \<and> c \<le> CHR ''F'' then Some (of_char c - 55) else None)"

definition escape_char :: "char \<Rightarrow> string" where
  "escape_char c =
     (if c = CHR 0x22 then [CHR 0x5C, CHR 0x22]
      else if c = CHR 0x5C then [CHR 0x5C, CHR 0x5C]
      else if c = CHR 0x0A then [CHR 0x5C, CHR ''n'']
      else if c = CHR 0x0D then [CHR 0x5C, CHR ''r'']
      else if c = CHR 0x09 then [CHR 0x5C, CHR ''t'']
      else if c = CHR 0x0C then [CHR 0x5C, CHR ''f'']
      else if c = CHR 0x08 then [CHR 0x5C, CHR ''b'']
      else if CHR '' '' \<le> c \<and> c \<le> CHR ''~'' then [c]
      else [CHR 0x5C, CHR ''u'', CHR ''0'', CHR ''0'',
            hex_char (of_char c div 16), hex_char (of_char c mod 16)])"

definition show_string :: "string \<Rightarrow> string" where
  "show_string s = CHR 0x22 # concat (map escape_char s) @ [CHR 0x22]"

definition simple_escape :: "char \<Rightarrow> char option" where
  "simple_escape e =
     (if e = CHR 0x22 then Some (CHR 0x22) else if e = CHR 0x5C then Some (CHR 0x5C)
      else if e = CHR ''/'' then Some (CHR ''/'') else if e = CHR ''b'' then Some (CHR 0x08)
      else if e = CHR ''f'' then Some (CHR 0x0C) else if e = CHR ''n'' then Some (CHR 0x0A)
      else if e = CHR ''r'' then Some (CHR 0x0D) else if e = CHR ''t'' then Some (CHR 0x09) else None)"

definition hex4 :: "string \<Rightarrow> nat option" where
  "hex4 s = (case map hex_val s of
     [Some a, Some b, Some c, Some d] \<Rightarrow> Some (4096 * a + 256 * b + 16 * c + d) | _ \<Rightarrow> None)"

text \<open>The characters up to the closing quote; the argument starts after the opening one.\<close>

function (sequential) read_chars :: "string \<Rightarrow> (string \<times> string) res" where
  "read_chars [] = Inl JSONDecodeError"
| "read_chars (c # s) =
     (if c = CHR 0x22 then Inr ([], s)
      else if c = CHR 0x5C then
        (case s of [] \<Rightarrow> Inl JSONDecodeError
         | e # r \<Rightarrow>
           if e = CHR ''u'' then
             (case hex4 (take 4 r) of None \<Rightarrow> Inl JSONDecodeError
              | Some n \<Rightarrow> if 255 < n then Inl UnicodeError
                  else mapR (\<lambda>(t, r'). (char_of n # t, r')) (read_chars (drop 4 r)))
           else (case simple_escape e of None \<Rightarrow> Inl JSONDecodeError
                 | Some d \<Rightarrow> mapR (\<lambda>(t, r'). (d # t, r')) (read_chars r)))
      else if c < CHR '' '' then Inl JSONDecodeError
      else mapR (\<lambda>(t, r'). (c # t, r')) (read_chars s))"
  by pat_completeness auto
termination
  by (relation "measure length") auto

declare read_chars.simps(2) [simp del]

lemma of_char_less_256 [simp]: "(of_char c :: nat) < 256"
  by (metis of_char_mod_256 pos_mod_bound mod_less_divisor zero_less_numeral)

lemma hex_val_hex_char [simp]: "d < 16 \<Longrightarrow> hex_val (hex_char d) = Some d"
proof -
  assume "d < 16"
  then have "d < 10 \<or> d = 10 \<or> d = 11 \<or> d = 12 \<or> d = 13 \<or> d = 14 \<or> d = 15" by arith
  then show ?thesis
  proof (elim disjE)
    assume "d < 10"
    then show ?thesis
      using digit_char_props(1,2) [of d] by (simp add: hex_val_def hex_char_def digit_char_def)
  qed (simp_all add: hex_val_def hex_char_def is_digit_def less_eq_char_def)
qed

lemma hex_val_0 [simp]: "hex_val (CHR ''0'') = Some 0"
  by (simp add: hex_val_def is_digit_def digit_val_def)

lemma read_escape_char: "read_chars (escape_char c @ s) = mapR (\<lambda>(t, r). (c # t, r)) (read_chars s)"
proof -
  have h4: "hex4 [CHR ''0'', CHR ''0'', hex_char (of_char c div 16), hex_char (of_char c mod 16)]
      = Some (of_char c)"
  proof -
    have "(of_char c :: nat) div 16 < 16" using of_char_less_256 [of c] by arith
    then show ?thesis by (simp add: hex4_def)
  qed
  have "\<not> 255 < (of_char c :: nat)" using of_char_less_256 [of c] by linarith
  then show ?thesis
    using h4 by (auto simp: escape_char_def read_chars.simps(2) simple_escape_def less_le_not_le)
qed

lemma read_chars_show: "read_chars (concat (map escape_char t) @ CHR 0x22 # s) = Inr (t, s)"
  by (induction t) (simp_all add: read_escape_char read_chars.simps(2))

section \<open>Values\<close>

type_synonym pairs_hook = "(string \<times> json) list \<Rightarrow> json res"

fun p_val :: "pairs_hook \<Rightarrow> nat \<Rightarrow> string \<Rightarrow> (json \<times> string) res"
  and p_elems :: "pairs_hook \<Rightarrow> nat \<Rightarrow> string \<Rightarrow> (json list \<times> string) res"
  and p_members :: "pairs_hook \<Rightarrow> nat \<Rightarrow> string \<Rightarrow> ((string \<times> json) list \<times> string) res" where
  "p_val h 0 s = Inl RecursionError"
| "p_val h (Suc n) s = (case s of [] \<Rightarrow> Inl JSONDecodeError
     | c # r \<Rightarrow>
       if c = CHR 0x22 then mapR (\<lambda>(t, r'). (JStr t, r')) (read_chars r)
       else if c = CHR ''{'' then
         (case skip_ws r of [] \<Rightarrow> Inl JSONDecodeError
          | d # r1 \<Rightarrow>
            if d = CHR ''}'' then mapR (\<lambda>v. (v, r1)) (h [])
            else if d = CHR 0x22 then
              bindR (p_members h n r1) (\<lambda>(kvs, r2). mapR (\<lambda>v. (v, r2)) (h kvs))
            else Inl JSONDecodeError)
       else if c = CHR ''['' then
         (case skip_ws r of [] \<Rightarrow> Inl JSONDecodeError
          | d # r1 \<Rightarrow>
            if d = CHR '']'' then Inr (JArr [], r1)
            else mapR (\<lambda>(xs, r2). (JArr xs, r2)) (p_elems h n (d # r1)))
       else (case strip_prefix ''null'' s of Some r1 \<Rightarrow> Inr (JNull, r1) | None \<Rightarrow>
            (case strip_prefix ''true'' s of Some r1 \<Rightarrow> Inr (JBool True, r1) | None \<Rightarrow>
            (case strip_prefix ''false'' s of Some r1 \<Rightarrow> Inr (JBool False, r1) | None \<Rightarrow>
            (case strip_prefix ''NaN'' s of Some r1 \<Rightarrow> Inr (JFloat NaN, r1) | None \<Rightarrow>
            (case strip_prefix ''Infinity'' s of Some r1 \<Rightarrow> Inr (JFloat PosInf, r1) | None \<Rightarrow>
            (case strip_prefix ''-Infinity'' s of Some r1 \<Rightarrow> Inr (JFloat NegInf, r1) | None \<Rightarrow>
              read_number s)))))))"
| "p_elems h 0 s = Inl RecursionError"
| "p_elems h (Suc n) s = bindR (p_val h n s) (\<lambda>(v, r).
     (case skip_ws r of [] \<Rightarrow> Inl JSONDecodeError
      | d # r1 \<Rightarrow>
        if d = CHR '']'' then Inr ([v], r1)
        else if d = CHR '','' then mapR (\<lambda>(vs, r2). (v # vs, r2)) (p_elems h n (skip_ws r1))
        else Inl JSONDecodeError))"
| "p_members h 0 s = Inl RecursionError"
| "p_members h (Suc n) s = bindR (read_chars s) (\<lambda>(k, r).
     (case skip_ws r of [] \<Rightarrow> Inl JSONDecodeError
      | d # r1 \<Rightarrow> if d \<noteq> CHR '':'' then Inl JSONDecodeError
        else bindR (p_val h n (skip_ws r1)) (\<lambda>(v, r2).
          (case skip_ws r2 of [] \<Rightarrow> Inl JSONDecodeError
           | e # r3 \<Rightarrow>
             if e = CHR ''}'' then Inr ([(k, v)], r3)
             else if e = CHR '','' then
               (case skip_ws r3 of [] \<Rightarrow> Inl JSONDecodeError
                | q # r4 \<Rightarrow> if q = CHR 0x22
                    then mapR (\<lambda>(kvs, r5). ((k, v) # kvs, r5)) (p_members h n r4)
                    else Inl JSONDecodeError)
             else Inl JSONDecodeError))))"

text \<open>The fuel is the length of the text: every call consumes a character.\<close>

definition loads_with :: "pairs_hook \<Rightarrow> string \<Rightarrow> json res" where
  "loads_with h s = bindR (p_val h (Suc (length s)) (skip_ws s))
     (\<lambda>(v, r). if skip_ws r = [] then Inr v else Inl JSONDecodeError)"

text \<open>\<open>d[k] = v\<close>: an existing key keeps its place.\<close>

fun dict_set :: "(string \<times> json) list \<Rightarrow> string \<Rightarrow> json \<Rightarrow> (string \<times> json) list" where
  "dict_set [] k v = [(k, v)]"
| "dict_set ((k', v') # kvs) k v = (if k' = k then (k, v) # kvs else (k', v') # dict_set kvs k v)"

definition dict_of :: "(string \<times> json) list \<Rightarrow> (string \<times> json) list" where
  "dict_of kvs = foldl (\<lambda>d (k, v). dict_set d k v) [] kvs"

definition plain_hook :: pairs_hook where
  "plain_hook kvs = Inr (JObj (dict_of kvs))"

text \<open>The hook the code writes as a local function \<open>unique\<close>, \<open>_unique_pairs\<close> or
  \<open>_unique_object\<close>: a repeated key raises.\<close>

fun unique_from :: "(string \<times> json) list \<Rightarrow> (string \<times> json) list \<Rightarrow> json res" where
  "unique_from d [] = Inr (JObj d)"
| "unique_from d ((k, v) # kvs) =
     (if k \<in> fst ` set d then Inl ValueError else unique_from (dict_set d k v) kvs)"

definition unique_hook :: pairs_hook where
  "unique_hook kvs = unique_from [] kvs"

definition loads :: "string \<Rightarrow> json res" where
  "loads = loads_with plain_hook"

definition loads_unique :: "string \<Rightarrow> json res" where
  "loads_unique = loads_with unique_hook"

subsection \<open>Writing\<close>

text \<open>\<open>sp\<close> is the blank after \<open>,\<close> and \<open>:\<close>: empty for \<open>separators=(',', ':')\<close>, one space by
  default.\<close>

fun show_json :: "string \<Rightarrow> json \<Rightarrow> string"
  and show_elems :: "string \<Rightarrow> json list \<Rightarrow> string"
  and show_members :: "string \<Rightarrow> (string \<times> json) list \<Rightarrow> string" where
  "show_json sp JNull = ''null''"
| "show_json sp (JBool b) = (if b then ''true'' else ''false'')"
| "show_json sp (JInt n) = show_int n"
| "show_json sp (JFloat f) = show_float f"
| "show_json sp (JStr s) = show_string s"
| "show_json sp (JArr xs) = (if xs = [] then ''[]'' else CHR ''['' # show_elems sp xs)"
| "show_json sp (JObj kvs) = (if kvs = [] then ''{}'' else CHR ''{'' # show_members sp kvs)"
| "show_elems sp [] = []"
| "show_elems sp (x # xs) = show_json sp x @
     (if xs = [] then '']'' else '','' @ sp @ show_elems sp xs)"
| "show_members sp [] = []"
| "show_members sp ((k, v) # kvs) = show_string k @ '':'' @ sp @ show_json sp v @
     (if kvs = [] then ''}'' else '','' @ sp @ show_members sp kvs)"

fun sort_keys :: "json \<Rightarrow> json"
  and sort_keys_list :: "json list \<Rightarrow> json list"
  and sort_keys_items :: "(string \<times> json) list \<Rightarrow> (string \<times> json) list" where
  "sort_keys (JArr xs) = JArr (sort_keys_list xs)"
| "sort_keys (JObj kvs) = JObj (sort_key fst (sort_keys_items kvs))"
| "sort_keys v = v"
| "sort_keys_list [] = []"
| "sort_keys_list (x # xs) = sort_keys x # sort_keys_list xs"
| "sort_keys_items [] = []"
| "sort_keys_items ((k, v) # kvs) = (k, sort_keys v) # sort_keys_items kvs"

fun finite_floats :: "json \<Rightarrow> bool"
  and finite_floats_list :: "json list \<Rightarrow> bool"
  and finite_floats_items :: "(string \<times> json) list \<Rightarrow> bool" where
  "finite_floats (JFloat f) \<longleftrightarrow> (case f of Fin _ \<Rightarrow> True | _ \<Rightarrow> False)"
| "finite_floats (JArr xs) \<longleftrightarrow> finite_floats_list xs"
| "finite_floats (JObj kvs) \<longleftrightarrow> finite_floats_items kvs"
| "finite_floats _ \<longleftrightarrow> True"
| "finite_floats_list [] \<longleftrightarrow> True"
| "finite_floats_list (x # xs) \<longleftrightarrow> finite_floats x \<and> finite_floats_list xs"
| "finite_floats_items [] \<longleftrightarrow> True"
| "finite_floats_items ((k, v) # kvs) \<longleftrightarrow> finite_floats v \<and> finite_floats_items kvs"

text \<open>\<open>json.dumps(v, allow_nan=False)\<close> with the default and with the compact separators.\<close>

definition dumps :: "json \<Rightarrow> string res" where
  "dumps v = (if finite_floats v then Inr (show_json '' '' v) else Inl ValueError)"

definition dumps_compact :: "json \<Rightarrow> string res" where
  "dumps_compact v = (if finite_floats v then Inr (show_json [] v) else Inl ValueError)"

subsection \<open>Which exceptions the reader raises\<close>

lemma raises_mapR_iff [simp]: "raises cs (mapR f m) \<longleftrightarrow> raises cs m"
  by (cases m) (simp_all add: raises_def)

lemma read_chars_raises: "raises [ValueError] (read_chars s)"
proof (induction s rule: read_chars.induct)
  case 1
  then show ?case by (simp add: raises_def isa_def)
next
  case (2 c s)
  then show ?case
    by (auto simp: read_chars.simps(2) isa_def intro!: raises_Inl split: list.splits option.splits)
qed

lemma read_number_raises: "raises [ValueError] (read_number s)"
  by (auto simp: read_number_def Let_def isa_def intro!: raises_Inl split: list.splits)

lemma raises_more: "raises cs m \<Longrightarrow> raises (cs @ ds) m"
  by (auto simp: raises_def caught_def)

lemma p_val_raises:
  assumes h: "\<And>kvs. raises [ValueError, RecursionError] (h kvs)"
  shows "raises [ValueError, RecursionError] (p_val h n s)"
    and "raises [ValueError, RecursionError] (p_elems h n s)"
    and "raises [ValueError, RecursionError] (p_members h n s)"
proof -
  have V: "raises [ValueError, RecursionError] m" if "raises [ValueError] m" for m :: "'a res"
    using raises_more [OF that, of "[RecursionError]"] by simp
  have E: "raises [ValueError, RecursionError] (Inl JSONDecodeError :: 'a res)"
    by (simp add: raises_def isa_def)
  note R = V [OF read_chars_raises] V [OF read_number_raises] h E raises_intros
  have "raises [ValueError, RecursionError] (p_val h n s) \<and>
      raises [ValueError, RecursionError] (p_elems h n t) \<and>
      raises [ValueError, RecursionError] (p_members h n u)" for s t u
  proof (induction n arbitrary: s t u)
    case 0
    then show ?case by (simp add: raises_def)
  next
    case (Suc n)
    note S = Suc [THEN conjunct1] Suc [THEN conjunct2, THEN conjunct1]
      Suc [THEN conjunct2, THEN conjunct2]
    show ?case
      unfolding p_val.simps p_elems.simps p_members.simps by (intro conjI S R)
  qed
  then show "raises [ValueError, RecursionError] (p_val h n s)"
    and "raises [ValueError, RecursionError] (p_elems h n s)"
    and "raises [ValueError, RecursionError] (p_members h n s)" by blast+
qed

lemma loads_with_raises:
  "(\<And>kvs. raises [ValueError, RecursionError] (h kvs)) \<Longrightarrow>
     raises [ValueError, RecursionError] (loads_with h s)"
  unfolding loads_with_def by (intro raises_intros p_val_raises raises_Inl) (simp_all add: isa_def)

lemma loads_raises: "raises [ValueError, RecursionError] (loads s)"
  unfolding loads_def by (rule loads_with_raises) (simp add: plain_hook_def)

lemma loads_unique_raises: "raises [ValueError, RecursionError] (loads_unique s)"
proof -
  have "raises [ValueError, RecursionError] (unique_from d kvs)" for d kvs
    by (induction d kvs rule: unique_from.induct) (auto intro: raises_Inl)
  then show ?thesis unfolding loads_unique_def
    by (intro loads_with_raises) (simp add: unique_hook_def)
qed

section \<open>Reading back what was written\<close>

text \<open>Values without floats whose dictionaries have distinct keys.\<close>

fun codable :: "json \<Rightarrow> bool"
  and codable_list :: "json list \<Rightarrow> bool"
  and codable_items :: "(string \<times> json) list \<Rightarrow> bool" where
  "codable (JFloat f) \<longleftrightarrow> False"
| "codable (JArr xs) \<longleftrightarrow> codable_list xs"
| "codable (JObj kvs) \<longleftrightarrow> distinct (map fst kvs) \<and> codable_items kvs"
| "codable _ \<longleftrightarrow> True"
| "codable_list [] \<longleftrightarrow> True"
| "codable_list (x # xs) \<longleftrightarrow> codable x \<and> codable_list xs"
| "codable_items [] \<longleftrightarrow> True"
| "codable_items ((k, v) # kvs) \<longleftrightarrow> codable v \<and> codable_items kvs"

lemma codable_list_iff: "codable_list xs \<longleftrightarrow> (\<forall>x \<in> set xs. codable x)"
  by (induction xs) auto

lemma codable_items_iff: "codable_items kvs \<longleftrightarrow> (\<forall>(k, v) \<in> set kvs. codable v)"
  by (induction kvs) auto

lemma codable_all:
  "codable v \<Longrightarrow> proper v \<and> finite_floats v"
  "codable_list xs \<Longrightarrow> proper_list xs \<and> finite_floats_list xs"
  "codable_items kvs \<Longrightarrow> proper_items kvs \<and> finite_floats_items kvs"
  by (induction v and xs and kvs rule: codable_codable_list_codable_items.induct) auto

lemma codable_proper: "codable v \<Longrightarrow> proper v"
  using codable_all(1) by blast

lemma codable_finite: "codable v \<Longrightarrow> finite_floats v"
  using codable_all(1) by blast

text \<open>What may follow a number without being read as part of it.\<close>

definition num_end :: "string \<Rightarrow> bool" where
  "num_end r \<longleftrightarrow> (case r of [] \<Rightarrow> True
     | c # _ \<Rightarrow> \<not> is_digit c \<and> c \<noteq> CHR ''.'' \<and> c \<noteq> CHR ''e'' \<and> c \<noteq> CHR ''E'')"

lemma skip_ws_nonws [simp]: "\<not> is_ws c \<Longrightarrow> skip_ws (c # s) = c # s"
  by (simp add: skip_ws_def)

lemma skip_ws_append: "\<forall>c \<in> set sp. is_ws c \<Longrightarrow> skip_ws (sp @ s) = skip_ws s"
  by (simp add: skip_ws_def dropWhile_append2)

lemma not_ws_simps [simp]:
  "\<not> is_ws (CHR '']'')" "\<not> is_ws (CHR ''}'')" "\<not> is_ws (CHR '','')" "\<not> is_ws (CHR '':'')"
  "\<not> is_ws (CHR ''['')" "\<not> is_ws (CHR ''{'')" "\<not> is_ws (CHR 0x22)" "\<not> is_ws (CHR ''-'')"
  "\<not> is_ws (CHR ''n'')" "\<not> is_ws (CHR ''t'')" "\<not> is_ws (CHR ''f'')"
  by (simp_all add: is_ws_def)

lemma is_digit_not:
  assumes "is_digit c"
  shows "\<not> is_ws c" "c \<noteq> CHR 0x22" "c \<noteq> CHR ''{''" "c \<noteq> CHR ''[''" "c \<noteq> CHR ''n''" "c \<noteq> CHR ''t''"
    "c \<noteq> CHR ''f''" "c \<noteq> CHR ''N''" "c \<noteq> CHR ''I''" "c \<noteq> CHR ''-''" "c \<noteq> CHR ''.''"
    "c \<noteq> CHR ''e''" "c \<noteq> CHR ''E''"
  using assms by (auto simp: is_ws_def is_digit_def less_eq_char_def)

lemma number_tail_int: "num_end r \<Longrightarrow>
    number_tail neg ds r = (JInt ((if neg then - 1 else 1) * int (read_nat ds)), r)"
  by (auto simp: number_tail_def read_frac_def read_exp_def num_end_def split: list.splits)

lemma num_end_split:
  assumes "num_end r"
  shows "takeWhile is_digit (show_nat n @ r) = show_nat n"
    and "dropWhile is_digit (show_nat n @ r) = r"
  using assms show_nat_digits [of n]
  by (cases r; simp add: num_end_def takeWhile_append dropWhile_append)+

lemma read_number_nat:
  assumes "num_end r"
  shows "read_number (show_nat n @ r) = Inr (JInt (int n), r)"
    and "0 < n \<Longrightarrow> read_number (CHR ''-'' # show_nat n @ r) = Inr (JInt (- int n), r)"
proof -
  obtain c t where ct: "show_nat n = c # t" by (meson list.exhaust show_nat_nonempty)
  then have c: "is_digit c" using show_nat_digits [of n] by simp
  have ends: "takeWhile is_digit (c # t @ r) = c # t" "dropWhile is_digit (c # t @ r) = r"
    using num_end_split [OF assms, of n] ct by simp_all
  have zero: "c = CHR ''0'' \<Longrightarrow> n = 0"
    using show_nat_head [of n] ct by (cases "n = 0") simp_all
  have tail: "number_tail neg (c # t) r = (JInt ((if neg then - 1 else 1) * int n), r)" for neg
    using number_tail_int [OF assms] read_show_nat [of n] ct by simp
  have "c = CHR ''0'' \<Longrightarrow> t = []"
    using zero ct by simp
  then show "read_number (show_nat n @ r) = Inr (JInt (int n), r)"
    using c ends tail [of False] is_digit_not(10) [OF c]
    by (auto simp: read_number_def ct Let_def)
  show "read_number (CHR ''-'' # show_nat n @ r) = Inr (JInt (- int n), r)" if "0 < n"
    using c ends tail [of True] zero that by (auto simp: read_number_def ct Let_def)
qed

lemma p_val_number:
  assumes "num_end r"
  shows "p_val h (Suc n) (show_int k @ r) = Inr (JInt k, r)"
proof (cases "k < 0")
  case True
  define m where "m = nat (- k)"
  have m: "0 < m" "k = - int m" using True by (simp_all add: m_def)
  obtain c t where ct: "show_nat m = c # t" by (meson list.exhaust show_nat_nonempty)
  then have c: "is_digit c" using show_nat_digits [of m] by simp
  have "show_int k @ r = CHR ''-'' # c # t @ r"
    using True by (simp add: show_int_def m_def [symmetric] ct)
  then show ?thesis
    using read_number_nat(2) [OF assms m(1)] m(2) is_digit_not [OF c] by (simp add: ct)
next
  case False
  define m where "m = nat k"
  have m: "k = int m" using False by (simp add: m_def)
  obtain c t where ct: "show_nat m = c # t" by (meson list.exhaust show_nat_nonempty)
  then have c: "is_digit c" using show_nat_digits [of m] by simp
  have "show_int k @ r = c # t @ r"
    using False by (simp add: show_int_def m_def [symmetric] ct)
  then show ?thesis
    using read_number_nat(1) [OF assms, of m] m is_digit_not [OF c] by (simp add: ct)
qed

lemma show_int_head: "\<exists>c t. show_int n = c # t \<and> \<not> is_ws c"
proof -
  obtain c t where ct: "show_nat (nat n) = c # t" by (meson list.exhaust show_nat_nonempty)
  then have "\<not> is_ws c" using show_nat_digits [of "nat n"] is_digit_not(1) by simp
  with ct show ?thesis by (simp add: show_int_def)
qed

lemma show_json_head: "codable v \<Longrightarrow> \<exists>c t. show_json sp v = c # t \<and> \<not> is_ws c"
  by (cases v) (use show_int_head in \<open>force simp: show_string_def\<close>)+

lemma skip_ws_show_json: "codable v \<Longrightarrow> skip_ws (show_json sp v @ r) = show_json sp v @ r"
  using show_json_head [of v sp] by auto

lemma skip_ws_show_elems:
  "codable_list xs \<Longrightarrow> xs \<noteq> [] \<Longrightarrow> skip_ws (show_elems sp xs @ r) = show_elems sp xs @ r"
  by (cases xs) (simp_all add: skip_ws_show_json)

lemma show_elems_head:
  assumes "codable_list xs" "xs \<noteq> []"
  shows "\<exists>c t. show_elems sp xs = c # t \<and> \<not> is_ws c \<and> c \<noteq> CHR '']''"
proof -
  obtain x ys where xs: "xs = x # ys" using assms(2) by (cases xs) auto
  have "codable x" using assms xs by simp
  moreover have "\<exists>c t. show_int n = c # t \<and> c \<noteq> CHR '']''" for n
  proof -
    obtain c t where ct: "show_nat (nat n) = c # t" by (meson list.exhaust show_nat_nonempty)
    then have "is_digit c" using show_nat_digits [of "nat n"] by simp
    then have "c \<noteq> CHR '']''" by (auto simp: is_digit_def less_eq_char_def)
    with ct show ?thesis by (simp add: show_int_def)
  qed
  ultimately have "\<exists>c t. show_json sp x = c # t \<and> \<not> is_ws c \<and> c \<noteq> CHR '']''"
    using show_json_head [of x sp] by (cases x) (force simp: show_string_def)+
  with xs show ?thesis by auto
qed

lemma show_members_head: "kvs \<noteq> [] \<Longrightarrow> show_members sp kvs = CHR 0x22 # tl (show_members sp kvs)"
  by (cases kvs) (auto simp: show_string_def)

text \<open>The interface between the reader and the hook it is given: a list of pairs with distinct
  keys comes back as that very dictionary.\<close>

locale object_hook =
  fixes hook :: pairs_hook
  assumes hook_distinct: "distinct (map fst kvs) \<Longrightarrow> hook kvs = Inr (JObj kvs)"
begin

lemma read_show:
  "codable v \<Longrightarrow> \<forall>c \<in> set sp. is_ws c \<Longrightarrow> length (show_json sp v) \<le> n \<Longrightarrow> num_end r
     \<Longrightarrow> p_val hook n (show_json sp v @ r) = Inr (v, r)"
  "codable_list xs \<Longrightarrow> \<forall>c \<in> set sp. is_ws c \<Longrightarrow> xs \<noteq> [] \<Longrightarrow> length (show_elems sp xs) \<le> n
     \<Longrightarrow> p_elems hook n (show_elems sp xs @ r) = Inr (xs, r)"
  "codable_items kvs \<Longrightarrow> \<forall>c \<in> set sp. is_ws c \<Longrightarrow> kvs \<noteq> [] \<Longrightarrow> length (show_members sp kvs) \<le> Suc n
     \<Longrightarrow> p_members hook n (tl (show_members sp kvs) @ r) = Inr (kvs, r)"
proof (induction sp v and sp xs and sp kvs arbitrary: n r and n r and n r
    rule: show_json_show_elems_show_members.induct)
  case (1 sp)
  then show ?case by (cases n) simp_all
next
  case (2 sp b)
  then show ?case by (cases n) (auto split: if_splits)
next
  case (3 sp k)
  then obtain m where "n = Suc m"
    using show_int_head [of k] by (cases n) auto
  then show ?case using 3 p_val_number by simp
next
  case (4 sp f)
  then show ?case by simp
next
  case (5 sp s)
  then show ?case by (cases n) (simp_all add: show_string_def read_chars_show)
next
  case (6 sp xs)
  show ?case
  proof (cases "xs = []")
    case True
    with 6 show ?thesis by (cases n) simp_all
  next
    case False
    with 6 obtain m where n: "n = Suc m" by (cases n) auto
    have e: "p_elems hook m (show_elems sp xs @ r) = Inr (xs, r)"
      using 6 False n by simp
    obtain c t where ct: "show_elems sp xs = c # t" "\<not> is_ws c" "c \<noteq> CHR '']''"
      using show_elems_head [of xs sp] 6 False by auto
    show ?thesis using False n e ct by simp
  qed
next
  case (7 sp kvs)
  show ?case
  proof (cases "kvs = []")
    case True
    with 7 show ?thesis by (cases n) (simp_all add: hook_distinct)
  next
    case False
    with 7 obtain m where n: "n = Suc m" by (cases n) auto
    have e: "p_members hook m (tl (show_members sp kvs) @ r) = Inr (kvs, r)"
      using 7 False n by simp
    have "show_members sp kvs = CHR 0x22 # tl (show_members sp kvs)"
      using False by (rule show_members_head)
    then obtain t where t: "show_members sp kvs = CHR 0x22 # t" "tl (show_members sp kvs) = t"
      by simp
    show ?thesis using False n e t 7 by (simp add: hook_distinct)
  qed
next
  case (8 sp)
  then show ?case by simp
next
  case (9 sp x xs)
  then obtain m where n: "n = Suc m" using show_json_head [of x sp] by (cases n) auto
  have "num_end ((if xs = [] then '']'' else '','' @ sp @ show_elems sp xs) @ r)"
    by (simp add: num_end_def is_digit_def less_eq_char_def)
  then have x: "p_val hook m (show_json sp x @ (if xs = [] then '']'' else '','' @ sp @ show_elems sp xs) @ r)
      = Inr (x, (if xs = [] then '']'' else '','' @ sp @ show_elems sp xs) @ r)"
    using 9 n by (auto split: if_splits)
  show ?case
  proof (cases "xs = []")
    case True
    then show ?thesis using n x by simp
  next
    case False
    have "p_elems hook m (show_elems sp xs @ r) = Inr (xs, r)"
      using 9 n False by auto
    then show ?thesis
      using n x False 9 by (simp add: skip_ws_append skip_ws_show_elems)
  qed
next
  case (10 sp)
  then show ?case by simp
next
  case (11 sp k v kvs)
  let ?rest = "(if kvs = [] then ''}'' else '','' @ sp @ show_members sp kvs) @ r"
  have tl: "tl (show_members sp ((k, v) # kvs)) @ r
      = concat (map escape_char k) @ CHR 0x22 # CHR '':'' # sp @ show_json sp v @ ?rest"
    by (simp add: show_string_def)
  from 11 obtain m where n: "n = Suc m" by (cases n) (auto simp: show_string_def)
  have "num_end ?rest" by (simp add: num_end_def is_digit_def less_eq_char_def)
  then have v: "p_val hook m (show_json sp v @ ?rest) = Inr (v, ?rest)"
    using 11 n by (auto simp: show_string_def split: if_splits)
  have ws: "skip_ws (sp @ show_json sp v @ ?rest) = show_json sp v @ ?rest"
    using 11 by (simp add: skip_ws_append skip_ws_show_json)
  show ?case
  proof (cases "kvs = []")
    case True
    then show ?thesis using n v ws unfolding tl by (simp add: read_chars_show)
  next
    case False
    have m: "p_members hook m (tl (show_members sp kvs) @ r) = Inr (kvs, r)"
      using 11 n False by (auto simp: show_string_def)
    have h: "show_members sp kvs = CHR 0x22 # tl (show_members sp kvs)"
      using False by (rule show_members_head)
    have "skip_ws (sp @ show_members sp kvs @ r) = CHR 0x22 # tl (show_members sp kvs) @ r"
      using 11 by (subst h) (simp add: skip_ws_append)
    then show ?thesis using n v ws m False unfolding tl by (simp add: read_chars_show)
  qed
qed

lemma loads_show:
  assumes "codable v" and "\<forall>c \<in> set sp. is_ws c"
  shows "loads_with hook (show_json sp v) = Inr v"
proof -
  have "p_val hook (Suc (length (show_json sp v))) (show_json sp v @ []) = Inr (v, [])"
    by (rule read_show(1)) (use assms in \<open>simp_all add: num_end_def\<close>)
  then show ?thesis
    using skip_ws_show_json [OF assms(1), of sp "[]"] by (simp add: loads_with_def skip_ws_def)
qed

lemma loads_injective:
  assumes "codable v" and "codable w" and "show_json sp v = show_json sp w"
    and "\<forall>c \<in> set sp. is_ws c"
  shows "v = w"
proof -
  have "(Inr v :: json res) = Inr w"
    by (metis loads_show [OF assms(1,4)] loads_show [OF assms(2,4)] assms(3))
  then show ?thesis by simp
qed

end

lemma dict_set_new: "k \<notin> fst ` set d \<Longrightarrow> dict_set d k v = d @ [(k, v)]"
  by (induction d k v rule: dict_set.induct) auto

lemma unique_from_distinct:
  "distinct (map fst (d @ kvs)) \<Longrightarrow> unique_from d kvs = Inr (JObj (d @ kvs))"
proof (induction kvs arbitrary: d)
  case Nil
  then show ?case by simp
next
  case (Cons p kvs)
  obtain k v where p: "p = (k, v)" by force
  with Cons.prems have "k \<notin> fst ` set d" by auto
  with Cons p show ?case by (simp add: dict_set_new)
qed

lemma unique_from_Inr:
  "unique_from d kvs = Inr w \<Longrightarrow> distinct (map fst d) \<Longrightarrow>
     w = JObj (d @ kvs) \<and> distinct (map fst (d @ kvs))"
proof (induction kvs arbitrary: d)
  case Nil
  then show ?case by simp
next
  case (Cons p kvs)
  obtain k v where p: "p = (k, v)" by force
  with Cons.prems have "k \<notin> fst ` set d" by (auto split: if_splits)
  with Cons.prems p have "unique_from (d @ [(k, v)]) kvs = Inr w"
    and "distinct (map fst (d @ [(k, v)]))" by (simp_all add: dict_set_new)
  from Cons.IH [OF this] p show ?case by simp
qed

lemma unique_hook_Inr:
  "unique_hook kvs = Inr w \<longleftrightarrow> w = JObj kvs \<and> distinct (map fst kvs)"
  using unique_from_Inr [of "[]" kvs w] unique_from_distinct [of "[]" kvs]
  by (auto simp: unique_hook_def)

lemma foldl_dict_set_distinct:
  "distinct (map fst (d @ kvs)) \<Longrightarrow> foldl (\<lambda>d (k, v). dict_set d k v) d kvs = d @ kvs"
proof (induction kvs arbitrary: d)
  case Nil
  then show ?case by simp
next
  case (Cons p kvs)
  obtain k v where p: "p = (k, v)" by force
  with Cons.prems have "k \<notin> fst ` set d" by auto
  with Cons p show ?case by (simp add: dict_set_new)
qed

interpretation plain: object_hook plain_hook
  by unfold_locales (simp add: plain_hook_def dict_of_def foldl_dict_set_distinct)

interpretation unique: object_hook unique_hook
  by unfold_locales (simp add: unique_hook_Inr)

lemma loads_dumps: "codable v \<Longrightarrow> dumps v = Inr s \<Longrightarrow> loads s = Inr v"
  using plain.loads_show [of v "'' ''"] by (auto simp: dumps_def loads_def is_ws_def split: if_splits)

lemma dumps_codable [simp]: "codable v \<Longrightarrow> dumps v = Inr (show_json '' '' v)"
  by (simp add: dumps_def codable_finite)

lemma loads_show_default [simp]: "codable v \<Longrightarrow> loads (show_json '' '' v) = Inr v"
  using plain.loads_show [of v "'' ''"] by (simp add: loads_def is_ws_def)

lemma loads_show_compact [simp]: "codable v \<Longrightarrow> loads (show_json [] v) = Inr v"
  using plain.loads_show [of v "[]"] by (simp add: loads_def)

lemma loads_unique_show_compact [simp]: "codable v \<Longrightarrow> loads_unique (show_json [] v) = Inr v"
  using unique.loads_show [of v "[]"] by (simp add: loads_unique_def)

end
