(* ===== verification/Sha256.thy ===== *)
theory Sha256
  imports Json_Text "HOL-Library.Word"
begin

unbundle bit_operations_syntax

text \<open>
  \<open>hashlib.sha256(raw).hexdigest()\<close> on a byte string, as the standard defines it on 32-bit words.
  The constants are computed as the standard describes them: the first 32 bits of the fractional
  parts of the square roots of the first eight primes and of the cube roots of the first 64.
\<close>

section \<open>Constants\<close>

definition primes64 :: "nat list" where
  "primes64 = filter (\<lambda>n. list_all (\<lambda>d. n mod d \<noteq> 0) [2..<n]) [2..<312]"

text \<open>The largest \<open>r\<close> below \<open>2 ^ b\<close> with \<open>r ^ k \<le> n\<close>, bit by bit from the top.\<close>

fun root_bits :: "nat \<Rightarrow> nat \<Rightarrow> nat \<Rightarrow> nat \<Rightarrow> nat" where
  "root_bits k n 0 r = r"
| "root_bits k n (Suc b) r =
     (let r' = r + 2 ^ b in root_bits k n b (if r' ^ k \<le> n then r' else r))"

definition root_fraction :: "nat \<Rightarrow> nat \<Rightarrow> 32 word" where
  "root_fraction k p = word_of_nat (root_bits k (p * 2 ^ (32 * k)) 40 0)"

definition sha_init :: "32 word list" where
  "sha_init = map (root_fraction 2) [2, 3, 5, 7, 11, 13, 17, 19]"

definition sha_round_constants :: "32 word list" where
  "sha_round_constants = map (root_fraction 3) primes64"

section \<open>Padding\<close>

definition byte_of :: "char \<Rightarrow> 32 word" where
  "byte_of c = word_of_nat (of_char c)"

definition length_bytes :: "nat \<Rightarrow> 32 word list" where
  "length_bytes n = map (\<lambda>i. word_of_nat ((8 * n div 256 ^ i) mod 256)) (rev [0..<8])"

definition padded :: "string \<Rightarrow> 32 word list" where
  "padded raw = map byte_of raw @ 0x80 #
     replicate ((119 - length raw mod 64) mod 64) 0 @ length_bytes (length raw)"

fun pack4 :: "32 word list \<Rightarrow> 32 word list" where
  "pack4 (a # b # c # d # xs) =
     (push_bit 24 a OR push_bit 16 b OR push_bit 8 c OR d) # pack4 xs"
| "pack4 _ = []"

section \<open>Compression\<close>

definition small0 :: "32 word \<Rightarrow> 32 word" where
  "small0 x = word_rotr 7 x XOR word_rotr 18 x XOR drop_bit 3 x"

definition small1 :: "32 word \<Rightarrow> 32 word" where
  "small1 x = word_rotr 17 x XOR word_rotr 19 x XOR drop_bit 10 x"

text \<open>The message schedule, newest word first.\<close>

fun extend :: "nat \<Rightarrow> 32 word list \<Rightarrow> 32 word list" where
  "extend 0 ws = ws"
| "extend (Suc n) ws =
     extend n ((small1 (ws ! 1) + ws ! 6 + small0 (ws ! 14) + ws ! 15) # ws)"

definition schedule :: "32 word list \<Rightarrow> 32 word list" where
  "schedule block = rev (extend 48 (rev block))"

fun sha_round :: "32 word list \<Rightarrow> 32 word \<times> 32 word \<Rightarrow> 32 word list" where
  "sha_round [a, b, c, d, e, f, g, h] (k, w) =
     (let t1 = h + (word_rotr 6 e XOR word_rotr 11 e XOR word_rotr 25 e)
                 + ((e AND f) XOR (NOT e AND g)) + k + w;
          t2 = (word_rotr 2 a XOR word_rotr 13 a XOR word_rotr 22 a)
                 + ((a AND b) XOR (a AND c) XOR (b AND c))
      in [t1 + t2, a, b, c, d + t1, e, f, g])"
| "sha_round s _ = s"

definition sha_block :: "32 word list \<Rightarrow> 32 word list \<Rightarrow> 32 word list" where
  "sha_block st block =
     map2 (+) st (foldl sha_round st (zip sha_round_constants (schedule block)))"

fun blocks16 :: "32 word list \<Rightarrow> 32 word list list" where
  "blocks16 [] = []"
| "blocks16 (x # xs) = take 16 (x # xs) # blocks16 (drop 15 xs)"

definition sha256_words :: "string \<Rightarrow> 32 word list" where
  "sha256_words raw = foldl sha_block sha_init (blocks16 (pack4 (padded raw)))"

definition hex_word :: "32 word \<Rightarrow> string" where
  "hex_word w = map (\<lambda>i. hex_char (unat (drop_bit (4 * i) w AND 15))) (rev [0..<8])"

definition sha256_hex :: "string \<Rightarrow> string" where
  "sha256_hex raw = concat (map hex_word (sha256_words raw))"

section \<open>A digest is 64 lower-case hexadecimal digits\<close>

lemma hex_char_hexlow: "d < 16 \<Longrightarrow> is_hexlow (hex_char d)"
proof -
  assume "d < 16"
  then have "d < 10 \<or> d = 10 \<or> d = 11 \<or> d = 12 \<or> d = 13 \<or> d = 14 \<or> d = 15" by arith
  then show ?thesis
  proof (elim disjE)
    assume "d < 10"
    then show ?thesis
      using digit_char_props(1) [of d] by (simp add: is_hexlow_def hex_char_def digit_char_def)
  qed (simp_all add: is_hexlow_def hex_char_def is_digit_def less_eq_char_def)
qed

lemma hex_word_hex: "length (hex_word w) = 8" "\<forall>c \<in> set (hex_word w). is_hexlow c"
proof -
  have "unat (v AND 15) < 16" for v :: "32 word"
  proof -
    have "v AND 15 = take_bit 4 v" using take_bit_eq_mask [of 4 v] by (simp add: mask_eq_exp_minus_1)
    then have "unat (v AND 15) = take_bit 4 (unat v)" by (simp only: unsigned_take_bit_eq)
    then show ?thesis by (simp add: take_bit_eq_mod)
  qed
  then show "\<forall>c \<in> set (hex_word w). is_hexlow c" by (auto simp: hex_word_def hex_char_hexlow)
qed (simp add: hex_word_def)

lemma length_sha_round [simp]: "length (sha_round s kw) = length s"
  by (cases "(s, kw)" rule: sha_round.cases) (simp_all add: Let_def)

lemma length_foldl_sha_round [simp]: "length (foldl sha_round s kws) = length s"
  by (induction kws arbitrary: s) simp_all

lemma length_foldl_sha_block [simp]: "length (foldl sha_block s bs) = length s"
  by (induction bs arbitrary: s) (simp_all add: sha_block_def)

lemma length_sha_init [simp]: "length sha_init = 8"
  by (simp add: sha_init_def)

lemma length_sha256_words: "length (sha256_words raw) = 8"
  by (simp add: sha256_words_def)

lemma sha256_hex_hex64 [simp]: "hex64 (sha256_hex raw)"
proof -
  have "length (concat (map hex_word ws)) = 8 * length ws" for ws
    by (induction ws) (simp_all add: hex_word_hex)
  then show ?thesis
    using hex_word_hex(2)
    by (auto simp: hex_n_def sha256_hex_def length_sha256_words list_all_iff)
qed

end
