(* ===== verification/Canonical.thy ===== *)
theory Canonical
  imports Sha256
begin

text \<open>
  \<open>hat/recovery.py\<close>, canonical JSON: \<open>canonical_json\<close> writes a value with sorted keys, compact
  separators and ASCII escapes; \<open>parse_canonical_json\<close> accepts a text only if writing the value it
  denotes gives the same bytes back. Both ends of every digest in the protocol go through them, so
  the lemmas show that the two are inverse to each other and that an accepted text is the only
  text of its value.
\<close>

section \<open>Writing and parsing\<close>

definition MAX_INPUT :: nat where
  "MAX_INPUT = 2 ^ 20"

definition is_ascii :: "string \<Rightarrow> bool" where
  "is_ascii s \<longleftrightarrow> list_all (\<lambda>c. (of_char c :: nat) < 128) s"

definition canonical_json :: "json \<Rightarrow> string res" where
  "canonical_json v = reraise [TypeError, ValueError, UnicodeError] ValueError
     (dumps_compact (sort_keys v))"

definition sha_canonical :: "json \<Rightarrow> string res" where
  "sha_canonical v = mapR sha256_hex (canonical_json v)"

definition children :: "json \<Rightarrow> json list option" where
  "children v = (case v of JObj kvs \<Rightarrow> Some (map snd kvs) | JArr xs \<Rightarrow> Some xs | _ \<Rightarrow> None)"

lemma children_size:
  "children v = Some cs \<Longrightarrow> (\<Sum>c\<leftarrow>cs. Suc (size c)) < Suc (size v)"
proof (cases v)
  case (JArr xs)
  have "(\<Sum>c\<leftarrow>xs. Suc (size c)) \<le> size_list size xs" by (induction xs) simp_all
  with JArr show "children v = Some cs \<Longrightarrow> ?thesis" by (simp add: children_def)
next
  case (JObj kvs)
  have "(\<Sum>p\<leftarrow>kvs. Suc (size (snd p))) \<le> size_list (size_prod f size) kvs"
    for f :: "string \<Rightarrow> nat"
    by (induction kvs) auto
  with JObj show "children v = Some cs \<Longrightarrow> ?thesis"
    by (auto simp: children_def comp_def less_Suc_eq_le intro: le_SucI)
qed (simp_all add: children_def)

text \<open>The explicit stack of the parser, its top first; \<open>n\<close> counts the containers seen.\<close>

function scan :: "(json \<times> nat) list \<Rightarrow> nat \<Rightarrow> unit res" where
  "scan [] n = Inr ()"
| "scan ((v, d) # st) n = (case children v of
     None \<Rightarrow> scan st n
   | Some cs \<Rightarrow> if 512 < d \<or> 100000 < Suc n then Inl ValueError
       else scan (rev (map (\<lambda>c. (c, Suc d)) cs) @ st) (Suc n))"
  by pat_completeness auto
termination
proof (relation "measure (\<lambda>(st, n). \<Sum>p\<leftarrow>st. Suc (size (fst p)))", goal_cases)
  case 1
  then show ?case by simp
next
  case 2
  then show ?case by simp
next
  case (3 v d st n cs)
  have "(\<Sum>p\<leftarrow>rev (map (\<lambda>c. (c, Suc d)) cs). Suc (size (fst p))) = (\<Sum>c\<leftarrow>cs. Suc (size c))"
    by (induction cs) simp_all
  with children_size [of v cs] 3 show ?case by simp
qed

definition parse_canonical_json :: "string \<Rightarrow> json res" where
  "parse_canonical_json raw =
     (if raw = [] \<or> MAX_INPUT < length raw then Inl ValueError
      else bindR (reraise [UnicodeDecodeError, JSONDecodeError, TypeError, ValueError,
                           RecursionError, OverflowError] ValueError
               (if \<not> is_ascii raw then Inl UnicodeDecodeError
                else bindR (loads_unique raw) (\<lambda>v. bindR (scan [(v, 0)] 0) (\<lambda>_. Inr v))))
        (\<lambda>v. reraise [TypeError, ValueError, RecursionError, OverflowError] ValueError
               (bindR (canonical_json v) (\<lambda>s. if s \<noteq> raw then Inl ValueError else Inr v))))"

section \<open>Sorted keys\<close>

lemma sort_keys_items_map: "sort_keys_items kvs = map (map_prod id sort_keys) kvs"
  by (induction kvs) auto

lemma sort_keys_list_map: "sort_keys_list xs = map sort_keys xs"
  by (induction xs) auto

lemma fst_sort_keys_items [simp]: "map fst (sort_keys_items kvs) = map fst kvs"
  by (induction kvs) auto

lemma distinct_fst_sort_key:
  "distinct (map fst kvs) \<Longrightarrow> distinct (map fst (sort_key fst kvs))"
  by (simp add: distinct_map)

lemma codable_items_set: "codable_items kvs \<Longrightarrow> set kws = set kvs \<Longrightarrow> codable_items kws"
  by (simp add: codable_items_iff)

lemma codable_sort:
  "codable v \<Longrightarrow> codable (sort_keys v)"
  "codable_list xs \<Longrightarrow> codable_list (sort_keys_list xs)"
  "codable_items kvs \<Longrightarrow> codable_items (sort_keys_items kvs)"
  by (induction v and xs and kvs rule: codable_codable_list_codable_items.induct)
    (auto simp: distinct_fst_sort_key intro: codable_items_set)

lemma map_sort_key_commute:
  "(\<And>x. x \<in> set xs \<Longrightarrow> k (f x) = k x) \<Longrightarrow> map f (sort_key k xs) = sort_key k (map f xs)"
proof (induction xs)
  case Nil
  then show ?case by simp
next
  case (Cons x xs)
  have "\<And>ys. \<forall>y \<in> set ys. k (f y) = k y \<Longrightarrow> k (f x) = k x
      \<Longrightarrow> map f (insort_key k x ys) = insort_key k (f x) (map f ys)"
    subgoal for ys by (induction ys) auto
    done
  with Cons show ?case by simp
qed

lemma sort_key_idem [simp]: "sort_key k (sort_key k xs) = sort_key k xs"
  by (simp add: sort_key_id_if_sorted)

lemma sort_keys_idem:
  "sort_keys (sort_keys v) = sort_keys v"
  "sort_keys_list (sort_keys_list xs) = sort_keys_list xs"
  "sort_keys_items (sort_keys_items kvs) = sort_keys_items kvs"
proof (induction v and xs and kvs rule: sort_keys_sort_keys_list_sort_keys_items.induct)
  case (2 kvs)
  have "sort_keys_items (sort_key fst (sort_keys_items kvs))
      = sort_key fst (sort_keys_items (sort_keys_items kvs))"
    unfolding sort_keys_items_map by (rule map_sort_key_commute) auto
  with 2 show ?case by simp
qed simp_all

lemma py_eq_items_sort:
  assumes "distinct (map fst kvs)" and "\<forall>(k, v) \<in> set kvs. py_eq (f v) v"
    and "\<forall>(k, w) \<in> set kws. \<exists>v. (k, v) \<in> set kvs \<and> w = f v"
  shows "py_eq_items kws kvs"
  using assms by (fastforce simp: py_eq_items_iff)

lemma py_eq_sort:
  "proper v \<Longrightarrow> py_eq (sort_keys v) v"
  "proper_list xs \<Longrightarrow> py_eq_list (sort_keys_list xs) xs"
  "proper_items kvs \<Longrightarrow> \<forall>(k, v) \<in> set kvs. py_eq (sort_keys v) v"
proof (induction v and xs and kvs rule: sort_keys_sort_keys_list_sort_keys_items.induct)
  case (2 kvs)
  then show ?case
    by (intro py_eq.simps [THEN iffD2] | auto simp: sort_keys_items_map py_eq_items_iff map_of_eq_Some_iff)+
qed (auto simp: py_eq_refl num_eq_def)

section \<open>The limits of the parser\<close>

fun nesting :: "json \<Rightarrow> nat" where
  "nesting (JArr xs) = Suc (Max (insert 0 (set (map nesting xs))))"
| "nesting (JObj kvs) = Suc (Max (insert 0 (set (map (\<lambda>(k, v). nesting v) kvs))))"
| "nesting _ = 0"

fun containers :: "json \<Rightarrow> nat" where
  "containers (JArr xs) = Suc (\<Sum>x\<leftarrow>xs. containers x)"
| "containers (JObj kvs) = Suc (\<Sum>(k, v)\<leftarrow>kvs. containers v)"
| "containers _ = 0"

lemma nesting_children:
  "children v = Some cs \<Longrightarrow> nesting v = Suc (Max (insert 0 (nesting ` set cs)))"
  by (cases v) (auto simp: children_def image_image case_prod_unfold)

lemma containers_children:
  "children v = Some cs \<Longrightarrow> containers v = Suc (\<Sum>c\<leftarrow>cs. containers c)"
  by (cases v) (auto simp: children_def case_prod_unfold comp_def)

lemma leaf_limits: "children v = None \<Longrightarrow> nesting v = 0 \<and> containers v = 0"
  by (cases v) (simp_all add: children_def)

lemma scan_ok:
  "scan st n = Inr () \<longleftrightarrow>
     (\<forall>(v, d) \<in> set st. 0 < nesting v \<longrightarrow> d + nesting v \<le> 513)
     \<and> ((\<exists>(v, d) \<in> set st. 0 < nesting v) \<longrightarrow> n + (\<Sum>(v, d)\<leftarrow>st. containers v) \<le> 100000)"
proof (induction st n rule: scan.induct)
  case (1 n)
  then show ?case by simp
next
  case (2 v d st n)
  show ?case
  proof (cases "children v")
    case None
    then show ?thesis using 2(1) leaf_limits [of v] by auto
  next
    case (Some cs)
    let ?new = "rev (map (\<lambda>c. (c, Suc d)) cs) @ st"
    have sum: "(\<Sum>(v, d)\<leftarrow>?new. containers v)
        = (\<Sum>c\<leftarrow>cs. containers c) + (\<Sum>(v, d)\<leftarrow>st. containers v)"
      by (simp add: rev_map [symmetric] comp_def sum_list_rev)
    have pos: "0 < containers w \<longleftrightarrow> 0 < nesting w" for w
      by (cases w) simp_all
    have leafless: "\<not> (\<exists>(v, d) \<in> set ?new. 0 < nesting v) \<Longrightarrow>
        (\<Sum>(v, d)\<leftarrow>?new. containers v) = 0"
      by (auto simp: sum_list_eq_0_iff pos [symmetric] case_prod_unfold)
    have depth: "(d + nesting v \<le> 513) \<longleftrightarrow>
        d \<le> 512 \<and> (\<forall>c \<in> set cs. 0 < nesting c \<longrightarrow> Suc d + nesting c \<le> 513)"
    proof -
      have "d + Max (insert 0 (nesting ` set cs)) \<le> 512 \<longleftrightarrow>
          Max (insert 0 (nesting ` set cs)) \<le> 512 - d \<and> d \<le> 512" by arith
      also have "\<dots> \<longleftrightarrow> d \<le> 512 \<and> (\<forall>c \<in> set cs. nesting c \<le> 512 - d)" by auto
      also have "\<dots> \<longleftrightarrow> d \<le> 512 \<and> (\<forall>c \<in> set cs. 0 < nesting c \<longrightarrow> Suc d + nesting c \<le> 513)"
        by (auto simp: le_diff_conv2 add.commute)
      finally show ?thesis using nesting_children [OF Some] by simp
    qed
    show ?thesis
    proof (cases "512 < d \<or> 100000 < Suc n")
      case True
      then show ?thesis
        using Some depth containers_children [OF Some] nesting_children [OF Some] by auto
    next
      case False
      have none: "\<not> (\<exists>(v, d) \<in> set ?new. 0 < nesting v) \<Longrightarrow>
          Suc n + (\<Sum>(v, d)\<leftarrow>?new. containers v) \<le> 100000"
        using leafless False by linarith
      have "scan ((v, d) # st) n = scan ?new (Suc n)" using Some False by simp
      also have "\<dots> = Inr () \<longleftrightarrow>
          (\<forall>(v, d) \<in> set ?new. 0 < nesting v \<longrightarrow> d + nesting v \<le> 513)
          \<and> Suc n + (\<Sum>(v, d)\<leftarrow>?new. containers v) \<le> 100000"
        using 2(2) [OF Some False] none by blast
      also have "(\<forall>(v, d) \<in> set ?new. 0 < nesting v \<longrightarrow> d + nesting v \<le> 513) \<longleftrightarrow>
          d + nesting v \<le> 513 \<and> (\<forall>(v, d) \<in> set st. 0 < nesting v \<longrightarrow> d + nesting v \<le> 513)"
        unfolding depth using False by (simp add: ball_Un)
      also have "Suc n + (\<Sum>(v, d)\<leftarrow>?new. containers v)
          = n + (\<Sum>(v, d)\<leftarrow>(v, d) # st. containers v)"
        unfolding sum using containers_children [OF Some] by simp
      finally show ?thesis
        using nesting_children [OF Some] by (simp del: scan.simps)
    qed
  qed
qed

lemma scan_limits:
  "nesting v \<le> 513 \<Longrightarrow> containers v \<le> 100000 \<Longrightarrow> scan [(v, 0)] 0 = Inr ()"
  by (simp add: scan_ok del: scan.simps)

section \<open>Round trip\<close>

lemma is_digit_ascii: "is_digit c \<Longrightarrow> (of_char c :: nat) < 128"
  by (simp add: is_digit_of_char)

lemma hex_char_ascii: "d < 16 \<Longrightarrow> (of_char (hex_char d) :: nat) < 128"
  by (simp add: hex_char_def of_char_of)

lemma escape_ascii: "\<forall>d \<in> set (escape_char c). (of_char d :: nat) < 128"
proof -
  have "(of_char c :: nat) div 16 < 16" using of_char_less_256 [of c] by arith
  moreover have "c \<le> CHR ''~'' \<Longrightarrow> (of_char c :: nat) < 128" by (simp add: less_eq_char_def)
  ultimately show ?thesis by (auto simp: escape_char_def hex_char_ascii)
qed

lemma is_ascii_append [simp]: "is_ascii (s @ t) \<longleftrightarrow> is_ascii s \<and> is_ascii t"
  by (simp add: is_ascii_def)

lemma show_string_ascii: "is_ascii (show_string s)"
  using escape_ascii by (auto simp: is_ascii_def show_string_def list_all_iff)

lemma show_int_ascii: "is_ascii (show_int n)"
  using show_nat_digits is_digit_ascii by (auto simp: is_ascii_def show_int_def list_all_iff)

lemma show_json_ascii:
  "codable v \<Longrightarrow> is_ascii sp \<Longrightarrow> is_ascii (show_json sp v)"
  "codable_list xs \<Longrightarrow> is_ascii sp \<Longrightarrow> is_ascii (show_elems sp xs)"
  "codable_items kvs \<Longrightarrow> is_ascii sp \<Longrightarrow> is_ascii (show_members sp kvs)"
  by (induction sp v and sp xs and sp kvs rule: show_json_show_elems_show_members.induct)
    (auto simp: show_string_ascii show_int_ascii, simp_all add: is_ascii_def)

lemma canonical_json_codable [simp]:
  "codable v \<Longrightarrow> canonical_json v = Inr (show_json [] (sort_keys v))"
  by (simp add: canonical_json_def dumps_compact_def codable_sort codable_finite)

lemma show_json_nonempty: "codable v \<Longrightarrow> show_json sp v \<noteq> []"
  using show_json_head [of v sp] by auto

lemma parse_canonical_show:
  assumes v: "codable v" and lim: "nesting (sort_keys v) \<le> 513" "containers (sort_keys v) \<le> 100000"
    and len: "length (show_json [] (sort_keys v)) \<le> MAX_INPUT"
  shows "parse_canonical_json (show_json [] (sort_keys v)) = Inr (sort_keys v)"
proof -
  have c: "codable (sort_keys v)" using v by (rule codable_sort)
  have a: "is_ascii (show_json [] (sort_keys v))"
    using show_json_ascii(1) [OF c, of "[]"] by (simp add: is_ascii_def)
  show ?thesis
    using len c a show_json_nonempty [OF c] scan_limits [OF lim]
    by (simp add: parse_canonical_json_def sort_keys_idem)
qed

lemma parse_canonical_Inr:
  assumes "parse_canonical_json raw = Inr v"
  shows "raw \<noteq> []" "length raw \<le> MAX_INPUT" "is_ascii raw" "loads_unique raw = Inr v"
    "canonical_json v = Inr raw"
  using assms by (auto simp: parse_canonical_json_def res_simps split: if_splits)

lemma canonical_json_raises: "raises [ValueError] (canonical_json v)"
  by (auto simp: canonical_json_def dumps_compact_def raises_def reraise_def isa_def split: if_splits)

lemma scan_raises: "raises [ValueError] (scan st n)"
  by (induction st n rule: scan.induct) (auto simp: raises_def split: option.splits)

lemma parse_canonical_raises: "raises [ValueError] (parse_canonical_json raw)"
proof -
  have "raises [UnicodeDecodeError, JSONDecodeError, TypeError, ValueError, RecursionError, OverflowError]
      (if \<not> is_ascii raw then Inl UnicodeDecodeError
       else bindR (loads_unique raw) (\<lambda>v. bindR (scan [(v, 0)] 0) (\<lambda>_. Inr v)))"
    by (intro raises_intros raises_Inl raises_mono [OF loads_unique_raises] raises_mono [OF scan_raises])
      auto
  note one = raises_reraise [OF this]
  have "raises [TypeError, ValueError, RecursionError, OverflowError]
      (bindR (canonical_json v) (\<lambda>s. if s \<noteq> raw then Inl ValueError else Inr v))" for v
    by (intro raises_intros raises_Inl raises_mono [OF canonical_json_raises]) auto
  note two = raises_reraise [OF this]
  show ?thesis
    unfolding parse_canonical_json_def by (intro raises_if raises_bindR one two raises_Inl) simp
qed

end
