(* ===== verification/Paths.thy ===== *)
theory Paths
  imports Py_Values
begin

text \<open>
  What the code uses of \<open>pathlib\<close> and \<open>os.path\<close> on absolute and relative POSIX path strings: the
  parts of a path, \<open>relative_to\<close>, \<open>normpath\<close>, the last component, and joining.
\<close>

fun split_on :: "char \<Rightarrow> string \<Rightarrow> string list" where
  "split_on c [] = [[]]"
| "split_on c (x # xs) = (if x = c then [] # split_on c xs
     else (case split_on c xs of [] \<Rightarrow> [[x]] | w # ws \<Rightarrow> (x # w) # ws))"

fun join_with :: "string \<Rightarrow> string list \<Rightarrow> string" where
  "join_with c [] = []"
| "join_with c [w] = w"
| "join_with c (w # v # ws) = w @ c @ join_with c (v # ws)"

text \<open>The root of a path: none, \<open>/\<close>, or \<open>//\<close> for exactly two leading slashes.\<close>

definition path_root :: "string \<Rightarrow> string" where
  "path_root s = (let n = length (takeWhile (\<lambda>c. c = CHR ''/'') s)
     in if n = 0 then [] else if n = 2 then ''//'' else ''/'')"

definition path_comps :: "string \<Rightarrow> string list" where
  "path_comps s = filter (\<lambda>w. w \<noteq> [] \<and> w \<noteq> ''.'') (split_on (CHR ''/'') s)"

definition is_absolute :: "string \<Rightarrow> bool" where
  "is_absolute s \<longleftrightarrow> path_root s \<noteq> []"

text \<open>\<open>Path(s).relative_to(base).parts\<close>; \<open>None\<close> is the \<open>ValueError\<close>.\<close>

definition relative_parts :: "string \<Rightarrow> string \<Rightarrow> string list option" where
  "relative_parts s base = (if path_root s = path_root base
     then strip_prefix (path_comps base) (path_comps s) else None)"

definition norm_step :: "bool \<Rightarrow> string list \<Rightarrow> string \<Rightarrow> string list" where
  "norm_step absolute acc w =
     (if w = ''..'' then
        (case acc of [] \<Rightarrow> if absolute then [] else [w]
         | d # ds \<Rightarrow> if d = ''..'' then w # acc else ds)
      else w # acc)"

definition normpath :: "string \<Rightarrow> string" where
  "normpath s = (if s = [] then ''.''
     else let p = path_root s @ join_with ''/''
                (rev (foldl (norm_step (is_absolute s)) [] (path_comps s)))
          in if p = [] then ''.'' else p)"

definition path_join :: "string \<Rightarrow> string \<Rightarrow> string" where
  "path_join a b = a @ ''/'' @ b"

text \<open>\<open>Path(s).name\<close>.\<close>

definition path_name :: "string \<Rightarrow> string" where
  "path_name s = (case rev (path_comps s) of [] \<Rightarrow> [] | w # _ \<Rightarrow> w)"

lemma split_on_nonempty [simp]: "split_on c s \<noteq> []"
  by (induction s) (auto split: list.splits)

lemma split_on_append: "c \<notin> set w \<Longrightarrow> split_on c (w @ c # s) = w # split_on c s"
  by (induction w) auto

lemma split_on_none: "c \<notin> set w \<Longrightarrow> split_on c w = [w]"
  by (induction w) auto

end
