(* ===== verification/Acceptance_Facts.thy ===== *)
theory Acceptance_Facts
  imports Acceptance
begin

text \<open>
  Properties of the acceptance contract of \<open>Acceptance\<close>: the validators refuse with \<open>ValueError\<close>
  only, an accepted request is bound to its operation, an accepted result to its request, and an
  accepted set of fault outcomes accounts for every submitted operation without losing one that
  was acknowledged.
\<close>

section \<open>Only ValueError\<close>

lemma caught_lookup [simp]:
  "caught (lookup_errors @ [ValueError]) e \<longleftrightarrow>
     isa e KeyError \<or> isa e TypeError \<or> isa e AttributeError \<or> isa e OverflowError \<or> isa e ValueError"
  by (simp add: lookup_errors_def)

abbreviation checked :: "'a res \<Rightarrow> bool" where
  "checked m \<equiv> raises (lookup_errors @ [ValueError]) m"

lemma checked_wrapped: "checked m \<Longrightarrow> raises [ValueError] (reraise lookup_errors ValueError m)"
  using raises_reraise_more [of lookup_errors "[ValueError]" m ValueError]
  by (rule raises_mono) auto

lemma value_error_checked: "raises [ValueError] m \<Longrightarrow> checked m"
  by (erule raises_mono) auto

lemma raises_case_json_str [raises_intros]:
  "(\<And>s. v = JStr s \<Longrightarrow> raises cs (f s)) \<Longrightarrow> raises cs d
     \<Longrightarrow> raises cs (case v of JStr s \<Rightarrow> f s | _ \<Rightarrow> d)"
  by (cases v) simp_all

lemma raises_case_json_arr [raises_intros]:
  "(\<And>xs. v = JArr xs \<Longrightarrow> raises cs (f xs)) \<Longrightarrow> raises cs d
     \<Longrightarrow> raises cs (case v of JArr xs \<Rightarrow> f xs | _ \<Rightarrow> d)"
  by (cases v) simp_all

lemmas checked_intros = raises_intros value_error_checked [OF canonical_json_raises] raises_Inl

lemma acceptance_operation_checked: "checked (acceptance_operation v)"
  unfolding acceptance_operation_def by (intro checked_intros) simp_all

lemma derive_restore_profile_checked: "checked (derive_restore_profile op phase b)"
  unfolding derive_restore_profile_def
  by (intro checked_intros acceptance_operation_checked) simp_all

lemma authority_checked: "checked (check_authority_value base v op profile)"
  unfolding check_authority_value_def ledger_invalid_def ledger_path_differs_def
    some_not_hex64_def hex64_fails_def
  by (intro checked_intros) simp_all

lemma fault_inputs_checked: "checked (check_fault_inputs inputs)"
  unfolding check_fault_inputs_def sha_canonical_def hex64_fails_def by (intro checked_intros) simp_all

lemma request_checked: "checked (validate_request_inner base r op)"
  unfolding validate_request_inner_def some_not_u64_def point_differs_def hex64_fails_def
  by (intro checked_intros acceptance_operation_checked derive_restore_profile_checked
      authority_checked fault_inputs_checked) simp_all

lemma request_raises: "raises [ValueError] (validate_acceptance_request base r op)"
  unfolding validate_acceptance_request_def by (rule checked_wrapped [OF request_checked])

lemma canonical_id_raises: "raises [ValueError] (canonical_id v)"
  by (auto simp: canonical_id_def raises_def split: json.splits if_splits)

lemma fault_event_checked: "checked (fault_event st e)"
  unfolding fault_event_def record_event_def row_invalid_def
  by (intro checked_intros value_error_checked [OF canonical_id_raises]) simp_all

lemma fault_operations_checked: "checked (fault_operations_inner events)"
  unfolding fault_operations_inner_def start_invalid_def stop_invalid_def append.simps list.map
    count_kinds_def
  by (intro checked_intros fault_event_checked) simp_all

lemma fault_operations_raises: "raises [ValueError] (fault_operations events)"
  unfolding fault_operations_def by (rule checked_wrapped [OF fault_operations_checked])

lemma categories_invalid_checked: "checked (categories_invalid v)"
  unfolding categories_invalid_def category_invalid_def append.simps list.map categories_def
  by (intro checked_intros) simp_all

lemma binding_differs_checked: "checked (binding_differs v xs)"
  unfolding binding_differs_def flattened_def by (intro checked_intros) simp_all

abbreviation "three_errors \<equiv> [KeyError, TypeError, AttributeError, ValueError]"

lemma fault_outcomes_three: "raises three_errors (validate_fault_outcomes_inner v events)"
  unfolding validate_fault_outcomes_inner_def kinds_differ_def kind_differs_def outcome_kinds_def
    binding_differs_def flattened_def categories_invalid_def category_invalid_def append.simps
    list.map categories_def
  by (intro raises_intros raises_Inl raises_mono [OF fault_operations_raises]) simp_all

lemma fault_outcomes_raises: "raises [ValueError] (validate_fault_outcomes v events)"
  unfolding validate_fault_outcomes_def
  using raises_reraise_more [of "[KeyError, TypeError, AttributeError]" "[ValueError]"]
    fault_outcomes_three by (fastforce intro: raises_mono)

lemma result_checked: "checked (validate_result_inner base res req op events)"
  unfolding validate_result_inner_def check_recovery_checks_def database_result_invalid_def
    signature_invalid_def sha_canonical_def hex64_fails_def append.simps list.map DBS_def concat.simps
  by (intro checked_intros value_error_checked [OF request_raises] categories_invalid_checked
      binding_differs_checked value_error_checked [OF fault_outcomes_raises]) simp_all

lemma result_raises: "raises [ValueError] (validate_acceptance_result base res req op events)"
  unfolding validate_acceptance_result_def by (rule checked_wrapped [OF result_checked])

section \<open>What an accepted operation, request and ledger satisfy\<close>

text \<open>The value of a field, for statements about accepted values.\<close>

definition fld :: "json \<Rightarrow> string \<Rightarrow> json" where
  "fld v k = (case getitem v k of Inr x \<Rightarrow> x | Inl _ \<Rightarrow> JNull)"

lemma fld_getitem: "getitem v k = Inr x \<Longrightarrow> fld v k = x"
  by (simp add: fld_def)

lemma fld_JObj: "map_of kvs k = Some x \<Longrightarrow> fld (JObj kvs) k = x"
  by (simp add: fld_def)

lemma got_fld: "get_or v k JNull = Inr x \<Longrightarrow> fld v k = x"
  by (cases v) (auto simp: get_or_def fld_def getitem_def split: option.splits)

lemma itm_Inr: "itm v k f = Inr y \<longleftrightarrow> getitem v k = Inr (fld v k) \<and> f (fld v k) = Inr y"
  by (auto simp: bindR_eq_Inr fld_getitem simp del: getitem_eq_Inr)

lemmas refuse_simps = raise_if_eq_Inr any_of_eq_False any_of_map_False itm_Inr differs_False

section \<open>The scan of the fault ledger\<close>

definition ev_kind :: "json \<Rightarrow> string" where
  "ev_kind e = str_val (fld e ''event'')"

definition ev_op :: "json \<Rightarrow> op_key" where
  "ev_op e = (str_val (fld e ''api''), str_val (fld (fld e ''row'') ''op_key''))"

lemma in_set_False: "mapR Not (in_set v ks) = Inr False \<longleftrightarrow> (\<exists>k \<in> set ks. v = JStr k)"
  by (auto simp: in_set_def in_tuple_def)

lemma fault_event_Inr:
  assumes "fault_event st e = Inr st'"
  shows "fld e ''event'' = JStr (ev_kind e)" "ev_kind e \<in> set count_kinds"
    "getitem e ''api'' = Inr (JStr (fst (ev_op e)))" "fst (ev_op e) \<in> set api_names"
    "getitem e ''row'' = Inr (fld e ''row'')"
    "getitem (fld e ''row'') ''op_key'' = Inr (JStr (snd (ev_op e)))" "d3_key (snd (ev_op e))"
    "int_and (fld e ''time_ns'') (\<lambda>n. previous st < n \<and> previous st' = n)"
    "counts st' = (counts st)(ev_kind e := counts st (ev_kind e) + 1)"
    "ev_kind e = ''submitted'' \<Longrightarrow> ev_op e \<notin> fst ` set (submitted st) \<and> length (submitted st) < 1000
       \<and> submitted st' = submitted st @ [(ev_op e, fld e ''row'')] \<and> outcomes st' = outcomes st"
    "ev_kind e \<noteq> ''submitted'' \<Longrightarrow> ev_op e \<in> fst ` set (submitted st)
       \<and> ev_op e \<notin> fst ` set (outcomes st) \<and> submitted st' = submitted st
       \<and> outcomes st' = outcomes st @ [(ev_op e, ev_kind e)]"
proof -
  obtain kind t row api k st1 where
    e: "is_obj e" "get_or e ''event'' JNull = Inr kind"
      "mapR Not (in_set kind count_kinds) = Inr False" "set_is e (event_keys kind) = Inr True"
      "got e ''api'' (\<lambda>a. Inr (\<not> in_tuple a api_names)) = Inr False"
      "got e ''time_ns'' (\<lambda>t. Inr (\<not> int_and t (\<lambda>n. previous st < n))) = Inr False"
      "getitem e ''time_ns'' = Inr t" "get_or e ''row'' JNull = Inr row"
      "row_invalid row = Inr False" "getitem e ''api'' = Inr api" "getitem row ''op_key'' = Inr k"
      "record_event (st\<lparr>previous := int_val t\<rparr>) (str_val kind) (str_val api, str_val k) row e = Inr st1"
      "st' = st1\<lparr>counts := (counts st1)(str_val kind := counts st1 (str_val kind) + 1)\<rparr>"
    using assms unfolding fault_event_def raise_if_eq_Inr any_of_eq_False bindR_eq_Inr [of "getitem _ _"]
      bindR_eq_Inr [of "get_or _ _ _"] bindR_eq_Inr [of "record_event _ _ _ _ _"] notR_eq
    by (auto simp: res_simps)
  obtain ks where ks: "kind = JStr ks" "ks \<in> set count_kinds" using e(3) by (auto simp: in_set_False)
  obtain kvs where kvs: "e = JObj kvs" using e(1) by (auto simp: is_kind_iff)
  have "get_or e ''api'' JNull = Inr api" using e(10) kvs by (auto split: option.splits)
  then have api: "api = JStr (str_val api)" "str_val api \<in> set api_names" "fld e ''api'' = api"
    using e(5) fld_getitem [OF e(10)] by (auto simp: in_tuple_def)
  have "''row'' \<in> fst ` set kvs" using e(4) kvs by (simp add: event_keys_def)
  from map_of_fst_Some [OF this] obtain x where x: "map_of kvs ''row'' = Some x" ..
  then have "row = x" using e(8) kvs by simp
  then have row: "getitem e ''row'' = Inr row" "fld e ''row'' = row"
    using x kvs by (simp_all add: fld_JObj)
  have k: "k = JStr (str_val k)" "d3_key (str_val k)" "fld row ''op_key'' = k"
    using e(9,11) unfolding row_invalid_def
    by (auto simp: res_simps str_and_iff fld_getitem simp del: getitem_eq_Inr intro: fld_getitem)
  have t: "int_and t (\<lambda>n. previous st < n)" "fld e ''time_ns'' = t"
    using e(6,7) kvs by (auto simp: fld_JObj split: option.splits)
  have ev: "ev_kind e = ks" "ev_op e = (str_val api, str_val k)"
    using got_fld [OF e(2)] ks(1) api k row by (simp_all add: ev_kind_def ev_op_def)
  show "fld e ''event'' = JStr (ev_kind e)" "ev_kind e \<in> set count_kinds"
    "getitem e ''api'' = Inr (JStr (fst (ev_op e)))" "fst (ev_op e) \<in> set api_names"
    "getitem e ''row'' = Inr (fld e ''row'')"
    "getitem (fld e ''row'') ''op_key'' = Inr (JStr (snd (ev_op e)))" "d3_key (snd (ev_op e))"
    using got_fld [OF e(2)] ks api k row ev e(10,11) by simp_all
  have st1: "previous st1 = int_val t \<and> counts st1 = counts st
      \<and> (if ks = ''submitted'' then ev_op e \<notin> fst ` set (submitted st) \<and> length (submitted st) < 1000
            \<and> submitted st1 = submitted st @ [(ev_op e, row)] \<and> outcomes st1 = outcomes st
         else ev_op e \<in> fst ` set (submitted st) \<and> ev_op e \<notin> fst ` set (outcomes st)
            \<and> submitted st1 = submitted st \<and> outcomes st1 = outcomes st @ [(ev_op e, ks)])"
    using e(12) ks ev
    by (auto simp: record_event_def res_simps split: if_splits option.splits
        dest: map_of_SomeD intro: rev_image_eqI)
  then show "int_and (fld e ''time_ns'') (\<lambda>n. previous st < n \<and> previous st' = n)"
    "counts st' = (counts st)(ev_kind e := counts st (ev_kind e) + 1)"
    using t e(13) ev ks by (auto simp: int_and_iff)
  show "ev_op e \<notin> fst ` set (submitted st) \<and> length (submitted st) < 1000
       \<and> submitted st' = submitted st @ [(ev_op e, fld e ''row'')] \<and> outcomes st' = outcomes st"
    if "ev_kind e = ''submitted''" using st1 that ev row e(13) by simp
  show "ev_op e \<in> fst ` set (submitted st)
       \<and> ev_op e \<notin> fst ` set (outcomes st) \<and> submitted st' = submitted st
       \<and> outcomes st' = outcomes st @ [(ev_op e, ev_kind e)]"
    if "ev_kind e \<noteq> ''submitted''" using st1 that ev e(13) by simp
qed

definition is_outcome :: "json \<Rightarrow> bool" where
  "is_outcome e \<longleftrightarrow> ev_kind e \<noteq> ''submitted''"

definition event_shape :: "json \<Rightarrow> bool" where
  "event_shape e \<longleftrightarrow> fld e ''event'' = JStr (ev_kind e) \<and> ev_kind e \<in> set count_kinds
         \<and> getitem e ''api'' = Inr (JStr (fst (ev_op e))) \<and> fst (ev_op e) \<in> set api_names
         \<and> getitem e ''row'' = Inr (fld e ''row'')
         \<and> getitem (fld e ''row'') ''op_key'' = Inr (JStr (snd (ev_op e))) \<and> d3_key (snd (ev_op e))"

lemma fault_event_shape: "fault_event st e = Inr st' \<Longrightarrow> event_shape e"
  unfolding event_shape_def by (intro conjI) (erule fault_event_Inr)+

lemma fault_event_lists: "fault_event st e = Inr st' \<Longrightarrow>
    submitted st' = submitted st @ (if is_outcome e then [] else [(ev_op e, fld e ''row'')])
    \<and> outcomes st' = outcomes st @ (if is_outcome e then [(ev_op e, ev_kind e)] else [])"
  using fault_event_Inr(10,11) [of st e st'] by (cases "is_outcome e") (auto simp: is_outcome_def)

lemma fault_fold_lists:
  assumes "foldR fault_event st es = Inr st'"
  shows "submitted st' = submitted st @ map (\<lambda>e. (ev_op e, fld e ''row'')) (filter (Not \<circ> is_outcome) es)"
    and "outcomes st' = outcomes st @ map (\<lambda>e. (ev_op e, ev_kind e)) (filter is_outcome es)"
    and "\<forall>e \<in> set es. event_shape e"
proof -
  have "submitted st' = submitted st @ map (\<lambda>e. (ev_op e, fld e ''row'')) (filter (Not \<circ> is_outcome) es)
    \<and> outcomes st' = outcomes st @ map (\<lambda>e. (ev_op e, ev_kind e)) (filter is_outcome es)
    \<and> (\<forall>e \<in> set es. event_shape e)"
    using assms
  proof (induction es arbitrary: st)
    case Nil
    then show ?case by simp
  next
    case (Cons e es)
    then obtain st1 where st1: "fault_event st e = Inr st1" "foldR fault_event st1 es = Inr st'"
      by (auto split: sum.splits)
    show ?case
      using Cons.IH [OF st1(2)] fault_event_lists [OF st1(1)] fault_event_shape [OF st1(1)] by simp
  qed
  then show "submitted st' = submitted st @ map (\<lambda>e. (ev_op e, fld e ''row'')) (filter (Not \<circ> is_outcome) es)"
    and "outcomes st' = outcomes st @ map (\<lambda>e. (ev_op e, ev_kind e)) (filter is_outcome es)"
    and "\<forall>e \<in> set es. event_shape e" by blast+
qed

definition scan_distinct :: "fault_scan \<Rightarrow> bool" where
  "scan_distinct st \<longleftrightarrow> distinct (map fst (submitted st)) \<and> distinct (map fst (outcomes st))
     \<and> length (submitted st) \<le> 1000"

lemma fault_event_distinct:
  assumes "fault_event st e = Inr st'" and "scan_distinct st"
  shows "scan_distinct st'"
proof (cases "is_outcome e")
  case True
  then show ?thesis
    using fault_event_Inr(11) [OF assms(1)] assms(2) by (simp add: is_outcome_def scan_distinct_def)
next
  case False
  then show ?thesis
    using fault_event_Inr(10) [OF assms(1)] assms(2) by (simp add: is_outcome_def scan_distinct_def)
qed

text \<open>The events between the two markers.\<close>

definition inner :: "json \<Rightarrow> json list" where
  "inner events = (case events of JArr es \<Rightarrow> butlast (tl es) | _ \<Rightarrow> [])"

lemma fault_operations_Inr:
  assumes "fault_operations events = Inr ops"
  shows "\<exists>es. events = JArr es"
    "ops = sort (map (op_path \<circ> ev_op) (filter (Not \<circ> is_outcome) (inner events)))"
    "distinct (map ev_op (filter (Not \<circ> is_outcome) (inner events)))"
    "distinct (map ev_op (filter is_outcome (inner events)))"
    "ev_op ` {e \<in> set (inner events). is_outcome e} = ev_op ` {e \<in> set (inner events). \<not> is_outcome e}"
    "\<forall>e \<in> set (inner events). event_shape e"
    "length ops \<le> 1000"
proof -
  obtain es t st where es: "events = JArr es"
    and fold: "foldR fault_event \<lparr>submitted = [], outcomes = [], counts = (\<lambda>_. 0), previous = int_val t\<rparr>
                (butlast (tl es)) = Inr st"
    and stop: "stop_invalid (last es) st = Inr False"
    and ops: "ops = sort (map (op_path \<circ> fst) (submitted st))"
    using assms unfolding fault_operations_def fault_operations_inner_def reraise_eq_Inr
    by (cases events) (auto simp: raise_if_eq_Inr bindR_eq_Inr any_of_eq_False)
  note f = fault_fold_lists [OF fold, simplified]
  have d: "scan_distinct st"
    by (rule foldR_inv [OF fold]) (simp add: scan_distinct_def, rule fault_event_distinct)
  have inner: "inner events = butlast (tl es)" using es by (simp add: inner_def)
  show "\<exists>es. events = JArr es" using es by blast
  show "ops = sort (map (op_path \<circ> ev_op) (filter (Not \<circ> is_outcome) (inner events)))"
    using ops f inner by (simp add: comp_def)
  show "distinct (map ev_op (filter (Not \<circ> is_outcome) (inner events)))"
    "distinct (map ev_op (filter is_outcome (inner events)))"
    using d unfolding scan_distinct_def f inner by (simp_all add: comp_def)
  have "fst ` set (submitted st) = fst ` set (outcomes st)"
    using stop unfolding stop_invalid_def any_of_all_False by simp
  then show "ev_op ` {e \<in> set (inner events). is_outcome e} = ev_op ` {e \<in> set (inner events). \<not> is_outcome e}"
    unfolding f inner by (simp add: image_image)
  show "\<forall>e \<in> set (inner events). event_shape e" using f inner by simp
  show "length ops \<le> 1000" using d ops by (simp add: scan_distinct_def)
qed

section \<open>Outcomes: acknowledged operations are never lost\<close>

lemma op_path_inj:
  "a \<in> set api_names \<Longrightarrow> b \<in> set api_names \<Longrightarrow> op_path (a, k) = op_path (b, l) \<longleftrightarrow> a = b \<and> k = l"
  by (auto simp: api_names_def op_path_def)

lemma traverse_Inr_map:
  "(\<And>x. x \<in> set xs \<Longrightarrow> f x = Inr (g x)) \<Longrightarrow> traverse f xs = Inr (map g xs)"
  by (induction xs) simp_all

lemma traverse_member: "traverse f xs = Inr ys \<Longrightarrow> x \<in> set xs \<Longrightarrow> \<exists>y \<in> set ys. f x = Inr y"
  by (auto simp: traverse_eq_Inr list_all2_conv_all_nth in_set_conv_nth)

lemma traverse_member_rev: "traverse f xs = Inr ys \<Longrightarrow> y \<in> set ys \<Longrightarrow> \<exists>x \<in> set xs. f x = Inr y"
  by (fastforce simp: traverse_eq_Inr list_all2_conv_all_nth in_set_conv_nth [of y] intro: nth_mem)

lemma strings_list:
  "\<forall>i \<in> set xs. \<exists>s. i = JStr s \<and> P s \<Longrightarrow> \<exists>ss. xs = map JStr ss \<and> (\<forall>s \<in> set ss. P s)"
  using ex_map_conv [of xs JStr] by fastforce

lemma outcome_kinds_eq:
  assumes "\<forall>e \<in> set (butlast (tl es)). event_shape e"
  shows "outcome_kinds es = Inr (rev (map (\<lambda>e. (op_path (ev_op e), JStr (ev_kind e)))
           (filter is_outcome (butlast (tl es)))))"
proof -
  let ?g = "\<lambda>e. if is_outcome e then [(op_path (ev_op e), JStr (ev_kind e))] else []"
  have "traverse (\<lambda>e. itm e ''event'' (\<lambda>k. if k = JStr ''submitted'' then Inr []
       else itm e ''api'' (\<lambda>a. itm e ''row'' (\<lambda>r. itm r ''op_key'' (\<lambda>key.
         case (a, key) of (JStr s, JStr t) \<Rightarrow> Inr [(op_path (s, t), k)] | _ \<Rightarrow> Inl TypeError)))))
     (butlast (tl es)) = Inr (map ?g (butlast (tl es)))"
  proof (rule traverse_Inr_map)
    fix e assume "e \<in> set (butlast (tl es))"
    with assms have e: "event_shape e" by blast
    then have "getitem e ''event'' = Inr (JStr (ev_kind e))"
      by (auto simp: event_shape_def fld_def split: sum.splits)
    with e show "itm e ''event'' (\<lambda>k. if k = JStr ''submitted'' then Inr []
       else itm e ''api'' (\<lambda>a. itm e ''row'' (\<lambda>r. itm r ''op_key'' (\<lambda>key.
         case (a, key) of (JStr s, JStr t) \<Rightarrow> Inr [(op_path (s, t), k)] | _ \<Rightarrow> Inl TypeError)))) = Inr (?g e)"
      by (simp add: event_shape_def is_outcome_def del: getitem_eq_Inr)
  qed
  moreover have "concat (map ?g xs) = map (\<lambda>e. (op_path (ev_op e), JStr (ev_kind e))) (filter is_outcome xs)"
    for xs by (induction xs) simp_all
  ultimately show ?thesis unfolding outcome_kinds_def by simp
qed

definition in_category :: "json \<Rightarrow> string \<Rightarrow> string \<Rightarrow> bool" where
  "in_category v c s \<longleftrightarrow> (case fld v c of JArr xs \<Rightarrow> JStr s \<in> set xs | _ \<Rightarrow> False)"

lemma categories_ok:
  assumes "categories_invalid v = Inr False" and "c \<in> set categories"
  shows "\<exists>ss. getitem v c = Inr (JArr (map JStr ss)) \<and> fld v c = JArr (map JStr ss) \<and> sorted ss
     \<and> list_all fault_op ss"
proof -
  have c: "category_invalid v c = Inr False"
    using assms unfolding categories_invalid_def any_of_all_False by auto
  then obtain x where x: "getitem v c = Inr x"
    and y: "(case x of JArr xs \<Rightarrow> any_of [bindR (py_sorted xs) (\<lambda>ys. Inr (\<not> py_eq x (JArr ys))),
        any_of (map (\<lambda>i. Inr (\<not> str_and i fault_op)) xs)] | _ \<Rightarrow> Inr True) = Inr False"
    unfolding category_invalid_def bindR_eq_Inr by blast
  from y obtain xs where xs: "x = JArr xs" by (cases x) simp_all
  from y have "\<forall>i \<in> set xs. \<exists>s. i = JStr s \<and> fault_op s" and
    eq: "bindR (py_sorted xs) (\<lambda>ys. Inr (\<not> py_eq x (JArr ys))) = Inr False"
    unfolding xs by (simp_all add: any_of_eq_False any_of_map_False str_and_iff)
  from strings_list [OF this(1)] obtain ss where ss: "xs = map JStr ss" "\<forall>s \<in> set ss. fault_op s"
    by blast
  then have "sort ss = ss" using eq xs by (simp add: inj_map_eq_map inj_def)
  then have "sorted ss" by (metis sorted_sort)
  then show ?thesis using x xs ss by (auto simp: fld_def list_all_iff)
qed

lemma flattened_set:
  assumes "categories_invalid v = Inr False" and "flattened v = Inr items"
  shows "set items = {JStr s |s. \<exists>c \<in> set categories. in_category v c s}"
proof -
  obtain xss where xss: "traverse (\<lambda>k. itm v k iter_of) categories = Inr xss" "items = concat xss"
    using assms(2) by (auto simp: flattened_def mapR_eq_Inr)
  have c: "\<exists>ss. itm v c iter_of = Inr (map JStr ss) \<and> fld v c = JArr (map JStr ss)"
    if "c \<in> set categories" for c
    using categories_ok [OF assms(1) that] by (auto simp del: getitem_eq_Inr)
  show ?thesis
  proof (intro equalityI subsetI)
    fix i assume "i \<in> set items"
    then obtain xs where xs: "xs \<in> set xss" "i \<in> set xs" using xss by auto
    from traverse_member_rev [OF xss(1) xs(1)] obtain k
      where k: "k \<in> set categories" "itm v k iter_of = Inr xs" by blast
    obtain ss where ss: "itm v k iter_of = Inr (map JStr ss)" "fld v k = JArr (map JStr ss)"
      using c [OF k(1)] by blast
    with k xs(2) obtain s where "i = JStr s" "in_category v k s" by (auto simp: in_category_def)
    with k(1) show "i \<in> {JStr s |s. \<exists>c \<in> set categories. in_category v c s}" by blast
  next
    fix i assume "i \<in> {JStr s |s. \<exists>c \<in> set categories. in_category v c s}"
    then obtain s k where k: "i = JStr s" "k \<in> set categories" "in_category v k s" by blast
    from traverse_member [OF xss(1) k(2)] obtain xs where xs: "xs \<in> set xss" "itm v k iter_of = Inr xs"
      by blast
    with c [OF k(2)] k have "i \<in> set xs" by (auto simp: in_category_def)
    with xs xss show "i \<in> set items" by auto
  qed
qed

lemma binding_ok:
  assumes v: "categories_invalid v = Inr False" and b: "binding_differs v (map JStr ops) = Inr False"
  shows "{s. \<exists>c \<in> set categories. in_category v c s} = set ops" and "\<not> in_category v ''lost'' s"
proof -
  obtain items ss es where i: "flattened v = Inr items" "py_set items = Inr ss"
      "py_set (map JStr ops) = Inr es"
    and t: "any_of [Inr (length items \<noteq> length ss), Inr (set ss \<noteq> set es),
        itm v ''lost'' (\<lambda>l. Inr (truthy l))] = Inr False"
    using b unfolding binding_differs_def bindR_eq_Inr by blast
  have t: "set ss = set es" "itm v ''lost'' (\<lambda>l. Inr (truthy l)) = Inr False"
    using t by (simp_all add: any_of_eq_False)
  have "\<forall>x \<in> set items. \<exists>s. x = JStr s \<and> True" using flattened_set [OF v i(1)] by auto
  from strings_list [OF this] obtain strs where strs: "items = map JStr strs" by blast
  have "set ss = set items"
    using i(2) dedup_strings [of strs] by (auto simp: strs py_set_def)
  moreover have "set es = JStr ` set ops"
    using i(3) dedup_strings [of ops] by (auto simp: py_set_def)
  ultimately have "{JStr s |s. \<exists>c \<in> set categories. in_category v c s} = JStr ` set ops"
    using t flattened_set [OF v i(1)] by simp
  moreover have "{JStr s |s. \<exists>c \<in> set categories. in_category v c s}
      = JStr ` {s. \<exists>c \<in> set categories. in_category v c s}" by auto
  ultimately show "{s. \<exists>c \<in> set categories. in_category v c s} = set ops" by simp
  have "''lost'' \<in> set categories" by (simp add: categories_def)
  from categories_ok [OF v this] t(2) show "\<not> in_category v ''lost'' s"
    by (auto simp: in_category_def truthy_def simp del: getitem_eq_Inr)
qed

lemma kinds_differ_ok:
  assumes "kinds_differ kinds v c want = Inr False" and "in_category v c s"
    and "categories_invalid v = Inr False" "c \<in> set categories"
  shows "map_of kinds s = Some (JStr want)"
proof -
  obtain ss where ss: "getitem v c = Inr (JArr (map JStr ss))" "fld v c = JArr (map JStr ss)"
    using categories_ok [OF assms(3,4)] by blast
  with assms(1) have "\<forall>x \<in> set ss. kind_differs kinds want (JStr x) = Inr False"
    unfolding kinds_differ_def by (simp add: any_of_map_False comp_def del: getitem_eq_Inr)
  moreover have "s \<in> set ss" using assms(2) ss(2) by (auto simp: in_category_def)
  ultimately show ?thesis by (auto simp: kind_differs_def split: option.splits)
qed

lemma fault_outcomes_Inr:
  assumes "validate_fault_outcomes v events = Inr w"
  obtains es kinds ops where "w = v" "events = JArr es" "fault_operations events = Inr ops"
    "categories_invalid v = Inr False" "binding_differs v (map JStr ops) = Inr False"
    "outcome_kinds es = Inr kinds"
    "kinds_differ kinds v ''recovered'' ''acknowledged'' = Inr False"
    "kinds_differ kinds v ''rejected'' ''rejected'' = Inr False"
    "kinds_differ kinds v ''ambiguous'' ''uncertain'' = Inr False"
    "kinds_differ kinds v ''unacknowledged_recovered'' ''uncertain'' = Inr False"
proof -
  obtain ops es kinds where o: "fault_operations events = Inr ops"
    "categories_invalid v = Inr False" "binding_differs v (map JStr ops) = Inr False"
    "iter_of events = Inr es" "outcome_kinds es = Inr kinds" "w = v"
    "kinds_differ kinds v ''recovered'' ''acknowledged'' = Inr False"
    "kinds_differ kinds v ''rejected'' ''rejected'' = Inr False"
    "kinds_differ kinds v ''ambiguous'' ''uncertain'' = Inr False"
    "kinds_differ kinds v ''unacknowledged_recovered'' ''uncertain'' = Inr False"
    using assms unfolding validate_fault_outcomes_def validate_fault_outcomes_inner_def
      reraise_eq_Inr raise_if_eq_Inr any_of_eq_False bindR_eq_Inr by blast
  from fault_operations_Inr(1) [OF o(1)] o(4) have "events = JArr es" by auto
  with o show thesis using that by blast
qed

lemma op_path_inj_on: "\<forall>e \<in> set es. event_shape e \<Longrightarrow> inj_on op_path (ev_op ` set es)"
  by (auto simp: inj_on_def event_shape_def op_path_inj prod_eq_iff)
    (metis op_path_inj prod.collapse)+

lemma distinct_count_one:
  "distinct xs \<Longrightarrow> x \<in> set xs \<Longrightarrow> length (filter (\<lambda>y. y = x) xs) = 1"
  by (induction xs) (auto simp: filter_empty_conv)

lemma kind_of_event:
  assumes "fault_operations (JArr es) = Inr ops" and "outcome_kinds es = Inr kinds"
    and e: "e \<in> set (inner (JArr es))" "is_outcome e"
  shows "map_of kinds (op_path (ev_op e)) = Some (JStr (ev_kind e))"
proof -
  note f = fault_operations_Inr [OF assms(1)]
  have shape: "\<forall>e \<in> set (butlast (tl es)). event_shape e" using f(6) by (simp add: inner_def)
  have k: "kinds = rev (map (\<lambda>e. (op_path (ev_op e), JStr (ev_kind e))) (filter is_outcome (inner (JArr es))))"
    using outcome_kinds_eq [OF shape] assms(2) by (simp add: inner_def)
  have "inj_on op_path (ev_op ` set (inner (JArr es)))" by (rule op_path_inj_on [OF f(6)])
  then have "distinct (map op_path (map ev_op (filter is_outcome (inner (JArr es)))))"
    using f(4) by (simp only: distinct_map) (auto elim: inj_on_subset)
  then have "distinct (map fst kinds)" unfolding k by (simp add: rev_map [symmetric] comp_def)
  then show ?thesis using e by (auto simp: map_of_eq_Some_iff k)
qed

lemma submitted_path:
  assumes "fault_operations (JArr es) = Inr ops" and "e \<in> set (inner (JArr es))"
  shows "op_path (ev_op e) \<in> set ops"
proof -
  note f = fault_operations_Inr [OF assms(1)]
  have "ev_op e \<in> ev_op ` {e \<in> set (inner (JArr es)). \<not> is_outcome e}"
    using f(5) assms(2) by (cases "is_outcome e") blast+
  then show ?thesis unfolding f(2) by auto
qed

lemma acknowledged_in_recovered:
  assumes "validate_fault_outcomes v events = Inr w"
    and e: "e \<in> set (inner events)" "ev_kind e = ''acknowledged''"
  shows "in_category v ''recovered'' (op_path (ev_op e))"
proof -
  obtain es kinds ops where o: "events = JArr es" "fault_operations events = Inr ops"
    "categories_invalid v = Inr False" "binding_differs v (map JStr ops) = Inr False"
    "outcome_kinds es = Inr kinds"
    "kinds_differ kinds v ''rejected'' ''rejected'' = Inr False"
    "kinds_differ kinds v ''ambiguous'' ''uncertain'' = Inr False"
    "kinds_differ kinds v ''unacknowledged_recovered'' ''uncertain'' = Inr False"
    using fault_outcomes_Inr [OF assms(1)] by metis
  have out: "is_outcome e" using e by (simp add: is_outcome_def)
  have k: "map_of kinds (op_path (ev_op e)) = Some (JStr ''acknowledged'')"
    using kind_of_event [of es ops kinds e] o e out by simp
  have "op_path (ev_op e) \<in> set ops" using submitted_path [of es ops e] o e by simp
  with binding_ok(1) [OF o(3,4)] obtain c where c: "c \<in> set categories" "in_category v c (op_path (ev_op e))"
    by blast
  have "c \<noteq> ''lost''" using binding_ok(2) [OF o(3,4)] c by blast
  moreover have "c \<noteq> ''rejected''" using kinds_differ_ok [OF o(6) _ o(3)] c k by fastforce
  moreover have "c \<noteq> ''ambiguous''" using kinds_differ_ok [OF o(7) _ o(3)] c k by fastforce
  moreover have "c \<noteq> ''unacknowledged_recovered''" using kinds_differ_ok [OF o(8) _ o(3)] c k by fastforce
  ultimately show ?thesis using c by (auto simp: categories_def)
qed

section \<open>Requests and results\<close>

lemma acceptance_operation_Inr:
  assumes "acceptance_operation v = Inr w"
  shows "w = v" "\<exists>i. getitem v ''id'' = Inr (JStr i) \<and> hex32 i \<and> getitem v ''new_epoch'' = Inr (JStr (''d1-'' @ i))"
    "\<exists>s t. getitem v ''source'' = Inr (JStr s) \<and> getitem v ''target'' = Inr (JStr t)
       \<and> (s, t) \<in> {(''A'', ''B''), (''B'', ''A'')}"
    "\<exists>e. getitem v ''source_epoch'' = Inr (JStr e) \<and> epoch_125 e \<and> getitem v ''new_epoch'' \<noteq> Inr (JStr e)"
proof -
  note inv = assms [unfolded acceptance_operation_def raise_if_eq_Inr any_of_eq_False bindR_eq_Inr]
  show "w = v" using inv by simp
  obtain i n where i: "getitem v ''id'' = Inr (JStr i)" "hex32 i" "getitem v ''new_epoch'' = Inr n"
    "n = JStr (''d1-'' @ i)"
    using inv by (auto simp: str_and_iff differs_def simp del: getitem_eq_Inr)
  then show "\<exists>i. getitem v ''id'' = Inr (JStr i) \<and> hex32 i \<and> getitem v ''new_epoch'' = Inr (JStr (''d1-'' @ i))"
    by blast
  show "\<exists>s t. getitem v ''source'' = Inr (JStr s) \<and> getitem v ''target'' = Inr (JStr t)
       \<and> (s, t) \<in> {(''A'', ''B''), (''B'', ''A'')}"
    using inv by (auto simp del: getitem_eq_Inr)
  show "\<exists>e. getitem v ''source_epoch'' = Inr (JStr e) \<and> epoch_125 e \<and> getitem v ''new_epoch'' \<noteq> Inr (JStr e)"
    using inv i by (auto simp: str_and_iff simp del: getitem_eq_Inr)
qed

lemma getitem_fld: "getitem v k = Inr x \<Longrightarrow> getitem v k = Inr (fld v k)"
  by (simp add: fld_def)

lemma hex64_fails_False: "hex64_fails v = Inr False \<longleftrightarrow> (\<exists>s. v = JStr s \<and> hex64 s)"
  by (auto simp: hex64_fails_def res_simps)

lemma request_Inr:
  assumes "validate_acceptance_request base r op = Inr v"
  obtains profile epoch pos rec where "v = r" "acceptance_operation op = Inr op"
    "derive_restore_profile op (fld r ''phase'') (fld r ''profile'' = JStr ''recovery-comparison'')
       = Inr (profile, epoch, pos, rec)"
    "py_eq (fld r ''operation'') (fld op ''id'')"
    "py_eq (fld r ''source'') (fld op ''source'')" "py_eq (fld r ''target'') (fld op ''target'')"
    "py_eq (fld r ''epoch'') epoch" "fld r ''profile'' = JStr profile"
    "set_is (fld r ''positions'') DBS = Inr True" "some_not_u64 (fld r ''positions'') = Inr False"
    "hex64_fails (fld (fld r ''inputs'') ''ledger_sha256'') = Inr False"
    "check_authority_value base (fld (fld r ''inputs'') ''ledger_authority'') op profile = Inr ()"
    "py_eq (fld (fld (fld (fld r ''inputs'') ''ledger_authority'') ''ledger'') ''sha256'')
       (fld (fld r ''inputs'') ''ledger_sha256'')"
    "\<forall>db \<in> set DBS. point_differs (fld (fld r ''inputs'') ''restore_points'') (fld r ''positions'') db = Inr False"
    "profile = ''recovery-comparison'' \<Longrightarrow> check_fault_inputs (fld r ''inputs'') = Inr ()"
    "getitem r ''profile'' = Inr (JStr profile)" "getitem r ''positions'' = Inr (fld r ''positions'')"
    "getitem r ''inputs'' = Inr (fld r ''inputs'')"
proof -
  obtain op' where op': "acceptance_operation op = Inr op'" using assms
    unfolding validate_acceptance_request_def validate_request_inner_def reraise_eq_Inr bindR_eq_Inr by blast
  then have [simp]: "op' = op" by (rule acceptance_operation_Inr)
  have "validate_request_inner base r op = Inr v"
    using assms by (simp add: validate_acceptance_request_def reraise_eq_Inr)
  note inv = this [unfolded validate_request_inner_def op', simplified bindR_simps \<open>op' = op\<close>]
  obtain profile epoch pos rec where d:
    "derive_restore_profile op (fld r ''phase'') (fld r ''profile'' = JStr ''recovery-comparison'')
       = Inr (profile, epoch, pos, rec)"
    using inv unfolding refuse_simps bindR_eq_Inr [of "derive_restore_profile _ _ _"] by auto
  show thesis
    using inv unfolding refuse_simps d bindR_simps prod.case
      bindR_eq_Inr [of "check_authority_value _ _ _ _"]
    using op' d
    by (intro that [of profile epoch pos rec]) (auto simp: notR_eq bindR_eq_Inr simp del: getitem_eq_Inr split: if_splits)
qed

lemma derive_profile_Inr:
  assumes "derive_restore_profile op phase b = Inr r"
  shows "\<exists>s t p. map_of (restore_matrix (fld op ''source_epoch'') (fld op ''new_epoch'')) (s, t, p, b) = Some r
    \<and> fld op ''source'' = JStr s \<and> fld op ''target'' = JStr t \<and> phase = JStr p"
proof -
  obtain v where v: "acceptance_operation op = Inr v"
    using assms unfolding derive_restore_profile_def bindR_eq_Inr [of "acceptance_operation _"] by blast
  then have [simp]: "v = op" by (rule acceptance_operation_Inr)
  note inv = assms [unfolded derive_restore_profile_def v bindR_simps itm_Inr]
  show ?thesis
    using inv by (auto split: json.splits if_splits option.splits simp del: getitem_eq_Inr)
qed

lemma derive_profile_recovery:
  "derive_restore_profile op phase b = Inr (profile, epoch, pos, rec) \<Longrightarrow>
     profile = ''recovery-comparison'' \<longleftrightarrow> b"
  using derive_profile_Inr [of op phase b] by (fastforce simp: restore_matrix_def split: if_splits)

lemma derive_profile_epoch:
  "derive_restore_profile op phase b = Inr (profile, epoch, pos, rec) \<Longrightarrow>
     epoch = fld op (if profile \<in> {''comparison'', ''recovery-comparison''} then ''source_epoch'' else ''new_epoch'')"
  using derive_profile_Inr [of op phase b] by (fastforce simp: restore_matrix_def split: if_splits)

lemma u64_values:
  assumes "set_is v DBS = Inr True" "some_not_u64 v = Inr False" "db \<in> set DBS"
  shows "u64_pos (fld v db) \<and> getitem v db = Inr (fld v db)"
proof -
  obtain kvs where v: "v = JObj kvs" "\<forall>w \<in> snd ` set kvs. u64_pos w"
    using assms(2) by (auto simp: some_not_u64_def bindR_eq_Inr values_of_eq_Inr any_of_map_False)
  then have "db \<in> fst ` set kvs" using assms by simp
  from map_of_fst_Some [OF this] obtain w where "map_of kvs db = Some w" ..
  with v show ?thesis by (force simp: fld_JObj dest: map_of_SomeD)
qed

text \<open>What an accepted request says.\<close>

lemma accepted_request:
  assumes "validate_acceptance_request base r op = Inr v"
  shows "v = r" "\<exists>i. fld op ''id'' = JStr i \<and> hex32 i \<and> fld r ''operation'' = JStr i
      \<and> fld op ''new_epoch'' = JStr (''d1-'' @ i)"
    "fld r ''source'' = fld op ''source''" "fld r ''target'' = fld op ''target''"
    "fld r ''epoch'' = fld op (if fld r ''profile'' \<in> {JStr ''comparison'', JStr ''recovery-comparison''}
       then ''source_epoch'' else ''new_epoch'')"
    "\<forall>db \<in> set DBS. u64_pos (fld (fld r ''positions'') db)"
    "hex64 (str_val (fld (fld r ''inputs'') ''ledger_sha256''))"
    "fld (fld (fld (fld r ''inputs'') ''ledger_authority'') ''ledger'') ''sha256''
       = fld (fld r ''inputs'') ''ledger_sha256''"
proof -
  obtain profile epoch pos rec where q: "v = r" "acceptance_operation op = Inr op"
    "derive_restore_profile op (fld r ''phase'') (fld r ''profile'' = JStr ''recovery-comparison'')
       = Inr (profile, epoch, pos, rec)"
    "py_eq (fld r ''operation'') (fld op ''id'')"
    "py_eq (fld r ''source'') (fld op ''source'')" "py_eq (fld r ''target'') (fld op ''target'')"
    "py_eq (fld r ''epoch'') epoch" "fld r ''profile'' = JStr profile"
    "set_is (fld r ''positions'') DBS = Inr True" "some_not_u64 (fld r ''positions'') = Inr False"
    "hex64_fails (fld (fld r ''inputs'') ''ledger_sha256'') = Inr False"
    "py_eq (fld (fld (fld (fld r ''inputs'') ''ledger_authority'') ''ledger'') ''sha256'')
       (fld (fld r ''inputs'') ''ledger_sha256'')"
    using request_Inr [OF assms] by metis
  note o = acceptance_operation_Inr [OF q(2)]
  have strs: "\<exists>s. fld op ''source'' = JStr s" "\<exists>s. fld op ''target'' = JStr s"
    "\<exists>s. fld op ''source_epoch'' = JStr s" "\<exists>s. fld op ''new_epoch'' = JStr s"
    using o by (auto simp: fld_getitem simp del: getitem_eq_Inr)
  show "v = r" by (rule q(1))
  show "\<exists>i. fld op ''id'' = JStr i \<and> hex32 i \<and> fld r ''operation'' = JStr i
      \<and> fld op ''new_epoch'' = JStr (''d1-'' @ i)"
    using o(2) q(4) by (auto simp: fld_getitem simp del: getitem_eq_Inr)
  show "fld r ''source'' = fld op ''source''" "fld r ''target'' = fld op ''target''"
    using q(5,6) strs by auto
  show "fld r ''epoch'' = fld op (if fld r ''profile'' \<in> {JStr ''comparison'', JStr ''recovery-comparison''}
       then ''source_epoch'' else ''new_epoch'')"
    using q(7,8) derive_profile_epoch [OF q(3)] strs by auto
  show "\<forall>db \<in> set DBS. u64_pos (fld (fld r ''positions'') db)"
    using u64_values [OF q(9,10)] by blast
  show "hex64 (str_val (fld (fld r ''inputs'') ''ledger_sha256''))"
    "fld (fld (fld (fld r ''inputs'') ''ledger_authority'') ''ledger'') ''sha256''
       = fld (fld r ''inputs'') ''ledger_sha256''"
    using q(11,12) by (auto simp: hex64_fails_False)
qed

lemma result_Inr:
  assumes "validate_acceptance_result base res req op events = Inr v"
  shows "v = res" "validate_acceptance_request base req op = Inr req" "py_eq (fld res ''request'') req"
    "\<exists>s. canonical_json req = Inr s \<and> fld res ''request_sha256'' = JStr (sha256_hex s)"
    "\<forall>db \<in> set DBS. database_result_invalid res req db = Inr False \<and> signature_invalid res db = Inr False"
    "fld req ''profile'' = JStr ''recovery-comparison'' \<Longrightarrow> check_recovery_checks res req events = Inr ()"
    "fld req ''profile'' \<noteq> JStr ''recovery-comparison'' \<Longrightarrow> py_eq (fld res ''checks'') plain_checks"
    "set_is res result_keys = Inr True"
proof -
  have "validate_result_inner base res req op events = Inr v"
    using assms by (simp add: validate_acceptance_result_def reraise_eq_Inr)
  note inv = this [unfolded validate_result_inner_def bindR_eq_Inr [of "validate_acceptance_request _ _ _"]
    refuse_simps bindR_eq_Inr [of "sha_canonical _"]]
  from inv obtain r where r: "validate_acceptance_request base req op = Inr r" by blast
  then show "validate_acceptance_request base req op = Inr req"
    using accepted_request(1) by metis
  show "v = res" "py_eq (fld res ''request'') req" "set_is res result_keys = Inr True"
    using inv by (auto simp: bindR_eq_Inr notR_eq)
  show "\<exists>s. canonical_json req = Inr s \<and> fld res ''request_sha256'' = JStr (sha256_hex s)"
    using inv by (auto simp: sha_canonical_def mapR_eq_Inr)
  show "\<forall>db \<in> set DBS. database_result_invalid res req db = Inr False \<and> signature_invalid res db = Inr False"
    using inv by (auto simp: any_of_all_False)
  show "fld req ''profile'' = JStr ''recovery-comparison'' \<Longrightarrow> check_recovery_checks res req events = Inr ()"
    "fld req ''profile'' \<noteq> JStr ''recovery-comparison'' \<Longrightarrow> py_eq (fld res ''checks'') plain_checks"
    using inv by (auto simp: bindR_eq_Inr refuse_simps simp del: getitem_eq_Inr dest: fld_getitem)
qed

lemma recovery_checks_Inr:
  assumes "check_recovery_checks res req events = Inr ()"
  shows "categories_invalid (fld (fld res ''checks'') ''fault_outcomes'') = Inr False"
    "fld (fld res ''checks'') ''acknowledged_loss'' = JStr ''NONE''"
    "\<exists>xs. iter_of (fld (fld req ''inputs'') ''fault_operations'') = Inr xs
       \<and> binding_differs (fld (fld res ''checks'') ''fault_outcomes'') xs = Inr False"
    "events = Some es \<Longrightarrow> \<exists>w. validate_fault_outcomes (fld (fld res ''checks'') ''fault_outcomes'') es = Inr w"
    "fld (fld res ''checks'') ''records'' = JStr ''PASS''"
    "fld (fld res ''checks'') ''authentication'' = JStr ''PASS''"
proof -
  note inv = assms [unfolded check_recovery_checks_def refuse_simps bindR_eq_Inr [of "iter_of _"]]
  show "categories_invalid (fld (fld res ''checks'') ''fault_outcomes'') = Inr False"
    "fld (fld res ''checks'') ''acknowledged_loss'' = JStr ''NONE''"
    "\<exists>xs. iter_of (fld (fld req ''inputs'') ''fault_operations'') = Inr xs
       \<and> binding_differs (fld (fld res ''checks'') ''fault_outcomes'') xs = Inr False"
    using inv by (auto simp: refuse_simps simp del: getitem_eq_Inr)
  show "\<exists>w. validate_fault_outcomes (fld (fld res ''checks'') ''fault_outcomes'') es = Inr w"
    if "events = Some es" using inv that by (auto simp: bindR_eq_Inr refuse_simps simp del: getitem_eq_Inr)
  show "fld (fld res ''checks'') ''records'' = JStr ''PASS''"
    "fld (fld res ''checks'') ''authentication'' = JStr ''PASS''"
    using inv by (auto simp: bindR_eq_Inr refuse_simps simp del: getitem_eq_Inr dest: fld_getitem)
qed

end
