(* ===== verification/Acceptance_Properties.thy ===== *)
theory Acceptance_Properties
  imports Acceptance_Facts
begin

text \<open>
  The properties of the acceptance contract of \<open>hat/recovery.py\<close>, each with a concrete instance.
\<close>

section \<open>Properties\<close>

text \<open>C5 Whatever JSON value arrives as a request, a result, a fault ledger or a set of fault outcomes,
  the public validators either accept it or raise \<open>ValueError\<close>; no lookup error escapes.\<close>

theorem acceptance_errors:
  "raises [ValueError] (validate_acceptance_request base request operation)
   \<and> raises [ValueError] (validate_acceptance_result base result request operation events)
   \<and> raises [ValueError] (fault_operations ledger)
   \<and> raises [ValueError] (validate_fault_outcomes outs ledger)
   \<and> raises [ValueError] (parse_acceptance_request raw operation)"
  using request_raises result_raises fault_operations_raises fault_outcomes_raises
  unfolding parse_acceptance_request_def
  by (intro conjI raises_bindR parse_canonical_raises) blast+

lemma accepted_positions:
  assumes "validate_acceptance_request base r op = Inr v"
  shows "\<exists>kvs. fld r ''positions'' = JObj kvs \<and> fst ` set kvs = set DBS"
proof -
  have "set_is (fld r ''positions'') DBS = Inr True" "some_not_u64 (fld r ''positions'') = Inr False"
    using request_Inr [OF assms] by metis+
  then show ?thesis
    by (cases "fld r ''positions''") (auto simp: some_not_u64_def values_of_def)
qed

text \<open>C3 An accepted request carries the operation's identifier, direction and the epoch its phase
  is about (the old epoch for comparisons, the new one otherwise), 64-bit positions for exactly the
  three databases, and one digest for the ledger and its authority.\<close>

theorem accepted_request_binding:
  assumes "validate_acceptance_request base request operation = Inr v"
  shows "v = request
    \<and> (\<exists>i. fld operation ''id'' = JStr i \<and> hex32 i \<and> fld request ''operation'' = JStr i
         \<and> fld operation ''new_epoch'' = JStr (''d1-'' @ i))
    \<and> fld request ''source'' = fld operation ''source''
    \<and> fld request ''target'' = fld operation ''target''
    \<and> fld request ''epoch'' = fld operation
        (if fld request ''profile'' \<in> {JStr ''comparison'', JStr ''recovery-comparison''}
         then ''source_epoch'' else ''new_epoch'')
    \<and> (\<exists>kvs. fld request ''positions'' = JObj kvs \<and> fst ` set kvs = set DBS)
    \<and> (\<forall>db \<in> set DBS. u64_pos (fld (fld request ''positions'') db))
    \<and> fld (fld (fld (fld request ''inputs'') ''ledger_authority'') ''ledger'') ''sha256''
        = fld (fld request ''inputs'') ''ledger_sha256''"
  using accepted_request [OF assms] accepted_positions [OF assms] by blast

definition ex_id :: string where
  "ex_id = replicate 32 (CHR ''a'')"

definition ex_hex :: string where
  "ex_hex = replicate 64 (CHR ''0'')"

definition ex_operation :: json where
  "ex_operation = JObj [(''id'', JStr ex_id), (''source'', JStr ''A''), (''target'', JStr ''B''),
     (''source_epoch'', JStr ''d1-one''), (''new_epoch'', JStr (''d1-'' @ ex_id))]"

definition ex_positions :: json where
  "ex_positions = JObj [(''main'', JInt 3), (''session'', JInt 4), (''aux'', JInt 5)]"

definition ex_support :: json where
  "ex_support = JObj (map (\<lambda>k. (k, JStr ex_hex)) support_keys)"

definition ex_binaries :: json where
  "ex_binaries = JObj [(''trail'', JStr ex_hex), (''litestream'', JStr ex_hex)]"

definition ex_ledger :: "string \<Rightarrow> json" where
  "ex_ledger name = JObj [(''path'', JStr (path_join (path_join CONTROLLER_ROOT ex_id) name)),
     (''device'', JInt 1), (''inode'', JInt 7), (''mode'', JInt 384), (''uid'', JInt 0),
     (''links'', JInt 1), (''bytes'', JInt 99), (''sha256'', JStr ex_hex)]"

definition ex_inputs :: "json \<Rightarrow> string \<Rightarrow> string \<Rightarrow> json" where
  "ex_inputs positions origin name = JObj [(''replica_config_sha256'', JStr ex_hex),
     (''ledger_sha256'', JStr ex_hex),
     (''ledger_authority'', JObj [(''schema'', JStr AUTHORITY_SCHEMA), (''operation'', JStr ex_id),
        (''origin'', JStr origin), (''ledger'', ex_ledger name), (''support'', ex_support),
        (''binaries'', ex_binaries)]),
     (''restore_points'', JObj (map (\<lambda>db. (db, JObj [(''source'', JStr (depot_database db)),
        (''position'', fld positions db)])) DBS)),
     (''support'', ex_support), (''binaries'', ex_binaries)]"

definition ex_request :: "string \<Rightarrow> string \<Rightarrow> string \<Rightarrow> json \<Rightarrow> string \<Rightarrow> string \<Rightarrow> json" where
  "ex_request phase profile epoch positions origin name = JObj [(''schema'', JStr ACCEPTANCE_SCHEMA),
     (''operation'', JStr ex_id), (''phase'', JStr phase), (''source'', JStr ''A''),
     (''target'', JStr ''B''), (''epoch'', JStr epoch), (''positions'', positions),
     (''profile'', JStr profile), (''inputs'', ex_inputs positions origin name)]"

definition ex_compare :: json where
  "ex_compare = ex_request ''compare'' ''comparison'' ''d1-one'' ex_positions ''d2-preflight'' ''ledger.jsonl''"

lemma ex_id_hex [simp]: "hex32 ex_id" by code_simp
lemma ex_hex_hex [simp]: "hex64 ex_hex" by code_simp

lemma ex_compare_ok: "validate_acceptance_request CONTROLLER_ROOT ex_compare ex_operation = Inr ex_compare"
  by code_simp

theorem accepted_request_binding_witness:
  "fld ex_compare ''source'' = fld ex_operation ''source'' \<and>
   fld ex_compare ''epoch'' = fld ex_operation ''source_epoch''"
  using accepted_request_binding [OF ex_compare_ok]
  by (auto simp: ex_compare_def ex_request_def fld_def)

text \<open>A request is accepted for one operation only: the same bytes cannot serve two operations.\<close>

theorem request_single_operation:
  assumes "validate_acceptance_request base request operation1 = Inr v1"
    and "validate_acceptance_request base' request operation2 = Inr v2"
  shows "fld operation1 ''id'' = fld operation2 ''id''
    \<and> fld operation1 ''new_epoch'' = fld operation2 ''new_epoch''
    \<and> fld operation1 ''source'' = fld operation2 ''source''
    \<and> fld operation1 ''target'' = fld operation2 ''target''"
  using accepted_request(2,3,4) [OF assms(1)] accepted_request(2,3,4) [OF assms(2)] by auto

theorem request_single_operation_witness:
  "fld ex_operation ''id'' = fld ex_operation ''id''"
  using request_single_operation [OF ex_compare_ok ex_compare_ok] by blast

text \<open>C4 An accepted result answers exactly its request: it repeats it, carries the digest of its
  canonical text, has for each of the three databases the requested position, a digest and both
  integrity checks passed, and a signature; outside recovery the two checks are passed.\<close>

theorem accepted_result_binding:
  assumes "validate_acceptance_result base result request operation events = Inr v"
  shows "v = result \<and> validate_acceptance_request base request operation = Inr request
    \<and> py_eq (fld result ''request'') request
    \<and> (\<exists>s. canonical_json request = Inr s \<and> fld result ''request_sha256'' = JStr (sha256_hex s))
    \<and> (\<forall>db \<in> set DBS.
         py_eq (fld (fld (fld result ''databases'') db) ''position'') (fld (fld request ''positions'') db)
         \<and> hex64 (str_val (fld (fld (fld result ''databases'') db) ''sha256''))
         \<and> fld (fld (fld result ''databases'') db) ''integrity'' = JStr ''PASS''
         \<and> fld (fld (fld result ''databases'') db) ''foreign_keys'' = JStr ''PASS''
         \<and> hex64 (str_val (fld (fld result ''signature'') db)))
    \<and> (fld request ''profile'' \<noteq> JStr ''recovery-comparison'' \<longrightarrow>
         py_eq (fld result ''checks'') plain_checks)"
proof (intro conjI ballI impI)
  note r = result_Inr [OF assms]
  show "v = result" "validate_acceptance_request base request operation = Inr request"
    "py_eq (fld result ''request'') request"
    "\<exists>s. canonical_json request = Inr s \<and> fld result ''request_sha256'' = JStr (sha256_hex s)"
    by (rule r)+
  show "fld request ''profile'' \<noteq> JStr ''recovery-comparison'' \<Longrightarrow>
      py_eq (fld result ''checks'') plain_checks" by (rule r)
  fix db assume "db \<in> set DBS"
  then have "database_result_invalid result request db = Inr False" "signature_invalid result db = Inr False"
    using r(5) by blast+
  note i = this [unfolded database_result_invalid_def signature_invalid_def refuse_simps hex64_fails_False]
  show "py_eq (fld (fld (fld result ''databases'') db) ''position'') (fld (fld request ''positions'') db)"
    "hex64 (str_val (fld (fld (fld result ''databases'') db) ''sha256''))"
    "fld (fld (fld result ''databases'') db) ''integrity'' = JStr ''PASS''"
    "fld (fld (fld result ''databases'') db) ''foreign_keys'' = JStr ''PASS''"
    "hex64 (str_val (fld (fld result ''signature'') db))"
    using i by auto
qed

definition ex_result :: "json \<Rightarrow> json \<Rightarrow> json" where
  "ex_result request positions = JObj [(''schema'', JStr ACCEPTANCE_SCHEMA), (''request'', request),
     (''request_sha256'', JStr (sha256_hex (show_json [] (sort_keys request)))),
     (''databases'', JObj (map (\<lambda>db. (db, JObj [(''position'', fld positions db), (''sha256'', JStr ex_hex),
        (''integrity'', JStr ''PASS''), (''foreign_keys'', JStr ''PASS'')])) DBS)),
     (''signature'', JObj (map (\<lambda>db. (db, JStr ex_hex)) DBS)), (''checks'', plain_checks)]"

text \<open>An accepted request of the plain profiles has the accepted result above.\<close>

lemma ex_result_ok:
  assumes r: "validate_acceptance_request base request operation = Inr request" and c: "codable request"
    and p: "fld request ''profile'' \<noteq> JStr ''recovery-comparison''"
      "getitem request ''profile'' = Inr (fld request ''profile'')"
      "getitem request ''positions'' = Inr positions"
      "\<forall>db \<in> set DBS. \<exists>n. getitem positions db = Inr (JInt n) \<and> fld positions db = JInt n"
  shows "validate_acceptance_result base (ex_result request positions) request operation events
    = Inr (ex_result request positions)"
proof -
  have m: "map_of (map (\<lambda>db. (db, f db)) DBS) db = Some (f db)" if "db \<in> set DBS"
    for db and f :: "string \<Rightarrow> json"
    using that by (simp add: map_of_map_restrict)
  have d: "database_result_invalid (ex_result request positions) request db = Inr False" if "db \<in> set DBS" for db
  proof -
    from bspec [OF p(4) that] obtain n
      where "getitem positions db = Inr (JInt n) \<and> fld positions db = JInt n" ..
    then show ?thesis
      using that p(3) m [OF that]
      by (simp add: database_result_invalid_def ex_result_def hex64_fails_def differs_def num_eq_def)
  qed
  have s: "signature_invalid (ex_result request positions) db = Inr False" if "db \<in> set DBS" for db
    using that m [OF that] by (simp add: signature_invalid_def ex_result_def hex64_fails_def)
  have k: "set_is (ex_result request positions) result_keys = Inr True"
    by (auto simp: ex_result_def result_keys_def)
  have ds: "any_of (concat (map (\<lambda>db. [database_result_invalid (ex_result request positions) request db,
      signature_invalid (ex_result request positions) db]) DBS)) = Inr False"
    unfolding any_of_all_False using d s by auto
  have g: "getitem (ex_result request positions) ''schema'' = Inr (JStr ACCEPTANCE_SCHEMA)"
    "getitem (ex_result request positions) ''request'' = Inr request"
    "getitem (ex_result request positions) ''request_sha256'' =
       Inr (JStr (sha256_hex (show_json [] (sort_keys request))))"
    "getitem (ex_result request positions) ''databases'' = Inr (JObj (map (\<lambda>db. (db, JObj
        [(''position'', fld positions db), (''sha256'', JStr ex_hex),
         (''integrity'', JStr ''PASS''), (''foreign_keys'', JStr ''PASS'')])) DBS))"
    "getitem (ex_result request positions) ''signature'' = Inr (JObj (map (\<lambda>db. (db, JStr ex_hex)) DBS))"
    "getitem (ex_result request positions) ''checks'' = Inr plain_checks"
    by (simp_all add: ex_result_def)
  have o: "is_obj (ex_result request positions)" by (simp add: ex_result_def)
  have e: "py_eq plain_checks plain_checks" by (rule py_eq_refl) (simp add: plain_checks_def)
  show ?thesis
    unfolding validate_acceptance_result_def validate_result_inner_def r bindR_simps g ds
    using p c k o e
    by (simp add: differs_def sha_canonical_def image_image py_eq_refl codable_proper del: getitem_eq_Inr)
qed

lemma codable_map: "codable_list (map f xs) \<longleftrightarrow> (\<forall>x \<in> set xs. codable (f x))"
  by (simp add: codable_list_iff)

lemma ex_compare_facts:
  "codable ex_compare" "fld ex_compare ''profile'' \<noteq> JStr ''recovery-comparison''"
  "getitem ex_compare ''profile'' = Inr (fld ex_compare ''profile'')"
  "getitem ex_compare ''positions'' = Inr ex_positions"
  "\<forall>db \<in> set DBS. \<exists>n. getitem ex_positions db = Inr (JInt n) \<and> fld ex_positions db = JInt n"
  by code_simp (simp_all add: ex_compare_def ex_request_def fld_def ex_positions_def DBS_def)

lemmas ex_compare_result = ex_result_ok [OF ex_compare_ok ex_compare_facts]

theorem accepted_result_binding_witness:
  "py_eq (fld (ex_result ex_compare ex_positions) ''checks'') plain_checks"
  using accepted_result_binding [OF ex_compare_result [where events = None]] ex_compare_facts(2) by blast

text \<open>C2 A closed fault ledger that is accepted lists, sorted and without repetition, exactly the
  submitted operations, at most a thousand; every one has exactly one outcome event, and every
  outcome belongs to a submission.\<close>

theorem closed_fault_ledger:
  assumes "fault_operations ledger = Inr ops"
  shows "sorted ops \<and> distinct ops \<and> length ops \<le> 1000
    \<and> set ops = (op_path \<circ> ev_op) ` {e \<in> set (inner ledger). ev_kind e = ''submitted''}
    \<and> (\<forall>e \<in> set (inner ledger). ev_kind e = ''submitted'' \<longrightarrow>
         length (filter (\<lambda>d. ev_op d = ev_op e \<and> ev_kind d \<noteq> ''submitted'') (inner ledger)) = 1)
    \<and> (\<forall>d \<in> set (inner ledger). ev_kind d \<noteq> ''submitted'' \<longrightarrow>
         (\<exists>e \<in> set (inner ledger). ev_kind e = ''submitted'' \<and> ev_op e = ev_op d))"
proof (intro conjI ballI impI)
  note f = fault_operations_Inr [OF assms]
  show "sorted ops" "length ops \<le> 1000" using f(2,7) by simp_all
  have "inj_on op_path (ev_op ` set (inner ledger))" by (rule op_path_inj_on [OF f(6)])
  then have "distinct (map op_path (map ev_op (filter (Not \<circ> is_outcome) (inner ledger))))"
    using f(3) by (simp only: distinct_map) (auto elim: inj_on_subset)
  then show "distinct ops" unfolding f(2) by (simp add: comp_def)
  show "set ops = (op_path \<circ> ev_op) ` {e \<in> set (inner ledger). ev_kind e = ''submitted''}"
    unfolding f(2) by (simp add: is_outcome_def)
  show "length (filter (\<lambda>d. ev_op d = ev_op e \<and> ev_kind d \<noteq> ''submitted'') (inner ledger)) = 1"
    if e: "e \<in> set (inner ledger)" "ev_kind e = ''submitted''" for e
  proof -
    have "ev_op e \<in> ev_op ` {e \<in> set (inner ledger). is_outcome e}"
      unfolding f(5) using e by (auto simp: is_outcome_def)
    then have "ev_op e \<in> set (map ev_op (filter is_outcome (inner ledger)))" by auto
    then have "length (filter (\<lambda>k. k = ev_op e) (map ev_op (filter is_outcome (inner ledger)))) = 1"
      using f(4) by (metis One_nat_def distinct_count_one)
    then show ?thesis
      by (simp add: filter_map comp_def is_outcome_def conj_commute)
  qed
  show "\<exists>e \<in> set (inner ledger). ev_kind e = ''submitted'' \<and> ev_op e = ev_op d"
    if d: "d \<in> set (inner ledger)" "ev_kind d \<noteq> ''submitted''" for d
  proof -
    have "ev_op d \<in> ev_op ` {e \<in> set (inner ledger). \<not> is_outcome e}"
      unfolding f(5) [symmetric] using d by (auto simp: is_outcome_def)
    then show ?thesis by (auto simp: is_outcome_def)
  qed
qed

definition ex_event :: "string \<Rightarrow> string \<Rightarrow> int \<Rightarrow> (string \<times> json) list \<Rightarrow> json" where
  "ex_event kind key t extra = JObj ([(''event'', JStr kind), (''api'', JStr ''main_ops''),
     (''row'', JObj [(''op_key'', JStr (''d3-'' @ key)), (''payload'', JStr ''p'')]), (''time_ns'', JInt t)] @ extra)"

definition ex_ledger_events :: json where
  "ex_ledger_events = JArr
    [JObj [(''event'', JStr ''start''), (''run_id'', JStr (''d3-'' @ ex_id)), (''source_epoch'', JStr ''d1-one''),
       (''time_ns'', JInt 1), (''utc'', JStr ''2024-02-29T00:00:00Z'')],
     ex_event ''submitted'' ''x'' 2 [], ex_event ''submitted'' ''y'' 3 [],
     ex_event ''acknowledged'' ''y'' 4 [(''id'', JInt 12)], ex_event ''uncertain'' ''x'' 5 [],
     JObj ([(''event'', JStr ''stop''), (''submitted'', JInt 2), (''acknowledged'', JInt 1),
       (''rejected'', JInt 0), (''uncertain'', JInt 1), (''time_ns'', JInt 6),
       (''utc'', JStr ''2024-02-29T00:00:01Z'')])]"

lemma ex_ledger_ok: "fault_operations ex_ledger_events = Inr [''main_ops/d3-x'', ''main_ops/d3-y'']"
  by code_simp

theorem closed_fault_ledger_witness:
  "distinct [''main_ops/d3-x'', ''main_ops/d3-y'']"
  using closed_fault_ledger [OF ex_ledger_ok] by blast

text \<open>C1 Acknowledged operations are never lost: when the outcomes reported for a recovery image are
  accepted against the fault ledger, every operation the service acknowledged before the fault is in
  the category of recovered operations, and none is listed as lost.\<close>

theorem acknowledged_never_lost:
  assumes "validate_fault_outcomes outs ledger = Inr v"
  shows "(\<forall>e \<in> set (inner ledger). ev_kind e = ''acknowledged'' \<longrightarrow>
      in_category outs ''recovered'' (op_path (ev_op e))) \<and> \<not> in_category outs ''lost'' s"
proof (intro conjI ballI impI)
  show "in_category outs ''recovered'' (op_path (ev_op e))"
    if "e \<in> set (inner ledger)" "ev_kind e = ''acknowledged''" for e
    using acknowledged_in_recovered [OF assms that] .
  show "\<not> in_category outs ''lost'' s"
    using fault_outcomes_Inr [OF assms] binding_ok(2) by metis
qed

definition ex_outcomes :: json where
  "ex_outcomes = JObj [(''recovered'', JArr [JStr ''main_ops/d3-y'']), (''lost'', JArr []),
     (''ambiguous'', JArr [JStr ''main_ops/d3-x'']), (''unacknowledged_recovered'', JArr []),
     (''rejected'', JArr [])]"

lemma ex_outcomes_ok: "validate_fault_outcomes ex_outcomes ex_ledger_events = Inr ex_outcomes"
  by code_simp

theorem acknowledged_never_lost_witness:
  "in_category ex_outcomes ''recovered'' ''main_ops/d3-y''"
  using acknowledged_never_lost [OF ex_outcomes_ok]
  by (auto simp: inner_def ex_ledger_events_def ev_kind_def ev_op_def ex_event_def fld_def op_path_def)

end
