(* ===== verification/D3_Proof.thy ===== *)
theory D3_Proof
  imports Acceptance_Facts
begin

text \<open>
  \<open>hat/control.py\<close>, the two validators that stand between recovery evidence and the journal:
  \<open>_validate_d3_proof\<close> on the ten verified phases of a B-to-A recovery, and
  \<open>_validate_rejoin_boot_boundary\<close> on the reconciled boot. With \<open>validate_cut\<close> of
  \<open>hat/transition.py\<close>, which both rest on.
\<close>

definition validate_cut :: "json \<Rightarrow> unit res" where
  "validate_cut c = refuse_if [Inr (\<not> is_obj c), notR (set_is c DBS), some_not_u64 c] (Inr ())"

text \<open>\<open>set(a) == set(b)\<close> and \<open>any(a[db] <= b[db] for db in a)\<close>.\<close>

definition same_keys :: "json \<Rightarrow> json \<Rightarrow> bool res" where
  "same_keys a b = bindR (elems_of a) (\<lambda>x. bindR (elems_of b) (\<lambda>y. Inr (set x = set y)))"

definition some_not_beyond :: "json \<Rightarrow> json \<Rightarrow> bool res" where
  "some_not_beyond a b = bindR (items_of a) (\<lambda>kvs.
     any_of (map (\<lambda>(db, x). itm b db (\<lambda>y. py_le x y)) kvs))"

text \<open>The local function \<open>report\<close>.\<close>

definition d3_report ::
  "json \<Rightarrow> json \<Rightarrow> string \<Rightarrow> string \<Rightarrow> json \<Rightarrow> json option \<Rightarrow> json res" where
  "d3_report operation v phase profile epoch positions =
     refuse_if [Inr (\<not> is_obj v), notR (set_is v result_keys)]
     (itm v ''request'' (\<lambda>request.
     bindR (validate_acceptance_result CONTROLLER_ROOT v request operation None) (\<lambda>_.
     refuse_if [item_not request ''phase'' phase, item_not request ''profile'' profile,
         itm request ''epoch'' (\<lambda>e. differs e epoch),
         (case positions of None \<Rightarrow> Inr False
          | Some ps \<Rightarrow> itm request ''positions'' (\<lambda>q. differs q ps))]
     (Inr v))))"

definition d3_verified :: "json \<Rightarrow> json \<Rightarrow> json \<Rightarrow> unit res" where
  "d3_verified operation evidence baseline =
     itm evidence ''route'' (\<lambda>route. itm evidence ''verify'' (\<lambda>verification.
     refuse_if
       [Inr (\<not> is_obj route), got_not route ''writer'' ''A'',
        got route ''epoch'' (\<lambda>e. itm operation ''new_epoch'' (\<lambda>n. differs e n)),
        bindR (get_or route ''config_sha'' (JStr [])) hex64_fails,
        Inr (\<not> is_obj verification), got_not verification ''writer'' ''A'',
        got verification ''epoch'' (\<lambda>e. itm operation ''new_epoch'' (\<lambda>n. differs e n))]
     (itm verification ''positions'' (\<lambda>positions. bindR (validate_cut positions) (\<lambda>_.
     itm verification ''new_writes'' (\<lambda>w. itm operation ''new_epoch'' (\<lambda>ne.
     bindR (d3_report operation w ''new-writes'' ''fresh-writes'' ne (Some positions)) (\<lambda>_.
     itm baseline ''request'' (\<lambda>br. itm br ''positions'' (\<lambda>bp.
     refuse_if [some_not_beyond positions bp]
     (Inr ())))))))))))"

definition d3_proof_inner :: "json \<Rightarrow> json \<Rightarrow> bool \<Rightarrow> unit res" where
  "d3_proof_inner operation evidence verified =
     refuse_if [Inr (\<not> is_obj evidence), item_not operation ''source'' ''B'',
         item_not operation ''target'' ''A'']
     (itm evidence ''select_cut'' (\<lambda>sc. itm sc ''positions'' (\<lambda>selected.
     bindR (validate_cut selected) (\<lambda>_.
     itm evidence ''restore'' (\<lambda>restored. itm restored ''cut'' (\<lambda>rcut. bindR (validate_cut rcut) (\<lambda>_.
     refuse_if [itm restored ''signature'' (\<lambda>s. Inr (\<not> is_obj s)),
         itm restored ''signature'' (\<lambda>s. notR (same_keys s selected))]
     (itm evidence ''compare'' (\<lambda>cmp. itm operation ''source_epoch'' (\<lambda>se.
     bindR (d3_report operation cmp ''compare'' ''recovery-comparison'' se (Some selected)) (\<lambda>compared.
     itm evidence ''baseline'' (\<lambda>bl. itm operation ''new_epoch'' (\<lambda>ne.
     bindR (d3_report operation bl ''baseline'' ''baseline'' ne None) (\<lambda>baseline.
     refuse_if [differs rcut selected,
         itm restored ''signature'' (\<lambda>s. itm compared ''signature'' (\<lambda>t. differs s t))]
     (if \<not> verified then Inr () else d3_verified operation evidence baseline)))))))))))))))"

definition validate_d3_proof :: "json \<Rightarrow> json \<Rightarrow> bool \<Rightarrow> unit res" where
  "validate_d3_proof operation evidence verified =
     reraise [KeyError, TypeError, AttributeError, ValueError] RuntimeError
       (d3_proof_inner operation evidence verified)"

section \<open>The reconciled boot\<close>

definition sha_differs :: "json \<Rightarrow> string \<Rightarrow> json \<Rightarrow> bool res" where
  "sha_differs proof k v = itm proof k (\<lambda>x. bindR (sha_canonical v) (\<lambda>h. differs x (JStr h)))"

text \<open>The files are arguments: what reading the marker or the archive returns, if a path is given.\<close>

definition boot_evidence_inner :: "json \<Rightarrow> json \<Rightarrow> string res option \<Rightarrow> unit res" where
  "boot_evidence_inner operation evidence archive =
     bindR (bindR (canonical_json evidence) parse_canonical_json) (\<lambda>v.
     refuse_if [differs v evidence,
         notR (set_is v [''receipt'', ''fresh_provider'', ''cold'', ''reconciliation'', ''a_probe''])]
     (itm v ''reconciliation'' (\<lambda>proof.
     refuse_if
       [Inr (\<not> is_obj proof),
        notR (set_is proof [''operation'', ''action'', ''failure_sha'', ''receipt_sha'', ''cold_sha'']),
        itm proof ''operation'' (\<lambda>x. itm operation ''id'' (\<lambda>i. differs x i)),
        item_not proof ''action'' ''reconcile-rejoin-boot'',
        itm proof ''failure_sha'' hex64_fails,
        itm v ''receipt'' (sha_differs proof ''receipt_sha''),
        itm v ''cold'' (sha_differs proof ''cold_sha'')]
     (case archive of None \<Rightarrow> Inr ()
      | Some bytes \<Rightarrow> refuse_if [itm proof ''failure_sha'' (\<lambda>x. bindR bytes
            (\<lambda>b. differs x (JStr (sha256_hex b))))] (Inr ())))))"

definition boot_marker_inner :: "json \<Rightarrow> string res option \<Rightarrow> string res option \<Rightarrow> unit res" where
  "boot_marker_inner operation marker archive =
     bindR (bindR (case marker of Some m \<Rightarrow> m | None \<Rightarrow> Inl TypeError) parse_canonical_json) (\<lambda>proof.
     refuse_if
       [got proof ''operation'' (\<lambda>x. itm operation ''id'' (\<lambda>i. differs x i)),
        got_not proof ''action'' ''reconcile-rejoin-boot'',
        got proof ''failure_sha'' (\<lambda>x.
          bindR (case archive of Some a \<Rightarrow> a | None \<Rightarrow> Inl TypeError)
            (\<lambda>b. differs x (JStr (sha256_hex b))))]
     (Inr ()))"

definition validate_rejoin_boot_boundary ::
  "json \<Rightarrow> json \<Rightarrow> json option \<Rightarrow> string res option \<Rightarrow> string res option \<Rightarrow> unit res" where
  "validate_rejoin_boot_boundary operation prev evidence marker archive =
     bindR (validate_d3_proof operation prev True) (\<lambda>_.
     bindR (case evidence of None \<Rightarrow> Inr ()
            | Some e \<Rightarrow> reraise [TypeError, ValueError, OSError, KeyError] RuntimeError
                (boot_evidence_inner operation e archive)) (\<lambda>_.
     if marker \<noteq> None \<or> archive \<noteq> None
     then reraise [TypeError, ValueError, OSError, KeyError] RuntimeError
            (boot_marker_inner operation marker archive)
     else Inr ()))"

section \<open>What an accepted proof establishes\<close>

lemma validate_cut_Inr: "validate_cut c = Inr u \<longleftrightarrow>
    is_obj c \<and> set_is c DBS = Inr True \<and> some_not_u64 c = Inr False"
  by (auto simp: validate_cut_def refuse_simps notR_eq)

lemma validate_cut_u64: "validate_cut c = Inr u \<Longrightarrow> db \<in> set DBS \<Longrightarrow> u64_pos (fld c db)"
  using u64_values by (auto simp: validate_cut_Inr)

lemma d3_report_Inr:
  assumes "d3_report operation v phase profile epoch positions = Inr w"
  shows "w = v" "validate_acceptance_result CONTROLLER_ROOT v (fld v ''request'') operation None = Inr v"
    "fld (fld v ''request'') ''phase'' = JStr phase" "fld (fld v ''request'') ''profile'' = JStr profile"
    "py_eq (fld (fld v ''request'') ''epoch'') epoch"
    "positions = Some ps \<Longrightarrow> py_eq (fld (fld v ''request'') ''positions'') ps"
proof -
  note inv = assms [unfolded d3_report_def refuse_simps bindR_eq_Inr [of "validate_acceptance_result _ _ _ _ _"]]
  then obtain u where u: "validate_acceptance_result CONTROLLER_ROOT v (fld v ''request'') operation None = Inr u"
    by blast
  then show "validate_acceptance_result CONTROLLER_ROOT v (fld v ''request'') operation None = Inr v"
    using result_Inr(1) by metis
  show "w = v" "fld (fld v ''request'') ''phase'' = JStr phase" "fld (fld v ''request'') ''profile'' = JStr profile"
    "py_eq (fld (fld v ''request'') ''epoch'') epoch"
    using inv by auto
  show "py_eq (fld (fld v ''request'') ''positions'') ps" if "positions = Some ps"
    using inv that by (auto simp: itm_Inr differs_False simp del: getitem_eq_Inr)
qed

lemma three_caught [simp]:
  "caught [KeyError, TypeError, AttributeError, ValueError] e \<longleftrightarrow>
     isa e KeyError \<or> isa e TypeError \<or> isa e AttributeError \<or> isa e ValueError"
  by simp

lemma d3_proof_raises: "raises [RuntimeError] (validate_d3_proof operation evidence verified)"
proof -
  have cut: "raises [KeyError, TypeError, AttributeError, ValueError] (validate_cut c)" for c
    unfolding validate_cut_def some_not_u64_def by (intro raises_intros) simp_all
  have rep: "raises [KeyError, TypeError, AttributeError, ValueError] (d3_report op v ph pr ep ps)"
    for op v ph pr ep ps
    unfolding d3_report_def hex64_fails_def
    by (intro raises_intros raises_mono [OF result_raises]) simp_all
  have "raises [KeyError, TypeError, AttributeError, ValueError] (d3_proof_inner operation evidence verified)"
    unfolding d3_proof_inner_def d3_verified_def same_keys_def some_not_beyond_def hex64_fails_def
    by (intro raises_intros cut rep) simp_all
  from raises_reraise [OF this] show ?thesis unfolding validate_d3_proof_def .
qed

end
