(* ===== verification/Journal.thy ===== *)
theory Journal
  imports D3_Proof
begin

text \<open>
  \<open>hat/control.py\<close>, class \<open>Journal\<close>: the locked controller's durable record of one operation at a
  time. The database is its two tables, held twice: what is durable (\<open>disk\<close>) and what the open
  transaction sees (\<open>work\<close>). A commit may fail before, during or after it becomes durable, at any
  commit of any run: the field \<open>fault\<close> says for the n-th commit and its label, as the crash seams
  \<open>_before_commit\<close> and \<open>_after_commit\<close> allow. The record is extensible, so that the drivers'
  worlds extend it and their actions run inside \<open>step\<close>.
\<close>

section \<open>Phases\<close>

definition PHASES :: "string list" where
  "PHASES = [''preflight'', ''close_ingress'', ''quiesce'', ''fence'', ''freeze'',
     ''compare'', ''activate'', ''baseline'', ''route'', ''verify'']"

definition D3_PHASES :: "string list" where
  "D3_PHASES = [''preflight'', ''close_ingress'', ''fence'', ''select_cut'', ''restore'',
     ''compare'', ''activate'', ''baseline'', ''route'', ''verify'',
     ''rejoin_boot'', ''rejoin'', ''verify_redundancy'']"

definition RESTORE_CONTRACT :: string where
  "RESTORE_CONTRACT = ''hat-restore-acceptance-1''"

definition LEGACY_RESTORE_CONTRACT :: string where
  "LEGACY_RESTORE_CONTRACT = ''legacy''"

definition phase_plan :: "string \<Rightarrow> string \<Rightarrow> string list res" where
  "phase_plan source target =
     (if (source, target) = (''A'', ''B'') then Inr PHASES
      else if (source, target) = (''B'', ''A'') then Inr D3_PHASES else Inl ValueError)"

section \<open>State\<close>

datatype status = Intent | Done

record op_row =
  r_id :: string
  r_source :: string
  r_target :: string
  r_source_epoch :: string
  r_new_epoch :: string
  r_complete :: bool
  r_contract :: string

record step_row =
  s_op :: string
  s_pos :: nat
  s_phase :: string
  s_status :: status
  s_evidence :: string

record db =
  ops :: "op_row list"
  steps :: "step_row list"

datatype file_kind = Regular | Directory | Symlink

record file_stat =
  f_kind :: file_kind
  f_uid :: nat
  f_mode :: nat
  f_nlink :: nat
  f_id :: "nat \<times> nat"
  f_bytes :: string

record operation =
  o_id :: string
  o_source :: string
  o_target :: string
  o_source_epoch :: string
  o_new_epoch :: string

datatype fault = NoFault | FailBefore exn | FailCommit exn | FailAfter exn

record journal =
  disk :: db
  work :: db
  oper :: "operation option"
  nxt :: nat
  pending :: bool
  lock :: "(nat \<times> nat) option"
  opened :: bool
  directory_identity :: "nat \<times> nat"
  database_identity :: "nat \<times> nat"
  files :: "string \<Rightarrow> file_stat option"
  base :: string
  euid :: nat
  uuids :: "nat \<Rightarrow> string"
  drawn :: nat
  fault :: "nat \<Rightarrow> string \<Rightarrow> fault"
  commits :: nat

definition op_json :: "operation \<Rightarrow> json" where
  "op_json o' = JObj [(''id'', JStr (o_id o')), (''source'', JStr (o_source o')),
     (''target'', JStr (o_target o')), (''source_epoch'', JStr (o_source_epoch o')),
     (''new_epoch'', JStr (o_new_epoch o'))]"

section \<open>Files and the lock\<close>

definition lstat :: "string \<Rightarrow> 'w journal_scheme \<Rightarrow> file_stat res" where
  "lstat path s = (case files s path of None \<Rightarrow> Inl FileNotFoundError | Some f \<Rightarrow> Inr f)"

text \<open>\<open>private_file\<close>: mode \<open>0o077\<close> is the low six bits.\<close>

definition private_file :: "string \<Rightarrow> 'w journal_scheme \<Rightarrow> (nat \<times> nat) res" where
  "private_file path s = bindR (lstat path s) (\<lambda>f.
     if f_kind f \<noteq> Regular \<or> f_uid f \<noteq> euid s \<or> f_mode f mod 64 \<noteq> 0 \<or> f_nlink f \<noteq> 1
     then Inl ValueError else Inr (f_id f))"

definition read_bytes :: "string \<Rightarrow> 'w journal_scheme \<Rightarrow> string res" where
  "read_bytes path s = bindR (lstat path s) (\<lambda>f.
     if f_kind f = Regular then Inr (f_bytes f) else Inl OSError)"

definition under :: "string \<Rightarrow> 'w journal_scheme \<Rightarrow> string" where
  "under name s = path_join (base s) name"

definition check_authority :: "('w journal_scheme, unit) prog" where
  "check_authority s = (if lock s = None \<or> \<not> opened s then Inl RuntimeError
     else bindR (lstat (base s) s) (\<lambda>f.
       raise_if (any_of
         [Inr (f_id f \<noteq> directory_identity s),
          mapR (\<lambda>i. Some i \<noteq> lock s) (private_file (under ''controller.lock'' s) s),
          mapR (\<lambda>i. i \<noteq> database_identity s) (private_file (under ''journal.db'' s) s)])
         RuntimeError (Inr ())), s)"

section \<open>Statements on the database\<close>

definition rollback :: "('w journal_scheme, unit) prog" where
  "rollback = modify (\<lambda>s. s\<lparr>work := disk s\<rparr>)"

definition commit :: "string \<Rightarrow> ('w journal_scheme, unit) prog" where
  "commit label s = (let s1 = s\<lparr>commits := Suc (commits s)\<rparr> in case fault s (commits s) label of
       NoFault \<Rightarrow> (Inr (), s1\<lparr>disk := work s\<rparr>)
     | FailBefore e \<Rightarrow> (Inl e, s1)
     | FailCommit e \<Rightarrow> (Inl e, s1)
     | FailAfter e \<Rightarrow> (Inl e, s1\<lparr>disk := work s\<rparr>))"

definition transaction ::
  "('w journal_scheme, unit) prog \<Rightarrow> string \<Rightarrow> ('w journal_scheme, unit) prog" where
  "transaction m label = on_exn (seqP m (commit label)) (\<lambda>e. seqP rollback (raiseP e))"

text \<open>The constraints of the schema: the primary key, the unique new epoch and the partial unique
  index on unfinished operations; the primary key and the foreign key of the steps.\<close>

definition insert_op :: "op_row \<Rightarrow> ('w journal_scheme, unit) prog" where
  "insert_op r s = (if list_ex (\<lambda>q. r_id q = r_id r \<or> r_new_epoch q = r_new_epoch r
         \<or> (\<not> r_complete q \<and> \<not> r_complete r)) (ops (work s))
     then (Inl IntegrityError, s)
     else (Inr (), s\<lparr>work := (work s)\<lparr>ops := ops (work s) @ [r]\<rparr>\<rparr>))"

definition insert_step :: "step_row \<Rightarrow> ('w journal_scheme, unit) prog" where
  "insert_step r s = (if list_ex (\<lambda>q. s_op q = s_op r \<and> s_pos q = s_pos r \<and> s_status q = s_status r)
           (steps (work s)) \<or> \<not> list_ex (\<lambda>q. r_id q = s_op r) (ops (work s))
     then (Inl IntegrityError, s)
     else (Inr (), s\<lparr>work := (work s)\<lparr>steps := steps (work s) @ [r]\<rparr>\<rparr>))"

definition find_op :: "string \<Rightarrow> db \<Rightarrow> op_row option" where
  "find_op i d = find (\<lambda>r. r_id r = i) (ops d)"

definition steps_of :: "string \<Rightarrow> db \<Rightarrow> step_row list" where
  "steps_of i d = filter (\<lambda>r. s_op r = i) (steps d)"

definition step_key :: "step_row \<Rightarrow> nat \<times> string \<times> status" where
  "step_key r = (s_pos r, s_phase r, s_status r)"

definition both :: "nat \<Rightarrow> string \<Rightarrow> (nat \<times> string \<times> status) list" where
  "both i p = [(i, p, Intent), (i, p, Done)]"

text \<open>\<open>[(i,p,s) for i,p in enumerate(plan) for s in ('intent','done')]\<close>.\<close>

definition interleaved :: "nat \<Rightarrow> string list \<Rightarrow> (nat \<times> string \<times> status) list" where
  "interleaved k ps = concat (map (\<lambda>(i, p). both i p) (zip [k..<k + length ps] ps))"

section \<open>Beginning an operation\<close>

definition uuid4 :: "('w journal_scheme, string) prog" where
  "uuid4 s = (Inr (uuids s (drawn s)), s\<lparr>drawn := Suc (drawn s)\<rparr>)"

definition unfinished :: "db \<Rightarrow> bool" where
  "unfinished d \<longleftrightarrow> list_ex (\<lambda>r. \<not> r_complete r) (ops d)"

definition op_row_of :: "operation \<Rightarrow> op_row" where
  "op_row_of q = \<lparr>r_id = o_id q, r_source = o_source q, r_target = o_target q,
     r_source_epoch = o_source_epoch q, r_new_epoch = o_new_epoch q, r_complete = False,
     r_contract = RESTORE_CONTRACT\<rparr>"

definition begin_op :: "string \<Rightarrow> string \<Rightarrow> json \<Rightarrow> ('w journal_scheme, operation) prog" where
  "begin_op source target source_epoch =
     seqP check_authority
     (seqP (lift (phase_plan source target))
     (seqP (raise_when (\<lambda>_. Inr (\<not> str_and source_epoch epoch_plus)) ValueError)
     (seqP (raise_when (\<lambda>s. Inr (oper s \<noteq> None \<or> unfinished (work s))) RuntimeError)
     (bindP uuid4 (\<lambda>i.
       let q = \<lparr>o_id = i, o_source = source, o_target = target,
                o_source_epoch = str_val source_epoch, o_new_epoch = ''d1-'' @ i\<rparr> in
       seqP (transaction (insert_op (op_row_of q)) ''begin'')
       (seqP (modify (\<lambda>s. s\<lparr>oper := Some q, nxt := 0, pending := False\<rparr>))
       (ret q)))))))"

section \<open>A step\<close>

definition step_row_at :: "operation \<Rightarrow> nat \<Rightarrow> string \<Rightarrow> status \<Rightarrow> string \<Rightarrow> step_row" where
  "step_row_at q n phase st evidence =
     \<lparr>s_op = o_id q, s_pos = n, s_phase = phase, s_status = st, s_evidence = evidence\<rparr>"

text \<open>The guard of \<open>step\<close>; \<open>finish\<close> shares its first part.\<close>

definition current_row :: "'w journal_scheme \<Rightarrow> op_row option" where
  "current_row s = (case oper s of None \<Rightarrow> None | Some q \<Rightarrow> find_op (o_id q) (work s))"

definition current_plan :: "'w journal_scheme \<Rightarrow> string list res" where
  "current_plan s = (case current_row s of None \<Rightarrow> Inr []
     | Some r \<Rightarrow> if r_complete r then Inr [] else phase_plan (r_source r) (r_target r))"

definition row_differs :: "'w journal_scheme \<Rightarrow> bool" where
  "row_differs s \<longleftrightarrow> (case (oper s, current_row s) of
     (Some q, Some r) \<Rightarrow> (r_source r, r_target r) \<noteq> (o_source q, o_target q)
        \<or> r_contract r \<noteq> RESTORE_CONTRACT
   | _ \<Rightarrow> True)"

definition step_refused :: "string \<Rightarrow> 'w journal_scheme \<Rightarrow> bool res" where
  "step_refused phase s = mapR (\<lambda>plan. row_differs s \<or> pending s \<or> length plan \<le> nxt s
     \<or> plan ! nxt s \<noteq> phase) (current_plan s)"

definition record_step :: "string \<Rightarrow> status \<Rightarrow> string \<Rightarrow> string \<Rightarrow> ('w journal_scheme, unit) prog" where
  "record_step phase st evidence label = bindP (gets (\<lambda>s. (oper s, nxt s))) (\<lambda>(q, n).
     case q of None \<Rightarrow> raiseP TypeError
     | Some q' \<Rightarrow> transaction (insert_step (step_row_at q' n phase st evidence)) (label @ phase))"

definition step :: "string \<Rightarrow> ('w journal_scheme, json) prog \<Rightarrow> ('w journal_scheme, json) prog" where
  "step phase action =
     seqP check_authority
     (seqP (raise_when (step_refused phase) RuntimeError)
     (seqP (modify (\<lambda>s. s\<lparr>pending := True\<rparr>))
     (seqP (record_step phase Intent ''{}'' ''step-intent:'')
     (bindP action (\<lambda>result.
     seqP check_authority
     (bindP (lift (dumps result)) (\<lambda>evidence.
     seqP (record_step phase Done evidence ''step-done:'')
     (seqP (modify (\<lambda>s. s\<lparr>nxt := Suc (nxt s), pending := False\<rparr>))
     (ret result)))))))))"

section \<open>Boundaries and reconciliation\<close>

definition op_of_row :: "op_row \<Rightarrow> operation" where
  "op_of_row r = \<lparr>o_id = r_id r, o_source = r_source r, o_target = r_target r,
     o_source_epoch = r_source_epoch r, o_new_epoch = r_new_epoch r\<rparr>"

definition unfinished_row :: "string \<Rightarrow> db \<Rightarrow> op_row option" where
  "unfinished_row i d = (case find_op i d of None \<Rightarrow> None | Some r \<Rightarrow> if r_complete r then None else Some r)"

definition done_evidence :: "step_row list \<Rightarrow> json res" where
  "done_evidence rs = reraise [TypeError, ValueError] RuntimeError
     (mapR (\<lambda>kvs. JObj (dict_of kvs))
       (traverse (\<lambda>r. mapR (\<lambda>v. (s_phase r, v)) (loads (s_evidence r)))
         (filter (\<lambda>r. s_status r = Done) rs)))"

definition boundary_value ::
  "json \<Rightarrow> nat \<Rightarrow> string \<times> string \<Rightarrow> db \<Rightarrow> (operation \<times> json) res" where
  "boundary_value ident position direction d =
     (if \<not> str_and ident hex32 then Inl ValueError
      else case unfinished_row (str_val ident) d of
        None \<Rightarrow> Inl RuntimeError
      | Some r \<Rightarrow>
          if (r_source r, r_target r) \<noteq> direction \<or> r_contract r \<noteq> RESTORE_CONTRACT then Inl RuntimeError
          else bindR (phase_plan (r_source r) (r_target r)) (\<lambda>plan.
            if length plan \<le> position then Inl RuntimeError
            else if map step_key (steps_of (r_id r) d)
                \<noteq> interleaved 0 (take position plan) @ [(position, plan ! position, Intent)]
            then Inl RuntimeError
            else mapR (\<lambda>ev. (op_of_row r, ev)) (done_evidence (steps_of (r_id r) d))))"

definition boundary ::
  "json \<Rightarrow> nat \<Rightarrow> string \<times> string \<Rightarrow> ('w journal_scheme, operation \<times> json) prog" where
  "boundary ident position direction =
     seqP check_authority (\<lambda>s. (boundary_value ident position direction (work s), s))"

definition comparison_boundary :: "json \<Rightarrow> ('w journal_scheme, operation \<times> json) prog" where
  "comparison_boundary ident = boundary ident 5 (''A'', ''B'')"

definition verification_boundary :: "json \<Rightarrow> ('w journal_scheme, operation \<times> json) prog" where
  "verification_boundary ident = boundary ident 9 (''A'', ''B'')"

definition resume_at :: "operation \<Rightarrow> nat \<Rightarrow> ('w journal_scheme, unit) prog" where
  "resume_at q n = modify (\<lambda>s. s\<lparr>oper := Some q, nxt := n, pending := False\<rparr>)"

text \<open>No rollback here: the caller leaves the \<open>with\<close> block, which closes the connection.\<close>

definition reconcile_rejoin_boot_done ::
  "json \<Rightarrow> json \<Rightarrow> ('w journal_scheme, operation \<times> json) prog" where
  "reconcile_rejoin_boot_done ident evidence =
     seqP check_authority
     (bindP (boundary ident 10 (''B'', ''A'')) (\<lambda>(q, prev).
     seqP (raise_when (\<lambda>_. Inr (\<not> is_obj evidence \<or> \<not> truthy evidence)) ValueError)
     (seqP (lift (validate_rejoin_boot_boundary (op_json q) prev (Some evidence) None None))
     (bindP (lift (dumps evidence)) (\<lambda>text.
     seqP (insert_step (step_row_at q 10 ''rejoin_boot'' Done text))
     (seqP (commit ''reconcile-rejoin-boot-done'')
     (seqP check_authority
     (seqP (resume_at q 11) (ret (q, prev))))))))))"

definition rejoin_ready :: "bool \<Rightarrow> json \<Rightarrow> 'w journal_scheme \<Rightarrow> (operation \<times> json) res" where
  "rejoin_ready boot_done ident s =
     (if \<not> str_and ident hex32 then Inl ValueError
      else let i = str_val ident; rows = steps_of i (work s);
        expected = interleaved 0 (take 10 D3_PHASES) @
          (if boot_done then both 10 ''rejoin_boot'' else []) in
      case unfinished_row i (work s) of
        None \<Rightarrow> Inl RuntimeError
      | Some r \<Rightarrow>
          if (r_source r, r_target r) \<noteq> (''B'', ''A'') \<or> r_contract r \<noteq> RESTORE_CONTRACT
             \<or> map step_key rows \<noteq> expected
             \<or> list_ex (\<lambda>x. s_status x = Intent \<and> s_evidence x \<noteq> ''{}'') rows
             \<or> files s (path_join (under i s) ''failure.json'') \<noteq> None
          then Inl RuntimeError
          else mapR (\<lambda>ev. (op_of_row r, ev)) (done_evidence rows))"

definition rejoin_proof :: "bool \<Rightarrow> operation \<Rightarrow> json \<Rightarrow> 'w journal_scheme \<Rightarrow> unit res" where
  "rejoin_proof boot_done q prev s =
     (if boot_done
      then let dir = under (o_id q) s;
               marker = path_join dir ''reconciliation-rejoin-boot.json'';
               archive = path_join dir ''failure.before-reconciliation-rejoin-boot.json'' in
        bindR (private_file marker s) (\<lambda>_. bindR (private_file archive s) (\<lambda>_.
          validate_rejoin_boot_boundary (op_json q) prev None
            (Some (read_bytes marker s)) (Some (read_bytes archive s))))
      else validate_rejoin_boot_boundary (op_json q) prev None None None)"

definition continue_rejoin :: "json \<Rightarrow> bool \<Rightarrow> ('w journal_scheme, operation \<times> json) prog" where
  "continue_rejoin ident boot_done =
     seqP check_authority
     (seqP (raise_when (\<lambda>s. Inr (oper s \<noteq> None)) RuntimeError)
     (bindP (\<lambda>s. (rejoin_ready boot_done ident s, s)) (\<lambda>(q, prev).
     seqP (\<lambda>s. (rejoin_proof boot_done q prev s, s))
     (seqP (resume_at q (if boot_done then 11 else 10)) (ret (q, prev))))))"

definition verification_differs :: "json \<Rightarrow> json \<Rightarrow> json \<Rightarrow> bool res" where
  "verification_differs opj prev result =
     itm result ''baseline_recheck'' (\<lambda>bl. itm result ''new_writes'' (\<lambda>fresh.
     itm prev ''baseline'' (\<lambda>expected. itm expected ''request'' (\<lambda>er. itm er ''positions'' (\<lambda>ep.
     itm bl ''request'' (\<lambda>br. itm fresh ''request'' (\<lambda>fr. any_of
       [item_not result ''writer'' ''B'',
        itm result ''epoch'' (\<lambda>e. itm opj ''new_epoch'' (\<lambda>n. differs e n)),
        got_not br ''phase'' ''verification-baseline'',
        got br ''source'' (\<lambda>x. itm opj ''source'' (\<lambda>y. differs x y)),
        got br ''target'' (\<lambda>x. itm opj ''target'' (\<lambda>y. differs x y)),
        got_not br ''profile'' ''baseline'',
        got br ''epoch'' (\<lambda>x. itm opj ''new_epoch'' (\<lambda>y. differs x y)),
        got br ''positions'' (\<lambda>x. differs x ep),
        got bl ''signature'' (\<lambda>x. itm expected ''signature'' (\<lambda>y. differs x y)),
        got_not fr ''phase'' ''new-writes'',
        got fr ''source'' (\<lambda>x. itm opj ''source'' (\<lambda>y. differs x y)),
        got fr ''target'' (\<lambda>x. itm opj ''target'' (\<lambda>y. differs x y)),
        got_not fr ''profile'' ''fresh-writes'',
        got fr ''epoch'' (\<lambda>x. itm opj ''new_epoch'' (\<lambda>y. differs x y)),
        got fr ''positions'' (\<lambda>x. itm result ''positions'' (\<lambda>y. differs x y)),
        bindR (items_of ep) (\<lambda>kvs. any_of (map (\<lambda>(db, p). itm result ''positions''
           (\<lambda>ps. itm ps db (\<lambda>x. py_le x p))) kvs))])))))))"

definition verification_accepted :: "json \<Rightarrow> json \<Rightarrow> json \<Rightarrow> unit res" where
  "verification_accepted opj prev result =
     refuse_if [Inr (\<not> is_obj result), notR (set_is result
         [''writer'', ''epoch'', ''positions'', ''baseline_recheck'', ''new_writes''])]
     (itm result ''positions'' (\<lambda>ps. bindR (validate_cut ps) (\<lambda>_.
     itm result ''baseline_recheck'' (\<lambda>bl. itm result ''new_writes'' (\<lambda>fresh.
     refuse_if [Inr (\<not> is_obj bl), got bl ''request'' (\<lambda>r. Inr (\<not> is_obj r)),
         Inr (\<not> is_obj fresh), got fresh ''request'' (\<lambda>r. Inr (\<not> is_obj r))]
     (itm bl ''request'' (\<lambda>br.
     bindR (validate_acceptance_result CONTROLLER_ROOT bl br opj None) (\<lambda>_.
     itm fresh ''request'' (\<lambda>fr.
     bindR (validate_acceptance_result CONTROLLER_ROOT fresh fr opj None) (\<lambda>_.
     refuse_if [verification_differs opj prev result] (Inr ())))))))))))"

definition accept_verification :: "json \<Rightarrow> json \<Rightarrow> ('w journal_scheme, unit) prog" where
  "accept_verification ident result =
     bindP (verification_boundary ident) (\<lambda>(q, prev).
     seqP (lift (verification_accepted (op_json q) prev result))
     (bindP (lift (dumps result)) (\<lambda>text.
     seqP (transaction (insert_step (step_row_at q 9 ''verify'' Done text)) ''accept-verification-done'')
     (resume_at q 10))))"

definition comparison_accepted :: "json \<Rightarrow> json \<Rightarrow> json \<Rightarrow> unit res" where
  "comparison_accepted opj prev result =
     got result ''request'' (\<lambda>request.
     bindR (validate_acceptance_result CONTROLLER_ROOT result request opj None) (\<lambda>_.
     itm prev ''freeze'' (\<lambda>frozen.
     refuse_if
       [itm result ''request'' (\<lambda>r. itm r ''positions'' (\<lambda>ps. itm frozen ''cut'' (\<lambda>c. differs ps c))),
        got result ''signature'' (\<lambda>sg. itm frozen ''signature'' (\<lambda>t. differs sg t)),
        bindR (get_or result ''checks'' (JObj [])) (\<lambda>c. got_not c ''records'' ''PASS''),
        bindR (get_or result ''checks'' (JObj [])) (\<lambda>c. got_not c ''authentication'' ''PASS'')]
     (Inr ()))))"

definition accept_comparison :: "json \<Rightarrow> json \<Rightarrow> ('w journal_scheme, unit) prog" where
  "accept_comparison ident result =
     bindP (comparison_boundary ident) (\<lambda>(q, prev).
     seqP (lift (comparison_accepted (op_json q) prev result))
     (bindP (lift (dumps result)) (\<lambda>text.
     seqP (transaction (insert_step (step_row_at q 5 ''compare'' Done text)) ''accept-comparison-done'')
     (resume_at q 6))))"

section \<open>Finishing\<close>

definition finish_refused :: "'w journal_scheme \<Rightarrow> bool res" where
  "finish_refused s = mapR (\<lambda>plan. row_differs s \<or> pending s \<or> nxt s \<noteq> length plan
     \<or> (case oper s of None \<Rightarrow> True
        | Some q \<Rightarrow> map step_key (steps_of (o_id q) (work s)) \<noteq> interleaved 0 plan)) (current_plan s)"

definition hit :: "string \<Rightarrow> op_row \<Rightarrow> bool" where
  "hit i r \<longleftrightarrow> r_id r = i \<and> r_contract r = RESTORE_CONTRACT"

definition mark_complete :: "string \<Rightarrow> op_row \<Rightarrow> op_row" where
  "mark_complete i r = (if hit i r then r\<lparr>r_complete := True\<rparr> else r)"

definition complete_op :: "string \<Rightarrow> ('w journal_scheme, unit) prog" where
  "complete_op i s =
     ((if length (filter (hit i) (ops (work s))) \<noteq> 1 then Inl RuntimeError else Inr ()),
      s\<lparr>work := (work s)\<lparr>ops := map (mark_complete i) (ops (work s))\<rparr>\<rparr>)"

definition finish :: "('w journal_scheme, unit) prog" where
  "finish =
     seqP check_authority
     (seqP (raise_when finish_refused RuntimeError)
     (bindP (gets oper) (\<lambda>q.
     seqP (transaction (complete_op (case q of Some q' \<Rightarrow> o_id q' | None \<Rightarrow> [])) ''finish'')
     (modify (\<lambda>s. s\<lparr>oper := None\<rparr>)))))"

text \<open>\<open>__exit__\<close>: closing the connection discards the open transaction and the lock.\<close>

definition exit_journal :: "('w journal_scheme, unit) prog" where
  "exit_journal = modify (\<lambda>s. s\<lparr>work := disk s, opened := False, lock := None\<rparr>)"

end
