(* ===== verification/Journal_Facts.thy ===== *)
theory Journal_Facts
  imports Journal
begin

text \<open>
  The journal's invariant and its specification. \<open>db_ok\<close> says what the two tables can look like,
  \<open>mem_ok\<close> how the controller's memory relates to them, \<open>spec_step\<close> what may happen to the durable
  record; every operation of \<open>Journal\<close> keeps the first two and follows the third, whatever fault
  strikes at whatever commit.
\<close>

section \<open>The invariant\<close>

definition append_step :: "db \<Rightarrow> step_row \<Rightarrow> db" where
  "append_step d x = d\<lparr>steps := steps d @ [x]\<rparr>"

definition add_op :: "db \<Rightarrow> op_row \<Rightarrow> db" where
  "add_op d r = d\<lparr>ops := ops d @ [r]\<rparr>"

definition progress :: "db \<Rightarrow> string \<Rightarrow> nat" where
  "progress d i = length (steps_of i d)"

definition steps_ok :: "db \<Rightarrow> op_row \<Rightarrow> bool" where
  "steps_ok d r \<longleftrightarrow> (\<exists>plan. phase_plan (r_source r) (r_target r) = Inr plan
     \<and> progress d (r_id r) \<le> 2 * length plan
     \<and> map step_key (steps_of (r_id r) d) = take (progress d (r_id r)) (interleaved 0 plan)
     \<and> (r_complete r \<longrightarrow> progress d (r_id r) = 2 * length plan))"

text \<open>Every operation's rows are a beginning of its plan, intent before done, phase after phase;
  a complete one has them all; at most one operation is unfinished.\<close>

definition db_ok :: "db \<Rightarrow> bool" where
  "db_ok d \<longleftrightarrow> distinct (map r_id (ops d)) \<and> distinct (map r_new_epoch (ops d))
     \<and> length (filter (Not \<circ> r_complete) (ops d)) \<le> 1
     \<and> (\<forall>x \<in> set (steps d). \<exists>r \<in> set (ops d). r_id r = s_op x)
     \<and> (\<forall>r \<in> set (ops d). steps_ok d r)"

text \<open>The operation in memory is in the tables: between steps with two rows for each of the
  \<open>n\<close> phases done, inside a step with up to two more.\<close>

definition mem_fits :: "db \<Rightarrow> operation \<Rightarrow> nat \<Rightarrow> bool \<Rightarrow> bool" where
  "mem_fits d q n inside \<longleftrightarrow> (\<exists>r. find_op (o_id q) d = Some r \<and> op_of_row r = q
     \<and> (r_complete r \<or> (if inside then 2 * n \<le> progress d (o_id q) \<and> progress d (o_id q) \<le> 2 * n + 2
         else progress d (o_id q) = 2 * n)))"

definition mem_ok :: "db \<Rightarrow> 'w journal_scheme \<Rightarrow> bool" where
  "mem_ok d s \<longleftrightarrow> (\<forall>q. oper s = Some q \<longrightarrow> mem_fits d q (nxt s) (pending s))"

text \<open>The specification: per operation its direction, how many of its rows are durable, and
  whether it is complete. An operation begins when none is unfinished, advances by one row of its
  plan, and completes with the last.\<close>

type_synonym spec = "string \<Rightarrow> (string \<times> string \<times> nat \<times> bool) option"

inductive spec_step :: "spec \<Rightarrow> spec \<Rightarrow> bool" where
  spec_begin: "a i = None \<Longrightarrow> (\<And>j s t n c. a j = Some (s, t, n, c) \<Longrightarrow> c) \<Longrightarrow> phase_plan src tgt = Inr plan
     \<Longrightarrow> spec_step a (a(i \<mapsto> (src, tgt, 0, False)))"
| spec_advance: "a i = Some (src, tgt, n, False) \<Longrightarrow> phase_plan src tgt = Inr plan \<Longrightarrow> n < 2 * length plan
     \<Longrightarrow> spec_step a (a(i \<mapsto> (src, tgt, Suc n, False)))"
| spec_complete: "a i = Some (src, tgt, n, False) \<Longrightarrow> phase_plan src tgt = Inr plan \<Longrightarrow> n = 2 * length plan
     \<Longrightarrow> spec_step a (a(i \<mapsto> (src, tgt, n, True)))"

inductive_cases spec_stepE: "spec_step a b"

definition db_abs :: "db \<Rightarrow> spec" where
  "db_abs d i = map_option (\<lambda>r. (r_source r, r_target r, progress d i, r_complete r)) (find_op i d)"

abbreviation spec_steps :: "db \<Rightarrow> db \<Rightarrow> bool" where
  "spec_steps d e \<equiv> spec_step\<^sup>*\<^sup>* (db_abs d) (db_abs e)"

definition journal_ok :: "'w journal_scheme \<Rightarrow> bool" where
  "journal_ok s \<longleftrightarrow> db_ok (disk s) \<and> mem_ok (disk s) s \<and> work s = disk s"

section \<open>The plan as a list of rows\<close>

lemma interleaved_Cons: "interleaved k (p # ps) = (k, p, Intent) # (k, p, Done) # interleaved (Suc k) ps"
proof -
  have "[k..<k + length (p # ps)] = k # [Suc k..<Suc k + length ps]"
    by (simp add: upt_conv_Cons del: upt_Suc)
  then show ?thesis unfolding interleaved_def both_def by simp
qed

lemma interleaved_Nil [simp]: "interleaved k [] = []"
  by (simp add: interleaved_def)

lemma length_interleaved [simp]: "length (interleaved k ps) = 2 * length ps"
  by (induction ps arbitrary: k) (simp_all add: interleaved_Cons)

lemma nth_interleaved:
  "n < length ps \<Longrightarrow> interleaved k ps ! (2 * n) = (k + n, ps ! n, Intent)
     \<and> interleaved k ps ! Suc (2 * n) = (k + n, ps ! n, Done)"
proof (induction ps arbitrary: k n)
  case Nil
  then show ?case by simp
next
  case (Cons p ps)
  then show ?case by (cases n) (simp_all add: interleaved_Cons)
qed

lemma take_interleaved: "n \<le> length ps \<Longrightarrow> take (2 * n) (interleaved k ps) = interleaved k (take n ps)"
proof (induction ps arbitrary: k n)
  case Nil
  then show ?case by simp
next
  case (Cons p ps)
  then show ?case by (cases n) (simp_all add: interleaved_Cons)
qed

lemma take_interleaved_Intent:
  "n < length ps \<Longrightarrow> take (Suc (2 * n)) (interleaved 0 ps) = interleaved 0 (take n ps) @ [(n, ps ! n, Intent)]"
  using nth_interleaved [of n ps 0] take_interleaved [of n ps 0]
  by (simp add: take_Suc_conv_app_nth)

lemma take_interleaved_Done:
  "n < length ps \<Longrightarrow> take (2 * n + 2) (interleaved 0 ps) = interleaved 0 (take n ps) @ both n (ps ! n)"
  using nth_interleaved [of n ps 0] take_interleaved_Intent [of n ps]
  by (simp add: take_Suc_conv_app_nth both_def)

section \<open>Lookups\<close>

lemma find_op_Some: "find_op i d = Some r \<Longrightarrow> r \<in> set (ops d) \<and> r_id r = i"
  by (auto simp: find_op_def find_Some_iff)

lemma find_op_unique:
  "distinct (map r_id (ops d)) \<Longrightarrow> r \<in> set (ops d) \<Longrightarrow> find_op (r_id r) d = Some r"
proof -
  assume d: "distinct (map r_id (ops d))" and r: "r \<in> set (ops d)"
  then obtain q where q: "find_op (r_id r) d = Some q"
    unfolding find_op_def by (metis (mono_tags, lifting) find_None_iff not_None_eq)
  then have "q \<in> set (ops d)" "r_id q = r_id r" by (auto dest: find_op_Some)
  with d r have "q = r" by (meson distinct_map inj_onD)
  with q show ?thesis by simp
qed

lemma steps_of_append [simp]:
  "steps_of i (append_step d x) = steps_of i d @ (if s_op x = i then [x] else [])"
  by (simp add: steps_of_def append_step_def)

lemma ops_append_step [simp]: "ops (append_step d x) = ops d"
  by (simp add: append_step_def)

lemma steps_append_step [simp]: "steps (append_step d x) = steps d @ [x]"
  by (simp add: append_step_def)

lemma find_op_append_step [simp]: "find_op i (append_step d x) = find_op i d"
  by (simp add: find_op_def)

lemma progress_append_step [simp]:
  "progress (append_step d x) i = progress d i + (if s_op x = i then 1 else 0)"
  by (simp add: progress_def)

lemma ops_add_op [simp]: "ops (add_op d r) = ops d @ [r]"
  by (simp add: add_op_def)

lemma steps_of_add_op [simp]: "steps_of i (add_op d r) = steps_of i d" "steps (add_op d r) = steps d"
  by (simp_all add: steps_of_def add_op_def)

lemma progress_add_op [simp]: "progress (add_op d r) i = progress d i"
  by (simp add: progress_def)

lemma find_snoc: "find P (xs @ [x]) = (case find P xs of Some y \<Rightarrow> Some y | None \<Rightarrow> if P x then Some x else None)"
  by (induction xs) auto

lemma find_op_add_op:
  "find_op i (add_op d r) = (case find_op i d of Some q \<Rightarrow> Some q | None \<Rightarrow> if r_id r = i then Some r else None)"
  by (simp add: find_op_def find_snoc)

lemma short_list_eq: "length xs \<le> 1 \<Longrightarrow> a \<in> set xs \<Longrightarrow> b \<in> set xs \<Longrightarrow> a = b"
  by (cases xs; cases "tl xs") auto

lemma only_unfinished:
  assumes "db_ok d" "q \<in> set (ops d)" "r \<in> set (ops d)" "\<not> r_complete q" "\<not> r_complete r"
  shows "q = r"
  using assms short_list_eq [of "filter (Not \<circ> r_complete) (ops d)" q r] by (simp add: db_ok_def)

section \<open>Rows the invariant allows\<close>

definition can_append :: "db \<Rightarrow> string \<Rightarrow> nat \<Rightarrow> string \<Rightarrow> status \<Rightarrow> bool" where
  "can_append d i n phase st \<longleftrightarrow> (\<exists>r plan. find_op i d = Some r \<and> \<not> r_complete r
     \<and> phase_plan (r_source r) (r_target r) = Inr plan \<and> n < length plan \<and> plan ! n = phase
     \<and> progress d i = 2 * n + (if st = Done then 1 else 0))"

lemma db_ok_append:
  assumes d: "db_ok d" and c: "can_append d (o_id q) n phase st"
  shows "db_ok (append_step d (step_row_at q n phase st ev))"
proof -
  let ?x = "step_row_at q n phase st ev"
  obtain r plan where r: "find_op (o_id q) d = Some r" "\<not> r_complete r"
    "phase_plan (r_source r) (r_target r) = Inr plan" "n < length plan" "plan ! n = phase"
    "progress d (o_id q) = 2 * n + (if st = Done then 1 else 0)"
    using c unfolding can_append_def by blast
  have x: "s_op ?x = o_id q" "step_key ?x = (n, phase, st)" by (simp_all add: step_row_at_def step_key_def)
  have "steps_ok (append_step d ?x) p" if p: "p \<in> set (ops d)" for p
  proof (cases "r_id p = o_id q")
    case False
    then show ?thesis using d p x by (simp add: db_ok_def steps_ok_def)
  next
    case True
    then have "p = r" using d p r(1) find_op_unique [of d p] by (simp add: db_ok_def)
    have ok: "map step_key (steps_of (r_id p) d) = take (progress d (r_id p)) (interleaved 0 plan)"
      using d p r(3) \<open>p = r\<close> by (auto simp: db_ok_def steps_ok_def)
    have "take (Suc (progress d (o_id q))) (interleaved 0 plan)
        = take (progress d (o_id q)) (interleaved 0 plan) @ [(n, phase, st)]"
      using r nth_interleaved [of n plan 0] by (cases st) (simp_all add: take_Suc_conv_app_nth)
    then show ?thesis using True ok r x \<open>p = r\<close> by (simp add: steps_ok_def)
  qed
  moreover have "\<exists>p \<in> set (ops d). r_id p = o_id q" using find_op_Some [OF r(1)] by blast
  ultimately show ?thesis using d x by (auto simp: db_ok_def)
qed

lemma db_ok_add_op:
  assumes d: "db_ok d" and new: "\<not> unfinished d" "\<forall>r \<in> set (ops d). r_id r \<noteq> o_id q \<and> r_new_epoch r \<noteq> o_new_epoch q"
    and p: "phase_plan (o_source q) (o_target q) = Inr plan"
  shows "db_ok (add_op d (op_row_of q))" "progress d (o_id q) = 0"
proof -
  have "steps_of (o_id q) d = []"
    using d new(2) by (force simp: db_ok_def steps_of_def filter_empty_conv)
  then show z: "progress d (o_id q) = 0" by (simp add: progress_def)
  have "filter (Not \<circ> r_complete) (ops d) = []"
    using new(1) by (auto simp: unfinished_def list_ex_iff filter_empty_conv)
  then show "db_ok (add_op d (op_row_of q))"
    using d new p z \<open>steps_of (o_id q) d = []\<close>
    by (auto simp: db_ok_def op_row_of_def steps_ok_def)
qed

definition completed :: "string \<Rightarrow> db \<Rightarrow> db" where
  "completed i d = d\<lparr>ops := map (mark_complete i) (ops d)\<rparr>"

lemma mark_complete_simps [simp]:
  "r_id (mark_complete i r) = r_id r" "r_new_epoch (mark_complete i r) = r_new_epoch r"
  "r_source (mark_complete i r) = r_source r" "r_target (mark_complete i r) = r_target r"
  "r_source_epoch (mark_complete i r) = r_source_epoch r" "r_contract (mark_complete i r) = r_contract r"
  "r_complete (mark_complete i r) \<longleftrightarrow> r_complete r \<or> hit i r"
  by (simp_all add: mark_complete_def)

lemma op_of_mark_complete [simp]: "op_of_row (mark_complete i r) = op_of_row r"
  by (simp add: op_of_row_def)

lemma steps_completed [simp]: "steps (completed i d) = steps d" "steps_of j (completed i d) = steps_of j d"
  "progress (completed i d) j = progress d j"
  by (simp_all add: completed_def steps_of_def progress_def)

lemma find_op_completed: "find_op j (completed i d) = map_option (mark_complete i) (find_op j d)"
proof -
  have "find (\<lambda>r. r_id r = j) (map (mark_complete i) xs)
      = map_option (mark_complete i) (find (\<lambda>r. r_id r = j) xs)" for xs
    by (induction xs) auto
  then show ?thesis by (simp add: find_op_def completed_def)
qed

lemma db_ok_completed:
  assumes d: "db_ok d" and r: "find_op i d = Some r" "phase_plan (r_source r) (r_target r) = Inr plan"
    "map step_key (steps_of i d) = interleaved 0 plan"
  shows "db_ok (completed i d)"
proof -
  have "length (filter (Not \<circ> r_complete) (map (mark_complete i) xs)) \<le> length (filter (Not \<circ> r_complete) xs)" for xs
    by (induction xs) auto
  then have one: "length (filter (Not \<circ> r_complete) (ops (completed i d))) \<le> 1"
    using d le_trans by (fastforce simp: db_ok_def completed_def)
  have st: "steps_ok (completed i d) (mark_complete i p)" if p: "p \<in> set (ops d)" for p
  proof (cases "r_id p = i")
    case False
    then show ?thesis using d p by (simp add: db_ok_def steps_ok_def hit_def)
  next
    case True
    then have "p = r" using d p r(1) find_op_unique [of d p] by (simp add: db_ok_def)
    moreover have "progress d i = 2 * length plan"
      using r(3) by (metis length_interleaved length_map progress_def)
    ultimately show ?thesis using r True by (simp add: steps_ok_def)
  qed
  show ?thesis using d one st by (auto simp: db_ok_def completed_def comp_def)
qed

section \<open>The specification is followed\<close>

lemma spec_append:
  assumes "can_append d (o_id q) n phase st"
  shows "spec_step (db_abs d) (db_abs (append_step d (step_row_at q n phase st ev)))"
proof -
  obtain r plan where r: "find_op (o_id q) d = Some r" "\<not> r_complete r"
    "phase_plan (r_source r) (r_target r) = Inr plan" "n < length plan"
    "progress d (o_id q) = 2 * n + (if st = Done then 1 else 0)"
    using assms unfolding can_append_def by blast
  have "db_abs (append_step d (step_row_at q n phase st ev))
      = (db_abs d)(o_id q \<mapsto> (r_source r, r_target r, Suc (progress d (o_id q)), False))"
    using r by (auto simp: db_abs_def step_row_at_def fun_eq_iff)
  moreover have "db_abs d (o_id q) = Some (r_source r, r_target r, progress d (o_id q), False)"
    using r by (simp add: db_abs_def)
  ultimately show ?thesis using r by (auto intro: spec_advance)
qed

lemma spec_add_op:
  assumes new: "\<not> unfinished d" "\<forall>r \<in> set (ops d). r_id r \<noteq> o_id q"
    and p: "phase_plan (o_source q) (o_target q) = Inr plan" and z: "progress d (o_id q) = 0"
  shows "spec_step (db_abs d) (db_abs (add_op d (op_row_of q)))"
proof -
  have none: "find_op (o_id q) d = None"
    using new(2) find_op_Some [of "o_id q" d] by (cases "find_op (o_id q) d") auto
  have "db_abs (add_op d (op_row_of q)) = (db_abs d)(o_id q \<mapsto> (o_source q, o_target q, 0, False))"
    using none z by (auto simp: db_abs_def find_op_add_op op_row_of_def fun_eq_iff split: option.splits)
  moreover have "\<And>j s t n c. db_abs d j = Some (s, t, n, c) \<Longrightarrow> c"
    using new(1) by (auto simp: db_abs_def unfinished_def list_ex_iff dest: find_op_Some)
  moreover have "db_abs d (o_id q) = None" using none by (simp add: db_abs_def)
  ultimately show ?thesis using p spec_begin [of "db_abs d" "o_id q"] by metis
qed

lemma spec_completed:
  assumes r: "find_op i d = Some r" "\<not> r_complete r" "phase_plan (r_source r) (r_target r) = Inr plan"
    "progress d i = 2 * length plan" "r_contract r = RESTORE_CONTRACT"
  shows "spec_step (db_abs d) (db_abs (completed i d))"
proof -
  have i: "r_id r = i" using r(1) by (auto dest: find_op_Some)
  have "db_abs (completed i d) j = ((db_abs d)(i \<mapsto> (r_source r, r_target r, progress d i, True))) j" for j
  proof (cases "j = i")
    case True
    then show ?thesis using r i by (simp add: db_abs_def find_op_completed hit_def)
  next
    case False
    then show ?thesis
      using find_op_Some [of j d]
      by (cases "find_op j d") (simp_all add: db_abs_def find_op_completed hit_def)
  qed
  then have "db_abs (completed i d) = (db_abs d)(i \<mapsto> (r_source r, r_target r, progress d i, True))" ..
  moreover have "db_abs d i = Some (r_source r, r_target r, progress d i, False)"
    using r by (simp add: db_abs_def)
  ultimately show ?thesis using r by (auto intro: spec_complete)
qed

section \<open>Transactions\<close>

lemma wp_transaction:
  assumes m: "m s = (r, s\<lparr>work := w\<rparr>)"
    and fail: "\<And>e c. Q (Inl e) (s\<lparr>work := disk s, commits := c\<rparr>)"
    and good: "\<And>r' c. r = Inr () \<Longrightarrow> Q r' (s\<lparr>work := w, disk := w, commits := c\<rparr>)"
  shows "wp (transaction m label) Q s"
proof (cases r)
  case (Inl e)
  have "(s\<lparr>work := w\<rparr>)\<lparr>work := disk s\<rparr> = s\<lparr>work := disk s, commits := commits s\<rparr>" by simp
  then show ?thesis using m Inl fail [of e "commits s"]
    by (simp add: transaction_def wp_on_exn wp_def prog_defs rollback_def)
next
  case (Inr u)
  show ?thesis
  proof (cases "fault s (commits s) label")
    case NoFault
    then show ?thesis using m Inr good
      by (cases s) (simp add: transaction_def wp_def prog_defs rollback_def commit_def Let_def)
  next
    case (FailBefore e)
    then show ?thesis using m Inr fail [of e "Suc (commits s)"]
      by (cases s) (simp add: transaction_def wp_def prog_defs rollback_def commit_def Let_def)
  next
    case (FailCommit e)
    then show ?thesis using m Inr fail [of e "Suc (commits s)"]
      by (cases s) (simp add: transaction_def wp_def prog_defs rollback_def commit_def Let_def)
  next
    case (FailAfter e)
    then show ?thesis using m Inr good [of "Inl e" "Suc (commits s)"]
      by (cases s) (simp add: transaction_def wp_def prog_defs rollback_def commit_def Let_def)
  qed
qed

lemma insert_step_cases: "\<exists>r. insert_step x s = (r, s\<lparr>work := if r = Inr () then append_step (work s) x else work s\<rparr>)"
  by (simp add: insert_step_def append_step_def)

lemma wp_insert:
  assumes fail: "\<And>e c. Q (Inl e) (s\<lparr>work := disk s, commits := c\<rparr>)"
    and good: "\<And>r' c. Q r' (s\<lparr>work := append_step (work s) x, disk := append_step (work s) x, commits := c\<rparr>)"
  shows "wp (transaction (insert_step x) label) Q s"
proof -
  obtain r where r: "insert_step x s = (r, s\<lparr>work := if r = Inr () then append_step (work s) x else work s\<rparr>)"
    using insert_step_cases by blast
  show ?thesis
  proof (rule wp_transaction)
    show "insert_step x s = (r, s\<lparr>work := if r = Inr () then append_step (work s) x else work s\<rparr>)" by (rule r)
    show "Q r' (s\<lparr>work := if r = Inr () then append_step (work s) x else work s,
        disk := if r = Inr () then append_step (work s) x else work s, commits := c\<rparr>)" if "r = Inr ()" for r' c
      using good that by simp
  qed (rule fail)
qed

lemma wp_check_authority [simp]: "wp check_authority Q s \<longleftrightarrow> Q (fst (check_authority s)) s"
  by (simp add: wp_def check_authority_def)

text \<open>The part of the state an action must leave alone.\<close>

definition core :: "'w journal_scheme \<Rightarrow> db \<times> db \<times> operation option \<times> nat \<times> bool" where
  "core s = (disk s, work s, oper s, nxt s, pending s)"

definition framed :: "('w journal_scheme, 'a) prog \<Rightarrow> bool" where
  "framed m \<longleftrightarrow> (\<forall>s. core (snd (m s)) = core s)"

lemma wp_framed: "framed m \<Longrightarrow> (\<And>r t. core t = core s \<Longrightarrow> Q r t) \<Longrightarrow> wp m Q s"
  by (simp add: framed_def wp_def)

lemma journal_ok_core: "core s = core t \<Longrightarrow> journal_ok s = journal_ok t"
  by (simp add: core_def journal_ok_def mem_ok_def)

text \<open>What an operation of the journal guarantees from any state of the invariant.\<close>

definition follows :: "('w journal_scheme, 'a) prog \<Rightarrow> bool" where
  "follows m \<longleftrightarrow> (\<forall>s. journal_ok s \<longrightarrow> wp m (\<lambda>_ t. journal_ok t \<and> spec_steps (disk s) (disk t)) s)"

lemma follows_I:
  "(\<And>s. journal_ok s \<Longrightarrow> wp m (\<lambda>_ t. journal_ok t \<and> spec_steps (disk s) (disk t)) s) \<Longrightarrow> follows m"
  by (simp add: follows_def)

lemma ok_fail:
  "journal_ok s \<Longrightarrow> journal_ok (s\<lparr>work := disk s, commits := c\<rparr>) \<and>
     spec_steps (disk s) (disk (s\<lparr>work := disk s, commits := c\<rparr>))"
  by (simp add: journal_ok_def mem_ok_def)

lemma ok_commit:
  "journal_ok s \<Longrightarrow> db_ok w \<Longrightarrow> mem_ok w s \<Longrightarrow> spec_steps (work s) w \<Longrightarrow>
     journal_ok (s\<lparr>work := w, disk := w, commits := c\<rparr>) \<and> spec_steps (disk s) w"
  by (auto simp: journal_ok_def mem_ok_def)

section \<open>Every operation keeps the invariant and follows the specification\<close>

lemma rtrancl_step: "spec_step\<^sup>*\<^sup>* a b \<Longrightarrow> spec_step b c \<Longrightarrow> spec_step\<^sup>*\<^sup>* a c"
  by (rule rtranclp.rtrancl_into_rtrancl)

lemma mem_fits_append:
  assumes "can_append d (o_id q) n phase st" and "find_op (o_id q) d = Some r" "op_of_row r = q"
  shows "mem_fits (append_step d (step_row_at q n phase st ev)) q n True"
  using assms unfolding mem_fits_def can_append_def
  by (auto simp: step_row_at_def)

text \<open>Appending a row the invariant allows: memory holds that operation inside that step, or one
  that is complete, or none.\<close>

definition apart :: "'w journal_scheme \<Rightarrow> operation \<Rightarrow> nat \<Rightarrow> bool" where
  "apart s q n \<longleftrightarrow> (\<forall>q'. oper s = Some q' \<longrightarrow> q' = q \<and> nxt s = n \<and> pending s
     \<or> (\<exists>r. find_op (o_id q') (work s) = Some r \<and> op_of_row r = q' \<and> r_complete r))"

lemma ok_append:
  assumes s: "journal_ok s" and c: "can_append (work s) (o_id q) n phase st" and m: "apart s q n"
  shows "journal_ok (s\<lparr>work := append_step (work s) (step_row_at q n phase st ev),
             disk := append_step (work s) (step_row_at q n phase st ev), commits := k\<rparr>)
     \<and> spec_steps (disk s) (append_step (work s) (step_row_at q n phase st ev))"
proof (rule ok_commit [OF s])
  show "db_ok (append_step (work s) (step_row_at q n phase st ev))"
    using s c by (intro db_ok_append) (simp_all add: journal_ok_def)
  show "spec_steps (work s) (append_step (work s) (step_row_at q n phase st ev))"
    using spec_append [OF c] by blast
  have "mem_fits (append_step (work s) (step_row_at q n phase st ev)) q' (nxt s) (pending s)"
    if o: "oper s = Some q'" for q'
  proof (cases "\<exists>r. find_op (o_id q') (work s) = Some r \<and> op_of_row r = q' \<and> r_complete r")
    case True
    then show ?thesis by (auto simp: mem_fits_def)
  next
    case False
    then have q: "q' = q" "nxt s = n" "pending s" using m o by (auto simp: apart_def)
    then obtain r where "find_op (o_id q) (work s) = Some r" "op_of_row r = q"
      using s o by (auto simp: journal_ok_def mem_ok_def mem_fits_def)
    from mem_fits_append [OF c this] q show ?thesis by simp
  qed
  then show "mem_ok (append_step (work s) (step_row_at q n phase st ev)) s" by (simp add: mem_ok_def)
qed

lemma current_row_Some: "row_differs s = False \<Longrightarrow> \<exists>q r. oper s = Some q \<and> current_row s = Some r
    \<and> find_op (o_id q) (work s) = Some r \<and> r_source r = o_source q \<and> r_target r = o_target q
    \<and> r_contract r = RESTORE_CONTRACT"
  by (auto simp: row_differs_def current_row_def split: option.splits)

lemma step_guard:
  assumes s: "journal_ok s" and g: "step_refused phase s = Inr False"
  shows "\<exists>q. oper s = Some q \<and> can_append (work s) (o_id q) (nxt s) phase Intent \<and> \<not> pending s"
proof -
  obtain plan where plan: "current_plan s = Inr plan" "\<not> row_differs s" "\<not> pending s"
    "nxt s < length plan" "plan ! nxt s = phase"
    using g by (auto simp: step_refused_def res_simps)
  obtain q r where q: "oper s = Some q" "current_row s = Some r" "find_op (o_id q) (work s) = Some r"
    using current_row_Some plan(2) by blast
  have c: "\<not> r_complete r" using plan(1,4) q(2) by (auto simp: current_plan_def split: if_splits)
  have "phase_plan (r_source r) (r_target r) = Inr plan"
    using plan(1) q(2) c by (simp add: current_plan_def)
  moreover have "progress (work s) (o_id q) = 2 * nxt s"
    using s q plan(3) c by (auto simp: journal_ok_def mem_ok_def mem_fits_def)
  ultimately show ?thesis using q plan c by (auto simp: can_append_def)
qed

lemma can_append_Done:
  assumes "can_append d (o_id q) n phase Intent"
  shows "can_append (append_step d (step_row_at q n phase Intent ev)) (o_id q) n phase Done"
  using assms by (auto simp: can_append_def step_row_at_def)

lemma mem_fits_inside: "mem_fits d q n p \<Longrightarrow> mem_fits d q n True"
  by (auto simp: mem_fits_def split: if_splits)

lemma ok_pending: "journal_ok s \<Longrightarrow> journal_ok (s\<lparr>pending := True\<rparr>)"
  using mem_fits_inside by (simp add: journal_ok_def mem_ok_def) blast

lemma wp_record_step:
  assumes q: "oper s = Some q" and s: "journal_ok s" and c: "can_append (work s) (o_id q) (nxt s) phase st"
    and p: "pending s"
    and fail: "\<And>e t. journal_ok t \<Longrightarrow> spec_steps (disk s) (disk t) \<Longrightarrow> Q (Inl e) t"
    and good: "\<And>t. journal_ok t \<Longrightarrow> spec_steps (disk s) (disk t) \<Longrightarrow>
      disk t = append_step (work s) (step_row_at q (nxt s) phase st ev) \<Longrightarrow> work t = disk t \<Longrightarrow>
      oper t = Some q \<Longrightarrow> nxt t = nxt s \<Longrightarrow> pending t \<Longrightarrow> Q (Inr ()) t"
  shows "wp (record_step phase st ev label) Q s"
proof -
  have "wp (transaction (insert_step (step_row_at q (nxt s) phase st ev)) (label @ phase)) Q s"
  proof (rule wp_insert)
    show "Q (Inl e) (s\<lparr>work := disk s, commits := c\<rparr>)" for e c
      using ok_fail [OF s, of c] by (intro fail) blast+
  next
    fix r' :: "unit res" and k
    let ?w = "append_step (work s) (step_row_at q (nxt s) phase st ev)"
    have ok: "journal_ok (s\<lparr>work := ?w, disk := ?w, commits := k\<rparr>)" "spec_steps (disk s) ?w"
      using ok_append [OF s c] q p by (auto simp: apart_def)
    show "Q r' (s\<lparr>work := ?w, disk := ?w, commits := k\<rparr>)"
    proof (cases r')
      case (Inl e)
      show ?thesis unfolding Inl by (rule fail) (use ok in simp_all)
    next
      case (Inr u)
      have "u = ()" by simp
      then show ?thesis unfolding Inr by (simp only:) (rule good, use ok q p in simp_all)
    qed
  qed
  then show ?thesis using q by (simp add: record_step_def)
qed

lemma ok_step_done:
  assumes s: "journal_ok t" and q: "oper t = Some q" "pending t" "work t = disk t"
    and p: "disk t = append_step (append_step d (step_row_at q n phase Intent ev)) (step_row_at q n phase Done ev')"
      "can_append d (o_id q) n phase Intent" "nxt t = n"
  shows "journal_ok (t\<lparr>nxt := Suc n, pending := False\<rparr>)"
proof -
  have "progress (disk t) (o_id q) = 2 * n + 2"
    using p by (auto simp: can_append_def step_row_at_def)
  then have "mem_fits (disk t) q (Suc n) False"
    using s q by (auto simp: journal_ok_def mem_ok_def mem_fits_def)
  then show ?thesis using s q by (simp add: journal_ok_def mem_ok_def)
qed

lemma step_follows:
  assumes a: "framed action"
  shows "follows (step phase action)"
proof (rule follows_I)
  fix s :: "'a journal_scheme" assume s: "journal_ok s"
  show "wp (step phase action) (\<lambda>_ t. journal_ok t \<and> spec_steps (disk s) (disk t)) s"
  proof (cases "fst (check_authority s) = Inr () \<and> step_refused phase s = Inr False")
    case False
    then have "fst (check_authority s) = Inr () \<Longrightarrow> raise_if (step_refused phase s) RuntimeError (Inr ()) \<noteq> Inr ()"
      by (auto simp: res_simps)
    then show ?thesis
      using s by (cases "fst (check_authority s)"; cases "raise_if (step_refused phase s) RuntimeError (Inr ())")
        (auto simp: step_def)
  next
    case True
    then have g: "fst (check_authority s) = Inr ()" "step_refused phase s = Inr False" by auto
    let ?G = "\<lambda>_ t. journal_ok t \<and> spec_steps (disk s) (disk t)"
    obtain q where q: "oper s = Some q" "can_append (work s) (o_id q) (nxt s) phase Intent" "\<not> pending s"
      using step_guard [OF s g(2)] by blast
    let ?s1 = "s\<lparr>pending := True\<rparr>"
    let ?w = "append_step (work s) (step_row_at q (nxt s) phase Intent ''{}'')"
    have s1: "journal_ok ?s1" using ok_pending [OF s] .
    have rest: "thenQ (\<lambda>result. seqP check_authority (bindP (lift (dumps result)) (\<lambda>evidence.
        seqP (record_step phase Done evidence ''step-done:'')
        (seqP (modify (\<lambda>s. s\<lparr>nxt := Suc (nxt s), pending := False\<rparr>)) (ret result))))) ?G r u"
      if t: "journal_ok t" "spec_steps (disk s) (disk t)" "disk t = ?w" "work t = disk t" "oper t = Some q"
        "nxt t = nxt s" "pending t" and u: "core u = core t" for t u and r :: "json res"
    proof (rule thenQ_I)
      have u: "journal_ok u" "disk u = ?w" "work u = ?w" "oper u = Some q" "nxt u = nxt s" "pending u"
        using t u journal_ok_core [of u t] by (auto simp: core_def)
      have base: "?G x u" for x using u t by simp
      then show "?G (Inl e) u" for e by blast
      fix result
      show "wp (seqP check_authority (bindP (lift (dumps result)) (\<lambda>evidence.
        seqP (record_step phase Done evidence ''step-done:'')
        (seqP (modify (\<lambda>s. s\<lparr>nxt := Suc (nxt s), pending := False\<rparr>)) (ret result))))) ?G u"
      proof (cases "fst (check_authority u)"; cases "dumps result")
        fix a evidence assume "fst (check_authority u) = Inr a" and ev: "dumps result = Inr evidence"
        have "wp (record_step phase Done evidence ''step-done:'')
          (thenQ (\<lambda>_. seqP (modify (\<lambda>s. s\<lparr>nxt := Suc (nxt s), pending := False\<rparr>)) (ret result)) ?G) u"
        proof (rule wp_record_step [OF u(4) u(1)])
          show "can_append (work u) (o_id q) (nxt u) phase Done"
            using can_append_Done [OF q(2)] u by simp
          show "pending u" by (rule u)
          show "thenQ (\<lambda>_. seqP (modify (\<lambda>s. s\<lparr>nxt := Suc (nxt s), pending := False\<rparr>)) (ret result)) ?G (Inl e) v"
            if "journal_ok v" "spec_steps (disk u) (disk v)" for e v
            using that t u by (simp add: rtranclp_trans [of spec_step])
          show "thenQ (\<lambda>_. seqP (modify (\<lambda>s. s\<lparr>nxt := Suc (nxt s), pending := False\<rparr>)) (ret result)) ?G (Inr ()) v"
            if v: "journal_ok v" "spec_steps (disk u) (disk v)"
              "disk v = append_step (work u) (step_row_at q (nxt u) phase Done evidence)" "work v = disk v"
              "oper v = Some q" "nxt v = nxt u" "pending v" for v
            using ok_step_done [OF v(1) v(5) v(7) v(4), of "work s" "nxt s" phase "''{}''" evidence] v t u q
            by (simp add: rtranclp_trans [of spec_step])
        qed
        then show ?thesis using ev \<open>fst (check_authority u) = Inr a\<close> by simp
      qed (use base in simp_all)
    qed
    have "wp (record_step phase Intent ''{}'' ''step-intent:'')
      (thenQ (\<lambda>_. bindP action (\<lambda>result. seqP check_authority (bindP (lift (dumps result)) (\<lambda>evidence.
        seqP (record_step phase Done evidence ''step-done:'')
        (seqP (modify (\<lambda>s. s\<lparr>nxt := Suc (nxt s), pending := False\<rparr>)) (ret result)))))) ?G) ?s1"
    proof (rule wp_record_step [of ?s1 q])
      show "thenQ (\<lambda>_. bindP action (\<lambda>result. seqP check_authority (bindP (lift (dumps result)) (\<lambda>evidence.
        seqP (record_step phase Done evidence ''step-done:'')
        (seqP (modify (\<lambda>s. s\<lparr>nxt := Suc (nxt s), pending := False\<rparr>)) (ret result)))))) ?G (Inr ()) t"
        if t: "journal_ok t" "spec_steps (disk ?s1) (disk t)"
          "disk t = append_step (work ?s1) (step_row_at q (nxt ?s1) phase Intent ''{}'')" "work t = disk t"
          "oper t = Some q" "nxt t = nxt ?s1" "pending t" for t
        by (simp only: thenQ_simps wp_bindP) (rule wp_framed [OF a], rule rest [of t], use t in simp_all)
    qed (use q s1 in simp_all)
    then show ?thesis using g by (simp add: step_def)
  qed
qed

lemma exit_follows: "follows exit_journal"
  by (rule follows_I) (simp add: exit_journal_def journal_ok_def mem_ok_def)

text \<open>A boundary found on the tables is a place where the done row may be appended.\<close>

lemma boundary_value_Inr:
  assumes "boundary_value ident n (src, tgt) d = Inr (q, prev)" and d: "db_ok d"
  shows "\<exists>r plan. find_op (o_id q) d = Some r \<and> op_of_row r = q \<and> \<not> r_complete r
    \<and> r_contract r = RESTORE_CONTRACT \<and> r_source r = src \<and> r_target r = tgt
    \<and> phase_plan src tgt = Inr plan \<and> n < length plan
    \<and> map step_key (steps_of (o_id q) d) = interleaved 0 (take n plan) @ [(n, plan ! n, Intent)]
    \<and> can_append d (o_id q) n (plan ! n) Done \<and> ident = JStr (o_id q)"
proof -
  obtain r where r: "unfinished_row (str_val ident) d = Some r" "str_and ident hex32"
    using assms(1) by (auto simp: boundary_value_def split: if_splits option.splits)
  then have f: "find_op (str_val ident) d = Some r" "\<not> r_complete r" "r_id r = str_val ident"
    by (auto simp: unfinished_row_def dest: find_op_Some split: option.splits if_splits)
  from assms(1) r obtain plan where p: "phase_plan src tgt = Inr plan" "r_source r = src" "r_target r = tgt"
    "r_contract r = RESTORE_CONTRACT" "n < length plan" "q = op_of_row r"
    "map step_key (steps_of (r_id r) d) = interleaved 0 (take n plan) @ [(n, plan ! n, Intent)]"
    by (auto simp: boundary_value_def res_simps split: if_splits)
  have "progress d (r_id r) = 2 * n + 1"
    using arg_cong [OF p(7), of length] p(5) by (simp add: progress_def)
  then have "can_append d (o_id q) n (plan ! n) Done"
    using f p by (auto simp: can_append_def op_of_row_def)
  moreover have id: "o_id q = str_val ident" using f(3) p(6) by (simp add: op_of_row_def)
  moreover have "ident = JStr (o_id q)" using r(2) unfolding id by (auto simp: str_and_iff)
  moreover have "find_op (o_id q) d = Some r" using f(1) unfolding id .
  moreover have "map step_key (steps_of (o_id q) d) = interleaved 0 (take n plan) @ [(n, plan ! n, Intent)]"
    using p(7) p(6) by (simp add: op_of_row_def)
  ultimately show ?thesis using f(2) p(1-6) by blast
qed

lemma op_of_row_id [simp]: "o_id (op_of_row r) = r_id r"
  by (simp add: op_of_row_def)

lemma odd_inside:
  "(if b then 2 * m \<le> 2 * n + 1 \<and> 2 * n + 1 \<le> 2 * m + 2 else 2 * n + 1 = 2 * (m :: nat)) \<Longrightarrow> b \<and> m = n"
proof (cases b)
  case True
  assume "if b then 2 * m \<le> 2 * n + 1 \<and> 2 * n + 1 \<le> 2 * m + 2 else 2 * n + 1 = 2 * m"
  with True have "2 * m \<le> 2 * n + 1" "2 * n + 1 \<le> 2 * m + 2" by simp_all
  then have "m = n" by presburger
  with True show ?thesis by simp
next
  case False
  assume "if b then 2 * m \<le> 2 * n + 1 \<and> 2 * n + 1 \<le> 2 * m + 2 else 2 * n + 1 = 2 * m"
  with False have "2 * n + 1 = 2 * m" by simp
  then show ?thesis by presburger
qed

lemma apart_unfinished:
  assumes s: "journal_ok s" and f: "find_op (o_id q) (work s) = Some r" "op_of_row r = q" "\<not> r_complete r"
    and p: "progress (work s) (o_id q) = 2 * n + 1"
  shows "apart s q n"
  unfolding apart_def
proof (intro allI impI)
  fix q' assume o: "oper s = Some q'"
  then have "mem_fits (work s) q' (nxt s) (pending s)" using s by (simp add: journal_ok_def mem_ok_def)
  then obtain r' where r': "find_op (o_id q') (work s) = Some r'" "op_of_row r' = q'"
    "r_complete r' \<or> (if pending s then 2 * nxt s \<le> progress (work s) (o_id q')
       \<and> progress (work s) (o_id q') \<le> 2 * nxt s + 2 else progress (work s) (o_id q') = 2 * nxt s)"
    unfolding mem_fits_def by blast
  show "q' = q \<and> nxt s = n \<and> pending s \<or> (\<exists>r. find_op (o_id q') (work s) = Some r \<and> op_of_row r = q' \<and> r_complete r)"
  proof (cases "r_complete r'")
    case False
    have "db_ok (work s)" using s by (simp add: journal_ok_def)
    then have "r' = r"
      using only_unfinished [of "work s" r' r] find_op_Some [OF r'(1)] find_op_Some [OF f(1)] False f(3) by blast
    then have "q' = q" using r' f by simp
    moreover have "pending s \<and> nxt s = n"
      using r'(3) False unfolding \<open>q' = q\<close> p by (intro odd_inside) simp
    ultimately show ?thesis by blast
  qed (use r' in blast)
qed

lemma ok_resume:
  assumes "journal_ok t" and "find_op (o_id q) (disk t) = Some r" "op_of_row r = q" "progress (disk t) (o_id q) = 2 * n"
  shows "journal_ok (t\<lparr>oper := Some q, nxt := n, pending := False\<rparr>)"
  using assms by (auto simp: journal_ok_def mem_ok_def mem_fits_def)

text \<open>The common end of \<open>accept_comparison\<close> and \<open>accept_verification\<close>.\<close>

lemma wp_accept:
  assumes s: "journal_ok s" and b: "boundary_value ident n (src, tgt) (work s) = Inr (q, prev)"
    and p: "phase_plan src tgt = Inr plan" "plan ! n = phase" and m: "m = Suc n"
  shows "wp (seqP (transaction (insert_step (step_row_at q n phase Done ev)) label) (resume_at q m))
     (\<lambda>_ t. journal_ok t \<and> spec_steps (disk s) (disk t)) s"
proof -
  have "db_ok (work s)" using s by (simp add: journal_ok_def)
  then obtain r plan' where r: "find_op (o_id q) (work s) = Some r" "op_of_row r = q" "\<not> r_complete r"
    "phase_plan src tgt = Inr plan'" "can_append (work s) (o_id q) n (plan' ! n) Done"
    using boundary_value_Inr [OF b] by blast
  then have c: "can_append (work s) (o_id q) n phase Done" using p by simp
  have pr: "progress (work s) (o_id q) = 2 * n + 1" using c by (auto simp: can_append_def)
  note ok = ok_append [OF s c apart_unfinished [OF s r(1-3) pr]]
  let ?w = "append_step (work s) (step_row_at q n phase Done ev)"
  show ?thesis unfolding wp_seqP m
  proof (rule wp_insert)
    show "thenQ (\<lambda>_. resume_at q (Suc n)) (\<lambda>_ t. journal_ok t \<and> spec_steps (disk s) (disk t)) (Inl e)
        (s\<lparr>work := disk s, commits := c\<rparr>)" for e c
      using ok_fail [OF s, of c] by simp
    fix r' :: "unit res" and k
    let ?t = "s\<lparr>work := ?w, disk := ?w, commits := k\<rparr>"
    have t: "journal_ok ?t" "spec_steps (disk s) ?w" using ok by blast+
    have "journal_ok (?t\<lparr>oper := Some q, nxt := Suc n, pending := False\<rparr>)"
      by (rule ok_resume [OF t(1)]) (use r pr in \<open>simp_all add: step_row_at_def\<close>)
    then show "thenQ (\<lambda>_. resume_at q (Suc n)) (\<lambda>_ t. journal_ok t \<and> spec_steps (disk s) (disk t)) r' ?t"
      using t by (cases r') (simp_all add: resume_at_def)
  qed
qed

text \<open>A read-only beginning of a program: whatever it raises leaves the journal as it was.\<close>

abbreviation kept :: "'w journal_scheme \<Rightarrow> 'a res \<Rightarrow> 'w journal_scheme \<Rightarrow> bool" where
  "kept s \<equiv> \<lambda>_ t. journal_ok t \<and> spec_steps (disk s) (disk t)"

lemma wp_guard:
  assumes "journal_ok s" and "snd (m s) = s" and "\<And>x. fst (m s) = Inr x \<Longrightarrow> wp (f x) (kept s) s"
  shows "wp (bindP m f) (kept s) s"
  using assms by (simp add: wp_def [of m]) (intro thenQ_I; simp)

lemma wp_guard_seq:
  assumes "journal_ok s" and "snd (m s) = s" and "\<And>x. fst (m s) = Inr x \<Longrightarrow> wp k (kept s) s"
  shows "wp (seqP m k) (kept s) s"
  unfolding seqP_def using assms by (intro wp_guard) auto

lemma pure_simps [simp]:
  "snd (check_authority s) = s" "snd (lift r s) = s" "snd (raise_when c e s) = s"
  by (simp_all add: check_authority_def prog_defs)

lemma pure_results [simp]: "fst (lift r s) = r" "fst (raise_when c e s) = raise_if (c s) e (Inr ())"
  by (simp_all add: prog_defs)

lemma boundary_pure [simp]: "snd (boundary ident n dir s) = s"
  by (simp add: boundary_def seqP_def bindP_def check_authority_def split: sum.splits)

lemma boundary_fst: "fst (boundary ident n dir s) = Inr x \<Longrightarrow> boundary_value ident n dir (work s) = Inr x"
  by (auto simp: boundary_def seqP_def bindP_def check_authority_def split: sum.splits)

lemma plan_positions: "PHASES ! 5 = ''compare''" "PHASES ! 9 = ''verify''" "D3_PHASES ! 10 = ''rejoin_boot''"
  by (simp_all add: PHASES_def D3_PHASES_def)

lemma phase_plans [simp]: "phase_plan ''A'' ''B'' = Inr PHASES" "phase_plan ''B'' ''A'' = Inr D3_PHASES"
  by (simp_all add: phase_plan_def)

lemma accept_comparison_follows: "follows (accept_comparison ident result)"
proof (rule follows_I)
  fix s :: "'a journal_scheme" assume s: "journal_ok s"
  show "wp (accept_comparison ident result) (kept s) s"
    unfolding accept_comparison_def comparison_boundary_def
  proof (intro wp_guard [OF s], simp)
    fix qp assume "fst (boundary ident 5 (''A'', ''B'') s) = Inr qp"
    note b = boundary_fst [OF this]
    obtain q prev where qp: "qp = (q, prev)" by fastforce
    note w = wp_accept [OF s b [unfolded qp] phase_plans(1) plan_positions(1), of "6"]
    show "wp (case qp of (q, prev) \<Rightarrow> seqP (lift (comparison_accepted (op_json q) prev result))
       (bindP (lift (dumps result)) (\<lambda>text. seqP (transaction (insert_step (step_row_at q 5 ''compare'' Done text))
           ''accept-comparison-done'') (resume_at q 6)))) (kept s) s"
      unfolding qp prod.case
      by (rule wp_guard_seq [OF s], simp, rule wp_guard [OF s], simp, rule w, simp)
  qed
qed

lemma accept_verification_follows: "follows (accept_verification ident result)"
proof (rule follows_I)
  fix s :: "'a journal_scheme" assume s: "journal_ok s"
  show "wp (accept_verification ident result) (kept s) s"
    unfolding accept_verification_def verification_boundary_def
  proof (intro wp_guard [OF s], simp)
    fix qp assume "fst (boundary ident 9 (''A'', ''B'') s) = Inr qp"
    note b = boundary_fst [OF this]
    obtain q prev where qp: "qp = (q, prev)" by fastforce
    note w = wp_accept [OF s b [unfolded qp] phase_plans(1) plan_positions(2), of "10"]
    show "wp (case qp of (q, prev) \<Rightarrow> seqP (lift (verification_accepted (op_json q) prev result))
       (bindP (lift (dumps result)) (\<lambda>text. seqP (transaction (insert_step (step_row_at q 9 ''verify'' Done text))
           ''accept-verification-done'') (resume_at q 10)))) (kept s) s"
      unfolding qp prod.case
      by (rule wp_guard_seq [OF s], simp, rule wp_guard [OF s], simp, rule w, simp)
  qed
qed

lemma insert_op_cases: "\<exists>r. insert_op x s = (r, s\<lparr>work := if r = Inr () then add_op (work s) x else work s\<rparr>)
    \<and> (r = Inr () \<longrightarrow> (\<forall>p \<in> set (ops (work s)). r_id p \<noteq> r_id x \<and> r_new_epoch p \<noteq> r_new_epoch x))"
  by (auto simp: insert_op_def add_op_def list_ex_iff)

lemma begin_follows: "follows (begin_op source target source_epoch)"
proof (rule follows_I)
  fix s :: "'a journal_scheme" assume s: "journal_ok s"
  show "wp (begin_op source target source_epoch) (kept s) s"
    unfolding begin_op_def
  proof (intro wp_guard_seq [OF s])
    fix plan assume "fst (lift (phase_plan source target) s) = Inr plan"
    then have plan: "phase_plan source target = Inr plan" by simp
    fix u assume "fst (raise_when (\<lambda>s. Inr (oper s \<noteq> None \<or> unfinished (work s))) RuntimeError s) = Inr u"
    then have g: "oper s = None" "\<not> unfinished (work s)" by (auto simp: raise_if_def split: if_splits)
    let ?s1 = "s\<lparr>drawn := Suc (drawn s)\<rparr>"
    define q where "q = \<lparr>o_id = uuids s (drawn s), o_source = source, o_target = target,
        o_source_epoch = str_val source_epoch, o_new_epoch = ''d1-'' @ uuids s (drawn s)\<rparr>"
    have s1: "journal_ok ?s1" using s by (simp add: journal_ok_def mem_ok_def)
    obtain r where r: "insert_op (op_row_of q) ?s1
        = (r, ?s1\<lparr>work := if r = Inr () then add_op (work ?s1) (op_row_of q) else work ?s1\<rparr>)"
      "r = Inr () \<Longrightarrow> \<forall>p \<in> set (ops (work ?s1)). r_id p \<noteq> o_id q \<and> r_new_epoch p \<noteq> o_new_epoch q"
      using insert_op_cases [of "op_row_of q" ?s1] by (auto simp: op_row_of_def)
    have "wp (transaction (insert_op (op_row_of q)) ''begin'')
        (thenQ (\<lambda>_. seqP (modify (\<lambda>s. s\<lparr>oper := Some q, nxt := 0, pending := False\<rparr>)) (ret q)) (kept s)) ?s1"
    proof (rule wp_transaction)
      show "insert_op (op_row_of q) ?s1
        = (r, ?s1\<lparr>work := if r = Inr () then add_op (work ?s1) (op_row_of q) else work ?s1\<rparr>)" by (rule r(1))
      show "thenQ (\<lambda>_. seqP (modify (\<lambda>s. s\<lparr>oper := Some q, nxt := 0, pending := False\<rparr>)) (ret q)) (kept s) (Inl e)
          (?s1\<lparr>work := disk ?s1, commits := c\<rparr>)" for e c
        using ok_fail [OF s1, of c] by simp
      fix r' :: "unit res" and c
      assume "r = Inr ()"
      then have new: "\<forall>p \<in> set (ops (work s)). r_id p \<noteq> o_id q \<and> r_new_epoch p \<noteq> o_new_epoch q"
        using r(2) by simp
      have d: "db_ok (work s)" using s by (simp add: journal_ok_def)
      let ?w = "add_op (work s) (op_row_of q)"
      have p: "phase_plan (o_source q) (o_target q) = Inr plan" using plan by (simp add: q_def)
      note a = db_ok_add_op [OF d g(2) new p]
      have sp: "spec_step (db_abs (work s)) (db_abs ?w)"
        by (rule spec_add_op [OF g(2) _ p a(2)]) (use new in blast)
      have ok: "journal_ok (?s1\<lparr>work := ?w, disk := ?w, commits := c\<rparr>) \<and> spec_steps (disk ?s1) ?w"
      proof (rule ok_commit [OF s1 a(1)])
        show "mem_ok ?w ?s1" using g(1) by (simp add: mem_ok_def)
        show "spec_steps (work ?s1) ?w" using sp by simp
      qed
      have none: "find_op (o_id q) (work s) = None"
        using new find_op_Some [of "o_id q" "work s"] by (cases "find_op (o_id q) (work s)") auto
      have "journal_ok (?s1\<lparr>work := ?w, disk := ?w, commits := c, oper := Some q, nxt := 0, pending := False\<rparr>)"
        using ok none a(2)
        by (auto simp: journal_ok_def mem_ok_def mem_fits_def find_op_add_op op_row_of_def op_of_row_def)
      then show "thenQ (\<lambda>_. seqP (modify (\<lambda>s. s\<lparr>oper := Some q, nxt := 0, pending := False\<rparr>)) (ret q)) (kept s) r'
          (?s1\<lparr>work := if r = Inr () then add_op (work ?s1) (op_row_of q) else work ?s1,
            disk := if r = Inr () then add_op (work ?s1) (op_row_of q) else work ?s1, commits := c\<rparr>)"
        using ok \<open>r = Inr ()\<close> by (cases r') simp_all
    qed
    then show "wp (bindP uuid4 (\<lambda>i. let q = \<lparr>o_id = i, o_source = source, o_target = target,
                o_source_epoch = str_val source_epoch, o_new_epoch = ''d1-'' @ i\<rparr> in
       seqP (transaction (insert_op (op_row_of q)) ''begin'')
       (seqP (modify (\<lambda>s. s\<lparr>oper := Some q, nxt := 0, pending := False\<rparr>)) (ret q)))) (kept s) s"
      unfolding wp_bindP by (simp add: wp_def [of uuid4] uuid4_def Let_def q_def)
  qed simp_all
qed

text \<open>What the guard of \<open>finish\<close> establishes.\<close>

lemma finish_guard:
  assumes s: "journal_ok s" and g: "finish_refused s = Inr False"
  shows "\<exists>q r plan. oper s = Some q \<and> find_op (o_id q) (work s) = Some r \<and> r_id r = o_id q
    \<and> r_source r = o_source q \<and> r_target r = o_target q \<and> r_contract r = RESTORE_CONTRACT
    \<and> \<not> r_complete r \<and> phase_plan (r_source r) (r_target r) = Inr plan
    \<and> map step_key (steps_of (o_id q) (work s)) = interleaved 0 plan
    \<and> progress (work s) (o_id q) = 2 * length plan"
proof -
  obtain plan where plan: "current_plan s = Inr plan" "\<not> row_differs s" "nxt s = length plan" "\<not> pending s"
    and some: "\<not> (case oper s of None \<Rightarrow> True
      | Some q \<Rightarrow> map step_key (steps_of (o_id q) (work s)) \<noteq> interleaved 0 plan)"
    using g unfolding finish_refused_def mapR_eq_Inr by blast
  obtain q r where q: "oper s = Some q" "current_row s = Some r" "find_op (o_id q) (work s) = Some r"
    "r_source r = o_source q" "r_target r = o_target q" "r_contract r = RESTORE_CONTRACT"
    using current_row_Some plan(2) by blast
  have d: "db_ok (work s)" using s by (simp add: journal_ok_def)
  have ri: "r_id r = o_id q" using find_op_Some [OF q(3)] by blast
  have m: "map step_key (steps_of (o_id q) (work s)) = interleaved 0 plan" using some q(1) by simp
  have pr: "progress (work s) (o_id q) = 2 * length plan"
    by (metis length_interleaved length_map m progress_def)
  have c: "\<not> r_complete r"
  proof
    assume c: "r_complete r"
    then have "plan = []" using plan(1) q(2) by (simp add: current_plan_def)
    moreover have "steps_ok (work s) r" using d find_op_Some [OF q(3)] by (simp add: db_ok_def)
    ultimately show False using c pr ri by (auto simp: steps_ok_def phase_plan_def PHASES_def D3_PHASES_def split: if_splits)
  qed
  then have "phase_plan (r_source r) (r_target r) = Inr plan"
    using plan(1) q(2) by (simp add: current_plan_def)
  with q ri c m pr show ?thesis by blast
qed

lemma finish_follows: "follows finish"
proof (rule follows_I)
  fix s :: "'a journal_scheme" assume s: "journal_ok s"
  show "wp finish (kept s) s"
    unfolding finish_def
  proof (intro wp_guard_seq [OF s])
    fix u assume "fst (raise_when finish_refused RuntimeError s) = Inr u"
    then have "finish_refused s = Inr False" by (simp add: raise_if_eq_Inr)
    from finish_guard [OF s this] obtain q r plan where q: "oper s = Some q"
      "find_op (o_id q) (work s) = Some r" "r_contract r = RESTORE_CONTRACT"
      and ri: "r_id r = o_id q" and c: "\<not> r_complete r"
      and p: "phase_plan (r_source r) (r_target r) = Inr plan"
      and m: "map step_key (steps_of (o_id q) (work s)) = interleaved 0 plan"
      and pr: "progress (work s) (o_id q) = 2 * length plan" by blast
    have d: "db_ok (work s)" using s by (simp add: journal_ok_def)
    let ?w = "completed (o_id q) (work s)"
    have okw: "db_ok ?w" by (rule db_ok_completed [OF d q(2) p m])
    have sp: "spec_step (db_abs (work s)) (db_abs ?w)" by (rule spec_completed [OF q(2) c p pr q(3)])
    have fits: "mem_fits ?w q n b" for n b
      using q ri s by (auto simp: mem_fits_def find_op_completed hit_def journal_ok_def mem_ok_def)
    have "wp (transaction (complete_op (o_id q)) ''finish'')
        (thenQ (\<lambda>_. modify (\<lambda>s. s\<lparr>oper := None\<rparr>)) (kept s)) s"
    proof (rule wp_transaction)
      show "complete_op (o_id q) s = (if length (filter (hit (o_id q)) (ops (work s))) \<noteq> 1 then Inl RuntimeError
          else Inr (), s\<lparr>work := ?w\<rparr>)"
        by (simp add: complete_op_def completed_def)
      show "thenQ (\<lambda>_. modify (\<lambda>s. s\<lparr>oper := None\<rparr>)) (kept s) (Inl e) (s\<lparr>work := disk s, commits := k\<rparr>)" for e k
        using ok_fail [OF s, of k] by simp
      fix r' :: "unit res" and k
      have ok: "journal_ok (s\<lparr>work := ?w, disk := ?w, commits := k\<rparr>) \<and> spec_steps (disk s) ?w"
        by (rule ok_commit [OF s okw]) (use fits q sp in \<open>auto simp: mem_ok_def\<close>)
      then have "journal_ok (s\<lparr>work := ?w, disk := ?w, commits := k, oper := None\<rparr>)"
        by (simp add: journal_ok_def mem_ok_def)
      then show "thenQ (\<lambda>_. modify (\<lambda>s. s\<lparr>oper := None\<rparr>)) (kept s) r'
          (s\<lparr>work := ?w, disk := ?w, commits := k\<rparr>)"
        using ok by (cases r') simp_all
    qed
    then show "wp (bindP (gets oper) (\<lambda>q. seqP (transaction (complete_op (case q of Some q' \<Rightarrow> o_id q' | None \<Rightarrow> []))
        ''finish'') (modify (\<lambda>s. s\<lparr>oper := None\<rparr>)))) (kept s) s"
      using q(1) by simp
  qed simp_all
qed

lemma rejoin_ready_Inr:
  assumes "rejoin_ready b ident s = Inr (q, prev)"
  shows "\<exists>r. find_op (o_id q) (work s) = Some r \<and> op_of_row r = q \<and> \<not> r_complete r
    \<and> r_source r = ''B'' \<and> r_target r = ''A'' \<and> r_contract r = RESTORE_CONTRACT
    \<and> map step_key (steps_of (o_id q) (work s)) = interleaved 0 (take (if b then 11 else 10) D3_PHASES)
    \<and> progress (work s) (o_id q) = 2 * (if b then 11 else 10)
    \<and> files s (path_join (under (o_id q) s) ''failure.json'') = None"
proof -
  have plan: "interleaved 0 (take 10 D3_PHASES) @ (if b then both 10 ''rejoin_boot'' else [])
      = interleaved 0 (take (if b then 11 else 10) D3_PHASES)"
    by (cases b) (simp_all add: D3_PHASES_def interleaved_Cons both_def)
  obtain r where r: "unfinished_row (str_val ident) (work s) = Some r"
    and rest: "r_source r = ''B''" "r_target r = ''A''" "r_contract r = RESTORE_CONTRACT"
      "map step_key (steps_of (str_val ident) (work s)) = interleaved 0 (take 10 D3_PHASES) @
          (if b then both 10 ''rejoin_boot'' else [])"
      "files s (path_join (under (str_val ident) s) ''failure.json'') = None" "q = op_of_row r"
    using assms
    by (auto simp: rejoin_ready_def Let_def mapR_eq_Inr split: option.splits if_split_asm)
  then have f: "find_op (str_val ident) (work s) = Some r" "\<not> r_complete r" "r_id r = str_val ident"
    by (auto simp: unfinished_row_def dest: find_op_Some split: option.splits if_splits)
  have id: "o_id q = str_val ident" using rest(6) f(3) by simp
  have m: "map step_key (steps_of (o_id q) (work s)) = interleaved 0 (take (if b then 11 else 10) D3_PHASES)"
    using rest(4) plan id by simp
  have "progress (work s) (o_id q) = 2 * (if b then 11 else 10)"
    using arg_cong [OF m, of length] by (simp add: progress_def D3_PHASES_def)
  then show ?thesis using f rest m id by auto
qed

lemma continue_follows: "follows (continue_rejoin ident b)"
proof (rule follows_I)
  fix s :: "'a journal_scheme" assume s: "journal_ok s"
  show "wp (continue_rejoin ident b) (kept s) s"
    unfolding continue_rejoin_def
  proof (rule wp_guard_seq [OF s], simp, rule wp_guard_seq [OF s], simp, rule wp_guard [OF s], simp)
    fix qp assume "fst (rejoin_ready b ident s, s) = Inr qp"
    obtain q prev where qp: "qp = (q, prev)" by fastforce
    then have "rejoin_ready b ident s = Inr (q, prev)" using \<open>fst (rejoin_ready b ident s, s) = Inr qp\<close> by simp
    from rejoin_ready_Inr [OF this] obtain r where r: "find_op (o_id q) (disk s) = Some r" "op_of_row r = q"
      "progress (disk s) (o_id q) = 2 * (if b then 11 else 10)"
      using s unfolding journal_ok_def by metis
    have "journal_ok (s\<lparr>oper := Some q, nxt := if b then 11 else 10, pending := False\<rparr>)"
      by (rule ok_resume [OF s r])
    then have w: "wp (seqP (resume_at q (if b then 11 else 10)) (ret (q, prev))) (kept s) s"
      by (simp add: resume_at_def)
    show "wp (case qp of (q, prev) \<Rightarrow>
        seqP (\<lambda>s. (rejoin_proof b q prev s, s))
        (seqP (resume_at q (if b then 11 else 10)) (ret (q, prev)))) (kept s) s"
      unfolding qp prod.case by (rule wp_guard_seq [OF s], simp, rule w)
  qed
qed

text \<open>\<open>reconcile_rejoin_boot_done\<close> leaves a failed insertion in the open transaction; closing the
  journal, as the \<open>with\<close> block does on any exception, discards it.\<close>

definition settles :: "'w journal_scheme \<Rightarrow> 'a res \<Rightarrow> 'w journal_scheme \<Rightarrow> bool" where
  "settles s r t \<longleftrightarrow> (case r of Inl _ \<Rightarrow> journal_ok (t\<lparr>work := disk t\<rparr>) | Inr _ \<Rightarrow> journal_ok t)
     \<and> spec_steps (disk s) (disk t)"

lemma journal_ok_close: "journal_ok t \<Longrightarrow> journal_ok (t\<lparr>work := disk t\<rparr>)"
  by (simp add: journal_ok_def mem_ok_def)

lemma kept_settles: "kept s r t \<Longrightarrow> settles s r t"
  by (auto simp: settles_def journal_ok_close split: sum.splits)

lemma wp_guard_settles:
  assumes "journal_ok s" and "snd (m s) = s" and "\<And>x. fst (m s) = Inr x \<Longrightarrow> wp (f x) (settles s) s"
  shows "wp (bindP m f) (settles s) s"
  using assms by (simp add: wp_def [of m])
    (intro thenQ_I; simp add: settles_def journal_ok_close)

lemma wp_guard_seq_settles:
  assumes "journal_ok s" and "snd (m s) = s" and "\<And>x. fst (m s) = Inr x \<Longrightarrow> wp k (settles s) s"
  shows "wp (seqP m k) (settles s) s"
  unfolding seqP_def using assms by (intro wp_guard_settles) auto

lemma reconcile_settles:
  assumes s: "journal_ok s"
  shows "wp (reconcile_rejoin_boot_done ident evidence) (settles s) s"
  unfolding reconcile_rejoin_boot_done_def
proof (rule wp_guard_seq_settles [OF s], simp, rule wp_guard_settles [OF s], simp)
  fix qp assume "fst (boundary ident 10 (''B'', ''A'') s) = Inr qp"
  note b = boundary_fst [OF this]
  obtain q prev where qp: "qp = (q, prev)" by fastforce
  have "db_ok (work s)" using s by (simp add: journal_ok_def)
  then obtain r where r: "find_op (o_id q) (work s) = Some r" "op_of_row r = q" "\<not> r_complete r"
    and c: "can_append (work s) (o_id q) 10 ''rejoin_boot'' Done"
    using boundary_value_Inr [OF b [unfolded qp]] plan_positions(3) by auto
  have pr: "progress (work s) (o_id q) = 2 * 10 + 1" using c by (auto simp: can_append_def)
  note ok = ok_append [OF s c apart_unfinished [OF s r pr]]
  have rest: "wp (seqP (insert_step (step_row_at q 10 ''rejoin_boot'' Done ev))
     (seqP (commit ''reconcile-rejoin-boot-done'')
     (seqP check_authority (seqP (resume_at q 11) (ret (q, prev)))))) (settles s) s" for ev
  proof -
    let ?w = "append_step (work s) (step_row_at q 10 ''rejoin_boot'' Done ev)"
    obtain r0 where ins: "insert_step (step_row_at q 10 ''rejoin_boot'' Done ev) s
        = (r0, s\<lparr>work := if r0 = Inr () then ?w else work s\<rparr>)"
      using insert_step_cases by blast
    have closed: "settles s (Inl e) (s\<lparr>work := v, commits := k\<rparr>)" for e v k
      using s by (simp add: settles_def journal_ok_def mem_ok_def)
    have closed0: "settles s (Inl e) s" for e using s by (simp add: settles_def journal_ok_close)
    have good: "journal_ok (s\<lparr>work := ?w, disk := ?w, commits := k\<rparr>) \<and> spec_steps (disk s) ?w" for k
      using ok by blast
    have res: "journal_ok (s\<lparr>work := ?w, disk := ?w, commits := k, oper := Some q, nxt := 11, pending := False\<rparr>)" for k
      using ok_resume [of "s\<lparr>work := ?w, disk := ?w, commits := k\<rparr>" q r 11] good [of k] r pr
      by (simp add: step_row_at_def)
    have kg: "settles s x (s\<lparr>work := ?w, disk := ?w, commits := k\<rparr>)" for x :: "(operation \<times> json) res" and k
      using good [of k] by (intro kept_settles) simp
    have kr: "settles s x (s\<lparr>work := ?w, disk := ?w, commits := k, oper := Some q, nxt := 11, pending := False\<rparr>)"
      for x :: "(operation \<times> json) res" and k
      using good [of k] res [of k] by (intro kept_settles) simp
    have comm: "wp (commit ''reconcile-rejoin-boot-done'')
        (thenQ (\<lambda>_. seqP check_authority (seqP (resume_at q 11) (ret (q, prev)))) (settles s)) (s\<lparr>work := ?w\<rparr>)"
    proof -
      have o1: "s\<lparr>work := ?w, commits := k, disk := ?w\<rparr> = s\<lparr>work := ?w, disk := ?w, commits := k\<rparr>" for k
        by (cases s) simp
      have tail: "thenQ (\<lambda>_. seqP check_authority (seqP (resume_at q 11) (ret (q, prev)))) (settles s) r1
          (s\<lparr>work := ?w, disk := ?w, commits := k\<rparr>)" for r1 :: "unit res" and k
        using kg [of _ k] kr [of _ k]
        by (cases r1; cases "fst (check_authority (s\<lparr>work := ?w, disk := ?w, commits := k\<rparr>))")
          (simp_all add: resume_at_def)
      show ?thesis
        unfolding wp_def commit_def Let_def
        using tail [of "Inr ()"] kg closed by (cases "fault s (commits s) ''reconcile-rejoin-boot-done''") (simp_all add: o1)
    qed
    show ?thesis
    proof (cases r0)
      case (Inl e)
      then show ?thesis using ins closed0 by (simp add: wp_def [of "insert_step _"])
    next
      case (Inr u)
      then show ?thesis using ins comm by (simp add: wp_def [of "insert_step _"])
    qed
  qed
  show "wp (case qp of (q, prev) \<Rightarrow>
     seqP (raise_when (\<lambda>_. Inr (\<not> is_obj evidence \<or> \<not> truthy evidence)) ValueError)
     (seqP (lift (validate_rejoin_boot_boundary (op_json q) prev (Some evidence) None None))
     (bindP (lift (dumps evidence)) (\<lambda>text.
     seqP (insert_step (step_row_at q 10 ''rejoin_boot'' Done text))
     (seqP (commit ''reconcile-rejoin-boot-done'')
     (seqP check_authority (seqP (resume_at q 11) (ret (q, prev))))))))) (settles s) s"
    unfolding qp prod.case
    by (rule wp_guard_seq_settles [OF s], simp, rule wp_guard_seq_settles [OF s], simp,
        rule wp_guard_settles [OF s], simp, rule rest)
qed

end
