(* ===== verification/Journal_Sessions.thy ===== *)
theory Journal_Sessions
  imports Journal_Facts
begin

text \<open>
  Runs of the controller. A session is what happens inside one \<open>with Journal(...)\<close> block: commands
  one after another until one raises, then the block is left and the open transaction is lost.
  The locale \<open>durable_log\<close> is what the rest of the controller relies on: a store whose commands keep
  an invariant and whose durable view follows \<open>spec_step\<close>. Its lemmas are proved from that contract
  alone, for any sequence of sessions, and it is interpreted on the journal.
\<close>

section \<open>Sessions\<close>

fun session :: "('c \<Rightarrow> ('s, unit) prog) \<Rightarrow> ('s \<Rightarrow> 's) \<Rightarrow> 'c list \<Rightarrow> 's \<Rightarrow> 's" where
  "session run close [] s = close s"
| "session run close (c # cs) s = (case run c s of
     (Inl e, t) \<Rightarrow> close t | (Inr u, t) \<Rightarrow> session run close cs t)"

definition sessions :: "('c \<Rightarrow> ('s, unit) prog) \<Rightarrow> ('s \<Rightarrow> 's) \<Rightarrow> 'c list list \<Rightarrow> 's \<Rightarrow> 's" where
  "sessions run close css s = foldl (\<lambda>t cs. session run close cs t) s css"

section \<open>The specification never goes back\<close>

definition spec_le :: "spec \<Rightarrow> spec \<Rightarrow> bool" where
  "spec_le a b \<longleftrightarrow> (\<forall>i s t n c. a i = Some (s, t, n, c) \<longrightarrow>
     (\<exists>m d. b i = Some (s, t, m, d) \<and> n \<le> m \<and> (c \<longrightarrow> d \<and> m = n)))"

lemma spec_le_refl: "spec_le a a"
  by (simp add: spec_le_def)

lemma spec_le_trans: "spec_le a b \<Longrightarrow> spec_le b c \<Longrightarrow> spec_le a c"
  by (fastforce simp: spec_le_def)

lemma spec_step_le: "spec_step a b \<Longrightarrow> spec_le a b"
  by (erule spec_stepE) (auto simp: spec_le_def)

lemma spec_steps_le: "spec_step\<^sup>*\<^sup>* a b \<Longrightarrow> spec_le a b"
  by (induction rule: rtranclp_induct) (blast intro: spec_le_refl spec_le_trans spec_step_le)+

text \<open>At most one operation is unfinished, in every state the specification reaches.\<close>

definition spec_single :: "spec \<Rightarrow> bool" where
  "spec_single a \<longleftrightarrow> (\<forall>i j s t n u v m. a i = Some (s, t, n, False) \<and> a j = Some (u, v, m, False) \<longrightarrow> i = j)"

lemma spec_step_single: "spec_step a b \<Longrightarrow> spec_single a \<Longrightarrow> spec_single b"
proof (erule spec_stepE)
  fix i src tgt plan
  assume "b = a(i \<mapsto> (src, tgt, 0, False))" "\<And>j s t n c. a j = Some (s, t, n, c) \<Longrightarrow> c"
  then show "spec_single b" by (fastforce simp: spec_single_def)
next
  fix i src tgt n plan
  assume "spec_single a" "b = a(i \<mapsto> (src, tgt, Suc n, False))" "a i = Some (src, tgt, n, False)"
  then show "spec_single b" unfolding spec_single_def by (metis fun_upd_apply)
next
  fix i src tgt n plan
  assume "spec_single a" "b = a(i \<mapsto> (src, tgt, n, True))"
  then show "spec_single b" unfolding spec_single_def by (auto split: if_splits)
qed

lemma spec_steps_single: "spec_step\<^sup>*\<^sup>* a b \<Longrightarrow> spec_single a \<Longrightarrow> spec_single b"
  by (induction rule: rtranclp_induct) (blast intro: spec_step_single)+

section \<open>The contract of a durable log\<close>

locale durable_log =
  fixes ok :: "'s \<Rightarrow> bool" and view :: "'s \<Rightarrow> spec" and close :: "'s \<Rightarrow> 's"
    and run :: "'c \<Rightarrow> ('s, unit) prog" and allowed :: "'c \<Rightarrow> bool"
  assumes run_returns: "allowed c \<Longrightarrow> ok s \<Longrightarrow> run c s = (Inr u, t) \<Longrightarrow> ok t"
    and run_raises: "allowed c \<Longrightarrow> ok s \<Longrightarrow> run c s = (Inl e, t) \<Longrightarrow> ok (close t)"
    and run_follows: "allowed c \<Longrightarrow> ok s \<Longrightarrow> run c s = (r, t) \<Longrightarrow> spec_step\<^sup>*\<^sup>* (view s) (view t)"
    and close_ok: "ok s \<Longrightarrow> ok (close s)"
    and close_view: "view (close s) = view s"
begin

lemma session_ok:
  "\<forall>c \<in> set cs. allowed c \<Longrightarrow> ok s \<Longrightarrow>
     ok (session run close cs s) \<and> spec_step\<^sup>*\<^sup>* (view s) (view (session run close cs s))"
proof (induction cs arbitrary: s)
  case Nil
  then show ?case by (simp add: close_ok close_view)
next
  case (Cons c cs)
  obtain r t where rt: "run c s = (r, t)" by fastforce
  have f: "spec_step\<^sup>*\<^sup>* (view s) (view t)" using run_follows [OF _ _ rt] Cons.prems by simp
  show ?case
  proof (cases r)
    case (Inl e)
    then show ?thesis using rt f run_raises [of c s e t] Cons.prems by (simp add: close_view)
  next
    case (Inr u)
    then have "ok t" using run_returns [of c s u t] rt Cons.prems by simp
    with Cons.IH [of t] Cons.prems f rt Inr show ?thesis by (auto intro: rtranclp_trans)
  qed
qed

lemma sessions_ok:
  "\<forall>cs \<in> set css. \<forall>c \<in> set cs. allowed c \<Longrightarrow> ok s \<Longrightarrow>
     ok (sessions run close css s) \<and> spec_step\<^sup>*\<^sup>* (view s) (view (sessions run close css s))"
proof (induction css arbitrary: s)
  case Nil
  then show ?case by (simp add: sessions_def)
next
  case (Cons cs css)
  have "ok (session run close cs s) \<and> spec_step\<^sup>*\<^sup>* (view s) (view (session run close cs s))"
    using session_ok [of cs s] Cons.prems by simp
  with Cons.IH [of "session run close cs s"] Cons.prems show ?case
    by (auto simp: sessions_def intro: rtranclp_trans)
qed

lemma sessions_forward:
  assumes "\<forall>cs \<in> set css. \<forall>c \<in> set cs. allowed c" and "ok s"
  shows "spec_le (view s) (view (sessions run close css s))"
  using sessions_ok [OF assms] spec_steps_le by blast

lemma sessions_single:
  assumes "\<forall>cs \<in> set css. \<forall>c \<in> set cs. allowed c" and "ok s" and "spec_single (view s)"
  shows "spec_single (view (sessions run close css s))"
  using sessions_ok [OF assms(1,2)] spec_steps_single assms(3) by blast

end

section \<open>The journal's commands\<close>

datatype 'w command =
    Begin string string json
  | Step string "('w journal_scheme, json) prog"
  | Finish
  | AcceptComparison json json
  | AcceptVerification json json
  | ContinueRejoin json bool
  | ReconcileBoot json json

definition forget :: "('s, 'a) prog \<Rightarrow> ('s, unit) prog" where
  "forget m = seqP m (ret ())"

fun run_command :: "'w command \<Rightarrow> ('w journal_scheme, unit) prog" where
  "run_command (Begin source target epoch) = forget (begin_op source target epoch)"
| "run_command (Step phase action) = forget (step phase action)"
| "run_command Finish = finish"
| "run_command (AcceptComparison ident result) = accept_comparison ident result"
| "run_command (AcceptVerification ident result) = accept_verification ident result"
| "run_command (ContinueRejoin ident b) = forget (continue_rejoin ident b)"
| "run_command (ReconcileBoot ident evidence) = forget (reconcile_rejoin_boot_done ident evidence)"

text \<open>Leaving the block and constructing the next \<open>Journal\<close>.\<close>

definition reenter :: "'w journal_scheme \<Rightarrow> 'w journal_scheme" where
  "reenter s = s\<lparr>work := disk s, oper := None, nxt := 0, pending := False\<rparr>"

fun well_behaved :: "'w command \<Rightarrow> bool" where
  "well_behaved (Step phase action) \<longleftrightarrow> framed action"
| "well_behaved _ \<longleftrightarrow> True"

lemma fst_snd_forget: "fst (forget m s) = mapR (\<lambda>_. ()) (fst (m s))" "snd (forget m s) = snd (m s)"
  by (auto simp: forget_def prog_defs split: prod.splits sum.splits)

lemma follows_forget: "follows m \<Longrightarrow> follows (forget m)"
  by (simp add: follows_def wp_def fst_snd_forget)

lemma settles_forget: "wp m (settles s) s \<Longrightarrow> wp (forget m) (settles s) s"
  by (auto simp: wp_def fst_snd_forget settles_def split: sum.splits)

lemma follows_settles: "follows m \<Longrightarrow> journal_ok s \<Longrightarrow> wp m (settles s) s"
  by (simp add: follows_def wp_def kept_settles)

lemma command_settles: "well_behaved c \<Longrightarrow> journal_ok s \<Longrightarrow> wp (run_command c) (settles s) s"
  by (cases c)
    (simp_all add: settles_forget reconcile_settles follows_settles follows_forget begin_follows
      step_follows finish_follows accept_comparison_follows accept_verification_follows continue_follows)

lemma reenter_ok: "db_ok (disk s) \<Longrightarrow> journal_ok (reenter s)"
  by (simp add: reenter_def journal_ok_def mem_ok_def)

lemma disk_reenter [simp]: "disk (reenter s) = disk s"
  by (simp add: reenter_def)

interpretation journal: durable_log journal_ok "\<lambda>s. db_abs (disk s)" reenter run_command well_behaved
proof unfold_locales
  fix c :: "'a command" and s t :: "'a journal_scheme" and u e and r :: "unit res"
  assume c: "well_behaved c" and s: "journal_ok s"
  note w = wp_D [OF command_settles [OF c s]]
  show "run_command c s = (Inr u, t) \<Longrightarrow> journal_ok t" using w by (fastforce simp: settles_def)
  show "run_command c s = (Inl e, t) \<Longrightarrow> journal_ok (reenter t)"
    using w [of "Inl e" t] by (intro reenter_ok) (simp add: settles_def journal_ok_def)
  show "run_command c s = (r, t) \<Longrightarrow> spec_steps (disk s) (disk t)"
    using w [of r t] by (simp add: settles_def)
next
  fix s :: "'a journal_scheme"
  show "journal_ok s \<Longrightarrow> journal_ok (reenter s)" by (intro reenter_ok) (simp add: journal_ok_def)
  show "db_abs (disk (reenter s)) = db_abs (disk s)" by simp
qed

section \<open>Properties\<close>

definition empty_db :: db where
  "empty_db = \<lparr>ops = [], steps = []\<rparr>"

lemma empty_ok: "db_ok empty_db" "db_abs empty_db = (\<lambda>_. None)" "spec_single (db_abs empty_db)"
  by (simp_all add: db_ok_def empty_db_def db_abs_def find_op_def fun_eq_iff spec_single_def)

text \<open>C6 The durable journal is well formed after any number of controller sessions, each any sequence
  of commands with any outside actions in its steps, whatever commits fail or crash before, during or
  after they become durable: every operation's rows are a beginning of its plan with intent before done
  and phase after phase, a complete operation has them all, at most one operation is unfinished, and
  the durable record got there by the steps of the specification alone.\<close>

theorem journal_sessions_safe:
  assumes "disk s = empty_db" and "\<forall>cs \<in> set css. \<forall>c \<in> set cs. well_behaved c"
  shows "let t = sessions run_command reenter css (reenter s) in
    db_ok (disk t) \<and> spec_single (db_abs (disk t)) \<and> spec_step\<^sup>*\<^sup>* (\<lambda>_. None) (db_abs (disk t))"
proof -
  have ok: "journal_ok (reenter s)" using assms(1) empty_ok(1) by (intro reenter_ok) simp
  have v: "db_abs (disk (reenter s)) = (\<lambda>_. None)" "spec_single (db_abs (disk (reenter s)))"
    using assms(1) empty_ok by simp_all
  show ?thesis
    using journal.sessions_ok [OF assms(2) ok] journal.sessions_single [OF assms(2) ok v(2)] v(1)
    by (simp add: Let_def journal_ok_def)
qed

definition ex_file :: "nat \<Rightarrow> file_stat" where
  "ex_file i = \<lparr>f_kind = Regular, f_uid = 0, f_mode = 384, f_nlink = 1, f_id = (0, i), f_bytes = []\<rparr>"

definition ex_journal :: journal where
  "ex_journal = \<lparr>disk = empty_db, work = empty_db, oper = None, nxt = 0, pending = False,
     lock = Some (0, 2), opened = True, directory_identity = (0, 1), database_identity = (0, 3),
     files = [''/j'' \<mapsto> ex_file 1, ''/j/controller.lock'' \<mapsto> ex_file 2, ''/j/journal.db'' \<mapsto> ex_file 3],
     base = ''/j'', euid = 0, uuids = (\<lambda>n. replicate 31 (CHR ''a'') @ show_nat (n mod 10)), drawn = 0,
     fault = (\<lambda>_ _. NoFault), commits = 0\<rparr>"


lemma framed_ret: "framed (ret v)"
  by (simp add: framed_def ret_def core_def)

lemma ex_journal_disk: "disk ex_journal = empty_db"
  by (simp add: ex_journal_def)

definition ex_commands :: "unit command list" where
  "ex_commands = [Begin ''A'' ''B'' (JStr ''d1-one''), Step ''preflight'' (ret JNull)]"

theorem journal_sessions_safe_witness:
  "db_ok (disk (sessions run_command reenter [ex_commands, ex_commands] (reenter ex_journal)))"
proof -
  have "\<forall>cs \<in> set [ex_commands, ex_commands]. \<forall>c \<in> set cs. well_behaved c"
    by (simp add: ex_commands_def framed_ret)
  from journal_sessions_safe [OF ex_journal_disk this] show ?thesis by (simp add: Let_def)
qed

text \<open>C7 The record of an operation only grows: across any sessions an operation keeps its direction, its
  durable rows never become fewer, and a complete operation stays as it is for ever.\<close>

theorem journal_never_goes_back:
  assumes "journal_ok s" and "\<forall>cs \<in> set css. \<forall>c \<in> set cs. well_behaved c"
    and "db_abs (disk s) i = Some (src, tgt, n, c)"
  shows "\<exists>m d. db_abs (disk (sessions run_command reenter css s)) i = Some (src, tgt, m, d)
    \<and> n \<le> m \<and> (c \<longrightarrow> d \<and> m = n)"
  using journal.sessions_forward [OF assms(2,1)] assms(3) by (auto simp: spec_le_def)

lemma reenter_ex_ok: "journal_ok (reenter ex_journal)"
  by (intro reenter_ok) (simp add: ex_journal_disk empty_ok)

definition ex_begun :: journal where
  "ex_begun = session run_command reenter ex_commands (reenter ex_journal)"

lemma ex_begun_ok: "journal_ok ex_begun"
  using journal.session_ok [of ex_commands "reenter ex_journal"] reenter_ex_ok
  by (simp add: ex_begun_def ex_commands_def framed_ret)

lemma ex_begun_row: "db_abs (disk ex_begun) (replicate 31 (CHR ''a'') @ ''0'') = Some (''A'', ''B'', 2, False)"
  by code_simp

theorem journal_never_goes_back_witness:
  "\<exists>m d. db_abs (disk (sessions run_command reenter [ex_commands] ex_begun)) (replicate 31 (CHR ''a'') @ ''0'')
     = Some (''A'', ''B'', m, d) \<and> 2 \<le> m"
  using journal_never_goes_back [OF ex_begun_ok _ ex_begun_row, of "[ex_commands]"]
  by (auto simp: ex_commands_def framed_ret)

end
