(* ===== verification/Journal_Properties.thy ===== *)
theory Journal_Properties
  imports Journal_Sessions
begin

text \<open>
  What single operations of the journal promise their caller: effects only after a durable intent,
  a durable done only after the effect, no second attempt, completion only of a finished plan, and
  reconciliation only at the exact boundary it is for.
\<close>

section \<open>Effects and their record\<close>

text \<open>The last durable row is the intent of this phase, for the operation in memory.\<close>

definition intent_durable :: "string \<Rightarrow> 'w journal_scheme \<Rightarrow> bool" where
  "intent_durable phase t \<longleftrightarrow> (\<exists>q d. oper t = Some q \<and> pending t
     \<and> steps (disk t) = d @ [step_row_at q (nxt t) phase Intent ''{}''])"

lemma transaction_insert_Inr:
  assumes "transaction (insert_step x) label s = (Inr u, t)"
  shows "disk t = append_step (work s) x \<and> oper t = oper s \<and> nxt t = nxt s \<and> pending t = pending s"
proof -
  have "wp (transaction (insert_step x) label) (\<lambda>r t. r = Inr u \<longrightarrow>
      disk t = append_step (work s) x \<and> oper t = oper s \<and> nxt t = nxt s \<and> pending t = pending s) s"
    by (rule wp_insert) simp_all
  from wp_D [OF this assms] show ?thesis by simp
qed

lemma record_step_Inr:
  assumes "record_step phase st ev label s = (Inr u, t)"
  shows "\<exists>q. oper s = Some q \<and> oper t = Some q \<and> nxt t = nxt s \<and> pending t = pending s
    \<and> disk t = append_step (work s) (step_row_at q (nxt s) phase st ev)"
  using assms by (auto simp: record_step_def prog_defs split: option.splits dest!: transaction_insert_Inr)

definition before_action :: "string \<Rightarrow> ('w journal_scheme, unit) prog" where
  "before_action phase = seqP check_authority (seqP (raise_when (step_refused phase) RuntimeError)
     (seqP (modify (\<lambda>s. s\<lparr>pending := True\<rparr>)) (record_step phase Intent ''{}'' ''step-intent:'')))"

definition after_action :: "string \<Rightarrow> json \<Rightarrow> ('w journal_scheme, json) prog" where
  "after_action phase result = seqP check_authority (bindP (lift (dumps result)) (\<lambda>evidence.
     seqP (record_step phase Done evidence ''step-done:'')
     (seqP (modify (\<lambda>s. s\<lparr>nxt := Suc (nxt s), pending := False\<rparr>)) (ret result))))"

lemma seqP_assoc: "seqP (seqP a b) c = seqP a (seqP b c)"
  by (auto simp: seqP_def bindP_def fun_eq_iff split: prod.splits sum.splits)

lemma step_split: "step phase action = seqP (before_action phase) (bindP action (after_action phase))"
  unfolding step_def before_action_def after_action_def seqP_assoc ..

lemma before_action_Inr:
  assumes "before_action phase s = (Inr u, t)"
  shows "intent_durable phase t \<and> \<not> pending s"
proof -
  have "\<not> pending s" and r: "record_step phase Intent ''{}'' ''step-intent:'' (s\<lparr>pending := True\<rparr>) = (Inr u, t)"
    using assms by (auto simp: before_action_def res_simps modify_def step_refused_def check_authority_def)
  with record_step_Inr [OF r] show ?thesis by (auto simp: intent_durable_def append_step_def)
qed

text \<open>C8 No effect without a durable intent: \<open>step\<close> calls its action only in states whose committed journal
  ends with the intent row of that phase, so two actions that agree on all such states are
  indistinguishable to it, in the result and in the state.\<close>

theorem effect_after_intent:
  assumes "\<And>t. intent_durable phase t \<Longrightarrow> a t = b t"
  shows "step phase a s = step phase b s"
proof -
  obtain r t where rt: "before_action phase s = (r, t)" by fastforce
  show ?thesis
  proof (cases r)
    case (Inl e)
    then show ?thesis using rt by (simp add: step_split seqP_def bindP_def)
  next
    case (Inr u)
    then have "intent_durable phase t" using before_action_Inr rt by blast
    then have "a t = b t" by (rule assms)
    then show ?thesis using rt Inr by (simp add: step_split seqP_def bindP_def)
  qed
qed

definition ex_preflight :: "(journal, json) prog" where
  "ex_preflight = (\<lambda>t. if steps (disk t) = [] then (Inl KeyboardInterrupt, t) else (Inr JNull, t))"

theorem effect_after_intent_witness:
  "step ''preflight'' ex_preflight ex_journal = step ''preflight'' (ret JNull) ex_journal"
  by (rule effect_after_intent) (auto simp: ex_preflight_def intent_durable_def ret_def)

text \<open>No done row without the effect: when \<open>step\<close> returns, its action ran in a state with the durable
  intent and returned that value, and the committed journal holds the done row of the phase at the
  operation's position with the value's JSON text as evidence.\<close>

theorem done_after_effect:
  assumes "step phase action s = (Inr v, s')"
  shows "\<exists>t t' q evidence. intent_durable phase t \<and> action t = (Inr v, t') \<and> dumps v = Inr evidence
    \<and> oper t' = Some q \<and> steps (disk s') = steps (work t') @ [step_row_at q (nxt t') phase Done evidence]
    \<and> nxt s' = Suc (nxt t') \<and> \<not> pending s'"
proof -
  obtain u t v' t' where b: "before_action phase s = (Inr u, t)" "action t = (Inr v', t')"
    "after_action phase v' t' = (Inr v, s')"
    using assms unfolding step_split seqP_eq_Inr bindP_eq_Inr by blast
  obtain evidence t2 where e: "dumps v' = Inr evidence"
    and r: "record_step phase Done evidence ''step-done:'' t' = (Inr (), t2)"
    and s': "s' = t2\<lparr>nxt := Suc (nxt t2), pending := False\<rparr>" "v' = v"
    using b(3) by (auto simp: after_action_def res_simps lift_def modify_def ret_def check_authority_def)
  from record_step_Inr [OF r] show ?thesis
    using before_action_Inr [OF b(1)] b(2) e s' by (auto simp: append_step_def)
qed

definition ex_started :: journal where
  "ex_started = snd (begin_op ''A'' ''B'' (JStr ''d1-one'') (reenter ex_journal))"

lemma ex_step: "\<exists>s'. step ''preflight'' (ret JNull) ex_started = (Inr JNull, s')"
proof -
  have "fst (step ''preflight'' (ret JNull) ex_started) = Inr JNull" by code_simp
  then show ?thesis by (metis prod.collapse)
qed

theorem done_after_effect_witness: "\<exists>t :: journal. intent_durable ''preflight'' t"
proof -
  obtain s' where "step ''preflight'' (ret JNull) ex_started = (Inr JNull, s')" using ex_step by blast
  from done_after_effect [OF this] show ?thesis by blast
qed

lemma pending_refuses:
  assumes "pending s"
  shows "(\<exists>e. step phase action s = (Inl e, s)) \<and> (\<exists>e. finish s = (Inl e, s))"
proof -
  have "\<exists>e. raise_if (step_refused phase s) RuntimeError (Inr ()) = Inl e"
    using assms by (cases "current_plan s") (simp_all add: step_refused_def)
  moreover have "\<exists>e. raise_if (finish_refused s) RuntimeError (Inr ()) = Inl e"
    using assms by (cases "current_plan s") (simp_all add: finish_refused_def)
  moreover have "check_authority s = (fst (check_authority s), s)" by (simp add: check_authority_def)
  ultimately show ?thesis
    by (cases "fst (check_authority s)")
      (auto simp: step_def finish_def seqP_def bindP_def raise_when_def split: prod.splits)
qed

text \<open>One operation at a time: \<open>begin\<close> on a journal that holds an unfinished operation, of either
  contract, always raises and changes nothing.\<close>

theorem begin_refused:
  assumes "unfinished (work s)"
  shows "\<exists>e. begin_op source target epoch s = (Inl e, s)"
proof -
  have c: "check_authority s = (fst (check_authority s), s)" by (simp add: check_authority_def)
  show ?thesis
    using assms c
    by (cases "fst (check_authority s)"; cases "phase_plan source target"; cases "str_and epoch epoch_plus")
      (simp_all add: begin_op_def seqP_def bindP_def raise_when_def lift_def)
qed

lemma ex_started_unfinished: "unfinished (work ex_started)"
  by code_simp

theorem begin_refused_witness: "\<exists>e. begin_op ''A'' ''B'' (JStr ''d1-two'') ex_started = (Inl e, ex_started)"
  by (rule begin_refused [OF ex_started_unfinished])

lemma follows_snd: "follows m \<Longrightarrow> journal_ok s \<Longrightarrow> journal_ok (snd (m s))"
  by (simp add: follows_def wp_def)

text \<open>What a step cannot change: that it is pending, and the operations, whatever it appends to their steps.\<close>

definition undone :: "op_row list \<Rightarrow> 'w journal_scheme \<Rightarrow> bool" where
  "undone rows s \<longleftrightarrow> pending s \<and> ops (disk s) = rows \<and> ops (work s) = rows"

lemma undone_insert: "keeps (undone rows) (insert_step r)"
  by (simp add: keeps_def insert_step_def undone_def)

lemma undone_commit: "keeps (undone rows) (commit label)"
  by (auto simp: keeps_def commit_def undone_def Let_def split: fault.splits)

lemma undone_rollback: "keeps (undone rows) rollback"
  by (simp add: keeps_def rollback_def modify_def undone_def)

lemma undone_record: "keeps (undone rows) (record_step phase st ev label)"
  unfolding record_step_def transaction_def
  by (intro keeps_intros undone_insert undone_commit undone_rollback) (auto split: option.splits intro!: keeps_intros undone_insert undone_commit undone_rollback)

lemma undone_action: "framed action \<Longrightarrow> keeps (undone rows) action"
  by (simp add: keeps_def framed_def core_def undone_def)

lemma failed_step_undone:
  assumes run: "step phase action s = (Inl e, t)" and s: "undone rows (s\<lparr>pending := True\<rparr>)" and action: "framed action"
    and guard: "fst (check_authority s) = Inr ()" "step_refused phase s = Inr False"
  shows "undone rows t"
proof -
  define k where "k = seqP (record_step phase Intent ''{}'' ''step-intent:'') (bindP action (\<lambda>result.
     seqP check_authority (bindP (lift (dumps result)) (\<lambda>evidence. record_step phase Done evidence ''step-done:''))))"
  have "check_authority s = (Inr (), s)" using guard(1) by (simp add: check_authority_def)
  moreover have "raise_when (step_refused phase) RuntimeError s = (Inr (), s)" using guard(2) by (simp add: raise_when_def)
  ultimately have "snd (k (s\<lparr>pending := True\<rparr>)) = t"
    using run by (auto simp: step_def k_def seqP_def bindP_def modify_def ret_def split: prod.splits sum.splits)
  moreover have "keeps (undone rows) k"
    unfolding k_def by (intro keeps_intros undone_record undone_action action)
      (simp add: framed_def check_authority_def)
  ultimately show ?thesis using s by (auto simp: keeps_def)
qed

text \<open>C9 No retry: once a step that passed its guards has failed, at whatever point and for whatever reason, the
  controller refuses every further step and every completion with an exception and does not touch the journal, and a
  later controller, that opens the same journal, refuses to begin any operation, with an exception and without
  touching it, because the operation is still unfinished there.\<close>

theorem no_retry:
  assumes s: "journal_ok s" and action: "framed action"
    and guard: "fst (check_authority s) = Inr ()" "step_refused phase s = Inr False"
    and failed: "step phase action s = (Inl e, t)"
  shows "(\<forall>phase' action'. \<exists>e. step phase' action' t = (Inl e, t)) \<and> (\<exists>e. finish t = (Inl e, t))
    \<and> (\<forall>source target epoch. \<exists>e. begin_op source target epoch (reenter t) = (Inl e, reenter t))"
proof -
  have w: "work s = disk s" using s by (simp add: journal_ok_def)
  have "undone (ops (disk s)) t" by (rule failed_step_undone [OF failed _ action guard]) (simp add: undone_def w)
  then have t: "pending t" "ops (disk t) = ops (disk s)" by (simp_all add: undone_def)
  have "unfinished (disk s)"
    using guard(2) w
    by (auto simp: step_refused_def current_plan_def current_row_def unfinished_def list_ex_iff
        split: option.splits if_splits dest: find_op_Some)
  then have "unfinished (work (reenter t))" using t(2) by (simp add: unfinished_def reenter_def)
  then show ?thesis using pending_refuses [OF t(1)] begin_refused by blast
qed

theorem no_retry_witness:
  "\<exists>e t. step ''preflight'' (raiseP OSError) ex_started = (Inl OSError, t) \<and> finish t = (Inl e, t)"
proof -
  have run: "fst (step ''preflight'' (raiseP OSError) ex_started) = Inl OSError" by code_simp
  have ok: "journal_ok ex_started"
    unfolding ex_started_def by (rule follows_snd [OF begin_follows reenter_ex_ok])
  have act: "framed (raiseP OSError :: (journal, json) prog)" by (simp add: framed_def raiseP_def core_def)
  have guard: "fst (check_authority ex_started) = Inr ()" "step_refused ''preflight'' ex_started = Inr False"
    by code_simp+
  obtain t where t: "step ''preflight'' (raiseP OSError) ex_started = (Inl OSError, t)" using run by (metis prod.collapse)
  from no_retry [OF ok act guard t] t show ?thesis by blast
qed

text \<open>C10 Completion means the whole plan: when \<open>finish\<close> returns, the operation's row is durably complete and
  its durable rows are exactly intent and done of every phase of its direction, in order.\<close>

theorem finish_complete:
  assumes s: "journal_ok s" and fin: "finish s = (Inr (), t)"
  shows "\<exists>q r plan. oper s = Some q \<and> oper t = None \<and> find_op (o_id q) (disk t) = Some r
    \<and> r_complete r \<and> phase_plan (o_source q) (o_target q) = Inr plan
    \<and> map step_key (steps_of (o_id q) (disk t)) = interleaved 0 plan"
proof -
  have g: "finish_refused s = Inr False" and tr: "\<exists>t1. transaction (complete_op (case oper s of Some q' \<Rightarrow> o_id q' | None \<Rightarrow> []))
      ''finish'' s = (Inr (), t1) \<and> t = t1\<lparr>oper := None\<rparr>"
    using fin by (auto simp: finish_def res_simps gets_def modify_def check_authority_def)
  obtain q r plan where q: "oper s = Some q" "find_op (o_id q) (work s) = Some r" "r_id r = o_id q"
    "r_source r = o_source q" "r_target r = o_target q" "r_contract r = RESTORE_CONTRACT"
    "phase_plan (r_source r) (r_target r) = Inr plan"
    "map step_key (steps_of (o_id q) (work s)) = interleaved 0 plan"
    using finish_guard [OF s g] by blast
  let ?w = "completed (o_id q) (work s)"
  obtain t1 where t1: "transaction (complete_op (o_id q)) ''finish'' s = (Inr (), t1)" "t = t1\<lparr>oper := None\<rparr>"
    using tr q(1) by auto
  have "wp (transaction (complete_op (o_id q)) ''finish'') (\<lambda>r t. r = Inr () \<longrightarrow> disk t = ?w) s"
  proof (rule wp_transaction)
    show "complete_op (o_id q) s = (if length (filter (hit (o_id q)) (ops (work s))) \<noteq> 1 then Inl RuntimeError
        else Inr (), s\<lparr>work := ?w\<rparr>)"
      by (simp add: complete_op_def completed_def)
  qed simp_all
  from wp_D [OF this t1(1)] have d: "disk t = ?w" using t1(2) by simp
  then have "find_op (o_id q) (disk t) = Some (mark_complete (o_id q) r)" using q by (simp add: find_op_completed)
  moreover have "r_complete (mark_complete (o_id q) r)" using q by (simp add: hit_def)
  ultimately show ?thesis using q d t1(2) by auto
qed

definition ex_all :: journal where
  "ex_all = foldl (\<lambda>s p. snd (step p (ret JNull) s)) ex_started PHASES"

lemma ex_all_ok: "journal_ok ex_all"
proof -
  have "journal_ok s \<Longrightarrow> journal_ok (foldl (\<lambda>s p. snd (step p (ret JNull) s)) s ps)" for s :: journal and ps
    by (induction ps arbitrary: s) (simp_all add: follows_snd step_follows framed_ret)
  moreover have "journal_ok ex_started"
    unfolding ex_started_def by (rule follows_snd [OF begin_follows reenter_ex_ok])
  ultimately show ?thesis by (simp add: ex_all_def)
qed

lemma ex_all_finish: "fst (finish ex_all) = Inr ()"
  by code_simp

theorem finish_complete_witness:
  "\<exists>q r. oper ex_all = Some q \<and> find_op (o_id q) (disk (snd (finish ex_all))) = Some r \<and> r_complete r"
  using finish_complete [OF ex_all_ok, of "snd (finish ex_all)"] ex_all_finish
  by (metis prod.collapse)

end
