(* ===== verification/Journal_Reconcile.thy ===== *)
theory Journal_Reconcile
  imports Journal_Properties Acceptance_Properties
begin

text \<open>
  Reconciliation of a pending journal step with evidence obtained outside it: the comparison of a
  switchover against its frozen cut, and a rejoin continued at its exact boundary.
\<close>

section \<open>Reconciliation\<close>

lemma comparison_accepted_Inr:
  assumes "comparison_accepted opj prev result = Inr u"
  shows "validate_acceptance_result CONTROLLER_ROOT result (fld result ''request'') opj None = Inr result"
    "py_eq (fld (fld result ''request'') ''positions'') (fld (fld prev ''freeze'') ''cut'')"
    "py_eq (fld result ''signature'') (fld (fld prev ''freeze'') ''signature'')"
proof -
  obtain request v where r: "get_or result ''request'' JNull = Inr request"
    "validate_acceptance_result CONTROLLER_ROOT result request opj None = Inr v"
    and rest: "itm prev ''freeze'' (\<lambda>frozen.
     refuse_if
       [itm result ''request'' (\<lambda>r. itm r ''positions'' (\<lambda>ps. itm frozen ''cut'' (\<lambda>c. differs ps c))),
        got result ''signature'' (\<lambda>sg. itm frozen ''signature'' (\<lambda>t. differs sg t)),
        bindR (get_or result ''checks'' (JObj [])) (\<lambda>c. got_not c ''records'' ''PASS''),
        bindR (get_or result ''checks'' (JObj [])) (\<lambda>c. got_not c ''authentication'' ''PASS'')] (Inr ())) = Inr u"
    using assms unfolding comparison_accepted_def bindR_eq_Inr by blast
  have f: "fld result ''request'' = request" by (rule got_fld [OF r(1)])
  show "validate_acceptance_result CONTROLLER_ROOT result (fld result ''request'') opj None = Inr result"
    using r(2) result_Inr(1) [OF r(2)] f by simp
  have sg: "got result ''signature'' f = Inr y \<Longrightarrow> f (fld result ''signature'') = Inr y" for f :: "json \<Rightarrow> bool res" and y
    by (auto simp: bindR_eq_Inr dest: got_fld)
  show "py_eq (fld (fld result ''request'') ''positions'') (fld (fld prev ''freeze'') ''cut'')"
    "py_eq (fld result ''signature'') (fld (fld prev ''freeze'') ''signature'')"
    using rest by (auto simp: refuse_simps dest!: sg simp del: getitem_eq_Inr)
qed

text \<open>C12 A reconciled comparison is recorded only if it matches the frozen cut: when \<open>accept_comparison\<close>
  returns, the operation is an unfinished A-to-B one at its exact pending compare boundary, the result
  is valid for it, its positions and signatures are those the freeze phase recorded, and the durable
  journal gained exactly the done row of the comparison.\<close>

theorem comparison_matches_freeze:
  assumes s: "journal_ok s" and a: "accept_comparison ident result s = (Inr (), t)"
  shows "\<exists>q prev ev. boundary_value ident 5 (''A'', ''B'') (work s) = Inr (q, prev)
    \<and> validate_acceptance_result CONTROLLER_ROOT result (fld result ''request'') (op_json q) None = Inr result
    \<and> py_eq (fld (fld result ''request'') ''positions'') (fld (fld prev ''freeze'') ''cut'')
    \<and> py_eq (fld result ''signature'') (fld (fld prev ''freeze'') ''signature'')
    \<and> dumps result = Inr ev
    \<and> disk t = append_step (work s) (step_row_at q 5 ''compare'' Done ev)
    \<and> oper t = Some q \<and> nxt t = 6 \<and> \<not> pending t"
proof -
  obtain q prev s1 where b: "boundary ident 5 (''A'', ''B'') s = (Inr (q, prev), s1)"
    and r: "seqP (lift (comparison_accepted (op_json q) prev result)) (bindP (lift (dumps result)) (\<lambda>text.
     seqP (transaction (insert_step (step_row_at q 5 ''compare'' Done text)) ''accept-comparison-done'')
     (resume_at q 6))) s1 = (Inr (), t)"
    using a unfolding accept_comparison_def comparison_boundary_def bindP_eq_Inr by auto
  have s1: "s1 = s" using boundary_pure [of ident 5 "(''A'', ''B'')" s] b by simp
  have bv: "boundary_value ident 5 (''A'', ''B'') (work s) = Inr (q, prev)"
    using boundary_fst [of ident 5 "(''A'', ''B'')" s] b by simp
  obtain ev t1 where e: "comparison_accepted (op_json q) prev result = Inr ()" "dumps result = Inr ev"
    "transaction (insert_step (step_row_at q 5 ''compare'' Done ev)) ''accept-comparison-done'' s = (Inr (), t1)"
    "resume_at q 6 t1 = (Inr (), t)"
    using r s1 by (auto simp: res_simps lift_def)
  from transaction_insert_Inr [OF e(3)] e(4) have
    "disk t = append_step (work s) (step_row_at q 5 ''compare'' Done ev) \<and> oper t = Some q \<and> nxt t = 6 \<and> \<not> pending t"
    by (auto simp: resume_at_def modify_def)
  then show ?thesis using bv comparison_accepted_Inr [OF e(1)] e(2) by blast
qed

definition ex_row :: op_row where
  "ex_row = \<lparr>r_id = ex_id, r_source = ''A'', r_target = ''B'', r_source_epoch = ''d1-one'',
     r_new_epoch = ''d1-'' @ ex_id, r_complete = False, r_contract = RESTORE_CONTRACT\<rparr>"

definition ex_freeze :: json where
  "ex_freeze = JObj [(''cut'', ex_positions), (''signature'', JObj (map (\<lambda>db. (db, JStr ex_hex)) DBS))]"

definition ex_rows :: "step_row list" where
  "ex_rows = map (\<lambda>(i, p, st). \<lparr>s_op = ex_id, s_pos = i, s_phase = p, s_status = st,
       s_evidence = if p = ''freeze'' \<and> st = Done then show_json '' '' ex_freeze else ''{}''\<rparr>)
     (interleaved 0 (take 5 PHASES) @ [(5, ''compare'', Intent)])"

definition ex_pending :: journal where
  "ex_pending = ex_journal\<lparr>disk := \<lparr>ops = [ex_row], steps = ex_rows\<rparr>,
     work := \<lparr>ops = [ex_row], steps = ex_rows\<rparr>\<rparr>"

definition ex_op :: operation where
  "ex_op = op_of_row ex_row"

definition ex_prev :: json where
  "ex_prev = JObj (map (\<lambda>p. (p, if p = ''freeze'' then ex_freeze else JObj [])) (take 5 PHASES))"

lemma ex_boundary: "boundary_value (JStr ex_id) 5 (''A'', ''B'') (work ex_pending) = Inr (ex_op, ex_prev)"
  by code_simp

lemma ex_op_json: "op_json ex_op = ex_operation"
  by code_simp

lemma ex_pending_ok: "journal_ok ex_pending"
proof -
  have "steps_ok \<lparr>ops = [ex_row], steps = ex_rows\<rparr> ex_row"
    unfolding steps_ok_def by (rule exI [of _ PHASES]) code_simp
  moreover have "\<forall>x \<in> set ex_rows. s_op x = ex_id" by (auto simp: ex_rows_def)
  ultimately show ?thesis
    by (simp add: journal_ok_def mem_ok_def db_ok_def ex_pending_def ex_journal_def) (simp add: ex_row_def)
qed

lemma ex_dumps: "dumps (ex_result ex_compare ex_positions) = Inr (show_json '' '' (ex_result ex_compare ex_positions))"
proof (rule dumps_codable)
  have "codable_items (map (\<lambda>db. (db, f db)) DBS)" if "\<forall>db \<in> set DBS. codable (f db)" for f
    using that by (simp add: codable_items_iff)
  then show "codable (ex_result ex_compare ex_positions)"
    using ex_compare_facts(1) by (simp add: ex_result_def plain_checks_def DBS_def ex_positions_def fld_def)
qed

lemma ex_comparison_accepted: "comparison_accepted ex_operation ex_prev (ex_result ex_compare ex_positions) = Inr ()"
proof -
  have g: "get_or (ex_result ex_compare ex_positions) ''request'' JNull = Inr ex_compare"
    "getitem (ex_result ex_compare ex_positions) ''request'' = Inr ex_compare"
    "get_or (ex_result ex_compare ex_positions) ''signature'' JNull = Inr (JObj (map (\<lambda>db. (db, JStr ex_hex)) DBS))"
    "get_or (ex_result ex_compare ex_positions) ''checks'' (JObj []) = Inr plain_checks"
    by (simp_all add: ex_result_def)
  have f: "getitem ex_prev ''freeze'' = Inr ex_freeze" "getitem ex_freeze ''cut'' = Inr ex_positions"
    "getitem ex_freeze ''signature'' = Inr (JObj (map (\<lambda>db. (db, JStr ex_hex)) DBS))"
    "getitem ex_compare ''positions'' = Inr ex_positions"
    by code_simp+
  have d: "differs ex_positions ex_positions = Inr False"
    "differs (JObj (map (\<lambda>db. (db, JStr ex_hex)) DBS)) (JObj (map (\<lambda>db. (db, JStr ex_hex)) DBS)) = Inr False"
    by code_simp+
  have c: "got_not plain_checks ''records'' ''PASS'' = Inr False"
    "got_not plain_checks ''authentication'' ''PASS'' = Inr False"
    by (simp_all add: plain_checks_def differs_def)
  show ?thesis
    unfolding comparison_accepted_def g f bindR_simps ex_compare_result d c
    by simp
qed

lemma ex_accept: "fst (accept_comparison (JStr ex_id) (ex_result ex_compare ex_positions) ex_pending) = Inr ()"
proof -
  have "fst (check_authority ex_pending) = Inr ()" by code_simp
  then have "check_authority ex_pending = (Inr (), ex_pending)"
    using pure_simps(1) [of ex_pending] by (metis prod.collapse)
  then have b: "boundary (JStr ex_id) 5 (''A'', ''B'') ex_pending = (Inr (ex_op, ex_prev), ex_pending)"
    using ex_boundary by (simp add: boundary_def seqP_def bindP_def)
  have "list_ex (\<lambda>q. s_op q = ex_id \<and> s_pos q = 5 \<and> s_status q = Done) (steps (work ex_pending)) = False"
    "list_ex (\<lambda>q. r_id q = ex_id) (ops (work ex_pending)) = True"
    by code_simp+
  moreover have "o_id ex_op = ex_id" by (simp add: ex_op_def op_of_row_def ex_row_def)
  ultimately have i: "fst (insert_step (step_row_at ex_op 5 ''compare'' Done ev) ex_pending) = Inr ()" for ev
    by (simp add: insert_step_def step_row_at_def)
  have t: "fst (transaction (insert_step (step_row_at ex_op 5 ''compare'' Done ev)) l ex_pending) = Inr ()" for ev l
  proof -
    obtain s1 where s1: "insert_step (step_row_at ex_op 5 ''compare'' Done ev) ex_pending = (Inr (), s1)"
      using i [of ev] by (metis prod.collapse)
    then have "fault s1 n k = NoFault" for n k
      by (auto simp: insert_step_def ex_pending_def ex_journal_def split: if_splits)
    with s1 show ?thesis by (simp add: transaction_def on_exn_def seqP_def bindP_def commit_def Let_def)
  qed
  obtain t' where t': "transaction (insert_step (step_row_at ex_op 5 ''compare'' Done
      (show_json '' '' (ex_result ex_compare ex_positions)))) ''accept-comparison-done'' ex_pending = (Inr (), t')"
    using t by (metis prod.collapse)
  show ?thesis
    unfolding accept_comparison_def comparison_boundary_def bindP_def b seqP_def lift_def
    by (simp add: ex_op_json ex_comparison_accepted ex_dumps t' resume_at_def modify_def)
qed

theorem comparison_matches_freeze_witness:
  "\<exists>t. nxt t = 6 \<and> oper t = Some ex_op \<and> accept_comparison (JStr ex_id) (ex_result ex_compare ex_positions) ex_pending = (Inr (), t)"
proof -
  obtain t where t: "accept_comparison (JStr ex_id) (ex_result ex_compare ex_positions) ex_pending = (Inr (), t)"
    using ex_accept by (metis prod.collapse)
  from comparison_matches_freeze [OF ex_pending_ok t] ex_boundary t show ?thesis by auto
qed

end
