(* ===== verification/Journal_Liveness.thy ===== *)
theory Journal_Liveness
  imports Journal_Properties
begin

text \<open>
  An operation of the journal can be driven to its end: nothing but a failing commit, a lost authority or an action
  that raises keeps \<open>begin\<close>, the steps of the plan and \<open>finish\<close> from completing it.
\<close>

definition alive :: "'w journal_scheme \<Rightarrow> bool" where
  "alive s \<longleftrightarrow> fst (check_authority s) = Inr () \<and> (\<forall>n l. fault s n l = NoFault)"

lemma alive_updates [simp]:
  "alive (s\<lparr>disk := d\<rparr>) = alive s" "alive (s\<lparr>work := d\<rparr>) = alive s" "alive (s\<lparr>oper := q\<rparr>) = alive s"
  "alive (s\<lparr>nxt := n\<rparr>) = alive s" "alive (s\<lparr>pending := b\<rparr>) = alive s" "alive (s\<lparr>commits := n\<rparr>) = alive s"
  "alive (s\<lparr>drawn := n\<rparr>) = alive s" "alive (journal.more_update f s) = alive s"
  by (simp_all add: alive_def check_authority_def lstat_def private_file_def under_def)

lemma alive_authority: "alive s \<Longrightarrow> check_authority s = (Inr (), s)"
  by (simp add: alive_def check_authority_def)

lemma alive_commit:
  "alive s \<Longrightarrow> commit l s = (Inr (), s\<lparr>commits := Suc (commits s), disk := work s\<rparr>)"
  by (simp add: alive_def commit_def Let_def)

text \<open>The operation in memory stands at position \<open>k\<close> of its plan.\<close>

definition stands :: "nat \<Rightarrow> operation \<Rightarrow> string list \<Rightarrow> 'w journal_scheme \<Rightarrow> bool" where
  "stands k q plan s \<longleftrightarrow> alive s \<and> oper s = Some q \<and> nxt s = k \<and> \<not> pending s
     \<and> phase_plan (o_source q) (o_target q) = Inr plan \<and> find_op (o_id q) (work s) = Some (op_row_of q)
     \<and> length (filter (hit (o_id q)) (ops (work s))) = 1
     \<and> (\<forall>r \<in> set (ops (work s)). hit (o_id q) r \<or> r_complete r)
     \<and> map step_key (steps_of (o_id q) (work s)) = interleaved 0 (take k plan)"

lemma no_such_step:
  assumes "map step_key (steps_of i d) = ks" and "\<forall>key \<in> set ks. fst key \<noteq> n \<or> snd (snd key) \<noteq> st"
  shows "\<not> list_ex (\<lambda>r. s_op r = i \<and> s_pos r = n \<and> s_status r = st) (steps d)"
  using assms by (fastforce simp: list_ex_iff steps_of_def step_key_def)

lemma find_op_there: "find_op i d = Some r \<Longrightarrow> list_ex (\<lambda>q. r_id q = i) (ops d)"
  by (auto simp: find_op_def list_ex_iff find_Some_iff)

lemma interleaved_below: "key \<in> set (interleaved 0 (take k plan)) \<Longrightarrow> fst key < k"
  by (auto simp: interleaved_def both_def set_zip)

lemma interleaved_Suc:
  "k < length plan \<Longrightarrow> interleaved 0 (take (Suc k) plan)
    = interleaved 0 (take k plan) @ [(k, plan ! k, Intent), (k, plan ! k, Done)]"
  by (simp add: interleaved_def both_def take_Suc_conv_app_nth)

lemma insert_free:
  assumes "\<not> list_ex (\<lambda>q. s_op q = s_op r \<and> s_pos q = s_pos r \<and> s_status q = s_status r) (steps (work s))"
    and "list_ex (\<lambda>q. r_id q = s_op r) (ops (work s))"
  shows "insert_step r s = (Inr (), s\<lparr>work := append_step (work s) r\<rparr>)"
  using assms by (simp add: insert_step_def append_step_def)

lemma recorded:
  assumes "alive s" and "oper s = Some q" and "find_op (o_id q) (work s) = Some r"
    and "map step_key (steps_of (o_id q) (work s)) = ks" and "\<forall>key \<in> set ks. fst key \<noteq> nxt s \<or> snd (snd key) \<noteq> st"
  shows "record_step phase st ev l s =
    (Inr (), s\<lparr>work := append_step (work s) (step_row_at q (nxt s) phase st ev), commits := Suc (commits s),
       disk := append_step (work s) (step_row_at q (nxt s) phase st ev)\<rparr>)"
proof -
  have "insert_step (step_row_at q (nxt s) phase st ev) s
      = (Inr (), s\<lparr>work := append_step (work s) (step_row_at q (nxt s) phase st ev)\<rparr>)"
    by (rule insert_free) (use no_such_step [OF assms(4,5)] find_op_there [OF assms(3)] in \<open>simp_all add: step_row_at_def\<close>)
  then show ?thesis using assms(1,2)
    by (simp add: record_step_def prog_defs transaction_def on_exn_def alive_commit)
qed

lemma step_advances:
  assumes s: "stands k q plan s" and k: "k < length plan"
    and act: "\<And>s. \<exists>v text w. action s = (Inr v, journal.more_update (\<lambda>_. w) s) \<and> dumps v = Inr text"
  shows "\<exists>v t. step (plan ! k) action s = (Inr v, t) \<and> stands (Suc k) q plan t"
proof -
  let ?p = "plan ! k"
  have facts: "alive s" "oper s = Some q" "nxt s = k" "\<not> pending s" "phase_plan (o_source q) (o_target q) = Inr plan"
    "find_op (o_id q) (work s) = Some (op_row_of q)" "map step_key (steps_of (o_id q) (work s)) = interleaved 0 (take k plan)"
    using s by (simp_all add: stands_def)
  have below: "(k, x) \<notin> set (interleaved 0 (take k plan))" for x
    using interleaved_below [of "(k, x)" k plan] by auto
  define s1 where "s1 = s\<lparr>pending := True\<rparr>"
  define row where "row = step_row_at q k ?p Intent ''{}''"
  define s2 where "s2 = s1\<lparr>work := append_step (work s) row, commits := Suc (commits s), disk := append_step (work s) row\<rparr>"
  have guard: "step_refused ?p s = Inr False"
    using facts k by (simp add: step_refused_def current_plan_def current_row_def row_differs_def op_row_of_def mapR_def)
  have intent: "record_step ?p Intent ''{}'' ''step-intent:'' s1 = (Inr (), s2)"
    unfolding s2_def row_def using facts below
    by (subst recorded [of s1 q "op_row_of q" "interleaved 0 (take k plan)"]) (auto simp: s1_def)
  have facts2: "alive s2" "oper s2 = Some q" "nxt s2 = k" "find_op (o_id q) (work s2) = Some (op_row_of q)"
    "map step_key (steps_of (o_id q) (work s2)) = interleaved 0 (take k plan) @ [(k, ?p, Intent)]"
    using facts by (simp_all add: s2_def s1_def row_def step_row_at_def step_key_def)
  obtain v ev w where run: "action s2 = (Inr v, journal.more_update (\<lambda>_. w) s2)" "dumps v = Inr ev"
    using act [of s2] by blast
  define s3 where "s3 = journal.more_update (\<lambda>_. w) s2"
  define drow where "drow = step_row_at q k ?p Done ev"
  define s4 where "s4 = s3\<lparr>work := append_step (work s3) drow, commits := Suc (commits s3), disk := append_step (work s3) drow\<rparr>"
  have finished: "record_step ?p Done ev ''step-done:'' s3 = (Inr (), s4)"
    unfolding s4_def drow_def using facts2 below
    by (subst recorded [of s3 q "op_row_of q" "interleaved 0 (take k plan) @ [(k, ?p, Intent)]"]) (auto simp: s3_def)
  define s5 where "s5 = s4\<lparr>nxt := Suc (nxt s4), pending := False\<rparr>"
  have "alive s3" using facts2(1) by (simp add: s3_def)
  moreover have "raise_when (step_refused ?p) RuntimeError s = (Inr (), s)"
    by (simp add: raise_when_def guard raise_if_def)
  moreover have "modify (\<lambda>s. s\<lparr>pending := True\<rparr>) s = (Inr (), s1)"
    "modify (\<lambda>s. s\<lparr>nxt := Suc (nxt s), pending := False\<rparr>) s4 = (Inr (), s5)"
    by (simp_all add: modify_def s1_def s5_def)
  moreover have "action s2 = (Inr v, s3)" "lift (dumps v) s3 = (Inr ev, s3)" using run by (simp_all add: s3_def lift_def)
  ultimately have "step ?p action s = (Inr v, s5)"
    using facts(1) intent finished by (simp add: step_def seqP_def bindP_def alive_authority ret_def)
  moreover have "stands (Suc k) q plan s5"
    using s facts2 k by (simp add: stands_def s5_def s4_def s3_def s2_def s1_def row_def drow_def step_row_at_def
      step_key_def interleaved_Suc)
  ultimately show ?thesis by blast
qed

text \<open>An action that returns something the journal can write down, whatever it does to the world beside the journal.\<close>

definition answers :: "('w journal_scheme, json) prog \<Rightarrow> bool" where
  "answers action \<longleftrightarrow> (\<forall>s. \<exists>v ev w. action s = (Inr v, journal.more_update (\<lambda>_. w) s) \<and> dumps v = Inr ev)"

lemma steps_advance:
  assumes "\<And>p. answers (act p)"
  shows "stands k q plan s \<Longrightarrow> k + n = length plan \<Longrightarrow>
    \<exists>t. stands (length plan) q plan t
      \<and> foldr (\<lambda>p rest. bindP (step p (act p)) (\<lambda>_. rest)) (drop k plan) final s = final t"
proof (induction n arbitrary: k s)
  case (Suc n)
  then have k: "k < length plan" by simp
  obtain v t where t: "step (plan ! k) (act (plan ! k)) s = (Inr v, t)" "stands (Suc k) q plan t"
    using step_advances [OF Suc.prems(1) k] assms [of "plan ! k"] unfolding answers_def by blast
  moreover have "drop k plan = plan ! k # drop (Suc k) plan" using k by (simp add: Cons_nth_drop_Suc)
  ultimately show ?case using Suc.IH [of "Suc k" t] Suc.prems(2) by (auto simp: bindP_def)
qed auto

lemma finish_stands:
  assumes "stands (length plan) q plan s"
  shows "\<exists>t. finish s = (Inr (), t) \<and> oper t = None \<and> disk t = completed (o_id q) (work s)"
proof -
  have "finish_refused s = Inr False"
    using assms by (simp add: stands_def finish_refused_def current_plan_def current_row_def row_differs_def op_row_of_def mapR_def)
  moreover have "alive s" "oper s = Some q" "length (filter (hit (o_id q)) (ops (work s))) = 1"
    using assms by (simp_all add: stands_def)
  ultimately show ?thesis
    by (simp add: finish_def prog_defs raise_when_def raise_if_def alive_authority transaction_def on_exn_def
      complete_op_def alive_commit completed_def)
qed

definition unused :: "string \<Rightarrow> db \<Rightarrow> bool" where
  "unused i d \<longleftrightarrow> list_all (\<lambda>r. r_id r \<noteq> i \<and> r_new_epoch r \<noteq> ''d1-'' @ i) (ops d) \<and> steps_of i d = []"

lemma begin_stands:
  assumes s: "alive s" "oper s = None" "\<not> unfinished (work s)" "unused (uuids s (drawn s)) (work s)"
    and plan: "phase_plan a b = Inr plan" and e: "str_and e epoch_plus"
  shows "\<exists>q t. begin_op a b e s = (Inr q, t) \<and> stands 0 q plan t
    \<and> o_id q = uuids s (drawn s) \<and> o_source q = a \<and> o_target q = b"
proof -
  let ?i = "uuids s (drawn s)"
  define q where "q = \<lparr>o_id = ?i, o_source = a, o_target = b, o_source_epoch = str_val e, o_new_epoch = ''d1-'' @ ?i\<rparr>"
  define s1 where "s1 = s\<lparr>drawn := Suc (drawn s)\<rparr>"
  define s2 where "s2 = s1\<lparr>work := add_op (work s) (op_row_of q), commits := Suc (commits s), disk := add_op (work s) (op_row_of q)\<rparr>"
  define s3 where "s3 = s2\<lparr>oper := Some q, nxt := 0, pending := False\<rparr>"
  have none: "\<forall>r \<in> set (ops (work s)). r_id r \<noteq> ?i \<and> r_new_epoch r \<noteq> ''d1-'' @ ?i \<and> r_complete r" "steps_of ?i (work s) = []"
    using s(3,4) by (auto simp: unused_def unfinished_def list_all_iff list_ex_iff)
  then have insert: "insert_op (op_row_of q) s1 = (Inr (), s1\<lparr>work := add_op (work s) (op_row_of q)\<rparr>)"
    by (auto simp: insert_op_def add_op_def s1_def q_def op_row_of_def list_ex_iff)
  have "alive s1" using s(1) by (simp add: s1_def)
  with insert have "transaction (insert_op (op_row_of q)) ''begin'' s1 = (Inr (), s2)"
    by (simp add: transaction_def on_exn_def seqP_def bindP_def alive_commit s2_def s1_def)
  then have "begin_op a b e s = (Inr q, s3)"
    using s plan e unfolding begin_op_def Let_def
    by (simp del: append.simps add: seqP_def bindP_def alive_authority lift_def raise_when_def raise_if_def uuid4_def modify_def ret_def
      s1_def [symmetric] q_def [symmetric] s3_def [symmetric])
  moreover have "stands 0 q plan s3"
  proof -
    have "filter (hit ?i) (ops (work s)) = []" using none(1) by (auto simp: hit_def filter_empty_conv)
    moreover have "find_op ?i (work s) = None" using none(1) by (auto simp: find_op_def find_None_iff)
    ultimately show ?thesis using s(1) plan none
      by (auto simp: stands_def s3_def s2_def s1_def q_def op_row_of_def hit_def find_op_add_op)
  qed
  ultimately show ?thesis by (auto simp: q_def)
qed

text \<open>C11 An operation can always be brought to its end. From an idle journal whose authority holds and whose commits
  do not fail, \<open>begin\<close>, every step of the plan in order and \<open>finish\<close> return, whatever the actions do to the world
  beside the journal, as long as they return something to record: the operation's row is durably complete with intent
  and done of every phase, and the next operation may begin.\<close>

theorem operation_completes:
  assumes "alive s" and "oper s = None" and "\<not> unfinished (work s)" and "unused (uuids s (drawn s)) (work s)"
    and "phase_plan a b = Inr plan" and "str_and e epoch_plus" and "\<And>p. answers (act p)"
  shows "\<exists>t r. seqP (begin_op a b e) (foldr (\<lambda>p rest. bindP (step p (act p)) (\<lambda>_. rest)) plan finish) s = (Inr (), t)
    \<and> oper t = None \<and> find_op (uuids s (drawn s)) (disk t) = Some r \<and> r_complete r \<and> (r_source r, r_target r) = (a, b)
    \<and> map step_key (steps_of (uuids s (drawn s)) (disk t)) = interleaved 0 plan \<and> \<not> unfinished (disk t)"
proof -
  obtain q s0 where b: "begin_op a b e s = (Inr q, s0)" "stands 0 q plan s0"
    "o_id q = uuids s (drawn s)" "o_source q = a" "o_target q = b"
    using begin_stands [OF assms(1-6)] by blast
  obtain s1 where s1: "stands (length plan) q plan s1"
    "foldr (\<lambda>p rest. bindP (step p (act p)) (\<lambda>_. rest)) plan finish s0 = finish s1"
    using steps_advance [of act 0 q plan s0 "length plan" finish] assms(7) b(2) by auto
  obtain t where t: "finish s1 = (Inr (), t)" "oper t = None" "disk t = completed (o_id q) (work s1)"
    using finish_stands [OF s1(1)] by blast
  have "find_op (o_id q) (disk t) = Some (mark_complete (o_id q) (op_row_of q))"
    "map step_key (steps_of (o_id q) (disk t)) = interleaved 0 plan"
    using s1(1) t(3) by (simp_all add: stands_def find_op_completed)
  moreover have "\<not> unfinished (disk t)"
    using s1(1) t(3) by (auto simp: stands_def unfinished_def completed_def list_ex_iff mark_complete_def)
  ultimately show ?thesis using b s1(2) t by (auto simp: seqP_def bindP_def mark_complete_def hit_def op_row_of_def)
qed

lemma ex_alive: "alive ex_journal"
proof -
  have "fst (check_authority ex_journal) = Inr ()" by code_simp
  then show ?thesis by (simp add: alive_def ex_journal_def)
qed

theorem operation_completes_witness:
  "\<exists>t r. seqP (begin_op ''A'' ''B'' (JStr ''d1-one''))
      (foldr (\<lambda>p rest. bindP (step p (ret JNull)) (\<lambda>_. rest)) PHASES finish) ex_journal = (Inr (), t)
    \<and> find_op (uuids ex_journal 0) (disk t) = Some r \<and> r_complete r \<and> \<not> unfinished (disk t)"
proof -
  have "dumps JNull = Inr ''null''" by code_simp
  then have "answers (ret JNull :: (journal, json) prog)" by (simp add: answers_def ret_def)
  moreover have "oper ex_journal = None" "\<not> unfinished (work ex_journal)" "drawn ex_journal = 0"
    "unused (uuids ex_journal (drawn ex_journal)) (work ex_journal)" "str_and (JStr ''d1-one'') epoch_plus"
    by code_simp+
  ultimately show ?thesis
    using operation_completes [OF ex_alive, of "''A''" "''B''" PHASES "JStr ''d1-one''" "\<lambda>_. ret JNull"] phase_plans(1)
    by (metis (no_types, lifting))
qed

end
