(* ===== verification/Schema.thy ===== *)
theory Schema
  imports Journal
begin

text \<open>
  \<open>hat/control.py\<close>, the recognition of a journal database before any of its rows is believed: the
  canonical form of SQL text (\<open>_canonical_ddl\<close>), the exact tables, columns, indexes and constraints of
  the two accepted generations (\<open>_journal_schema\<close>), and the reader of legacy rows
  (\<open>_validate_legacy_rows\<close>). What SQLite reports about a database file, and what a scratch database
  made from its statements accepts, is the record \<open>catalog\<close>, an argument of the checks.
\<close>

section \<open>Canonical SQL text\<close>

text \<open>\<open>str.isspace\<close>, \<open>str.isalnum\<close> and \<open>str.lower\<close> on code points below 256.\<close>

definition py_space :: "char \<Rightarrow> bool" where
  "py_space c \<longleftrightarrow> (let n = of_char c :: nat in
     (9 \<le> n \<and> n \<le> 13) \<or> (28 \<le> n \<and> n \<le> 32) \<or> n = 133 \<or> n = 160)"

definition py_alnum :: "char \<Rightarrow> bool" where
  "py_alnum c \<longleftrightarrow> is_alnum c \<or> (let n = of_char c :: nat in
     n \<in> {170, 178, 179, 181, 185, 186, 188, 189, 190} \<or> (192 \<le> n \<and> n \<noteq> 215 \<and> n \<noteq> 247))"

definition lower_char :: "char \<Rightarrow> char" where
  "lower_char c = (let n = of_char c :: nat in
     if (65 \<le> n \<and> n \<le> 90) \<or> (192 \<le> n \<and> n \<le> 222 \<and> n \<noteq> 215) then char_of (n + 32) else c)"

definition lower :: "string \<Rightarrow> string" where
  "lower = map lower_char"

text \<open>\<open>s.split()\<close>.\<close>

function split_space :: "string \<Rightarrow> string list" where
  "split_space [] = []"
| "split_space (c # cs) = (if py_space c then split_space cs
     else (c # takeWhile (Not \<circ> py_space) cs) # split_space (dropWhile (Not \<circ> py_space) cs))"
  by pat_completeness auto

termination
  by (relation "measure length") (auto simp: less_Suc_eq_le length_dropWhile_le)

text \<open>\<open>s.find(p)\<close>: the text before the first occurrence of \<open>p\<close> and the text after it.\<close>

fun cut_at :: "string \<Rightarrow> string \<Rightarrow> (string \<times> string) option" where
  "cut_at p [] = (if p = [] then Some ([], []) else None)"
| "cut_at p (c # s) = (case strip_prefix p (c # s) of
     Some r \<Rightarrow> Some ([], r)
   | None \<Rightarrow> map_option (\<lambda>(b, r). (c # b, r)) (cut_at p s))"

definition quote :: char where "quote = CHR 0x27"

definition dquote :: char where "dquote = CHR 0x22"

definition backquote :: char where "backquote = CHR 0x60"

text \<open>The scan of a string literal after its opening quote: what it consumes and what is left.\<close>

fun literal_body :: "string \<Rightarrow> string \<times> string" where
  "literal_body [] = ([], [])"
| "literal_body (c # cs) =
     (if c = quote then
        (case cs of d # ds \<Rightarrow> if d = quote then (case literal_body ds of (l, r) \<Rightarrow> (c # d # l, r))
                             else ([c], cs)
         | [] \<Rightarrow> ([c], []))
      else (case literal_body cs of (l, r) \<Rightarrow> (c # l, r)))"

definition word_char :: "char \<Rightarrow> bool" where
  "word_char c \<longleftrightarrow> py_alnum c \<or> c = CHR ''_'' \<or> c = CHR ''$''"

definition starts :: "string \<Rightarrow> string \<Rightarrow> bool" where
  "starts p s \<longleftrightarrow> strip_prefix p s \<noteq> None"

lemma cut_at_shorter: "cut_at p s = Some (b, r) \<Longrightarrow> length r \<le> length s"
proof (induction p s arbitrary: b r rule: cut_at.induct)
  case (2 p c s)
  then show ?case
    by (auto split: option.splits simp: strip_prefix_Some dest!: arg_cong [of _ _ length] le_SucI)
qed (simp split: if_splits)

lemma literal_shorter: "literal_body s = (l, r) \<Longrightarrow> length r \<le> length s"
proof (induction s arbitrary: l r rule: literal_body.induct)
  case (2 c cs)
  then show ?case
    by (fastforce split: if_splits list.splits prod.splits)
qed simp

text \<open>One pass of the loop: the text it emits, and the input that is left.\<close>

definition ddl_token :: "char \<Rightarrow> string \<Rightarrow> (string \<times> string) res" where
  "ddl_token c cs =
     (if py_space c then Inr ([], cs)
      else if starts ''--'' (c # cs) then
        Inr ([], case cut_at [CHR 0x5C, CHR ''n''] (tl cs) of None \<Rightarrow> []
                 | Some (b, r) \<Rightarrow> CHR ''n'' # r)
      else if starts ''/*'' (c # cs) then
        (case cut_at ''*/'' (tl cs) of None \<Rightarrow> Inl ValueError | Some (b, r) \<Rightarrow> Inr ([], r))
      else if c = quote then
        (case literal_body cs of (l, r) \<Rightarrow>
           if last (c # l) \<noteq> quote then Inl ValueError else Inr (c # l, r))
      else if c \<in> {dquote, backquote, CHR ''[''} then
        (case cut_at [if c = CHR ''['' then CHR '']'' else c] cs of
           None \<Rightarrow> Inl ValueError | Some (b, r) \<Rightarrow> Inr (lower b, r))
      else if py_alnum c \<or> c = CHR ''_'' then
        Inr (lower (c # takeWhile word_char cs), dropWhile word_char cs)
      else Inr ([c], cs))"

lemma ddl_token_shorter: "ddl_token c cs = Inr (w, r) \<Longrightarrow> length r \<le> length cs"
proof -
  assume t: "ddl_token c cs = Inr (w, r)"
  have n: "cut_at p (tl cs) = Some (b, r') \<Longrightarrow> p \<noteq> [] \<Longrightarrow> Suc (length r') \<le> length cs" for p b r'
  proof -
    assume c: "cut_at p (tl cs) = Some (b, r')" and p: "p \<noteq> []"
    have "length r' < length u" if "cut_at p u = Some (b, r')" for u b
      using that
    proof (induction u arbitrary: b)
      case (Cons x u)
      then show ?case using p
        by (auto split: option.splits simp: strip_prefix_Some dest!: arg_cong [of _ _ length] less_SucI)
    qed (use p in simp)
    from this [OF c] show ?thesis by (cases cs) simp_all
  qed
  have d: "length (dropWhile word_char cs) \<le> length cs" by (rule length_dropWhile_le)
  show ?thesis
    using t d unfolding ddl_token_def
    by (auto split: if_splits option.splits prod.splits dest: n cut_at_shorter literal_shorter)
qed

function canonical_ddl :: "string \<Rightarrow> string res" where
  "canonical_ddl [] = Inr []"
| "canonical_ddl (c # cs) = (case ddl_token c cs of Inl e \<Rightarrow> Inl e
     | Inr wr \<Rightarrow> mapR (\<lambda>out. fst wr @ out) (canonical_ddl (snd wr)))"
  by pat_completeness auto

termination
  by (relation "measure length") (auto simp: less_Suc_eq_le dest: ddl_token_shorter)

text \<open>A row's SQL is text or NULL, which is returned as it is.\<close>

definition canonical_value :: "string option \<Rightarrow> string option res" where
  "canonical_value v = (case v of None \<Rightarrow> Inr None | Some s \<Rightarrow> mapR Some (canonical_ddl s))"

section \<open>The accepted generations\<close>

definition nl :: string where "nl = [CHR 0x0A]"

definition quoted :: "string \<Rightarrow> string" where
  "quoted s = quote # s @ [quote]"

definition OPERATIONS_LEGACY_SQL :: string where
  "OPERATIONS_LEGACY_SQL = ''CREATE TABLE operations ('' @ nl @
     ''    id TEXT PRIMARY KEY, source TEXT NOT NULL, target TEXT NOT NULL,'' @ nl @
     ''    source_epoch TEXT NOT NULL, new_epoch TEXT NOT NULL UNIQUE,'' @ nl @
     ''    complete INTEGER NOT NULL DEFAULT 0 CHECK(complete IN (0,1)))''"

definition contract_column :: string where
  "contract_column = ''restore_contract TEXT NOT NULL DEFAULT '' @ quoted ''legacy'' @
     '' CHECK(restore_contract IN ('' @ quoted ''legacy'' @ '','' @ quoted ''hat-restore-acceptance-1'' @ ''))''"

definition OPERATIONS_SQL :: string where
  "OPERATIONS_SQL = butlast OPERATIONS_LEGACY_SQL @ '','' @ nl @ ''    '' @ contract_column @ '')''"

definition STEPS_SQL :: string where
  "STEPS_SQL = ''CREATE TABLE steps ('' @ nl @
     ''    operation TEXT NOT NULL REFERENCES operations(id), position INTEGER NOT NULL,'' @ nl @
     ''    phase TEXT NOT NULL, status TEXT NOT NULL CHECK(status IN ('' @ quoted ''intent'' @ '','' @
       quoted ''done'' @ '')),'' @ nl @
     ''    evidence TEXT NOT NULL, PRIMARY KEY(operation,position,status))''"

definition UNFINISHED_SQL :: string where
  "UNFINISHED_SQL = ''CREATE UNIQUE INDEX one_unfinished ON operations(complete) WHERE complete=0''"

definition column :: "string \<Rightarrow> string \<Rightarrow> int \<Rightarrow> json \<Rightarrow> int \<Rightarrow> json list" where
  "column name kind required dflt pk =
     [JStr name, JStr kind, JInt required, dflt, JInt pk, JInt 0]"

definition LEGACY_OP_COLUMNS :: "json list list" where
  "LEGACY_OP_COLUMNS = [column ''id'' ''TEXT'' 0 JNull 1, column ''source'' ''TEXT'' 1 JNull 0,
     column ''target'' ''TEXT'' 1 JNull 0, column ''source_epoch'' ''TEXT'' 1 JNull 0,
     column ''new_epoch'' ''TEXT'' 1 JNull 0, column ''complete'' ''INTEGER'' 1 (JStr ''0'') 0]"

definition NEW_OP_COLUMNS :: "json list list" where
  "NEW_OP_COLUMNS = LEGACY_OP_COLUMNS @ [column ''restore_contract'' ''TEXT'' 1 (JStr (quoted ''legacy'')) 0]"

definition STEP_COLUMNS :: "json list list" where
  "STEP_COLUMNS = [column ''operation'' ''TEXT'' 1 JNull 1, column ''position'' ''INTEGER'' 1 JNull 2,
     column ''phase'' ''TEXT'' 1 JNull 0, column ''status'' ''TEXT'' 1 JNull 3,
     column ''evidence'' ''TEXT'' 1 JNull 0]"

section \<open>What SQLite reports\<close>

text \<open>One row of \<open>PRAGMA index_list\<close>, \<open>index_info\<close> and \<open>foreign_key_list\<close>, in column order.\<close>

type_synonym index_row = "int \<times> string \<times> int \<times> string \<times> int"
type_synonym info_row = "int \<times> int \<times> string option"
type_synonym fk_row = "int \<times> int \<times> string \<times> string \<times> string \<times> string \<times> string \<times> string"
type_synonym statement = "string \<times> json list"

text \<open>\<open>script_result\<close> is what running a script in an empty scratch database raises, if anything, and
  \<open>insert_accepted script done statement\<close> whether that database, after the statements \<open>done\<close>, accepts
  the next one (a refusal is an \<open>IntegrityError\<close>).\<close>

record catalog =
  objects :: "(string \<times> string \<times> string option) list"
  integrity_ok :: bool
  broken_references :: bool
  table_xinfo :: "string \<Rightarrow> json list list"
  index_list :: "string \<Rightarrow> index_row list"
  index_info :: "string \<Rightarrow> info_row list"
  foreign_keys :: "string \<Rightarrow> fk_row list"
  script_result :: "string \<Rightarrow> unit res"
  insert_accepted :: "string \<Rightarrow> statement list \<Rightarrow> statement \<Rightarrow> bool"
  contracts :: "string list"

text \<open>\<open>name LIKE 'sqlite_%'\<close>: case does not matter and the underscore stands for any character.\<close>

definition like_sqlite :: "string \<Rightarrow> bool" where
  "like_sqlite name \<longleftrightarrow> lower (take 6 name) = ''sqlite'' \<and> 7 \<le> length name"

definition schema_objects :: "catalog \<Rightarrow> (string \<times> string) set" where
  "schema_objects c = set (map (\<lambda>(kind, name, _). (kind, name))
     (filter (\<lambda>(kind, name, _). \<not> like_sqlite name) (objects c)))"

definition check_table :: "catalog \<Rightarrow> string \<Rightarrow> json list list \<Rightarrow> unit res" where
  "check_table c name expected =
     refuse_if (map (\<lambda>row. Inr (length row \<noteq> 7 \<or> \<not> py_eq (row ! 6) (JInt 0))) (table_xinfo c name))
     (refuse_if [Inr (\<not> py_eq_list (map (\<lambda>row. JArr (tl row)) (table_xinfo c name)) (map JArr expected))]
     (Inr ()))"

definition index_name :: "index_row \<Rightarrow> string" where "index_name r = fst (snd r)"
definition index_unique :: "index_row \<Rightarrow> int" where "index_unique r = fst (snd (snd r))"
definition index_origin :: "index_row \<Rightarrow> string" where "index_origin r = fst (snd (snd (snd r)))"
definition index_partial :: "index_row \<Rightarrow> int" where "index_partial r = snd (snd (snd (snd r)))"

definition column_of :: "info_row \<Rightarrow> string option" where "column_of r = snd (snd r)"

text \<open>One pass of the loop over the two tables.\<close>

definition check_table_indexes :: "catalog \<Rightarrow> string \<times> string list \<Rightarrow> bool res" where
  "check_table_indexes c te = (case te of (table, expected) \<Rightarrow> Inr
     (list_ex (\<lambda>r. index_partial r \<noteq> 0 \<and> starts ''sqlite_autoindex_'' (index_name r)
          \<and> index_info c (index_name r) = []) (index_list c table)
      \<or> table = ''operations'' \<and> \<not> list_ex (\<lambda>r. case index_info c (index_name r) of
            [] \<Rightarrow> False | i # _ \<Rightarrow> column_of i \<in> Some ` set expected) (index_list c table)))"

definition check_indexes :: "catalog \<Rightarrow> unit res" where
  "check_indexes c =
     refuse_if [Inr (length (index_list c ''operations'') \<noteq> 3),
         Inr (\<not> list_ex (\<lambda>r. index_name r = ''one_unfinished'' \<and> index_unique r = 1
            \<and> index_origin r = ''c'' \<and> index_partial r = 1) (index_list c ''operations''))]
     (refuse_if [Inr (index_list c ''steps'' \<noteq> [] \<and> length (index_list c ''steps'') \<noteq> 1)]
     (refuse_if [Inr (map snd (index_info c ''one_unfinished'') \<noteq> [(5, Some ''complete'')])]
     (refuse_if (map (check_table_indexes c)
         [(''operations'', [''id'', ''new_epoch'']), (''steps'', [''operation''])])
     (Inr ()))))"

section \<open>Constraints, by probing a scratch database\<close>

definition INSERT_OP :: string where
  "INSERT_OP = ''INSERT INTO operations(id,source,target,source_epoch,new_epoch,complete) VALUES(?,?,?,?,?,?)''"

definition INSERT_STEP :: string where
  "INSERT_STEP = ''INSERT INTO steps(operation,position,phase,status,evidence) VALUES(?,?,?,?,?)''"

definition op_args :: "char \<Rightarrow> string \<Rightarrow> int \<Rightarrow> statement" where
  "op_args c new flag = (INSERT_OP, [JStr (replicate 32 c), JStr ''A'', JStr ''B'',
     JStr ''d1-test'', JStr new, JInt flag])"

definition step_args :: "char \<Rightarrow> int \<Rightarrow> string \<Rightarrow> string \<Rightarrow> statement" where
  "step_args c position phase status = (INSERT_STEP,
     [JStr (replicate 32 c), JInt position, JStr phase, JStr status, JStr ''{}''])"

definition good_inserts :: "statement list" where
  "good_inserts = [op_args (CHR ''a'') ''d1-new'' 1, step_args (CHR ''a'') 0 ''preflight'' ''intent'']"

definition bad_inserts :: "statement list" where
  "bad_inserts = [op_args (CHR ''b'') ''d1-new'' 1, op_args (CHR ''c'') ''d1-c'' 2,
     step_args (CHR ''a'') 0 ''preflight'' ''bad'', step_args (CHR ''z'') 1 ''x'' ''intent'']"

text \<open>The statements of the schema, tables first, each group by name.\<close>

definition schema_script :: "catalog \<Rightarrow> string" where
  "schema_script c = join_with '';'' (map (\<lambda>(_, _, sql). the sql)
     (concat (map (\<lambda>k. sort_key (\<lambda>(_, name, _). name)
        (filter (\<lambda>(kind, name, sql). kind = k \<and> \<not> like_sqlite name \<and> sql \<noteq> None) (objects c)))
      [''table'', ''index''])))"

fun all_accepted :: "(statement list \<Rightarrow> statement \<Rightarrow> bool) \<Rightarrow> statement list \<Rightarrow> statement list \<Rightarrow> bool" where
  "all_accepted ok done_list [] \<longleftrightarrow> True"
| "all_accepted ok done_list (st # sts) \<longleftrightarrow> ok done_list st \<and> all_accepted ok (done_list @ [st]) sts"

definition check_constraints :: "catalog \<Rightarrow> unit res" where
  "check_constraints c =
     refuse_if [Inr (foreign_keys c ''steps'' \<noteq> [(0, 0, ''operations'', ''operation'', ''id'',
         ''NO ACTION'', ''NO ACTION'', ''NONE'')])]
     (bindR (script_result c (schema_script c)) (\<lambda>_.
     refuse_if [Inr (\<not> all_accepted (insert_accepted c (schema_script c)) [] good_inserts)]
     (refuse_if (map (\<lambda>st. Inr (insert_accepted c (schema_script c) good_inserts st)) bad_inserts)
     (Inr ()))))"

section \<open>The generation of a journal\<close>

definition SCHEMA_NAMES :: "string list" where
  "SCHEMA_NAMES = [''operations'', ''steps'', ''one_unfinished'']"

definition legacy_sql :: "(string \<times> string) list" where
  "legacy_sql = [(''operations'', OPERATIONS_LEGACY_SQL), (''steps'', STEPS_SQL),
     (''one_unfinished'', UNFINISHED_SQL)]"

definition new_sql :: "(string \<times> string) list" where
  "new_sql = [(''operations'', OPERATIONS_SQL), (''steps'', STEPS_SQL),
     (''one_unfinished'', UNFINISHED_SQL)]"

definition actual_sql :: "catalog \<Rightarrow> (string \<times> string option) list" where
  "actual_sql c = rev (filter (\<lambda>(name, _). name \<in> set SCHEMA_NAMES) (map snd (objects c)))"

definition sql_differs :: "(string \<times> string option) list \<Rightarrow> (string \<times> string) list \<Rightarrow> bool res" where
  "sql_differs actual expected = any_of (map (\<lambda>(name, sql). case map_of actual name of
       None \<Rightarrow> Inr True
     | Some v \<Rightarrow> bindR (canonical_value v) (\<lambda>a. bindR (canonical_ddl sql) (\<lambda>b. Inr (a \<noteq> Some b)))) expected)"

definition columns_of :: "catalog \<Rightarrow> string \<Rightarrow> json" where
  "columns_of c table = JArr (map (\<lambda>row. JArr (tl row)) (table_xinfo c table))"

definition generation_of_columns :: "json \<Rightarrow> string res" where
  "generation_of_columns cols =
     (if py_eq cols (JArr (map JArr LEGACY_OP_COLUMNS)) then Inr LEGACY_RESTORE_CONTRACT
      else if py_eq cols (JArr (map JArr NEW_OP_COLUMNS)) then Inr RESTORE_CONTRACT
      else Inl ValueError)"

definition journal_schema :: "catalog \<Rightarrow> string res" where
  "journal_schema c =
     refuse_if [all_of [sql_differs (actual_sql c) legacy_sql, sql_differs (actual_sql c) new_sql]]
     (refuse_if [Inr (\<not> integrity_ok c), Inr (broken_references c)]
     (refuse_if [Inr (schema_objects c \<noteq>
         {(''table'', ''operations''), (''table'', ''steps''), (''index'', ''one_unfinished'')})]
     (bindR (check_table c ''steps'' STEP_COLUMNS) (\<lambda>_.
     bindR (check_indexes c) (\<lambda>_.
     bindR (generation_of_columns (columns_of c ''operations'')) (\<lambda>contract.
     bindR (check_constraints c) (\<lambda>_.
     if contract = LEGACY_RESTORE_CONTRACT then Inr contract
     else refuse_if [Inr (\<not> set (contracts c) \<subseteq> {LEGACY_RESTORE_CONTRACT, RESTORE_CONTRACT})]
       (Inr RESTORE_CONTRACT))))))))"

section \<open>Legacy rows\<close>

text \<open>Rows as the untyped values the database holds: the operations with their five columns, and every
  step with the operation it names.\<close>

record raw_op =
  w_id :: json
  w_source :: json
  w_target :: json
  w_epoch :: json
  w_new :: json
  w_complete :: json

record raw_step =
  y_op :: json
  y_pos :: json
  y_phase :: json
  y_status :: json
  y_evidence :: json

definition raw_op_invalid :: "raw_op \<Rightarrow> bool" where
  "raw_op_invalid r \<longleftrightarrow> \<not> str_and (w_id r) hex32
     \<or> (w_source r, w_target r) \<notin> {(JStr ''A'', JStr ''B''), (JStr ''B'', JStr ''A'')}
     \<or> \<not> str_and (w_epoch r) epoch_125 \<or> \<not> str_and (w_new r) epoch_125
     \<or> w_new r \<noteq> JStr (''d1-'' @ str_val (w_id r)) \<or> w_new r = w_epoch r
     \<or> \<not> int_and (w_complete r) (\<lambda>n. n = 0 \<or> n = 1)"

definition raw_key :: "nat \<times> string \<times> status \<Rightarrow> json" where
  "raw_key k = (case k of (i, p, st) \<Rightarrow>
     JArr [JInt (int i), JStr p, JStr (case st of Intent \<Rightarrow> ''intent'' | Done \<Rightarrow> ''done'')])"

definition raw_key_of :: "raw_step \<Rightarrow> json" where
  "raw_key_of y = JArr [y_pos y, y_phase y, y_status y]"

definition raw_evidence_invalid :: "raw_step \<Rightarrow> bool res" where
  "raw_evidence_invalid y =
     (if y_status y = JStr ''intent'' then Inr (y_evidence y \<noteq> JStr ''{}'')
      else if y_status y = JStr ''done'' then
        bindR (reraise [TypeError, ValueError] ValueError
            (case y_evidence y of JStr s \<Rightarrow> loads_unique s | _ \<Rightarrow> Inl TypeError))
          (\<lambda>v. Inr (\<not> is_obj v))
      else Inr False)"

definition check_legacy_op :: "raw_step list \<Rightarrow> raw_op \<Rightarrow> unit res" where
  "check_legacy_op ys r =
     refuse_if [Inr (raw_op_invalid r)]
     (bindR (phase_plan (str_val (w_source r)) (str_val (w_target r))) (\<lambda>plan.
       let mine = filter (\<lambda>y. y_op y = w_id r) ys; expected = map raw_key (interleaved 0 plan) in
     refuse_if [Inr (mine = []), Inr (\<not> py_eq_list (map raw_key_of mine) (take (length mine) expected))]
     (refuse_if (map raw_evidence_invalid mine)
     (refuse_if [Inr (w_complete r = JInt 1 \<and> \<not> py_eq_list (map raw_key_of mine) expected)]
     (Inr ())))))"

definition validate_legacy_rows :: "raw_op list \<Rightarrow> raw_step list \<Rightarrow> unit res" where
  "validate_legacy_rows rows ys =
     refuse_if [Inr (\<not> distinct (map w_id rows))]
     (bindR (traverse (check_legacy_op ys) rows) (\<lambda>_.
     refuse_if [Inr (list_ex (\<lambda>y. y_op y \<notin> w_id ` set rows) ys)]
     (Inr ())))"

end
