(* ===== verification/Schema_Properties.thy ===== *)
theory Schema_Properties
  imports Schema
begin

text \<open>What the recognition of a journal database lets through.\<close>

section \<open>Comments in SQL text\<close>

lemma no_backslash_no_cut: "CHR 0x5C \<notin> set s \<Longrightarrow> cut_at [CHR 0x5C, CHR ''n''] s = None"
  by (induction s) auto

text \<open>A line comment hides everything after it: the scan for the end of a \<open>--\<close> comment looks for a
  backslash followed by \<open>n\<close>, so on SQL text without backslashes whatever follows a comment, on any later
  line, is absent from the canonical form.\<close>

theorem comment_hides_rest:
  assumes "CHR 0x5C \<notin> set rest"
  shows "canonical_ddl (''--'' @ rest) = Inr []"
proof -
  have "ddl_token (CHR ''-'') (CHR ''-'' # rest) = Inr ([], [])"
    using no_backslash_no_cut [OF assms] by (simp add: ddl_token_def starts_def py_space_def)
  then show ?thesis by simp
qed

theorem comment_hides_rest_witness:
  "canonical_ddl (''--'' @ (''note'' @ nl @ ''DROP TABLE steps'')) = Inr []"
  by (rule comment_hides_rest) (simp add: nl_def)

section \<open>Legacy rows\<close>

lemma traverse_Inr_elem: "traverse f xs = Inr us \<Longrightarrow> x \<in> set xs \<Longrightarrow> \<exists>u. f x = Inr u"
  by (induction xs arbitrary: us) (auto split: sum.splits)

lemma py_eq_list_length: "py_eq_list xs ys \<Longrightarrow> length xs = length ys"
proof (induction xs arbitrary: ys)
  case (Cons x xs)
  then show ?case by (cases ys) auto
qed simp

lemma evidence_valid:
  assumes "raw_evidence_invalid y = Inr False"
  shows "y_status y = JStr ''intent'' \<longrightarrow> y_evidence y = JStr ''{}''"
    "y_status y = JStr ''done'' \<longrightarrow> (\<exists>s kvs. y_evidence y = JStr s \<and> loads_unique s = Inr (JObj kvs))"
  using assms unfolding raw_evidence_invalid_def
  by (auto simp: res_simps is_obj_iff split: if_splits json.splits)

text \<open>C22 Legacy rows are believed only when they are a beginning of a plan: in accepted rows every operation
  has a fresh epoch named after it, at least one step, and as steps exactly the beginning of its
  direction's plan, intent before done, with empty evidence on every intent and a JSON object on every
  done; a complete operation has the whole plan, and no step belongs to an unknown operation.\<close>

theorem legacy_rows_follow_plan:
  assumes "validate_legacy_rows rows ys = Inr u" and "r \<in> set rows"
  shows "\<exists>i src tgt plan. w_id r = JStr i \<and> hex32 i \<and> w_new r = JStr (''d1-'' @ i)
    \<and> w_source r = JStr src \<and> w_target r = JStr tgt \<and> phase_plan src tgt = Inr plan
    \<and> (let mine = filter (\<lambda>y. y_op y = w_id r) ys; whole = map raw_key (interleaved 0 plan) in
        mine \<noteq> [] \<and> py_eq_list (map raw_key_of mine) (take (length mine) whole)
        \<and> (w_complete r = JInt 1 \<longrightarrow> length mine = length whole)
        \<and> (\<forall>y \<in> set mine. (y_status y = JStr ''intent'' \<longrightarrow> y_evidence y = JStr ''{}'')
             \<and> (y_status y = JStr ''done'' \<longrightarrow>
                 (\<exists>s kvs. y_evidence y = JStr s \<and> loads_unique s = Inr (JObj kvs)))))
    \<and> (\<forall>y \<in> set ys. y_op y \<in> w_id ` set rows)"
proof -
  note inv = assms(1) [unfolded validate_legacy_rows_def]
  then obtain us where t: "traverse (check_legacy_op ys) rows = Inr us"
    and out: "\<forall>y \<in> set ys. y_op y \<in> w_id ` set rows"
    by (auto simp: res_simps list_ex_iff)
  from traverse_Inr_elem [OF t assms(2)] obtain v where v: "check_legacy_op ys r = Inr v" by blast
  define mine where "mine = filter (\<lambda>y. y_op y = w_id r) ys"
  from v obtain plan where p: "\<not> raw_op_invalid r"
    "phase_plan (str_val (w_source r)) (str_val (w_target r)) = Inr plan"
    "mine \<noteq> []" "py_eq_list (map raw_key_of mine) (take (length mine) (map raw_key (interleaved 0 plan)))"
    "\<forall>y \<in> set mine. raw_evidence_invalid y = Inr False"
    "w_complete r = JInt 1 \<longrightarrow> py_eq_list (map raw_key_of mine) (map raw_key (interleaved 0 plan))"
    unfolding check_legacy_op_def Let_def mine_def [symmetric] by (auto simp: res_simps)
  obtain i where i: "w_id r = JStr i" "hex32 i" "w_new r = JStr (''d1-'' @ i)"
    using p(1) by (auto simp: raw_op_invalid_def str_and_iff)
  obtain src tgt where st: "w_source r = JStr src" "w_target r = JStr tgt"
    using p(1) by (auto simp: raw_op_invalid_def)
  have "w_complete r = JInt 1 \<longrightarrow> length mine = length (map raw_key (interleaved 0 plan))"
    using p(6) py_eq_list_length by fastforce
  then show ?thesis
    using i st p(2,3,4) evidence_valid p(5) out unfolding mine_def by (auto simp: Let_def)
qed

definition ex_legacy_op :: raw_op where
  "ex_legacy_op = \<lparr>w_id = JStr (replicate 32 (CHR ''a'')), w_source = JStr ''A'', w_target = JStr ''B'',
     w_epoch = JStr ''d1-one'', w_new = JStr (''d1-'' @ replicate 32 (CHR ''a'')), w_complete = JInt 0\<rparr>"

definition ex_legacy_steps :: "raw_step list" where
  "ex_legacy_steps = map (\<lambda>(i, p, st). \<lparr>y_op = w_id ex_legacy_op, y_pos = JInt (int i), y_phase = JStr p,
     y_status = JStr st, y_evidence = JStr ''{}''\<rparr>)
     [(0, ''preflight'', ''intent''), (0, ''preflight'', ''done''), (1, ''close_ingress'', ''intent'')]"

lemma ex_legacy_valid: "validate_legacy_rows [ex_legacy_op] ex_legacy_steps = Inr ()"
  by code_simp

theorem legacy_rows_follow_plan_witness:
  "\<exists>i src tgt plan. w_id ex_legacy_op = JStr i \<and> hex32 i \<and> w_new ex_legacy_op = JStr (''d1-'' @ i)
     \<and> w_source ex_legacy_op = JStr src \<and> w_target ex_legacy_op = JStr tgt \<and> phase_plan src tgt = Inr plan"
proof -
  have "ex_legacy_op \<in> set [ex_legacy_op]" by simp
  from legacy_rows_follow_plan [OF ex_legacy_valid this] show ?thesis by blast
qed

end
