(* ===== verification/World.thy ===== *)
theory World
  imports Paths Json_Text
begin

text \<open>
  Programs that act on a machine other processes also use. Three things are shared by the components
  that do: handlers for a list of exception classes, the accesses to a file system that may be
  different at every access, and calls to services whose answers depend on everything asked before.
\<close>

section \<open>Handlers\<close>

text \<open>\<open>try: m except cs: h\<close>.\<close>

definition catching :: "exn list \<Rightarrow> ('s, 'a) prog \<Rightarrow> ('s, 'a) prog \<Rightarrow> ('s, 'a) prog" where
  "catching cs m h s = (case m s of
     (Inl e, s') \<Rightarrow> if caught cs e then h s' else (Inl e, s') | (Inr x, s') \<Rightarrow> (Inr x, s'))"

text \<open>\<open>try: m except cs as e: raise c from e\<close>.\<close>

definition converting :: "exn list \<Rightarrow> exn \<Rightarrow> ('s, 'a) prog \<Rightarrow> ('s, 'a) prog" where
  "converting cs c m = catching cs m (raiseP c)"

lemma wp_catching: "wp (catching cs m h) Q s \<longleftrightarrow>
    wp m (\<lambda>r t. case r of Inl e \<Rightarrow> if caught cs e then wp h Q t else Q (Inl e) t | Inr x \<Rightarrow> Q (Inr x) t) s"
  by (auto simp: wp_def catching_def split: prod.splits sum.splits)

lemma keeps_catching [keeps_intros]: "keeps I m \<Longrightarrow> keeps I h \<Longrightarrow> keeps I (catching cs m h)"
  by (fastforce simp: keeps_def catching_def split: prod.splits sum.splits)

lemma keeps_converting [keeps_intros]: "keeps I m \<Longrightarrow> keeps I (converting cs c m)"
  by (simp add: converting_def keeps_intros)

lemma keeps_case_prod [keeps_intros]: "(\<And>a b. keeps I (f a b)) \<Longrightarrow> keeps I (case x of (a, b) \<Rightarrow> f a b)"
  by (cases x) simp

lemma keeps_case_option [keeps_intros]:
  "keeps I m \<Longrightarrow> (\<And>a. keeps I (f a)) \<Longrightarrow> keeps I (case x of None \<Rightarrow> m | Some a \<Rightarrow> f a)"
  by (cases x) simp_all

lemma keeps_Let [keeps_intros]: "(\<And>a. keeps I (f a)) \<Longrightarrow> keeps I (let a = x in f a)"
  by simp

lemma bindP_ret: "bindP m ret = m"
  by (auto simp: bindP_def ret_def fun_eq_iff split: prod.splits sum.splits)

text \<open>Evaluation from the outside: a condition before what follows it.\<close>

lemma raise_if_lazy: "c = c' \<Longrightarrow> raise_if c e k = raise_if c' e k"
  by simp

lemma bindR_lazy: "m = m' \<Longrightarrow> bindR m f = bindR m' f"
  by simp

lemma any_of_lazy: "c = c' \<Longrightarrow> any_of (c # cs) = any_of (c' # cs)"
  by simp

lemma all_of_lazy: "c = c' \<Longrightarrow> all_of (c # cs) = all_of (c' # cs)"
  by simp

lemma bindP_lazy: "m = m' \<Longrightarrow> bindP m f = bindP m' f"
  by simp

lemma seqP_lazy: "m = m' \<Longrightarrow> seqP m k = seqP m' k"
  by simp

lemmas lazy_congs = raise_if_lazy bindR_lazy any_of_lazy all_of_lazy bindP_lazy seqP_lazy

lemmas eval_simps = bindR_simps raise_if_simps any_of_steps all_of_steps any_of.simps(1) all_of.simps(1)
  notR_simps mapR_simps simp_thms if_True if_False option.case json.case json.inject is_obj.simps py_eq.simps
  differs_def in_tuple_def str_and_def insert_iff empty_iff list.set(1) list.set(2) list.inject list.distinct
  char.inject bex_simps

section \<open>Text\<close>

text \<open>\<open>read_text\<close> and \<open>json.loads\<close> of bytes decode UTF-8; bytes above 127 are outside the model.\<close>

definition ascii_text :: "string \<Rightarrow> string res" where
  "ascii_text b = (if list_all (\<lambda>c. of_char c < (128 :: nat)) b then Inr b else Inl UnicodeDecodeError)"

definition loads_text :: "string \<Rightarrow> json res" where
  "loads_text b = bindR (ascii_text b) loads"

section \<open>Values a program gives\<close>

text \<open>\<open>gives I m P\<close>: from states with \<open>I\<close> the program stays in \<open>I\<close>, and a value it returns satisfies \<open>P\<close>.
  The rules follow the program from its first statement.\<close>

named_theorems gives_intros \<open>rules for the values a program gives\<close>

definition gives :: "('s \<Rightarrow> bool) \<Rightarrow> ('s, 'a) prog \<Rightarrow> ('a \<Rightarrow> bool) \<Rightarrow> bool" where
  "gives I m P \<longleftrightarrow> (\<forall>s. I s \<longrightarrow> wp m (\<lambda>r t. I t \<and> (\<forall>x. r = Inr x \<longrightarrow> P x)) s)"

lemma givesD: "gives I m P \<Longrightarrow> I s \<Longrightarrow> m s = (Inr x, t) \<Longrightarrow> I t \<and> P x"
  by (simp add: gives_def wp_def) (metis fst_conv snd_conv)

lemma gives_keeps: "gives I m P \<Longrightarrow> keeps I m"
  by (simp add: gives_def keeps_def wp_def)

lemma gives_mono: "gives I m P \<Longrightarrow> (\<And>x. P x \<Longrightarrow> Q x) \<Longrightarrow> gives I m Q"
  by (auto simp: gives_def wp_def)

lemma gives_true: "keeps I m \<Longrightarrow> gives I m (\<lambda>_. True)"
  by (simp add: gives_def keeps_def wp_def)

lemma gives_bind:
  assumes "gives I m P" and "\<And>x. P x \<Longrightarrow> gives I (f x) Q"
  shows "gives I (bindP m f) Q"
  unfolding gives_def
proof (intro allI impI)
  fix s assume "I s"
  with assms(1) have m: "wp m (\<lambda>r t. I t \<and> (\<forall>x. r = Inr x \<longrightarrow> P x)) s" by (simp add: gives_def)
  have "thenQ f (\<lambda>r t. I t \<and> (\<forall>x. r = Inr x \<longrightarrow> Q x)) r t"
    if "I t \<and> (\<forall>x. r = Inr x \<longrightarrow> P x)" for r t
    using that assms(2) by (cases r) (auto simp: gives_def)
  then show "wp (bindP m f) (\<lambda>r t. I t \<and> (\<forall>x. r = Inr x \<longrightarrow> Q x)) s"
    using wp_mono [OF m] by simp
qed

lemma gives_seq: "gives I m P \<Longrightarrow> (\<And>x. P x \<Longrightarrow> gives I k Q) \<Longrightarrow> gives I (seqP m k) Q"
  unfolding seqP_def by (rule gives_bind)

lemma gives_ret [gives_intros]: "P x \<Longrightarrow> gives I (ret x) P"
  by (simp add: gives_def)

lemma gives_raiseP [gives_intros]: "gives I (raiseP e) P"
  by (simp add: gives_def)

lemma gives_lift [gives_intros]: "(\<And>x. r = Inr x \<Longrightarrow> P x) \<Longrightarrow> gives I (lift r) P"
  by (simp add: gives_def)

lemma gives_if [gives_intros]:
  "(b \<Longrightarrow> gives I x P) \<Longrightarrow> (\<not> b \<Longrightarrow> gives I y P) \<Longrightarrow> gives I (if b then x else y) P"
  by simp

lemma gives_case_option [gives_intros]:
  "(x = None \<Longrightarrow> gives I m P) \<Longrightarrow> (\<And>y. x = Some y \<Longrightarrow> gives I (f y) P)
     \<Longrightarrow> gives I (case x of None \<Rightarrow> m | Some y \<Rightarrow> f y) P"
  by (cases x) simp_all

lemma gives_case_prod [gives_intros]:
  "(\<And>y z. x = (y, z) \<Longrightarrow> gives I (f y z) P) \<Longrightarrow> gives I (case x of (y, z) \<Rightarrow> f y z) P"
  by (cases x) simp_all

lemma gives_Let [gives_intros]: "(\<And>y. y = x \<Longrightarrow> gives I (f y) P) \<Longrightarrow> gives I (let y = x in f y) P"
  by simp

lemma gives_catching [gives_intros]:
  "gives I m P \<Longrightarrow> gives I h P \<Longrightarrow> gives I (catching cs m h) P"
  by (fastforce simp: gives_def wp_def catching_def split: prod.splits sum.splits)

lemma gives_then_ret [gives_intros]: "gives I (f x) P \<Longrightarrow> gives I (bindP (ret x) f) P"
  by (simp add: gives_def)

lemma gives_then_raise [gives_intros]: "gives I (bindP (raiseP e) f) P"
  by (simp add: gives_def)

lemma gives_then_lift [gives_intros]:
  "(\<And>x. r = Inr x \<Longrightarrow> gives I (f x) P) \<Longrightarrow> gives I (bindP (lift r) f) P"
  by (cases r) (simp_all add: gives_def)

lemma gives_then_if [gives_intros]:
  "(b \<Longrightarrow> gives I (bindP x f) P) \<Longrightarrow> (\<not> b \<Longrightarrow> gives I (bindP y f) P) \<Longrightarrow> gives I (bindP (if b then x else y) f) P"
  by simp

lemma gives_then_option [gives_intros]:
  "(x = None \<Longrightarrow> gives I (bindP m f) P) \<Longrightarrow> (\<And>y. x = Some y \<Longrightarrow> gives I (bindP (g y) f) P)
     \<Longrightarrow> gives I (bindP (case x of None \<Rightarrow> m | Some y \<Rightarrow> g y) f) P"
  by (cases x) simp_all

lemma gives_then_gets [gives_intros]:
  "(\<And>s. I s \<Longrightarrow> gives I (f (g s)) P) \<Longrightarrow> gives I (bindP (gets g) f) P"
  by (simp add: gives_def)

lemma gives_seq_lift [gives_intros]:
  "(\<And>x. r = Inr x \<Longrightarrow> gives I k P) \<Longrightarrow> gives I (seqP (lift r) k) P"
  by (simp add: seqP_def gives_then_lift)

lemma gives_seq_when [gives_intros]:
  "(\<And>s. I s \<Longrightarrow> c s = Inr False \<Longrightarrow> gives I k P) \<Longrightarrow> gives I (seqP (raise_when c e) k) P"
  unfolding gives_def wp_seqP wp_raise_when
proof (intro allI impI)
  fix s assume k: "\<And>t. I t \<Longrightarrow> c t = Inr False \<Longrightarrow> \<forall>u. I u \<longrightarrow> wp k (\<lambda>r t. I t \<and> (\<forall>x. r = Inr x \<longrightarrow> P x)) u"
    and s: "I s"
  show "thenQ (\<lambda>_. k) (\<lambda>r t. I t \<and> (\<forall>x. r = Inr x \<longrightarrow> P x)) (raise_if (c s) e (Inr ())) s"
  proof (cases "raise_if (c s) e (Inr ())")
    case (Inl x)
    then show ?thesis using s by simp
  next
    case (Inr u)
    then have "c s = Inr False" by (simp add: raise_if_eq_Inr)
    then show ?thesis using k [OF s] s by simp
  qed
qed

lemma gives_seq_if [gives_intros]:
  "(b \<Longrightarrow> gives I (seqP x k) P) \<Longrightarrow> (\<not> b \<Longrightarrow> gives I (seqP y k) P) \<Longrightarrow> gives I (seqP (if b then x else y) k) P"
  by simp

lemma gives_seq_ret [gives_intros]: "gives I k P \<Longrightarrow> gives I (seqP (ret x) k) P"
  by (simp add: gives_def)

lemma gives_seq_bind [gives_intros]:
  "gives I (bindP m (\<lambda>x. seqP (f x) k)) P \<Longrightarrow> gives I (seqP (bindP m f) k) P"
proof -
  have "seqP (bindP m f) k = bindP m (\<lambda>x. seqP (f x) k)"
    by (auto simp: seqP_def bindP_def fun_eq_iff split: prod.splits sum.splits)
  then show "gives I (bindP m (\<lambda>x. seqP (f x) k)) P \<Longrightarrow> gives I (seqP (bindP m f) k) P" by simp
qed

section \<open>Files that others may change\<close>

type_synonym ino = "nat \<times> nat"

datatype node_kind = RegularNode | DirectoryNode | SymlinkNode | OtherNode

record inode =
  n_kind :: node_kind
  n_uid :: nat
  n_mode :: nat
  n_nlink :: nat
  n_mtime :: nat
  n_bytes :: string

text \<open>\<open>namei t p\<close> is what the name \<open>p\<close> stands for at instant \<open>t\<close>, \<open>follow\<close> the same after symbolic links,
  and \<open>inode t i\<close> the state of a file at that instant; every access happens at an instant of its own.\<close>

record machine =
  namei :: "nat \<Rightarrow> string \<Rightarrow> ino option"
  follow :: "nat \<Rightarrow> string \<Rightarrow> ino option"
  inode_at :: "nat \<Rightarrow> ino \<Rightarrow> inode"
  me :: nat
  clock :: nat

definition look :: "('w machine_scheme \<Rightarrow> nat \<Rightarrow> 'a res) \<Rightarrow> ('w machine_scheme, 'a) prog" where
  "look f s = (f s (clock s), s\<lparr>clock := Suc (clock s)\<rparr>)"

definition lstat_node :: "string \<Rightarrow> ('w machine_scheme, ino \<times> inode) prog" where
  "lstat_node p = look (\<lambda>s t. case namei s t p of None \<Rightarrow> Inl FileNotFoundError
     | Some i \<Rightarrow> Inr (i, inode_at s t i))"

definition exists_path :: "string \<Rightarrow> ('w machine_scheme, bool) prog" where
  "exists_path p = look (\<lambda>s t. Inr (follow s t p \<noteq> None))"

definition is_symlink_path :: "string \<Rightarrow> ('w machine_scheme, bool) prog" where
  "is_symlink_path p = look (\<lambda>s t. Inr (case namei s t p of None \<Rightarrow> False
     | Some i \<Rightarrow> n_kind (inode_at s t i) = SymlinkNode))"

text \<open>\<open>p.exists() or p.is_symlink()\<close>.\<close>

definition present :: "string \<Rightarrow> ('w machine_scheme, bool) prog" where
  "present p = bindP (exists_path p) (\<lambda>b. if b then ret True else is_symlink_path p)"

definition read_node :: "string \<Rightarrow> ('w machine_scheme, string) prog" where
  "read_node p = look (\<lambda>s t. case follow s t p of None \<Rightarrow> Inl FileNotFoundError
     | Some i \<Rightarrow> if n_kind (inode_at s t i) = DirectoryNode then Inl OSError
         else Inr (n_bytes (inode_at s t i)))"

definition load_node :: "string \<Rightarrow> ('w machine_scheme, json) prog" where
  "load_node p = bindP (read_node p) (\<lambda>b. lift (loads_text b))"

definition fstat_node :: "ino \<Rightarrow> ('w machine_scheme, inode) prog" where
  "fstat_node i = look (\<lambda>s t. Inr (inode_at s t i))"

text \<open>\<open>os.open(p, O_RDONLY | O_NOFOLLOW)\<close> and \<open>os.read(fd, n)\<close>: the descriptor stays with its file
  whatever happens to the name.\<close>

definition open_nofollow :: "string \<Rightarrow> ('w machine_scheme, ino) prog" where
  "open_nofollow p = bindP (lstat_node p) (\<lambda>(i, n).
     if n_kind n = SymlinkNode then raiseP OSError else ret i)"

definition read_fd :: "ino \<Rightarrow> nat \<Rightarrow> ('w machine_scheme, string) prog" where
  "read_fd i n = look (\<lambda>s t. Inr (take n (n_bytes (inode_at s t i))))"

text \<open>Looking changes nothing but the instant.\<close>

definition only_looks :: "('w machine_scheme, 'a) prog \<Rightarrow> bool" where
  "only_looks m \<longleftrightarrow> (\<forall>s. \<exists>t \<ge> clock s. snd (m s) = s\<lparr>clock := t\<rparr>)"

named_theorems looks_intros \<open>programs that change nothing but the instant\<close>

lemma looks_look [looks_intros]: "only_looks (look f)"
  unfolding only_looks_def look_def
proof
  show "\<exists>t \<ge> clock s. snd (f s (clock s), s\<lparr>clock := Suc (clock s)\<rparr>) = s\<lparr>clock := t\<rparr>" for s
    by (intro exI [of _ "Suc (clock s)"]) simp
qed

lemma looks_same: "\<exists>t \<ge> clock s. s = s\<lparr>clock := t\<rparr>"
  by (intro exI [of _ "clock s"]) simp

lemma looks_ret [looks_intros]: "only_looks (ret x)"
  using looks_same by (auto simp: only_looks_def ret_def)

lemma looks_raiseP [looks_intros]: "only_looks (raiseP e)"
  using looks_same by (auto simp: only_looks_def raiseP_def)

lemma looks_lift [looks_intros]: "only_looks (lift r)"
  using looks_same by (auto simp: only_looks_def lift_def)

lemma looks_raise_when [looks_intros]: "only_looks (raise_when c e)"
  using looks_same by (auto simp: only_looks_def raise_when_def)

lemma looks_gets [looks_intros]: "only_looks (gets f)"
  using looks_same by (auto simp: only_looks_def gets_def)

lemma looks_bindP [looks_intros]:
  assumes "only_looks m" and "\<And>x. only_looks (f x)"
  shows "only_looks (bindP m f)"
  unfolding only_looks_def
proof
  fix s
  obtain t where t: "clock s \<le> t" "snd (m s) = s\<lparr>clock := t\<rparr>"
    using assms(1) by (auto simp: only_looks_def)
  show "\<exists>t \<ge> clock s. snd (bindP m f s) = s\<lparr>clock := t\<rparr>"
  proof (cases "fst (m s)")
    case (Inl e)
    with t show ?thesis by (auto simp: bindP_def split: prod.splits)
  next
    case (Inr x)
    obtain u where "clock (s\<lparr>clock := t\<rparr>) \<le> u" "snd (f x (s\<lparr>clock := t\<rparr>)) = s\<lparr>clock := t\<rparr>\<lparr>clock := u\<rparr>"
      using assms(2) [of x] unfolding only_looks_def by blast
    with Inr t show ?thesis by (intro exI [of _ u]) (auto simp: bindP_def split: prod.splits)
  qed
qed

lemma looks_seqP [looks_intros]: "only_looks m \<Longrightarrow> only_looks k \<Longrightarrow> only_looks (seqP m k)"
  by (simp add: seqP_def looks_bindP)

lemma looks_if [looks_intros]: "only_looks x \<Longrightarrow> only_looks y \<Longrightarrow> only_looks (if b then x else y)"
  by simp

lemma looks_file [looks_intros]:
  "only_looks (lstat_node p)" "only_looks (exists_path p)" "only_looks (is_symlink_path p)"
  "only_looks (present p)" "only_looks (read_node p)" "only_looks (load_node p)"
  "only_looks (fstat_node i)" "only_looks (read_fd i n)"
  unfolding lstat_node_def exists_path_def is_symlink_path_def present_def read_node_def load_node_def
    fstat_node_def read_fd_def by (intro looks_intros)+

lemma looks_open [looks_intros]: "only_looks (open_nofollow p)"
  unfolding open_nofollow_def by (intro looks_intros) (auto intro: looks_intros split: prod.splits)

section \<open>Calls\<close>

text \<open>A service answers according to everything it has been asked before; the calls are remembered.\<close>

record services =
  answer :: "(string \<times> json) list \<Rightarrow> string \<times> json \<Rightarrow> json res"
  trace :: "(string \<times> json) list"

definition call :: "string \<Rightarrow> json \<Rightarrow> ('w services_scheme, json) prog" where
  "call name arg s = (answer s (trace s) (name, arg), s\<lparr>trace := trace s @ [(name, arg)]\<rparr>)"

lemma wp_call [simp]: "wp (call name arg) Q s \<longleftrightarrow>
    Q (answer s (trace s) (name, arg)) (s\<lparr>trace := trace s @ [(name, arg)]\<rparr>)"
  by (simp add: wp_def call_def)

end
