(* ===== verification/Gate.thy ===== *)
theory Gate
  imports World Schema
begin

text \<open>
  \<open>hat/control.py\<close>, the boot gate of the public ingress (\<open>ingress_allowed\<close> and what it uses): the
  question whether the reverse proxy may start, answered from the journal database, the route file,
  the maintenance marker, the one-shot permit and a failure report, while other processes may change
  any of them. Every access sees the machine at an instant of its own.
\<close>

section \<open>State\<close>

type_synonym identity = "ino \<times> nat \<times> nat \<times> (node_kind \<times> nat) \<times> nat \<times> nat"
type_synonym snap = "identity \<times> string"

text \<open>What a read-only connection reports: the journal mode, the catalog and the rows.\<close>

record conn =
  c_mode :: string
  c_catalog :: catalog
  c_db :: db

text \<open>\<open>tracked\<close> and \<open>paths\<close> are the dictionary and the list \<open>ingress_allowed\<close> shares with its body.\<close>

record gate = machine +
  database :: "nat \<Rightarrow> conn res"
  tracked :: "string \<Rightarrow> snap option option"
  failure_bytes :: "string option"
  paths :: "string list"

definition query :: "(conn \<Rightarrow> 'a) \<Rightarrow> ('w gate_scheme, 'a) prog" where
  "query f = look (\<lambda>s t. mapR f (database s t))"

definition gate_errors :: "exn list" where
  "gate_errors = [OSError, RuntimeError, ValueError, KeyError, TypeError, SqliteError]"

section \<open>Stable reads\<close>

definition identity_of :: "ino \<Rightarrow> inode \<Rightarrow> identity" where
  "identity_of i n = (i, length (n_bytes n), n_mtime n, (n_kind n, n_mode n), n_uid n, n_nlink n)"

definition stable_private_bytes :: "string \<Rightarrow> bool \<Rightarrow> ('w machine_scheme, string \<times> identity) prog" where
  "stable_private_bytes path strict =
     bindP (open_nofollow path) (\<lambda>i.
     bindP (fstat_node i) (\<lambda>before.
     seqP (raise_when (\<lambda>s. Inr (n_kind before \<noteq> RegularNode \<or> n_uid before \<noteq> me s
         \<or> (strict \<and> n_mode before mod 64 \<noteq> 0) \<or> n_nlink before \<noteq> 1)) ValueError)
     (bindP (read_fd i (length (n_bytes before) + 1)) (\<lambda>raw.
     bindP (fstat_node i) (\<lambda>after.
     seqP (raise_when (\<lambda>_. Inr (length raw \<noteq> length (n_bytes before)
         \<or> identity_of i before \<noteq> identity_of i after)) ValueError)
     (ret (raw, identity_of i after)))))))"

definition stable_identity :: "string \<Rightarrow> bool \<Rightarrow> ('w machine_scheme, identity) prog" where
  "stable_identity path strict = bindP (stable_private_bytes path strict) (\<lambda>(_, i). ret i)"

text \<open>\<open>private_file\<close> on a path that may change.\<close>

definition private_node :: "string \<Rightarrow> ('w machine_scheme, ino) prog" where
  "private_node path = bindP (lstat_node path) (\<lambda>(i, n).
     seqP (raise_when (\<lambda>s. Inr (n_kind n \<noteq> RegularNode \<or> n_uid n \<noteq> me s
         \<or> n_mode n mod 64 \<noteq> 0 \<or> n_nlink n \<noteq> 1)) ValueError)
     (ret i))"

section \<open>The birth of a process\<close>

text \<open>\<open>s.rsplit(c, 1)[1]\<close>: the text after the last \<open>c\<close>; an \<open>IndexError\<close> without one.\<close>

definition after_last :: "char \<Rightarrow> string \<Rightarrow> string res" where
  "after_last c s = (if c \<in> set s then Inr (rev (takeWhile (\<lambda>d. d \<noteq> c) (rev s))) else Inl IndexError)"

definition birth_of :: "string \<Rightarrow> string option res" where
  "birth_of text = bindR (after_last (CHR '')'') text) (\<lambda>r. let fields = split_space r in
     if fields = [] then Inl IndexError
     else if hd fields \<in> {''Z'', ''X''} then Inr None
     else if length fields \<le> 19 then Inl IndexError else Inr (Some (fields ! 19)))"

text \<open>The conditional expression reads \<open>fields[0]\<close> first, and \<open>fields[19]\<close> only for a live process.\<close>

definition process_identity :: "json \<Rightarrow> ('w machine_scheme, string option) prog" where
  "process_identity pid = (case pid of
     JInt n \<Rightarrow> if n \<le> 0 then ret None
       else catching [OSError, IndexError]
         (bindP (read_node (''/proc/'' @ show_int n @ ''/stat'')) (\<lambda>text. lift (birth_of text)))
         (ret None)
   | _ \<Rightarrow> ret None)"

section \<open>A verified recovery that still serves\<close>

definition evidence_of :: "step_row list \<Rightarrow> json res" where
  "evidence_of rs = mapR (\<lambda>kvs. JObj (dict_of kvs))
     (traverse (\<lambda>r. mapR (\<lambda>v. (s_phase r, v)) (loads (s_evidence r)))
       (filter (\<lambda>r. s_status r = Done) rs))"

definition d3_base :: "(nat \<times> string \<times> status) list" where
  "d3_base = interleaved 0 (take 10 D3_PHASES)"

definition d3_tail :: "(nat \<times> string \<times> status) list" where
  "d3_tail = interleaved 10 (drop 10 D3_PHASES)"

definition intents_clean :: "step_row list \<Rightarrow> bool" where
  "intents_clean rs \<longleftrightarrow> (\<forall>r \<in> set rs. s_status r = Intent \<longrightarrow> s_evidence r = ''{}'')"

definition d3_rows_match :: "step_row list \<Rightarrow> bool" where
  "d3_rows_match rs \<longleftrightarrow> length d3_base \<le> length rs \<and> length rs \<le> length d3_base + length d3_tail
     \<and> map step_key rs = d3_base @ take (length rs - length d3_base) d3_tail"

definition proof_operation :: "string \<Rightarrow> string \<Rightarrow> string \<Rightarrow> string \<Rightarrow> string \<Rightarrow> json" where
  "proof_operation ident source target source_epoch new_epoch =
     JObj [(''id'', JStr ident), (''source'', JStr source), (''target'', JStr target),
       (''source_epoch'', JStr source_epoch), (''new_epoch'', JStr new_epoch)]"

definition proved_evidence :: "json \<Rightarrow> step_row list \<Rightarrow> json option res" where
  "proved_evidence operation rs = default_on [TypeError, ValueError, RuntimeError] None
     (bindR (evidence_of rs) (\<lambda>ev. bindR (validate_d3_proof operation ev True) (\<lambda>_. Inr (Some ev))))"

definition route_keys :: "string list" where
  "route_keys = [''writer'', ''epoch'', ''config_sha'']"

text \<open>The checks before the failure report is looked at.\<close>

definition serving_rows :: "op_row option \<Rightarrow> step_row list \<Rightarrow> string \<Rightarrow> bool res" where
  "serving_rows row rs digest = (case row of None \<Rightarrow> Inr False | Some r \<Rightarrow>
     if (r_source r, r_target r) \<noteq> (''B'', ''A'') \<or> r_complete r \<or> r_contract r \<noteq> RESTORE_CONTRACT
     then Inr False
     else if \<not> d3_rows_match rs \<or> \<not> intents_clean rs then Inr False
     else bindR (proved_evidence
         (proof_operation (r_id r) (r_source r) (r_target r) (r_source_epoch r) (r_new_epoch r)) rs)
       (\<lambda>ev. case ev of None \<Rightarrow> Inr False
        | Some e \<Rightarrow> itm e ''route'' (\<lambda>route. mapR Not (any_of [notR (set_is route route_keys),
            itm route ''config_sha'' (\<lambda>x. differs x (JStr digest))]))))"

definition error_name :: "string \<Rightarrow> bool" where
  "error_name s \<longleftrightarrow> (case s of [] \<Rightarrow> False | c # cs \<Rightarrow> (is_lower c \<or> is_upper c)
     \<and> list_all (\<lambda>d. is_alnum d \<or> d = CHR ''_'') cs)"

definition failure_excused :: "step_row list \<Rightarrow> string option \<Rightarrow> bool res" where
  "failure_excused rs failure = (case failure of None \<Rightarrow> Inr True | Some raw \<Rightarrow>
     if (length rs - length d3_base) mod 2 \<noteq> 1 then Inr False
     else bindR (default_on [ValueError, TypeError] None (mapR Some (loads_text raw))) (\<lambda>v.
       case v of None \<Rightarrow> Inr False
       | Some value \<Rightarrow> mapR Not (any_of
           [Inr (\<not> is_obj value), notR (set_is value [''phase'', ''error'']),
            itm value ''phase'' (\<lambda>p. differs p (JStr (s_phase (last rs)))),
            itm value ''phase'' (\<lambda>p. Inr (\<not> in_tuple p (drop 10 D3_PHASES))),
            itm value ''error'' (\<lambda>x. Inr (\<not> str_and x error_name))])))"

text \<open>With a snapshot of the failure report the caller's bytes are judged, otherwise it is read here.\<close>

definition d3_serving_state ::
  "string \<Rightarrow> string \<Rightarrow> string \<Rightarrow> snap option \<Rightarrow> string option \<Rightarrow> ('w gate_scheme, bool) prog" where
  "d3_serving_state ident digest failure snapshot bytes =
     bindP (query (\<lambda>c. find_op ident (c_db c))) (\<lambda>row.
     bindP (if (case row of None \<Rightarrow> True | Some r \<Rightarrow> (r_source r, r_target r) \<noteq> (''B'', ''A'')
               \<or> r_complete r \<or> r_contract r \<noteq> RESTORE_CONTRACT) then ret []
            else query (\<lambda>c. steps_of ident (c_db c))) (\<lambda>rs.
     bindP (lift (serving_rows row rs digest)) (\<lambda>ok.
     if \<not> ok then ret False
     else case snapshot of
       Some sn \<Rightarrow> lift (case bytes of None \<Rightarrow> Inr False | Some raw \<Rightarrow> failure_excused rs (Some raw))
     | None \<Rightarrow>
         bindP (catching [OSError, ValueError] (catching [FileNotFoundError]
              (bindP (stable_private_bytes failure False) (\<lambda>(raw, _). ret (Some (Some raw))))
              (ret (Some None))) (ret None)) (\<lambda>found.
         lift (case found of None \<Rightarrow> Inr False | Some f \<Rightarrow> failure_excused rs f)))))"

section \<open>The gate\<close>

definition exact_route :: "json \<Rightarrow> string \<Rightarrow> string \<Rightarrow> string \<Rightarrow> bool" where
  "exact_route v writer epoch digest \<longleftrightarrow> is_obj v \<and> set_is v route_keys = Inr True
     \<and> py_eq v (JObj [(''writer'', JStr writer), (''epoch'', JStr epoch), (''config_sha'', JStr digest)])"

definition journal_path :: "string \<Rightarrow> string" where
  "journal_path dir = path_join dir ''journal.db''"

definition marker_json :: "string \<Rightarrow> json" where
  "marker_json ident = JObj [(''operation'', JStr ident)]"

text \<open>\<open>journal_identity == ...[1] and ingress_identity == ...[1]\<close>: the second read only after the first agreed.\<close>

definition still_stable :: "string \<Rightarrow> string \<Rightarrow> identity \<Rightarrow> identity \<Rightarrow> ('w gate_scheme, bool) prog" where
  "still_stable dir ingress ji gi =
     bindP (stable_identity (journal_path dir) True) (\<lambda>j.
     if ji \<noteq> j then ret False
     else bindP (stable_identity ingress False) (\<lambda>g. ret (gi = g)))"

text \<open>No journal yet: allowed while nothing has begun and the directory and the route stand still.\<close>

definition root_face :: "ino \<times> inode \<Rightarrow> ino \<times> nat" where
  "root_face n = (fst n, n_mtime (snd n))"

definition gate_unused :: "string \<Rightarrow> string \<Rightarrow> bool \<Rightarrow> bool \<Rightarrow> ('w gate_scheme, bool) prog" where
  "gate_unused dir ingress marker permit =
     bindP (lstat_node dir) (\<lambda>r1. bindP (stable_identity ingress False) (\<lambda>i1.
     bindP (lstat_node dir) (\<lambda>r2. bindP (stable_identity ingress False) (\<lambda>i2.
     ret (root_face r1 = root_face r2 \<and> i1 = i2 \<and> \<not> marker \<and> \<not> permit)))))"

definition raw_op_of :: "op_row \<Rightarrow> raw_op" where
  "raw_op_of r = \<lparr>w_id = JStr (r_id r), w_source = JStr (r_source r), w_target = JStr (r_target r),
     w_epoch = JStr (r_source_epoch r), w_new = JStr (r_new_epoch r),
     w_complete = JInt (if r_complete r then 1 else 0)\<rparr>"

definition raw_step_of :: "step_row \<Rightarrow> raw_step" where
  "raw_step_of r = \<lparr>y_op = JStr (s_op r), y_pos = JInt (int (s_pos r)), y_phase = JStr (s_phase r),
     y_status = JStr (case s_status r of Intent \<Rightarrow> ''intent'' | Done \<Rightarrow> ''done''), y_evidence = JStr (s_evidence r)\<rparr>"

definition newest :: "db \<Rightarrow> op_row option" where
  "newest d = (if ops d = [] then None else Some (last (ops d)))"

text \<open>The newest operation; legacy rows are validated first and carry the legacy contract.\<close>

definition gate_operation :: "('w gate_scheme, op_row option) prog" where
  "gate_operation =
     bindP (query c_catalog) (\<lambda>cat. bindP (lift (journal_schema cat)) (\<lambda>kind.
     if kind = LEGACY_RESTORE_CONTRACT then
       bindP (query c_db) (\<lambda>d.
       seqP (lift (validate_legacy_rows (map raw_op_of (ops d)) (map raw_step_of (steps d))))
       (query (\<lambda>c. map_option (\<lambda>r. r\<lparr>r_contract := LEGACY_RESTORE_CONTRACT\<rparr>) (newest (c_db c)))))
     else query (\<lambda>c. newest (c_db c))))"

definition route_evidence :: "string \<Rightarrow> db \<Rightarrow> string option" where
  "route_evidence ident d = map_option s_evidence
     (find (\<lambda>r. s_phase r = ''route'' \<and> s_status r = Done) (steps_of ident d))"

definition gate_complete ::
  "string \<Rightarrow> string \<Rightarrow> identity \<Rightarrow> identity \<Rightarrow> string \<Rightarrow> bool \<Rightarrow> bool \<Rightarrow> op_row \<Rightarrow> ('w gate_scheme, bool) prog" where
  "gate_complete dir ingress ji gi digest marker permit r =
     bindP (query (\<lambda>c. route_evidence (r_id r) (c_db c))) (\<lambda>ev.
     bindP (still_stable dir ingress ji gi) (\<lambda>stable.
     case ev of
       Some text \<Rightarrow> if stable \<and> \<not> marker \<and> \<not> permit
         then bindP (lift (loads text)) (\<lambda>v. ret (exact_route v (r_target r) (r_new_epoch r) digest))
         else ret False
     | None \<Rightarrow> ret False))"

definition permit_keys :: "string list" where
  "permit_keys = [''operation'', ''boot_id'', ''pid'', ''birth'', ''config_sha'']"

text \<open>The last conjunction of both unfinished branches, on the permit's value.\<close>

definition permit_good ::
  "string \<Rightarrow> string \<Rightarrow> identity \<Rightarrow> identity \<Rightarrow> string \<Rightarrow> string \<Rightarrow> string \<Rightarrow> json \<Rightarrow> ('w gate_scheme, bool) prog" where
  "permit_good dir ingress ji gi digest ident boot v =
     bindP (lift (getitem v ''pid'')) (\<lambda>pid.
     bindP (process_identity pid) (\<lambda>birth.
     bindP (still_stable dir ingress ji gi) (\<lambda>stable.
     if \<not> stable then ret False
     else lift (all_of
       [itm v ''operation'' (\<lambda>x. Inr (py_eq x (JStr ident))),
        itm v ''boot_id'' (\<lambda>x. Inr (py_eq x (JStr boot))),
        Inr (birth \<noteq> None),
        itm v ''birth'' (\<lambda>x. Inr (py_eq x (JStr (the birth)))),
        itm v ''config_sha'' (\<lambda>x. Inr (py_eq x (JStr digest)))]))))"

definition pending_rows :: "string list \<Rightarrow> nat \<Rightarrow> (nat \<times> string \<times> status) list" where
  "pending_rows plan n = interleaved 0 (take n plan) @ [(n, plan ! n, Intent)]"

definition track_failure :: "string \<Rightarrow> ('w gate_scheme, unit) prog" where
  "track_failure failure =
     seqP (modify (\<lambda>s. s\<lparr>paths := paths s @ [failure]\<rparr>))
     (bindP (catching [FileNotFoundError]
         (bindP (stable_private_bytes failure False) (\<lambda>(raw, i). ret (Some (raw, i)))) (ret None)) (\<lambda>found.
     modify (\<lambda>s. case found of
        None \<Rightarrow> s\<lparr>tracked := (tracked s)(failure \<mapsto> None)\<rparr>
      | Some (raw, i) \<Rightarrow> s\<lparr>tracked := (tracked s)(failure \<mapsto> Some (i, sha256_hex raw)),
           failure_bytes := Some raw\<rparr>)))"

text \<open>An unfinished recovery before its route is verified: the exact rows, a valid proof and a live permit.\<close>

definition gate_route_permit ::
  "string \<Rightarrow> string \<Rightarrow> string \<Rightarrow> identity \<Rightarrow> identity \<Rightarrow> string \<Rightarrow> string \<Rightarrow> string \<Rightarrow> op_row \<Rightarrow> ('w gate_scheme, bool) prog" where
  "gate_route_permit dir permit ingress ji gi digest boot failure r =
     bindP (query (\<lambda>c. steps_of (r_id r) (c_db c))) (\<lambda>rs.
     bindP (gets (\<lambda>s. tracked s failure)) (\<lambda>snapshot.
     if (map step_key rs \<noteq> pending_rows D3_PHASES 8 \<and> map step_key rs \<noteq> pending_rows D3_PHASES 9)
        \<or> \<not> intents_clean rs \<or> snapshot \<noteq> Some None then ret False
     else
       bindP (lift (evidence_of rs)) (\<lambda>ev.
       bindP (query (\<lambda>c. find_op (r_id r) (c_db c))) (\<lambda>row.
       bindP (case row of None \<Rightarrow> raiseP TypeError | Some q \<Rightarrow> ret (r_source_epoch q)) (\<lambda>source_epoch.
       seqP (lift (validate_d3_proof (proof_operation (r_id r) (r_source r) (r_target r) source_epoch (r_new_epoch r)) ev False))
       (bindP (lift (if map step_key rs = pending_rows D3_PHASES 9
            then bindR (get_or ev ''route'' (JObj [])) (\<lambda>route. any_of
              [notR (set_is route route_keys), got_not route ''writer'' ''A'',
               got route ''epoch'' (\<lambda>x. differs x (JStr (r_new_epoch r))),
               got route ''config_sha'' (\<lambda>x. differs x (JStr digest))])
            else Inr False)) (\<lambda>bad.
       if bad then ret False
       else seqP (bindP (private_node permit) (\<lambda>_. ret ()))
         (bindP (load_node permit) (\<lambda>v.
         bindP (lift (any_of [Inr (\<not> is_obj v), notR (set_is v permit_keys)])) (\<lambda>malformed.
         if malformed then ret False
         else permit_good dir ingress ji gi digest (r_id r) boot v))))))))))"

definition gate_recovery ::
  "string \<Rightarrow> string \<Rightarrow> string \<Rightarrow> string \<Rightarrow> identity \<Rightarrow> identity \<Rightarrow> string \<Rightarrow> string \<Rightarrow> bool \<Rightarrow> bool \<Rightarrow> op_row
     \<Rightarrow> ('w gate_scheme, bool) prog" where
  "gate_recovery dir maintenance permit ingress ji gi digest boot marker permit_there r =
     (if \<not> hex32 (r_id r) \<or> \<not> marker then ret False
      else bindP (load_node maintenance) (\<lambda>m.
      if \<not> py_eq m (marker_json (r_id r)) then ret False
      else let failure = path_join (path_join dir (r_id r)) ''failure.json'' in
      seqP (track_failure failure)
      (bindP (gets (\<lambda>s. (tracked s failure, failure_bytes s))) (\<lambda>(snapshot, bytes).
      bindP (d3_serving_state (r_id r) digest failure (case snapshot of Some sn \<Rightarrow> sn | None \<Rightarrow> None) bytes) (\<lambda>serving.
      if serving then bindP (still_stable dir ingress ji gi) (\<lambda>stable. ret (stable \<and> \<not> permit_there))
      else gate_route_permit dir permit ingress ji gi digest boot failure r)))))"

definition gate_switchover ::
  "string \<Rightarrow> string \<Rightarrow> string \<Rightarrow> string \<Rightarrow> identity \<Rightarrow> identity \<Rightarrow> string \<Rightarrow> string \<Rightarrow> bool \<Rightarrow> op_row
     \<Rightarrow> ('w gate_scheme, bool) prog" where
  "gate_switchover dir maintenance permit ingress ji gi digest boot marker r =
     bindP (query (\<lambda>c. steps_of (r_id r) (c_db c))) (\<lambda>rs.
     if \<not> marker then ret False
     else bindP (load_node maintenance) (\<lambda>m.
       bindP (lift (itm m ''operation'' (\<lambda>x. differs x (JStr (r_id r))))) (\<lambda>other.
       if other then ret False
       else bindP (exists_path (path_join (path_join dir (r_id r)) ''failure.json'')) (\<lambda>failed.
         if failed \<or> map step_key rs \<noteq> pending_rows PHASES 8 \<or> \<not> intents_clean rs then ret False
         else seqP (bindP (private_node permit) (\<lambda>_. ret ()))
           (bindP (load_node permit) (\<lambda>v.
            permit_good dir ingress ji gi digest (r_id r) boot v))))))"

definition gate_body ::
  "string \<Rightarrow> string \<Rightarrow> string \<Rightarrow> string \<Rightarrow> string \<Rightarrow> ('w gate_scheme, bool) prog" where
  "gate_body dir maintenance permit ingress boot =
     bindP (present maintenance) (\<lambda>marker. bindP (present permit) (\<lambda>permit_there.
     seqP (if marker then bindP (private_node maintenance) (\<lambda>_. ret ()) else ret ())
     (bindP (exists_path (journal_path dir)) (\<lambda>started.
     if \<not> started then gate_unused dir ingress marker permit_there
     else
       bindP (stable_identity (journal_path dir) True) (\<lambda>ji.
       bindP (stable_private_bytes ingress False) (\<lambda>(raw, gi). let digest = sha256_hex raw in
       bindP (query c_mode) (\<lambda>mode.
       if mode \<noteq> ''delete'' then ret False
       else bindP gate_operation (\<lambda>operation.
       case operation of
         None \<Rightarrow> bindP (still_stable dir ingress ji gi) (\<lambda>stable. ret (stable \<and> \<not> marker \<and> \<not> permit_there))
       | Some r \<Rightarrow>
           if r_complete r then gate_complete dir ingress ji gi digest marker permit_there r
           else if r_contract r \<noteq> RESTORE_CONTRACT then ret False
           else if (r_source r, r_target r) = (''B'', ''A'')
             then gate_recovery dir maintenance permit ingress ji gi digest boot marker permit_there r
           else gate_switchover dir maintenance permit ingress ji gi digest boot marker r))))))))"

definition ingress_allowed_body ::
  "string \<Rightarrow> string \<Rightarrow> string \<Rightarrow> string \<Rightarrow> string \<Rightarrow> ('w gate_scheme, bool) prog" where
  "ingress_allowed_body dir maintenance permit ingress boot =
     catching gate_errors (gate_body dir maintenance permit ingress boot) (ret False)"

section \<open>Snapshot and finalisation\<close>

type_synonym face = "ino \<times> (node_kind \<times> nat) \<times> nat \<times> nat"

definition face_of :: "ino \<times> inode \<Rightarrow> face" where
  "face_of n = (fst n, (n_kind (snd n), n_mode (snd n)), n_uid (snd n), n_nlink (snd n))"

definition snapshot_of :: "string \<Rightarrow> ('w machine_scheme, snap option) prog" where
  "snapshot_of path = catching [FileNotFoundError]
     (bindP (stable_private_bytes path False) (\<lambda>(raw, i). ret (Some (i, sha256_hex raw)))) (ret None)"

definition ingress_file_snapshot :: "string \<Rightarrow> string list \<Rightarrow> ('w gate_scheme, face) prog" where
  "ingress_file_snapshot dir ps =
     bindP (lstat_node dir) (\<lambda>n.
     seqP (raise_when (\<lambda>s. Inr (n_kind (snd n) \<noteq> DirectoryNode \<or> n_uid (snd n) \<noteq> me s
         \<or> n_mode (snd n) mod 64 \<noteq> 0)) ValueError)
     (seqP (forP ps (\<lambda>p. bindP (snapshot_of p) (\<lambda>sn. modify (\<lambda>s. s\<lparr>tracked := (tracked s)(p \<mapsto> sn)\<rparr>))))
     (ret (face_of n))))"

text \<open>One path of the second pass: \<open>None\<close> continues, \<open>Some b\<close> returns; an untracked path is a \<open>KeyError\<close>.\<close>

definition path_unchanged :: "string \<Rightarrow> ('w gate_scheme, bool) prog" where
  "path_unchanged p =
     bindP (catching [OSError, ValueError]
        (catching [FileNotFoundError]
          (bindP (stable_private_bytes p False) (\<lambda>(raw, i). ret (Some (Some (i, sha256_hex raw)))))
          (ret (Some None)))
        (ret None)) (\<lambda>now.
     case now of None \<Rightarrow> ret False
     | Some sn \<Rightarrow> bindP (gets (\<lambda>s. tracked s p)) (\<lambda>before.
         case before of None \<Rightarrow> raiseP KeyError | Some b \<Rightarrow> ret (b = sn)))"

fun all_unchanged :: "string list \<Rightarrow> ('w gate_scheme, bool) prog" where
  "all_unchanged [] = ret True"
| "all_unchanged (p # ps) = bindP (path_unchanged p) (\<lambda>b. if b then all_unchanged ps else ret False)"

definition ingress_file_finalize :: "string \<Rightarrow> face \<Rightarrow> bool \<Rightarrow> ('w gate_scheme, bool) prog" where
  "ingress_file_finalize dir before allowed =
     bindP (lstat_node dir) (\<lambda>n.
     if face_of n \<noteq> before then ret False
     else bindP (gets paths) (\<lambda>ps. bindP (all_unchanged ps) (\<lambda>same. ret (same \<and> allowed))))"

definition journal_side_files :: "string \<Rightarrow> string list" where
  "journal_side_files dir = map (\<lambda>suffix. path_join dir (''journal.db'' @ suffix)) [''-wal'', ''-shm'', ''-journal'']"

definition ingress_allowed ::
  "string \<Rightarrow> string \<Rightarrow> string \<Rightarrow> string \<Rightarrow> string \<Rightarrow> ('w gate_scheme, bool) prog" where
  "ingress_allowed dir maintenance permit ingress boot =
     (let ps = [journal_path dir, ingress, maintenance, permit] @ journal_side_files dir in
      seqP (modify (\<lambda>s. s\<lparr>tracked := Map.empty, failure_bytes := None, paths := ps\<rparr>))
      (catching gate_errors
        (bindP (ingress_file_snapshot dir ps) (\<lambda>before.
         bindP (gets (\<lambda>s. list_ex (\<lambda>p. tracked s p \<noteq> Some None) (journal_side_files dir))) (\<lambda>open_journal.
         if open_journal then ret False
         else bindP (ingress_allowed_body dir maintenance permit ingress boot) (\<lambda>allowed.
              ingress_file_finalize dir before allowed))))
        (ret False)))"

end
