(* ===== verification/Gate_Facts.thy ===== *)
theory Gate_Facts
  imports Gate Acceptance_Facts
begin

text \<open>
  The soundness of the boot gate: programs that only look at the machine are run against the whole
  history of the machine, and the facts they return are facts about some instant of it.
\<close>

section \<open>Running to a value\<close>


named_theorems run_simps

lemma look_Inr [run_simps]:
  "look f s = (Inr x, s') \<longleftrightarrow> f s (clock s) = Inr x \<and> s' = s\<lparr>clock := Suc (clock s)\<rparr>"
  by (auto simp: look_def)

lemma ret_Inr [run_simps]: "ret x s = (Inr y, s') \<longleftrightarrow> x = y \<and> s' = s"
  by (auto simp: ret_def)

lemma lift_Inr [run_simps]: "lift r s = (Inr y, s') \<longleftrightarrow> r = Inr y \<and> s' = s"
  by (auto simp: lift_def)

lemma gets_Inr [run_simps]: "gets f s = (Inr y, s') \<longleftrightarrow> f s = y \<and> s' = s"
  by (auto simp: gets_def)

lemma modify_Inr [run_simps]: "modify f s = (Inr y, s') \<longleftrightarrow> s' = f s"
  by (auto simp: modify_def)

lemma raiseP_Inr [run_simps]: "raiseP e s = (Inr y, s') \<longleftrightarrow> False"
  by (simp add: raiseP_def)

lemma catching_Inr: "catching cs m h s = (Inr y, s') \<longleftrightarrow>
    m s = (Inr y, s') \<or> (\<exists>e t. m s = (Inl e, t) \<and> caught cs e \<and> h t = (Inr y, s'))"
  by (auto simp: catching_def split: prod.splits sum.splits)

declare bindP_eq_Inr [run_simps] seqP_eq_Inr [run_simps] raise_when_eq_Inr [run_simps]

text \<open>The same machine at another instant, with other notes.\<close>

definition same_machine :: "'w gate_scheme \<Rightarrow> 'w gate_scheme \<Rightarrow> bool" where
  "same_machine s t \<longleftrightarrow> namei t = namei s \<and> follow t = follow s \<and> inode_at t = inode_at s
     \<and> me t = me s \<and> database t = database s"

lemma same_machine_refl [simp]: "same_machine s s"
  by (simp add: same_machine_def)

lemma same_machine_trans: "same_machine s t \<Longrightarrow> same_machine t u \<Longrightarrow> same_machine s u"
  by (simp add: same_machine_def)

lemma same_machine_clock [simp]: "same_machine a (s\<lparr>clock := k\<rparr>) \<longleftrightarrow> same_machine a s"
  by (simp add: same_machine_def)

lemma same_machine_notes [simp]:
  "same_machine a (s\<lparr>tracked := x\<rparr>) \<longleftrightarrow> same_machine a s"
  "same_machine a (s\<lparr>failure_bytes := b\<rparr>) \<longleftrightarrow> same_machine a s"
  "same_machine a (s\<lparr>paths := ps\<rparr>) \<longleftrightarrow> same_machine a s"
  by (simp_all add: same_machine_def)

abbreviation steady :: "'w gate_scheme \<Rightarrow> ('w gate_scheme, 'a) prog \<Rightarrow> bool" where
  "steady a m \<equiv> keeps (same_machine a) m"

lemma steady_look [keeps_intros]: "steady a (look f)"
  by (simp add: keeps_def look_def)

lemma steady_modify_notes [keeps_intros]:
  "steady a (modify (\<lambda>s. s\<lparr>tracked := f s\<rparr>))" "steady a (modify (\<lambda>s. s\<lparr>paths := g s\<rparr>))"
  "steady a (modify (\<lambda>s. s\<lparr>tracked := f s, failure_bytes := h s\<rparr>))"
  "steady a (modify (\<lambda>s. s\<lparr>tracked := f s, failure_bytes := h s, paths := g s\<rparr>))"
  by (simp_all add: keeps_def modify_def)

lemma steady_files [keeps_intros]:
  "steady a (query f')" "steady a (lstat_node p)" "steady a (exists_path p)" "steady a (is_symlink_path p)"
  "steady a (present p)" "steady a (read_node p)" "steady a (load_node p)" "steady a (fstat_node i)"
  "steady a (read_fd i n)" "steady a (open_nofollow p)"
  unfolding query_def lstat_node_def exists_path_def is_symlink_path_def present_def read_node_def load_node_def
    fstat_node_def read_fd_def open_nofollow_def by (intro keeps_intros)+

lemma steady_stable [keeps_intros]:
  "steady a (stable_private_bytes p b)" "steady a (stable_identity p b)" "steady a (private_node p)"
  "steady a (snapshot_of p)"
  unfolding stable_private_bytes_def stable_identity_def private_node_def snapshot_of_def
  by (intro keeps_intros)+

lemma steady_process [keeps_intros]: "steady a (process_identity pid)"
  by (cases pid) (auto simp: process_identity_def intro!: keeps_intros)

lemma steady_still [keeps_intros]: "steady a (still_stable d g ji gi)" "steady a gate_operation"
  "steady a (gate_unused d g b c)" "steady a (path_unchanged p)" "steady a (d3_serving_state i h f sn by')"
  unfolding still_stable_def gate_operation_def gate_unused_def path_unchanged_def d3_serving_state_def
  by (intro keeps_intros)+

lemma steady_track [keeps_intros]: "steady a (track_failure f)"
  unfolding track_failure_def
  by (intro keeps_intros keeps_modify) (auto split: option.splits)

lemma steady_permit [keeps_intros]: "steady a (permit_good d g ji gi h i b v)"
  unfolding permit_good_def by (intro keeps_intros)

lemma steady_all [keeps_intros]: "steady a (all_unchanged ps)"
  by (induction ps) (simp_all add: keeps_intros)

section \<open>What was seen\<close>

text \<open>What was seen at some instant.\<close>

definition seen_db :: "'w gate_scheme \<Rightarrow> (db \<Rightarrow> 'a) \<Rightarrow> 'a \<Rightarrow> bool" where
  "seen_db a f x \<longleftrightarrow> (\<exists>k c. database a k = Inr c \<and> f (c_db c) = x)"

definition seen_json :: "'w gate_scheme \<Rightarrow> string \<Rightarrow> json \<Rightarrow> bool" where
  "seen_json a p v \<longleftrightarrow> (\<exists>k i. follow a k p = Some i \<and> loads_text (n_bytes (inode_at a k i)) = Inr v)"

definition seen_bytes :: "'w gate_scheme \<Rightarrow> string \<Rightarrow> string \<Rightarrow> bool" where
  "seen_bytes a p raw \<longleftrightarrow> (\<exists>k l i. namei a k p = Some i \<and> k < l \<and> raw = n_bytes (inode_at a l i))"

definition absent :: "'w gate_scheme \<Rightarrow> string \<Rightarrow> bool" where
  "absent a p \<longleftrightarrow> (\<exists>k. follow a k p = None)"

lemma query_run: "query f s = (Inr x, t) \<Longrightarrow> same_machine a s \<Longrightarrow> \<exists>k c. database a k = Inr c \<and> x = f c"
  by (auto simp: query_def run_simps res_simps same_machine_def)

lemma load_run: "load_node p s = (Inr v, t) \<Longrightarrow> same_machine a s \<Longrightarrow> seen_json a p v"
  unfolding load_node_def read_node_def seen_json_def
  by (auto simp: run_simps same_machine_def split: option.splits if_splits)

lemma stable_run:
  assumes "stable_private_bytes p b s = (Inr (raw, i), t)" "same_machine a s"
  shows "seen_bytes a p raw"
proof -
  obtain j where "namei a (clock s) p = Some j"
    and raw: "raw = take (length (n_bytes (inode_at a (Suc (clock s)) j)) + 1) (n_bytes (inode_at a (Suc (Suc (clock s))) j))"
    and len: "length raw = length (n_bytes (inode_at a (Suc (clock s)) j))"
    using assms unfolding stable_private_bytes_def open_nofollow_def lstat_node_def fstat_node_def read_fd_def
    by (auto simp: run_simps same_machine_def split: option.splits if_splits)
  moreover have "raw = n_bytes (inode_at a (Suc (Suc (clock s))) j)"
    using raw len by (metis add.commute length_take min_def not_less_eq_eq order_refl plus_1_eq_Suc take_all)
  ultimately show ?thesis unfolding seen_bytes_def by (intro exI [of _ "clock s"] exI [of _ "Suc (Suc (clock s))"]) simp
qed

lemma present_run: "present p s = (Inr False, t) \<Longrightarrow> same_machine a s \<Longrightarrow> absent a p"
  unfolding present_def exists_path_def is_symlink_path_def absent_def
  by (cases "follow a (clock s) p") (auto simp: run_simps same_machine_def split: if_splits)

text \<open>A live process with this birth.\<close>

definition alive :: "'w gate_scheme \<Rightarrow> json \<Rightarrow> string \<Rightarrow> bool" where
  "alive a pid birth \<longleftrightarrow> (\<exists>n k i. pid = JInt n \<and> 0 < n \<and> follow a k (''/proc/'' @ show_int n @ ''/stat'') = Some i
     \<and> birth_of (n_bytes (inode_at a k i)) = Inr (Some birth))"

lemma process_run:
  "process_identity pid s = (Inr (Some birth), t) \<Longrightarrow> same_machine a s \<Longrightarrow> alive a pid birth"
  by (cases pid) (auto simp: process_identity_def alive_def read_node_def run_simps catching_Inr same_machine_def
      not_le split: if_splits option.splits)

lemma all_of_True: "all_of cs = Inr True \<longleftrightarrow> (\<forall>c \<in> set cs. c = Inr True)"
  by (induction cs) (auto simp: all_of_eq_True)

text \<open>The permit names this operation, this boot and this route, and the process that wrote it lives.\<close>

definition permit_names :: "'w gate_scheme \<Rightarrow> string \<Rightarrow> string \<Rightarrow> string \<Rightarrow> string \<Rightarrow> bool" where
  "permit_names a permit ident boot digest \<longleftrightarrow> (\<exists>v birth. seen_json a permit v
     \<and> fld v ''operation'' = JStr ident \<and> fld v ''boot_id'' = JStr boot \<and> fld v ''config_sha'' = JStr digest
     \<and> fld v ''birth'' = JStr birth \<and> alive a (fld v ''pid'') birth)"

lemma permit_run:
  assumes r: "permit_good d g ji gi digest ident boot v s = (Inr True, t)" and a: "same_machine a s"
    and v: "seen_json a permit v"
  shows "permit_names a permit ident boot digest"
proof -
  obtain pid birth s1 where p: "getitem v ''pid'' = Inr pid" "process_identity pid s = (Inr birth, s1)"
    and c: "all_of [itm v ''operation'' (\<lambda>x. Inr (py_eq x (JStr ident))),
        itm v ''boot_id'' (\<lambda>x. Inr (py_eq x (JStr boot))), Inr (birth \<noteq> None),
        itm v ''birth'' (\<lambda>x. Inr (py_eq x (JStr (the birth)))),
        itm v ''config_sha'' (\<lambda>x. Inr (py_eq x (JStr digest)))] = Inr True"
    using r unfolding permit_good_def by (auto simp: run_simps split: if_splits simp del: getitem_eq_Inr)
  then obtain b where b: "birth = Some b" by (auto simp: all_of_True)
  have "fld v ''pid'' = pid" using p(1) by (simp add: fld_def)
  then have "alive a (fld v ''pid'') b" using process_run [OF _ a] p(2) b by simp
  then show ?thesis
    using c b v unfolding permit_names_def by (auto simp: all_of_True itm_Inr)
qed


section \<open>Why the gate opened\<close>

definition route_recorded :: "'w gate_scheme \<Rightarrow> op_row \<Rightarrow> string \<Rightarrow> bool" where
  "route_recorded a r digest \<longleftrightarrow> (\<exists>text v. seen_db a (route_evidence (r_id r)) (Some text)
     \<and> loads text = Inr v \<and> exact_route v (r_target r) (r_new_epoch r) digest)"

definition marker_names :: "'w gate_scheme \<Rightarrow> string \<Rightarrow> string \<Rightarrow> bool" where
  "marker_names a maintenance ident \<longleftrightarrow> (\<exists>m. seen_json a maintenance m \<and> fld m ''operation'' = JStr ident)"

definition recovery_serves :: "'w gate_scheme \<Rightarrow> string \<Rightarrow> string \<Rightarrow> bool" where
  "recovery_serves a ident digest \<longleftrightarrow> (\<exists>row rs. seen_db a (find_op ident) row
     \<and> (rs = [] \<or> seen_db a (steps_of ident) rs) \<and> serving_rows row rs digest = Inr True)"

text \<open>What a recovery at its last phase recorded of its route: the writer, its epoch and these bytes.\<close>

definition route_differs :: "json \<Rightarrow> string \<Rightarrow> string \<Rightarrow> bool res" where
  "route_differs ev epoch digest = bindR (get_or ev ''route'' (JObj [])) (\<lambda>route. any_of
     [notR (set_is route route_keys), got_not route ''writer'' ''A'',
      got route ''epoch'' (\<lambda>x. differs x (JStr epoch)), got route ''config_sha'' (\<lambda>x. differs x (JStr digest))])"

definition proved :: "op_row \<Rightarrow> json \<Rightarrow> bool" where
  "proved r ev \<longleftrightarrow> (\<exists>epoch u.
     validate_d3_proof (proof_operation (r_id r) (r_source r) (r_target r) epoch (r_new_epoch r)) ev False = Inr u)"

definition at_route :: "'w gate_scheme \<Rightarrow> op_row \<Rightarrow> string \<Rightarrow> bool" where
  "at_route a r digest \<longleftrightarrow> (\<exists>rs. seen_db a (steps_of (r_id r)) rs \<and> intents_clean rs \<and>
     (if (r_source r, r_target r) = (''B'', ''A'')
      then (\<exists>ev. evidence_of rs = Inr ev \<and> proved r ev \<and> (map step_key rs = pending_rows D3_PHASES 8
        \<or> map step_key rs = pending_rows D3_PHASES 9 \<and> route_differs ev (r_new_epoch r) digest = Inr False))
      else map step_key rs = pending_rows PHASES 8))"

definition gate_reason ::
  "'w gate_scheme \<Rightarrow> string \<Rightarrow> string \<Rightarrow> string \<Rightarrow> string \<Rightarrow> op_row \<Rightarrow> bool" where
  "gate_reason a maintenance permit boot digest r \<longleftrightarrow>
     (if r_complete r then absent a maintenance \<and> absent a permit \<and> route_recorded a r digest
      else r_contract r = RESTORE_CONTRACT \<and> marker_names a maintenance (r_id r) \<and>
        ((r_source r, r_target r) = (''B'', ''A'') \<and> absent a permit \<and> recovery_serves a (r_id r) digest
         \<or> at_route a r digest \<and> permit_names a permit (r_id r) boot digest))"

lemma query_db_run: "query (\<lambda>c. f (c_db c)) s = (Inr x, t) \<Longrightarrow> same_machine a s \<Longrightarrow> seen_db a f x"
  using query_run [of "\<lambda>c. f (c_db c)" s x t a] by (auto simp: seen_db_def)

lemma gives_then:
  assumes "steady a m" "\<And>s x t. m s = (Inr x, t) \<Longrightarrow> same_machine a s \<Longrightarrow> P x"
    and "\<And>x. P x \<Longrightarrow> gives (same_machine a) (f x) Q"
  shows "gives (same_machine a) (bindP m f) Q"
proof (rule gives_bind [of _ _ P])
  show "gives (same_machine a) m P"
    using assms(1,2) by (auto simp: gives_def keeps_def wp_def) (metis prod.collapse)
qed (rule assms(3))

lemma gives_query [gives_intros]:
  "(\<And>x. seen_db a f x \<Longrightarrow> gives (same_machine a) (k x) Q) \<Longrightarrow>
     gives (same_machine a) (bindP (query (\<lambda>c. f (c_db c))) k) Q"
  by (rule gives_then) (auto intro: keeps_intros dest: query_db_run)

lemma gives_load [gives_intros]:
  "(\<And>v. seen_json a p v \<Longrightarrow> gives (same_machine a) (k v) Q) \<Longrightarrow>
     gives (same_machine a) (bindP (load_node p) k) Q"
  by (rule gives_then) (auto intro: keeps_intros dest: load_run)

lemma gives_unknown [gives_intros]:
  "(\<And>x. gives (same_machine a) (k x) Q) \<Longrightarrow> gives (same_machine a) (bindP (still_stable d g ji gi) k) Q"
  "(\<And>x. gives (same_machine a) (k' x) Q) \<Longrightarrow> gives (same_machine a) (bindP (private_node p) k') Q"
  "(\<And>x. gives (same_machine a) (k'' x) Q) \<Longrightarrow> gives (same_machine a) (bindP (stable_identity p b) k'') Q"
  "(\<And>x. gives (same_machine a) (k4 x) Q) \<Longrightarrow> gives (same_machine a) (bindP (lstat_node p) k4) Q"
  by (rule gives_then [where P = "\<lambda>_. True"]; simp add: keeps_intros)+

lemma gives_stable [gives_intros]:
  "(\<And>raw i. seen_bytes a p raw \<Longrightarrow> gives (same_machine a) (k (raw, i)) Q) \<Longrightarrow>
     gives (same_machine a) (bindP (stable_private_bytes p b) k) Q"
  by (rule gives_then [where P = "\<lambda>(raw, i). seen_bytes a p raw"]) (auto intro: keeps_intros dest: stable_run)

lemma gives_exists [gives_intros]:
  "(\<And>b. \<not> b \<longrightarrow> absent a p \<Longrightarrow> gives (same_machine a) (k b) Q) \<Longrightarrow>
     gives (same_machine a) (bindP (exists_path p) k) Q"
proof (rule gives_then [where P = "\<lambda>b. \<not> b \<longrightarrow> absent a p"])
  show "steady a (exists_path p)" by (rule steady_files)
  show "\<not> x \<longrightarrow> absent a p" if "exists_path p s = (Inr x, t)" "same_machine a s" for s x t
    using that unfolding exists_path_def absent_def
    by (cases "follow a (clock s) p") (auto simp: run_simps same_machine_def)
qed blast

lemma gives_present [gives_intros]:
  "(\<And>b. \<not> b \<longrightarrow> absent a p \<Longrightarrow> gives (same_machine a) (k b) Q) \<Longrightarrow>
     gives (same_machine a) (bindP (present p) k) Q"
proof (rule gives_then [where P = "\<lambda>b. \<not> b \<longrightarrow> absent a p"])
  show "steady a (present p)" by (rule steady_files)
  show "\<not> x \<longrightarrow> absent a p" if "present p s = (Inr x, t)" "same_machine a s" for s x t
    using that by (cases x) (simp_all add: present_run)
qed blast

lemma gives_then_catching [gives_intros]:
  "steady a (catching cs m h) \<Longrightarrow> (\<And>x. gives (same_machine a) (k x) Q) \<Longrightarrow>
     gives (same_machine a) (bindP (catching cs m h) k) Q"
  by (rule gives_then [where P = "\<lambda>_. True"]) simp_all

lemma gives_track [gives_intros]:
  "gives (same_machine a) k Q \<Longrightarrow> gives (same_machine a) (seqP (track_failure f) k) Q"
  by (rule gives_seq [where P = "\<lambda>_. True"]) (auto intro: keeps_intros gives_true)

lemma gives_complete:
  "gives (same_machine a) (gate_complete d g ji gi digest marker permit r)
     (\<lambda>b. b \<longrightarrow> route_recorded a r digest \<and> \<not> marker \<and> \<not> permit)"
  unfolding gate_complete_def
  by (intro gives_intros) (auto simp: route_recorded_def)

lemma gives_permit:
  assumes "seen_json a permit v"
  shows "gives (same_machine a) (permit_good d g ji gi digest ident boot v)
     (\<lambda>b. b \<longrightarrow> permit_names a permit ident boot digest)"
  unfolding gives_def wp_def
proof (intro allI impI conjI)
  fix s assume s: "same_machine a s"
  obtain r t where rt: "permit_good d g ji gi digest ident boot v s = (r, t)" by fastforce
  then show "same_machine a (snd (permit_good d g ji gi digest ident boot v s))"
    using keepsD [OF steady_permit s] by simp
  fix x assume "fst (permit_good d g ji gi digest ident boot v s) = Inr x" "x"
  then show "permit_names a permit ident boot digest" using permit_run [OF _ s assms] rt by simp
qed

lemma gives_serving:
  "gives (same_machine a) (d3_serving_state ident digest failure sn bytes)
     (\<lambda>b. b \<longrightarrow> recovery_serves a ident digest)"
  unfolding d3_serving_state_def
  by (intro gives_intros keeps_intros) (auto simp: recovery_serves_def)

lemma at_route_recovery:
  "(r_source r, r_target r) = (''B'', ''A'') \<Longrightarrow> seen_db a (steps_of (r_id r)) rs
   \<Longrightarrow> \<not> (map step_key rs \<noteq> pending_rows D3_PHASES 8 \<and> map step_key rs \<noteq> pending_rows D3_PHASES 9
     \<or> \<not> intents_clean rs \<or> c) \<Longrightarrow> evidence_of rs = Inr ev
   \<Longrightarrow> validate_d3_proof (proof_operation (r_id r) (r_source r) (r_target r) e (r_new_epoch r)) ev False = Inr u
   \<Longrightarrow> (if map step_key rs = pending_rows D3_PHASES 9 then route_differs ev (r_new_epoch r) digest else Inr False) = Inr bad
   \<Longrightarrow> \<not> bad \<Longrightarrow> at_route a r digest"
  unfolding at_route_def proved_def by (intro exI [of _ rs]) (auto split: if_splits)

lemma at_route_switchover:
  "seen_db a (steps_of (r_id r)) rs \<Longrightarrow> \<not> (c \<or> map step_key rs \<noteq> pending_rows PHASES 8 \<or> \<not> intents_clean rs)
   \<Longrightarrow> (r_source r, r_target r) \<noteq> (''B'', ''A'') \<Longrightarrow> at_route a r digest"
  by (auto simp: at_route_def)

lemma gives_route_permit:
  assumes "(r_source r, r_target r) = (''B'', ''A'')"
  shows "gives (same_machine a) (gate_route_permit d permit g ji gi digest boot failure r)
    (\<lambda>b. b \<longrightarrow> at_route a r digest \<and> permit_names a permit (r_id r) boot digest)"
  unfolding gate_route_permit_def route_differs_def [symmetric]
  by (intro gives_intros gives_mono [OF gives_permit [of a permit]] impI conjI)
    (erule (5) at_route_recovery [OF assms] | blast)+

lemma reason_permit:
  "\<not> r_complete r \<Longrightarrow> r_contract r = RESTORE_CONTRACT \<Longrightarrow> marker_names a maintenance (r_id r)
     \<Longrightarrow> at_route a r digest \<and> permit_names a permit (r_id r) boot digest
     \<Longrightarrow> gate_reason a maintenance permit boot digest r"
  by (simp add: gate_reason_def)

lemma reason_serving:
  "\<not> r_complete r \<Longrightarrow> r_contract r = RESTORE_CONTRACT \<Longrightarrow> marker_names a maintenance (r_id r)
     \<Longrightarrow> (r_source r, r_target r) = (''B'', ''A'') \<Longrightarrow> absent a permit \<Longrightarrow> recovery_serves a (r_id r) digest
     \<Longrightarrow> gate_reason a maintenance permit boot digest r"
  by (simp add: gate_reason_def)

lemma marker_of_json:
  assumes "seen_json a maintenance v" "\<not> \<not> py_eq v (marker_json i)"
  shows "marker_names a maintenance i"
proof -
  obtain kvs where k: "v = JObj kvs" "length kvs = 1" "py_eq_items kvs [(''operation'', JStr i)]"
    using assms(2) by (cases v) (auto simp: marker_json_def num_eq_def)
  then obtain k w where "kvs = [(k, w)]" by (cases kvs) auto
  with k have "v = JObj [(''operation'', JStr i)]" by (auto split: if_splits)
  then show ?thesis using assms(1) by (auto simp: marker_names_def fld_def)
qed

lemma marker_of_item:
  assumes "seen_json a maintenance v" "itm v ''operation'' (\<lambda>x. differs x (JStr i)) = Inr b" "\<not> b"
  shows "marker_names a maintenance i"
  using assms by (auto simp: marker_names_def itm_Inr differs_def)

lemma gives_recovery:
  assumes "(r_source r, r_target r) = (''B'', ''A'')" "\<not> there \<longrightarrow> absent a permit"
    "\<not> r_complete r" "r_contract r = RESTORE_CONTRACT"
  shows "gives (same_machine a) (gate_recovery d maintenance permit g ji gi digest boot marker there r)
    (\<lambda>b. b \<longrightarrow> gate_reason a maintenance permit boot digest r)"
  unfolding gate_recovery_def
  apply (intro gives_intros gives_bind [OF gives_serving] gives_mono [OF gives_route_permit [OF assms(1)]] impI)
  subgoal by simp
  subgoal by simp
  subgoal by (rule reason_serving [OF assms(3,4) marker_of_json assms(1)], assumption+) (use assms(2) in simp_all)
  subgoal by (rule reason_permit [OF assms(3,4) marker_of_json], assumption+) simp
  done

lemma gives_switchover:
  assumes "(r_source r, r_target r) \<noteq> (''B'', ''A'')" "\<not> r_complete r" "r_contract r = RESTORE_CONTRACT"
  shows "gives (same_machine a) (gate_switchover d maintenance permit g ji gi digest boot marker r)
    (\<lambda>b. b \<longrightarrow> gate_reason a maintenance permit boot digest r)"
  unfolding gate_switchover_def
  by (intro gives_intros gives_mono [OF gives_permit [of a permit]] impI)
    (blast intro: reason_permit [OF assms(2,3)] marker_of_item at_route_switchover [OF _ _ assms(1)])+

text \<open>The operation the gate judged: the newest of the database, under the contract its generation gives.\<close>

definition judged :: "'w gate_scheme \<Rightarrow> op_row option \<Rightarrow> bool" where
  "judged a r \<longleftrightarrow> seen_db a newest r
     \<or> seen_db a (\<lambda>d. map_option (\<lambda>q. q\<lparr>r_contract := LEGACY_RESTORE_CONTRACT\<rparr>) (newest d)) r"

lemma gives_operation: "gives (same_machine a) gate_operation (judged a)"
proof -
  have q: "gives (same_machine a) (query (\<lambda>c. f (c_db c))) (judged a)"
    if "\<And>x. seen_db a f x \<Longrightarrow> judged a x" for f
  proof -
    have "gives (same_machine a) (bindP (query (\<lambda>c. f (c_db c))) ret) (judged a)"
      by (intro gives_intros that)
    then show ?thesis by (simp add: bindP_ret)
  qed
  show ?thesis
    unfolding gate_operation_def
  proof (rule gives_bind [OF gives_true])
    show "steady a (query c_catalog)" by (intro keeps_intros)
    show "gives (same_machine a) (bindP (lift (journal_schema cat)) (\<lambda>kind.
       if kind = LEGACY_RESTORE_CONTRACT then
         bindP (query c_db) (\<lambda>d.
         seqP (lift (validate_legacy_rows (map raw_op_of (ops d)) (map raw_step_of (steps d))))
         (query (\<lambda>c. map_option (\<lambda>r. r\<lparr>r_contract := LEGACY_RESTORE_CONTRACT\<rparr>) (newest (c_db c)))))
       else query (\<lambda>c. newest (c_db c)))) (judged a)" for cat
      by (intro gives_intros q [where f = newest]
            q [where f = "\<lambda>d. map_option (\<lambda>r. r\<lparr>r_contract := LEGACY_RESTORE_CONTRACT\<rparr>) (newest d)"]
            gives_bind [OF gives_true [of _ "query c_db"]] keeps_intros)
        (simp_all add: judged_def)
  qed
qed

definition gate_opens ::
  "'w gate_scheme \<Rightarrow> string \<Rightarrow> string \<Rightarrow> string \<Rightarrow> string \<Rightarrow> string \<Rightarrow> bool" where
  "gate_opens a dir maintenance permit ingress boot \<longleftrightarrow>
     absent a (journal_path dir) \<and> absent a maintenance \<and> absent a permit
     \<or> (\<exists>raw. seen_bytes a ingress raw \<and>
        (judged a None \<and> absent a maintenance \<and> absent a permit
         \<or> (\<exists>r. judged a (Some r) \<and> gate_reason a maintenance permit boot (sha256_hex raw) r)))"

lemma gives_unused:
  assumes "\<not> marker \<longrightarrow> absent a maintenance" "\<not> there \<longrightarrow> absent a permit"
  shows "gives (same_machine a) (gate_unused d g marker there) (\<lambda>b. b \<longrightarrow> absent a maintenance \<and> absent a permit)"
  unfolding gate_unused_def by (intro gives_intros) (use assms in simp)

lemma opens_unused:
  "absent a (journal_path d) \<Longrightarrow> absent a maintenance \<and> absent a permit \<Longrightarrow> gate_opens a d maintenance permit g boot"
  by (simp add: gate_opens_def)

lemma opens_empty:
  "seen_bytes a g raw \<Longrightarrow> judged a None \<Longrightarrow> absent a maintenance \<Longrightarrow> absent a permit
     \<Longrightarrow> gate_opens a d maintenance permit g boot"
  by (auto simp: gate_opens_def)

lemma opens_reason:
  "seen_bytes a g raw \<Longrightarrow> judged a (Some r) \<Longrightarrow> gate_reason a maintenance permit boot (sha256_hex raw) r
     \<Longrightarrow> gate_opens a d maintenance permit g boot"
  by (auto simp: gate_opens_def)

lemma reason_complete:
  "r_complete r \<Longrightarrow> absent a maintenance \<Longrightarrow> absent a permit \<Longrightarrow> route_recorded a r digest
     \<Longrightarrow> gate_reason a maintenance permit boot digest r"
  by (simp add: gate_reason_def)

lemma gives_body:
  "gives (same_machine a) (gate_body d maintenance permit g boot)
    (\<lambda>b. b \<longrightarrow> gate_opens a d maintenance permit g boot)"
  unfolding gate_body_def
  by (intro gives_intros gives_mono [OF gives_unused [where a = a and maintenance = maintenance and permit = permit]]
      gives_mono [OF gives_complete] gives_mono [OF gives_recovery] gives_mono [OF gives_switchover]
      gives_bind [OF gives_operation] gives_bind [OF gives_true [of _ "query c_mode"]] keeps_intros)
    (auto intro: opens_unused opens_empty opens_reason reason_complete)

lemma gives_finalize:
  "gives (same_machine a) (ingress_file_finalize d before allowed) (\<lambda>b. b \<longrightarrow> allowed)"
  unfolding ingress_file_finalize_def
  by (intro gives_intros gives_bind [OF gives_true [OF steady_all]]) simp_all

lemma steady_snapshot: "steady a (ingress_file_snapshot d ps)"
  unfolding ingress_file_snapshot_def by (intro keeps_intros)

lemma steady_reset: "steady a (modify (\<lambda>s. s\<lparr>tracked := x, failure_bytes := y, paths := z\<rparr>))"
  by (simp add: keeps_def modify_def)

text \<open>C16 The ingress opens only for a recorded reason, whatever other processes do meanwhile: when
  \<open>ingress_allowed\<close> answers yes, either there was no journal, no marker and no permit, or the bytes of the
  route file it read are exactly those a complete operation recorded (or the journal held no
  operation), or the newest operation is unfinished, the maintenance marker names it, and it is a
  verified recovery whose recorded route has that digest, or there is a permit for this boot, this operation and these
  bytes from a process that lives and the operation stands at one of the places a permit is for: a switchover with
  exactly its route phase pending, or a recovery with a valid proof and exactly its route phase pending, or its verify
  phase, and then the route it recorded has that digest.\<close>

theorem ingress_opens_for_reason:
  assumes "ingress_allowed dir maintenance permit ingress boot s = (Inr True, t)"
  shows "gate_opens s dir maintenance permit ingress boot"
proof -
  have body: "gives (same_machine s) (ingress_allowed_body dir maintenance permit ingress boot)
      (\<lambda>b. b \<longrightarrow> gate_opens s dir maintenance permit ingress boot)"
    unfolding ingress_allowed_body_def by (intro gives_intros gives_body) simp_all
  have "gives (same_machine s) (ingress_allowed dir maintenance permit ingress boot)
      (\<lambda>b. b \<longrightarrow> gate_opens s dir maintenance permit ingress boot)"
    unfolding ingress_allowed_def Let_def
    by (intro gives_seq [OF gives_true [OF steady_reset]] gives_intros
        gives_bind [OF gives_true [OF steady_snapshot]] gives_bind [OF body] gives_mono [OF gives_finalize]) simp_all
  from givesD [OF this same_machine_refl assms] show ?thesis by simp
qed

definition ex_machine :: gate where
  "ex_machine = \<lparr>
     namei = (\<lambda>_ p. if p = ''/r'' then Some (1, 1) else if p = ''/i'' then Some (1, 2) else None),
     follow = (\<lambda>_ p. if p = ''/r'' then Some (1, 1) else if p = ''/i'' then Some (1, 2) else None),
     inode_at = (\<lambda>_ i. \<lparr>n_kind = if snd i = 1 then DirectoryNode else RegularNode, n_uid = 7,
        n_mode = if snd i = 1 then 448 else 384, n_nlink = 1, n_mtime = 5, n_bytes = []\<rparr>),
     me = 7, clock = 0, database = (\<lambda>_. Inl SqliteError), tracked = Map.empty, failure_bytes = None, paths = []\<rparr>"

lemma ex_machine_opens: "fst (ingress_allowed ''/r'' ''/m'' ''/p'' ''/i'' ''boot'' ex_machine) = Inr True"
  by (simp add: ingress_allowed_def ingress_file_snapshot_def ingress_file_finalize_def path_unchanged_def
      snapshot_of_def stable_private_bytes_def stable_identity_def open_nofollow_def lstat_node_def fstat_node_def
      read_fd_def look_def prog_defs catching_def ex_machine_def journal_path_def path_join_def journal_side_files_def
      face_of_def ingress_allowed_body_def gate_body_def gate_unused_def root_face_def present_def exists_path_def
      is_symlink_path_def gate_errors_def isa_def identity_of_def)

theorem ingress_opens_for_reason_witness: "gate_opens ex_machine ''/r'' ''/m'' ''/p'' ''/i'' ''boot''"
proof -
  obtain t where "ingress_allowed ''/r'' ''/m'' ''/p'' ''/i'' ''boot'' ex_machine = (Inr True, t)"
    using ex_machine_opens by (metis prod.collapse)
  then show ?thesis by (rule ingress_opens_for_reason)
qed

end
