(* ===== verification/Fence_Route.thy ===== *)
theory Fence_Route
  imports Schema
begin

text \<open>
  \<open>hat/control.py\<close>, two validators of the transition: \<open>validate_fence\<close> on the receipt of a power action
  at the cloud provider, and \<open>route_to\<close>, the edit of the reverse proxy's configuration. The clock, the
  reading of an ISO time (\<open>datetime.fromisoformat\<close>) and the name service are arguments.
\<close>

section \<open>The fence receipt\<close>

text \<open>\<open>moment s\<close>: the instant an ISO text denotes, \<open>None\<close> without a time zone; a text that is no time raises.\<close>

type_synonym moments = "string \<Rightarrow> rat option res"

definition replace_z :: "string \<Rightarrow> string" where
  "replace_z s = concat (map (\<lambda>c. if c = CHR ''Z'' then ''+00:00'' else [c]) s)"

definition stamp :: "moments \<Rightarrow> json \<Rightarrow> rat res" where
  "stamp moment v = (case v of
     JStr s \<Rightarrow> bindR (moment (replace_z s)) (\<lambda>t. case t of None \<Rightarrow> Inl ValueError | Some x \<Rightarrow> Inr x)
   | _ \<Rightarrow> Inl AttributeError)"

definition stamp_at :: "moments \<Rightarrow> json \<Rightarrow> rat res" where
  "stamp_at moment v = itm v ''time'' (stamp moment)"

text \<open>\<open>addresses <= set(identity['addresses'])\<close>.\<close>

definition covers :: "json \<Rightarrow> string list \<Rightarrow> bool res" where
  "covers v names = itm v ''addresses'' (\<lambda>a. mapR (\<lambda>xs. JStr ` set names \<subseteq> set xs) (elems_of a))"

definition identity_differs :: "json \<Rightarrow> json \<Rightarrow> string list \<Rightarrow> bool res" where
  "identity_differs identity target addresses = any_of
     [itm identity ''instance_id'' (\<lambda>i. Inr (\<not> is_int i)),
      itm identity ''instance_id'' (\<lambda>i. itm target ''instance_id'' (\<lambda>j. differs i j)),
      itm identity ''provider_label'' (\<lambda>i. itm target ''provider_label'' (\<lambda>j. differs i j)),
      Inr (addresses = []), notR (covers identity addresses)]"

fun decreasing_pair :: "moments \<Rightarrow> json list \<Rightarrow> bool res" where
  "decreasing_pair moment (a # b # os) = any_of
     [bindR (stamp_at moment a) (\<lambda>x. bindR (stamp_at moment b) (\<lambda>y. Inr (x > y))),
      decreasing_pair moment (b # os)]"
| "decreasing_pair moment os = Inr False"

definition fence_differs ::
  "moments \<Rightarrow> rat \<Rightarrow> json \<Rightarrow> json \<Rightarrow> string \<Rightarrow> string \<Rightarrow> rat \<Rightarrow> rat \<Rightarrow> rat \<Rightarrow> json list \<Rightarrow> bool res" where
  "fence_differs moment now receipt target action state not_before requested completed os = any_of
     [itm receipt ''target'' (\<lambda>t. differs t target), item_not receipt ''action'' action,
      item_not receipt ''state'' state,
      itm receipt ''request'' (\<lambda>r. itm r ''id'' (\<lambda>i. Inr (\<not> is_str i))),
      itm receipt ''request'' (\<lambda>r. itm r ''id'' (\<lambda>i. Inr (\<not> truthy i))),
      Inr (\<not> (not_before \<le> requested \<and> requested \<le> completed \<and> completed \<le> now + 5)),
      Inr (\<not> (0 \<le> now - completed \<and> now - completed \<le> 300)),
      Inr (length os < 2), item_not (last os) ''state'' state,
      bindR (stamp_at moment (last os)) (\<lambda>x. Inr (\<not> (completed \<le> x \<and> x \<le> now + 5))),
      any_of (map (\<lambda>v. bindR (stamp_at moment v) (\<lambda>x. Inr (\<not> (requested \<le> x \<and> x \<le> now + 5)))) os),
      decreasing_pair moment os]"

definition validate_fence_inner ::
  "moments \<Rightarrow> (json \<Rightarrow> string list res) \<Rightarrow> rat \<Rightarrow> json \<Rightarrow> json \<Rightarrow> string \<Rightarrow> string \<Rightarrow> rat \<Rightarrow> unit res" where
  "validate_fence_inner moment resolve now receipt target action state not_before =
     itm receipt ''request'' (\<lambda>r. bindR (stamp_at moment r) (\<lambda>requested.
     itm receipt ''completion'' (\<lambda>c. bindR (stamp_at moment c) (\<lambda>completed.
     itm receipt ''observations'' (\<lambda>observations.
     bindR (item_at observations (-1)) (\<lambda>final. itm final ''identity'' (\<lambda>identity.
     itm target ''address'' (\<lambda>a. bindR (resolve a) (\<lambda>addresses.
     refuse_if [identity_differs identity target addresses]
     (bindR (iter_of observations) (\<lambda>os.
     refuse_if [fence_differs moment now receipt target action state not_before requested completed os]
     (Inr ()))))))))))))"

definition fence_errors :: "exn list" where
  "fence_errors = [KeyError, IndexError, TypeError, AttributeError, OverflowError, OSError]"

definition validate_fence ::
  "moments \<Rightarrow> (json \<Rightarrow> string list res) \<Rightarrow> rat \<Rightarrow> json \<Rightarrow> json \<Rightarrow> string \<Rightarrow> string \<Rightarrow> rat \<Rightarrow> unit res" where
  "validate_fence moment resolve now receipt target action state not_before =
     reraise fence_errors ValueError
       (validate_fence_inner moment resolve now receipt target action state not_before)"

section \<open>The route\<close>

lemma cut_at_Some: "cut_at p s = Some (b, r) \<Longrightarrow> s = b @ p @ r"
proof (induction p s arbitrary: b r rule: cut_at.induct)
  case (2 p c s)
  then show ?case by (auto split: option.splits simp: strip_prefix_Some)
qed (simp split: if_splits)

text \<open>\<open>s.count(p)\<close> and \<open>s.replace(p, q)\<close> for a non-empty \<open>p\<close>: occurrences from the left, without overlap.\<close>

function count_of :: "string \<Rightarrow> string \<Rightarrow> nat" where
  "count_of p s = (if p = [] then 0 else case cut_at p s of None \<Rightarrow> 0 | Some (b, r) \<Rightarrow> Suc (count_of p r))"
  by pat_completeness auto

termination
  by (relation "measure (\<lambda>(p, s). length s)") (auto dest!: cut_at_Some)

declare count_of.simps [simp del]

function replace_all :: "string \<Rightarrow> string \<Rightarrow> string \<Rightarrow> string" where
  "replace_all p q s = (if p = [] then s else case cut_at p s of
     None \<Rightarrow> s | Some (b, r) \<Rightarrow> b @ q @ replace_all p q r)"
  by pat_completeness auto

termination
  by (relation "measure (\<lambda>(p, q, s). length s)") (auto dest!: cut_at_Some)

declare replace_all.simps [simp del]

text \<open>\<open>127\.0\.0\.1:([1-9][0-9]{0,4})\<close> and the bound on the port.\<close>

definition loopback_endpoint :: "string \<Rightarrow> bool" where
  "loopback_endpoint s \<longleftrightarrow> prefixed ''127.0.0.1:'' (\<lambda>r. r \<noteq> [] \<and> length r \<le> 5 \<and> hd r \<noteq> CHR ''0''
     \<and> list_all is_digit r \<and> read_nat r \<le> 65535) s"

definition endpoint_pair_invalid :: "json \<Rightarrow> bool res" where
  "endpoint_pair_invalid v = any_of [Inr (\<not> is_obj v), notR (set_is v [''writer'', ''home'']),
     bindR (values_of v) (\<lambda>es. Inr (\<exists>e \<in> set es. \<not> str_and e loopback_endpoint))]"

definition server_line :: "string \<Rightarrow> string \<Rightarrow> string" where
  "server_line name endpoint = ''server '' @ lower name @ '' '' @ endpoint @ '' check''"

definition home_lines :: "string \<Rightarrow> string \<Rightarrow> string" where
  "home_lines name endpoint = ''backend home'' @ nl @ ''    server '' @ lower name @ '' '' @ endpoint @ '' check''"

definition endpoint_of :: "json \<Rightarrow> string \<Rightarrow> string \<Rightarrow> string res" where
  "endpoint_of endpoints name k = itm endpoints name (\<lambda>v. itm v k (\<lambda>e. Inr (str_val e)))"

definition route_to :: "string \<Rightarrow> string \<Rightarrow> string \<Rightarrow> json \<Rightarrow> string res" where
  "route_to config source target endpoints =
     bindR (phase_plan source target) (\<lambda>_.
     refuse_if [notR (set_is endpoints [''A'', ''B''])]
     (bindR (values_of endpoints) (\<lambda>vs.
     refuse_if (map endpoint_pair_invalid vs)
     (bindR (endpoint_of endpoints source ''writer'') (\<lambda>sw. bindR (endpoint_of endpoints source ''home'') (\<lambda>sh.
      bindR (endpoint_of endpoints target ''writer'') (\<lambda>tw. bindR (endpoint_of endpoints target ''home'') (\<lambda>th.
      let old0 = server_line source sw; old1 = home_lines source sh;
          new0 = server_line target tw; new1 = home_lines target th in
      refuse_if [Inr (count_of old0 config \<noteq> 1 \<or> count_of old1 config \<noteq> 1
          \<or> is_infix new0 config \<or> is_infix new1 config)]
      (Inr (replace_all old1 new1 (replace_all old0 new0 config)))))))))))"

definition ROUTE_ENDPOINTS :: json where
  "ROUTE_ENDPOINTS = JObj
     [(''A'', JObj [(''writer'', JStr ''127.0.0.1:14000''), (''home'', JStr ''127.0.0.1:14001'')]),
      (''B'', JObj [(''writer'', JStr ''127.0.0.1:14003''), (''home'', JStr ''127.0.0.1:14002'')])]"

definition route_to_b :: "string \<Rightarrow> string res" where
  "route_to_b config = route_to config ''A'' ''B'' ROUTE_ENDPOINTS"

end
