(* ===== verification/Fence_Facts.thy ===== *)
theory Fence_Facts
  imports Fence_Route Acceptance_Facts
begin

text \<open>What an accepted fence receipt establishes.\<close>


lemma decreasing_pair_False:
  "decreasing_pair moment os = Inr False \<Longrightarrow> Suc i < length os \<Longrightarrow>
     \<exists>x y. stamp_at moment (os ! i) = Inr x \<and> stamp_at moment (os ! Suc i) = Inr y \<and> x \<le> y"
proof (induction moment os arbitrary: i rule: decreasing_pair.induct)
  case (1 moment a b os)
  then show ?case
    by (cases i) (auto simp: res_simps not_less)
qed simp_all

text \<open>C20 An accepted fence receipt is about this target and is fresh: it names the requested target, action
  and state, was requested no earlier than the step that asked for it, completed after that and at most
  five minutes ago, the provider observed that instance's identity at every resolved address of the
  target, and there are at least two observations, in order, none of them before the request or more than five
  seconds after now, the last of them no earlier than completion and in the requested state.\<close>

theorem fence_is_fresh:
  assumes "validate_fence moment resolve now receipt target action state not_before = Inr u"
  shows "py_eq (fld receipt ''target'') target \<and> fld receipt ''action'' = JStr action
    \<and> fld receipt ''state'' = JStr state
    \<and> (\<exists>requested completed os addresses.
        stamp_at moment (fld receipt ''request'') = Inr requested
        \<and> stamp_at moment (fld receipt ''completion'') = Inr completed
        \<and> not_before \<le> requested \<and> requested \<le> completed \<and> completed \<le> now \<and> now \<le> completed + 300
        \<and> fld receipt ''observations'' = JArr os \<and> 2 \<le> length os
        \<and> fld (last os) ''state'' = JStr state
        \<and> py_eq (fld (fld (last os) ''identity'') ''instance_id'') (fld target ''instance_id'')
        \<and> resolve (fld target ''address'') = Inr addresses \<and> addresses \<noteq> []
        \<and> covers (fld (last os) ''identity'') addresses = Inr True
        \<and> (\<forall>i < length os. \<exists>x. stamp_at moment (os ! i) = Inr x \<and> requested \<le> x \<and> x \<le> now + 5)
        \<and> (\<forall>i. Suc i < length os \<longrightarrow> (\<exists>x y. stamp_at moment (os ! i) = Inr x
             \<and> stamp_at moment (os ! Suc i) = Inr y \<and> x \<le> y))
        \<and> (\<exists>x. stamp_at moment (last os) = Inr x \<and> completed \<le> x))"
proof -
  obtain requested completed final addresses os where
    t: "stamp_at moment (fld receipt ''request'') = Inr requested"
      "stamp_at moment (fld receipt ''completion'') = Inr completed"
    and f: "item_at (fld receipt ''observations'') (-1) = Inr final"
    and i: "getitem final ''identity'' = Inr (fld final ''identity'')"
    and r: "resolve (fld target ''address'') = Inr addresses"
    and d: "identity_differs (fld final ''identity'') target addresses = Inr False"
    and o: "iter_of (fld receipt ''observations'') = Inr os"
    and e: "fence_differs moment now receipt target action state not_before requested completed os = Inr False"
    using assms unfolding validate_fence_def validate_fence_inner_def
    by (auto simp: refuse_simps reraise_eq_Inr bindR_eq_Inr [of "stamp_at _ _"] bindR_eq_Inr [of "item_at _ _"]
        bindR_eq_Inr [of "resolve _"] bindR_eq_Inr [of "iter_of _"] simp del: getitem_eq_Inr)
  have arr: "fld receipt ''observations'' = JArr os \<and> os \<noteq> [] \<and> final = last os"
  proof (cases "fld receipt ''observations''")
    case (JArr xs)
    then show ?thesis using f o
      by (cases xs) (auto simp: item_at_def py_index_def last_conv_nth split: if_splits)
  next
    case (JStr s)
    then show ?thesis using f i by (auto simp: item_at_def getitem_def split: option.splits)
  qed (use f o in \<open>auto simp: item_at_def iter_of_def\<close>)
  note d' = d [unfolded identity_differs_def, simplified refuse_simps notR_eq]
  note e' = e [unfolded fence_differs_def, simplified refuse_simps]
  have k: "py_eq (fld receipt ''target'') target" "fld receipt ''action'' = JStr action" "fld receipt ''state'' = JStr state"
    "not_before \<le> requested" "requested \<le> completed" "completed \<le> now" "now \<le> completed + 300" "2 \<le> length os"
    "fld (last os) ''state'' = JStr state" "decreasing_pair moment os = Inr False"
    "\<exists>x. stamp_at moment (last os) = Inr x \<and> completed \<le> x"
    "\<forall>v \<in> set os. \<exists>x. stamp_at moment v = Inr x \<and> requested \<le> x \<and> x \<le> now + 5"
    using e' by (auto simp: res_simps not_less)
  have l: "py_eq (fld (fld final ''identity'') ''instance_id'') (fld target ''instance_id'')" "addresses \<noteq> []"
    "covers (fld final ''identity'') addresses = Inr True"
    using d' by auto
  have "\<forall>i. Suc i < length os \<longrightarrow> (\<exists>x y. stamp_at moment (os ! i) = Inr x
      \<and> stamp_at moment (os ! Suc i) = Inr y \<and> x \<le> y)"
    using decreasing_pair_False [OF k(10)] by blast
  moreover have "\<forall>i < length os. \<exists>x. stamp_at moment (os ! i) = Inr x \<and> requested \<le> x \<and> x \<le> now + 5"
    using k(12) by simp
  ultimately have "stamp_at moment (fld receipt ''request'') = Inr requested
        \<and> stamp_at moment (fld receipt ''completion'') = Inr completed
        \<and> not_before \<le> requested \<and> requested \<le> completed \<and> completed \<le> now \<and> now \<le> completed + 300
        \<and> fld receipt ''observations'' = JArr os \<and> 2 \<le> length os
        \<and> fld (last os) ''state'' = JStr state
        \<and> py_eq (fld (fld (last os) ''identity'') ''instance_id'') (fld target ''instance_id'')
        \<and> resolve (fld target ''address'') = Inr addresses \<and> addresses \<noteq> []
        \<and> covers (fld (last os) ''identity'') addresses = Inr True
        \<and> (\<forall>i < length os. \<exists>x. stamp_at moment (os ! i) = Inr x \<and> requested \<le> x \<and> x \<le> now + 5)
        \<and> (\<forall>i. Suc i < length os \<longrightarrow> (\<exists>x y. stamp_at moment (os ! i) = Inr x
             \<and> stamp_at moment (os ! Suc i) = Inr y \<and> x \<le> y))
        \<and> (\<exists>x. stamp_at moment (last os) = Inr x \<and> completed \<le> x)"
    using t r arr k l by (simp only: simp_thms)
  then show ?thesis using k(1,2,3) by blast
qed

definition ex_moment :: moments where
  "ex_moment s = Inr (Some (of_nat (length s)))"

definition ex_at :: "nat \<Rightarrow> (string \<times> json) list \<Rightarrow> json" where
  "ex_at n kvs = JObj ((''time'', JStr (replicate n (CHR ''t''))) # kvs)"

definition ex_target :: json where
  "ex_target = JObj [(''instance_id'', JInt 3), (''provider_label'', JStr ''a''), (''address'', JStr ''10.0.0.1'')]"

definition ex_identity :: json where
  "ex_identity = JObj [(''instance_id'', JInt 3), (''provider_label'', JStr ''a''), (''addresses'', JArr [JStr ''10.0.0.1''])]"

definition ex_receipt :: json where
  "ex_receipt = JObj [(''target'', ex_target), (''action'', JStr ''fence-a''), (''state'', JStr ''offline''),
     (''request'', ex_at 10 [(''id'', JStr ''r1'')]), (''completion'', ex_at 12 []),
     (''observations'', JArr [ex_at 11 [(''state'', JStr ''stopping'')],
        ex_at 13 [(''state'', JStr ''offline''), (''identity'', ex_identity)]])]"

lemma ex_fence: "validate_fence ex_moment (\<lambda>_. Inr [''10.0.0.1'']) 14 ex_receipt ex_target ''fence-a'' ''offline'' 9 = Inr ()"
  by code_simp

theorem fence_is_fresh_witness: "py_eq (fld ex_receipt ''target'') ex_target"
  using fence_is_fresh [OF ex_fence] by blast

end
