(* ===== verification/Host.thy ===== *)
theory Host
  imports World Canonical
begin

text \<open>
  A node's machine as the root-only programs of \<open>hat/node.py\<close> and \<open>hat/transition.py\<close> use it: a file
  system the program reads and changes, and everything else (commands, the local status service, the
  database engine, the clock) as calls whose answers, and whose effects on the files, are arbitrary
  functions of everything asked before.
\<close>

section \<open>State\<close>

record hnode =
  h_kind :: node_kind
  h_uid :: nat
  h_gid :: nat
  h_mode :: nat
  h_nlink :: nat
  h_id :: ino
  h_bytes :: string

text \<open>A file system is the list of its names, each once, with what they stand for.\<close>

type_synonym tree = "(string \<times> hnode) list"

definition tree_del :: "string \<Rightarrow> tree \<Rightarrow> tree" where
  "tree_del p f = filter (\<lambda>e. fst e \<noteq> p) f"

definition tree_put :: "string \<Rightarrow> hnode \<Rightarrow> tree \<Rightarrow> tree" where
  "tree_put p n f = (p, n) # tree_del p f"

lemma map_of_tree_del [simp]: "map_of (tree_del p f) q = (if q = p then None else map_of f q)"
  by (induction f) (auto simp: tree_del_def)

lemma map_of_tree_put [simp]: "map_of (tree_put p n f) q = (if q = p then Some n else map_of f q)"
  by (simp add: tree_put_def)

text \<open>\<open>disturb\<close> is what a call does to the files, \<open>fresh\<close> the identity of the next new file.\<close>

record host = services +
  fs :: tree
  disturb :: "(string \<times> json) list \<Rightarrow> string \<times> json \<Rightarrow> tree \<Rightarrow> tree"
  huid :: nat
  hgid :: nat
  fresh :: nat

definition hcall :: "string \<Rightarrow> json \<Rightarrow> ('w host_scheme, json) prog" where
  "hcall name arg s = (answer s (trace s) (name, arg),
     s\<lparr>trace := trace s @ [(name, arg)], fs := disturb s (trace s) (name, arg) (fs s)\<rparr>)"

definition clock_of :: "json \<Rightarrow> rat" where
  "clock_of v = (case num_of v of Some (Fin x) \<Rightarrow> x | _ \<Rightarrow> 0)"

definition monotonic :: "('w host_scheme, rat) prog" where
  "monotonic = bindP (hcall ''monotonic'' JNull) (\<lambda>v. ret (clock_of v))"

definition sleep :: "rat \<Rightarrow> ('w host_scheme, unit) prog" where
  "sleep d = bindP (hcall ''sleep'' (JFloat (Fin d))) (\<lambda>_. ret ())"

section \<open>Looking at files\<close>

text \<open>A symbolic link holds the absolute path it points to; forty links are followed.\<close>

fun resolve_link :: "nat \<Rightarrow> tree \<Rightarrow> string \<Rightarrow> string option" where
  "resolve_link 0 f p = None"
| "resolve_link (Suc n) f p = (case map_of f p of None \<Rightarrow> None
     | Some x \<Rightarrow> if h_kind x = SymlinkNode then resolve_link n f (h_bytes x) else Some p)"

definition follow_path :: "tree \<Rightarrow> string \<Rightarrow> string option" where
  "follow_path = resolve_link 40"

definition h_exists :: "string \<Rightarrow> 'w host_scheme \<Rightarrow> bool" where
  "h_exists p s \<longleftrightarrow> follow_path (fs s) p \<noteq> None"

definition h_is_symlink :: "string \<Rightarrow> 'w host_scheme \<Rightarrow> bool" where
  "h_is_symlink p s \<longleftrightarrow> (case map_of (fs s) p of None \<Rightarrow> False | Some n \<Rightarrow> h_kind n = SymlinkNode)"

definition h_kind_is :: "node_kind \<Rightarrow> string \<Rightarrow> 'w host_scheme \<Rightarrow> bool" where
  "h_kind_is k p s \<longleftrightarrow> (case follow_path (fs s) p of None \<Rightarrow> False
     | Some q \<Rightarrow> (case map_of (fs s) q of None \<Rightarrow> False | Some n \<Rightarrow> h_kind n = k))"

abbreviation "h_is_dir \<equiv> h_kind_is DirectoryNode"
abbreviation "h_is_file \<equiv> h_kind_is RegularNode"

definition h_there :: "string \<Rightarrow> 'w host_scheme \<Rightarrow> bool" where
  "h_there p s \<longleftrightarrow> h_exists p s \<or> h_is_symlink p s"

definition h_lstat :: "string \<Rightarrow> 'w host_scheme \<Rightarrow> hnode res" where
  "h_lstat p s = (case map_of (fs s) p of None \<Rightarrow> Inl FileNotFoundError | Some n \<Rightarrow> Inr n)"

definition h_read :: "string \<Rightarrow> 'w host_scheme \<Rightarrow> string res" where
  "h_read p s = (case follow_path (fs s) p of None \<Rightarrow> Inl FileNotFoundError
     | Some q \<Rightarrow> (case map_of (fs s) q of None \<Rightarrow> Inl FileNotFoundError
        | Some n \<Rightarrow> if h_kind n = DirectoryNode then Inl OSError else Inr (h_bytes n)))"

definition h_text :: "string \<Rightarrow> 'w host_scheme \<Rightarrow> string res" where
  "h_text p s = bindR (h_read p s) ascii_text"

definition h_loads :: "string \<Rightarrow> 'w host_scheme \<Rightarrow> json res" where
  "h_loads p s = bindR (h_text p s) loads"

text \<open>The parents of an absolute path: its beginnings before each slash, and the root.\<close>

fun beginnings :: "string \<Rightarrow> string \<Rightarrow> string list" where
  "beginnings done' [] = []"
| "beginnings done' (c # s) =
     (if c = CHR ''/'' then (if done' = [] then ''/'' else done') # beginnings (done' @ [c]) s
      else beginnings (done' @ [c]) s)"

definition parents :: "string \<Rightarrow> string list" where
  "parents p = beginnings [] p"

definition linked_parent :: "string \<Rightarrow> 'w host_scheme \<Rightarrow> bool" where
  "linked_parent p s \<longleftrightarrow> (\<exists>q \<in> set (parents p). h_is_symlink q s)"

section \<open>Changing files\<close>

definition in_tree :: "string \<Rightarrow> string \<Rightarrow> string option" where
  "in_tree d p = (if p = d then Some [] else strip_prefix (d @ ''/'') p)"

definition new_node :: "node_kind \<Rightarrow> nat \<Rightarrow> string \<Rightarrow> 'w host_scheme \<Rightarrow> hnode" where
  "new_node k mode bytes s = \<lparr>h_kind = k, h_uid = huid s, h_gid = hgid s, h_mode = mode, h_nlink = 1,
     h_id = (0, fresh s), h_bytes = bytes\<rparr>"

definition create :: "node_kind \<Rightarrow> string \<Rightarrow> nat \<Rightarrow> string \<Rightarrow> ('w host_scheme, unit) prog" where
  "create k p mode bytes =
     modify (\<lambda>s. s\<lparr>fs := tree_put p (new_node k mode bytes s) (fs s), fresh := Suc (fresh s)\<rparr>)"

definition taken :: "string \<Rightarrow> 'w host_scheme \<Rightarrow> bool" where
  "taken p s \<longleftrightarrow> map_of (fs s) p \<noteq> None"

text \<open>\<open>open('x')\<close> and \<open>mkdir\<close> refuse a name that is taken.\<close>

definition create_new :: "node_kind \<Rightarrow> string \<Rightarrow> nat \<Rightarrow> string \<Rightarrow> ('w host_scheme, unit) prog" where
  "create_new k p mode bytes =
     seqP (raise_when (\<lambda>s. Inr (taken p s)) FileExistsError) (create k p mode bytes)"

definition mkdir :: "string \<Rightarrow> nat \<Rightarrow> ('w host_scheme, unit) prog" where
  "mkdir p mode = create_new DirectoryNode p mode []"

definition mkdir_exist_ok :: "string \<Rightarrow> nat \<Rightarrow> ('w host_scheme, unit) prog" where
  "mkdir_exist_ok p mode = catching [FileExistsError] (mkdir p mode)
     (raise_when (\<lambda>s. Inr (\<not> h_is_dir p s)) FileExistsError)"

definition missing :: "string \<Rightarrow> ('w host_scheme, unit) prog" where
  "missing p = raise_when (\<lambda>s. Inr (\<not> taken p s)) FileNotFoundError"

text \<open>\<open>rename\<close> moves a file or a whole directory over what has the new name.\<close>

definition move_tree :: "string \<Rightarrow> string \<Rightarrow> tree \<Rightarrow> tree" where
  "move_tree a b f = map (\<lambda>(p, n). case in_tree a p of
       Some r \<Rightarrow> (b @ (if r = [] then [] else ''/'' @ r), n) | None \<Rightarrow> (p, n))
     (filter (\<lambda>e. in_tree b (fst e) = None) f)"

text \<open>A directory does not replace a file, nor a file or directory a directory that is not empty.\<close>

definition clash :: "string \<Rightarrow> string \<Rightarrow> 'w host_scheme \<Rightarrow> bool" where
  "clash a b s \<longleftrightarrow> (case (map_of (fs s) a, map_of (fs s) b) of
     (Some m, Some n) \<Rightarrow> (h_kind m = DirectoryNode) \<noteq> (h_kind n = DirectoryNode)
        \<or> h_kind n = DirectoryNode \<and> (\<exists>e \<in> set (fs s). fst e \<noteq> b \<and> in_tree b (fst e) \<noteq> None)
   | _ \<Rightarrow> False)"

definition rename :: "string \<Rightarrow> string \<Rightarrow> ('w host_scheme, unit) prog" where
  "rename a b = seqP (missing a) (seqP (raise_when (\<lambda>s. Inr (clash a b s)) OSError)
     (modify (\<lambda>s. s\<lparr>fs := move_tree a b (fs s)\<rparr>)))"

definition unlink :: "string \<Rightarrow> ('w host_scheme, unit) prog" where
  "unlink p = seqP (missing p) (modify (\<lambda>s. s\<lparr>fs := tree_del p (fs s)\<rparr>))"

text \<open>A change of what a name stands for, if it is taken.\<close>

definition alter :: "string \<Rightarrow> (hnode \<Rightarrow> hnode) \<Rightarrow> tree \<Rightarrow> tree" where
  "alter p g f = map (\<lambda>(q, n). (q, if q = p then g n else n)) f"

lemma map_of_alter [simp]: "map_of (alter p g f) q = (if q = p then map_option g (map_of f q) else map_of f q)"
  by (induction f) (auto simp: alter_def)

text \<open>\<open>shutil.copy2\<close>: the bytes and the mode; an existing destination keeps its owner.\<close>

definition mode_of :: "string \<Rightarrow> 'w host_scheme \<Rightarrow> nat" where
  "mode_of p s = (case follow_path (fs s) p of None \<Rightarrow> 0
     | Some q \<Rightarrow> (case map_of (fs s) q of None \<Rightarrow> 0 | Some n \<Rightarrow> h_mode n))"

definition copy2 :: "string \<Rightarrow> string \<Rightarrow> ('w host_scheme, unit) prog" where
  "copy2 a b = bindP (\<lambda>s. (h_read a s, s)) (\<lambda>bytes. modify (\<lambda>s.
     let dest = (case follow_path (fs s) b of Some q \<Rightarrow> q | None \<Rightarrow> b);
         old = (case map_of (fs s) dest of Some n \<Rightarrow> n | None \<Rightarrow> new_node RegularNode 0 [] s)
     in s\<lparr>fs := tree_put dest (old\<lparr>h_bytes := bytes, h_mode := mode_of a s\<rparr>) (fs s), fresh := Suc (fresh s)\<rparr>))"

definition chown :: "string \<Rightarrow> nat \<Rightarrow> nat \<Rightarrow> ('w host_scheme, unit) prog" where
  "chown p uid gid = seqP (missing p)
     (modify (\<lambda>s. s\<lparr>fs := alter p (\<lambda>n. n\<lparr>h_uid := uid, h_gid := gid\<rparr>) (fs s)\<rparr>))"

text \<open>The names a directory holds directly.\<close>

definition names_in :: "string \<Rightarrow> 'w host_scheme \<Rightarrow> string list" where
  "names_in dir s = concat (map (\<lambda>(p, _). case strip_prefix (dir @ ''/'') p of
     Some r \<Rightarrow> if r \<noteq> [] \<and> CHR ''/'' \<notin> set r then [r] else [] | None \<Rightarrow> []) (fs s))"

text \<open>\<open>atomic_json\<close> of \<open>hat/transition.py\<close>: a pending file of its own, then the rename.\<close>

definition pending_name :: "string \<Rightarrow> string" where
  "pending_name p = p @ ''.pending''"

definition replace_file :: "string \<Rightarrow> string res \<Rightarrow> nat \<Rightarrow> ('w host_scheme, unit) prog" where
  "replace_file p content mode =
     seqP (create_new RegularNode (pending_name p) mode [])
     (bindP (lift content) (\<lambda>bytes.
     seqP (modify (\<lambda>s. s\<lparr>fs := alter (pending_name p) (\<lambda>n. n\<lparr>h_bytes := bytes\<rparr>) (fs s)\<rparr>))
     (rename (pending_name p) p)))"

definition atomic_json :: "string \<Rightarrow> json \<Rightarrow> nat \<Rightarrow> ('w host_scheme, unit) prog" where
  "atomic_json p v mode = replace_file p (dumps_compact (sort_keys v)) mode"

end
