(* ===== verification/Node.thy ===== *)
theory Node
  imports Host Fence_Route
begin

text \<open>
  \<open>hat/node.py\<close>, the fixed-role node: positions and their sidecars, the classification of the uploader's
  log, the public status, the identity checks of files, databases and configuration, the activation
  authority, and the sampling loop of \<open>serve\<close> with its quiesce branch.
\<close>

section \<open>Positions and authority\<close>

definition BASE :: string where "BASE = ''/var/lib/hat-demo''"
definition AUTHORITY :: string where "AUTHORITY = ''/run/hat-demo-activation.json''"
definition BIN :: string where "BIN = ''/opt/hat-demo/bin''"

definition read_hex :: "string \<Rightarrow> nat" where
  "read_hex s = foldl (\<lambda>n c. 16 * n + (case hex_val c of Some d \<Rightarrow> d | None \<Rightarrow> 0)) 0 s"

definition txid :: "json \<Rightarrow> int res" where
  "txid v = (case v of JStr s \<Rightarrow> if hex_n 16 s then Inr (int (read_hex s)) else Inl ValueError
     | _ \<Rightarrow> Inl ValueError)"

definition sync_position :: "json \<Rightarrow> string \<Rightarrow> json res" where
  "sync_position v database =
     refuse_if ([Inr (\<not> is_obj v), notR (set_is v [''db_path'', ''txid'', ''replica_txid'', ''duration_ms'']),
         item_not v ''db_path'' database] @
        map (\<lambda>k. itm v k (\<lambda>x. Inr (\<not> int_and x (\<lambda>n. 0 \<le> n)))) [''txid'', ''replica_txid'', ''duration_ms''] @
        [itm v ''txid'' (\<lambda>x. itm v ''replica_txid'' (\<lambda>y. differs x y))])
     (getitem v ''replica_txid'')"

definition authorized :: "json \<Rightarrow> json \<Rightarrow> json \<Rightarrow> json \<Rightarrow> bool" where
  "authorized role epoch boot r \<longleftrightarrow> role = JStr ''writer''
     \<and> py_eq r (JObj [(''role'', role), (''epoch'', epoch), (''boot_id'', boot)])"

section \<open>The uploader's log\<close>

definition LOG_FIELDS :: "(string \<times> string list) list" where
  "LOG_FIELDS = [
     (''litestream'', [''version'']),
     (''retention disabled; cloud provider lifecycle policies must handle retention'', [''hint'']),
     (''control socket listening'', [''system'', ''path'']),
     (''initialized db'', [''path'']),
     (''replicating to'', [''type'', ''sync-interval'', ''bucket'', ''path'', ''region'', ''endpoint'']),
     (''starting compaction monitor'', [''system'', ''interval'']),
     (''starting L0 retention monitor'', [''system'', ''interval'', ''retention'']),
     (''snapshot complete'', [''system'', ''db'', ''txid'', ''size'']),
     (''compaction complete'', [''system'', ''db'', ''txid'', ''size'']),
     (''signal received, litestream shutting down'', [''signal'']),
     (''litestream shut down'', []),
     (''l0 retention enforced'', [''system'', ''db'', ''deleted_count'', ''max_l1_txid'']),
     (''entering follow mode'', [''db'', ''replica'', ''output'', ''txid'', ''interval'']),
     (''follow: applied updates'', [''db'', ''replica'', ''from_txid'', ''to_txid''])]"

text \<open>\<open>object_pairs_hook=lambda p: p\<close>: an object is the list of its pairs, here kept as an object whose
  keys may repeat; an array in its place is what the type test refuses.\<close>

definition pairs_hook_id :: pairs_hook where
  "pairs_hook_id kvs = Inr (JObj kvs)"

definition repeated_keys :: "(string \<times> json) list \<Rightarrow> string list" where
  "repeated_keys kvs = filter (\<lambda>k. 1 < length (filter (\<lambda>p. fst p = k) kvs)) (map fst (dict_of kvs))"

text \<open>The two known repetitions of \<open>level\<close>: \<open>None\<close> when the line is bad.\<close>

definition settle_level :: "(string \<times> json) list \<Rightarrow> (string \<times> json) list option" where
  "settle_level kvs = (let value = dict_of kvs; levels = map snd (filter (\<lambda>p. fst p = ''level'') kvs);
      msg = map_of value ''msg'' in
     if repeated_keys kvs = [] then Some value
     else if repeated_keys kvs = [''level'']
        \<and> (levels = [JStr ''INFO'', JStr []] \<and> msg = Some (JStr ''litestream'')
             \<and> map_of value ''version'' = Some (JStr ''0.5.17'')
           \<or> (\<exists>n. levels = [JStr ''INFO'', JInt n] \<and> n \<in> {1, 2, 3, 9})
             \<and> msg \<in> {Some (JStr ''starting compaction monitor''), Some (JStr ''compaction complete'')})
     then Some (dict_set value ''level'' (JStr ''INFO'')) else None)"

definition count_fields :: "string list" where
  "count_fields = [''interval'', ''retention'', ''sync-interval'', ''size'', ''signal'', ''deleted_count'']"

definition position_fields :: "string list" where
  "position_fields = [''txid'', ''from_txid'', ''to_txid'', ''max_l1_txid'']"

text \<open>The range of a compaction is the list of pairs the hook leaves: two of them, \<open>min\<close> and \<open>max\<close>.
  \<open>dict(item)\<close> also takes an array of two-element arrays; every other array is bad or raises.\<close>

definition pair_of :: "json \<Rightarrow> (string \<times> json) option" where
  "pair_of v = (case v of JArr [JStr k, w] \<Rightarrow> Some (k, w) | _ \<Rightarrow> None)"

definition pairs_of :: "json \<Rightarrow> (string \<times> json) list option" where
  "pairs_of item = (case item of
     JObj kvs \<Rightarrow> Some kvs
   | JArr xs \<Rightarrow> if list_all (\<lambda>x. pair_of x \<noteq> None) xs then Some (map (the \<circ> pair_of) xs) else None
   | _ \<Rightarrow> None)"

definition bounds_bad :: "json \<Rightarrow> bool res" where
  "bounds_bad item = (case pairs_of item of None \<Rightarrow> Inr True
   | Some kvs \<Rightarrow> if length kvs \<noteq> 2 then Inr True else
       any_of [Inr (fst ` set kvs \<noteq> {''min'', ''max''}),
         itm (JObj (dict_of kvs)) ''min'' (\<lambda>a. itm (JObj (dict_of kvs)) ''max'' (\<lambda>b.
           bindR (txid a) (\<lambda>x. bindR (txid b) (\<lambda>y. Inr (x > y)))))])"

definition field_bad :: "string \<Rightarrow> string \<Rightarrow> json \<Rightarrow> bool res" where
  "field_bad message name item =
     (if name \<in> set count_fields then Inr (\<not> int_and item (\<lambda>n. 0 \<le> n))
      else if name = ''txid'' \<and> message = ''compaction complete'' then bounds_bad item
      else if name \<in> set position_fields then mapR (\<lambda>_. False) (txid item)
      else Inr (\<not> str_and item (\<lambda>s. s \<noteq> [])))"

definition log_line_bad :: "string \<Rightarrow> bool res" where
  "log_line_bad line = bindR (loads_with pairs_hook_id line) (\<lambda>p. case p of
     JObj kvs \<Rightarrow> (case settle_level kvs of None \<Rightarrow> Inr True
       | Some value \<Rightarrow>
          (case map_of value ''msg'' of
             Some (JStr message) \<Rightarrow> (case map_of LOG_FIELDS message of None \<Rightarrow> Inr True
               | Some wanted \<Rightarrow>
                   if fst ` set value - {''time'', ''level'', ''msg''} \<noteq> set wanted then Inr True
                   else if map_of value ''level'' \<noteq> Some (JStr (if starts ''retention disabled;'' message
                       then ''WARN'' else ''INFO'')) then Inr True
                   else any_of (map (\<lambda>name. itm (JObj value) name (field_bad message name))
                          (wanted @ (if ''time'' \<in> fst ` set value then [''time''] else [])) @
                       [all_of [Inr (message = ''litestream''),
                          itm (JObj value) ''version'' (\<lambda>v. differs v (JStr ''0.5.17''))]]))
           | Some v \<Rightarrow> if hashable v then Inr True else Inl TypeError
           | None \<Rightarrow> Inr True))
   | _ \<Rightarrow> Inr True)"

definition log_bad :: "string \<Rightarrow> bool res" where
  "log_bad line = default_on [ValueError, TypeError] True (log_line_bad line)"

section \<open>Status\<close>

text \<open>\<open>dict(state)\<close> updated with the verdict; the numbers are times, the sample's and now.\<close>

definition public_status :: "json \<Rightarrow> rat \<Rightarrow> json res" where
  "public_status state now =
     itm state ''refusals'' (\<lambda>r. bindR (iter_of r) (\<lambda>refusals.
     itm state ''sampled_at'' (\<lambda>t. bindR (case num_of t of Some f \<Rightarrow> Inr f | None \<Rightarrow> Inl TypeError) (\<lambda>f.
     itm state ''positions'' (\<lambda>ps. bindR (set_is ps DBS) (\<lambda>enrolled.
     bindR (if enrolled then values_of ps else Inr []) (\<lambda>vs. bindR (items_of state) (\<lambda>kvs.
     let recent = (case f of Fin t0 \<Rightarrow> 0 \<le> now - t0 \<and> now - t0 \<le> 30 | _ \<Rightarrow> False);
         reasons = refusals
           @ (if \<not> recent then [JStr ''position sample stale or clock changed''] else [])
           @ (if \<not> enrolled \<or> (\<exists>v \<in> set vs. \<not> int_and v (\<lambda>n. 0 < n))
              then [JStr ''required database positions unconfirmed''] else []) in
     Inr (JObj (foldl (\<lambda>d (k, v). dict_set d k v) kvs
       [(''healthy'', JBool (reasons = [])), (''refusals'', JArr reasons), (''promotion_ready'', JBool False),
        (''limitation'', JStr ''D1 transport observation only; no failover readiness or RPO bound'')]))))))))))"

section \<open>Identity of files and databases\<close>

definition regular_file :: "string \<Rightarrow> 'w host_scheme \<Rightarrow> hnode res" where
  "regular_file p s = reraise [OSError] ValueError (bindR (h_lstat p s) (\<lambda>n.
     if h_kind n \<noteq> RegularNode \<or> h_bytes n = [] \<or> linked_parent p s then Inl ValueError else Inr n))"

definition sqlite_header :: string where
  "sqlite_header = ''SQLite format 3'' @ [CHR 0x00]"

definition database_identity :: "string \<Rightarrow> 'w host_scheme \<Rightarrow> ino res" where
  "database_identity p s = bindR (regular_file p s) (\<lambda>n. bindR (h_read p s) (\<lambda>bytes.
     if take 16 bytes \<noteq> sqlite_header then Inl ValueError else Inr (h_id n)))"

definition db_file :: "string \<Rightarrow> string \<Rightarrow> string" where
  "db_file data db = data @ ''/'' @ db @ ''.db''"

definition stem :: "string \<Rightarrow> string" where
  "stem name = (if 3 < length name then take (length name - 3) name else name)"

definition ends :: "string \<Rightarrow> string \<Rightarrow> bool" where
  "ends p s \<longleftrightarrow> starts (rev p) (rev s)"

definition unenrolled :: "string \<Rightarrow> 'w host_scheme \<Rightarrow> bool" where
  "unenrolled data s \<longleftrightarrow> (\<exists>n \<in> set (names_in data s). ends ''.db'' n \<and> stem n \<notin> set DBS \<union> {''logs''})"

definition required_tables :: "string \<Rightarrow> string list" where
  "required_tables name = (if name = ''main'' then [''hat_ops'', ''_user'']
     else if name = ''session'' then [''_session''] else [''hat_ops''])"

text \<open>The read-only connection's queries, each a call on the database's path.\<close>

definition check_database :: "string \<Rightarrow> string \<Rightarrow> ('w host_scheme, unit) prog" where
  "check_database data name = (let path = db_file data name in
     seqP (bindP (\<lambda>s. (database_identity path s, s)) (\<lambda>_. ret ()))
     (converting [SqliteError] ValueError
       (bindP (hcall ''PRAGMA quick_check'' (JStr path)) (\<lambda>ok.
        seqP (raise_when (\<lambda>_. Inr (ok \<noteq> JStr ''ok'')) ValueError)
        (bindP (hcall ''SELECT name FROM sqlite_schema'' (JStr path)) (\<lambda>tables.
        seqP (raise_when (\<lambda>_. notR (set_covers tables (required_tables name))) ValueError)
        (seqP (if name \<noteq> ''session'' then bindP (hcall ''SELECT id, op_key, payload FROM hat_ops'' (JStr path)) (\<lambda>_. ret ()) else ret ())
        (seqP (if name = ''main'' then bindP (hcall ''SELECT id FROM _user'' (JStr path)) (\<lambda>_. ret ()) else ret ())
        (if name = ''session'' then bindP (hcall ''SELECT id FROM _session'' (JStr path)) (\<lambda>_. ret ()) else ret ())))))))))"

definition validate_databases :: "string \<Rightarrow> bool \<Rightarrow> ('w host_scheme, unit) prog" where
  "validate_databases data bootstrap =
     seqP (raise_when (\<lambda>s. Inr (h_is_symlink data s \<or> linked_parent data s)) ValueError)
     (bindP (gets (names_in data)) (\<lambda>names.
     if bootstrap \<and> names = [] then ret ()
     else seqP (raise_when (\<lambda>s. Inr (unenrolled data s)) ValueError)
       (forP DBS (check_database data))))"

definition support_names :: "bool \<Rightarrow> string list" where
  "support_names bootstrap =
     [''config.textproto'', ''migrations/main/U100__hat_ops.sql'', ''migrations/aux/U100__hat_ops.sql''] @
     (if bootstrap then [] else [''secrets/keys/private_key.pem'', ''secrets/keys/public_key.pem''])"

definition file_matches :: "string \<Rightarrow> json \<Rightarrow> 'w host_scheme \<Rightarrow> unit res" where
  "file_matches path digest s = bindR (regular_file path s) (\<lambda>_. bindR (h_read path s) (\<lambda>bytes.
     refuse_if [differs (JStr (sha256_hex bytes)) digest] (Inr ())))"

definition validate_support :: "string \<Rightarrow> json \<Rightarrow> bool \<Rightarrow> 'w host_scheme \<Rightarrow> unit res" where
  "validate_support depot support bootstrap s =
     refuse_if [Inr (\<not> is_obj support), notR (set_is support (support_names bootstrap))]
     (bindR (items_of support) (\<lambda>kvs.
     mapR (\<lambda>_. ()) (traverse (\<lambda>(name, digest). file_matches (path_join depot name) digest s) kvs)))"

text \<open>\<open>mode & 0o022\<close>: writable by the group or by others.\<close>

definition others_write :: "nat \<Rightarrow> bool" where
  "others_write mode \<longleftrightarrow> mode div 16 mod 2 = 1 \<or> mode div 2 mod 2 = 1"

definition config_differs :: "json \<Rightarrow> bool res" where
  "config_differs c = any_of
     [itm c ''role'' (\<lambda>r. Inr (\<not> in_tuple r [''writer'', ''standby''])),
      itm c ''epoch'' (\<lambda>x. notR (re_match epoch_plus x))]"

definition load_config :: "string \<Rightarrow> ('w host_scheme, json) prog" where
  "load_config p =
     bindP (\<lambda>s. (regular_file p s, s)) (\<lambda>n.
     seqP (raise_when (\<lambda>_. Inr (h_uid n \<noteq> 0 \<or> others_write (h_mode n))) ValueError)
     (bindP (\<lambda>s. (h_loads p s, s)) (\<lambda>c.
     seqP (raise_when (\<lambda>_. config_differs c) ValueError)
     (bindP (hcall ''gethostname'' JNull) (\<lambda>hostname.
     seqP (raise_when (\<lambda>_. itm c ''hostname'' (\<lambda>h. differs h hostname)) ValueError)
     (seqP (\<lambda>s. (itm c ''binaries'' (\<lambda>b.
         refuse_if [notR (set_is b [''trail'', ''litestream''])]
         (bindR (items_of b) (\<lambda>kvs. mapR (\<lambda>_. ())
            (traverse (\<lambda>(name, digest). file_matches (path_join BIN name) digest s) kvs)))), s))
     (bindP (lift (get_or c ''bootstrap'' (JBool False))) (\<lambda>bootstrap.
     seqP (raise_when (\<lambda>_. any_of [Inr (\<not> is_bool bootstrap),
         all_of [Inr (truthy bootstrap), itm c ''role'' (\<lambda>r. differs r (JStr ''writer''))]]) ValueError)
     (bindP (lift (get_or c ''support'' JNull)) (\<lambda>support.
     seqP (\<lambda>s. (validate_support (BASE @ ''/depot'') support (truthy bootstrap) s, s))
     (ret c)))))))))))"

definition strip :: "string \<Rightarrow> string" where
  "strip s = rev (dropWhile py_space (rev (dropWhile py_space s)))"

text \<open>\<open>str.splitlines\<close> on code points below 256.\<close>

definition line_break :: "char \<Rightarrow> bool" where
  "line_break c \<longleftrightarrow> (of_char c :: nat) \<in> {10, 11, 12, 13, 28, 29, 30, 133}"

fun splitlines_from :: "string \<Rightarrow> string \<Rightarrow> string list" where
  "splitlines_from acc [] = (if acc = [] then [] else [acc])"
| "splitlines_from acc (c # s) =
     (if c = CHR 0x0D \<and> (case s of d # _ \<Rightarrow> d = CHR 0x0A | [] \<Rightarrow> False) then acc # splitlines_from [] (tl s)
      else if line_break c then acc # splitlines_from [] s
      else splitlines_from (acc @ [c]) s)"

definition splitlines :: "string \<Rightarrow> string list" where
  "splitlines = splitlines_from []"

definition boot_now :: "'w host_scheme \<Rightarrow> string res" where
  "boot_now s = mapR strip (h_text ''/proc/sys/kernel/random/boot_id'' s)"

definition boot_id :: "('w host_scheme, string) prog" where
  "boot_id s = (boot_now s, s)"

definition authority :: "json \<Rightarrow> ('w host_scheme, bool) prog" where
  "authority c = catching [OSError, ValueError]
     (bindP (\<lambda>s. (h_lstat AUTHORITY s, s)) (\<lambda>n.
      if h_kind n = SymlinkNode \<or> h_uid n \<noteq> 0 \<or> others_write (h_mode n) then ret False
      else bindP (lift (getitem c ''role'')) (\<lambda>role. bindP (lift (getitem c ''epoch'')) (\<lambda>epoch.
        bindP boot_id (\<lambda>boot. bindP (\<lambda>s. (h_loads AUTHORITY s, s)) (\<lambda>r.
        ret (authorized role epoch (JStr boot) r)))))))
     (ret False)"

text \<open>\<open>open('x')\<close>, then \<open>json.dump\<close> with the default separators, then the start of the service.\<close>

definition activate :: "json \<Rightarrow> ('w host_scheme, unit) prog" where
  "activate c =
     seqP (raise_when (\<lambda>s. any_of [Inr (huid s \<noteq> 0), itm c ''role'' (\<lambda>r. differs r (JStr ''writer''))]) ValueError)
     (seqP (create_new RegularNode AUTHORITY 420 [])
     (bindP (lift (getitem c ''epoch'')) (\<lambda>epoch. bindP boot_id (\<lambda>boot.
     bindP (lift (Inr (show_json '' '' (JObj [(''role'', JStr ''writer''), (''epoch'', epoch), (''boot_id'', JStr boot)])))) (\<lambda>bytes.
     seqP (modify (\<lambda>s. s\<lparr>fs := alter AUTHORITY (\<lambda>n. n\<lparr>h_bytes := bytes\<rparr>) (fs s)\<rparr>))
     (bindP (hcall ''systemctl start'' (JStr ''hat-demo.service'')) (\<lambda>_. ret ())))))))"

section \<open>Stopping the processes of a writer\<close>

text \<open>The children are named; \<open>poll\<close> and \<open>wait\<close> answer \<open>None\<close> or the exit code.\<close>

definition graceful_stop :: "string \<Rightarrow> ('w host_scheme, json) prog" where
  "graceful_stop child =
     bindP (hcall ''poll'' (JStr child)) (\<lambda>p.
     seqP (raise_when (\<lambda>_. Inr (p \<noteq> JNull)) RuntimeError)
     (seqP (bindP (hcall ''terminate'' (JStr child)) (\<lambda>_. ret ()))
     (bindP (catching [TimeoutExpired] (hcall ''wait'' (JStr child))
        (seqP (bindP (hcall ''kill'' (JStr child)) (\<lambda>_. ret ()))
        (seqP (bindP (hcall ''wait'' (JStr child)) (\<lambda>_. ret ())) (raiseP RuntimeError)))) (\<lambda>code.
     seqP (raise_when (\<lambda>_. Inr (\<not> (py_eq code (JInt 0) \<or> py_eq code (JInt (-15))))) RuntimeError)
     (ret code)))))"

definition quiesce_owned ::
  "('w host_scheme, json) prog \<Rightarrow> ('w host_scheme, unit) prog \<Rightarrow> ('w host_scheme, json \<times> json \<times> json) prog" where
  "quiesce_owned sync verify_mutators_stopped =
     bindP (graceful_stop ''trail'') (\<lambda>trail_exit.
     seqP verify_mutators_stopped
     (bindP sync (\<lambda>cut.
     seqP (raise_when (\<lambda>_. any_of [notR (set_is cut DBS), some_not_u64 cut]) RuntimeError)
     (bindP (graceful_stop ''replicate'') (\<lambda>uploader_exit.
     ret (cut, trail_exit, uploader_exit))))))"

end
