(* ===== verification/Transition.thy ===== *)
theory Transition
  imports Node D3_Proof
begin

text \<open>
  \<open>hat/transition.py\<close>: the root-only operations of a node that the controller reaches through one forced
  command. A request is validated against the node's configuration and its current boot, recorded as an
  intent in the operation's directory, executed, and recorded as done; a second attempt at a recorded
  action is refused. The actions move a node between the writer and the standby role, and rest on the
  node being cold: no process of the demo, no automatic start, no current authority.
\<close>

section \<open>Requests\<close>

definition STATE :: string where "STATE = ''/var/lib/hat-node-control''"
definition CONFIG :: string where "CONFIG = ''/etc/hat-demo/node.json''"
definition REPLICA :: string where "REPLICA = ''/etc/hat-demo/litestream.yml''"
definition BACKUP_ENV :: string where "BACKUP_ENV = ''/etc/hat-demo/backup.env''"
definition DATA :: string where "DATA = BASE @ ''/depot/data''"

definition shapes :: "(string \<times> string list) list" where
  "shapes = [(''probe'', []), (''quiesce'', []), (''freeze'', [''cut'']), (''restore'', [''cut'']),
     (''prepare'', [''new_epoch'', ''signature'', ''fence_digest'']), (''activate'', []), (''inspect-frozen'', []),
     (''inspect-cold'', []), (''prepare-recovery'', [''source_epoch'']),
     (''restore-recovery'', [''cut'', ''fence_digest'']), (''rejoin'', [''new_epoch''])]"

definition role_is_not :: "json \<Rightarrow> string \<Rightarrow> bool res" where
  "role_is_not c role = item_not c ''role'' role"

definition prepare_payload_invalid :: "json \<Rightarrow> string \<Rightarrow> bool res" where
  "prepare_payload_invalid p operation = any_of
     [item_not p ''new_epoch'' (''d1-'' @ operation),
      itm p ''signature'' (\<lambda>s. Inr (\<not> is_obj s)), itm p ''signature'' (\<lambda>s. notR (set_is s DBS)),
      itm p ''signature'' (\<lambda>s. itm p ''fence_digest'' (\<lambda>d. bindR (values_of s)
        (\<lambda>vs. Inr (\<exists>v \<in> set (vs @ [d]). \<not> str_and v hex64))))]"

definition validate_request :: "json \<Rightarrow> json \<Rightarrow> string \<Rightarrow> unit res" where
  "validate_request r c boot =
     refuse_if [Inr (\<not> is_obj r), notR (set_is r [''action'', ''operation'', ''epoch'', ''boot_id'', ''payload''])]
     (itm r ''action'' (\<lambda>a.
     refuse_if
       [mapR Not (in_set a (map fst shapes)),
        itm r ''operation'' (\<lambda>o'. Inr (\<not> str_and o' hex32)),
        itm r ''epoch'' (\<lambda>e. itm c ''epoch'' (\<lambda>x. differs e x)),
        itm r ''boot_id'' (\<lambda>b. Inr (\<not> py_eq b (JStr boot)
          \<and> \<not> (in_tuple a [''probe'', ''inspect-cold''] \<and> b = JNull))),
        itm r ''payload'' (\<lambda>p. Inr (\<not> is_obj p)),
        itm r ''payload'' (\<lambda>p. notR (set_is p (case map_of shapes (str_val a) of Some ks \<Rightarrow> ks | None \<Rightarrow> [])))]
     (let action = str_val a in
     refuse_if [all_of [Inr (action \<in> {''quiesce'', ''activate'', ''rejoin''}), role_is_not c ''writer'']]
     (refuse_if [all_of [Inr (action \<in> {''freeze'', ''restore'', ''prepare'', ''inspect-frozen'', ''restore-recovery''}),
          role_is_not c ''standby'']]
     (refuse_if [all_of [Inr (action = ''prepare-recovery''), role_is_not c ''writer'']]
     (itm r ''payload'' (\<lambda>p. itm r ''operation'' (\<lambda>o'. let operation = str_val o' in
     bindR (if action \<in> {''freeze'', ''restore'', ''restore-recovery''} then itm p ''cut'' validate_cut else Inr ()) (\<lambda>_.
     refuse_if [all_of [Inr (action = ''prepare''), prepare_payload_invalid p operation]]
     (refuse_if [all_of [Inr (action = ''prepare-recovery''), itm p ''source_epoch'' (\<lambda>e. itm c ''epoch'' (\<lambda>x.
          Inr (e = JStr (''d1-'' @ operation) \<or> py_eq e x \<or> \<not> str_and e epoch_plus)))]]
     (refuse_if [all_of [Inr (action = ''restore-recovery''), itm p ''fence_digest'' (\<lambda>d. Inr (\<not> str_and d hex64))]]
     (refuse_if [all_of [Inr (action = ''rejoin''), itm p ''new_epoch'' (\<lambda>e. itm c ''epoch'' (\<lambda>x.
          Inr (e \<noteq> JStr (''d1-'' @ operation) \<or> py_eq e x)))]]
     (Inr ())))))))))))))"

section \<open>Commands\<close>

text \<open>\<open>subprocess.run\<close> with captured output: the answer has \<open>returncode\<close>, \<open>stdout\<close> and \<open>stderr\<close>.\<close>

definition command :: "string list \<Rightarrow> ('w host_scheme, json) prog" where
  "command args = hcall ''run'' (JArr (map JStr args))"

definition code_of :: "json \<Rightarrow> int" where "code_of p = int_val (fld p ''returncode'')"
definition out_of :: "json \<Rightarrow> string" where "out_of p = str_val (fld p ''stdout'')"
definition err_of :: "json \<Rightarrow> string" where "err_of p = str_val (fld p ''stderr'')"

definition RESTORE_OUTPUT_LIMIT :: nat where
  "RESTORE_OUTPUT_LIMIT = 64 * 1024"

text \<open>\<open>run\<close>: output retained in files, a failure reported, both outputs bounded.\<close>

definition run_command :: "string list \<Rightarrow> ('w host_scheme, string \<times> string) prog" where
  "run_command args =
     bindP (command args) (\<lambda>p.
     seqP (raise_when (\<lambda>_. Inr (code_of p \<noteq> 0)) RuntimeError)
     (seqP (raise_when (\<lambda>_. Inr (RESTORE_OUTPUT_LIMIT < length (out_of p)
        \<or> RESTORE_OUTPUT_LIMIT < length (err_of p))) RuntimeError)
     (ret (out_of p, err_of p))))"

definition status :: "('w host_scheme, json) prog" where
  "status = hcall ''status'' JNull"

section \<open>Restore evidence\<close>

text \<open>One line of the restore tool, by the pattern
  \<open>\s*txid\s*[:=]\s*(hex)\s+to_txid\s*[:=]\s*(hex)\s+position\s*[:=]\s*(0xhex|digits)\s*\<close>, without regard to
  case: labels, separators and values, each value read to its first character that cannot belong to it.\<close>

definition label :: "string \<Rightarrow> string \<Rightarrow> string option" where
  "label name s = (let r = dropWhile py_space s in
     if lower (take (length name) r) \<noteq> name then None
     else (case dropWhile py_space (drop (length name) r) of
        c # t \<Rightarrow> if c = CHR '':'' \<or> c = CHR ''='' then Some (dropWhile py_space t) else None
      | [] \<Rightarrow> None))"

definition is_hexany :: "char \<Rightarrow> bool" where
  "is_hexany c \<longleftrightarrow> hex_val (lower_char c) \<noteq> None"

definition hex_field :: "string \<Rightarrow> (nat \<times> string) option" where
  "hex_field s = (let d = takeWhile is_hexany s; r = dropWhile is_hexany s in
     if d = [] \<or> r = [] \<or> \<not> py_space (hd r) then None else Some (read_hex (lower d), r))"

text \<open>\<open>int(position, 0)\<close> refuses a decimal with a leading zero unless it is all zeros.\<close>

definition position_field :: "string \<Rightarrow> nat res option" where
  "position_field s = (let w = takeWhile (Not \<circ> py_space) s; r = dropWhile (Not \<circ> py_space) s in
     if dropWhile py_space r \<noteq> [] then None
     else if lower (take 2 w) = ''0x'' \<and> 2 < length w \<and> list_all is_hexany (drop 2 w)
       then Some (Inr (read_hex (lower (drop 2 w))))
     else if w \<noteq> [] \<and> list_all is_digit w
       then Some (if hd w = CHR ''0'' \<and> list_ex (\<lambda>c. c \<noteq> CHR ''0'') w then Inl ValueError else Inr (read_nat w))
     else None)"

definition restore_record :: "string \<Rightarrow> (nat \<times> nat \<times> nat) res" where
  "restore_record line =
     (case Option.bind (label ''txid'' line) hex_field of None \<Rightarrow> Inl ValueError
      | Some (a, r1) \<Rightarrow> (case Option.bind (label ''to_txid'' r1) hex_field of None \<Rightarrow> Inl ValueError
         | Some (b, r2) \<Rightarrow> (case Option.bind (label ''position'' r2) position_field of None \<Rightarrow> Inl ValueError
            | Some p \<Rightarrow> mapR (\<lambda>n. (a, b, n)) p)))"

definition same_records :: "(nat \<times> nat \<times> nat) list \<Rightarrow> int list \<Rightarrow> bool" where
  "same_records rs ps \<longleftrightarrow> sort (map (\<lambda>(a, b, n). [int a, int b, int n]) rs) = map (\<lambda>p. [p, p, p]) ps"

definition validate_restore_positions :: "string \<Rightarrow> json list \<Rightarrow> unit res" where
  "validate_restore_positions output expected =
     reraise [TypeError, ValueError, UnicodeError] RuntimeError
       (refuse_if [Inr (RESTORE_OUTPUT_LIMIT < length output)]
       (bindR (ascii_text output) (\<lambda>text.
       bindR (traverse restore_record (filter (\<lambda>l. strip l \<noteq> []) (splitlines text))) (\<lambda>records.
       bindR (py_sorted expected) (\<lambda>ps.
       refuse_if [Inr (ps = []), Inr (\<exists>p \<in> set ps. \<not> u64_pos p), Inr (length records \<noteq> length ps),
           Inr (\<not> distinct (map (snd \<circ> snd) records)), Inr (\<not> same_records records (map int_val ps))]
       (Inr ()))))))"

definition validate_restore_evidence :: "string \<Rightarrow> json \<Rightarrow> unit res" where
  "validate_restore_evidence output wanted =
     reraise [TypeError, ValueError, RuntimeError] RuntimeError
       (refuse_if [Inr (\<not> is_obj wanted)] (bindR (values_of wanted) (validate_restore_positions output)))"

section \<open>Cold safety\<close>

definition empty_cgroup :: "('w host_scheme, unit) prog" where
  "empty_cgroup = bindP (hcall ''cgroup.procs'' JNull) (\<lambda>procs.
     raise_when (\<lambda>_. Inr (strip (str_val procs) \<noteq> [])) RuntimeError)"

definition parse_pids :: "string \<Rightarrow> int list res" where
  "parse_pids out = reraise [ValueError] RuntimeError (traverse (\<lambda>w.
     if w \<noteq> [] \<and> list_all is_digit w then Inr (int (read_nat w)) else Inl ValueError)
     (split_space out))"

definition pgrep :: "string \<Rightarrow> ('w host_scheme, int list) prog" where
  "pgrep name = bindP (command [''pgrep'', ''-x'', name]) (\<lambda>p.
     if code_of p = 1 \<and> strip (err_of p) = [] then ret []
     else if code_of p \<noteq> 0 \<or> strip (err_of p) \<noteq> [] then raiseP RuntimeError
     else lift (parse_pids (out_of p)))"

definition no_known_mutators :: "('w host_scheme, unit) prog" where
  "no_known_mutators =
     bindP (pgrep ''trail'') (\<lambda>a. seqP (raise_when (\<lambda>_. Inr (a \<noteq> [])) RuntimeError)
     (bindP (pgrep ''trailbase'') (\<lambda>b. seqP (raise_when (\<lambda>_. Inr (b \<noteq> [])) RuntimeError)
     (bindP (pgrep ''litestream'') (\<lambda>l. raise_when (\<lambda>_. Inr (l \<noteq> [])) RuntimeError)))))"

definition follower_argv :: "string \<Rightarrow> string list" where
  "follower_argv db = (let data = BASE @ ''/depot/data/'' @ db @ ''.db'' in
     [BIN @ ''/litestream'', ''restore'', ''-config'', REPLICA, ''-f'', ''-follow-interval'', ''1s'', ''-o'', data, data])"

definition follower_database :: "string list \<Rightarrow> string res" where
  "follower_database argv = (case find (\<lambda>db. argv = follower_argv db) DBS of
     None \<Rightarrow> Inl RuntimeError | Some db \<Rightarrow> Inr db)"

definition rstrip_nul :: "string \<Rightarrow> string" where
  "rstrip_nul s = rev (dropWhile (\<lambda>c. c = CHR 0x00) (rev s))"

text \<open>A word that is not UTF-8 raises; bytes above 127 are outside the model, as everywhere.\<close>

definition process_commandline :: "int \<Rightarrow> ('w host_scheme, string list) prog" where
  "process_commandline pid = converting [OSError, UnicodeError, RuntimeError] RuntimeError
     (bindP (\<lambda>s. (h_read (''/proc/'' @ show_int pid @ ''/cmdline'') s, s)) (\<lambda>raw.
      let argv = split_on (CHR 0x00) (rstrip_nul raw) in
      seqP (raise_when (\<lambda>_. Inr (\<exists>w \<in> set argv. w = [])) RuntimeError)
      (lift (traverse ascii_text argv))))"

fun follower_databases :: "int list \<Rightarrow> ('w host_scheme, string list) prog" where
  "follower_databases [] = ret []"
| "follower_databases (pid # pids) =
     bindP (process_commandline pid) (\<lambda>argv. bindP (lift (follower_database argv)) (\<lambda>db.
     bindP (follower_databases pids) (\<lambda>dbs. ret (db # dbs))))"

definition no_writer_processes :: "('w host_scheme, unit) prog" where
  "no_writer_processes =
     bindP (pgrep ''trail'') (\<lambda>a. seqP (raise_when (\<lambda>_. Inr (a \<noteq> [])) RuntimeError)
     (bindP (pgrep ''trailbase'') (\<lambda>b. seqP (raise_when (\<lambda>_. Inr (b \<noteq> [])) RuntimeError)
     (bindP (pgrep ''litestream'') (\<lambda>pids. bindP (follower_databases pids) (\<lambda>_. ret ()))))))"

definition service_safety :: "('w host_scheme, json) prog" where
  "service_safety =
     bindP (command [''systemctl'', ''is-enabled'', ''hat-demo.service'']) (\<lambda>e.
     let enabled = strip (out_of e) in
     seqP (raise_when (\<lambda>_. Inr (code_of e \<notin> {0, 1} \<or> enabled \<notin> {''static'', ''disabled''})) RuntimeError)
     (bindP (command [''systemctl'', ''show'', ''-p'', ''Restart'', ''--value'', ''hat-demo.service'']) (\<lambda>r.
     seqP (raise_when (\<lambda>_. Inr (code_of r \<noteq> 0 \<or> strip (out_of r) \<noteq> ''no'')) RuntimeError)
     (seqP (forP [''hat-trailbase.service'', ''hat-litestream.service''] (\<lambda>u.
        bindP (command [''systemctl'', ''is-enabled'', u]) (\<lambda>p.
        raise_when (\<lambda>_. Inr (code_of p \<notin> {0, 1} \<or> strip (out_of p) \<noteq> ''masked'')) RuntimeError)))
     (ret (JObj [(''node_service'', JStr enabled), (''restart'', JStr ''no''), (''legacy_services'', JStr ''masked'')]))))))"

definition cold_safety :: "('w host_scheme, json) prog" where
  "cold_safety = seqP empty_cgroup (bindP service_safety (\<lambda>services. seqP no_known_mutators (ret services)))"

section \<open>Authority\<close>

text \<open>\<open>'unsafe'\<close> is returned for a link, another owner, mode or link count.\<close>

definition authority_value_invalid :: "json \<Rightarrow> bool res" where
  "authority_value_invalid v = any_of
     [Inr (\<not> is_obj v), notR (set_is v [''role'', ''epoch'', ''boot_id'']), item_not v ''role'' ''writer'',
      itm v ''epoch'' (\<lambda>e. Inr (\<not> str_and e epoch_plus)),
      itm v ''boot_id'' (\<lambda>b. Inr (\<not> str_and b (\<lambda>t. t \<noteq> [])))]"

definition read_authority :: "'w host_scheme \<Rightarrow> json option res" where
  "read_authority s = reraise [OSError, ValueError, TypeError, KeyError] RuntimeError
     (bindR (h_lstat AUTHORITY s) (\<lambda>n.
      if h_is_symlink AUTHORITY s \<or> h_uid n \<noteq> 0 \<or> h_mode n mod 4096 \<noteq> 420 \<or> h_nlink n \<noteq> 1 then Inr None
      else bindR (regular_file AUTHORITY s) (\<lambda>_. mapR Some (h_loads AUTHORITY s))))"

definition authority_state_value :: "json \<Rightarrow> 'w host_scheme \<Rightarrow> string res" where
  "authority_state_value c s =
     (if \<not> h_there AUTHORITY s then Inr ''absent''
      else bindR (read_authority s) (\<lambda>found. case found of None \<Rightarrow> Inr ''unsafe''
       | Some v \<Rightarrow>
          raise_if (authority_value_invalid v) RuntimeError
          (bindR (boot_now s) (\<lambda>boot.
          got v ''boot_id'' (\<lambda>b.
            if py_eq b (JStr boot) then
              itm c ''role'' (\<lambda>role. itm c ''epoch'' (\<lambda>epoch.
              if \<not> authorized role epoch (JStr boot) v then Inl RuntimeError else Inr ''current''))
            else got v ''epoch'' (\<lambda>epoch.
              if \<not> authorized (JStr ''writer'') epoch b v then Inl RuntimeError else Inr ''stale''))))))"

definition authority_state :: "json \<Rightarrow> ('w host_scheme, string) prog" where
  "authority_state c s = (authority_state_value c s, s)"

definition sha_file :: "string \<Rightarrow> ('w host_scheme, json) prog" where
  "sha_file p s = (mapR (\<lambda>b. JStr (sha256_hex b)) (h_read p s), s)"

definition text_file :: "string \<Rightarrow> ('w host_scheme, string) prog" where
  "text_file p s = (h_text p s, s)"

definition inspect_cold :: "json \<Rightarrow> json \<Rightarrow> ('w host_scheme, json) prog" where
  "inspect_cold r c =
     bindP cold_safety (\<lambda>services.
     bindP (authority_state c) (\<lambda>auth.
     seqP (raise_when (\<lambda>_. Inr (auth = ''unsafe'')) RuntimeError)
     (seqP (raise_when (\<lambda>_. all_of [Inr (auth = ''current''), itm c ''role'' (\<lambda>x. Inr (x = JStr ''writer''))]) RuntimeError)
     (bindP (lift (getitem r ''operation'')) (\<lambda>operation. bindP (lift (getitem c ''epoch'')) (\<lambda>epoch.
     bindP boot_id (\<lambda>boot. bindP (text_file REPLICA) (\<lambda>replica. bindP (sha_file CONFIG) (\<lambda>cs. bindP (sha_file REPLICA) (\<lambda>rs.
     ret (JObj [(''operation'', operation), (''epoch'', epoch), (''boot_id'', JStr boot), (''authority'', JStr auth),
       (''services'', services), (''cgroup'', JStr ''empty''), (''mutators'', JStr ''none''), (''config'', c),
       (''replica_config'', JStr replica), (''config_sha'', cs), (''replica_sha'', rs)])))))))))))"

end
