(* ===== verification/Actions.thy ===== *)
theory Actions
  imports Transition
begin

text \<open>
  The actions of \<open>hat/transition.py\<close>: preparing and restoring a recovery, rejoining as a standby,
  quiescing, freezing, preparing and activating, and the dispatcher that records each of them once.
  Loops that poll until a deadline take a number of rounds; \<open>StopIteration\<close> marks that it was too small,
  and a clock that moves with the sleeps excludes it for the numbers used.
\<close>

section \<open>Polling\<close>

fun await :: "nat \<Rightarrow> rat \<Rightarrow> rat \<Rightarrow> ('w host_scheme, 'a option) prog \<Rightarrow> ('w host_scheme, 'a) prog" where
  "await 0 deadline pause attempt = raiseP StopIteration"
| "await (Suc n) deadline pause attempt = bindP attempt (\<lambda>r. case r of
     Some x \<Rightarrow> ret x
   | None \<Rightarrow> bindP monotonic (\<lambda>now.
       if now > deadline then raiseP RuntimeError
       else seqP (sleep pause) (await n deadline pause attempt)))"

section \<open>Files of an operation\<close>

text \<open>One line of the replica configuration: blanks, \<open>path:\<close>, blanks, the old prefix, blanks and a comment;
  a carriage return may end it.\<close>

definition blank :: "char \<Rightarrow> bool" where
  "blank c \<longleftrightarrow> c = CHR '' '' \<or> c = CHR 0x09"

definition replace_line :: "string \<Rightarrow> string \<Rightarrow> string \<Rightarrow> string option" where
  "replace_line old new line = (let indent = takeWhile blank line; r1 = dropWhile blank line in
     case strip_prefix ''path:'' r1 of None \<Rightarrow> None
     | Some r2 \<Rightarrow> (let gap = takeWhile blank r2 in
         case strip_prefix old (dropWhile blank r2) of None \<Rightarrow> None
         | Some r3 \<Rightarrow> (case dropWhile blank r3 of
               [] \<Rightarrow> Some (indent @ ''path:'' @ gap @ new @ r3)
             | c # t \<Rightarrow> if c = CHR ''#'' \<or> (c = CHR 0x0D \<and> t = [])
                 then Some (indent @ ''path:'' @ gap @ new @ r3) else None)))"

definition replace_db_prefix :: "string \<Rightarrow> string \<Rightarrow> string \<Rightarrow> string \<Rightarrow> string res" where
  "replace_db_prefix old_epoch new_epoch config db =
     (let old = ''demos/'' @ old_epoch @ ''/'' @ db; new = ''demos/'' @ new_epoch @ ''/'' @ db;
          ls = split_on (CHR 0x0A) config in
      if length (filter (\<lambda>l. replace_line old new l \<noteq> None) ls) \<noteq> 1 then Inl RuntimeError
      else Inr (join_with [CHR 0x0A] (map (\<lambda>l. case replace_line old new l of Some m \<Rightarrow> m | None \<Rightarrow> l) ls)))"

definition replace_replica_prefix :: "string \<Rightarrow> string \<Rightarrow> string \<Rightarrow> string res" where
  "replace_replica_prefix config old_epoch new_epoch =
     foldR (replace_db_prefix old_epoch new_epoch) config DBS"

definition account :: "('w host_scheme, nat \<times> nat) prog" where
  "account = bindP (hcall ''getpwnam'' (JStr ''hat-demo'')) (\<lambda>v.
     ret (nat (int_val (fld v ''uid'')), nat (int_val (fld v ''gid''))))"

definition write_replica :: "string \<Rightarrow> ('w host_scheme, unit) prog" where
  "write_replica config =
     seqP (create_new RegularNode (pending_name REPLICA) 416 [])
     (bindP account (\<lambda>(uid, gid).
     seqP (chown (pending_name REPLICA) 0 gid)
     (seqP (modify (\<lambda>s. s\<lparr>fs := alter (pending_name REPLICA) (\<lambda>n. n\<lparr>h_bytes := config\<rparr>) (fs s)\<rparr>))
     (rename (pending_name REPLICA) REPLICA))))"

definition retain_file :: "string \<Rightarrow> string \<Rightarrow> ('w host_scheme, unit) prog" where
  "retain_file path destination =
     seqP (bindP (\<lambda>s. (regular_file path s, s)) (\<lambda>_. ret ()))
     (seqP (raise_when (\<lambda>s. Inr (h_there destination s)) RuntimeError)
     (copy2 path destination))"

definition record_path :: "string \<Rightarrow> string \<Rightarrow> string" where
  "record_path wdir name = wdir @ ''/'' @ name @ ''.json''"

definition completed_value :: "string \<Rightarrow> string \<Rightarrow> 'w host_scheme \<Rightarrow> json option res" where
  "completed_value wdir name s = (let path = record_path wdir name in
     if \<not> h_there path s then Inr None
     else bindR (h_lstat path s) (\<lambda>n.
       if h_is_symlink path s \<or> \<not> h_is_file path s \<or> h_uid n \<noteq> huid s \<or> h_mode n mod 64 \<noteq> 0 \<or> h_nlink n \<noteq> 1
       then Inl ValueError
       else bindR (h_loads path s) (\<lambda>v. raise_if (got_not v ''status'' ''done'') RuntimeError (Inr (Some v)))))"

definition completed_record :: "string \<Rightarrow> string \<Rightarrow> ('w host_scheme, json option) prog" where
  "completed_record wdir name s = (completed_value wdir name s, s)"

text \<open>\<open>dict(c, role=..., epoch=..., bootstrap=False)\<close>.\<close>

definition future_config :: "json \<Rightarrow> string \<Rightarrow> json \<Rightarrow> json res" where
  "future_config c role epoch = bindR (items_of c) (\<lambda>kvs. Inr (JObj
     (dict_set (dict_set (dict_set kvs ''role'' (JStr role)) ''epoch'' epoch) ''bootstrap'' (JBool False))))"

text \<open>The configuration file and the replica configuration of the new epoch, checked by loading it.\<close>

definition install_config :: "json \<Rightarrow> string \<Rightarrow> ('w host_scheme, unit) prog" where
  "install_config future config =
     seqP (atomic_json CONFIG future 416)
     (bindP account (\<lambda>(uid, gid).
     seqP (chown CONFIG 0 gid)
     (seqP (write_replica config)
     (bindP (load_config CONFIG) (\<lambda>_. ret ())))))"

definition epoch_text :: "json \<Rightarrow> string res" where
  "epoch_text v = (case v of JStr s \<Rightarrow> Inr s | _ \<Rightarrow> Inl TypeError)"

definition new_replica_text :: "json \<Rightarrow> json \<Rightarrow> ('w host_scheme, string) prog" where
  "new_replica_text old new = bindP (text_file REPLICA) (\<lambda>config.
     lift (bindR (epoch_text old) (\<lambda>a. bindR (epoch_text new) (\<lambda>b. replace_replica_prefix config a b))))"

section \<open>Recovery\<close>

definition prepare_recovery :: "json \<Rightarrow> json \<Rightarrow> string \<Rightarrow> ('w host_scheme, json) prog" where
  "prepare_recovery r c wdir =
     seqP (bindP cold_safety (\<lambda>_. ret ()))
     (bindP (authority_state c) (\<lambda>auth.
     seqP (raise_when (\<lambda>_. Inr (auth = ''current'' \<or> auth = ''unsafe'')) RuntimeError)
     (bindP (lift (itm r ''payload'' (\<lambda>p. getitem p ''source_epoch''))) (\<lambda>source_epoch.
     bindP (sha_file CONFIG) (\<lambda>config_sha. bindP (sha_file REPLICA) (\<lambda>replica_sha.
     seqP (retain_file CONFIG (wdir @ ''/original-config.json''))
     (seqP (retain_file REPLICA (wdir @ ''/original-litestream.yml''))
     (bindP (lift (getitem c ''epoch'')) (\<lambda>epoch.
     bindP (new_replica_text epoch source_epoch) (\<lambda>config.
     bindP (lift (future_config c ''standby'' source_epoch)) (\<lambda>future.
     seqP (install_config future config)
     (bindP (lift (getitem r ''operation'')) (\<lambda>operation. bindP (lift (getitem r ''boot_id'')) (\<lambda>boot.
     ret (JObj [(''operation'', operation), (''original_epoch'', epoch), (''original_boot_id'', boot),
       (''original_config_sha'', config_sha), (''original_replica_sha'', replica_sha),
       (''epoch'', source_epoch), (''role'', JStr ''standby'')])))))))))))))))"

definition credential_line :: "(string \<times> json) list \<Rightarrow> string \<Rightarrow> (string \<times> json) list res" where
  "credential_line acc line = (case cut_at ''='' line of
     None \<Rightarrow> Inl ValueError
   | Some (key, v) \<Rightarrow> if key \<in> fst ` set acc then Inl ValueError
       else mapR (\<lambda>x. acc @ [(key, x)]) (loads v))"

definition CREDENTIALS :: "string list" where
  "CREDENTIALS = [''IDRIVE_ACCESS_KEY_ID'', ''IDRIVE_SECRET_ACCESS_KEY'']"

definition backup_credentials :: "'w host_scheme \<Rightarrow> (string \<times> json) list res" where
  "backup_credentials s =
     bindR (regular_file BACKUP_ENV s) (\<lambda>n.
     if h_uid n \<noteq> 0 \<or> h_mode n mod 64 \<noteq> 0 then Inl ValueError
     else bindR (h_text BACKUP_ENV s) (\<lambda>text.
       bindR (foldR credential_line [] (splitlines text)) (\<lambda>kvs.
       if fst ` set kvs \<noteq> set CREDENTIALS \<or> (\<exists>(k, v) \<in> set kvs. \<not> str_and v (\<lambda>t. t \<noteq> []))
       then Inl ValueError else Inr kvs)))"

fun hex_digits :: "nat \<Rightarrow> nat \<Rightarrow> string" where
  "hex_digits 0 n = []"
| "hex_digits (Suc k) n = hex_digits k (n div 16) @ [hex_char (n mod 16)]"

text \<open>The output of one restore: a private file of its own.\<close>

definition restored_unsafe :: "string \<Rightarrow> 'w host_scheme \<Rightarrow> bool res" where
  "restored_unsafe output s = reraise [OSError] RuntimeError (bindR (h_lstat output s) (\<lambda>n.
     Inr (\<not> h_is_file output s \<or> h_is_symlink output s \<or> h_nlink n \<noteq> 1 \<or> h_uid n \<noteq> huid s
       \<or> h_mode n mod 64 \<noteq> 0 \<or> linked_parent output s)))"

definition restore_one :: "string \<Rightarrow> string \<times> json \<Rightarrow> ('w host_scheme, unit) prog" where
  "restore_one dir e = (case e of (db, position) \<Rightarrow> let output = dir @ ''/'' @ db @ ''.db'' in
     bindP (run_command [BIN @ ''/litestream'', ''restore'', ''-config'', REPLICA, ''-txid'',
         hex_digits 16 (nat (int_val position)), ''-o'', output, BASE @ ''/depot/data/'' @ db @ ''.db'']) (\<lambda>(out, err).
     seqP (lift (validate_restore_evidence (out @ [CHR 0x0A] @ err) (JObj [(db, position)])))
     (raise_when (restored_unsafe output) RuntimeError)))"

text \<open>\<open>logical_signature\<close>: the databases are validated, then each is digested, by size, integrity and rows.\<close>

fun signatures :: "string \<Rightarrow> string list \<Rightarrow> ('w host_scheme, (string \<times> json) list) prog" where
  "signatures dir [] = ret []"
| "signatures dir (db # dbs) =
     bindP (hcall ''size'' (JStr (db_file dir db))) (\<lambda>size.
     seqP (raise_when (\<lambda>_. Inr (int_val size > 64 * 1024 * 1024)) ValueError)
     (bindP (hcall ''PRAGMA integrity_check'' (JStr (db_file dir db))) (\<lambda>ok.
     bindP (hcall ''PRAGMA foreign_key_check'' (JStr (db_file dir db))) (\<lambda>broken.
     seqP (raise_when (\<lambda>_. Inr (ok \<noteq> JStr ''ok'' \<or> truthy broken)) ValueError)
     (bindP (hcall ''SELECT schema and sorted rows'' (JStr (db_file dir db))) (\<lambda>rows.
     bindP (signatures dir dbs) (\<lambda>ss. ret ((db, JStr (sha256_hex (str_val rows))) # ss))))))))"

definition logical_signature :: "string \<Rightarrow> ('w host_scheme, json) prog" where
  "logical_signature dir = seqP (validate_databases dir False)
     (bindP (signatures dir DBS) (\<lambda>kvs. ret (JObj kvs)))"

definition finite_restore :: "json \<Rightarrow> string \<Rightarrow> ('w host_scheme, json) prog" where
  "finite_restore wanted dir =
     bindP (\<lambda>s. (backup_credentials s, s)) (\<lambda>_.
     seqP (mkdir dir 448)
     (bindP (\<lambda>s. (h_lstat dir s, s)) (\<lambda>n.
     seqP (raise_when (\<lambda>s. Inr (\<not> h_is_dir dir s \<or> h_is_symlink dir s \<or> h_uid n \<noteq> huid s
        \<or> h_mode n mod 64 \<noteq> 0 \<or> linked_parent dir s)) RuntimeError)
     (bindP (lift (items_of wanted)) (\<lambda>kvs.
     seqP (forP kvs (restore_one dir))
     (logical_signature dir))))))"

definition preparation_differs :: "json \<Rightarrow> json \<Rightarrow> json \<Rightarrow> bool res" where
  "preparation_differs prepared r c =
     bindR (get_or prepared ''request'' (JObj [])) (\<lambda>request.
     bindR (get_or prepared ''result'' (JObj [])) (\<lambda>result. any_of
       [got request ''operation'' (\<lambda>x. itm r ''operation'' (\<lambda>y. differs x y)),
        got request ''epoch'' (\<lambda>x. got result ''original_epoch'' (\<lambda>y. differs x y)),
        got request ''boot_id'' (\<lambda>x. itm r ''boot_id'' (\<lambda>y. differs x y)),
        bindR (get_or request ''payload'' (JObj [])) (\<lambda>p. got p ''source_epoch'' (\<lambda>x. itm c ''epoch'' (\<lambda>y. differs x y))),
        got result ''epoch'' (\<lambda>x. itm c ''epoch'' (\<lambda>y. differs x y)),
        got_not result ''role'' ''standby'',
        got result ''original_boot_id'' (\<lambda>x. got request ''boot_id'' (\<lambda>y. differs x y))]))"

definition restore_recovery :: "json \<Rightarrow> json \<Rightarrow> string \<Rightarrow> ('w host_scheme, json) prog" where
  "restore_recovery r c wdir =
     seqP (bindP cold_safety (\<lambda>_. ret ()))
     (bindP (completed_record wdir ''prepare-recovery'') (\<lambda>found.
     case found of None \<Rightarrow> raiseP RuntimeError
     | Some prepared \<Rightarrow>
     seqP (raise_when (\<lambda>_. preparation_differs prepared r c) RuntimeError)
     (bindP (lift (itm r ''payload'' (\<lambda>p. getitem p ''cut''))) (\<lambda>wanted.
     let dir = wdir @ ''/fresh-restore'' in
     seqP (raise_when (\<lambda>s. Inr (h_there dir s)) RuntimeError)
     (bindP (finite_restore wanted dir) (\<lambda>signature.
     lift (itm r ''operation'' (\<lambda>operation. itm prepared ''result'' (\<lambda>result.
       itm result ''original_epoch'' (\<lambda>oe. itm result ''original_boot_id'' (\<lambda>ob.
       itm c ''epoch'' (\<lambda>epoch. itm r ''payload'' (\<lambda>p. itm p ''fence_digest'' (\<lambda>fence. itm r ''boot_id'' (\<lambda>boot.
       Inr (JObj [(''operation'', operation), (''original_epoch'', oe), (''original_boot_id'', ob), (''epoch'', epoch),
         (''cut'', wanted), (''signature'', signature), (''fence_digest'', fence), (''source_epoch'', epoch),
         (''request'', JObj [(''operation'', operation), (''epoch'', epoch), (''boot_id'', boot)])]))))))))))))))))"

end
