(* ===== verification/Dispatch.thy ===== *)
theory Dispatch
  imports Actions
begin

text \<open>
  The actions that move a node between roles and the dispatcher of \<open>hat/transition.py\<close>: rejoining as a
  standby, quiescing the writer, freezing and restoring the candidate, preparing and activating it, and
  \<open>main\<close>, which validates a request, answers the read-only ones, and records every other action before
  and after it executes.
\<close>

section \<open>A standby that starts\<close>

definition initial_refusals :: "string list" where
  "initial_refusals = [''starting'', ''position sample stale or clock changed'', ''required database positions unconfirmed'']"

definition startup_refusals :: "string list" where
  "startup_refusals = [''starting'', ''required database positions unconfirmed''] @
     concat (map (\<lambda>db. [db @ '': database not yet restored'', db @ '': position unconfirmed'']) DBS)"

definition standby_identity_differs :: "json \<Rightarrow> json \<Rightarrow> bool res" where
  "standby_identity_differs value epoch = any_of
     [Inr (\<not> is_obj value), got_not value ''role'' ''standby'', got value ''epoch'' (\<lambda>e. differs e epoch),
      got value ''healthy'' (\<lambda>h. Inr (\<not> is_bool h))]"

definition bounded_phase :: "json \<Rightarrow> bool" where
  "bounded_phase phase \<longleftrightarrow> phase = JNull \<or> in_tuple phase [''starting'', ''restoring'']"

definition produced_initially :: "json \<Rightarrow> json \<Rightarrow> json list \<Rightarrow> bool res" where
  "produced_initially value phase refusals = all_of
     [got value ''sampled_at'' (\<lambda>x. Inr (py_eq x (JInt 0))), got value ''positions'' (\<lambda>x. Inr (py_eq x (JObj []))),
      got value ''processes'' (\<lambda>x. Inr (x = JNull)), Inr (phase = JNull),
      Inr (set refusals = JStr ` set initial_refusals), Inr (length refusals = length initial_refusals),
      itm value ''healthy'' (\<lambda>h. Inr (\<not> truthy h))]"

definition some_behind :: "json \<Rightarrow> (string \<times> json) list \<Rightarrow> bool res" where
  "some_behind positions kvs = any_of (map (\<lambda>(db, position). all_of
     [contains positions db, itm positions db (\<lambda>x. py_less x position)]) kvs)"

definition process_map_bad :: "json \<Rightarrow> bool res" where
  "process_map_bad processes = any_of
     [Inr (\<not> is_obj processes), notR (set_is processes DBS),
      bindR (values_of processes) (\<lambda>vs. Inr (\<exists>v \<in> set vs. v \<noteq> JBool True))]"

definition standby_health :: "json \<Rightarrow> json \<Rightarrow> (string \<times> json) list \<Rightarrow> json option \<Rightarrow> json res" where
  "standby_health value epoch wanted boot =
     raise_if (standby_identity_differs value epoch) RuntimeError
     (raise_if (case boot of None \<Rightarrow> Inr False | Some b \<Rightarrow> all_of
        [contains value ''boot_id'', itm value ''boot_id'' (\<lambda>x. differs x b)]) RuntimeError
     (raise_if (got value ''trailbase_running'' (\<lambda>x. Inr (x \<noteq> JBool False \<and> x \<noteq> JNull))) RuntimeError
     (got value ''phase'' (\<lambda>phase. got value ''refusals'' (\<lambda>refused.
     raise_if (Inr (\<not> is_arr refused)) RuntimeError
     (bindR (iter_of refused) (\<lambda>refusals.
     raise_if (Inr (\<exists>x \<in> set refusals. \<not> is_str x)) RuntimeError
     (bindR (produced_initially value phase refusals) (\<lambda>initial. if initial then Inr value else
     raise_if (Inr (\<exists>x \<in> set refusals. \<not> in_tuple x startup_refusals)) RuntimeError
     (raise_if (Inr (\<not> bounded_phase phase)) RuntimeError
     (got value ''positions'' (\<lambda>positions.
     raise_if (any_of [Inr (\<not> is_obj positions), notR (set_within positions DBS)]) RuntimeError
     (bindR (values_of positions) (\<lambda>vs.
     raise_if (Inr (\<exists>v \<in> set vs. \<not> int_and v (\<lambda>n. 0 < n))) RuntimeError
     (raise_if (some_behind positions wanted) RuntimeError
     (got value ''processes'' (\<lambda>processes.
     raise_if (process_map_bad processes) RuntimeError
     (itm value ''healthy'' (\<lambda>healthy.
     if truthy healthy then
       raise_if (any_of [notR (set_is positions DBS), Inr (processes = JNull), Inr (refusals \<noteq> []),
          Inr (phase \<noteq> JNull), got value ''trailbase_running'' (\<lambda>x. Inr (x \<noteq> JBool False))]) RuntimeError (Inr value)
     else raise_if (Inr (\<not> bounded_phase phase)) RuntimeError (Inr value))))))))))))))))))))"

definition standby_processes_alive :: "json \<Rightarrow> ('w host_scheme, unit) prog" where
  "standby_processes_alive value =
     bindP (lift (get_none value ''processes'')) (\<lambda>processes.
     seqP (raise_when (\<lambda>_. process_map_bad processes) RuntimeError)
     (bindP (pgrep ''litestream'') (\<lambda>pids.
     seqP (raise_when (\<lambda>_. Inr (length pids \<noteq> length DBS)) RuntimeError)
     (bindP (follower_databases pids) (\<lambda>databases.
     raise_when (\<lambda>_. Inr (set databases \<noteq> set DBS)) RuntimeError)))))"

section \<open>Rejoining\<close>

text \<open>The deadline of a loop, in seconds from now, and the rounds the model gives it.\<close>

definition polling :: "nat \<Rightarrow> rat \<Rightarrow> rat \<Rightarrow> ('w host_scheme, 'a option) prog \<Rightarrow> ('w host_scheme, 'a) prog" where
  "polling rounds seconds pause attempt =
     bindP monotonic (\<lambda>now. await rounds (now + seconds) pause attempt)"

definition put_aside :: "string \<Rightarrow> string \<Rightarrow> ('w host_scheme, unit) prog" where
  "put_aside path retained =
     seqP (raise_when (\<lambda>s. Inr (h_there retained s)) RuntimeError) (rename path retained)"

definition boot_must_be :: "json \<Rightarrow> ('w host_scheme, unit) prog" where
  "boot_must_be r = bindP boot_id (\<lambda>boot.
     raise_when (\<lambda>_. itm r ''boot_id'' (\<lambda>b. differs (JStr boot) b)) RuntimeError)"

definition started_standby :: "json \<Rightarrow> json \<Rightarrow> ('w host_scheme, json option) prog" where
  "started_standby epoch boot = catching [OSError, URLError]
     (bindP status (\<lambda>v. bindP (lift (standby_health v epoch (map (\<lambda>db. (db, JInt 1)) DBS) (Some boot))) (\<lambda>value.
      bindP (lift (get_none value ''processes'')) (\<lambda>processes.
      seqP (if processes \<noteq> JNull then standby_processes_alive value else ret ())
      (bindP (lift (get_none value ''healthy'')) (\<lambda>healthy.
      ret (if truthy healthy then Some value else None)))))))
     (ret None)"

definition META :: string where "META = BASE @ ''/meta''"

definition rejoin :: "json \<Rightarrow> json \<Rightarrow> string \<Rightarrow> ('w host_scheme, json) prog" where
  "rejoin r c wdir =
     seqP (bindP cold_safety (\<lambda>_. ret ()))
     (seqP (boot_must_be r)
     (bindP (authority_state c) (\<lambda>auth.
     seqP (raise_when (\<lambda>_. Inr (auth = ''current'' \<or> auth = ''unsafe'')) RuntimeError)
     (bindP (lift (itm r ''payload'' (\<lambda>p. getitem p ''new_epoch''))) (\<lambda>new_epoch.
     bindP (sha_file CONFIG) (\<lambda>config_sha. bindP (sha_file REPLICA) (\<lambda>replica_sha.
     seqP (retain_file CONFIG (wdir @ ''/original-config.json''))
     (seqP (retain_file REPLICA (wdir @ ''/original-litestream.yml''))
     (bindP (gets (h_there AUTHORITY)) (\<lambda>activated.
     seqP (if activated then seqP (retain_file AUTHORITY (wdir @ ''/original-activation.json'')) (unlink AUTHORITY) else ret ())
     (seqP (raise_when (\<lambda>s. Inr (h_is_symlink META s \<or> linked_parent META s)) RuntimeError)
     (bindP (lift (mapR str_val (getitem r ''operation''))) (\<lambda>operation.
     bindP (gets (h_exists META)) (\<lambda>has_meta.
     seqP (if has_meta then put_aside META (BASE @ ''/retained-meta-'' @ operation) else ret ())
     (seqP (raise_when (\<lambda>s. Inr (h_is_symlink DATA s \<or> \<not> h_is_dir DATA s \<or> linked_parent DATA s)) RuntimeError)
     (seqP (put_aside DATA (BASE @ ''/retained-data-'' @ operation))
     (seqP (mkdir DATA 448)
     (bindP account (\<lambda>(uid, gid).
     seqP (chown DATA uid gid)
     (bindP (lift (getitem c ''epoch'')) (\<lambda>epoch.
     bindP (new_replica_text epoch new_epoch) (\<lambda>config.
     bindP (lift (future_config c ''standby'' new_epoch)) (\<lambda>future.
     seqP (atomic_json CONFIG future 416)
     (seqP (chown CONFIG 0 gid)
     (seqP (write_replica config)
     (bindP (load_config CONFIG) (\<lambda>_.
     bindP (hcall ''run checked'' (JArr (map JStr [''systemctl'', ''start'', ''hat-demo.service'']))) (\<lambda>_.
     seqP (boot_must_be r)
     (bindP (lift (getitem r ''boot_id'')) (\<lambda>boot.
     bindP (polling 92 90 1 (started_standby new_epoch boot)) (\<lambda>value.
     seqP no_writer_processes
     (lift (itm r ''operation'' (\<lambda>o'. itm value ''positions'' (\<lambda>positions.
        Inr (JObj [(''operation'', o'), (''original_epoch'', epoch), (''original_boot_id'', boot),
          (''original_config_sha'', config_sha), (''original_replica_sha'', replica_sha), (''epoch'', new_epoch),
          (''role'', JStr ''standby''), (''cut'', positions), (''healthy'', JBool True)]))))))))))))))))))))))))))))))))))))"

section \<open>Quiescing and freezing\<close>

text \<open>\<open>int(b)\<close> of a command's output: blanks around, a sign, digits, single underscores between them.\<close>

definition int_text :: "string \<Rightarrow> int res" where
  "int_text s = (let w = strip s;
      (negative, d) = (case w of c # t \<Rightarrow> if c = CHR ''-'' then (True, t) else if c = CHR ''+'' then (False, t) else (False, w)
         | [] \<Rightarrow> (False, w));
      parts = split_on (CHR ''_'') d in
     if list_all (\<lambda>p. p \<noteq> [] \<and> list_all is_digit p) parts
     then Inr ((if negative then -1 else 1) * int (read_nat (concat parts))) else Inl ValueError)"

definition cgroup_pids :: "('w host_scheme, int list) prog" where
  "cgroup_pids = bindP (hcall ''cgroup.procs'' JNull) (\<lambda>v. lift (traverse int_text (split_space (str_val v))))"

definition quiesced_value :: "json \<Rightarrow> ('w host_scheme, json option) prog" where
  "quiesced_value r = bindP status (\<lambda>value. lift (bindR (all_of
     [got value ''phase'' (\<lambda>p. Inr (py_eq p (JStr ''quiesced''))),
      got value ''operation'' (\<lambda>o'. itm r ''operation'' (\<lambda>x. Inr (py_eq o' x)))])
     (\<lambda>b. Inr (if b then Some value else None))))"

definition main_pid :: "('w host_scheme, int) prog" where
  "main_pid = bindP (hcall ''check_output'' (JArr (map JStr [''systemctl'', ''show'', ''-p'', ''MainPID'', ''--value'', ''hat-demo.service''])))
     (\<lambda>out. lift (int_text (str_val out)))"

definition quiesce_action :: "json \<Rightarrow> json \<Rightarrow> string \<Rightarrow> ('w host_scheme, json) prog" where
  "quiesce_action r c wdir =
     bindP status (\<lambda>before.
     seqP (raise_when (\<lambda>_. any_of [itm before ''healthy'' (\<lambda>h. Inr (\<not> truthy h)),
        itm before ''trailbase_running'' (\<lambda>h. Inr (\<not> truthy h))]) RuntimeError)
     (bindP (lift (getitem r ''operation'')) (\<lambda>operation. bindP (lift (getitem r ''epoch'')) (\<lambda>epoch.
     bindP (lift (getitem r ''boot_id'')) (\<lambda>boot.
     seqP (atomic_json ''/run/hat-node-quiesce.json'' (JObj [(''operation'', operation), (''epoch'', epoch), (''boot_id'', boot)]) 420)
     (bindP (run_command [''systemctl'', ''kill'', ''--kill-whom=main'', ''--signal=SIGUSR1'', ''hat-demo.service'']) (\<lambda>_.
     bindP (polling 202 100 (1 / 2) (quiesced_value r)) (\<lambda>value.
     seqP (lift (itm value ''cut'' validate_cut))
     (bindP main_pid (\<lambda>pid. bindP cgroup_pids (\<lambda>pids.
     seqP (raise_when (\<lambda>_. Inr (set pids \<noteq> {pid})) RuntimeError)
     (bindP (authority c) (\<lambda>allowed.
     seqP (raise_when (\<lambda>_. Inr (\<not> allowed)) RuntimeError)
     (seqP (copy2 AUTHORITY (wdir @ ''/retained-activation.json''))
     (seqP (unlink AUTHORITY)
     (ret value))))))))))))))))"

definition cut_reached :: "json \<Rightarrow> (string \<times> json) list \<Rightarrow> bool res" where
  "cut_reached before wanted = all_of (map (\<lambda>(db, pos).
     itm before ''positions'' (\<lambda>ps. bindR (get_or ps db (JInt 0)) (\<lambda>x. py_le pos x))) wanted)"

fun await_cut :: "nat \<Rightarrow> rat \<Rightarrow> json \<Rightarrow> (string \<times> json) list \<Rightarrow> ('w host_scheme, unit) prog" where
  "await_cut 0 deadline before wanted = raiseP StopIteration"
| "await_cut (Suc n) deadline before wanted = bindP (lift (cut_reached before wanted)) (\<lambda>reached.
     if reached then ret ()
     else bindP monotonic (\<lambda>now.
       if now > deadline then raiseP RuntimeError
       else seqP (sleep 1) (bindP status (\<lambda>next_status.
         seqP (raise_when (\<lambda>_. itm next_status ''healthy'' (\<lambda>h. Inr (\<not> truthy h))) RuntimeError)
         (await_cut n deadline next_status wanted)))))"

definition check_sidecar :: "string \<times> json \<Rightarrow> ('w host_scheme, unit) prog" where
  "check_sidecar e = (case e of (db, position) \<Rightarrow> let sidecar = DATA @ ''/'' @ db @ ''.db-txid'' in
     seqP (bindP (\<lambda>s. (regular_file sidecar s, s)) (\<lambda>_. ret ()))
     (raise_when (\<lambda>s. bindR (h_text sidecar s) (\<lambda>t. bindR (txid (JStr (strip t))) (\<lambda>n. differs (JInt n) position))) RuntimeError))"

definition backup_databases :: "string \<Rightarrow> string \<Rightarrow> ('w host_scheme, unit) prog" where
  "backup_databases from_dir to_dir = forP DBS (\<lambda>db.
     bindP (hcall ''sqlite backup'' (JArr [JStr (db_file from_dir db), JStr (db_file to_dir db)])) (\<lambda>_. ret ()))"

definition freeze_action :: "json \<Rightarrow> json \<Rightarrow> string \<Rightarrow> ('w host_scheme, json) prog" where
  "freeze_action r c wdir =
     bindP (lift (itm r ''payload'' (\<lambda>p. getitem p ''cut''))) (\<lambda>wanted.
     bindP status (\<lambda>before.
     seqP (raise_when (\<lambda>_. any_of [item_not before ''role'' ''standby'', itm before ''healthy'' (\<lambda>h. Inr (\<not> truthy h)),
        itm before ''epoch'' (\<lambda>e. itm c ''epoch'' (\<lambda>x. differs e x))]) RuntimeError)
     (bindP monotonic (\<lambda>now. bindP (lift (items_of wanted)) (\<lambda>kvs.
     seqP (await_cut 92 (now + 90) before kvs)
     (bindP (run_command [''systemctl'', ''stop'', ''hat-demo.service'']) (\<lambda>_.
     seqP empty_cgroup
     (seqP (forP kvs check_sidecar)
     (seqP (validate_databases DATA False)
     (seqP (mkdir (wdir @ ''/frozen'') 448)
     (seqP (backup_databases DATA (wdir @ ''/frozen''))
     (bindP (logical_signature (wdir @ ''/frozen'')) (\<lambda>signature.
     ret (JObj [(''cut'', wanted), (''signature'', signature)]))))))))))))))"

definition load_file :: "string \<Rightarrow> ('w host_scheme, json) prog" where
  "load_file p s = (h_loads p s, s)"

definition restore_action :: "json \<Rightarrow> string \<Rightarrow> ('w host_scheme, json) prog" where
  "restore_action r wdir =
     seqP empty_cgroup
     (bindP (load_file (record_path wdir ''freeze'')) (\<lambda>prior.
     seqP (raise_when (\<lambda>_. any_of [got_not prior ''status'' ''done'',
        itm prior ''result'' (\<lambda>x. itm x ''cut'' (\<lambda>a. itm r ''payload'' (\<lambda>p. itm p ''cut'' (\<lambda>b. differs a b))))]) RuntimeError)
     (bindP (lift (itm r ''payload'' (\<lambda>p. getitem p ''cut''))) (\<lambda>wanted.
     bindP (finite_restore wanted (wdir @ ''/fresh-restore'')) (\<lambda>signature.
     seqP (rename (wdir @ ''/frozen'') (wdir @ ''/rejected-follower''))
     (seqP (rename (wdir @ ''/fresh-restore'') (wdir @ ''/frozen''))
     (ret (JObj [(''cut'', wanted), (''signature'', signature), (''source'', JStr ''fresh-restore'')]))))))))"

section \<open>Preparing and activating\<close>

definition recovery_binding_differs :: "json \<Rightarrow> json \<Rightarrow> json \<Rightarrow> bool res" where
  "recovery_binding_differs earlier r c =
     bindR (get_or earlier ''request'' (JObj [])) (\<lambda>request.
     bindR (get_or earlier ''result'' (JObj [])) (\<lambda>result. any_of
       [got_not request ''action'' ''restore-recovery'',
        got request ''operation'' (\<lambda>x. itm r ''operation'' (\<lambda>y. differs x y)),
        got request ''epoch'' (\<lambda>x. itm c ''epoch'' (\<lambda>y. differs x y)),
        got request ''boot_id'' (\<lambda>x. itm r ''boot_id'' (\<lambda>y. differs x y)),
        got result ''epoch'' (\<lambda>x. itm c ''epoch'' (\<lambda>y. differs x y)),
        got result ''fence_digest'' (\<lambda>x. itm r ''payload'' (\<lambda>p. itm p ''fence_digest'' (\<lambda>y. differs x y)))]))"

text \<open>The restored databases a preparation may use: those of a recovery, or the frozen or restored ones.\<close>

definition selected_restore :: "string \<Rightarrow> ('w host_scheme, json \<times> string \<times> bool) prog" where
  "selected_restore wdir =
     bindP (completed_record wdir ''restore-recovery'') (\<lambda>found. case found of
       Some recovery \<Rightarrow> ret (recovery, wdir @ ''/fresh-restore'', True)
     | None \<Rightarrow> bindP (gets (h_exists (record_path wdir ''restore''))) (\<lambda>again.
         bindP (load_file (record_path wdir (if again then ''restore'' else ''freeze''))) (\<lambda>earlier.
         ret (earlier, wdir @ ''/frozen'', False))))"

definition install_databases :: "string \<Rightarrow> nat \<Rightarrow> nat \<Rightarrow> ('w host_scheme, unit) prog" where
  "install_databases restored uid gid =
     seqP (mkdir DATA 448)
     (seqP (forP DBS (\<lambda>db. copy2 (db_file restored db) (db_file DATA db)))
     (bindP (gets (names_in DATA)) (\<lambda>names.
      forP (DATA # map (\<lambda>n. DATA @ ''/'' @ n) names) (\<lambda>p. chown p uid gid))))"

definition prepare_action :: "json \<Rightarrow> json \<Rightarrow> string \<Rightarrow> ('w host_scheme, json) prog" where
  "prepare_action r c wdir =
     seqP empty_cgroup
     (seqP (raise_when (\<lambda>s. Inr (h_there AUTHORITY s)) RuntimeError)
     (bindP (selected_restore wdir) (\<lambda>(earlier, restored, recovered).
     bindP (lift (itm r ''payload'' (\<lambda>p. getitem p ''signature''))) (\<lambda>expected.
     seqP (if recovered then raise_when (\<lambda>_. recovery_binding_differs earlier r c) RuntimeError else ret ())
     (seqP (raise_when (\<lambda>_. any_of [got_not earlier ''status'' ''done'',
        itm earlier ''result'' (\<lambda>x. itm x ''signature'' (\<lambda>y. differs y expected))]) RuntimeError)
     (bindP (logical_signature restored) (\<lambda>signature.
     seqP (raise_when (\<lambda>_. differs signature expected) RuntimeError)
     (bindP account (\<lambda>(uid, gid).
     seqP (copy2 CONFIG (wdir @ ''/node.json''))
     (seqP (copy2 REPLICA (wdir @ ''/litestream.yml''))
     (bindP (lift (getitem c ''epoch'')) (\<lambda>epoch.
     bindP (lift (itm r ''payload'' (\<lambda>p. getitem p ''new_epoch''))) (\<lambda>new_epoch.
     bindP (new_replica_text epoch new_epoch) (\<lambda>config.
     bindP (lift (mapR str_val (getitem r ''operation''))) (\<lambda>operation.
     seqP (rename DATA (BASE @ ''/retained-data-'' @ operation))
     (seqP (raise_when (\<lambda>s. Inr (h_is_symlink META s)) RuntimeError)
     (bindP (gets (h_exists META)) (\<lambda>has_meta.
     seqP (if has_meta then rename META (BASE @ ''/retained-meta-'' @ operation) else ret ())
     (seqP (install_databases restored uid gid)
     (bindP (lift (future_config c ''writer'' new_epoch)) (\<lambda>future.
     seqP (atomic_json CONFIG future 416)
     (seqP (chown CONFIG 0 gid)
     (seqP (write_replica config)
     (bindP (load_config CONFIG) (\<lambda>_.
     lift (itm r ''payload'' (\<lambda>p. itm p ''fence_digest'' (\<lambda>fence.
       Inr (JObj [(''epoch'', new_epoch), (''signature'', expected), (''fence_digest'', fence)])))))))))))))))))))))))))))))"

definition activation_differs :: "json \<Rightarrow> json \<Rightarrow> string res \<Rightarrow> bool res" where
  "activation_differs prepared c boot = any_of
     [got_not prepared ''status'' ''done'',
      itm prepared ''result'' (\<lambda>x. itm x ''epoch'' (\<lambda>a. itm c ''epoch'' (\<lambda>b. differs a b))),
      itm prepared ''request'' (\<lambda>x. itm x ''boot_id'' (\<lambda>b. bindR boot (\<lambda>t. differs b (JStr t))))]"

definition activated_value :: "json \<Rightarrow> ('w host_scheme, json option) prog" where
  "activated_value c = catching [OSError]
     (bindP status (\<lambda>value. lift (bindR (all_of
        [itm value ''healthy'' (\<lambda>h. Inr (truthy h)), itm value ''epoch'' (\<lambda>e. itm c ''epoch'' (\<lambda>x. Inr (py_eq e x))),
         itm value ''trailbase_running'' (\<lambda>h. Inr (truthy h))])
        (\<lambda>b. Inr (if b then Some value else None)))))
     (ret None)"

definition activate_action :: "json \<Rightarrow> string \<Rightarrow> ('w host_scheme, json) prog" where
  "activate_action c wdir =
     seqP empty_cgroup
     (bindP (load_file (record_path wdir ''prepare'')) (\<lambda>prepared.
     seqP (raise_when (\<lambda>s. activation_differs prepared c (boot_now s)) RuntimeError)
     (bindP (logical_signature DATA) (\<lambda>signature.
     seqP (raise_when (\<lambda>_. itm prepared ''result'' (\<lambda>x. itm x ''signature'' (\<lambda>y. differs signature y))) RuntimeError)
     (seqP (activate c)
     (polling 92 90 1 (activated_value c)))))))"

section \<open>The dispatcher\<close>

definition execute :: "json \<Rightarrow> json \<Rightarrow> string \<Rightarrow> ('w host_scheme, json) prog" where
  "execute r c wdir = bindP (lift (mapR str_val (getitem r ''action''))) (\<lambda>action.
     if action = ''inspect-cold'' then inspect_cold r c
     else if action = ''prepare-recovery'' then prepare_recovery r c wdir
     else if action = ''restore-recovery'' then restore_recovery r c wdir
     else if action = ''rejoin'' then rejoin r c wdir
     else if action = ''quiesce'' then quiesce_action r c wdir
     else if action = ''freeze'' then freeze_action r c wdir
     else if action = ''restore'' then restore_action r wdir
     else if action = ''prepare'' then prepare_action r c wdir
     else if action = ''activate'' then activate_action c wdir
     else raiseP ValueError)"

text \<open>An action that changes the node: the intent, the action, the result.\<close>

definition attempt_action :: "json \<Rightarrow> json \<Rightarrow> string \<Rightarrow> ('w host_scheme, json) prog" where
  "attempt_action r c wdir =
     bindP (lift (mapR str_val (getitem r ''action''))) (\<lambda>action.
     seqP (raise_when (\<lambda>s. Inr (h_there (record_path wdir action) s)) RuntimeError)
     (seqP (atomic_json (record_path wdir action) (JObj [(''status'', JStr ''intent''), (''request'', r)]) 384)
     (bindP (execute r c wdir) (\<lambda>result.
     seqP (atomic_json (record_path wdir action) (JObj [(''status'', JStr ''done''), (''request'', r), (''result'', result)]) 384)
     (ret result)))))"

definition probe_action :: "json \<Rightarrow> ('w host_scheme, json) prog" where
  "probe_action c =
     bindP status (\<lambda>value.
     seqP (raise_when (\<lambda>_. itm value ''healthy'' (\<lambda>h. Inr (\<not> truthy h))) RuntimeError)
     (bindP (command [''systemctl'', ''is-enabled'', ''hat-demo.service'']) (\<lambda>p.
     seqP (raise_when (\<lambda>_. Inr (strip (out_of p) \<notin> {''static'', ''disabled''})) RuntimeError)
     (bindP (hcall ''check_output'' (JArr (map JStr [''systemctl'', ''show'', ''-p'', ''Restart'', ''--value'', ''hat-demo.service'']))) (\<lambda>out.
     seqP (raise_when (\<lambda>_. Inr (strip (str_val out) \<noteq> ''no'')) RuntimeError)
     (seqP (forP [''hat-trailbase.service'', ''hat-litestream.service''] (\<lambda>u.
        bindP (command [''systemctl'', ''is-enabled'', u]) (\<lambda>q.
        raise_when (\<lambda>_. Inr (strip (out_of q) \<noteq> ''masked'')) RuntimeError)))
     (bindP boot_id (\<lambda>boot. bindP (text_file REPLICA) (\<lambda>replica.
     ret (JObj [(''config'', c), (''boot_id'', JStr boot), (''status'', value), (''replica_config'', JStr replica)]))))))))))"

definition frozen_binding_differs :: "json \<Rightarrow> json \<Rightarrow> bool res" where
  "frozen_binding_differs prior r = any_of
     (got_not prior ''status'' ''done'' #
      map (\<lambda>k. itm prior ''request'' (\<lambda>x. itm x k (\<lambda>a. itm r k (\<lambda>b. differs a b)))) [''operation'', ''epoch'', ''boot_id''])"

definition inspect_frozen :: "json \<Rightarrow> json \<Rightarrow> string \<Rightarrow> ('w host_scheme, json) prog" where
  "inspect_frozen r c wdir =
     seqP empty_cgroup
     (seqP (raise_when (\<lambda>s. Inr (h_there AUTHORITY s)) RuntimeError)
     (seqP (raise_when (\<lambda>s. Inr (\<exists>a \<in> set [''restore'', ''prepare'', ''activate'']. h_exists (record_path wdir a) s)) RuntimeError)
     (bindP (load_file (record_path wdir ''freeze'')) (\<lambda>prior.
     seqP (raise_when (\<lambda>_. frozen_binding_differs prior r) RuntimeError)
     (bindP (lift (getitem prior ''result'')) (\<lambda>result.
     seqP (lift (itm result ''cut'' validate_cut))
     (bindP (logical_signature (wdir @ ''/frozen'')) (\<lambda>signature.
     seqP (raise_when (\<lambda>_. itm result ''signature'' (\<lambda>x. differs signature x)) RuntimeError)
     (bindP boot_id (\<lambda>boot. bindP (text_file REPLICA) (\<lambda>replica.
     ret (JObj [(''config'', c), (''boot_id'', JStr boot), (''frozen'', result), (''replica_config'', JStr replica)]))))))))))))"

text \<open>\<open>mode & 0o077\<close>.\<close>

definition shared_mode :: "nat \<Rightarrow> bool" where
  "shared_mode mode \<longleftrightarrow> mode mod 64 \<noteq> 0"

definition unsafe_dir :: "string \<Rightarrow> nat \<Rightarrow> 'w host_scheme \<Rightarrow> bool res" where
  "unsafe_dir p uid s = any_of [Inr (h_is_symlink p s), bindR (h_lstat p s) (\<lambda>n. Inr (h_uid n \<noteq> uid \<or> shared_mode (h_mode n)))]"

text \<open>\<open>os.open(..., O_CREAT | O_NOFOLLOW, 0o600)\<close> and the lock of the open file.\<close>

definition take_lock :: "string \<Rightarrow> ('w host_scheme, unit) prog" where
  "take_lock p =
     seqP (raise_when (\<lambda>s. Inr (h_is_symlink p s)) OSError)
     (bindP (gets (taken p)) (\<lambda>there.
     seqP (if there then ret () else create RegularNode p 384 [])
     (seqP (raise_when (\<lambda>s. bindR (h_lstat p s) (\<lambda>n. Inr (h_uid n \<noteq> huid s \<or> shared_mode (h_mode n) \<or> h_nlink n \<noteq> 1))) ValueError)
     (bindP (hcall ''flock'' (JStr p)) (\<lambda>_. ret ())))))"

definition unsafe_operation_dir :: "string \<Rightarrow> 'w host_scheme \<Rightarrow> bool res" where
  "unsafe_operation_dir p s = bindR (h_lstat p s) (\<lambda>n. Inr (h_is_symlink p s \<or> \<not> h_is_dir p s
     \<or> h_uid n \<noteq> huid s \<or> shared_mode (h_mode n) \<or> linked_parent p s))"

definition locked_request :: "json \<Rightarrow> ('w host_scheme, json) prog" where
  "locked_request r =
     bindP (load_config CONFIG) (\<lambda>c.
     bindP boot_id (\<lambda>boot.
     seqP (lift (validate_request r c boot))
     (bindP (lift (mapR str_val (getitem r ''action''))) (\<lambda>action.
     if action = ''inspect-cold'' then inspect_cold r c
     else bindP (lift (mapR str_val (getitem r ''operation''))) (\<lambda>operation.
       let wdir = STATE @ ''/'' @ operation in
       seqP (mkdir_exist_ok wdir 448)
       (seqP (raise_when (unsafe_operation_dir wdir) ValueError)
       (if action = ''inspect-frozen'' then inspect_frozen r c wdir else attempt_action r c wdir)))))))"

text \<open>\<open>main\<close>: the arguments, the command SSH forced, the request read from standard input.\<close>

definition dispatch :: "string list \<Rightarrow> string option \<Rightarrow> string \<Rightarrow> ('w host_scheme, json) prog" where
  "dispatch args ssh_command raw =
     seqP (raise_when (\<lambda>s. Inr (huid s \<noteq> 0)) ValueError)
     (seqP (raise_when (\<lambda>_. Inr (args \<noteq> [''local''] \<and> (args \<noteq> [''remote''] \<or> ssh_command \<noteq> Some ''hat-node''))) ValueError)
     (seqP (raise_when (\<lambda>_. Inr (1024 * 1024 < length raw)) ValueError)
     (bindP (lift (loads_text raw)) (\<lambda>r.
     bindP (load_config CONFIG) (\<lambda>c. bindP boot_id (\<lambda>boot.
     seqP (lift (validate_request r c boot))
     (bindP (lift (getitem r ''action'')) (\<lambda>a.
     if a = JStr ''probe'' then probe_action c
     else
       seqP (mkdir_exist_ok STATE 448)
       (seqP (raise_when (unsafe_dir STATE 0) ValueError)
       (seqP (take_lock (STATE @ ''/lock''))
       (locked_request r)))))))))))"

end
