(* ===== verification/Host_Facts.thy ===== *)
theory Host_Facts
  imports Dispatch
begin

text \<open>
  A name that stays taken: what the file operations and the calls of a node's programs keep of one file,
  as rules of \<open>keeps_intros\<close>, and the names of the records of an operation against every other name
  these programs move.
\<close>

lemma follow_path_step: "follow_path f p = (case map_of f p of None \<Rightarrow> None
     | Some x \<Rightarrow> if h_kind x = SymlinkNode then resolve_link 39 f (h_bytes x) else Some p)"
proof -
  have "(40 :: nat) = Suc 39" by simp
  then show ?thesis unfolding follow_path_def by (simp only: resolve_link.simps)
qed

section \<open>A name that stays taken\<close>

text \<open>\<open>spared p\<close>: no command, service or other process the node calls removes \<open>p\<close>.\<close>

definition spared :: "string \<Rightarrow> 'w host_scheme \<Rightarrow> bool" where
  "spared p s \<longleftrightarrow> (\<forall>tr c f. map_of f p \<noteq> None \<longrightarrow> map_of (disturb s tr c f) p \<noteq> None)"

definition held :: "string \<Rightarrow> 'w host_scheme \<Rightarrow> bool" where
  "held p s \<longleftrightarrow> taken p s \<and> spared p s"

lemma keeps_same [keeps_intros]: "keeps I (\<lambda>s. (f s, s))"
  by (simp add: keeps_def)

lemma held_hcall [keeps_intros]: "keeps (held p) (hcall name arg)"
  by (auto simp: keeps_def held_def taken_def spared_def hcall_def)

lemma held_fs: "held p s \<Longrightarrow> map_of f p \<noteq> None \<Longrightarrow> held p (s\<lparr>fs := f\<rparr>)"
  by (simp add: held_def taken_def spared_def)

lemma held_fs_fresh: "held p s \<Longrightarrow> map_of f p \<noteq> None \<Longrightarrow> held p (s\<lparr>fs := f, fresh := n\<rparr>)"
  by (simp add: held_def taken_def spared_def)

lemma held_taken: "held p s \<Longrightarrow> map_of (fs s) p \<noteq> None"
  by (simp add: held_def taken_def)

lemma held_put [keeps_intros]: "keeps (held p) (create k q mode bytes)"
  unfolding create_def
  by (rule keeps_modify, rule held_fs_fresh, assumption) (auto dest: held_taken)

lemma held_alter [keeps_intros]: "keeps (held p) (modify (\<lambda>s. s\<lparr>fs := alter q (g s) (fs s)\<rparr>))"
  by (rule keeps_modify, rule held_fs, assumption) (auto dest: held_taken)

lemma held_files [keeps_intros]:
  "keeps (held p) (create_new k q mode bytes)" "keeps (held p) (mkdir q mode)"
  "keeps (held p) (mkdir_exist_ok q mode)" "keeps (held p) (missing q)" "keeps (held p) (chown q uid gid)"
  unfolding mkdir_exist_ok_def mkdir_def create_new_def missing_def chown_def by (intro keeps_intros)+

lemma held_copy [keeps_intros]: "keeps (held p) (copy2 a b)"
proof -
  have "held p (s\<lparr>fs := tree_put d n (fs s), fresh := m\<rparr>)" if "held p s" for s :: "'w host_scheme" and d n m
    using that by (intro held_fs_fresh) (auto dest: held_taken)
  then show ?thesis
    unfolding copy2_def Let_def by (intro keeps_intros keeps_modify) blast
qed

lemma held_unlink [keeps_intros]: "q \<noteq> p \<Longrightarrow> keeps (held p) (unlink q)"
  unfolding unlink_def
  by (intro keeps_intros keeps_modify held_fs) (auto dest: held_taken)

lemma map_of_kept:
  assumes "map_of f p \<noteq> None" and "in_tree a p = None" and "in_tree b p = None"
  shows "map_of (move_tree a b f) p \<noteq> None"
proof -
  obtain n where n: "(p, n) \<in> set f" using assms(1) by (auto dest: map_of_SomeD)
  have "(p, n) \<in> set (move_tree a b f)"
    unfolding move_tree_def using n assms(2,3) by (force simp: image_iff)
  then show ?thesis by (metis map_of_eq_None_iff fst_conv image_eqI)
qed

lemma map_of_moved:
  assumes "map_of f a \<noteq> None" and "in_tree p a = None"
  shows "map_of (move_tree a p f) p \<noteq> None"
proof -
  obtain n where n: "(a, n) \<in> set f" using assms(1) by (auto dest: map_of_SomeD)
  have "(p, n) \<in> set (move_tree a p f)"
    unfolding move_tree_def using n assms(2) by (force simp: image_iff in_tree_def)
  then show ?thesis by (metis map_of_eq_None_iff fst_conv image_eqI)
qed

lemma held_rename:
  assumes "in_tree a p = None" and "in_tree b p = None"
  shows "keeps (held p) (rename a b)"
  unfolding rename_def
  using assms by (intro keeps_intros keeps_modify held_fs map_of_kept) (auto dest: held_taken)

text \<open>The rename that puts the name itself in place.\<close>

lemma held_rename_onto:
  assumes "in_tree p a = None"
  shows "keeps (held p) (rename a p :: ('w host_scheme, unit) prog)"
proof -
  have "wp (rename a p) (\<lambda>_. held p) s" if s: "held p s" for s :: "'w host_scheme"
  proof (cases "map_of (fs s) a")
    case None
    then show ?thesis using s by (simp add: rename_def missing_def taken_def)
  next
    case (Some n)
    then have "map_of (move_tree a p (fs s)) p \<noteq> None" using assms by (intro map_of_moved) auto
    then have "held p (s\<lparr>fs := move_tree a p (fs s)\<rparr>)" using s by (rule held_fs [rotated])
    then show ?thesis using s Some
      by (cases "clash a p s") (simp_all add: rename_def missing_def taken_def)
  qed
  then show ?thesis by (simp add: keeps_wp)
qed

lemma strip_common_prefix [simp]: "strip_prefix (a @ b) (a @ c) = strip_prefix b c"
  by (induction a) auto

lemma strip_prefix_absent: "c \<in> set a \<Longrightarrow> c \<notin> set y \<Longrightarrow> strip_prefix a y = None"
proof (induction a arbitrary: y)
  case Nil
  then show ?case by simp
next
  case (Cons d a)
  then show ?case by (cases y) auto
qed

lemma in_tree_pending [simp]: "in_tree q (pending_name q) = None"
  by (simp add: in_tree_def pending_name_def)

definition kept_from :: "string \<Rightarrow> string \<Rightarrow> bool" where
  "kept_from q p \<longleftrightarrow> in_tree (pending_name q) p = None \<and> (q = p \<or> in_tree q p = None)"

lemma held_replace: "kept_from q p \<Longrightarrow> keeps (held p) (replace_file q content mode)"
  unfolding replace_file_def kept_from_def
  by (intro keeps_intros) (auto intro: held_rename held_rename_onto)

lemma held_atomic: "kept_from q p \<Longrightarrow> keeps (held p) (atomic_json q v mode)"
  by (simp add: atomic_json_def held_replace)


section \<open>The records of an operation\<close>

text \<open>\<open>p\<close> is the record of some action in the operation's directory \<open>wdir\<close>.\<close>

definition record_of :: "string \<Rightarrow> string \<Rightarrow> bool" where
  "record_of wdir p \<longleftrightarrow> (\<exists>operation action. wdir = STATE @ ''/'' @ operation
     \<and> p = record_path wdir action \<and> CHR ''/'' \<notin> set action)"

text \<open>A plain name of the directory that is not the record, and has no slash, is apart from it.\<close>

lemma apart_in_dir:
  assumes "record_of wdir p" and "CHR ''/'' \<notin> set name" and "\<And>y. name \<noteq> y @ ''.json''"
  shows "in_tree (wdir @ ''/'' @ name) p = None"
proof -
  obtain action where p: "p = wdir @ ''/'' @ action @ ''.json''" "CHR ''/'' \<notin> set action"
    using assms(1) by (auto simp: record_of_def record_path_def)
  have "strip_prefix (name @ ''/'') (action @ ''.json'') = None"
    using p(2) by (intro strip_prefix_absent [of "CHR ''/''"]) auto
  moreover have "name \<noteq> action @ ''.json''" by (rule assms(3))
  ultimately show ?thesis using p(1) by (auto simp: in_tree_def)
qed

lemma apart_files:
  assumes "record_of wdir p"
  shows "in_tree CONFIG p = None" "in_tree (pending_name CONFIG) p = None"
    "in_tree REPLICA p = None" "in_tree (pending_name REPLICA) p = None"
    "in_tree AUTHORITY p = None" "in_tree DATA p = None" "in_tree META p = None"
    "in_tree (BASE @ ''/retained-data-'' @ operation) p = None"
    "in_tree (BASE @ ''/retained-meta-'' @ operation) p = None"
    "in_tree ''/run/hat-node-quiesce.json'' p = None"
    "in_tree (pending_name ''/run/hat-node-quiesce.json'') p = None"
  using assms by (auto simp: record_of_def record_path_def in_tree_def pending_name_def CONFIG_def REPLICA_def
      AUTHORITY_def DATA_def META_def BASE_def STATE_def)

lemma apart_dirs:
  assumes "record_of wdir p"
  shows "in_tree (wdir @ ''/frozen'') p = None" "in_tree (wdir @ ''/fresh-restore'') p = None"
    "in_tree (wdir @ ''/rejected-follower'') p = None"
proof -
  have no: "name \<noteq> y @ ''.json''" if "last name \<noteq> CHR ''n''" for name y :: string
    using that by auto
  have fr: "''frozen'' \<noteq> y @ ''.json''" for y
  proof
    assume "''frozen'' = y @ ''.json''"
    then have "rev ''frozen'' = rev (y @ ''.json'')" by simp
    then show False by simp
  qed
  show "in_tree (wdir @ ''/frozen'') p = None" "in_tree (wdir @ ''/fresh-restore'') p = None"
    "in_tree (wdir @ ''/rejected-follower'') p = None"
    using apart_in_dir [OF assms, of "''frozen''"] apart_in_dir [OF assms, of "''fresh-restore''"]
      apart_in_dir [OF assms, of "''rejected-follower''"] fr no by auto
qed

lemma kept_from_files:
  assumes "record_of wdir p"
  shows "kept_from CONFIG p" "kept_from ''/run/hat-node-quiesce.json'' p" "kept_from p p"
  using assms by (simp_all add: kept_from_def apart_files)
    (auto simp: record_of_def record_path_def in_tree_def pending_name_def)

end
