(* ===== verification/Dispatch_Facts.thy ===== *)
theory Dispatch_Facts
  imports Host_Facts
begin

text \<open>
  What the dispatcher of \<open>hat/transition.py\<close> guarantees: a record, once written, stands through whatever
  the action does, and the properties of requests, quiescing, waiting and authority that follow.
\<close>

section \<open>Every operation keeps the records\<close>

lemma held_run [keeps_intros]:
  "keeps (held p) (command args)" "keeps (held p) (run_command args)" "keeps (held p) status"
  "keeps (held p) monotonic" "keeps (held p) (sleep d)" "keeps (held p) account"
  unfolding command_def run_command_def status_def monotonic_def sleep_def account_def
  by (intro keeps_intros)+

lemma held_state_readers [keeps_intros]:
  "keeps (held p) boot_id" "keeps (held p) (authority_state c)" "keeps (held p) (sha_file q)"
  "keeps (held p) (text_file q)" "keeps (held p) (load_file q)" "keeps (held p) (completed_record wdir name)"
  by (simp_all add: keeps_def boot_id_def authority_state_def sha_file_def text_file_def load_file_def completed_record_def)

lemma held_authority [keeps_intros]: "keeps (held p) (authority c)"
  unfolding authority_def by (intro keeps_intros)

lemma held_load_config [keeps_intros]: "keeps (held p) (load_config q)"
  unfolding load_config_def by (intro keeps_intros)

lemma held_databases [keeps_intros]:
  "keeps (held p) (check_database d name)" "keeps (held p) (validate_databases d b)"
proof -
  show c: "keeps (held p) (check_database d name)" for d name
    unfolding check_database_def by (intro keeps_intros)
  show "keeps (held p) (validate_databases d b)"
    unfolding validate_databases_def by (intro keeps_intros c)
qed

lemma held_signatures [keeps_intros]: "keeps (held p) (signatures d dbs)"
  by (induction dbs) (simp_all add: keeps_intros)

lemma held_logical_signature [keeps_intros]: "keeps (held p) (logical_signature d)"
  unfolding logical_signature_def by (intro keeps_intros)

lemma held_pgrep [keeps_intros]: "keeps (held p) (pgrep name)" "keeps (held p) empty_cgroup"
  unfolding pgrep_def empty_cgroup_def by (intro keeps_intros)+

lemma held_follower_databases [keeps_intros]: "keeps (held p) (follower_databases pids)"
proof -
  have c: "keeps (held p) (process_commandline pid)" for pid
    unfolding process_commandline_def by (intro keeps_intros)
  show ?thesis by (induction pids) (auto intro!: keeps_intros c)
qed

lemma held_cold [keeps_intros]: "keeps (held p) cold_safety" "keeps (held p) no_writer_processes"
  unfolding cold_safety_def service_safety_def no_known_mutators_def no_writer_processes_def
  by (intro keeps_intros)+

lemma held_inspect_cold [keeps_intros]: "keeps (held p) (inspect_cold r c)"
  unfolding inspect_cold_def by (intro keeps_intros)

lemma held_await [keeps_intros]:
  "keeps (held p) attempt \<Longrightarrow> keeps (held p) (await n deadline pause attempt)"
  by (induction n) (auto intro!: keeps_intros)

lemma held_await_cut [keeps_intros]: "keeps (held p) (await_cut n deadline before wanted)"
  by (induction n arbitrary: before) (auto intro!: keeps_intros)

lemma held_polling [keeps_intros]:
  "keeps (held p) attempt \<Longrightarrow> keeps (held p) (polling n seconds pause attempt)"
  unfolding polling_def by (intro keeps_intros)

lemma held_retain [keeps_intros]: "keeps (held p) (retain_file a b)"
  unfolding retain_file_def by (intro keeps_intros)

lemma held_new_replica_text [keeps_intros]: "keeps (held p) (new_replica_text a b)"
  unfolding new_replica_text_def by (intro keeps_intros)

lemma held_boot_must_be [keeps_intros]: "keeps (held p) (boot_must_be r)"
  unfolding boot_must_be_def by (intro keeps_intros)

lemma held_put_aside: "in_tree a p = None \<Longrightarrow> in_tree b p = None \<Longrightarrow> keeps (held p) (put_aside a b)"
  unfolding put_aside_def by (intro keeps_intros held_rename)

lemma record_names_differ:
  assumes "record_of wdir p"
  shows "AUTHORITY \<noteq> p"
  using apart_files(5) [OF assms] by (auto simp: in_tree_def)

lemma held_write_replica: "record_of wdir p \<Longrightarrow> keeps (held p) (write_replica config)"
  unfolding write_replica_def by (intro keeps_intros held_rename apart_files)

lemmas held_record = held_write_replica held_put_aside held_rename held_unlink held_atomic
  apart_files apart_dirs kept_from_files record_names_differ

lemma held_install_config: "record_of wdir p \<Longrightarrow> keeps (held p) (install_config future config)"
  unfolding install_config_def by (intro keeps_intros held_record)

lemma held_finite_restore [keeps_intros]: "keeps (held p) (finite_restore wanted dir)"
proof -
  have "keeps (held p) (restore_one dir e)" for e
    unfolding restore_one_def by (intro keeps_intros)
  then show ?thesis unfolding finite_restore_def by (intro keeps_intros)
qed

lemma held_prepare_recovery: "record_of wdir p \<Longrightarrow> keeps (held p) (prepare_recovery r c wdir)"
  unfolding prepare_recovery_def by (intro keeps_intros held_install_config)

lemma held_restore_recovery [keeps_intros]: "keeps (held p) (restore_recovery r c wdir)"
  unfolding restore_recovery_def by (intro keeps_intros)

lemma held_started [keeps_intros]: "keeps (held p) (started_standby epoch boot)" "keeps (held p) (activated_value c)"
  "keeps (held p) (quiesced_value r)"
  unfolding started_standby_def standby_processes_alive_def activated_value_def quiesced_value_def
  by (intro keeps_intros)+

lemma held_rejoin: "record_of wdir p \<Longrightarrow> keeps (held p) (rejoin r c wdir)"
  unfolding rejoin_def by (intro keeps_intros held_record)

lemma held_quiesce: "record_of wdir p \<Longrightarrow> keeps (held p) (quiesce_action r c wdir)"
  unfolding quiesce_action_def main_pid_def cgroup_pids_def by (intro keeps_intros held_record)

lemma held_freeze: "keeps (held p) (freeze_action r c wdir)"
  unfolding freeze_action_def check_sidecar_def backup_databases_def by (intro keeps_intros)

lemma held_restore: "record_of wdir p \<Longrightarrow> keeps (held p) (restore_action r wdir)"
  unfolding restore_action_def by (intro keeps_intros held_record)

lemma held_selected [keeps_intros]: "keeps (held p) (selected_restore wdir)"
  unfolding selected_restore_def by (intro keeps_intros)

lemma held_prepare: "record_of wdir p \<Longrightarrow> keeps (held p) (prepare_action r c wdir)"
  unfolding prepare_action_def install_databases_def by (intro keeps_intros held_record)

lemma held_activate: "keeps (held p) (activate_action c wdir)"
  unfolding activate_action_def activate_def by (intro keeps_intros)

lemma held_execute: "record_of wdir p \<Longrightarrow> keeps (held p) (execute r c wdir)"
  unfolding execute_def
  by (intro keeps_intros held_prepare_recovery held_rejoin held_quiesce held_freeze held_restore
      held_prepare held_activate)

section \<open>Actions are attempted once\<close>

lemma attempt_refused:
  assumes "getitem r ''action'' = Inr (JStr action)" and "held (record_path wdir action) s"
  shows "attempt_action r c wdir s = (Inl RuntimeError, s)"
proof -
  obtain n where n: "map_of (fs s) (record_path wdir action) = Some n"
    using held_taken [OF assms(2)] by blast
  have "h_there (record_path wdir action) s"
    by (cases "h_kind n = SymlinkNode")
      (simp_all add: n h_there_def h_exists_def h_is_symlink_def follow_path_step)
  then show ?thesis
    using assms(1) by (simp add: attempt_action_def prog_defs raise_if_def)
qed

lemma replaced_is_held:
  assumes "replace_file p content mode s = (Inr (), t)" and "spared p s"
  shows "held p t"
proof -
  obtain bytes where bytes: "content = Inr bytes"
    using assms(1) by (auto simp: replace_file_def res_simps lift_def)
  have "wp (replace_file p content mode) (\<lambda>r u. r = Inr () \<longrightarrow> held p u) s"
    using assms(2) map_of_moved [of _ "pending_name p" p]
    by (simp add: replace_file_def bytes create_new_def create_def rename_def missing_def taken_def
        raise_if_def thenQ_def held_def spared_def split: if_splits)
  from wp_D [OF this assms(1)] show ?thesis by simp
qed

lemma replace_file_trace:
  "wp (replace_file p content mode) (\<lambda>_ u. trace u = trace s \<and> disturb u = disturb s) s"
  by (cases content) (simp_all add: replace_file_def create_new_def create_def rename_def missing_def
      raise_if_def thenQ_def split: if_splits)

text \<open>C13 An action of the node is attempted at most once: whatever an attempt did, whether it returned or
  raised in the middle, if it executed anything at all, then a second attempt with the same operation
  and action is refused before it calls anything or changes a file. The record is written before the
  action and nothing the nine actions move or remove is its name, as long as no other process deletes
  the controller's record.\<close>

theorem attempted_once:
  fixes s :: "'w host_scheme"
  assumes "getitem r ''action'' = Inr (JStr action)" and "getitem r2 ''action'' = Inr (JStr action)"
    and "CHR ''/'' \<notin> set action" and "wdir = STATE @ ''/'' @ operation"
    and "spared (record_path wdir action) s"
    and "attempt_action r c wdir s = (outcome, t)"
    and "trace t \<noteq> trace s \<or> outcome = Inr result"
  shows "attempt_action r2 c2 wdir t = (Inl RuntimeError, t)"
proof (rule attempt_refused [OF assms(2)])
  let ?p = "record_path wdir action"
  let ?Q = "\<lambda>o' u. held ?p u \<or> trace u = trace s \<and> (\<exists>e. o' = Inl e)"
  have rec: "record_of wdir ?p"
    using assms(3,4) by (auto simp: record_of_def)
  have start: "wp (atomic_json ?p v 384) (\<lambda>o' u. if o' = Inr () then held ?p u else trace u = trace s) s" for v
    using replace_file_trace [of ?p _ 384 s] replaced_is_held [OF _ assms(5)]
    unfolding atomic_json_def by (auto simp: wp_def prod_eq_iff)
  define K :: "('w host_scheme, json) prog" where "K = bindP (execute r c wdir) (\<lambda>x. seqP (atomic_json ?p
    (JObj [(''status'', JStr ''done''), (''request'', r), (''result'', x)]) 384) (ret x))"
  have "keeps (held ?p) K"
    unfolding K_def by (intro keeps_intros held_execute [OF rec] held_atomic kept_from_files(3) [OF rec])
  then have K: "wp K (\<lambda>_. held ?p) u" if "held ?p u" for u
    using that by (simp add: keeps_wp)
  have "wp (attempt_action r c wdir) ?Q s \<longleftrightarrow> wp (seqP (raise_when (\<lambda>s. Inr (h_there ?p s)) RuntimeError)
    (seqP (atomic_json ?p (JObj [(''status'', JStr ''intent''), (''request'', r)]) 384) K)) ?Q s"
    by (simp only: attempt_action_def K_def assms(1) mapR_simps str_val.simps wp_bindP wp_lift thenQ_simps)
  also have "\<dots>"
    by (auto simp: raise_if_def intro!: wp_mono [OF start] thenQ_I wp_mono [OF K] split: if_splits)
  finally have "wp (attempt_action r c wdir) ?Q s" .
  from wp_D [OF this assms(6)] show "held ?p t" using assms(7) by auto
qed

text \<open>A freeze whose status service does not answer: it raises, and the second attempt is refused.\<close>

definition quiet_host :: host where
  "quiet_host = \<lparr>answer = (\<lambda>_ _. Inl OSError), trace = [], fs = [], disturb = (\<lambda>_ _ f. f),
     huid = 0, hgid = 0, fresh = 0\<rparr>"

definition freeze_request :: json where
  "freeze_request = JObj [(''action'', JStr ''freeze''), (''payload'', JObj [(''cut'', JObj [])])]"

definition tried_host :: host where
  "tried_host = snd (attempt_action freeze_request JNull (STATE @ ''/op'') quiet_host)"

lemma tried_trace: "trace tried_host = [(''status'', JNull)]"
  by (simp add: tried_host_def attempt_action_def freeze_request_def quiet_host_def prog_defs getitem_def
      atomic_json_def replace_file_def create_new_def create_def rename_def missing_def taken_def raise_if_def
      execute_def freeze_action_def status_def hcall_def
      h_there_def h_exists_def h_is_symlink_def follow_path_step dumps_compact_def pending_name_def
      record_path_def STATE_def move_tree_def clash_def in_tree_def alter_def tree_put_def tree_del_def)

theorem attempted_once_witness:
  "attempt_action freeze_request JNull (STATE @ ''/op'') tried_host = (Inl RuntimeError, tried_host)"
proof (rule attempted_once)
  show "getitem freeze_request ''action'' = Inr (JStr ''freeze'')"
    "getitem freeze_request ''action'' = Inr (JStr ''freeze'')" "CHR ''/'' \<notin> set ''freeze''"
    by (simp_all add: freeze_request_def getitem_def)
  show "STATE @ ''/op'' = STATE @ ''/'' @ ''op''" by simp
  show "spared (record_path (STATE @ ''/op'') ''freeze'') quiet_host"
    by (simp add: spared_def quiet_host_def)
  show "attempt_action freeze_request JNull (STATE @ ''/op'') quiet_host =
      (fst (attempt_action freeze_request JNull (STATE @ ''/op'') quiet_host), tried_host)"
    by (simp add: tried_host_def prod_eq_iff)
  show "trace tried_host \<noteq> trace quiet_host \<or>
      fst (attempt_action freeze_request JNull (STATE @ ''/op'') quiet_host) = Inr JNull"
    using tried_trace by (auto simp: quiet_host_def)
qed

end
