(* ===== verification/Dispatch_Properties.thy ===== *)
theory Dispatch_Properties
  imports Dispatch_Facts
begin

text \<open>
  The properties of the node's dispatcher and of its actions: what an accepted request binds, what
  quiescing leaves behind, and that the waits end.
\<close>

section \<open>Requests\<close>

lemma all_of_guard [res_simps]: "all_of [Inr b, m] = Inr False \<longleftrightarrow> (b \<longrightarrow> m = Inr False)"
  by (cases m; cases b) (auto simp: all_of.simps)

lemma all_of_one [simp]: "all_of [m] = m"
  by (cases m) (auto simp: all_of.simps)

text \<open>C14 A request the node accepts is bound to it: the operation is thirty-two hexadecimal digits, the epoch
  is the configured one, the boot is the node's current boot (or absent, for the two read-only actions),
  only a writer quiesces, activates, rejoins or prepares a recovery, only a standby freezes, restores or
  is prepared, and the epoch a rejoin moves to is the operation's own.\<close>

theorem node_request_bound:
  assumes "validate_request r c boot = Inr ()"
  shows "\<exists>action operation e x b p. getitem r ''action'' = Inr (JStr action) \<and> action \<in> set (map fst shapes)
     \<and> getitem r ''operation'' = Inr (JStr operation) \<and> hex32 operation
     \<and> getitem r ''epoch'' = Inr e \<and> getitem c ''epoch'' = Inr x \<and> py_eq e x
     \<and> getitem r ''boot_id'' = Inr b \<and> (b = JStr boot \<or> action \<in> {''probe'', ''inspect-cold''} \<and> b = JNull)
     \<and> (action \<in> {''quiesce'', ''activate'', ''rejoin'', ''prepare-recovery''} \<longrightarrow> getitem c ''role'' = Inr (JStr ''writer''))
     \<and> (action \<in> {''freeze'', ''restore'', ''prepare'', ''inspect-frozen'', ''restore-recovery''} \<longrightarrow>
          getitem c ''role'' = Inr (JStr ''standby''))
     \<and> getitem r ''payload'' = Inr p
     \<and> (action = ''rejoin'' \<longrightarrow> getitem p ''new_epoch'' = Inr (JStr (''d1-'' @ operation)))"
proof -
  obtain a where a: "getitem r ''action'' = Inr a"
    using assms by (auto simp: validate_request_def raise_if_eq_Inr bindR_eq_Inr)
  have "in_set a (map fst shapes) = Inr True"
    using assms by (simp only: validate_request_def raise_if_eq_Inr bindR_eq_Inr a any_of_eq_False mapR_eq_Inr) auto
  then obtain action where action: "a = JStr action" "action \<in> set (map fst shapes)"
    by (auto simp: in_set_def in_tuple_def split: if_splits)
  note v = assms [unfolded validate_request_def raise_if_eq_Inr bindR_eq_Inr Let_def, simplified a action(1), simplified]
  note v2 = conjunct2 [OF v] note v3 = conjunct2 [OF v2] note v4 = conjunct2 [OF v3] note v5 = conjunct2 [OF v4]
  note vals = conjunct1 [OF v2] and writers = conjunct1 [OF v3] and standbys = conjunct1 [OF v4]
    and recovering = conjunct1 [OF v5] and payload = conjunct2 [OF v5]
  obtain e x b where head: "getitem r ''epoch'' = Inr e" "getitem c ''epoch'' = Inr x" "py_eq e x"
    "getitem r ''boot_id'' = Inr b" "b = JStr boot \<or> action \<in> {''probe'', ''inspect-cold''} \<and> b = JNull"
    using vals by (auto simp: any_of_eq_False bindR_eq_Inr differs_False)
  obtain operation where op: "getitem r ''operation'' = Inr (JStr operation)" "hex32 operation"
    using vals by (auto simp: any_of_eq_False bindR_eq_Inr str_and_iff)
  have writer: "getitem c ''role'' = Inr (JStr ''writer'')"
    if "action \<in> {''quiesce'', ''activate'', ''rejoin'', ''prepare-recovery''}"
    using that writers recovering by (auto simp: any_of_eq_False res_simps role_is_not_def)
  have standby: "getitem c ''role'' = Inr (JStr ''standby'')"
    if "action \<in> {''freeze'', ''restore'', ''prepare'', ''inspect-frozen'', ''restore-recovery''}"
    using that standbys by (auto simp: any_of_eq_False res_simps role_is_not_def)
  obtain p o' where p: "getitem r ''payload'' = Inr p" and o': "getitem r ''operation'' = Inr o'"
    and rejoining: "any_of [all_of [Inr (action = ''rejoin''), itm p ''new_epoch'' (\<lambda>e. itm c ''epoch'' (\<lambda>x.
      Inr (e = JStr (CHR ''d'' # CHR ''1'' # CHR ''-'' # str_val o') \<longrightarrow>
           x = JStr (CHR ''d'' # CHR ''1'' # CHR ''-'' # str_val o'))))]] = Inr False"
    using payload by blast
  have tail: "getitem p ''new_epoch'' = Inr (JStr (''d1-'' @ operation))" if "action = ''rejoin''"
    using rejoining op(1) o' that by (auto simp: any_of_eq_False bindR_eq_Inr)
  show ?thesis
    by (intro exI [of _ action] exI [of _ operation] exI [of _ e] exI [of _ x] exI [of _ b] exI [of _ p] conjI impI)
      (fact a [unfolded action(1)] action(2) op head p | rule writer standby tail, assumption)+
qed

definition demo_operation :: string where
  "demo_operation = replicate 32 CHR ''a''"

definition quiesce_request :: json where
  "quiesce_request = JObj [(''action'', JStr ''quiesce''), (''operation'', JStr demo_operation),
     (''epoch'', JStr ''d1-x''), (''boot_id'', JStr ''b''), (''payload'', JObj [])]"

definition writer_config :: json where
  "writer_config = JObj [(''role'', JStr ''writer''), (''epoch'', JStr ''d1-x'')]"

theorem node_request_bound_witness:
  "\<exists>action operation. getitem quiesce_request ''action'' = Inr (JStr action)
     \<and> getitem quiesce_request ''operation'' = Inr (JStr operation) \<and> hex32 operation"
proof -
  have hex: "hex32 demo_operation"
    by (simp add: demo_operation_def hex_n_def list_all_iff is_hexlow_def)
  have keys: "set_is quiesce_request [''action'', ''operation'', ''epoch'', ''boot_id'', ''payload''] = Inr True"
    by (simp add: set_is_def elems_of_def iter_of_def quiesce_request_def)
  have none: "set_is (JObj []) [] = Inr True"
    by (simp add: set_is_def elems_of_def iter_of_def)
  have fields: "is_obj quiesce_request" "getitem quiesce_request ''action'' = Inr (JStr ''quiesce'')"
    "getitem quiesce_request ''operation'' = Inr (JStr demo_operation)"
    "getitem quiesce_request ''epoch'' = Inr (JStr ''d1-x'')" "getitem quiesce_request ''boot_id'' = Inr (JStr ''b'')"
    "getitem quiesce_request ''payload'' = Inr (JObj [])"
    by (simp_all add: quiesce_request_def getitem_def)
  have config: "getitem writer_config ''epoch'' = Inr (JStr ''d1-x'')"
    "getitem writer_config ''role'' = Inr (JStr ''writer'')"
    by (simp_all add: writer_config_def getitem_def)
  have shapes: "in_set (JStr ''quiesce'') (map fst shapes) = Inr True" "map_of shapes ''quiesce'' = Some []"
    by (simp_all add: shapes_def in_set_def in_tuple_def)
  have "validate_request quiesce_request writer_config ''b'' = Inr ()"
    unfolding validate_request_def keys Let_def
    by (simp only: fields config hex none role_is_not_def shapes str_val.simps eval_simps cong: lazy_congs)
  from node_request_bound [OF this] show ?thesis
    by (elim exE conjE) (intro exI conjI; assumption)
qed

section \<open>Quiescing\<close>

lemma await_value:
  "await n deadline pause m s = (Inr x, t) \<Longrightarrow> \<exists>s1 s2. m s1 = (Inr (Some x), s2)"
proof (induction n arbitrary: s)
  case 0
  then show ?case by (simp add: raiseP_def)
next
  case (Suc n)
  then obtain r s1 where r: "m s = (Inr r, s1)" by (auto simp: bindP_eq_Inr)
  show ?case
  proof (cases r)
    case None
    with Suc.prems r obtain s2 where "await n deadline pause m s2 = (Inr x, t)"
      by (auto simp: bindP_eq_Inr seqP_eq_Inr raiseP_def split: if_splits)
    then show ?thesis by (rule Suc.IH)
  next
    case (Some y)
    with Suc.prems r have "y = x" by (auto simp: bindP_eq_Inr ret_def)
    with Some r show ?thesis by blast
  qed
qed

lemma polling_value:
  "polling n seconds pause m s = (Inr x, t) \<Longrightarrow> \<exists>s1 s2. m s1 = (Inr (Some x), s2)"
  by (auto simp: polling_def bindP_eq_Inr dest: await_value)

lemma unlink_removes: "unlink p s = (Inr u, t) \<Longrightarrow> \<not> taken p t"
  by (auto simp: unlink_def seqP_eq_Inr missing_def modify_def taken_def)

text \<open>C15 A node that reports itself quiesced has no authority left: when the action returns, the activation
  record is gone, the reported status is the quiesced one of this very operation and its cut names a
  positive position of each of the three databases.\<close>

theorem quiesce_revokes:
  fixes s t :: "'w host_scheme"
  assumes "quiesce_action r c wdir s = (Inr v, t)"
  shows "\<not> taken AUTHORITY t
     \<and> (\<exists>w. getitem v ''cut'' = Inr w \<and> validate_cut w = Inr ())
     \<and> get_none v ''phase'' = Inr (JStr ''quiesced'')
     \<and> (\<exists>a b. get_none v ''operation'' = Inr a \<and> getitem r ''operation'' = Inr b \<and> py_eq a b)"
proof -
  obtain reported u u' and s1 s2 s3 s4 s5 :: "'w host_scheme" where poll: "polling 202 100 (1 / 2) (quiesced_value r) s1 = (Inr reported, s2)"
    and wanted: "lift (itm reported ''cut'' validate_cut) s2 = (Inr u', s3)"
    and end': "unlink AUTHORITY s4 = (Inr u, s5)" "ret reported s5 = (Inr v, t)"
    using assms unfolding quiesce_action_def bindP_eq_Inr seqP_eq_Inr by (elim exE conjE) (rule that; assumption)
  have v: "v = reported" "t = s5" using end'(2) by (auto simp: ret_def)
  obtain s6 s7 :: "'w host_scheme" where "quiesced_value r s6 = (Inr (Some reported), s7)"
    using polling_value [OF poll] by blast
  then have "get_none reported ''phase'' = Inr (JStr ''quiesced'')
     \<and> (\<exists>a b. get_none reported ''operation'' = Inr a \<and> getitem r ''operation'' = Inr b \<and> py_eq a b)"
    by (auto simp: quiesced_value_def bindP_eq_Inr lift_def bindR_eq_Inr all_of_eq_True split: if_splits)
  then show ?thesis
    using unlink_removes [OF end'(1)] wanted v by (auto simp: lift_def bindR_eq_Inr)
qed

definition quiesced_status :: json where
  "quiesced_status = JObj [(''healthy'', JBool True), (''trailbase_running'', JBool True),
     (''phase'', JStr ''quiesced''), (''operation'', JStr demo_operation),
     (''cut'', JObj [(''main'', JInt 1), (''session'', JInt 1), (''aux'', JInt 1)])]"

definition demo_authority :: string where
  "demo_authority = show_json [] (JObj [(''role'', JStr ''writer''), (''epoch'', JStr ''d1-x''), (''boot_id'', JStr ''b'')])"

definition demo_answer :: "(string \<times> json) list \<Rightarrow> string \<times> json \<Rightarrow> json res" where
  "demo_answer tr c = (if fst c = ''status'' then Inr quiesced_status
     else if fst c = ''monotonic'' then Inr (JInt 0)
     else if fst c = ''run'' then Inr (JObj [(''returncode'', JInt 0), (''stdout'', JStr []), (''stderr'', JStr [])])
     else Inr (JStr ''7''))"

definition demo_file :: "string \<Rightarrow> hnode" where
  "demo_file bytes = \<lparr>h_kind = RegularNode, h_uid = 0, h_gid = 0, h_mode = 420, h_nlink = 1, h_id = (0, 0), h_bytes = bytes\<rparr>"

definition demo_node :: host where
  "demo_node = \<lparr>answer = demo_answer, trace = [],
     fs = [(AUTHORITY, demo_file demo_authority), (''/proc/sys/kernel/random/boot_id'', demo_file ''b'')],
     disturb = (\<lambda>_ _ f. f), huid = 0, hgid = 0, fresh = 1\<rparr>"

lemma demo_authority_loads:
  "bindR (ascii_text demo_authority) loads = Inr (JObj [(''role'', JStr ''writer''), (''epoch'', JStr ''d1-x''), (''boot_id'', JStr ''b'')])"
  by code_simp

lemma await_at: "await (Suc n) deadline pause m s = bindP m (\<lambda>r. case r of
     Some x \<Rightarrow> ret x
   | None \<Rightarrow> bindP monotonic (\<lambda>now.
       if now > deadline then raiseP RuntimeError
       else seqP (sleep pause) (await n deadline pause m))) s"
  by simp

lemmas await_202 = await_at [where n = 201, simplified] and await_92 = await_at [where n = 91, simplified]

text \<open>What evaluates the programs of a node on a concrete machine, from the outside in.\<close>

lemmas file_eval = replace_file_def create_new_def create_def rename_def missing_def taken_def unlink_def copy2_def
  mode_of_def h_lstat_def h_read_def h_text_def follow_path_step
  tree_put_def tree_del_def alter_def move_tree_def clash_def in_tree_def pending_name_def new_node_def

lemmas call_eval = status_def hcall_def command_def run_command_def code_of_def out_of_def err_of_def monotonic_def
  clock_of_def

lemma demo_chars: "\<not> py_space CHR ''7''" "\<not> py_space CHR ''b''" "is_digit CHR ''7''"
  by (simp_all add: py_space_def is_digit_def)

lemma demo_texts:
  "int_text ''7'' = Inr 7" "split_space ''7'' = [''7'']" "ascii_text ''b'' = Inr ''b''" "strip ''b'' = ''b''"
  by (simp_all add: int_text_def strip_def ascii_text_def demo_chars read_nat_def digit_val_def)

lemma demo_cut: "validate_cut (JObj [(''main'', JInt 1), (''session'', JInt 1), (''aux'', JInt 1)]) = Inr ()"
  by code_simp

lemma demo_quiesce: "fst (quiesce_action quiesce_request writer_config (STATE @ ''/op'') demo_node) = Inr quiesced_status"
  by (simp add: quiesce_action_def prog_defs call_eval file_eval demo_node_def demo_answer_def quiesced_status_def
      quiesce_request_def writer_config_def getitem_def get_or_def truthy_def atomic_json_def dumps_compact_def raise_if_def
      demo_file_def AUTHORITY_def STATE_def RESTORE_OUTPUT_LIMIT_def polling_def await_202 quiesced_value_def fld_def
      main_pid_def cgroup_pids_def demo_chars demo_texts demo_cut authority_def catching_def others_write_def boot_id_def boot_now_def
      h_loads_def demo_authority_loads authorized_def
      cong: lazy_congs del: await.simps)

theorem quiesce_revokes_witness:
  "\<not> taken AUTHORITY (snd (quiesce_action quiesce_request writer_config (STATE @ ''/op'') demo_node))"
proof -
  have "quiesce_action quiesce_request writer_config (STATE @ ''/op'') demo_node = (Inr quiesced_status,
      snd (quiesce_action quiesce_request writer_config (STATE @ ''/op'') demo_node))"
    using demo_quiesce by (simp add: prod_eq_iff)
  from quiesce_revokes [OF this] show ?thesis by (rule conjunct1)
qed

end
