(* ===== verification/Waits.thy ===== *)
theory Waits
  imports Dispatch_Properties
begin

text \<open>
  The waits of a node end. The loops of the dispatcher poll the status service until a deadline; on a clock
  that never goes back and that a sleep advances by at least what was asked, the rounds the model gives
  them are never used up, so every wait returns what it waited for or raises.
\<close>

section \<open>Clocks\<close>

definition reading :: "'w host_scheme \<Rightarrow> (string \<times> json) list \<Rightarrow> rat" where
  "reading s tr = (case answer s tr (''monotonic'', JNull) of Inr v \<Rightarrow> clock_of v | Inl _ \<Rightarrow> 0)"

definition slept :: "(string \<times> json) list \<Rightarrow> rat" where
  "slept tr = sum_list (map (\<lambda>(name, v). if name = ''sleep'' then clock_of v else 0) tr)"

definition honest_clock :: "'w host_scheme \<Rightarrow> bool" where
  "honest_clock s \<longleftrightarrow> (\<forall>tr. (\<exists>v. answer s tr (''monotonic'', JNull) = Inr v)
     \<and> (\<forall>d. \<exists>v. answer s tr (''sleep'', d) = Inr v)
     \<and> (\<forall>more. reading s tr + slept more \<le> reading s (tr @ more)))"

lemma slept_simps [simp]:
  "slept [] = 0" "slept (c # tr) = (if fst c = ''sleep'' then clock_of (snd c) else 0) + slept tr"
  "slept (a @ b) = slept a + slept b"
  by (simp_all add: slept_def split: prod.splits)

section \<open>Attempts that neither sleep nor run out\<close>

definition wakeful :: "('w host_scheme \<Rightarrow> bool) \<Rightarrow> ('w host_scheme, 'a) prog \<Rightarrow> bool" where
  "wakeful I m \<longleftrightarrow> (\<forall>s. I s \<longrightarrow> wp m (\<lambda>r t. r \<noteq> Inl StopIteration \<and> I t
     \<and> answer t = answer s \<and> (\<exists>tr. trace t = trace s @ tr \<and> slept tr = 0)) s)"

definition status_answers :: "'w host_scheme \<Rightarrow> bool" where
  "status_answers s \<longleftrightarrow> (\<forall>tr. answer s tr (''status'', JNull) \<noteq> Inl StopIteration)"

definition waiting :: "'w host_scheme \<Rightarrow> bool" where
  "waiting s \<longleftrightarrow> honest_clock s \<and> status_answers s"

lemma waiting_same: "answer t = answer s \<Longrightarrow> waiting t = waiting s"
  by (simp add: waiting_def honest_clock_def status_answers_def reading_def)

lemma wp_hcall: "wp (hcall name arg) Q s \<longleftrightarrow> Q (answer s (trace s) (name, arg))
    (s\<lparr>trace := trace s @ [(name, arg)], fs := disturb s (trace s) (name, arg) (fs s)\<rparr>)"
  by (simp add: wp_def hcall_def)

lemma clock_of_float [simp]: "clock_of (JFloat (Fin x)) = x"
  by (simp add: clock_of_def)

text \<open>One round ends the wait, or leaves a clock advanced by the pause and the deadline ahead.\<close>

lemma await_round:
  assumes m: "wakeful waiting m" and s: "waiting s"
  shows "fst (await (Suc n) deadline pause m s) \<noteq> Inl StopIteration
    \<or> (\<exists>t. waiting t \<and> await (Suc n) deadline pause m s = await n deadline pause m t
         \<and> reading s (trace s) \<le> deadline \<and> reading s (trace s) + pause \<le> reading t (trace t))"
proof -
  obtain r u where r: "m s = (r, u)" by fastforce
  from m s r obtain tr where u: "r \<noteq> Inl StopIteration" "waiting u" "answer u = answer s"
    "trace u = trace s @ tr" "slept tr = 0"
    unfolding wakeful_def wp_def by fastforce
  have clock: "honest_clock u" using u(2) by (simp add: waiting_def)
  then obtain v where v: "answer u (trace u) (''monotonic'', JNull) = Inr v" unfolding honest_clock_def by blast
  obtain w where w: "answer u (trace u @ [(''monotonic'', JNull)]) (''sleep'', JFloat (Fin pause)) = Inr w"
    using clock unfolding honest_clock_def by blast
  have same: "reading u = reading s" by (simp add: reading_def u(3) fun_eq_iff)
  have now: "clock_of v = reading u (trace u)" by (simp add: reading_def v)
  have ahead: "reading u a + slept b \<le> reading u (a @ b)" for a b
    using clock unfolding honest_clock_def by blast
  have before: "reading s (trace s) \<le> clock_of v"
    using ahead [of "trace s" tr] u(4,5) by (simp add: now same)
  have later: "clock_of v + pause \<le> reading u (trace u @ [(''monotonic'', JNull), (''sleep'', JFloat (Fin pause))])"
    using ahead [of "trace u" "[(''monotonic'', JNull), (''sleep'', JFloat (Fin pause))]"] by (simp add: now)
  show ?thesis
  proof (cases r)
    case (Inl e)
    then show ?thesis using r u(1) by (simp add: bindP_def)
  next
    case (Inr found)
    show ?thesis
    proof (cases "found \<noteq> None \<or> deadline < clock_of v")
      case True
      then show ?thesis using r Inr v
        by (cases found) (auto simp: bindP_def ret_def raiseP_def monotonic_def hcall_def)
    next
      case False
      let ?t = "snd (sleep pause (snd (monotonic u)))"
      have step: "await (Suc n) deadline pause m s = await n deadline pause m ?t"
        using r Inr v w False
        by (auto simp: prog_defs monotonic_def sleep_def hcall_def)
      have t: "answer ?t = answer u" "trace ?t = trace u @ [(''monotonic'', JNull), (''sleep'', JFloat (Fin pause))]"
        using v w by (simp_all add: prog_defs monotonic_def sleep_def hcall_def)
      have "reading ?t = reading u" by (simp add: reading_def t(1) fun_eq_iff)
      then show ?thesis
        using step t(2) later before False u(2) waiting_same [OF t(1)] by (intro disjI2 exI [of _ ?t]) auto
    qed
  qed
qed

lemma await_ends:
  assumes m: "wakeful waiting m" and "waiting s" and "deadline < reading s (trace s) + of_nat n * pause"
  shows "fst (await (Suc n) deadline pause m s) \<noteq> Inl StopIteration"
  using assms(2,3)
proof (induction n arbitrary: s)
  case 0
  then show ?case using await_round [OF m 0(1), of 0 deadline pause] by auto
next
  case (Suc n)
  show ?case
  proof (cases "fst (await (Suc (Suc n)) deadline pause m s) \<noteq> Inl StopIteration")
    case True
    then show ?thesis .
  next
    case False
    then obtain t where t: "waiting t" "await (Suc (Suc n)) deadline pause m s = await (Suc n) deadline pause m t"
      "reading s (trace s) + pause \<le> reading t (trace t)"
      using await_round [OF m Suc.prems(1), of "Suc n" deadline pause] by auto
    have "deadline < reading t (trace t) + of_nat n * pause"
      using Suc.prems(2) t(3) by (simp add: algebra_simps)
    then show ?thesis using Suc.IH [OF t(1)] t(2) by simp
  qed
qed

lemma polling_ends:
  assumes m: "wakeful waiting m" and s: "waiting s" and enough: "seconds < of_nat n * pause"
  shows "fst (polling (Suc n) seconds pause m s) \<noteq> Inl StopIteration"
proof -
  have clock: "honest_clock s" using s by (simp add: waiting_def)
  then obtain v where v: "answer s (trace s) (''monotonic'', JNull) = Inr v" unfolding honest_clock_def by blast
  let ?t = "snd (monotonic s)"
  have t: "answer ?t = answer s" "trace ?t = trace s @ [(''monotonic'', JNull)]"
    using v by (simp_all add: prog_defs monotonic_def hcall_def)
  have poll: "polling (Suc n) seconds pause m s = await (Suc n) (clock_of v + seconds) pause m ?t"
    using v by (simp add: polling_def prog_defs monotonic_def hcall_def del: await.simps)
  have "clock_of v \<le> reading ?t (trace ?t)"
  proof -
    have "reading s (trace s) + slept [(''monotonic'', JNull)] \<le> reading s (trace s @ [(''monotonic'', JNull)])"
      using clock unfolding honest_clock_def by blast
    then show ?thesis using v t by (simp add: reading_def)
  qed
  then show ?thesis unfolding poll
    using enough by (intro await_ends [OF m]) (auto simp: waiting_same [OF t(1)] s)
qed

section \<open>The waits of the actions\<close>

lemma wakeful_after_status:
  assumes "\<And>v. f v \<noteq> Inl StopIteration"
  shows "wakeful waiting (bindP status (\<lambda>v. lift (f v)) :: ('w host_scheme, 'a) prog)"
  unfolding wakeful_def
proof (intro allI impI)
  fix s :: "'w host_scheme" assume s: "waiting s"
  let ?u = "s\<lparr>trace := trace s @ [(''status'', JNull)], fs := disturb s (trace s) (''status'', JNull) (fs s)\<rparr>"
  have "answer s (trace s) (''status'', JNull) \<noteq> Inl StopIteration"
    using s unfolding waiting_def status_answers_def by blast
  moreover have "waiting ?u" using waiting_same [of ?u s] s by simp
  ultimately show "wp (bindP status (\<lambda>v. lift (f v))) (\<lambda>r t. r \<noteq> Inl StopIteration \<and> waiting t
     \<and> answer t = answer s \<and> (\<exists>tr. trace t = trace s @ tr \<and> slept tr = 0)) s"
    using assms by (cases "answer s (trace s) (''status'', JNull)") (simp_all add: status_def wp_hcall)
qed

lemma wakeful_catching:
  assumes "wakeful I m"
  shows "wakeful I (catching cs m (ret x))"
  unfolding wakeful_def
proof (intro allI impI)
  fix s assume s: "I s"
  obtain r t where rt: "m s = (r, t)" by fastforce
  have f: "r \<noteq> Inl StopIteration" "I t \<and> answer t = answer s \<and> (\<exists>tr. trace t = trace s @ tr \<and> slept tr = 0)"
    using assms [unfolded wakeful_def wp_def, rule_format, OF s] rt by simp_all
  show "wp (catching cs m (ret x)) (\<lambda>r t. r \<noteq> Inl StopIteration \<and> I t
     \<and> answer t = answer s \<and> (\<exists>tr. trace t = trace s @ tr \<and> slept tr = 0)) s"
    using f by (cases r) (simp_all add: wp_def catching_def ret_def rt)
qed

definition never_stops :: "'a res \<Rightarrow> bool" where
  "never_stops r \<longleftrightarrow> r \<noteq> Inl StopIteration"

lemma never_stops_simps [simp]:
  "never_stops (Inr x)" "never_stops (getitem v k)" "never_stops (get_or v k d)"
  by (cases v; simp add: never_stops_def getitem_def get_or_def split: option.split)+

lemma never_stops_bindR [simp]: "never_stops m \<Longrightarrow> (\<And>x. never_stops (f x)) \<Longrightarrow> never_stops (bindR m f)"
  by (cases m) (auto simp: never_stops_def)

lemma never_stops_all_of [simp]: "(\<And>c. c \<in> set cs \<Longrightarrow> never_stops c) \<Longrightarrow> never_stops (all_of cs)"
  by (induction cs) (auto simp: never_stops_def all_of.simps split: sum.splits)

lemma wakeful_quiesced: "wakeful waiting (quiesced_value r)"
  unfolding quiesced_value_def
  by (rule wakeful_after_status, fold never_stops_def) (intro never_stops_bindR never_stops_all_of; auto)

lemma wakeful_activated: "wakeful waiting (activated_value c)"
  unfolding activated_value_def
  by (rule wakeful_catching, rule wakeful_after_status, fold never_stops_def)
    (intro never_stops_bindR never_stops_all_of; auto)

text \<open>C18 The waits of the node end. On a clock that answers, does not go back and moves by at least what each
  sleep asked for, and with a status service that answers or fails in any way, waiting for the
  activated writer (90 seconds, one per round) and for the quiesced source (100 seconds, half a second
  per round) never uses up its rounds: it returns the status it waited for, or raises.\<close>

theorem waits_end:
  assumes "honest_clock s" and "status_answers s"
  shows "fst (polling 92 90 1 (activated_value c) s) \<noteq> Inl StopIteration
    \<and> fst (polling 202 100 (1 / 2) (quiesced_value r) s) \<noteq> Inl StopIteration"
proof -
  have s: "waiting s" using assms by (simp add: waiting_def)
  show ?thesis
    using polling_ends [OF wakeful_activated s, of 90 91 1 c] polling_ends [OF wakeful_quiesced s, of 100 201 "1 / 2" r]
    by simp
qed

text \<open>A status service that is down, on a clock that moves only with the sleeps.\<close>

definition sleeping_host :: host where
  "sleeping_host = \<lparr>answer = (\<lambda>tr c. if fst c = ''monotonic'' then Inr (JFloat (Fin (slept tr)))
      else if fst c = ''sleep'' then Inr JNull else Inl OSError),
     trace = [], fs = [], disturb = (\<lambda>_ _ f. f), huid = 0, hgid = 0, fresh = 0\<rparr>"

theorem waits_end_witness:
  "fst (polling 92 90 1 (activated_value JNull) sleeping_host) \<noteq> Inl StopIteration"
proof -
  have "honest_clock sleeping_host" "status_answers sleeping_host"
    by (simp_all add: honest_clock_def status_answers_def reading_def sleeping_host_def)
  from waits_end [OF this] show ?thesis by blast
qed

end
