(* ===== verification/Serve.thy ===== *)
theory Serve
  imports Node
begin

text \<open>
  \<open>serve\<close> of \<open>hat/node.py\<close>: what a node does before it starts its processes, one pass of its sampling
  loop, and the quiesce branch that stops the writer and reports the final cut. The state is what the
  closures of \<open>serve\<close> share; the processes, the events and the clock are calls.
\<close>

section \<open>State\<close>

record serving = host +
  v_sticky :: "string list"
  v_identities :: "(string \<times> ino) list"
  v_quiesced :: bool
  v_state :: json
  v_unread :: "(string \<times> string) list"

definition data_dir :: string where
  "data_dir = BASE @ ''/depot/data''"

definition is_writer :: "json \<Rightarrow> bool res" where
  "is_writer c = itm c ''role'' (\<lambda>r. Inr (r = JStr ''writer''))"

section \<open>Before the processes start\<close>

definition children_of :: "bool \<Rightarrow> string list" where
  "children_of writer = (if writer then [''trail'', ''replicate''] else DBS)"

definition serve_start :: "json \<Rightarrow> (serving, bool) prog" where
  "serve_start c =
     seqP (mkdir_exist_ok ''/run/hat-demo'' 493)
     (seqP (bindP (hcall ''flock'' (JStr ''/run/hat-demo/node.lock'')) (\<lambda>_. ret ()))
     (bindP (lift (is_writer c)) (\<lambda>writer.
     bindP (if writer then authority c else ret True) (\<lambda>allowed.
     seqP (raise_when (\<lambda>_. Inr (\<not> allowed)) ValueError)
     (seqP (mkdir_exist_ok data_dir 493)
     (bindP (lift (get_or c ''bootstrap'' (JBool False))) (\<lambda>bootstrap.
     seqP (if writer then validate_databases data_dir (truthy bootstrap)
           else raise_when (\<lambda>s. Inr (h_is_symlink data_dir s \<or> names_in data_dir s \<noteq> [])) ValueError)
     (bindP (lift (getitem c ''role'')) (\<lambda>role. bindP (lift (getitem c ''epoch'')) (\<lambda>epoch.
     seqP (modify (\<lambda>s. s\<lparr>v_sticky := [], v_identities := [], v_quiesced := False,
        v_unread := map (\<lambda>n. (n, [])) (filter (\<lambda>n. n \<noteq> ''trail'') (children_of writer)),
        v_state := JObj [(''role'', role), (''epoch'', epoch), (''sampled_at'', JInt 0), (''positions'', JObj []),
          (''refusals'', JArr [JStr ''starting''])]\<rparr>))
     (ret writer)))))))))))"

text \<open>The writer's database identities are recorded once TrailBase answers its health check.\<close>

fun record_identities :: "string list \<Rightarrow> (serving, unit) prog" where
  "record_identities [] = ret ()"
| "record_identities (db # dbs) =
     bindP (\<lambda>s. (database_identity (db_file data_dir db) s, s)) (\<lambda>i.
     seqP (modify (\<lambda>s. s\<lparr>v_identities := v_identities s @ [(db, i)]\<rparr>)) (record_identities dbs))"

section \<open>The log scan\<close>

text \<open>\<open>readline(n)\<close>: up to and with the next newline, at most \<open>n\<close> characters.\<close>

definition readline :: "nat \<Rightarrow> string \<Rightarrow> string" where
  "readline n s = take n (takeWhile (\<lambda>c. c \<noteq> CHR 0x0A) s @
     (if CHR 0x0A \<in> set s then [CHR 0x0A] else []))"

text \<open>The inner \<open>for ... else\<close> over one reader: what stays unread and the refusals it adds.\<close>

fun scan_log :: "nat \<Rightarrow> string \<Rightarrow> string \<Rightarrow> (string \<times> string list) res" where
  "scan_log 0 name s = Inr (s, [name @ '': log scan exceeded bound''])"
| "scan_log (Suc n) name s = (let line = readline 65537 s; rest = drop (length line) s in
     if line = [] then Inr (s, [])
     else if 65536 < length line then Inr (rest, [name @ '': oversized log record''])
     else if last line \<noteq> CHR 0x0A then Inr (s, [])
     else bindR (if strip line = [] then Inr False else log_bad line) (\<lambda>bad.
       mapR (\<lambda>(r, refusals). (r, (if bad then [name @ '': error or unknown log; inspect protected log''] else []) @ refusals))
         (scan_log n name rest)))"

definition add_sticky :: "string list \<Rightarrow> (serving, unit) prog" where
  "add_sticky xs = modify (\<lambda>s. s\<lparr>v_sticky := foldl (\<lambda>acc x. if x \<in> set acc then acc else acc @ [x]) (v_sticky s) xs\<rparr>)"

definition set_unread :: "string \<Rightarrow> string \<Rightarrow> (serving, unit) prog" where
  "set_unread name r = modify (\<lambda>s. s\<lparr>v_unread := map (\<lambda>(n, u). (n, if n = name then r else u)) (v_unread s)\<rparr>)"

text \<open>The reader's file has grown by what the call \<open>log\<close> answers.\<close>

definition read_log :: "string \<Rightarrow> (serving, unit) prog" where
  "read_log name =
     bindP (hcall ''log'' (JStr name)) (\<lambda>more.
     bindP (gets (\<lambda>s. (case map_of (v_unread s) name of Some u \<Rightarrow> u | None \<Rightarrow> []) @ str_val more)) (\<lambda>u.
     bindP (lift (scan_log 10000 name u)) (\<lambda>(r, refusals).
     seqP (set_unread name r) (add_sticky refusals))))"

section \<open>Positions\<close>

definition litestream_sync :: "string \<Rightarrow> exn \<Rightarrow> ('w host_scheme, json) prog" where
  "litestream_sync database failed =
     bindP (hcall ''litestream sync'' (JStr database)) (\<lambda>p.
     bindP (lift (getitem p ''returncode'')) (\<lambda>code.
     if truthy code then seqP (bindP (hcall ''append sync-errors.log'' p) (\<lambda>_. ret ())) (raiseP failed)
     else bindP (lift (itm p ''stdout'' (\<lambda>out. bindR (loads_text (str_val out)) (\<lambda>v. sync_position v database)))) ret))"

definition position_of :: "bool \<Rightarrow> string \<Rightarrow> ('w host_scheme, json) prog" where
  "position_of writer db =
     (if writer then litestream_sync (db_file data_dir db) ValueError
      else let sidecar = db_file data_dir db @ ''-txid'' in
        seqP (bindP (\<lambda>s. (regular_file sidecar s, s)) (\<lambda>_. ret ()))
        (bindP (\<lambda>s. (bindR (h_text sidecar s) (\<lambda>text. mapR JInt (txid (JStr (strip text)))), s)) ret))"

text \<open>One database: its position, or the reason it has none.\<close>

definition sample_db :: "bool \<Rightarrow> string \<Rightarrow> (serving, (string \<times> json) option \<times> string list) prog" where
  "sample_db writer db =
     bindP (catching [OSError, ValueError]
        (bindP (\<lambda>s. (database_identity (db_file data_dir db) s, s)) (\<lambda>i. ret (Some i))) (ret None)) (\<lambda>found.
     bindP (gets (\<lambda>s. map_of (v_identities s) db)) (\<lambda>known.
     case found of
       None \<Rightarrow> if known \<noteq> None then raiseP RuntimeError else ret (None, [db @ '': database not yet restored''])
     | Some i \<Rightarrow>
         if known \<noteq> None \<and> known \<noteq> Some i then raiseP RuntimeError
         else catching [OSError, ValueError, TimeoutExpired]
           (bindP (position_of writer db) (\<lambda>p.
            seqP (modify (\<lambda>s. s\<lparr>v_identities := (db, i) # filter (\<lambda>e. fst e \<noteq> db) (v_identities s)\<rparr>))
            (ret (Some (db, p), []))))
           (ret (None, [db @ '': position unconfirmed'']))))"

fun sample_dbs :: "bool \<Rightarrow> string list \<Rightarrow> (serving, (string \<times> json) list \<times> string list) prog" where
  "sample_dbs writer [] = ret ([], [])"
| "sample_dbs writer (db # dbs) =
     bindP (sample_db writer db) (\<lambda>(p, reasons).
     bindP (sample_dbs writer dbs) (\<lambda>(ps, more).
     ret ((case p of None \<Rightarrow> ps | Some x \<Rightarrow> x # ps), reasons @ more)))"

fun poll_all :: "string list \<Rightarrow> exn \<Rightarrow> ('w host_scheme, unit) prog" where
  "poll_all [] e = ret ()"
| "poll_all (c # cs) e = bindP (hcall ''poll'' (JStr c)) (\<lambda>p.
     if p \<noteq> JNull then raiseP e else poll_all cs e)"

fun alive_map :: "string list \<Rightarrow> ('w host_scheme, (string \<times> json) list) prog" where
  "alive_map [] = ret []"
| "alive_map (c # cs) = bindP (hcall ''poll'' (JStr c)) (\<lambda>p. bindP (alive_map cs) (\<lambda>ps.
     ret ((c, JBool (p = JNull)) # ps)))"

definition sample :: "json \<Rightarrow> bool \<Rightarrow> (serving, unit) prog" where
  "sample c writer =
     bindP (if writer then authority c else ret True) (\<lambda>allowed.
     seqP (raise_when (\<lambda>_. Inr (\<not> allowed)) RuntimeError)
     (seqP (poll_all (children_of writer) RuntimeError)
     (bindP (gets (\<lambda>s. map fst (v_unread s))) (\<lambda>readers.
     seqP (forP readers read_log)
     (bindP (gets (unenrolled data_dir)) (\<lambda>extra.
     seqP (if extra then add_sticky [''unenrolled database''] else ret ())
     (bindP (sample_dbs writer DBS) (\<lambda>(positions, reasons).
     bindP (hcall ''time'' JNull) (\<lambda>now. bindP (alive_map (children_of writer)) (\<lambda>procs.
     bindP (lift (getitem c ''role'')) (\<lambda>role. bindP (lift (getitem c ''epoch'')) (\<lambda>epoch.
     modify (\<lambda>s. s\<lparr>v_state := JObj [(''role'', role), (''epoch'', epoch), (''sampled_at'', now),
        (''positions'', JObj positions), (''refusals'', JArr (map JStr (sort (v_sticky s) @ reasons))),
        (''trailbase_running'', JBool writer), (''processes'', JObj procs)]\<rparr>)))))))))))))"

section \<open>Quiesce\<close>

definition QUIESCE_REQUEST :: string where
  "QUIESCE_REQUEST = ''/run/hat-node-quiesce.json''"

definition quiesce_request_refused :: "json \<Rightarrow> json \<Rightarrow> string res \<Rightarrow> bool res" where
  "quiesce_request_refused request c boot = any_of
     [notR (set_is request [''operation'', ''epoch'', ''boot_id'']),
      itm request ''operation'' (\<lambda>o'. notR (re_match hex32 o')),
      itm request ''epoch'' (\<lambda>e. itm c ''epoch'' (\<lambda>x. differs e x)),
      itm request ''boot_id'' (\<lambda>b. bindR boot (\<lambda>x. differs b (JStr x)))]"

definition verify_mutators_stopped :: "('w host_scheme, unit) prog" where
  "verify_mutators_stopped =
     bindP (hcall ''cgroup.procs'' JNull) (\<lambda>pids.
     bindP (hcall ''own and uploader pids'' JNull) (\<lambda>expected.
     seqP (raise_when (\<lambda>_. bindR (elems_of pids) (\<lambda>a. bindR (elems_of expected) (\<lambda>b. Inr (set a \<noteq> set b)))) RuntimeError)
     (ret ())))"

fun sync_cut :: "string list \<Rightarrow> ('w host_scheme, (string \<times> json) list) prog" where
  "sync_cut [] = ret []"
| "sync_cut (db # dbs) = bindP (litestream_sync (db_file data_dir db) RuntimeError) (\<lambda>p.
     bindP (sync_cut dbs) (\<lambda>ps. ret ((db, p) # ps)))"

text \<open>What the readers still hold must be clean and at most four MiB each.\<close>

definition check_tail :: "string \<Rightarrow> (serving, unit) prog" where
  "check_tail name =
     bindP (hcall ''log'' (JStr name)) (\<lambda>more.
     bindP (gets (\<lambda>s. take (4 * 1024 * 1024 + 1) ((case map_of (v_unread s) name of Some u \<Rightarrow> u | None \<Rightarrow> []) @ str_val more))) (\<lambda>rest.
     raise_when (\<lambda>_. any_of [Inr (4 * 1024 * 1024 < length rest),
       any_of (map log_bad (filter (\<lambda>l. strip l \<noteq> []) (splitlines rest)))]) RuntimeError))"

definition quiesce :: "json \<Rightarrow> bool \<Rightarrow> (serving, unit) prog" where
  "quiesce c writer =
     bindP (\<lambda>s. (regular_file QUIESCE_REQUEST s, s)) (\<lambda>n.
     bindP (\<lambda>s. (h_loads QUIESCE_REQUEST s, s)) (\<lambda>request.
     bindP (if writer then authority c else ret False) (\<lambda>allowed.
     seqP (raise_when (\<lambda>s. any_of [Inr (\<not> allowed \<or> h_uid n \<noteq> 0 \<or> others_write (h_mode n)),
        quiesce_request_refused request c (boot_now s), Inr (v_sticky s \<noteq> [])]) RuntimeError)
     (seqP (modify (\<lambda>s. s\<lparr>v_state := (case v_state s of JObj kvs \<Rightarrow> JObj (dict_set (dict_set kvs
          ''refusals'' (JArr [JStr ''quiescing''])) ''phase'' (JStr ''quiescing'')) | v \<Rightarrow> v)\<rparr>))
     (bindP (quiesce_owned (bindP (sync_cut DBS) (\<lambda>kvs. ret (JObj kvs))) verify_mutators_stopped)
        (\<lambda>(cut, trail_exit, uploader_exit).
     bindP (gets (\<lambda>s. map fst (v_unread s))) (\<lambda>readers.
     seqP (forP readers check_tail)
     (bindP (lift (getitem c ''role'')) (\<lambda>role. bindP (lift (getitem c ''epoch'')) (\<lambda>epoch.
     bindP (hcall ''time'' JNull) (\<lambda>now. bindP (lift (getitem request ''operation'')) (\<lambda>operation.
     bindP boot_id (\<lambda>boot'.
     modify (\<lambda>s. s\<lparr>v_quiesced := True,
        v_state := JObj [(''role'', role), (''epoch'', epoch), (''sampled_at'', now), (''positions'', cut),
          (''refusals'', JArr [JStr ''quiesced; no writer'']), (''trailbase_running'', JBool False),
          (''processes'', JObj []), (''phase'', JStr ''quiesced''), (''operation'', operation),
          (''boot_id'', JStr boot'), (''cut'', cut), (''trail_exit'', trail_exit),
          (''uploader_exit'', uploader_exit)]\<rparr>))))))))))))))"

text \<open>One pass of the loop: idle once quiesced, quiesce when asked, otherwise sample.\<close>

definition serve_pass :: "json \<Rightarrow> bool \<Rightarrow> (serving, unit) prog" where
  "serve_pass c writer =
     bindP (gets v_quiesced) (\<lambda>quiesced.
     if quiesced then bindP (hcall ''wait'' (JInt 1)) (\<lambda>_. ret ())
     else bindP (hcall ''draining'' JNull) (\<lambda>draining.
       if truthy draining then quiesce c writer
       else seqP (sample c writer) (bindP (hcall ''wait'' (JInt 3)) (\<lambda>_. ret ()))))"

text \<open>The status the node publishes at a moment.\<close>

definition published :: "rat \<Rightarrow> serving \<Rightarrow> json res" where
  "published now s = public_status (v_state s) now"

end
