(* ===== verification/Node_Properties.thy ===== *)
theory Node_Properties
  imports Serve Dispatch_Properties
begin

text \<open>
  What the node guarantees: when it takes itself to be authorized to write, when it reports itself healthy,
  and what it has read of a log it has no objection to.
\<close>

section \<open>Authority\<close>

text \<open>C17 A node that takes itself for the writer has a current authorization: the activation record is a file
  of root that nobody else may write, the node is configured as a writer, and the record holds exactly
  the role, the configured epoch and the boot the node is running in. Asking changes nothing.\<close>

theorem authority_is_current:
  fixes s t :: "'w host_scheme"
  assumes "authority c s = (Inr True, t)"
  shows "t = s \<and> (\<exists>n epoch boot r. map_of (fs s) AUTHORITY = Some n \<and> h_kind n \<noteq> SymlinkNode \<and> h_uid n = 0
     \<and> \<not> others_write (h_mode n) \<and> getitem c ''role'' = Inr (JStr ''writer'') \<and> getitem c ''epoch'' = Inr epoch
     \<and> boot_now s = Inr boot \<and> h_loads AUTHORITY s = Inr r
     \<and> py_eq r (JObj [(''role'', JStr ''writer''), (''epoch'', epoch), (''boot_id'', JStr boot)]))"
proof -
  obtain m :: "('w host_scheme, bool) prog" where a: "authority c = catching [OSError, ValueError] m (ret False)"
    and m: "m = bindP (\<lambda>s. (h_lstat AUTHORITY s, s)) (\<lambda>n.
      if h_kind n = SymlinkNode \<or> h_uid n \<noteq> 0 \<or> others_write (h_mode n) then ret False
      else bindP (lift (getitem c ''role'')) (\<lambda>role. bindP (lift (getitem c ''epoch'')) (\<lambda>epoch.
        bindP boot_id (\<lambda>boot. bindP (\<lambda>s. (h_loads AUTHORITY s, s)) (\<lambda>r.
        ret (authorized role epoch (JStr boot) r))))))"
    by (simp add: authority_def)
  have "m s = (Inr True, t)"
    using assms by (auto simp: a catching_def ret_def split: prod.splits sum.splits if_splits)
  then obtain n epoch boot r role where run: "h_lstat AUTHORITY s = Inr n" "t = s"
    "h_kind n \<noteq> SymlinkNode" "h_uid n = 0" "\<not> others_write (h_mode n)"
    "getitem c ''role'' = Inr role" "getitem c ''epoch'' = Inr epoch"
    "boot_now s = Inr boot" "h_loads AUTHORITY s = Inr r" "authorized role epoch (JStr boot) r"
    unfolding m bindP_eq_Inr by (auto simp: ret_def lift_def boot_id_def bindP_eq_Inr split: if_splits)
  have "map_of (fs s) AUTHORITY = Some n"
    using run(1) by (simp add: h_lstat_def split: option.splits)
  moreover have "role = JStr ''writer''" using run(10) by (simp add: authorized_def)
  ultimately show ?thesis using run by (auto simp: authorized_def)
qed

theorem authority_is_current_witness:
  "\<exists>n. map_of (fs demo_node) AUTHORITY = Some n \<and> h_uid n = 0 \<and> \<not> others_write (h_mode n)"
proof -
  have "authority writer_config demo_node = (Inr True, demo_node)"
    by (simp add: authority_def catching_def prog_defs file_eval demo_node_def writer_config_def getitem_def
        demo_file_def AUTHORITY_def others_write_def boot_id_def boot_now_def demo_texts h_loads_def
        demo_authority_loads authorized_def cong: lazy_congs)
  from authority_is_current [OF this] show ?thesis by blast
qed

section \<open>Status\<close>

lemma map_of_dict_set [simp]: "map_of (dict_set d k v) q = (if q = k then Some v else map_of d q)"
  by (induction d k v rule: dict_set.induct) auto

text \<open>C19 A node reports itself healthy exactly on fresh evidence: the published status says whether it is healthy and
  why not, it is healthy exactly when it gives no reason against it, and that is the case exactly when nothing was
  refused before, the sample is at most thirty seconds old and not from the future, and each of the three databases,
  and no other, has a positive position. It never reports itself ready for promotion.\<close>

theorem healthy_is_fresh:
  assumes "public_status state now = Inr v"
  shows "getitem v ''promotion_ready'' = Inr (JBool False)
    \<and> (\<exists>rs. getitem v ''refusals'' = Inr (JArr rs) \<and> getitem v ''healthy'' = Inr (JBool (rs = [])))
    \<and> (getitem v ''healthy'' = Inr (JBool True) \<longleftrightarrow>
        (\<exists>refusals. getitem state ''refusals'' = Inr refusals \<and> iter_of refusals = Inr [])
        \<and> (\<exists>sampled t0. getitem state ''sampled_at'' = Inr sampled \<and> num_of sampled = Some (Fin t0)
             \<and> 0 \<le> now - t0 \<and> now - t0 \<le> 30)
        \<and> (\<exists>positions vs. getitem state ''positions'' = Inr positions \<and> set_is positions DBS = Inr True
             \<and> values_of positions = Inr vs \<and> (\<forall>x \<in> set vs. \<exists>n > 0. x = JInt n)))"
proof -
  obtain r refusals sampled f positions enrolled vs kvs where parts:
    "getitem state ''sampled_at'' = Inr sampled" "(case num_of sampled of Some f \<Rightarrow> Inr f | None \<Rightarrow> Inl TypeError) = Inr f"
    "getitem state ''positions'' = Inr positions" "set_is positions DBS = Inr enrolled"
    "(if enrolled then values_of positions else Inr []) = Inr vs"
    "getitem state ''refusals'' = Inr r" "iter_of r = Inr refusals"
    and tail: "(let recent = (case f of Fin t0 \<Rightarrow> 0 \<le> now - t0 \<and> now - t0 \<le> 30 | _ \<Rightarrow> False);
         reasons = refusals
           @ (if \<not> recent then [JStr ''position sample stale or clock changed''] else [])
           @ (if \<not> enrolled \<or> (\<exists>v \<in> set vs. \<not> int_and v (\<lambda>n. 0 < n))
              then [JStr ''required database positions unconfirmed''] else []) in
       Inr (JObj (foldl (\<lambda>d (k, v). dict_set d k v) kvs
         [(''healthy'', JBool (reasons = [])), (''refusals'', JArr reasons), (''promotion_ready'', JBool False),
          (''limitation'', JStr ''D1 transport observation only; no failover readiness or RPO bound'')]))) = (Inr v :: json res)"
    using assms unfolding public_status_def bindR_eq_Inr by (elim exE conjE) (rule that; assumption)
  define reasons where "reasons = refusals
    @ (if \<not> (case f of Fin t0 \<Rightarrow> 0 \<le> now - t0 \<and> now - t0 \<le> 30 | _ \<Rightarrow> False)
       then [JStr ''position sample stale or clock changed''] else [])
    @ (if \<not> enrolled \<or> (\<exists>v \<in> set vs. \<not> int_and v (\<lambda>n. 0 < n))
       then [JStr ''required database positions unconfirmed''] else [])"
  have "v = JObj (foldl (\<lambda>d (k, v). dict_set d k v) kvs
         [(''healthy'', JBool (reasons = [])), (''refusals'', JArr reasons), (''promotion_ready'', JBool False),
          (''limitation'', JStr ''D1 transport observation only; no failover readiness or RPO bound'')])"
    using tail unfolding Let_def reasons_def [symmetric] sum.inject by (rule sym)
  then have v: "getitem v ''healthy'' = Inr (JBool (reasons = []))" "getitem v ''refusals'' = Inr (JArr reasons)"
    "getitem v ''promotion_ready'' = Inr (JBool False)"
    by (simp_all add: getitem_def)
  have none: "reasons = [] \<longleftrightarrow> refusals = [] \<and> (\<exists>t0. f = Fin t0 \<and> 0 \<le> now - t0 \<and> now - t0 \<le> 30)
      \<and> enrolled \<and> (\<forall>v \<in> set vs. int_and v (\<lambda>n. 0 < n))"
    unfolding reasons_def by (cases f) simp_all
  have sample: "(\<exists>sampled t0. getitem state ''sampled_at'' = Inr sampled \<and> num_of sampled = Some (Fin t0)
      \<and> 0 \<le> now - t0 \<and> now - t0 \<le> 30) \<longleftrightarrow> (\<exists>t0. f = Fin t0 \<and> 0 \<le> now - t0 \<and> now - t0 \<le> 30)"
    using parts(1,2) by (auto split: option.splits)
  have places: "(\<exists>positions vs. getitem state ''positions'' = Inr positions \<and> set_is positions DBS = Inr True
      \<and> values_of positions = Inr vs \<and> (\<forall>x \<in> set vs. \<exists>n > 0. x = JInt n))
      \<longleftrightarrow> enrolled \<and> (\<forall>v \<in> set vs. int_and v (\<lambda>n. 0 < n))"
    using parts(3-5) unfolding int_and_iff by auto metis
  have before: "(\<exists>refusals. getitem state ''refusals'' = Inr refusals \<and> iter_of refusals = Inr []) \<longleftrightarrow> refusals = []"
    using parts(6,7) by auto
  have "getitem v ''healthy'' = Inr (JBool True) \<longleftrightarrow> reasons = []" using v(1) by simp
  then show ?thesis using v none unfolding sample places before by blast
qed

definition sampled_state :: json where
  "sampled_state = JObj [(''sampled_at'', JInt 5), (''refusals'', JArr []),
     (''positions'', JObj [(''main'', JInt 1), (''session'', JInt 2), (''aux'', JInt 3)])]"

theorem healthy_is_fresh_witness:
  "\<exists>v. public_status sampled_state 10 = Inr v \<and> getitem v ''promotion_ready'' = Inr (JBool False)
     \<and> getitem v ''healthy'' = Inr (JBool True)"
proof -
  have "\<exists>v. public_status sampled_state 10 = Inr v"
    by (simp add: public_status_def sampled_state_def getitem_def iter_of_def set_is_def elems_of_def values_of_def
        items_of_def)
  then obtain v where v: "public_status sampled_state 10 = Inr v" ..
  have "getitem sampled_state ''refusals'' = Inr (JArr [])" "iter_of (JArr []) = Inr []"
    "getitem sampled_state ''sampled_at'' = Inr (JInt 5)" "num_of (JInt 5) = Some (Fin 5)"
    "getitem sampled_state ''positions'' = Inr (JObj [(''main'', JInt 1), (''session'', JInt 2), (''aux'', JInt 3)])"
    "set_is (JObj [(''main'', JInt 1), (''session'', JInt 2), (''aux'', JInt 3)]) DBS = Inr True"
    by (simp_all add: sampled_state_def getitem_def DBS_def)
  with healthy_is_fresh [OF v] v show ?thesis by fastforce
qed

section \<open>The log scan\<close>

definition clean_line :: "string \<Rightarrow> bool" where
  "clean_line l \<longleftrightarrow> l \<noteq> [] \<and> last l = CHR 0x0A \<and> length l \<le> 65536 \<and> (strip l = [] \<or> log_bad l = Inr False)"

lemma readline_prefix: "readline n s = take (length (readline n s)) s"
proof -
  have "\<exists>k. takeWhile (\<lambda>c. c \<noteq> CHR 0x0A) s @ (if CHR 0x0A \<in> set s then [CHR 0x0A] else []) = take k s"
  proof (cases "CHR 0x0A \<in> set s")
    case True
    then obtain a b where ab: "s = a @ CHR 0x0A # b" "CHR 0x0A \<notin> set a" by (metis split_list_first)
    then have "takeWhile (\<lambda>c. c \<noteq> CHR 0x0A) s = a" by (auto simp: takeWhile_append)
    with ab True show ?thesis by (intro exI [of _ "Suc (length a)"]) simp
  next
    case False
    then have "takeWhile (\<lambda>c. c \<noteq> CHR 0x0A) s = s" by (auto simp: takeWhile_eq_all_conv)
    with False show ?thesis by (intro exI [of _ "length s"]) simp
  qed
  then obtain k where "readline n s = take (min n k) s"
    unfolding readline_def by (metis take_take)
  then show ?thesis by (simp add: min_def)
qed

text \<open>C21 A log without objections has been read: when the scan of one reader adds no refusal, what it consumed
  is a sequence of at most the bound's number of complete lines of at most 65536 characters, each of them
  blank or a known record of the pinned uploader, and what is left is kept for the next sample.\<close>

theorem scan_is_clean:
  assumes "scan_log n name s = Inr (r, [])"
  shows "\<exists>ls. s = concat ls @ r \<and> length ls < n \<and> (\<forall>l \<in> set ls. clean_line l)"
  using assms
proof (induction n arbitrary: s)
  case 0
  then show ?case by simp
next
  case (Suc n)
  let ?line = "readline 65537 s" and ?rest = "drop (length (readline 65537 s)) s"
  have split: "s = ?line @ ?rest" using readline_prefix [of 65537 s] by (metis append_take_drop_id)
  consider (stop) "r = s" | (go) "?line \<noteq> []" "length ?line \<le> 65536" "last ?line = CHR 0x0A"
      "strip ?line = [] \<or> log_bad ?line = Inr False" "scan_log n name ?rest = Inr (r, [])"
    using Suc.prems
    by (fastforce simp: Let_def bindR_eq_Inr mapR_eq_Inr split: if_splits)
  then show ?case
  proof cases
    case stop
    then show ?thesis by (intro exI [of _ "[]"]) simp
  next
    case go
    obtain ls where ls: "?rest = concat ls @ r" "length ls < n" "\<forall>l \<in> set ls. clean_line l"
      using Suc.IH [OF go(5)] by blast
    have "s = concat (?line # ls) @ r" using split ls(1) by simp
    moreover have "clean_line ?line" using go(1-4) by (simp add: clean_line_def)
    ultimately show ?thesis using ls(2,3) by (intro exI [of _ "?line # ls"]) auto
  qed
qed

theorem scan_is_clean_witness:
  "\<exists>ls. ''  '' @ [CHR 0x0A] @ ''rest'' = concat ls @ ''rest'' \<and> length ls < Suc (Suc 0)"
proof -
  have space: "strip (''  '' @ [CHR 0x0A]) = []" by (simp add: strip_def py_space_def)
  have lines: "readline 65537 (''  '' @ [CHR 0x0A] @ ''rest'') = ''  '' @ [CHR 0x0A]"
    "readline 65537 ''rest'' = ''rest''"
    by (simp_all add: readline_def)
  have "scan_log (Suc (Suc 0)) ''main'' (''  '' @ [CHR 0x0A] @ ''rest'') = Inr (''rest'', [])"
    unfolding scan_log.simps lines using space lines(2) by (simp add: Let_def)
  from scan_is_clean [OF this] show ?thesis by blast
qed

end
