(* ===== verification/Ledger.thy ===== *)
theory Ledger
  imports Host Schema
begin

text \<open>
  \<open>hat/client.py\<close>: the finite append producer, its closed ledger and the GET-only observer. The ledger is a
  file of JSON lines: a start marker, a submission before every request, one outcome after it, and a stop
  marker with the counters; its reader accepts only a complete one of the expected epoch.
\<close>

section \<open>Records\<close>

definition MAX_LEDGER :: nat where "MAX_LEDGER = 4 * 2 ^ 20"
definition MAX_BODY :: nat where "MAX_BODY = 2 ^ 20"
definition MAX_SUBMISSIONS :: nat where "MAX_SUBMISSIONS = 1000"

text \<open>\<open>_json_object\<close>: a line with unique keys that denotes an object.\<close>

definition json_object :: "string \<Rightarrow> json res" where
  "json_object line = bindR (ascii_text line) (\<lambda>t. bindR (loads_unique t) (\<lambda>v.
     refuse_if [Inr (\<not> is_obj v)] (Inr v)))"

definition check_stamp :: "json \<Rightarrow> unit res" where
  "check_stamp v =
     refuse_if [got v ''time_ns'' (\<lambda>t. Inr (\<not> int_and t (\<lambda>n. 0 < n)))]
     (bindR (contains v ''utc'') (\<lambda>there.
      if there then itm v ''utc'' (\<lambda>u. refuse_if [Inr (stamp_invalid u)]
        (if str_and u safe_utc then Inr () else Inl ValueError))
      else Inr ()))"

definition valid_id :: "json \<Rightarrow> bool" where
  "valid_id v \<longleftrightarrow> (case v of
     JStr s \<Rightarrow> s \<noteq> [] \<and> length s \<le> 19 \<and> list_all is_digit s \<and> 0 < read_nat s \<and> read_nat s \<le> 2 ^ 63 - 1
   | JInt n \<Rightarrow> 0 < n \<and> n \<le> 2 ^ 63 - 1
   | _ \<Rightarrow> False)"

text \<open>\<open>bytes.splitlines\<close>: newline, carriage return, or both.\<close>

fun byte_lines_from :: "string \<Rightarrow> string \<Rightarrow> string list" where
  "byte_lines_from acc [] = (if acc = [] then [] else [acc])"
| "byte_lines_from acc (c # s) =
     (if c = CHR 0x0D \<and> (case s of d # _ \<Rightarrow> d = CHR 0x0A | [] \<Rightarrow> False) then acc # byte_lines_from [] (tl s)
      else if c = CHR 0x0A \<or> c = CHR 0x0D then acc # byte_lines_from [] s
      else byte_lines_from (acc @ [c]) s)"

definition byte_lines :: "string \<Rightarrow> string list" where
  "byte_lines = byte_lines_from []"

section \<open>Reading a closed ledger\<close>

definition counters :: "string list" where
  "counters = [''submitted'', ''acknowledged'', ''rejected'', ''uncertain'']"

definition markers_invalid :: "json \<Rightarrow> json \<Rightarrow> string \<Rightarrow> bool res" where
  "markers_invalid start stop epoch = any_of
     [notR (set_is start [''event'', ''run_id'', ''source_epoch'', ''time_ns'', ''utc'']),
      item_not start ''event'' ''start'',
      itm start ''run_id'' (\<lambda>x. Inr (\<not> str_and x (prefixed ''d3-'' hex32))),
      item_not start ''source_epoch'' epoch,
      notR (set_is stop ([''event'', ''time_ns'', ''utc''] @ counters)),
      item_not stop ''event'' ''stop'']"

text \<open>The loop over the events: rows by key, keys with an outcome, counters.\<close>

record ledger_scan =
  l_submitted :: "(op_key \<times> json) list"
  l_outcomes :: "op_key list"
  l_counts :: "string \<Rightarrow> int"

definition ledger_row_invalid :: "json \<Rightarrow> bool res" where
  "ledger_row_invalid row = any_of
     [Inr (\<not> is_obj row), notR (set_is row [''op_key'', ''payload'']),
      itm row ''op_key'' (\<lambda>k. Inr (\<not> str_and k d3_key)),
      itm row ''payload'' (\<lambda>x. Inr (\<not> str_and x (\<lambda>t. length t \<le> 4096)))]"

definition settle_event :: "ledger_scan \<Rightarrow> string \<Rightarrow> op_key \<Rightarrow> json \<Rightarrow> json \<Rightarrow> ledger_scan res" where
  "settle_event st kind key row event =
     (if kind = ''submitted'' then
        refuse_if [Inr (key \<in> fst ` set (l_submitted st))]
        (Inr (st\<lparr>l_submitted := l_submitted st @ [(key, row)]\<rparr>))
      else
        refuse_if [Inr (case map_of (l_submitted st) key of None \<Rightarrow> True
            | Some sub \<Rightarrow> key \<in> set (l_outcomes st) \<or> \<not> py_eq sub row)]
        (refuse_if [all_of [Inr (kind = ''acknowledged''), itm event ''id'' (\<lambda>i. Inr (\<not> valid_id i))]]
        (Inr (st\<lparr>l_outcomes := l_outcomes st @ [key]\<rparr>))))"

definition ledger_event :: "ledger_scan \<Rightarrow> json \<Rightarrow> ledger_scan res" where
  "ledger_event st event =
     got event ''event'' (\<lambda>kind.
     refuse_if [Inr (\<not> str_and kind (\<lambda>k. k \<in> set counters))]
     (refuse_if [notR (set_is event (event_keys kind)), itm event ''api'' (\<lambda>a. Inr (\<not> in_tuple a api_names))]
     (itm event ''row'' (\<lambda>row.
     refuse_if [ledger_row_invalid row]
     (bindR (check_stamp event) (\<lambda>_.
     itm event ''api'' (\<lambda>api. itm row ''op_key'' (\<lambda>k.
     bindR (settle_event st (str_val kind) (str_val api, str_val k) row event) (\<lambda>st'.
     Inr (st'\<lparr>l_counts := (l_counts st')(str_val kind := l_counts st' (str_val kind) + 1)\<rparr>))))))))))"

definition counters_differ :: "json \<Rightarrow> ledger_scan \<Rightarrow> bool res" where
  "counters_differ stop st = any_of
     ([Inr (MAX_SUBMISSIONS < length (l_submitted st)), Inr (fst ` set (l_submitted st) \<noteq> set (l_outcomes st))]
      @ map (\<lambda>k. itm stop k (\<lambda>n. Inr (\<not> int_and n (\<lambda>i. i = l_counts st k)))) counters)"

definition start_scan :: ledger_scan where
  "start_scan = \<lparr>l_submitted = [], l_outcomes = [], l_counts = (\<lambda>_. 0)\<rparr>"

definition read_ledger :: "string \<Rightarrow> string \<Rightarrow> json list res" where
  "read_ledger raw epoch =
     refuse_if [Inr (\<not> epoch_plus epoch)]
     (refuse_if [Inr (MAX_LEDGER < length raw)]
     (let lines = byte_lines raw in
     refuse_if [Inr (raw = [] \<or> last raw \<noteq> CHR 0x0A \<or> length lines < 2 \<or> 2 * MAX_SUBMISSIONS + 2 < length lines)]
     (refuse_if [Inr (\<exists>l \<in> set lines. l = [] \<or> 8192 < length l)]
     (bindR (traverse json_object lines) (\<lambda>rows.
     let start = hd rows; stop = last rows; events = butlast (tl rows) in
     refuse_if [markers_invalid start stop epoch]
     (bindR (check_stamp start) (\<lambda>_. bindR (check_stamp stop) (\<lambda>_.
     bindR (foldR ledger_event start_scan events) (\<lambda>st.
     refuse_if [counters_differ stop st]
     (Inr events))))))))))"

section \<open>Private files\<close>

definition parent_of :: "string \<Rightarrow> string" where
  "parent_of p = (case rev (dropWhile (\<lambda>c. c \<noteq> CHR ''/'') (rev p)) of [] \<Rightarrow> ''/''
     | s \<Rightarrow> if length s = 1 then s else butlast s)"

definition h_stat :: "string \<Rightarrow> 'w host_scheme \<Rightarrow> hnode res" where
  "h_stat p s = (case follow_path (fs s) p of None \<Rightarrow> Inl FileNotFoundError
     | Some q \<Rightarrow> h_lstat q s)"

text \<open>The path is absolute here, as every caller gives it.\<close>

definition checked_path :: "string \<Rightarrow> 'w host_scheme \<Rightarrow> unit res" where
  "checked_path p s =
     refuse_if [Inr (''..'' \<in> set (path_comps p) \<or> linked_parent p s)]
     (bindR (h_stat (parent_of p) s) (\<lambda>n.
      refuse_if [Inr (h_kind n \<noteq> DirectoryNode \<or> h_uid n \<noteq> huid s \<or> h_mode n mod 4096 \<noteq> 448)]
      (Inr ())))"

definition new_private_file :: "string \<Rightarrow> ('w host_scheme, unit) prog" where
  "new_private_file p = seqP (\<lambda>s. (checked_path p s, s)) (create_new RegularNode p 384 [])"

definition read_private :: "string \<Rightarrow> nat \<Rightarrow> 'w host_scheme \<Rightarrow> string res" where
  "read_private p limit s =
     bindR (checked_path p s) (\<lambda>_. bindR (h_lstat p s) (\<lambda>n.
     if h_kind n = SymlinkNode then Inl OSError
     else refuse_if [Inr (h_kind n \<noteq> RegularNode \<or> h_uid n \<noteq> huid s \<or> h_nlink n \<noteq> 1
        \<or> h_mode n mod 4096 \<noteq> 384 \<or> limit < length (h_bytes n))]
     (Inr (h_bytes n))))"

definition read_closed_ledger :: "string \<Rightarrow> string \<Rightarrow> 'w host_scheme \<Rightarrow> json list res" where
  "read_closed_ledger p epoch s =
     refuse_if [Inr (\<not> epoch_plus epoch)]
     (bindR (read_private p MAX_LEDGER s) (\<lambda>raw. read_ledger raw epoch))"

text \<open>\<open>_write\<close>: one compact line at the end of the open file.\<close>

definition write_line :: "string \<Rightarrow> json \<Rightarrow> ('w host_scheme, unit) prog" where
  "write_line p v = bindP (lift (dumps_compact v)) (\<lambda>t.
     modify (\<lambda>s. s\<lparr>fs := alter p (\<lambda>n. n\<lparr>h_bytes := h_bytes n @ t @ [CHR 0x0A]\<rparr>) (fs s)\<rparr>))"

section \<open>The producer\<close>

text \<open>\<open>[A-Za-z0-9._~+/-]+=*\<close>.\<close>

definition token_char :: "char \<Rightarrow> bool" where
  "token_char c \<longleftrightarrow> is_alnum c \<or> c \<in> set ''._~+/-''"

definition token_pattern :: "string \<Rightarrow> bool" where
  "token_pattern t \<longleftrightarrow> takeWhile token_char t \<noteq> [] \<and> list_all (\<lambda>c. c = CHR ''='') (dropWhile token_char t)"

definition auth_token :: "string \<Rightarrow> string res" where
  "auth_token raw = (let line = takeWhile (\<lambda>c. c \<noteq> CHR 0x0A) raw in
     refuse_if [Inr (line = [] \<or> 8192 < length line)]
     (bindR (loads_text line) (\<lambda>v.
      bindR (if is_obj v then bindR (contains v ''event'') (\<lambda>b. if b then Inr JNull else get_none v ''auth_token'') else Inr JNull) (\<lambda>t.
      refuse_if [Inr (\<not> str_and t token_pattern)] (Inr (str_val t))))))"

definition token :: "string \<Rightarrow> ('w host_scheme, string) prog" where
  "token p s = (reraise [OSError, ValueError, TypeError] ValueError
     (bindR (read_private p MAX_BODY s) auth_token), s)"

text \<open>\<open>_limits\<close>: finite numbers in their ranges.\<close>

definition finite_limit :: "json \<Rightarrow> rat option" where
  "finite_limit v = (case v of JInt n \<Rightarrow> Some (of_int n) | JFloat (Fin x) \<Rightarrow> Some x | _ \<Rightarrow> None)"

text \<open>The double \<open>.1\<close>.\<close>

definition tenth :: rat where
  "tenth = 3602879701896397 / 36028797018963968"

definition limits :: "json \<Rightarrow> json \<Rightarrow> rat \<Rightarrow> json \<Rightarrow> (rat \<times> rat \<times> rat) res" where
  "limits duration interval most timeout =
     (case (finite_limit duration, finite_limit interval, finite_limit timeout) of
        (Some d, Some i, Some t) \<Rightarrow>
          if 0 < d \<and> d \<le> most \<and> tenth \<le> i \<and> i \<le> 5 \<and> 0 < t \<and> t \<le> 5 then Inr (d, i, t) else Inl ValueError
      | _ \<Rightarrow> Inl ValueError)"

definition no_write :: "json \<Rightarrow> bool" where
  "no_write status \<longleftrightarrow> (\<exists>n \<in> {400, 401, 403, 404, 409, 422}. py_eq status (JInt n))"

text \<open>The answer of one request is \<open>[status, value, error]\<close>, the error's class or null; an exception of
  \<open>_http\<close> itself is the call's.\<close>

definition acknowledged_id :: "json \<Rightarrow> json \<Rightarrow> json \<Rightarrow> json option" where
  "acknowledged_id status v err =
     (if err = JNull \<and> (\<exists>n \<in> {200, 201}. py_eq status (JInt n))
      then (case v of JObj kvs \<Rightarrow> (case map_of kvs ''ids'' of
           Some (JArr [i]) \<Rightarrow> if valid_id i then Some i else None
         | _ \<Rightarrow> None) | _ \<Rightarrow> None)
      else None)"

definition outcome_event :: "string \<Rightarrow> json \<Rightarrow> json \<Rightarrow> json \<Rightarrow> json \<Rightarrow> json \<Rightarrow> json" where
  "outcome_event api row time status v err = (let
      kind = (if no_write status then ''rejected''
              else if acknowledged_id status v err \<noteq> None then ''acknowledged'' else ''uncertain'') in
     JObj ([(''event'', JStr kind), (''api'', JStr api), (''row'', row), (''time_ns'', time)]
       @ (if kind = ''acknowledged'' then [(''id'', the (acknowledged_id status v err))] else [])))"

text \<open>\<open>_validate_url\<close>: what \<open>urlsplit\<close> finds of a loopback URL. The scheme is not case sensitive, the path is
  empty or a slash, and an empty query or fragment may follow.\<close>

definition validate_url :: "string \<Rightarrow> string res" where
  "validate_url url =
     refuse_if [Inr (\<exists>c \<in> set url. py_space c \<or> (of_char c :: nat) < 32 \<or> (of_char c :: nat) = 127)]
     (refuse_if [Inr (lower (take 5 url) \<noteq> ''http:'')]
     (case strip_prefix ''//127.0.0.1:'' (drop 5 url) of None \<Rightarrow> Inl ValueError
      | Some r \<Rightarrow> (let port = takeWhile is_digit r; tail = dropWhile is_digit r in
         refuse_if [Inr (port = [] \<or> read_nat port = 0 \<or> 65535 < read_nat port
            \<or> tail \<notin> {[], ''/'', ''?'', ''/?'', ''#'', ''/#'', ''?#'', ''/?#''})]
         (Inr (''http://127.0.0.1:'' @ show_nat (read_nat port))))))"

definition http :: "string \<Rightarrow> string \<Rightarrow> json \<Rightarrow> json \<Rightarrow> json \<Rightarrow> ('w host_scheme, json \<times> json \<times> json) prog" where
  "http url method body tok timeout = bindP (hcall ''http'' (JArr [JStr url, JStr method, body, tok, timeout]))
     (\<lambda>a. ret (fld a ''status'', fld a ''value'', fld a ''error''))"

definition may_continue :: "rat \<Rightarrow> ('w host_scheme, bool) prog" where
  "may_continue deadline = bindP (hcall ''stopped'' JNull) (\<lambda>b.
     if truthy b then ret False else bindP monotonic (\<lambda>now. ret (now < deadline)))"

definition pause :: "rat \<Rightarrow> rat \<Rightarrow> ('w host_scheme, unit) prog" where
  "pause interval deadline = bindP monotonic (\<lambda>now.
     bindP (hcall ''stopped.wait'' (JFloat (Fin (min interval (max 0 (deadline - now)))))) (\<lambda>_. ret ()))"

definition api_of_turn :: "int \<Rightarrow> string" where
  "api_of_turn n = (if n mod 2 = 0 then ''main_ops'' else ''aux_ops'')"

definition count_up :: "(string \<Rightarrow> int) \<Rightarrow> string \<Rightarrow> string \<Rightarrow> int" where
  "count_up c k = c(k := c k + 1)"

definition submission :: "string \<Rightarrow> json \<Rightarrow> json \<Rightarrow> json" where
  "submission api row time = JObj [(''event'', JStr ''submitted''), (''api'', JStr api), (''row'', row), (''time_ns'', time)]"

definition op_row_of_uuid :: "string \<Rightarrow> json \<Rightarrow> json" where
  "op_row_of_uuid api uuid = JObj [(''op_key'', JStr (''d3-'' @ str_val uuid)), (''payload'', JStr (''D3 fault '' @ api))]"

text \<open>One turn: the submission is on disk before the request, its outcome after it.\<close>

definition produce_turn :: "string \<Rightarrow> string \<Rightarrow> string \<Rightarrow> (string \<Rightarrow> int) \<Rightarrow> ('w host_scheme, string \<Rightarrow> int) prog" where
  "produce_turn output url tok cs =
     (let api = api_of_turn (cs ''submitted'') in
     bindP (hcall ''uuid4'' JNull) (\<lambda>uuid. let row = op_row_of_uuid api uuid in
     bindP (hcall ''time_ns'' JNull) (\<lambda>t.
     seqP (write_line output (submission api row t))
     (bindP (http (url @ ''/api/records/v1/'' @ api) ''POST'' row (JStr tok) (JInt 5)) (\<lambda>(status, v, err).
     bindP (hcall ''time_ns'' JNull) (\<lambda>t'.
     let event = outcome_event api row t' status v err in
     seqP (write_line output event)
     (ret (count_up (count_up cs ''submitted'') (str_val (fld event ''event''))))))))))"

fun produce_loop :: "nat \<Rightarrow> string \<Rightarrow> string \<Rightarrow> string \<Rightarrow> rat \<Rightarrow> rat \<Rightarrow> (string \<Rightarrow> int) \<Rightarrow> ('w host_scheme, string \<Rightarrow> int) prog" where
  "produce_loop 0 output url tok interval deadline cs = bindP (may_continue deadline) (\<lambda>_. ret cs)"
| "produce_loop (Suc n) output url tok interval deadline cs = bindP (may_continue deadline) (\<lambda>go.
     if \<not> go then ret cs
     else bindP (produce_turn output url tok cs) (\<lambda>cs'.
       seqP (pause interval deadline) (produce_loop n output url tok interval deadline cs')))"

definition start_marker :: "json \<Rightarrow> string \<Rightarrow> json \<Rightarrow> json \<Rightarrow> json" where
  "start_marker uuid epoch time utc = JObj [(''event'', JStr ''start''), (''run_id'', JStr (''d3-'' @ str_val uuid)),
     (''source_epoch'', JStr epoch), (''time_ns'', time), (''utc'', utc)]"

definition stop_marker :: "(string \<Rightarrow> int) \<Rightarrow> json \<Rightarrow> json \<Rightarrow> json" where
  "stop_marker cs time utc = JObj ([(''event'', JStr ''stop'')] @ map (\<lambda>k. (k, JInt (cs k))) counters
     @ [(''time_ns'', time), (''utc'', utc)])"

definition produce_file :: "string \<Rightarrow> string \<Rightarrow> rat \<Rightarrow> rat \<Rightarrow> string \<Rightarrow> string \<Rightarrow> ('w host_scheme, unit) prog" where
  "produce_file output epoch duration interval url tok =
     bindP (hcall ''uuid4'' JNull) (\<lambda>uuid. bindP (hcall ''time_ns'' JNull) (\<lambda>t. bindP (hcall ''utc'' JNull) (\<lambda>utc.
     seqP (write_line output (start_marker uuid epoch t utc))
     (bindP monotonic (\<lambda>now.
     bindP (produce_loop MAX_SUBMISSIONS output url tok interval (now + duration) (\<lambda>_. 0)) (\<lambda>cs.
     bindP (hcall ''time_ns'' JNull) (\<lambda>t'. bindP (hcall ''utc'' JNull) (\<lambda>utc'.
     write_line output (stop_marker cs t' utc')))))))))"

definition produce :: "string \<Rightarrow> string \<Rightarrow> string \<Rightarrow> json \<Rightarrow> json \<Rightarrow> string \<Rightarrow> ('w host_scheme, unit) prog" where
  "produce token_ledger output epoch duration interval url0 =
     bindP (lift (limits duration interval 120 (JInt 5))) (\<lambda>(d, i, _).
     bindP (lift (validate_url url0)) (\<lambda>url.
     seqP (raise_when (\<lambda>_. Inr (\<not> epoch_plus epoch)) ValueError)
     (bindP (token token_ledger) (\<lambda>tok.
     seqP (new_private_file output)
     (produce_file output epoch d i url tok)))))"

section \<open>The observer\<close>

text \<open>The loop's variables: the closed windows, the open one, the last completion that was available.\<close>

record observing =
  o_windows :: "json list"
  o_pending :: "(string \<times> json) list option"
  o_last :: json

definition window_start :: "json \<Rightarrow> json \<Rightarrow> (string \<times> json) list" where
  "window_start last_available started = [(''after_last_available_ns'', last_available), (''first_unavailable_start_ns'', started),
     (''through_available_completion_ns'', JNull), (''left_censored'', JBool (last_available = JNull)),
     (''right_censored'', JBool True)]"

definition window_end :: "(string \<times> json) list \<Rightarrow> json \<Rightarrow> json" where
  "window_end w completed = JObj (dict_set (dict_set w ''through_available_completion_ns'' completed) ''right_censored'' (JBool False))"

definition note_observation :: "observing \<Rightarrow> bool \<Rightarrow> json \<Rightarrow> json \<Rightarrow> observing" where
  "note_observation o' available started completed =
     (if available then
        \<lparr>o_windows = o_windows o' @ (case o_pending o' of None \<Rightarrow> [] | Some w \<Rightarrow> [window_end w completed]),
         o_pending = None, o_last = completed\<rparr>
      else if o_pending o' = None then o'\<lparr>o_pending := Some (window_start (o_last o') started)\<rparr>
      else o')"

definition availability :: "json \<Rightarrow> string" where
  "availability status = (if \<exists>n \<in> {401, 403}. py_eq status (JInt n) then ''available''
     else if \<exists>n \<in> {200, 201}. py_eq status (JInt n) then ''unexpected_anonymous_access'' else ''error'')"

definition observe_turn :: "string \<Rightarrow> string \<Rightarrow> rat \<Rightarrow> observing \<Rightarrow> ('w host_scheme, observing) prog" where
  "observe_turn output url timeout o' =
     bindP (hcall ''monotonic_ns'' JNull) (\<lambda>started. bindP (hcall ''utc'' JNull) (\<lambda>utc.
     bindP (http (url @ ''/api/records/v1/main_ops'') ''GET'' JNull JNull (JFloat (Fin timeout))) (\<lambda>(status, v, err).
     bindP (hcall ''monotonic_ns'' JNull) (\<lambda>completed. bindP (hcall ''utc'' JNull) (\<lambda>utc'.
     let available = (availability status = ''available'') in
     seqP (write_line output (JObj [(''event'', JStr ''observation''), (''started_ns'', started), (''completed_ns'', completed),
        (''started_utc'', utc), (''completed_utc'', utc'), (''status'', status), (''available'', JBool available),
        (''availability'', JStr (availability status)), (''error'', err)]))
     (ret (note_observation o' available started completed)))))))"

text \<open>The loop ends with its deadline; the rounds the interval leaves it bound the recursion.\<close>

fun observe_loop :: "nat \<Rightarrow> string \<Rightarrow> string \<Rightarrow> rat \<Rightarrow> rat \<Rightarrow> rat \<Rightarrow> observing \<Rightarrow> ('w host_scheme, observing) prog" where
  "observe_loop 0 output url timeout interval deadline o' = raiseP StopIteration"
| "observe_loop (Suc n) output url timeout interval deadline o' = bindP (may_continue deadline) (\<lambda>go.
     if \<not> go then ret o'
     else bindP (observe_turn output url timeout o') (\<lambda>o2.
       seqP (pause interval deadline) (observe_loop n output url timeout interval deadline o2)))"

definition all_windows :: "observing \<Rightarrow> json list" where
  "all_windows o' = o_windows o' @ (case o_pending o' of None \<Rightarrow> [] | Some w \<Rightarrow> [JObj w])"

definition observe :: "nat \<Rightarrow> string \<Rightarrow> json \<Rightarrow> json \<Rightarrow> json \<Rightarrow> string \<Rightarrow> ('w host_scheme, unit) prog" where
  "observe rounds output duration interval timeout url0 =
     bindP (lift (limits duration interval 600 timeout)) (\<lambda>(d, i, t).
     bindP (lift (validate_url url0)) (\<lambda>url.
     seqP (new_private_file output)
     (bindP (hcall ''time_ns'' JNull) (\<lambda>ns. bindP (hcall ''utc'' JNull) (\<lambda>utc.
     seqP (write_line output (JObj [(''event'', JStr ''start''), (''time_ns'', ns), (''utc'', utc), (''clock'', JStr ''monotonic_ns''),
        (''interval'', interval), (''timeout'', timeout)]))
     (bindP monotonic (\<lambda>now.
     bindP (observe_loop rounds output url t i (now + d) \<lparr>o_windows = [], o_pending = None, o_last = JNull\<rparr>) (\<lambda>o'.
     bindP (hcall ''time_ns'' JNull) (\<lambda>ns'. bindP (hcall ''utc'' JNull) (\<lambda>utc'.
     write_line output (JObj [(''event'', JStr ''stop''), (''time_ns'', ns'), (''utc'', utc'),
        (''observation_windows'', JArr (all_windows o'))])))))))))))"

end
