(* ===== verification/Ledger_Facts.thy ===== *)
theory Ledger_Facts
  imports Ledger
begin

text \<open>
  Facts about the ledger of \<open>hat/client.py\<close>: a file of compact JSON lines is read back as those values, a run of submissions each
  followed by its outcome passes the reader, and so what the producer writes the reader accepts.
\<close>

section \<open>Lines\<close>

definition ledger_text :: "json list \<Rightarrow> string" where
  "ledger_text rows = concat (map (\<lambda>v. show_json [] v @ [CHR 0x0A]) rows)"

lemma ledger_text_simps [simp]:
  "ledger_text [] = []" "ledger_text (v # rows) = show_json [] v @ CHR 0x0A # ledger_text rows"
  "ledger_text (a @ b) = ledger_text a @ ledger_text b"
  by (simp_all add: ledger_text_def)

definition printable :: "string \<Rightarrow> bool" where
  "printable s \<longleftrightarrow> (\<forall>c \<in> set s. 32 \<le> (of_char c :: nat))"

lemma printable_simps [simp]:
  "printable []" "printable (a @ b) \<longleftrightarrow> printable a \<and> printable b"
  "printable (c # s) \<longleftrightarrow> 32 \<le> (of_char c :: nat) \<and> printable s"
  by (auto simp: printable_def)

lemma byte_lines_from_line:
  "printable s \<Longrightarrow> byte_lines_from acc (s @ CHR 0x0A # r) = (acc @ s) # byte_lines_from [] r"
proof (induction s arbitrary: acc)
  case Nil
  then show ?case by simp
next
  case (Cons c s)
  then have "c \<noteq> CHR 0x0A" "c \<noteq> CHR 0x0D" by auto
  with Cons show ?case by simp
qed

lemma byte_lines_text:
  "\<forall>v \<in> set rows. printable (show_json [] v) \<Longrightarrow> byte_lines (ledger_text rows) = map (show_json []) rows"
  unfolding byte_lines_def by (induction rows) (simp_all add: byte_lines_from_line)

lemma printable_nat: "printable (show_nat n)"
  using show_nat_digits [of n] by (auto simp: printable_def list_all_iff is_digit_of_char)

lemma printable_escape: "printable (escape_char c)"
proof -
  have "(of_char c :: nat) div 16 < 16" using of_char_less_256 [of c] by arith
  then have "32 \<le> (of_char (hex_char (of_char c div 16)) :: nat)"
    by (simp add: hex_char_def of_char_of)
  moreover have "32 \<le> (of_char (hex_char (of_char c mod 16)) :: nat)"
    by (simp add: hex_char_def of_char_of)
  ultimately show ?thesis by (auto simp: escape_char_def less_eq_char_def)
qed

lemma printable_string: "printable (show_string s)"
  using printable_escape by (auto simp: show_string_def printable_def)

lemma printable_json:
  "codable v \<Longrightarrow> printable sp \<Longrightarrow> printable (show_json sp v)"
  "codable_list xs \<Longrightarrow> printable sp \<Longrightarrow> printable (show_elems sp xs)"
  "codable_items kvs \<Longrightarrow> printable sp \<Longrightarrow> printable (show_members sp kvs)"
  by (induction sp v and sp xs and sp kvs rule: show_json_show_elems_show_members.induct)
    (auto simp: printable_string printable_nat show_int_def)

lemma json_object_show:
  assumes "codable (JObj kvs)"
  shows "json_object (show_json [] (JObj kvs)) = Inr (JObj kvs)"
proof -
  have "ascii_text (show_json [] (JObj kvs)) = Inr (show_json [] (JObj kvs))"
    using show_json_ascii(1) [OF assms, of "[]"] by (simp add: ascii_text_def is_ascii_def)
  moreover have "loads_unique (show_json [] (JObj kvs)) = Inr (JObj kvs)"
    using assms by (rule loads_unique_show_compact)
  ultimately show ?thesis unfolding json_object_def by (simp del: show_json.simps)
qed

section \<open>What a run of the producer writes\<close>

text \<open>One turn: the random identifier, the two times and the answer of the request.\<close>

type_synonym turn = "string \<times> int \<times> int \<times> json \<times> json \<times> json"

definition turn_kind :: "turn \<Rightarrow> string" where
  "turn_kind = (\<lambda>(u, t, t', status, v, err). if no_write status then ''rejected''
     else if acknowledged_id status v err \<noteq> None then ''acknowledged'' else ''uncertain'')"

definition turn_row :: "int \<Rightarrow> turn \<Rightarrow> json" where
  "turn_row n = (\<lambda>(u, _). op_row_of_uuid (api_of_turn n) (JStr u))"

definition turn_events :: "int \<Rightarrow> turn \<Rightarrow> json list" where
  "turn_events n x = (case x of (u, t, t', status, v, err) \<Rightarrow>
     [submission (api_of_turn n) (turn_row n x) (JInt t),
      outcome_event (api_of_turn n) (turn_row n x) (JInt t') status v err])"

fun ledger_turns :: "int \<Rightarrow> turn list \<Rightarrow> json list" where
  "ledger_turns n [] = []"
| "ledger_turns n (x # xs) = turn_events n x @ ledger_turns (n + 1) xs"

fun tally :: "(string \<Rightarrow> int) \<Rightarrow> turn list \<Rightarrow> string \<Rightarrow> int" where
  "tally cs [] = cs"
| "tally cs (x # xs) = tally (count_up (count_up cs ''submitted'') (turn_kind x)) xs"

definition turn_ok :: "turn \<Rightarrow> bool" where
  "turn_ok = (\<lambda>(u, t, t', _). hex32 u \<and> 0 < t \<and> t < 2 ^ 63 \<and> 0 < t' \<and> t' < 2 ^ 63)"

text \<open>What the services answer, and that nobody else writes the file.\<close>

definition honest :: "'w host_scheme \<Rightarrow> bool" where
  "honest s \<longleftrightarrow> (\<forall>tr.
     (\<exists>u. answer s tr (''uuid4'', JNull) = Inr (JStr u) \<and> hex32 u) \<and>
     (\<exists>t. answer s tr (''time_ns'', JNull) = Inr (JInt t) \<and> 0 < t \<and> t < 2 ^ 63) \<and>
     (\<exists>u. answer s tr (''utc'', JNull) = Inr (JStr u) \<and> safe_utc u))"

definition sole_writer :: "string \<Rightarrow> 'w host_scheme \<Rightarrow> bool" where
  "sole_writer p s \<longleftrightarrow> (\<forall>tr c f. map_of (disturb s tr c f) p = map_of f p)"

text \<open>The requests among some calls made after others, each with what it was answered.\<close>

type_synonym exchange = "json \<times> json res"

fun exchanges :: "((string \<times> json) list \<Rightarrow> string \<times> json \<Rightarrow> json res) \<Rightarrow> (string \<times> json) list \<Rightarrow> (string \<times> json) list
    \<Rightarrow> exchange list" where
  "exchanges ans before [] = []"
| "exchanges ans before (c # cs) = (if fst c = ''http'' then [(snd c, ans before c)] else []) @ exchanges ans (before @ [c]) cs"

lemma exchanges_append: "exchanges ans before (a @ b) = exchanges ans before a @ exchanges ans (before @ a) b"
  by (induction a arbitrary: before) simp_all

text \<open>From one state to a later one the file grew by some lines, and these requests were made.\<close>

definition grew :: "string \<Rightarrow> string \<Rightarrow> exchange list \<Rightarrow> 'w host_scheme \<Rightarrow> 'w host_scheme \<Rightarrow> bool" where
  "grew p t es s s' \<longleftrightarrow> answer s' = answer s \<and> disturb s' = disturb s \<and>
     map_of (fs s') p = map_option (\<lambda>n. n\<lparr>h_bytes := h_bytes n @ t\<rparr>) (map_of (fs s) p)
     \<and> (\<exists>new. trace s' = trace s @ new \<and> exchanges (answer s) (trace s) new = es)"

lemma grew_trans: "grew p t es s s1 \<Longrightarrow> grew p t' es' s1 s2 \<Longrightarrow> grew p (t @ t') (es @ es') s s2"
  by (auto simp: grew_def option.map_comp comp_def exchanges_append)

lemma grew_services: "grew p t es s s1 \<Longrightarrow> honest s1 = honest s" "grew p t es s s1 \<Longrightarrow> sole_writer p s1 = sole_writer p s"
  by (simp_all add: grew_def honest_def sole_writer_def)

lemma hcall_grew: "sole_writer p s \<Longrightarrow> hcall name a s = (r, s1)
    \<Longrightarrow> grew p [] (if name = ''http'' then [(a, answer s (trace s) (''http'', a))] else []) s s1"
  by (auto simp: hcall_def grew_def sole_writer_def option.map_ident)

lemma honest_hcall:
  assumes "honest s"
  shows "hcall ''uuid4'' JNull s = (Inr v, s1) \<Longrightarrow> \<exists>u. v = JStr u \<and> hex32 u"
    "hcall ''time_ns'' JNull s = (Inr v, s1) \<Longrightarrow> \<exists>t. v = JInt t \<and> 0 < t \<and> t < 2 ^ 63"
    "hcall ''utc'' JNull s = (Inr v, s1) \<Longrightarrow> \<exists>u. v = JStr u \<and> safe_utc u"
  using assms unfolding honest_def hcall_def by (metis prod.inject sum.inject(2))+

lemma write_line_grew: "write_line p v s = (Inr (), s1) \<Longrightarrow> grew p (show_json [] v @ [CHR 0x0A]) [] s s1"
  by (auto simp: write_line_def dumps_compact_def lift_def bindP_def modify_def grew_def split: if_splits)

lemma show_line: "ledger_text [v] = show_json [] v @ [CHR 0x0A]"
  by simp

lemma grew_nil_trans: "grew p [] [] s s1 \<Longrightarrow> grew p t es s1 s2 \<Longrightarrow> grew p t es s s2"
  using grew_trans [of p "[]" "[]" s s1 t es s2] by simp

text \<open>A program that leaves the file as it is and makes no request.\<close>

definition silent :: "string \<Rightarrow> ('w host_scheme, 'a) prog \<Rightarrow> bool" where
  "silent p m \<longleftrightarrow> (\<forall>s x s1. sole_writer p s \<longrightarrow> m s = (Inr x, s1) \<longrightarrow> grew p [] [] s s1)"

lemma silent_grew: "silent p m \<Longrightarrow> m s = (Inr x, s1) \<Longrightarrow> sole_writer p s \<Longrightarrow> grew p [] [] s s1"
  by (simp add: silent_def)

lemma silent_ret: "silent p (ret x)"
  by (simp add: silent_def ret_def grew_def option.map_ident)

lemma silent_hcall: "name \<noteq> ''http'' \<Longrightarrow> silent p (hcall name a)"
  by (auto simp: silent_def dest: hcall_grew)

lemma silent_bindP:
  assumes "silent p m" "\<And>x. silent p (f x)"
  shows "silent p (bindP m f)"
  unfolding silent_def
proof (intro allI impI)
  fix s y s2 assume s: "sole_writer p s" and run: "bindP m f s = (Inr y, s2)"
  then obtain x s1 where x: "m s = (Inr x, s1)" "f x s1 = (Inr y, s2)" by (auto simp: res_simps)
  have "grew p [] [] s s1" using silent_grew [OF assms(1) x(1) s] .
  then show "grew p [] [] s s2"
    using silent_grew [OF assms(2) x(2)] s grew_services(2) grew_nil_trans by blast
qed

lemma silent_if: "silent p m \<Longrightarrow> silent p n \<Longrightarrow> silent p (if b then m else n)"
  by simp

lemmas silent_intros = silent_ret silent_hcall silent_if silent_bindP

lemma silent_monotonic: "silent p monotonic"
  unfolding monotonic_def by (intro silent_intros) simp

lemma silent_calls: "silent p (may_continue d)" "silent p (pause i d)"
  unfolding may_continue_def pause_def by (intro silent_intros silent_monotonic; simp)+

lemma http_grew:
  assumes "http u m b tk tm s = (Inr (status, v, err), s1)" and "sole_writer p s"
  shows "\<exists>a. grew p [] [(JArr [JStr u, JStr m, b, tk, tm], Inr a)] s s1 \<and> status = fld a ''status'' \<and> v = fld a ''value'' \<and> err = fld a ''error''"
proof -
  from assms(1) obtain a where h: "hcall ''http'' (JArr [JStr u, JStr m, b, tk, tm]) s = (Inr a, s1)"
    and "status = fld a ''status'' \<and> v = fld a ''value'' \<and> err = fld a ''error''"
    by (auto simp: http_def bindP_eq_Inr ret_def)
  moreover have "answer s (trace s) (''http'', JArr [JStr u, JStr m, b, tk, tm]) = Inr a" using h by (simp add: hcall_def)
  ultimately show ?thesis using hcall_grew [OF assms(2) h] by auto
qed

text \<open>The request of a turn, and what was made of its answer.\<close>

definition turn_made :: "string \<Rightarrow> string \<Rightarrow> int \<Rightarrow> turn \<Rightarrow> exchange \<Rightarrow> bool" where
  "turn_made url tok n x e \<longleftrightarrow> (\<exists>a. e = (JArr [JStr (url @ ''/api/records/v1/'' @ api_of_turn n), JStr ''POST'', turn_row n x,
       JStr tok, JInt 5], Inr a) \<and> (case x of (u, t, t', status, v, err) \<Rightarrow>
         status = fld a ''status'' \<and> v = fld a ''value'' \<and> err = fld a ''error''))"

fun turns_made :: "string \<Rightarrow> string \<Rightarrow> int \<Rightarrow> turn list \<Rightarrow> exchange list \<Rightarrow> bool" where
  "turns_made url tok n [] es \<longleftrightarrow> es = []"
| "turns_made url tok n (x # xs) es \<longleftrightarrow> (case es of [] \<Rightarrow> False
     | e # es' \<Rightarrow> turn_made url tok n x e \<and> turns_made url tok (n + 1) xs es')"

text \<open>One turn and the loop.\<close>

lemma turn_writes:
  assumes run: "produce_turn p url tok cs s = (Inr cs', s')" and s: "honest s" "sole_writer p s"
  shows "\<exists>x e. turn_ok x \<and> turn_made url tok (cs ''submitted'') x e
    \<and> grew p (ledger_text (turn_events (cs ''submitted'') x)) [e] s s' \<and> cs' = count_up (count_up cs ''submitted'') (turn_kind x)"
proof -
  let ?api = "api_of_turn (cs ''submitted'')"
  obtain uv s1 tv s2 s3 status v err s4 tv' s5 s6 where
    1: "hcall ''uuid4'' JNull s = (Inr uv, s1)" and 2: "hcall ''time_ns'' JNull s1 = (Inr tv, s2)"
    and 3: "write_line p (submission ?api (op_row_of_uuid ?api uv) tv) s2 = (Inr (), s3)"
    and 4: "http (url @ ''/api/records/v1/'' @ ?api) ''POST'' (op_row_of_uuid ?api uv) (JStr tok) (JInt 5) s3
      = (Inr (status, v, err), s4)"
    and 5: "hcall ''time_ns'' JNull s4 = (Inr tv', s5)"
    and 6: "write_line p (outcome_event ?api (op_row_of_uuid ?api uv) tv' status v err) s5 = (Inr (), s')"
    and cs': "cs' = count_up (count_up cs ''submitted'')
      (str_val (fld (outcome_event ?api (op_row_of_uuid ?api uv) tv' status v err) ''event''))"
    using run by (auto simp: produce_turn_def Let_def res_simps ret_def)
  have g1: "grew p [] [] s s1" using silent_grew [OF silent_hcall 1 s(2)] by simp
  then have h1: "honest s1" "sole_writer p s1" using s grew_services by blast+
  have g2: "grew p [] [] s1 s2" using silent_grew [OF silent_hcall 2 h1(2)] by simp
  have g3: "grew p (ledger_text [submission ?api (op_row_of_uuid ?api uv) tv]) [] s2 s3"
    using write_line_grew [OF 3] by simp
  have h3: "honest s3" "sole_writer p s3" using h1 g2 g3 grew_services by metis+
  let ?req = "JArr [JStr (url @ ''/api/records/v1/'' @ ?api), JStr ''POST'', op_row_of_uuid ?api uv, JStr tok, JInt 5]"
  obtain a where g4: "grew p [] [(?req, Inr a)] s3 s4" and a: "status = fld a ''status''" "v = fld a ''value''" "err = fld a ''error''"
    using http_grew [OF 4 h3(2)] by blast
  then have h4: "honest s4" "sole_writer p s4" using h3 grew_services by blast+
  have g5: "grew p [] [] s4 s5" using silent_grew [OF silent_hcall 5 h4(2)] by simp
  have g6: "grew p (ledger_text [outcome_event ?api (op_row_of_uuid ?api uv) tv' status v err]) [] s5 s'"
    using write_line_grew [OF 6] by simp
  obtain u where u: "uv = JStr u" "hex32 u" using honest_hcall(1) [OF s(1) 1] by blast
  obtain t where t: "tv = JInt t" "0 < t" "t < 2 ^ 63" using honest_hcall(2) [OF h1(1) 2] by blast
  obtain t' where t': "tv' = JInt t'" "0 < t'" "t' < 2 ^ 63" using honest_hcall(2) [OF h4(1) 5] by blast
  have "grew p (ledger_text [submission ?api (op_row_of_uuid ?api uv) tv]
      @ ledger_text [outcome_event ?api (op_row_of_uuid ?api uv) tv' status v err]) [(?req, Inr a)] s s'"
    using grew_trans [OF grew_nil_trans [OF g1 grew_nil_trans [OF g2 g3]] grew_trans [OF g4 grew_nil_trans [OF g5 g6]]] by simp
  moreover have "str_val (fld (outcome_event ?api (op_row_of_uuid ?api uv) tv' status v err) ''event'')
      = turn_kind (u, t, t', status, v, err)"
    by (simp add: outcome_event_def Let_def turn_kind_def fld_def)
  ultimately show ?thesis
    using u t t' cs' a
    by (intro exI [of _ "(u, t, t', status, v, err)"] exI [of _ "(?req, Inr a)"])
      (simp add: turn_ok_def turn_events_def turn_row_def turn_made_def)
qed

lemma tally_submitted: "tally cs xs ''submitted'' = cs ''submitted'' + int (length xs)"
proof (induction xs arbitrary: cs)
  case (Cons x xs)
  have "turn_kind x \<noteq> ''submitted''" by (auto simp: turn_kind_def split: prod.splits)
  then show ?case using Cons by (simp add: count_up_def)
qed simp

lemma loop_writes:
  "produce_loop k p url tok i d cs s = (Inr cs', s') \<Longrightarrow> honest s \<Longrightarrow> sole_writer p s \<Longrightarrow>
   \<exists>xs es. length xs \<le> k \<and> list_all turn_ok xs \<and> turns_made url tok (cs ''submitted'') xs es
     \<and> grew p (ledger_text (ledger_turns (cs ''submitted'') xs)) es s s'
     \<and> cs' = tally cs xs"
proof (induction k arbitrary: cs s)
  case 0
  then obtain b where "may_continue d s = (Inr b, s')" and c: "cs' = cs" by (auto simp: res_simps ret_def)
  then have "grew p [] [] s s'" using silent_grew [OF silent_calls(1)] 0 by blast
  with c show ?case by (intro exI [of _ "[]"]) simp
next
  case (Suc k)
  obtain go s1 where m: "may_continue d s = (Inr go, s1)"
    and rest: "(if \<not> go then ret cs else bindP (produce_turn p url tok cs) (\<lambda>cs2.
       seqP (pause i d) (produce_loop k p url tok i d cs2))) s1 = (Inr cs', s')"
    using Suc.prems(1) by (auto simp: res_simps simp del: split_paired_Ex)
  have g1: "grew p [] [] s s1" using silent_grew [OF silent_calls(1) m Suc.prems(3)] .
  then have h1: "honest s1" "sole_writer p s1" using Suc.prems grew_services by blast+
  show ?case
  proof (cases go)
    case False
    with rest have "s' = s1" "cs' = cs" by (auto simp: ret_def)
    with g1 show ?thesis by (intro exI [of _ "[]"]) simp
  next
    case True
    then obtain cs2 s2 s3 where t: "produce_turn p url tok cs s1 = (Inr cs2, s2)"
      and w: "pause i d s2 = (Inr (), s3)" and l: "produce_loop k p url tok i d cs2 s3 = (Inr cs', s')"
      using rest by (auto simp: res_simps)
    obtain x e where x: "turn_ok x" "grew p (ledger_text (turn_events (cs ''submitted'') x)) [e] s1 s2"
      "turn_made url tok (cs ''submitted'') x e" "cs2 = count_up (count_up cs ''submitted'') (turn_kind x)"
      using turn_writes [OF t h1] by blast
    have h2: "honest s2" "sole_writer p s2" using h1 x(2) grew_services by blast+
    have g3: "grew p [] [] s2 s3" using silent_grew [OF silent_calls(2) w h2(2)] .
    then have h3: "honest s3" "sole_writer p s3" using h2 grew_services by blast+
    obtain xs es where xs: "length xs \<le> k" "list_all turn_ok xs"
      "grew p (ledger_text (ledger_turns (cs2 ''submitted'') xs)) es s3 s'" "cs' = tally cs2 xs"
      "turns_made url tok (cs2 ''submitted'') xs es"
      using Suc.IH [OF l h3] by blast
    have n: "cs2 ''submitted'' = cs ''submitted'' + 1"
      using tally_submitted [of cs "[x]"] x(4) by simp
    then have "grew p (ledger_text (turn_events (cs ''submitted'') x @ ledger_turns (cs ''submitted'' + 1) xs)) ([e] @ es) s s'"
      using grew_trans [OF grew_nil_trans [OF g1 x(2)] grew_nil_trans [OF g3 xs(3)]] by simp
    then show ?thesis using x xs n by (intro exI [of _ "x # xs"] exI [of _ "e # es"]) simp
  qed
qed

section \<open>Lengths\<close>

lemma length_show_nat: "n < 10 ^ Suc k \<Longrightarrow> length (show_nat n) \<le> Suc k"
proof (induction k arbitrary: n)
  case 0
  then show ?case by (simp add: show_nat.simps [of n])
next
  case (Suc k)
  show ?case
  proof (cases "n < 10")
    case True
    then show ?thesis by (simp add: show_nat.simps [of n])
  next
    case False
    have "n div 10 < 10 ^ Suc k" using Suc.prems by (simp add: div_less_iff_less_mult)
    from Suc.IH [OF this] show ?thesis using False by (simp add: show_nat.simps [of n])
  qed
qed

lemma length_show_int: "0 \<le> n \<Longrightarrow> n < 2 ^ 63 \<Longrightarrow> length (show_int n) \<le> 19"
  using length_show_nat [of "nat n" 18] by (simp add: show_int_def)

lemma length_escape: "length (escape_char c) \<le> 6"
  by (simp add: escape_char_def)

lemma length_show_string: "length (show_string s) \<le> 6 * length s + 2"
proof -
  have "length (concat (map escape_char s)) \<le> 6 * length s"
  proof (induction s)
    case (Cons c s)
    then show ?case using length_escape [of c] by simp
  qed simp
  then show ?thesis by (simp add: show_string_def)
qed

lemma length_valid_id: "valid_id i \<Longrightarrow> length (show_json sp i) \<le> 116"
proof (cases i)
  case (JStr s)
  then show "valid_id i \<Longrightarrow> length (show_json sp i) \<le> 116"
    using length_show_string [of s] by (simp add: valid_id_def)
next
  case (JInt n)
  then show "valid_id i \<Longrightarrow> length (show_json sp i) \<le> 116"
    using length_show_int [of n] by (simp add: valid_id_def)
qed (simp_all add: valid_id_def)

lemma codable_valid_id: "valid_id i \<Longrightarrow> codable i"
  by (auto simp: valid_id_def split: json.splits)

lemma api_of_turn_cases: "api_of_turn n = ''main_ops'' \<or> api_of_turn n = ''aux_ops''"
  by (simp add: api_of_turn_def)

lemma acknowledged_id_valid: "acknowledged_id status v err = Some i \<Longrightarrow> valid_id i"
  by (auto simp: acknowledged_id_def split: if_splits json.splits option.splits list.splits)

lemma acknowledged_id_codable: "acknowledged_id status v err = Some i \<Longrightarrow> codable i"
  using acknowledged_id_valid codable_valid_id by blast

lemma turn_events_codable: "list_all codable (turn_events n x)"
  by (auto simp: turn_events_def submission_def outcome_event_def Let_def turn_row_def op_row_of_uuid_def
    split: prod.splits intro: acknowledged_id_codable)

lemma turn_events_lines: "turn_ok x \<Longrightarrow> list_all (\<lambda>v. length (show_json [] v) \<le> 2000) (turn_events n x)"
proof -
  assume ok: "turn_ok x"
  obtain u t t' status v err where x: "x = (u, t, t', status, v, err)" by (metis prod_cases6)
  have t: "length (show_int t) \<le> 19" "length (show_int t') \<le> 19" and u: "length u = 32"
    using ok length_show_int by (auto simp: turn_ok_def x hex_n_def)
  have api: "length (api_of_turn n) \<le> 8" using api_of_turn_cases [of n] by auto
  have strs: "length (show_string k) \<le> 80" if "length k \<le> 13" for k
    using length_show_string [of k] that by simp
  have kinds: "length (show_string (turn_kind x)) \<le> 80"
    by (rule strs) (simp add: x turn_kind_def)
  have "length (show_string (''d3-'' @ u)) \<le> 212" "length (show_string (''D3 fault '' @ api_of_turn n)) \<le> 104"
    using u api length_show_string [of "''d3-'' @ u"] length_show_string [of "''D3 fault '' @ api_of_turn n"] by auto
  moreover have "length (show_string (api_of_turn n)) \<le> 80" using api by (auto intro: strs)
  moreover have "length (show_json [] i) \<le> 116" if "acknowledged_id status v err = Some i" for i
    using that acknowledged_id_valid length_valid_id by blast
  ultimately show ?thesis
    using t kinds strs [of "''event''"] strs [of "''api''"] strs [of "''row''"] strs [of "''time_ns''"] strs [of "''id''"]
      strs [of "''op_key''"] strs [of "''payload''"] strs [of "''submitted''"]
    by (auto simp: x turn_events_def submission_def outcome_event_def Let_def turn_row_def op_row_of_uuid_def turn_kind_def)
qed

section \<open>What the reader makes of it\<close>

definition turn_key :: "int \<Rightarrow> turn \<Rightarrow> op_key" where
  "turn_key n x = (api_of_turn n, ''d3-'' @ fst x)"

fun turn_keys :: "int \<Rightarrow> turn list \<Rightarrow> op_key list" where
  "turn_keys n [] = []"
| "turn_keys n (x # xs) = turn_key n x # turn_keys (n + 1) xs"

lemma is_hexlow_alnum: "is_hexlow c \<Longrightarrow> is_alnum c"
  by (auto simp: is_hexlow_def is_alnum_def is_lower_def intro: order_trans [of _ "CHR ''f''"])

lemma d3_key_uuid: "hex32 u \<Longrightarrow> d3_key (''d3-'' @ u)"
  by (auto simp: d3_key_def hex_n_def list_all_iff is_hexlow_alnum simp del: append.simps)

lemma row_valid: "turn_ok x \<Longrightarrow> ledger_row_invalid (turn_row n x) = Inr False"
  using api_of_turn_cases [of n] d3_key_uuid
  by (auto simp: ledger_row_invalid_def turn_row_def op_row_of_uuid_def turn_ok_def str_and_def set_is_def notR_def mapR_def
    split: prod.splits)

lemma row_key: "str_val (fld (turn_row n x) ''op_key'') = ''d3-'' @ fst x"
  by (simp add: turn_row_def op_row_of_uuid_def fld_def split: prod.splits)

lemma row_itm: "itm (turn_row n x) ''op_key'' f = f (JStr (''d3-'' @ fst x))"
  by (simp add: turn_row_def op_row_of_uuid_def split: prod.splits)

lemma row_py_eq: "py_eq (turn_row n x) (turn_row n x)"
  by (simp add: turn_row_def op_row_of_uuid_def split: prod.splits)

lemma api_in: "api_of_turn n \<in> set api_names"
  by (simp add: api_names_def api_of_turn_def)

lemma read_submission:
  assumes ok: "turn_ok x" and t: "0 < t"
  shows "ledger_event st (submission (api_of_turn n) (turn_row n x) (JInt t)) =
    (if turn_key n x \<in> fst ` set (l_submitted st) then Inl ValueError
     else Inr (st\<lparr>l_submitted := l_submitted st @ [(turn_key n x, turn_row n x)],
       l_counts := count_up (l_counts st) ''submitted''\<rparr>))"
  using t by (simp add: ledger_event_def submission_def row_valid [OF ok] row_itm api_in check_stamp_def settle_event_def
    str_and_def int_and_def counters_def set_is_def event_keys_def notR_def mapR_def get_or_def contains_def turn_key_def count_up_def)

lemma read_outcome:
  assumes ok: "turn_ok (u, t, t', status, v, err)"
    and there: "map_of (l_submitted st) (turn_key n (u, t, t', status, v, err)) = Some (turn_row n (u, t, t', status, v, err))"
    and new: "turn_key n (u, t, t', status, v, err) \<notin> set (l_outcomes st)"
  shows "ledger_event st (outcome_event (api_of_turn n) (turn_row n (u, t, t', status, v, err)) (JInt t') status v err) =
    Inr (st\<lparr>l_outcomes := l_outcomes st @ [turn_key n (u, t, t', status, v, err)],
       l_counts := count_up (l_counts st) (turn_kind (u, t, t', status, v, err))\<rparr>)"
proof -
  let ?row = "turn_row n (u, t, t', status, v, err)"
  have k: "turn_key n (u, t, t', status, v, err) = (api_of_turn n, ''d3-'' @ u)" by (simp add: turn_key_def)
  note facts = row_valid [OF ok] row_itm api_in check_stamp_def settle_event_def str_and_def int_and_def counters_def
    set_is_def event_keys_def notR_def mapR_def get_or_def contains_def count_up_def row_py_eq
  have pos: "0 < t'" using ok by (simp add: turn_ok_def)
  consider (r) "no_write status" | (a) i where "\<not> no_write status" "acknowledged_id status v err = Some i"
    | (x) "\<not> no_write status" "acknowledged_id status v err = None" by fastforce
  then show ?thesis
  proof cases
    case r
    then show ?thesis using there new pos unfolding k
      by (simp add: ledger_event_def outcome_event_def facts turn_kind_def)
  next
    case a
    then show ?thesis using there new pos acknowledged_id_valid [OF a(2)] unfolding k
      by (simp add: ledger_event_def outcome_event_def facts turn_kind_def)
  next
    case x
    then show ?thesis using there new pos unfolding k
      by (simp add: ledger_event_def outcome_event_def facts turn_kind_def)
  qed
qed

fun turn_subs :: "int \<Rightarrow> turn list \<Rightarrow> (op_key \<times> json) list" where
  "turn_subs n [] = []"
| "turn_subs n (x # xs) = (turn_key n x, turn_row n x) # turn_subs (n + 1) xs"

lemma fst_turn_subs: "map fst (turn_subs n xs) = turn_keys n xs"
  by (induction xs arbitrary: n) simp_all

lemma length_turn_subs: "length (turn_subs n xs) = length xs"
  by (induction xs arbitrary: n) simp_all

lemma read_turn:
  assumes ok: "turn_ok x" and same: "fst ` set (l_submitted st) = set (l_outcomes st)"
  shows "foldR ledger_event st (turn_events n x @ rest) =
    (if turn_key n x \<in> set (l_outcomes st) then Inl ValueError
     else foldR ledger_event (st\<lparr>l_submitted := l_submitted st @ [(turn_key n x, turn_row n x)],
       l_outcomes := l_outcomes st @ [turn_key n x],
       l_counts := count_up (count_up (l_counts st) ''submitted'') (turn_kind x)\<rparr>) rest)"
proof -
  obtain u t t' status v err where x: "x = (u, t, t', status, v, err)" by (metis prod_cases6)
  have t: "0 < t" using ok by (simp add: turn_ok_def x)
  have none: "map_of (l_submitted st) (turn_key n x) = None" if "turn_key n x \<notin> set (l_outcomes st)"
    using that same by (simp add: map_of_eq_None_iff)
  let ?st = "st\<lparr>l_submitted := l_submitted st @ [(turn_key n x, turn_row n x)],
       l_counts := count_up (l_counts st) ''submitted''\<rparr>"
  have "ledger_event ?st (outcome_event (api_of_turn n) (turn_row n x) (JInt t') status v err) =
    Inr (?st\<lparr>l_outcomes := l_outcomes ?st @ [turn_key n x], l_counts := count_up (l_counts ?st) (turn_kind x)\<rparr>)"
    if "turn_key n x \<notin> set (l_outcomes st)"
    unfolding x by (rule read_outcome) (use ok none that in \<open>auto simp: x map_add_def\<close>)
  then show ?thesis
    using read_submission [OF ok t, of st n] same by (simp add: x turn_events_def)
qed

lemma read_turns:
  "list_all turn_ok xs \<Longrightarrow> fst ` set (l_submitted st) = set (l_outcomes st) \<Longrightarrow>
   foldR ledger_event st (ledger_turns n xs) =
    (if distinct (turn_keys n xs) \<and> set (turn_keys n xs) \<inter> set (l_outcomes st) = {}
     then Inr (st\<lparr>l_submitted := l_submitted st @ turn_subs n xs, l_outcomes := l_outcomes st @ turn_keys n xs,
       l_counts := tally (l_counts st) xs\<rparr>)
     else Inl ValueError)"
proof (induction xs arbitrary: st n)
  case Nil
  then show ?case by simp
next
  case (Cons x xs)
  let ?st = "st\<lparr>l_submitted := l_submitted st @ [(turn_key n x, turn_row n x)],
       l_outcomes := l_outcomes st @ [turn_key n x],
       l_counts := count_up (count_up (l_counts st) ''submitted'') (turn_kind x)\<rparr>"
  have "fst ` set (l_submitted ?st) = set (l_outcomes ?st)" using Cons.prems by simp
  note ih = Cons.IH [OF _ this, of "n + 1"]
  have ok: "turn_ok x" "list_all turn_ok xs" using Cons.prems by simp_all
  show ?case
    using read_turn [OF ok(1) Cons.prems(2), of n "ledger_turns (n + 1) xs"] ih [OF ok(2)] by auto
qed

definition ledger_rows :: "string \<Rightarrow> string \<Rightarrow> int \<Rightarrow> string \<Rightarrow> turn list \<Rightarrow> int \<Rightarrow> string \<Rightarrow> json list" where
  "ledger_rows epoch u t c xs t' c' =
     start_marker (JStr u) epoch (JInt t) (JStr c) # ledger_turns 0 xs
       @ [stop_marker (tally (\<lambda>_. 0) xs) (JInt t') (JStr c')]"

lemma ledger_turns_codable: "list_all codable (ledger_turns n xs)"
  using turn_events_codable by (induction xs arbitrary: n) auto

lemma ledger_turns_length: "length (ledger_turns n xs) = 2 * length xs"
  by (induction xs arbitrary: n) (auto simp: turn_events_def split: prod.splits)

lemma ledger_turns_lines: "list_all turn_ok xs \<Longrightarrow> list_all (\<lambda>v. length (show_json [] v) \<le> 2000) (ledger_turns n xs)"
  using turn_events_lines by (induction xs arbitrary: n) auto

lemma ledger_turns_objects: "list_all is_obj (ledger_turns n xs)"
  by (induction xs arbitrary: n) (auto simp: turn_events_def submission_def outcome_event_def Let_def is_obj_iff split: prod.splits)

lemma count_up_bounds: "cs k \<le> count_up cs a k \<and> count_up cs a k \<le> cs k + 1"
  by (simp_all add: count_up_def)

lemma tally_bounds: "cs k \<le> tally cs xs k \<and> tally cs xs k \<le> cs k + 2 * int (length xs)"
proof (induction xs arbitrary: cs)
  case (Cons x xs)
  let ?cs = "count_up cs ''submitted''"
  show ?case
    using Cons.IH [of "count_up ?cs (turn_kind x)"] count_up_bounds [of ?cs k "turn_kind x"]
      count_up_bounds [of cs k "''submitted''"] by simp
qed simp

lemma safe_utc_length: "safe_utc c \<Longrightarrow> length c = 20"
  by (simp add: safe_utc_def utc_pattern_def)

lemma marker_lengths:
  assumes "hex32 u" "0 < t" "t < 2 ^ 63" "safe_utc c" "length epoch \<le> 1000"
  shows "length (show_json [] (start_marker (JStr u) epoch (JInt t) (JStr c))) \<le> 8192"
proof -
  have "length (show_string (''d3-'' @ u)) \<le> 212" "length (show_string c) \<le> 122" "length (show_string epoch) \<le> 6002"
    "length (show_int t) \<le> 19"
    using assms length_show_string [of "''d3-'' @ u"] length_show_string [of c] length_show_string [of epoch]
      length_show_int [of t] by (auto simp: hex_n_def safe_utc_length)
  then show ?thesis
    using length_show_string [of "''event''"] length_show_string [of "''run_id''"] length_show_string [of "''source_epoch''"]
      length_show_string [of "''time_ns''"] length_show_string [of "''utc''"] length_show_string [of "''start''"]
    by (simp add: start_marker_def)
qed

lemma stop_length:
  assumes "0 < t" "t < 2 ^ 63" "safe_utc c" "length xs \<le> MAX_SUBMISSIONS"
  shows "length (show_json [] (stop_marker (tally (\<lambda>_. 0) xs) (JInt t) (JStr c))) \<le> 8192"
proof -
  have n: "length (show_int (tally (\<lambda>_. 0) xs k)) \<le> 19" for k
    using tally_bounds [of "\<lambda>_. 0" k xs] assms(4) by (intro length_show_int) (auto simp: MAX_SUBMISSIONS_def)
  have "length (show_string c) \<le> 122" "length (show_int t) \<le> 19"
    using assms length_show_string [of c] length_show_int [of t] by (auto simp: safe_utc_length)
  then show ?thesis
    using length_show_string [of "''event''"] length_show_string [of "''submitted''"] length_show_string [of "''acknowledged''"]
      length_show_string [of "''time_ns''"] length_show_string [of "''utc''"] length_show_string [of "''stop''"]
      length_show_string [of "''rejected''"] length_show_string [of "''uncertain''"]
      n [of "''submitted''"] n [of "''acknowledged''"] n [of "''rejected''"] n [of "''uncertain''"]
    by (simp add: stop_marker_def counters_def)
qed

lemma ledger_rows_codable: "list_all codable (ledger_rows epoch u t c xs t' c')"
  using ledger_turns_codable [of 0 xs] by (simp add: ledger_rows_def start_marker_def stop_marker_def counters_def)

lemma ledger_rows_objects: "list_all is_obj (ledger_rows epoch u t c xs t' c')"
  using ledger_turns_objects [of 0 xs] by (simp add: ledger_rows_def start_marker_def stop_marker_def is_obj_iff)

lemma traverse_rows:
  "list_all codable rows \<Longrightarrow> list_all is_obj rows \<Longrightarrow> traverse json_object (map (show_json []) rows) = Inr rows"
proof (induction rows)
  case (Cons v rows)
  then obtain kvs where v: "v = JObj kvs" "codable (JObj kvs)" by (auto simp: is_obj_iff)
  show ?case using json_object_show [OF v(2)] Cons v(1) by (simp del: show_json.simps codable.simps)
qed simp

lemma length_ledger_text:
  "list_all (\<lambda>v. length (show_json [] v) \<le> m) rows \<Longrightarrow> length (ledger_text rows) \<le> length rows * Suc m"
  by (induction rows) (auto simp: add.commute)

lemma read_rows:
  assumes xs: "list_all turn_ok xs" "length xs \<le> MAX_SUBMISSIONS" and u: "hex32 u"
    and t: "0 < t" "t < 2 ^ 63" "0 < t'" "t' < 2 ^ 63" and c: "safe_utc c" "safe_utc c'"
    and e: "epoch_plus epoch" "length epoch \<le> 1000"
  shows "read_ledger (ledger_text (ledger_rows epoch u t c xs t' c')) epoch =
    (if distinct (turn_keys 0 xs) then Inr (ledger_turns 0 xs) else Inl ValueError)"
proof -
  let ?rows = "ledger_rows epoch u t c xs t' c'" and ?start = "start_marker (JStr u) epoch (JInt t) (JStr c)"
  let ?stop = "stop_marker (tally (\<lambda>_. 0) xs) (JInt t') (JStr c')"
  have one: "length (show_json [] ?start) \<le> 8192" "length (show_json [] ?stop) \<le> 8192"
    using marker_lengths [OF u t(1,2) c(1) e(2)] stop_length [OF t(3,4) c(2) xs(2)] by simp_all
  have mid: "list_all (\<lambda>v. length (show_json [] v) \<le> 2000) (ledger_turns 0 xs)" using ledger_turns_lines [OF xs(1)] .
  have lines: "byte_lines (ledger_text ?rows) = map (show_json []) ?rows"
    by (rule byte_lines_text) (use ledger_rows_codable [of epoch u t c xs t' c'] printable_json(1) in \<open>auto simp: list_all_iff\<close>)
  have small: "length (ledger_text ?rows) \<le> MAX_LEDGER"
    using length_ledger_text [OF mid] one xs(2) ledger_turns_length [of 0 xs]
    by (simp add: ledger_rows_def MAX_LEDGER_def MAX_SUBMISSIONS_def)
  have count: "length ?rows = 2 * length xs + 2" by (simp add: ledger_rows_def ledger_turns_length)
  have last: "ledger_text ?rows \<noteq> []" "last (ledger_text ?rows) = CHR 0x0A"
    by (simp_all add: ledger_rows_def ledger_text_def)
  have each: "\<not> (\<exists>l \<in> set (map (show_json []) ?rows). l = [] \<or> 8192 < length l)"
    using one mid ledger_rows_codable [of epoch u t c xs t' c']
    by (auto simp: ledger_rows_def list_all_iff dest!: show_json_nonempty)
  have inv: "markers_invalid ?start ?stop epoch = Inr False"
    using prefixed_append [of "''d3-''" hex32 u] u by (simp add: markers_invalid_def start_marker_def stop_marker_def set_is_def notR_def mapR_def
      str_and_def differs_def counters_def insert_commute)
  have stamps: "check_stamp ?start = Inr ()" "check_stamp ?stop = Inr ()"
    using t c by (simp_all add: check_stamp_def start_marker_def stop_marker_def get_or_def int_and_def contains_def
      stamp_invalid_def str_and_def safe_utc_def counters_def)
  have "fst ` set (turn_subs 0 xs) = set (turn_keys 0 xs)"
    using fst_turn_subs [of 0 xs] by (metis list.set_map)
  then have diff: "counters_differ ?stop \<lparr>l_submitted = turn_subs 0 xs, l_outcomes = turn_keys 0 xs,
      l_counts = tally (\<lambda>_. 0) xs\<rparr> = Inr False"
    using xs(2) by (simp add: counters_differ_def length_turn_subs stop_marker_def counters_def int_and_def)
  have scan: "foldR ledger_event start_scan (ledger_turns 0 xs) =
    (if distinct (turn_keys 0 xs) then Inr \<lparr>l_submitted = turn_subs 0 xs, l_outcomes = turn_keys 0 xs,
      l_counts = tally (\<lambda>_. 0) xs\<rparr> else Inl ValueError)"
    using read_turns [OF xs(1), of start_scan 0] by (simp add: start_scan_def)
  have parts: "hd ?rows = ?start" "last ?rows = ?stop" "butlast (tl ?rows) = ledger_turns 0 xs"
    by (simp_all add: ledger_rows_def butlast_append)
  show ?thesis
    unfolding read_ledger_def Let_def lines
    using small count last each traverse_rows [OF ledger_rows_codable ledger_rows_objects, of epoch u t c xs t' c']
      inv stamps diff scan parts e(1) xs(2)
    by (simp del: byte_lines_from.simps)
qed

section \<open>A whole file\<close>

lemma file_writes:
  assumes run: "produce_file p epoch d i url tok s = (Inr (), s')" and s: "honest s" "sole_writer p s"
  shows "\<exists>u t c xs es t' c'. hex32 u \<and> 0 < t \<and> t < 2 ^ 63 \<and> safe_utc c \<and> 0 < t' \<and> t' < 2 ^ 63 \<and> safe_utc c'
    \<and> list_all turn_ok xs \<and> length xs \<le> MAX_SUBMISSIONS \<and> turns_made url tok 0 xs es
    \<and> grew p (ledger_text (ledger_rows epoch u t c xs t' c')) es s s'"
proof -
  obtain uv s1 tv s2 cv s3 s4 now s5 cs s6 tv' s7 cv' s8 where
    1: "hcall ''uuid4'' JNull s = (Inr uv, s1)" "hcall ''time_ns'' JNull s1 = (Inr tv, s2)" "hcall ''utc'' JNull s2 = (Inr cv, s3)"
    and 2: "write_line p (start_marker uv epoch tv cv) s3 = (Inr (), s4)" and 3: "monotonic s4 = (Inr now, s5)"
    and 4: "produce_loop MAX_SUBMISSIONS p url tok i (now + d) (\<lambda>_. 0) s5 = (Inr cs, s6)"
    and 5: "hcall ''time_ns'' JNull s6 = (Inr tv', s7)" "hcall ''utc'' JNull s7 = (Inr cv', s8)"
    and 6: "write_line p (stop_marker cs tv' cv') s8 = (Inr (), s')"
    using run by (auto simp: produce_file_def res_simps simp del: produce_loop.simps)
  have g1: "grew p [] [] s s1" using silent_grew [OF silent_hcall 1(1) s(2)] by simp
  then have h1: "honest s1" "sole_writer p s1" using s grew_services by blast+
  have g2: "grew p [] [] s1 s2" using silent_grew [OF silent_hcall 1(2) h1(2)] by simp
  then have h2: "honest s2" "sole_writer p s2" using h1 grew_services by blast+
  have g3: "grew p [] [] s2 s3" using silent_grew [OF silent_hcall 1(3) h2(2)] by simp
  have g4: "grew p (ledger_text [start_marker uv epoch tv cv]) [] s3 s4" using write_line_grew [OF 2] by simp
  have h4: "honest s4" "sole_writer p s4" using h2 g3 g4 grew_services by metis+
  have g5: "grew p [] [] s4 s5" using silent_grew [OF silent_monotonic 3 h4(2)] .
  then have h5: "honest s5" "sole_writer p s5" using h4 grew_services by blast+
  obtain xs es where xs: "length xs \<le> MAX_SUBMISSIONS" "list_all turn_ok xs" "grew p (ledger_text (ledger_turns 0 xs)) es s5 s6"
    "cs = tally (\<lambda>_. 0) xs" "turns_made url tok 0 xs es"
    using loop_writes [OF 4 h5] by auto
  then have h6: "honest s6" "sole_writer p s6" using h5 grew_services by blast+
  have g7: "grew p [] [] s6 s7" using silent_grew [OF silent_hcall 5(1) h6(2)] by simp
  then have h7: "honest s7" "sole_writer p s7" using h6 grew_services by blast+
  have g8: "grew p [] [] s7 s8" using silent_grew [OF silent_hcall 5(2) h7(2)] by simp
  have g9: "grew p (ledger_text [stop_marker cs tv' cv']) [] s8 s'" using write_line_grew [OF 6] by simp
  obtain u t c t' c' where v: "uv = JStr u" "hex32 u" "tv = JInt t" "0 < t" "t < 2 ^ 63" "cv = JStr c" "safe_utc c"
    "tv' = JInt t'" "0 < t'" "t' < 2 ^ 63" "cv' = JStr c'" "safe_utc c'"
    using honest_hcall(1) [OF s(1) 1(1)] honest_hcall(2) [OF h1(1) 1(2)] honest_hcall(3) [OF h2(1) 1(3)]
      honest_hcall(2) [OF h6(1) 5(1)] honest_hcall(3) [OF h7(1) 5(2)] by blast
  have "grew p (ledger_text [start_marker uv epoch tv cv] @ ledger_text (ledger_turns 0 xs)
      @ ledger_text [stop_marker cs tv' cv']) ([] @ es @ []) s s'"
    using grew_nil_trans [OF g1 grew_nil_trans [OF g2 grew_nil_trans [OF g3 grew_trans [OF g4
      grew_nil_trans [OF g5 grew_trans [OF xs(3) grew_nil_trans [OF g7 grew_nil_trans [OF g8 g9]]]]]]]] .
  then have "grew p (ledger_text (ledger_rows epoch u t c xs t' c')) es s s'"
    by (simp add: ledger_rows_def v xs(4))
  with v xs show ?thesis by blast
qed

end
