(* ===== verification/Ledger_Properties.thy ===== *)
theory Ledger_Properties
  imports Ledger_Facts
begin

text \<open>
  The round trip of the ledger of \<open>hat/client.py\<close>: what a producer leaves, the closed-ledger reader gives back.
\<close>

section \<open>What a ledger should say\<close>

text \<open>A request made, and its answer. The interface is the last part of the URL; the row is what was sent.\<close>

definition last_part :: "string \<Rightarrow> string" where
  "last_part url = rev (takeWhile (\<lambda>c. c \<noteq> CHR ''/'') (rev url))"

fun request_of :: "exchange \<Rightarrow> (string \<times> json \<times> json) option" where
  "request_of (JArr [JStr url, JStr method, row, tok, timeout], Inr a) = Some (last_part url, row, a)"
| "request_of _ = None"

text \<open>The identifier a service acknowledged: the request went through, was answered with 200 or 201, and with exactly one
  valid identifier.\<close>

definition created :: "json \<Rightarrow> json option" where
  "created a = (if fld a ''error'' = JNull \<and> (py_eq (fld a ''status'') (JInt 200) \<or> py_eq (fld a ''status'') (JInt 201))
     then (case fld a ''value'' of JObj kvs \<Rightarrow> (case map_of kvs ''ids'' of Some (JArr [i]) \<Rightarrow> if valid_id i then Some i else None
        | _ \<Rightarrow> None) | _ \<Rightarrow> None) else None)"

text \<open>The lines of one request: that it was submitted at \<open>t\<close>, and at \<open>t'\<close> that it was rejected if the answer says that nothing
  was written, acknowledged with its identifier, or else uncertain.\<close>

definition lines_of :: "exchange \<Rightarrow> int \<times> int \<Rightarrow> json list" where
  "lines_of e stamps = (case (request_of e, stamps) of (None, _) \<Rightarrow> [] | (Some (api, row, a), t, t') \<Rightarrow>
     let common = (\<lambda>t. [(''api'', JStr api), (''row'', row), (''time_ns'', JInt t)]) in
     [JObj ((''event'', JStr ''submitted'') # common t),
      if \<exists>n \<in> {400, 401, 403, 404, 409, 422}. py_eq (fld a ''status'') (JInt n)
      then JObj ((''event'', JStr ''rejected'') # common t')
      else (case created a of Some i \<Rightarrow> JObj ((''event'', JStr ''acknowledged'') # common t' @ [(''id'', i)])
         | None \<Rightarrow> JObj ((''event'', JStr ''uncertain'') # common t'))])"

definition operation_of :: "exchange \<Rightarrow> string \<times> string" where
  "operation_of e = (case request_of e of None \<Rightarrow> ([], []) | Some (api, row, a) \<Rightarrow> (api, str_val (fld row ''op_key'')))"

text \<open>The requests of a run: posted to the two interfaces in turn, each with a key of its own kind, and answered.\<close>

definition posted :: "nat \<Rightarrow> exchange \<Rightarrow> bool" where
  "posted i e \<longleftrightarrow> (\<exists>base tok u a. let api = if even i then ''main_ops'' else ''aux_ops'' in hex32 u \<and>
     e = (JArr [JStr (base @ ''/api/records/v1/'' @ api), JStr ''POST'',
       JObj [(''op_key'', JStr (''d3-'' @ u)), (''payload'', JStr (''D3 fault '' @ api))], JStr tok, JInt 5], Inr a))"

lemma last_part_api: "last_part (url @ ''/api/records/v1/'' @ api_of_turn n) = api_of_turn n"
  by (cases "n mod 2 = 0") (simp_all add: last_part_def api_of_turn_def)

lemma created_eq: "created a = acknowledged_id (fld a ''status'') (fld a ''value'') (fld a ''error'')"
  by (simp add: created_def acknowledged_id_def)

lemma turn_lines:
  assumes "turn_made url tok n (u, t, t', status, v, err) e"
  shows "turn_events n (u, t, t', status, v, err) = lines_of e (t, t')" "turn_key n (u, t, t', status, v, err) = operation_of e"
proof -
  let ?x = "(u, t, t', status, v, err)"
  from assms obtain a where e: "e = (JArr [JStr (url @ ''/api/records/v1/'' @ api_of_turn n), JStr ''POST'', turn_row n ?x,
      JStr tok, JInt 5], Inr a)" and a: "status = fld a ''status''" "v = fld a ''value''" "err = fld a ''error''"
    by (auto simp: turn_made_def)
  have r: "request_of e = Some (api_of_turn n, turn_row n ?x, a)" using last_part_api [of url n] by (simp add: e)
  show "turn_key n ?x = operation_of e"
    by (simp add: operation_of_def r turn_key_def turn_row_def op_row_of_uuid_def fld_def)
  show "turn_events n ?x = lines_of e (t, t')"
    by (simp add: lines_of_def r turn_events_def submission_def outcome_event_def Let_def no_write_def created_eq a
        split: option.splits)
qed

lemma turns_lines:
  "turns_made url tok n xs es \<Longrightarrow> length es = length xs \<and> turn_keys n xs = map operation_of es
    \<and> ledger_turns n xs = concat (map2 lines_of es (map (\<lambda>(u, t, t', _). (t, t')) xs))"
proof (induction xs arbitrary: n es)
  case (Cons x xs)
  obtain u t t' status v err where x: "x = (u, t, t', status, v, err)" by (cases x) auto
  from Cons.prems obtain e es' where es: "es = e # es'" and made: "turn_made url tok n x e" "turns_made url tok (n + 1) xs es'"
    by (auto split: list.splits)
  then show ?case using Cons.IH [OF made(2)] turn_lines [OF made(1) [unfolded x]] by (simp add: x)
qed simp

lemma turns_posted:
  "turns_made url tok n xs es \<Longrightarrow> list_all turn_ok xs \<Longrightarrow> 0 \<le> n \<Longrightarrow> i < length es \<Longrightarrow> posted (nat n + i) (es ! i)"
proof (induction xs arbitrary: n es i)
  case (Cons x xs)
  obtain u t t' status v err where x: "x = (u, t, t', status, v, err)" by (cases x) auto
  from Cons.prems obtain e es' where es: "es = e # es'" and made: "turn_made url tok n x e" "turns_made url tok (n + 1) xs es'"
    by (auto split: list.splits)
  have u: "hex32 u" using Cons.prems(2) by (simp add: x turn_ok_def)
  have "api_of_turn n = (if even (nat n) then ''main_ops'' else ''aux_ops'')"
    using Cons.prems(3) even_nat_iff [of n] by (auto simp: api_of_turn_def even_iff_mod_2_eq_zero)
  then have "posted (nat n) e"
    using made(1) u unfolding posted_def turn_made_def Let_def x turn_row_def op_row_of_uuid_def by auto
  moreover have "posted (nat (n + 1) + j) (es' ! j)" if "j < length es'" for j
    using Cons.IH [OF made(2) _ _ that] Cons.prems(2,3) by simp
  ultimately show ?case using Cons.prems(3,4) es by (cases i) (auto simp: nat_add_distrib)
qed simp

section \<open>The round trip\<close>

text \<open>C33 What the producer leaves, the reader accepts: when a run of the producer returns, on services that give
  identifiers, times and stamps of their kinds, for an epoch of at most a thousand characters and with nobody else
  writing its file, then it made at most a thousand requests, posted to the two interfaces in turn, and the file is read
  back by the closed-ledger reader as exactly the two lines of each, in their order: that it was submitted, with the row
  that was sent, and its outcome, which is what its answer says, rejected, acknowledged with the identifier that came
  back, or uncertain. The reader refuses it in one case only, that the service repeated an identifier.\<close>

theorem ledger_roundtrip:
  fixes s :: "'w host_scheme"
  assumes run: "produce tokens output epoch duration interval url s = (Inr (), s')"
    and s: "honest s" "sole_writer output s" and e: "length epoch \<le> 1000"
  shows "\<exists>new es stamps. trace s' = trace s @ new \<and> es = exchanges (answer s) (trace s) new
    \<and> length es \<le> 1000 \<and> (\<forall>i < length es. posted i (es ! i)) \<and> length stamps = length es
    \<and> (\<forall>(t, t') \<in> set stamps. 0 < t \<and> t < 2 ^ 63 \<and> 0 < t' \<and> t' < 2 ^ 63)
    \<and> map_option (\<lambda>n. read_ledger (h_bytes n) epoch) (map_of (fs s') output) =
        Some (if distinct (map operation_of es) then Inr (concat (map2 lines_of es stamps)) else Inl ValueError)"
proof -
  obtain d i url' tok s1 where e2: "epoch_plus epoch" and n: "new_private_file output s = (Inr (), s1)"
    and f: "produce_file output epoch d i url' tok s1 = (Inr (), s')"
    using run by (auto simp: produce_def res_simps lift_def token_def raise_when_def simp del: split_paired_Ex)
  have s1: "honest s1" "sole_writer output s1" "map_option h_bytes (map_of (fs s1) output) = Some []"
      "trace s1 = trace s" "answer s1 = answer s"
    using n s by (auto simp: new_private_file_def create_new_def create_def res_simps raise_when_def modify_def
      honest_def sole_writer_def new_node_def)
  obtain u t c xs es t' c' where r: "hex32 u" "0 < t" "t < 2 ^ 63" "safe_utc c" "0 < t'" "t' < 2 ^ 63" "safe_utc c'"
    "list_all turn_ok xs" "length xs \<le> MAX_SUBMISSIONS" "turns_made url' tok 0 xs es"
    "grew output (ledger_text (ledger_rows epoch u t c xs t' c')) es s1 s'"
    using file_writes [OF f s1(1,2)] by blast
  obtain new where new: "trace s' = trace s @ new" "es = exchanges (answer s) (trace s) new"
    using r(11) s1(4,5) by (auto simp: grew_def)
  obtain n' where "map_of (fs s1) output = Some n'" "h_bytes n' = []" using s1(3) by auto
  then have "map_option (\<lambda>n. read_ledger (h_bytes n) epoch) (map_of (fs s') output) =
      Some (read_ledger (ledger_text (ledger_rows epoch u t c xs t' c')) epoch)"
    using r(11) by (simp add: grew_def)
  then have "map_option (\<lambda>n. read_ledger (h_bytes n) epoch) (map_of (fs s') output) =
      Some (if distinct (map operation_of es) then Inr (concat (map2 lines_of es (map (\<lambda>(u, t, t', _). (t, t')) xs)))
        else Inl ValueError)"
    using read_rows [OF r(8,9,1,2,3,5,6,4,7) e2 e] turns_lines [OF r(10)] by (simp only:)
  moreover have "length es = length xs" using turns_lines [OF r(10)] by simp
  moreover have "\<forall>(t, t') \<in> set (map (\<lambda>(u, t, t', _). (t, t')) xs). 0 < t \<and> t < 2 ^ 63 \<and> 0 < t' \<and> t' < 2 ^ 63"
    using r(8) by (auto simp: list_all_iff turn_ok_def)
  moreover have "\<forall>i < length es. posted i (es ! i)" using turns_posted [OF r(10,8)] by simp
  moreover have "length xs \<le> 1000" using r(9) by (simp add: MAX_SUBMISSIONS_def)
  ultimately show ?thesis using new
    by (intro exI [of _ new] exI [of _ es] exI [of _ "map (\<lambda>(u, t, t', _). (t, t')) xs"]) (simp only: length_map simp_thms)
qed

section \<open>Witness\<close>

definition demo_services :: "(string \<times> json) list \<Rightarrow> string \<times> json \<Rightarrow> json res" where
  "demo_services tr c =
     (if fst c = ''uuid4'' then Inr (JStr (replicate 32 (CHR ''a'')))
      else if fst c = ''time_ns'' then Inr (JInt 5)
      else if fst c = ''utc'' then Inr (JStr ''2024-02-29T12:00:00Z'')
      else if fst c = ''stopped'' then Inr (JBool (8 < length tr))
      else if fst c = ''http'' then Inr (JObj [(''status'', JInt 200), (''value'', JObj [(''ids'', JArr [JInt 7])]), (''error'', JNull)])
      else Inr (JInt 0))"

definition demo_dir :: hnode where
  "demo_dir = \<lparr>h_kind = DirectoryNode, h_uid = 1, h_gid = 1, h_mode = 448, h_nlink = 2, h_id = (0, 1), h_bytes = []\<rparr>"

definition demo_frame :: hnode where
  "demo_frame = \<lparr>h_kind = RegularNode, h_uid = 1, h_gid = 1, h_mode = 384, h_nlink = 1, h_id = (0, 2),
     h_bytes = show_json [] (JObj [(''auth_token'', JStr ''a'')])\<rparr>"

definition demo_producer :: host where
  "demo_producer = \<lparr>answer = demo_services, trace = [], fs = [(''/r'', demo_dir), (''/r/t'', demo_frame)],
     disturb = (\<lambda>_ _ f. f), huid = 1, hgid = 1, fresh = 9\<rparr>"

definition demo_opened :: host where
  "demo_opened = demo_producer\<lparr>fs := (''/r/l'', new_node RegularNode 384 [] demo_producer) # fs demo_producer, fresh := 10\<rparr>"

lemma demo_limits: "limits (JInt 1) (JInt 1) 120 (JInt 5) = Inr (1, 1, 5)"
  by (simp add: limits_def finite_limit_def tenth_def)

lemma demo_url: "validate_url ''http://127.0.0.1:80'' = Inr ''http://127.0.0.1:80''"
proof -
  have "list_all (\<lambda>c. \<not> (py_space c \<or> (of_char c :: nat) < 32 \<or> (of_char c :: nat) = 127)) ''http://127.0.0.1:80''"
    by code_simp
  moreover have "lower ''http:'' = ''http:''" "list_all is_digit ''80''" "read_nat ''80'' = 80" "show_nat 80 = ''80''"
    by code_simp+
  ultimately show ?thesis by (simp add: validate_url_def list_all_iff)
qed

lemma demo_epoch: "epoch_plus ''d1-x''"
  by code_simp

lemma demo_parents: "set (parents ''/r/t'') = {''/'', ''/r''}" "set (parents ''/r/l'') = {''/'', ''/r''}"
  "parent_of ''/r/t'' = ''/r''" "parent_of ''/r/l'' = ''/r''"
  by (simp_all add: parents_def parent_of_def)

lemma demo_comps: "''..'' \<notin> set (path_comps ''/r/t'')" "''..'' \<notin> set (path_comps ''/r/l'')"
  by code_simp+

lemma demo_links:
  "linked_parent ''/r/t'' demo_producer = False" "linked_parent ''/r/l'' demo_producer = False"
  using demo_parents
  by (simp_all add: linked_parent_def h_is_symlink_def demo_producer_def demo_dir_def)

lemma demo_dir_stat: "h_stat ''/r'' demo_producer = Inr demo_dir"
proof -
  have "(40::nat) = Suc 39" by simp
  then show ?thesis by (simp only: h_stat_def follow_path_def resolve_link.simps)
    (simp add: demo_producer_def demo_dir_def h_lstat_def)
qed

lemma demo_checks:
  "checked_path ''/r/t'' demo_producer = Inr ()" "checked_path ''/r/l'' demo_producer = Inr ()"
  using demo_parents demo_links demo_dir_stat demo_comps
  by (simp_all add: checked_path_def demo_dir_def demo_producer_def)

lemma demo_token: "token ''/r/t'' demo_producer = (Inr ''a'', demo_producer)"
proof -
  have "auth_token (show_json [] (JObj [(''auth_token'', JStr ''a'')])) = Inr ''a''"
  proof -
    let ?v = "JObj [(''auth_token'', JStr ''a'')]"
    have c: "codable ?v" by simp
    have t: "printable (show_json [] ?v)" by (rule printable_json(1)) (simp_all del: show_json.simps)
    then have line: "takeWhile (\<lambda>c. c \<noteq> CHR 0x0A) (show_json [] ?v) = show_json [] ?v"
      by (intro takeWhile_eq_all_conv [THEN iffD2]) (auto simp: printable_def simp del: show_json.simps)
    have len: "length (show_json [] ?v) \<le> 8192" "show_json [] ?v \<noteq> []"
      using length_show_string [of "''auth_token''"] length_show_string [of "''a''"] by simp_all
    have asc: "loads_text (show_json [] ?v) = Inr ?v"
      using show_json_ascii(1) [OF c, of "[]"] c by (simp add: loads_text_def ascii_text_def is_ascii_def del: show_json.simps)
    have pat: "token_pattern ''a''" by code_simp
    show ?thesis unfolding auth_token_def Let_def line
      using len asc pat by (simp add: is_obj_iff contains_def get_or_def str_and_def del: show_json.simps)
  qed
  then have "auth_token (h_bytes demo_frame) = Inr ''a''" by (simp add: demo_frame_def)
  then show ?thesis
    using demo_checks length_show_string [of "''auth_token''"] length_show_string [of "''a''"]
    by (simp add: MAX_BODY_def token_def read_private_def h_lstat_def demo_producer_def demo_frame_def)
qed

lemma demo_create: "new_private_file ''/r/l'' demo_producer = (Inr (), demo_opened)"
  using demo_checks
  by (simp add: new_private_file_def seqP_def bindP_def create_new_def create_def raise_when_def modify_def taken_def
    demo_opened_def demo_producer_def tree_put_def tree_del_def)

definition add_line :: "string \<Rightarrow> json \<Rightarrow> tree \<Rightarrow> tree" where
  "add_line p v = alter p (\<lambda>n. n\<lparr>h_bytes := h_bytes n @ show_json [] v @ [CHR 0x0A]\<rparr>)"

lemma write_line_finite: "finite_floats v \<Longrightarrow> write_line p v s = (Inr (), s\<lparr>fs := add_line p v (fs s)\<rparr>)"
  by (simp add: write_line_def dumps_compact_def lift_def bindP_def modify_def add_line_def)

lemma demo_file: "fst (produce_file ''/r/l'' ''d1-x'' 1 1 ''http://127.0.0.1:80'' ''a'' demo_opened) = Inr ()"
proof -
  have "MAX_SUBMISSIONS = Suc (Suc 998)" by (simp add: MAX_SUBMISSIONS_def)
  then obtain k where n: "MAX_SUBMISSIONS = Suc (Suc k)" by blast
  have "demo_opened = demo_opened\<lparr>answer := demo_services, trace := [], disturb := (\<lambda>_ _ f. f)\<rparr>"
    by (simp add: demo_opened_def demo_producer_def)
  moreover have "fst (produce_file ''/r/l'' ''d1-x'' 1 1 ''http://127.0.0.1:80'' ''a''
      (s\<lparr>answer := demo_services, trace := [], disturb := (\<lambda>_ _ f. f)\<rparr>)) = Inr ()" for s :: host
    by (simp add: n produce_file_def bindP_def seqP_def hcall_def demo_services_def monotonic_def ret_def clock_of_def
      may_continue_def produce_turn_def write_line_finite start_marker_def stop_marker_def submission_def outcome_event_def
      Let_def api_of_turn_def op_row_of_uuid_def http_def pause_def counters_def no_write_def acknowledged_id_def valid_id_def
      fld_def count_up_def truthy_def num_eq_def)
  ultimately show ?thesis by metis
qed

theorem ledger_roundtrip_witness:
  "\<exists>new es stamps. trace (snd (produce ''/r/t'' ''/r/l'' ''d1-x'' (JInt 1) (JInt 1) ''http://127.0.0.1:80'' demo_producer)) = new
     \<and> es = exchanges demo_services [] new \<and> length stamps = length es \<and>
    map_option (\<lambda>n. read_ledger (h_bytes n) ''d1-x'') (map_of (fs (snd (produce ''/r/t'' ''/r/l'' ''d1-x'' (JInt 1) (JInt 1)
      ''http://127.0.0.1:80'' demo_producer))) ''/r/l'') =
      Some (if distinct (map operation_of es) then Inr (concat (map2 lines_of es stamps)) else Inl ValueError)"
proof -
  have run: "produce ''/r/t'' ''/r/l'' ''d1-x'' (JInt 1) (JInt 1) ''http://127.0.0.1:80'' demo_producer
      = produce_file ''/r/l'' ''d1-x'' 1 1 ''http://127.0.0.1:80'' ''a'' demo_opened"
    by (simp add: produce_def bindP_def seqP_def lift_def demo_limits demo_url demo_epoch demo_token demo_create raise_when_def)
  have r: "produce ''/r/t'' ''/r/l'' ''d1-x'' (JInt 1) (JInt 1) ''http://127.0.0.1:80'' demo_producer
      = (Inr (), snd (produce ''/r/t'' ''/r/l'' ''d1-x'' (JInt 1) (JInt 1) ''http://127.0.0.1:80'' demo_producer))"
    using demo_file unfolding run by (metis prod.collapse)
  have u: "safe_utc ''2024-02-29T12:00:00Z''" by code_simp
  have h: "is_hexlow (CHR ''a'')" by code_simp
  have "honest demo_producer" "sole_writer ''/r/l'' demo_producer"
    using u h by (simp_all add: honest_def sole_writer_def demo_producer_def demo_services_def hex_n_def list_all_iff)
  moreover have "answer demo_producer = demo_services" "trace demo_producer = []" by (simp_all add: demo_producer_def)
  ultimately show ?thesis using ledger_roundtrip [OF r] by fastforce
qed

end
