(* ===== verification/Canonical_Properties.thy ===== *)
theory Canonical_Properties
  imports Canonical
begin

text \<open>
  The canonical reader of \<open>hat/recovery.py\<close> against a reference: its explicit stack of containers decides exactly the
  two limits of the recursive measures.
\<close>

text \<open>The stack finds what the recursive measures say.\<close>

lemma scan_measures: "scan [(v, 0)] 0 = Inr () \<longleftrightarrow> nesting v \<le> 513 \<and> containers v \<le> 100000"
proof (cases "nesting v = 0")
  case True
  then have "containers v = 0" by (cases v) simp_all
  with True show ?thesis by (simp add: scan_ok del: scan.simps)
next
  case False
  then show ?thesis by (simp add: scan_ok del: scan.simps)
qed

lemma unit_res: "bindR (r :: unit res) (\<lambda>_. Inr v) = Inr w \<longleftrightarrow> r = Inr () \<and> w = v"
  by (auto simp: res_simps)

text \<open>C34 The canonical reader accepts one text per value: it gives a value for a text exactly when the text is not
  empty, within the limit and ASCII, denotes that value with unique keys, is the canonical text of that value, and the
  value nests at most 513 containers and holds at most 100000 of them. The iterative walk over an explicit stack, with
  its early exits, is equivalent to these recursive measures.\<close>

theorem canonical_reader_exact:
  "parse_canonical_json raw = Inr v \<longleftrightarrow>
     raw \<noteq> [] \<and> length raw \<le> MAX_INPUT \<and> is_ascii raw \<and> loads_unique raw = Inr v
     \<and> canonical_json v = Inr raw \<and> nesting v \<le> 513 \<and> containers v \<le> 100000"
  unfolding scan_measures [symmetric]
  by (auto simp: parse_canonical_json_def res_simps unit_res not_less simp del: scan.simps split: if_splits)

end
