(* ===== verification/Inputs.thy ===== *)
theory Inputs
  imports Ledger Actions Fence_Route
begin

text \<open>
  The inputs of a recovery, from \<open>hat/recovery.py\<close>: the native restore plan, the classification of the
  operations of a fault ledger in a recovered image, private artifacts, and the recovery input with the
  protected ledger and the reports it names.
\<close>

section \<open>The native restore plan\<close>

text \<open>\<open>_safe_timestamp\<close>: the time zone of an ISO text, or nothing.\<close>

definition safe_timestamp :: "moments \<Rightarrow> json \<Rightarrow> bool res" where
  "safe_timestamp moment v = default_on [ValueError, TypeError, AttributeError, OverflowError, RecursionError] False
     (case v of JStr s \<Rightarrow> mapR (\<lambda>t. t \<noteq> None) (moment (replace_z s)) | _ \<Rightarrow> Inl AttributeError)"

definition ltx_name :: "int \<Rightarrow> int \<Rightarrow> string" where
  "ltx_name a b = hex_digits 16 (nat a) @ ''-'' @ hex_digits 16 (nat b) @ ''.ltx''"

text \<open>The loop's variables: the spans of the files and the files seen.\<close>

type_synonym plan_scan = "(int \<times> int) list \<times> (int \<times> string) list"

definition plan_file :: "moments \<Rightarrow> int \<Rightarrow> int \<Rightarrow> plan_scan \<Rightarrow> json \<Rightarrow> plan_scan res" where
  "plan_file moment low high st v =
     refuse_if [notR (set_is v [''level'', ''name'', ''min_txid'', ''max_txid'', ''size'', ''timestamp'']),
         itm v ''level'' (\<lambda>x. Inr (\<not> int_and x (\<lambda>n. 0 \<le> n \<and> n \<le> 9))),
         itm v ''size'' (\<lambda>x. Inr (\<not> int_and x (\<lambda>n. 0 < n \<and> n < 2 ^ 63)))]
     (itm v ''min_txid'' (\<lambda>x. bindR (txid x) (\<lambda>a. itm v ''max_txid'' (\<lambda>y. bindR (txid y) (\<lambda>b.
      itm v ''level'' (\<lambda>level. itm v ''name'' (\<lambda>name.
      refuse_if [Inr (\<not> (low \<le> a \<and> a \<le> b \<and> b \<le> high)), differs name (JStr (ltx_name a b)),
          Inr ((int_val level, str_val name) \<in> set (snd st)),
          itm v ''timestamp'' (\<lambda>t. notR (safe_timestamp moment t))]
      (Inr (fst st @ [(a, b)], snd st @ [(int_val level, str_val name)])))))))))"

definition plan_invalid :: "json \<Rightarrow> json \<Rightarrow> json \<Rightarrow> json \<Rightarrow> bool res" where
  "plan_invalid plan source target minimum = any_of
     [notR (set_is plan [''source'', ''target_path'', ''replica'', ''min_txid'', ''max_txid'', ''files'']),
      itm plan ''source'' (\<lambda>x. differs x source), itm plan ''target_path'' (\<lambda>x. differs x target),
      item_not plan ''replica'' ''s3'', Inr (\<not> u64_pos minimum),
      itm plan ''files'' (\<lambda>x. case x of JArr xs \<Rightarrow> Inr (\<not> (0 < length xs \<and> length xs \<le> 10000)) | _ \<Rightarrow> Inr True)]"

definition restore_endpoint_inner :: "moments \<Rightarrow> json \<Rightarrow> json \<Rightarrow> json \<Rightarrow> json \<Rightarrow> int res" where
  "restore_endpoint_inner moment plan source target minimum =
     refuse_if [plan_invalid plan source target minimum]
     (itm plan ''min_txid'' (\<lambda>x. bindR (txid x) (\<lambda>low. itm plan ''max_txid'' (\<lambda>y. bindR (txid y) (\<lambda>high.
      refuse_if [Inr (\<not> (0 < low \<and> low \<le> high) \<or> high < int_val minimum)]
      (itm plan ''files'' (\<lambda>v. bindR (iter_of v) (\<lambda>rows.
       bindR (foldR (plan_file moment low high) ([], []) rows) (\<lambda>st.
       refuse_if [Inr (Min (fst ` set (fst st)) \<noteq> low \<or> Max (snd ` set (fst st)) \<noteq> high)]
       (Inr high))))))))))"

definition restore_endpoint :: "moments \<Rightarrow> json \<Rightarrow> json \<Rightarrow> json \<Rightarrow> json \<Rightarrow> int res" where
  "restore_endpoint moment plan source target minimum =
     reraise [KeyError, TypeError, AttributeError, OverflowError, ValueError, RecursionError] ValueError
       (restore_endpoint_inner moment plan source target minimum)"

section \<open>What became of the operations of a fault\<close>

text \<open>\<open>str.isdigit\<close>: the superscripts count.\<close>

definition py_isdigit :: "string \<Rightarrow> bool" where
  "py_isdigit s \<longleftrightarrow> s \<noteq> [] \<and> list_all (\<lambda>c. is_digit c \<or> (of_char c :: nat) \<in> {178, 179, 185}) s"

text \<open>\<open>str(v)\<close> of an identity.\<close>

definition id_text :: "json \<Rightarrow> string" where
  "id_text v = (case v of JInt n \<Rightarrow> show_int n | _ \<Rightarrow> str_val v)"

definition id_digits :: "json \<Rightarrow> bool" where
  "id_digits v \<longleftrightarrow> (is_str v \<or> is_int v) \<and> py_isdigit (id_text v)"

type_synonym fault_map = "(op_key \<times> json) list \<times> (op_key \<times> json) list"

definition classify_event :: "fault_map \<Rightarrow> json \<Rightarrow> fault_map res" where
  "classify_event st event =
     refuse_if [Inr (\<not> is_obj event), notR (set_covers event [''event'', ''api'', ''row'']),
         notR (set_within event [''event'', ''api'', ''row'', ''id'', ''time_ns'', ''status'', ''error''])]
     (itm event ''event'' (\<lambda>kind. itm event ''api'' (\<lambda>api. itm event ''row'' (\<lambda>row.
      refuse_if [Inr (\<not> in_tuple kind count_kinds), Inr (\<not> in_tuple api api_names), row_invalid row]
      (itm row ''op_key'' (\<lambda>k. let key = (str_val api, str_val k); subs = fst st; outs = snd st in
       if kind = JStr ''submitted'' then
         refuse_if [Inr (key \<in> fst ` set subs)] (Inr (subs @ [(key, row)], outs))
       else
         refuse_if [Inr (case map_of subs key of None \<Rightarrow> True
             | Some sub \<Rightarrow> key \<in> fst ` set outs \<or> \<not> py_eq sub row)]
         (refuse_if [all_of [Inr (kind = JStr ''acknowledged''), got event ''id'' (\<lambda>i. Inr (\<not> id_digits i))]]
         (Inr (subs, outs @ [(key, event)])))))))))"

text \<open>\<open>img api\<close> opens the recovered database of an API; its rows by key are \<open>(id, payload)\<close>.\<close>

type_synonym image = "string \<Rightarrow> (string \<Rightarrow> (int \<times> json) list res) res"

definition category_of :: "(op_key \<times> json) list \<Rightarrow> (int \<times> json) list \<Rightarrow> op_key \<Rightarrow> json \<Rightarrow> string res" where
  "category_of outs found key row =
     itm row ''payload'' (\<lambda>payload.
     refuse_if [Inr (1 < length found \<or> (found \<noteq> [] \<and> \<not> py_eq (snd (hd found)) payload))]
     (case map_of outs key of
        None \<Rightarrow> Inr (if found = [] then ''ambiguous'' else ''unacknowledged_recovered'')
      | Some outcome \<Rightarrow> got outcome ''event'' (\<lambda>kind.
         if kind = JStr ''acknowledged'' then
           itm outcome ''id'' (\<lambda>i. refuse_if [Inr (found \<noteq> [] \<and> show_int (fst (hd found)) \<noteq> id_text i)]
             (Inr (if found = [] then ''lost'' else ''recovered'')))
         else if kind = JStr ''rejected'' then refuse_if [Inr (found \<noteq> [])] (Inr ''rejected'')
         else Inr (if found = [] then ''ambiguous'' else ''unacknowledged_recovered''))))"

definition classify_api :: "image \<Rightarrow> fault_map \<Rightarrow> string \<Rightarrow> (string \<times> string) list res" where
  "classify_api img st api = bindR (img api) (\<lambda>db.
     traverse (\<lambda>(key, row). bindR (db (snd key)) (\<lambda>found.
       mapR (\<lambda>c. (c, op_path key)) (category_of (snd st) found key row)))
     (filter (\<lambda>(key, row). fst key = api) (fst st)))"

definition classify_fault :: "image \<Rightarrow> json list \<Rightarrow> json res" where
  "classify_fault img events = bindR (foldR classify_event ([], []) events) (\<lambda>st.
     bindR (traverse (classify_api img st) api_names) (\<lambda>found.
     Inr (JObj (map (\<lambda>name. (name, JArr (map JStr (sort (map snd (filter (\<lambda>e. fst e = name) (concat found)))))))
       categories))))"

section \<open>Private artifacts\<close>

text \<open>\<open>_json\<close>: a document whose objects have no key twice.\<close>

definition unique_json :: "string \<Rightarrow> json res" where
  "unique_json b = bindR (ascii_text b) loads_unique"

definition path_text :: "string list \<Rightarrow> string" where
  "path_text cs = ''/'' @ join_with ''/'' cs"

definition not_private :: "hnode \<Rightarrow> 'w host_scheme \<Rightarrow> bool" where
  "not_private n s \<longleftrightarrow> h_uid n \<noteq> huid s \<or> h_mode n mod 64 \<noteq> 0"

text \<open>The directories from the parent of a path up to the root, their names reversed.\<close>

fun private_ancestry :: "string list \<Rightarrow> string list \<Rightarrow> 'w host_scheme \<Rightarrow> unit res" where
  "private_ancestry top_names [] s = bindR (h_lstat ''/'' s) (\<lambda>n.
     refuse_if [Inr (h_kind n \<noteq> DirectoryNode \<or> not_private n s)]
     (if top_names = [] then Inr () else Inl ValueError))"
| "private_ancestry top_names (c # cs) s = bindR (h_lstat (path_text (rev (c # cs))) s) (\<lambda>n.
     refuse_if [Inr (h_kind n \<noteq> DirectoryNode \<or> not_private n s)]
     (if rev (c # cs) = top_names then Inr ()
      else if strip_prefix top_names (rev cs) = None then Inl ValueError
      else private_ancestry top_names cs s))"

definition inside_root :: "string option \<Rightarrow> string \<Rightarrow> 'w host_scheme \<Rightarrow> unit res" where
  "inside_root base_dir p s = (case base_dir of None \<Rightarrow> Inr ()
     | Some d \<Rightarrow> refuse_if [Inr (relative_parts p d = None)]
         (private_ancestry (path_comps d) (rev (butlast (path_comps p))) s))"

definition owned_bytes :: "string \<Rightarrow> nat \<Rightarrow> string option \<Rightarrow> 'w host_scheme \<Rightarrow> string res" where
  "owned_bytes p limit base_dir s =
     refuse_if [Inr (''..'' \<in> set (path_comps p))]
     (bindR (inside_root base_dir p s) (\<lambda>_. bindR (h_lstat p s) (\<lambda>n.
     if h_kind n = SymlinkNode then Inl OSError
     else refuse_if [Inr (h_kind n \<noteq> RegularNode \<or> h_nlink n \<noteq> 1 \<or> not_private n s
        \<or> h_bytes n = [] \<or> limit < length (h_bytes n))]
     (Inr (h_bytes n)))))"

definition write_private :: "string \<Rightarrow> string \<Rightarrow> ('w host_scheme, unit) prog" where
  "write_private p raw = seqP (create_new RegularNode p 384 [])
     (modify (\<lambda>s. s\<lparr>fs := alter p (\<lambda>n. n\<lparr>h_bytes := raw\<rparr>) (fs s)\<rparr>))"

definition write_json :: "string \<Rightarrow> json \<Rightarrow> ('w host_scheme, unit) prog" where
  "write_json p v = bindP (lift (dumps_compact v)) (write_private p)"

section \<open>Reports and captured configurations\<close>

definition recovery_checks :: "json \<Rightarrow> json \<Rightarrow> bool res" where
  "recovery_checks request checks = all_of
     [got request ''profile'' (\<lambda>p. Inr (p = JStr ''recovery-comparison'')), Inr (is_obj checks),
      set_is checks [''records'', ''authentication'', ''fault_outcomes'', ''acknowledged_loss''],
      notR (item_not checks ''records'' ''PASS''), notR (item_not checks ''authentication'' ''PASS''),
      notR (item_not checks ''acknowledged_loss'' ''NONE'')]"

text \<open>\<open>_cut_report\<close>.\<close>

definition cut_report :: "json \<Rightarrow> string option \<Rightarrow> json res" where
  "cut_report v epoch =
     refuse_if [Inr (\<not> is_obj v), notR (set_is v result_keys)]
     (itm v ''request'' (\<lambda>request. itm request ''positions'' (\<lambda>positions.
     bindR (validate_cut positions) (\<lambda>_. itm v ''checks'' (\<lambda>checks.
     bindR (recovery_checks request checks) (\<lambda>recovering.
     refuse_if [itm v ''signature'' (\<lambda>x. any_of [Inr (\<not> is_obj x), notR (set_is x DBS)]),
         all_of [differs checks plain_checks, Inr (\<not> recovering)],
         (case epoch of None \<Rightarrow> Inr False | Some e \<Rightarrow> got_not request ''epoch'' e)]
     (Inr v)))))))"

definition source_config :: "json \<Rightarrow> string \<Rightarrow> json res" where
  "source_config v epoch =
     bindR (if is_obj v then get_none v ''binaries'' else Inr JNull) (\<lambda>binaries.
     refuse_if [Inr (\<not> is_obj v), notR (set_covers v [''role'', ''epoch'', ''hostname'', ''binaries'', ''support'']),
         item_not v ''role'' ''writer'', item_not v ''epoch'' epoch,
         itm v ''hostname'' (\<lambda>h. Inr (\<not> str_and h (\<lambda>t. t \<noteq> []))), Inr (\<not> is_obj binaries),
         notR (set_is binaries [''trail'', ''litestream'']), some_not_hex64 binaries,
         mapR (\<lambda>b. b \<noteq> JBool False) (get_or v ''bootstrap'' (JBool False))]
     (got v ''support'' (\<lambda>support.
     refuse_if [Inr (\<not> is_obj support), notR (set_is support support_keys), some_not_hex64 support]
     (Inr v))))"

text \<open>\<open>str.encode()\<close> of the code points below 256.\<close>

definition utf8 :: "string \<Rightarrow> string" where
  "utf8 s = concat (map (\<lambda>c. let n = (of_char c :: nat) in
     if n < 128 then [c] else [char_of (192 + n div 64), char_of (128 + n mod 64)]) s)"

text \<open>\<open>[ \t]*path:[ \t]*([^#\s]+)[ \t]*(?:#.*)?\<close>.\<close>

definition path_line :: "string \<Rightarrow> string option" where
  "path_line line = strip_prefix ''path:'' (dropWhile blank line)"

definition path_value :: "string \<Rightarrow> string option" where
  "path_value rest = (let r = dropWhile blank rest; plain = (\<lambda>c. c \<noteq> CHR ''#'' \<and> \<not> py_space c);
       word = takeWhile plain r; tail = dropWhile blank (dropWhile plain r) in
     if word \<noteq> [] \<and> (tail = [] \<or> hd tail = CHR ''#'') then Some word else None)"

definition replica_paths :: "string \<Rightarrow> string list res" where
  "replica_paths content = mapR concat (traverse (\<lambda>line. case path_line line of None \<Rightarrow> Inr []
     | Some r \<Rightarrow> (case path_value r of None \<Rightarrow> Inl ValueError | Some w \<Rightarrow> Inr [w]))
     (butlast (split_on (CHR 0x0A) content)))"

definition replica_config :: "json \<Rightarrow> string \<Rightarrow> json res" where
  "replica_config v epoch = (case v of JStr content \<Rightarrow> (let raw = utf8 content in
     refuse_if [Inr (raw = [] \<or> MAX_INPUT < length raw \<or> CHR 0x0D \<in> set raw \<or> CHR 0x00 \<in> set raw
         \<or> strip_prefix [CHR 0xEF, CHR 0xBB, CHR 0xBF] raw \<noteq> None \<or> last raw \<noteq> CHR 0x0A)]
     (refuse_if [Inr (\<exists>l \<in> set (butlast (split_on (CHR 0x0A) raw)). 8192 < length l)]
     (bindR (replica_paths content) (\<lambda>paths.
      refuse_if [Inr (length paths \<noteq> 3 \<or> set paths \<noteq> (\<lambda>db. ''demos/'' @ epoch @ ''/'' @ db) ` set DBS)]
      (Inr v)))))
   | _ \<Rightarrow> Inl ValueError)"

section \<open>The protected ledger\<close>

text \<open>\<open>d1-[A-Za-z0-9-]{1,125}\<close>.\<close>

definition d1_key :: "string \<Rightarrow> bool" where
  "d1_key = prefixed ''d1-'' (\<lambda>r. r \<noteq> [] \<and> length r \<le> 125 \<and> list_all (\<lambda>c. is_alnum c \<or> c = CHR ''-'') r)"

record protected_scan =
  p_keys :: "string list"
  p_ids :: "string list"
  p_pairs :: "(string \<times> string) list"

definition auth_frame_invalid :: "json \<Rightarrow> bool res" where
  "auth_frame_invalid v = any_of
     [Inr (\<not> is_obj v), notR (set_is v [''auth_token'', ''retained_refresh'', ''revoked_refresh'']),
      bindR (values_of v) (\<lambda>xs. Inr (\<exists>x \<in> set xs. \<not> str_and x (\<lambda>t. t \<noteq> [])))]"

definition positive :: "json \<Rightarrow> bool" where
  "positive v \<longleftrightarrow> int_and v (\<lambda>n. 0 < n)"

definition pair_invalid :: "string \<Rightarrow> json \<Rightarrow> json \<Rightarrow> bool res" where
  "pair_invalid api sub ack = any_of
     [notR (set_is sub [''event'', ''api'', ''row'', ''time_ns'']), got_not sub ''event'' ''submitted'', got_not sub ''api'' api,
      notR (set_is ack [''event'', ''api'', ''row'', ''id'', ''time_ns'']), got_not ack ''event'' ''acknowledged'',
      got_not ack ''api'' api, got sub ''row'' (\<lambda>x. got ack ''row'' (\<lambda>y. differs x y)),
      got sub ''row'' (\<lambda>row. Inr (\<not> is_obj row)), itm sub ''row'' (\<lambda>row. notR (set_is row [''op_key'', ''payload''])),
      itm sub ''row'' (\<lambda>row. itm row ''op_key'' (\<lambda>k. Inr (\<not> str_and k d1_key))),
      itm sub ''row'' (\<lambda>row. itm row ''payload'' (\<lambda>x. Inr (\<not> str_and x (\<lambda>t. length t \<le> 4096)))),
      got sub ''time_ns'' (\<lambda>t. Inr (\<not> positive t)), got ack ''time_ns'' (\<lambda>t. Inr (\<not> positive t)),
      got ack ''id'' (\<lambda>i. Inr (\<not> (is_str i \<or> is_int i)))]"

text \<open>The submission and the acknowledgement of one API, and what is left.\<close>

definition current_pair :: "protected_scan \<times> json list \<Rightarrow> string \<Rightarrow> (protected_scan \<times> json list) res" where
  "current_pair st api = (case snd st of
     sub # ack # rest \<Rightarrow>
       refuse_if [pair_invalid api sub ack]
       (itm sub ''row'' (\<lambda>row. itm row ''op_key'' (\<lambda>k. itm ack ''id'' (\<lambda>i. bindR (canonical_id i) (\<lambda>ident.
        let key = op_path (api, str_val k) in
        refuse_if [Inr (key \<in> set (p_keys (fst st)) \<or> ident \<in> set (p_ids (fst st)))]
        (Inr ((fst st)\<lparr>p_keys := p_keys (fst st) @ [key], p_ids := p_ids (fst st) @ [ident]\<rparr>, rest)))))))
   | _ \<Rightarrow> Inl ValueError)"

definition historical_record :: "protected_scan \<Rightarrow> json \<Rightarrow> protected_scan res" where
  "historical_record st v = itm v ''row'' (\<lambda>payload.
     refuse_if [itm v ''api'' (\<lambda>a. Inr (\<not> in_tuple a api_names)), Inr (\<not> is_obj payload),
         notR (set_is payload [''op_key'', ''payload''])]
     (itm v ''api'' (\<lambda>api. bindR (get_or payload ''op_key'' (JStr [])) (\<lambda>k.
      bindR (if is_str k then Inr (op_path (str_val api, str_val k)) else Inl TypeError) (\<lambda>key.
      got v ''id'' (\<lambda>i. bindR (canonical_id i) (\<lambda>ident.
      refuse_if [got payload ''op_key'' (\<lambda>x. Inr (\<not> str_and x d1_key)),
          got payload ''payload'' (\<lambda>x. Inr (\<not> str_and x (\<lambda>t. length t \<le> 4096))),
          got v ''time_ns'' (\<lambda>t. Inr (\<not> positive t)),
          Inr (key \<in> set (p_keys st) \<or> ident \<in> set (p_ids st))]
      (Inr (st\<lparr>p_keys := p_keys st @ [key], p_ids := p_ids st @ [ident]\<rparr>)))))))))"

definition historical_auth :: "protected_scan \<Rightarrow> json \<Rightarrow> protected_scan res" where
  "historical_auth st v =
     got v ''retained_refresh'' (\<lambda>a. got v ''revoked_refresh'' (\<lambda>b.
     refuse_if [Inr (\<not> (str_and a (\<lambda>t. t \<noteq> []) \<and> str_and b (\<lambda>t. t \<noteq> []))),
         itm v ''retained_expected'' (\<lambda>x. Inr (\<not> in_tuple x [''accepted'', ''denied''])),
         Inr ((str_val a, str_val b) \<in> set (p_pairs st))]
     (Inr (st\<lparr>p_pairs := p_pairs st @ [(str_val a, str_val b)]\<rparr>))))"

definition historical_frame :: "protected_scan \<Rightarrow> json \<Rightarrow> protected_scan res" where
  "historical_frame st v =
     refuse_if [Inr (\<not> is_obj v)]
     (bindR (all_of [set_is v [''event'', ''api'', ''row'', ''id'', ''time_ns''], notR (got_not v ''event'' ''acknowledged'')]) (\<lambda>is_row.
      if is_row then historical_record st v
      else bindR (all_of [set_is v [''event'', ''retained_refresh'', ''revoked_refresh'', ''retained_expected''],
          notR (got_not v ''event'' ''historical_auth'')]) (\<lambda>is_auth.
        if is_auth then historical_auth st v else Inl ValueError)))"

definition protected_rows :: "string \<Rightarrow> json list res" where
  "protected_rows raw = reraise [TypeError, ValueError, UnicodeError, JSONDecodeError] ValueError
     (let lines = butlast (split_on (CHR 0x0A) raw) in
      refuse_if [Inr (lines = [] \<or> (\<exists>l \<in> set lines. l = [] \<or> 8192 < length l))] (traverse parse_canonical_json lines))"

definition protected_ledger :: "string \<Rightarrow> json list res" where
  "protected_ledger raw =
     refuse_if [Inr (MAX_ARTIFACT < int (length raw) \<or> CHR 0x00 \<in> set raw \<or> raw = [] \<or> last raw \<noteq> CHR 0x0A)]
     (refuse_if [Inr (strip_prefix [CHR 0xEF, CHR 0xBB, CHR 0xBF] raw \<noteq> None)]
     (bindR (protected_rows raw) (\<lambda>rows.
     refuse_if [auth_frame_invalid (hd rows)]
     (itm (hd rows) ''retained_refresh'' (\<lambda>a. itm (hd rows) ''revoked_refresh'' (\<lambda>b.
     bindR (foldR current_pair (\<lparr>p_keys = [], p_ids = [], p_pairs = [(str_val a, str_val b)]\<rparr>, tl rows) api_names) (\<lambda>(st, rest).
     refuse_if [Inr (rest = []), differs (hd rest) (JObj [(''event'', JStr ''smoke_pass'')])]
     (bindR (foldR historical_frame st (tl rest)) (\<lambda>_. Inr rows)))))))))"

section \<open>What a node reports\<close>

definition not_value :: "json \<Rightarrow> string \<Rightarrow> json \<Rightarrow> bool res" where
  "not_value v k w = got v k (\<lambda>x. differs x w)"

definition producer_proof :: "json \<Rightarrow> json \<Rightarrow> json res" where
  "producer_proof v unit' =
     raise_if (any_of [Inr (\<not> is_obj v), not_value v ''unit'' unit', got_not v ''load_state'' ''loaded'',
       not_value v ''main_pid'' (JInt 0), got v ''active_state'' (\<lambda>x. Inr (\<not> in_tuple x [''inactive'', ''failed''])),
       got v ''cgroup'' (\<lambda>x. Inr (\<not> in_tuple x [''absent'', ''empty'']))]) RuntimeError (Inr v)"

definition fault_outcomes :: "json \<Rightarrow> json list \<Rightarrow> json res" where
  "fault_outcomes v events =
     refuse_if [Inr (\<not> is_obj v), notR (set_is v categories),
         bindR (values_of v) (\<lambda>vs. Inr (\<exists>x \<in> set vs. case x of JArr xs \<Rightarrow> \<exists>i \<in> set xs. \<not> str_and i fault_op | _ \<Rightarrow> True))]
     (bindR (values_of v) (\<lambda>vs. bindR (mapR concat (traverse iter_of vs)) (\<lambda>items.
      bindR (mapR concat (traverse (\<lambda>e. itm e ''event'' (\<lambda>kind. if kind \<noteq> JStr ''submitted'' then Inr []
          else itm e ''api'' (\<lambda>a. itm e ''row'' (\<lambda>r. itm r ''op_key'' (\<lambda>k. case (a, k) of
            (JStr s, JStr t) \<Rightarrow> Inr [JStr (op_path (s, t))] | _ \<Rightarrow> Inl TypeError))))) events)) (\<lambda>expected.
      refuse_if [Inr (\<not> distinct items \<or> set items \<noteq> set expected)]
      (itm v ''lost'' (\<lambda>lost. raise_if (Inr (truthy lost)) RuntimeError (Inr v)))))))"

definition cold :: "json \<Rightarrow> json \<Rightarrow> json \<Rightarrow> json \<Rightarrow> string \<Rightarrow> json \<Rightarrow> json \<Rightarrow> json res" where
  "cold v operation epoch boot role source replica =
     raise_if (any_of [Inr (\<not> is_obj v), not_value v ''operation'' operation, not_value v ''epoch'' epoch,
       not_value v ''boot_id'' boot, got_not v ''authority'' ''absent'', got_not v ''cgroup'' ''empty'',
       got_not v ''mutators'' ''none'']) RuntimeError
     (got v ''config'' (\<lambda>c.
     raise_if (any_of [Inr (\<not> is_obj c), got_not c ''role'' role, not_value c ''epoch'' epoch,
       got c ''binaries'' (\<lambda>x. itm source ''binaries'' (\<lambda>y. differs x y)),
       got c ''support'' (\<lambda>x. itm source ''support'' (\<lambda>y. differs x y)),
       not_value v ''replica_config'' replica]) RuntimeError (Inr v)))"

definition writer :: "json \<Rightarrow> json \<Rightarrow> json \<Rightarrow> json \<Rightarrow> json res" where
  "writer v epoch boot source =
     raise_if (any_of [Inr (\<not> is_obj v), not_value v ''boot_id'' boot,
       bindR (get_or v ''config'' (JObj [])) (\<lambda>c. got_not c ''role'' ''writer''),
       bindR (get_or v ''config'' (JObj [])) (\<lambda>c. not_value c ''epoch'' epoch),
       itm v ''config'' (\<lambda>c. got c ''binaries'' (\<lambda>x. itm source ''binaries'' (\<lambda>y. differs x y))),
       itm v ''config'' (\<lambda>c. got c ''support'' (\<lambda>x. itm source ''support'' (\<lambda>y. differs x y)))]) RuntimeError
     (bindR (get_or v ''status'' (JObj [])) (\<lambda>status.
     raise_if (any_of [not_value status ''epoch'' epoch, mapR (\<lambda>x. x \<noteq> JBool True) (get_none status ''healthy''),
       mapR (\<lambda>x. x \<noteq> JBool True) (get_none status ''trailbase_running'')]) RuntimeError
     (got status ''positions'' (\<lambda>p. bindR (validate_cut p) (\<lambda>_. Inr v)))))"

section \<open>The recovery input\<close>

definition INPUT_FIELDS :: "string list" where
  "INPUT_FIELDS = [''authority_operation'', ''source_epoch'', ''source_boot'', ''source_config'', ''source_health'',
     ''source_replica'', ''candidate_epoch'', ''candidate_boot'', ''protected_ledger'', ''protected_baseline'',
     ''fault_ledger'', ''producer_unit'', ''producer_cgroup'']"

definition producer_unit :: "string \<Rightarrow> string option" where
  "producer_unit u = (case strip_prefix ''hat-d3-client-'' u of None \<Rightarrow> None
     | Some r \<Rightarrow> if hex32 (take 32 r) \<and> drop 32 r = ''.service'' then Some (take 32 r) else None)"

definition binding_invalid :: "json \<Rightarrow> bool res" where
  "binding_invalid v = any_of
     [itm v ''authority_operation'' (\<lambda>x. Inr (\<not> str_and x hex32)),
      itm v ''source_epoch'' (\<lambda>x. Inr (\<not> str_and x epoch_125)),
      itm v ''candidate_epoch'' (\<lambda>x. Inr (\<not> str_and x epoch_125)),
      itm v ''candidate_epoch'' (\<lambda>x. itm v ''source_epoch'' (\<lambda>y. Inr (py_eq x y))),
      itm v ''source_boot'' (\<lambda>x. Inr (\<not> str_and x (\<lambda>t. t \<noteq> []))),
      itm v ''candidate_boot'' (\<lambda>x. Inr (\<not> str_and x (\<lambda>t. t \<noteq> [])))]"

definition producer_invalid :: "json \<Rightarrow> bool res" where
  "producer_invalid v = itm v ''producer_unit'' (\<lambda>u. any_of
     [Inr (\<not> str_and u (\<lambda>t. producer_unit t \<noteq> None)),
      item_not v ''producer_cgroup'' (''/sys/fs/cgroup/system.slice/'' @ str_val u)])"

definition artifact_names :: "(string \<times> string option) list" where
  "artifact_names = [(''protected_ledger'', Some ''ledger.jsonl''),
     (''protected_baseline'', Some ''baseline-acceptance-result.json''), (''fault_ledger'', None)]"

definition check_artifact :: "string \<Rightarrow> json \<Rightarrow> 'w host_scheme \<Rightarrow> string \<times> string option \<Rightarrow> unit res" where
  "check_artifact base_dir v s e = itm v (fst e) (\<lambda>x. itm v ''authority_operation'' (\<lambda>op.
     refuse_if [Inr (\<not> str_and x is_absolute)]
     (refuse_if [Inr (case snd e of None \<Rightarrow> False
         | Some f \<Rightarrow> str_val x \<noteq> path_join (path_join base_dir (str_val op)) f)]
     (mapR (\<lambda>_. ()) (owned_bytes (str_val x) (nat MAX_ARTIFACT) (Some base_dir) s)))))"

definition protected_operation :: "json \<Rightarrow> json" where
  "protected_operation op = JObj [(''id'', op), (''source'', JStr ''A''), (''target'', JStr ''B''),
     (''source_epoch'', JStr ''d1-protected-source''), (''new_epoch'', JStr (''d1-'' @ str_val op))]"

definition sha_text :: "string \<Rightarrow> string" where
  "sha_text t = sha256_hex (utf8 t)"

definition baseline_binding_differs :: "json \<Rightarrow> json \<Rightarrow> string \<Rightarrow> bool res" where
  "baseline_binding_differs v request raw =
     itm request ''inputs'' (\<lambda>inputs. itm inputs ''ledger_authority'' (\<lambda>la. any_of
     [item_not request ''phase'' ''baseline'',
      itm request ''epoch'' (\<lambda>x. itm v ''source_epoch'' (\<lambda>y. differs x y)),
      itm request ''operation'' (\<lambda>x. itm v ''authority_operation'' (\<lambda>y. differs x y)),
      itm inputs ''replica_config_sha256'' (\<lambda>x. itm v ''source_replica'' (\<lambda>y. differs x (JStr (sha_text (str_val y))))),
      item_not inputs ''ledger_sha256'' (sha256_hex raw),
      itm la ''ledger'' (\<lambda>l. itm l ''path'' (\<lambda>x. itm v ''protected_ledger'' (\<lambda>y. differs x y))),
      itm la ''support'' (\<lambda>x. itm v ''source_config'' (\<lambda>c. itm c ''support'' (\<lambda>y. differs x y))),
      itm la ''binaries'' (\<lambda>x. itm v ''source_config'' (\<lambda>c. itm c ''binaries'' (\<lambda>y. differs x y)))]))"

definition positions_below :: "json \<Rightarrow> json \<Rightarrow> bool res" where
  "positions_below a b = any_of (map (\<lambda>db. itm a db (\<lambda>x. itm b db (\<lambda>y. py_less x y))) DBS)"

definition health_differs :: "json \<Rightarrow> json \<Rightarrow> json \<Rightarrow> json \<Rightarrow> json \<Rightarrow> bool res" where
  "health_differs v health probe start request = any_of
     [itm probe ''config'' (\<lambda>x. itm v ''source_config'' (\<lambda>y. differs x y)),
      itm v ''source_replica'' (\<lambda>r. not_value probe ''replica_config'' r),
      itm probe ''status'' (\<lambda>st. itm st ''positions'' (\<lambda>a. itm request ''positions'' (\<lambda>b. positions_below a b))),
      itm health ''observed_ns'' (\<lambda>o'. Inr (\<not> is_int o')), got start ''time_ns'' (\<lambda>t. Inr (\<not> is_int t)),
      got_not start ''event'' ''start'',
      itm health ''observed_ns'' (\<lambda>o'. itm start ''time_ns'' (\<lambda>t. Inr (\<not> (0 \<le> int_val o' \<and> int_val o' \<le> int_val t))))]"

definition check_health :: "string \<Rightarrow> json \<Rightarrow> json \<Rightarrow> 'w host_scheme \<Rightarrow> unit res" where
  "check_health base_dir v request s =
     itm v ''source_health'' (\<lambda>health. itm v ''authority_operation'' (\<lambda>op.
     refuse_if [Inr (\<not> is_obj health), notR (set_is health [''authority_operation'', ''observed_ns'', ''probe'']),
         itm health ''authority_operation'' (\<lambda>x. differs x op)]
     (itm health ''probe'' (\<lambda>p. itm v ''source_epoch'' (\<lambda>e. itm v ''source_boot'' (\<lambda>b. itm v ''source_config'' (\<lambda>c.
      bindR (writer p e b c) (\<lambda>probe. itm v ''fault_ledger'' (\<lambda>f.
      bindR (owned_bytes (str_val f) (nat MAX_ARTIFACT) (Some base_dir) s) (\<lambda>raw.
      bindR (unique_json (hd (byte_lines raw))) (\<lambda>start.
      refuse_if [health_differs v health probe start request] (Inr ()))))))))))))"

definition load_input :: "string \<Rightarrow> string \<Rightarrow> 'w host_scheme \<Rightarrow> (json \<times> json) res" where
  "load_input p base_dir s =
     bindR (owned_bytes p MAX_INPUT None s) (\<lambda>raw. bindR (unique_json raw) (\<lambda>v.
     refuse_if [Inr (\<not> is_obj v), notR (set_is v INPUT_FIELDS)]
     (refuse_if [binding_invalid v]
     (itm v ''source_config'' (\<lambda>config. itm v ''source_epoch'' (\<lambda>epoch. bindR (source_config config (str_val epoch)) (\<lambda>_.
      itm v ''source_replica'' (\<lambda>replica. bindR (replica_config replica (str_val epoch)) (\<lambda>_.
      refuse_if [producer_invalid v]
      (bindR (traverse (check_artifact base_dir v s) artifact_names) (\<lambda>_.
      itm v ''protected_ledger'' (\<lambda>lp. bindR (owned_bytes (str_val lp) (nat MAX_ARTIFACT) (Some base_dir) s) (\<lambda>protected_raw.
      bindR (protected_ledger protected_raw) (\<lambda>_.
      itm v ''protected_baseline'' (\<lambda>bp. bindR (owned_bytes (str_val bp) MAX_INPUT (Some base_dir) s) (\<lambda>baseline_raw.
      bindR (parse_canonical_json baseline_raw) (\<lambda>baseline. itm baseline ''request'' (\<lambda>request.
      itm v ''authority_operation'' (\<lambda>op.
      bindR (validate_acceptance_result base_dir baseline request (protected_operation op) None) (\<lambda>_.
      refuse_if [baseline_binding_differs v request protected_raw]
      (bindR (check_health base_dir v request s) (\<lambda>_. Inr (v, baseline)))))))))))))))))))))))"

end
