(* ===== verification/Admission.thy ===== *)
theory Admission
  imports Inputs Journal
begin

text \<open>
  \<open>experiments/d4/admission.py\<close>: the local admission of single writes. An operation identity is recorded before
  its request is forwarded, is never used twice, and a success is released only with a proof bound to the request.
\<close>

section \<open>Values and rows\<close>

text \<open>A dictionary here may hold byte strings beside what JSON has; \<open>None\<close> is a value that is no dictionary.\<close>

datatype aval = AJson json | ABytes string

type_synonym adict = "(string \<times> aval) list"

record arow =
  ar_operation :: string
  ar_digest :: string
  ar_method :: string
  ar_path :: string
  ar_epoch :: string
  ar_boot :: string
  ar_database :: string
  ar_status :: string
  ar_upstream :: "int option"
  ar_updigest :: "string option"
  ar_evidence :: "string option"
  ar_txid :: "int option"

definition statuses :: "string list" where
  "statuses = [''intent'', ''forward_uncertain'', ''awaiting_proof'', ''proof_uncertain'', ''proven'']"

text \<open>What a database file holds: its rows, the names of its tables, the columns of the one, the result of its check.\<close>

record database =
  adb_rows :: "arow list"
  adb_tables :: "string list"
  adb_columns :: "string list"
  adb_check :: string

definition blank :: database where
  "blank = \<lparr>adb_rows = [], adb_tables = [], adb_columns = [], adb_check = ''ok''\<rparr>"

text \<open>The owner's state, its files, and what the upstream and the prover answer. What a database holds belongs to the file,
  by its device and inode (\<open>ad_data\<close>): a journal that is removed or replaced takes its rows with it. \<open>ad_db\<close> is the file
  an open connection is on. A commit may fail before or after it landed; a call may change files.\<close>

record admission =
  ad_data :: "nat \<times> nat \<Rightarrow> database"
  ad_db :: "(nat \<times> nat) option"
  ad_lock :: "(nat \<times> nat) option"
  ad_busy :: bool
  ad_root :: string
  ad_root_id :: "nat \<times> nat"
  ad_db_id :: "nat \<times> nat"
  ad_files :: "string \<Rightarrow> file_stat option"
  ad_fresh :: nat
  ad_euid :: nat
  ad_fault :: "nat \<Rightarrow> (exn \<times> bool) option"
  ad_commits :: nat
  ad_reply :: "(string \<times> adict) list \<Rightarrow> string \<times> adict \<Rightarrow> adict option res"
  ad_disturb :: "(string \<times> adict) list \<Rightarrow> string \<times> adict \<Rightarrow> (string \<Rightarrow> file_stat option) \<Rightarrow> string \<Rightarrow> file_stat option"
  ad_trace :: "(string \<times> adict) list"

definition ad_rows :: "'w admission_scheme \<Rightarrow> arow list" where
  "ad_rows s = (case ad_db s of None \<Rightarrow> [] | Some i \<Rightarrow> adb_rows (ad_data s i))"

record decision =
  d_released :: bool
  d_status :: int
  d_body :: string
  d_reason :: string

section \<open>Files\<close>

definition a_lstat :: "string \<Rightarrow> 'w admission_scheme \<Rightarrow> file_stat res" where
  "a_lstat p s = (case ad_files s p of None \<Rightarrow> Inl FileNotFoundError | Some f \<Rightarrow> Inr f)"

definition a_private :: "string \<Rightarrow> 'w admission_scheme \<Rightarrow> (nat \<times> nat) res" where
  "a_private p s = bindR (a_lstat p s) (\<lambda>f.
     refuse_if [Inr (f_kind f \<noteq> Regular \<or> f_uid f \<noteq> ad_euid s \<or> f_mode f mod 64 \<noteq> 0 \<or> f_nlink f \<noteq> 1)] (Inr (f_id f)))"

definition a_under :: "string \<Rightarrow> 'w admission_scheme \<Rightarrow> string" where
  "a_under name s = path_join (ad_root s) name"

definition a_journal :: "'w admission_scheme \<Rightarrow> string" where
  "a_journal s = a_under ''journal.db'' s"

definition a_create :: "string \<Rightarrow> string \<Rightarrow> ('w admission_scheme, unit) prog" where
  "a_create p bytes = modify (\<lambda>s. s\<lparr>ad_files := (ad_files s)(p \<mapsto> \<lparr>f_kind = Regular, f_uid = ad_euid s,
     f_mode = 384, f_nlink = 1, f_id = (0, ad_fresh s), f_bytes = bytes\<rparr>), ad_data := (ad_data s)((0, ad_fresh s) := blank),
     ad_fresh := Suc (ad_fresh s)\<rparr>)"

section \<open>Opening\<close>

definition COLUMNS :: "string list" where
  "COLUMNS = [''operation'', ''request_digest'', ''method'', ''path'', ''epoch'', ''writer_boot'', ''database_name'',
     ''status'', ''upstream_status'', ''upstream_digest'', ''proof_evidence'', ''txid'']"

definition root_invalid :: "'w admission_scheme \<Rightarrow> bool res" where
  "root_invalid s = bindR (a_lstat (ad_root s) s) (\<lambda>f. Inr (f_kind f \<noteq> Directory \<or> f_uid f \<noteq> ad_euid s
     \<or> f_mode f mod 64 \<noteq> 0 \<or> (\<exists>q \<in> set (parents (ad_root s)). case ad_files s q of
          None \<Rightarrow> False | Some g \<Rightarrow> f_kind g = Symlink)))"

text \<open>\<open>O_CREAT | O_RDWR | O_NOFOLLOW\<close>, then the exclusive lock without waiting. The descriptor of an opening that was
  not closed is lost, and keeps its lock.\<close>

definition a_take_lock :: "('w admission_scheme, unit) prog" where
  "a_take_lock = bindP (gets (\<lambda>s. (a_under ''lock'' s, ad_files s (a_under ''lock'' s)))) (\<lambda>(p, there).
     seqP (case there of None \<Rightarrow> a_create p [] | Some f \<Rightarrow> if f_kind f = Symlink then raiseP OSError else ret ())
     (seqP (modify (\<lambda>s. s\<lparr>ad_busy := ad_busy s \<or> ad_lock s \<noteq> None, ad_lock := map_option f_id (ad_files s p)\<rparr>))
     (bindP (\<lambda>s. (a_private p s, s)) (\<lambda>_. raise_when (\<lambda>s. Inr (ad_busy s)) OSError))))"

definition journal_files_unsafe :: "'w admission_scheme \<Rightarrow> unit res" where
  "journal_files_unsafe s = mapR (\<lambda>_. ()) (traverse (\<lambda>suffix. let p = a_under (''journal.db'' @ suffix) s in
     if ad_files s p = None then Inr (0, 0) else a_private p s) [[], ''-journal'', ''-wal'', ''-shm''])"

text \<open>A missing journal is created, empty; the connection is on the file that is there then.\<close>

definition a_connect :: "('w admission_scheme, bool) prog" where
  "a_connect = bindP (gets (\<lambda>s. (a_journal s, ad_files s (a_journal s)))) (\<lambda>(p, there).
     seqP (case there of None \<Rightarrow> a_create p [] | Some f \<Rightarrow> if f_bytes f = [] then raiseP ValueError else ret ())
     (seqP (modify (\<lambda>s. s\<lparr>ad_db := map_option f_id (ad_files s p)\<rparr>)) (ret (there \<noteq> None))))"

definition check_existing :: "'w admission_scheme \<Rightarrow> unit res" where
  "check_existing s = (case ad_db s of None \<Rightarrow> Inl AttributeError | Some i \<Rightarrow> let d = ad_data s i in
     refuse_if [Inr (set (adb_tables d) \<noteq> {''operations''} \<or> adb_check d \<noteq> ''ok'')]
     (refuse_if [Inr (adb_columns d \<noteq> COLUMNS)] (Inr ())))"

text \<open>\<open>CREATE TABLE IF NOT EXISTS\<close>.\<close>

definition a_table :: "('w admission_scheme, unit) prog" where
  "a_table = modify (\<lambda>s. case ad_db s of None \<Rightarrow> s | Some i \<Rightarrow> let d = ad_data s i; p = a_journal s in
     if ''operations'' \<in> set (adb_tables d) then s
     else s\<lparr>ad_data := (ad_data s)(i := d\<lparr>adb_tables := adb_tables d @ [''operations''], adb_columns := COLUMNS\<rparr>),
       ad_files := (ad_files s)(p := map_option (f_bytes_update (\<lambda>_. ''SQLite'')) (ad_files s p))\<rparr>)"

definition a_close :: "('w admission_scheme, unit) prog" where
  "a_close = modify (\<lambda>s. s\<lparr>ad_db := None, ad_lock := None\<rparr>)"

text \<open>The pragmas, the creation of the table and the flush of the directory are taken to succeed.\<close>

definition a_open_body :: "('w admission_scheme, unit) prog" where
  "a_open_body =
     seqP (raise_when root_invalid ValueError)
     (seqP (modify (\<lambda>s. s\<lparr>ad_root_id := (case ad_files s (ad_root s) of Some f \<Rightarrow> f_id f | None \<Rightarrow> (0, 0))\<rparr>))
     (seqP a_take_lock
     (seqP (\<lambda>s. (journal_files_unsafe s, s))
     (bindP a_connect (\<lambda>existing.
     seqP (if existing then (\<lambda>s. (check_existing s, s)) else ret ())
     (seqP a_table
     (bindP (\<lambda>s. (a_private (a_journal s) s, s)) (\<lambda>i. modify (\<lambda>s. s\<lparr>ad_db_id := i\<rparr>)))))))))"

definition a_enter :: "('w admission_scheme, unit) prog" where
  "a_enter = on_exn a_open_body (\<lambda>e. seqP a_close (raiseP e))"

section \<open>The journal\<close>

definition a_check_authority :: "('w admission_scheme, unit) prog" where
  "a_check_authority s = (if ad_lock s = None \<or> ad_db s = None then Inl RuntimeError
     else bindR (a_lstat (ad_root s) s) (\<lambda>f. raise_if (any_of
       [Inr (f_id f \<noteq> ad_root_id s), mapR (\<lambda>i. Some i \<noteq> ad_lock s) (a_private (a_under ''lock'' s) s),
        mapR (\<lambda>i. i \<noteq> ad_db_id s) (a_private (a_journal s) s)]) RuntimeError (Inr ())), s)"

text \<open>\<open>with self.db\<close>: a statement and its commit, on the file of the connection.\<close>

definition put_rows :: "arow list \<Rightarrow> 'w admission_scheme \<Rightarrow> 'w admission_scheme" where
  "put_rows rows s = (case ad_db s of None \<Rightarrow> s
     | Some i \<Rightarrow> s\<lparr>ad_data := (ad_data s)(i := (ad_data s i)\<lparr>adb_rows := rows\<rparr>)\<rparr>)"

definition a_commit :: "arow list \<Rightarrow> ('w admission_scheme, unit) prog" where
  "a_commit rows s = (let s1 = s\<lparr>ad_commits := Suc (ad_commits s)\<rparr> in case ad_fault s (ad_commits s) of
       None \<Rightarrow> (Inr (), put_rows rows s1)
     | Some (e, landed) \<Rightarrow> (Inl e, if landed then put_rows rows s1 else s1))"

definition a_begin :: "arow \<Rightarrow> ('w admission_scheme, string) prog" where
  "a_begin row =
     seqP a_check_authority
     (seqP (raise_when (\<lambda>s. Inr (ar_operation row \<in> ar_operation ` set (ad_rows s))) RuntimeError)
     (bindP (gets ad_rows) (\<lambda>rows. seqP (a_commit (rows @ [row])) (ret (ar_operation row)))))"

definition moved :: "string \<Rightarrow> int option \<Rightarrow> string option \<Rightarrow> string option \<Rightarrow> int option \<Rightarrow> arow \<Rightarrow> arow" where
  "moved new up updigest evidence tx r = r\<lparr>ar_status := new, ar_upstream := up, ar_updigest := updigest,
     ar_evidence := evidence, ar_txid := tx\<rparr>"

text \<open>SQLite holds integers of 64 bits.\<close>

definition too_big :: "int option \<Rightarrow> bool" where
  "too_big tx \<longleftrightarrow> (case tx of None \<Rightarrow> False | Some n \<Rightarrow> n < - (2 ^ 63) \<or> 2 ^ 63 \<le> n)"

definition a_update ::
  "string \<Rightarrow> string \<Rightarrow> string \<Rightarrow> int option \<Rightarrow> string option \<Rightarrow> string option \<Rightarrow> int option \<Rightarrow> ('w admission_scheme, unit) prog" where
  "a_update operation old new up updigest evidence tx =
     seqP a_check_authority
     (seqP (raise_when (\<lambda>_. Inr (too_big tx)) OverflowError)
     (bindP (gets ad_rows) (\<lambda>rows. let hit = (\<lambda>r. ar_operation r = operation \<and> ar_status r = old) in
      seqP (raise_when (\<lambda>_. Inr (new \<notin> set statuses \<and> (\<exists>r \<in> set rows. hit r))) IntegrityError)
      (seqP (raise_when (\<lambda>_. Inr (length (filter hit rows) \<noteq> 1)) RuntimeError)
      (a_commit (map (\<lambda>r. if hit r then moved new up updigest evidence tx r else r) rows))))))"

section \<open>Requests, outcomes and proofs\<close>

definition MAX_REQUEST :: nat where "MAX_REQUEST = 1024 * 1024"

definition SURFACES :: "((string \<times> string) \<times> string) list" where
  "SURFACES = [((''POST'', ''/api/records/v1/main_ops''), ''main''), ((''POST'', ''/api/records/v1/aux_ops''), ''aux''),
     ((''POST'', ''/api/auth/v1/login''), ''session''), ((''POST'', ''/api/auth/v1/logout''), ''session''),
     ((''POST'', ''/api/auth/v1/refresh''), ''session'')]"

text \<open>\<open>d1-[a-z0-9-]{1,124}\<close>, the identity of a boot, and \<open>[A-Za-z0-9][A-Za-z0-9._-]{0,127}\<close>.\<close>

definition epoch_124 :: "string \<Rightarrow> bool" where
  "epoch_124 = prefixed ''d1-'' (\<lambda>r. r \<noteq> [] \<and> length r \<le> 124 \<and> list_all epoch_char r)"

definition boot_pattern :: "string \<Rightarrow> bool" where
  "boot_pattern s \<longleftrightarrow> map length (split_on (CHR ''-'') s) = [8, 4, 4, 4, 12]
     \<and> list_all (list_all is_hexlow) (split_on (CHR ''-'') s)"

definition evidence_pattern :: "string \<Rightarrow> bool" where
  "evidence_pattern s \<longleftrightarrow> s \<noteq> [] \<and> is_alnum (hd s) \<and> length s \<le> 128
     \<and> list_all (\<lambda>c. is_alnum c \<or> c \<in> set ''._-'') (tl s)"

text \<open>\<open>isinstance(v[k], str) and p(v[k])\<close>, and the same of integers and byte strings.\<close>

definition text_at :: "adict \<Rightarrow> string \<Rightarrow> (string \<Rightarrow> bool) \<Rightarrow> bool" where
  "text_at v k p \<longleftrightarrow> (case map_of v k of Some (AJson (JStr t)) \<Rightarrow> p t | _ \<Rightarrow> False)"

definition number_at :: "adict \<Rightarrow> string \<Rightarrow> (int \<Rightarrow> bool) \<Rightarrow> bool" where
  "number_at v k p \<longleftrightarrow> (case map_of v k of Some (AJson (JInt n)) \<Rightarrow> p n | _ \<Rightarrow> False)"

definition bytes_at :: "adict \<Rightarrow> string \<Rightarrow> (string \<Rightarrow> bool) \<Rightarrow> bool" where
  "bytes_at v k p \<longleftrightarrow> (case map_of v k of Some (ABytes b) \<Rightarrow> p b | _ \<Rightarrow> False)"

definition text_of :: "adict \<Rightarrow> string \<Rightarrow> string" where
  "text_of v k = (case map_of v k of Some (AJson (JStr t)) \<Rightarrow> t | _ \<Rightarrow> [])"

definition number_of :: "adict \<Rightarrow> string \<Rightarrow> int" where
  "number_of v k = (case map_of v k of Some (AJson (JInt n)) \<Rightarrow> n | _ \<Rightarrow> 0)"

definition bytes_of :: "adict \<Rightarrow> string \<Rightarrow> string" where
  "bytes_of v k = (case map_of v k of Some (ABytes b) \<Rightarrow> b | _ \<Rightarrow> [])"

definition headers_of :: "adict \<Rightarrow> (string \<times> json) list option" where
  "headers_of v = (case map_of v ''headers'' of Some (AJson (JObj kvs)) \<Rightarrow> Some kvs | _ \<Rightarrow> None)"

definition headers_valid :: "adict \<Rightarrow> bool" where
  "headers_valid v \<longleftrightarrow> (case headers_of v of None \<Rightarrow> False | Some kvs \<Rightarrow>
     fst ` set kvs \<subseteq> {''content-type'', ''authorization'', ''cookie''}
       \<and> list_all (\<lambda>(k, x). str_and x (\<lambda>t. length t \<le> 8192)) kvs)"

text \<open>A value that makes a test raise \<open>KeyError\<close> or \<open>TypeError\<close> is refused like one that fails it.\<close>

definition request_valid :: "adict option \<Rightarrow> bool" where
  "request_valid v \<longleftrightarrow> (case v of None \<Rightarrow> False | Some r \<Rightarrow>
     fst ` set r = {''operation_id'', ''method'', ''path'', ''body'', ''headers'', ''epoch'', ''writer_boot''}
     \<and> text_at r ''operation_id'' hex32
     \<and> text_at r ''method'' (\<lambda>m. text_at r ''path'' (\<lambda>p. (m, p) \<in> fst ` set SURFACES))
     \<and> bytes_at r ''body'' (\<lambda>b. length b \<le> MAX_REQUEST) \<and> headers_valid r
     \<and> text_at r ''epoch'' epoch_124 \<and> text_at r ''writer_boot'' boot_pattern)"

text \<open>\<open>len(item).to_bytes(8, 'big')\<close>.\<close>

fun big_endian :: "nat \<Rightarrow> nat \<Rightarrow> string" where
  "big_endian 0 n = []"
| "big_endian (Suc k) n = big_endian k (n div 256) @ [char_of (n mod 256)]"

definition framed_item :: "string \<Rightarrow> string" where
  "framed_item item = big_endian 8 (length item) @ item"

definition header_item :: "string \<times> json \<Rightarrow> string" where
  "header_item kx = utf8 (fst kx @ '':'' @ str_val (snd kx))"

definition digest_input :: "adict \<Rightarrow> string" where
  "digest_input r = concat (map framed_item
     ([utf8 (text_of r ''method''), utf8 (text_of r ''path''), utf8 (text_of r ''epoch''),
       utf8 (text_of r ''writer_boot''), bytes_of r ''body''] @
      map header_item (sort_key fst (case headers_of r of Some kvs \<Rightarrow> kvs | None \<Rightarrow> []))))"

definition check_request :: "adict option \<Rightarrow> (adict \<times> string \<times> string) res" where
  "check_request v = (if \<not> request_valid v then Inl ValueError else let r = the v in
     Inr (r, sha256_hex (digest_input r), the (map_of SURFACES (text_of r ''method'', text_of r ''path''))))"

definition outcome_valid :: "adict option \<Rightarrow> bool" where
  "outcome_valid v \<longleftrightarrow> (case v of None \<Rightarrow> False | Some r \<Rightarrow>
     fst ` set r = {''status'', ''response_body'', ''mutation''}
     \<and> number_at r ''status'' (\<lambda>n. 100 \<le> n \<and> n \<le> 599)
     \<and> bytes_at r ''response_body'' (\<lambda>b. length b \<le> MAX_REQUEST)
     \<and> text_at r ''mutation'' (\<lambda>m. m \<in> {''possible'', ''completed''}
         \<and> (m \<noteq> ''completed'' \<or> number_at r ''status'' (\<lambda>n. 200 \<le> n \<and> n \<le> 299))))"

definition check_outcome :: "adict option \<Rightarrow> adict res" where
  "check_outcome v = (if outcome_valid v then Inr (the v) else Inl ValueError)"

definition bound_keys :: "string list" where
  "bound_keys = [''operation_id'', ''request_digest'', ''epoch'', ''writer_boot'', ''database'']"

definition proof_valid :: "adict option \<Rightarrow> adict \<Rightarrow> bool" where
  "proof_valid v requirement \<longleftrightarrow> (case v of None \<Rightarrow> False | Some r \<Rightarrow>
     fst ` set r = set bound_keys \<union> {''txid'', ''replica_txid'', ''image_verified'', ''evidence_id''}
     \<and> (\<forall>k \<in> set bound_keys. text_at r k (\<lambda>t. t = text_of requirement k))
     \<and> number_at r ''txid'' (\<lambda>n. 0 < n) \<and> number_at r ''replica_txid'' (\<lambda>n. n = number_of r ''txid'')
     \<and> map_of r ''image_verified'' = Some (AJson (JBool True)) \<and> text_at r ''evidence_id'' evidence_pattern)"

definition check_proof :: "adict option \<Rightarrow> adict \<Rightarrow> adict res" where
  "check_proof v requirement = (if proof_valid v requirement then Inr (the v) else Inl ValueError)"

section \<open>Admission\<close>

definition a_call :: "string \<Rightarrow> adict \<Rightarrow> ('w admission_scheme, adict option) prog" where
  "a_call name arg s = (ad_reply s (ad_trace s) (name, arg),
     s\<lparr>ad_trace := ad_trace s @ [(name, arg)], ad_files := ad_disturb s (ad_trace s) (name, arg) (ad_files s)\<rparr>)"

text \<open>\<open>except Exception\<close> catches everything but an exit and an interrupt.\<close>

definition on_exception :: "('s, 'a) prog \<Rightarrow> ('s, 'a) prog \<Rightarrow> ('s, 'a) prog" where
  "on_exception m h = on_exn m (\<lambda>e. if e \<in> {SystemExit, KeyboardInterrupt} then raiseP e else h)"

definition intent_row :: "adict \<Rightarrow> string \<Rightarrow> string \<Rightarrow> arow" where
  "intent_row r digest database = \<lparr>ar_operation = text_of r ''operation_id'', ar_digest = digest,
     ar_method = text_of r ''method'', ar_path = text_of r ''path'', ar_epoch = text_of r ''epoch'',
     ar_boot = text_of r ''writer_boot'', ar_database = database, ar_status = ''intent'', ar_upstream = None,
     ar_updigest = None, ar_evidence = None, ar_txid = None\<rparr>"

definition binding_of :: "adict \<Rightarrow> string \<Rightarrow> string \<Rightarrow> adict" where
  "binding_of r digest database = map (\<lambda>(k, t). (k, AJson (JStr t)))
     [(''operation_id'', text_of r ''operation_id''), (''request_digest'', digest), (''epoch'', text_of r ''epoch''),
      (''writer_boot'', text_of r ''writer_boot''), (''database'', database)]"

definition withheld :: "string \<Rightarrow> string \<Rightarrow> decision" where
  "withheld body reason = \<lparr>d_released = False, d_status = 503, d_body = body, d_reason = reason\<rparr>"

text \<open>\<open>try: x = m except Exception: return d\<close>, where \<open>d\<close> may itself act, and what follows otherwise.\<close>

definition or_return :: "('s, 'a) prog \<Rightarrow> ('s, 'b) prog \<Rightarrow> ('a \<Rightarrow> ('s, 'b) prog) \<Rightarrow> ('s, 'b) prog" where
  "or_return m d k = bindP (on_exception (bindP m (\<lambda>x. ret (Some x))) (ret None)) (\<lambda>r.
     case r of None \<Rightarrow> d | Some x \<Rightarrow> k x)"

definition admit :: "adict option \<Rightarrow> ('w admission_scheme, decision) prog" where
  "admit request =
     bindP (lift (check_request request)) (\<lambda>(r, digest, database).
     bindP (a_begin (intent_row r digest database)) (\<lambda>operation.
     or_return (bindP (a_call ''forward'' r) (\<lambda>v. lift (check_outcome v)))
       (seqP (a_update operation ''intent'' ''forward_uncertain'' None None None None)
         (ret (withheld ''admission forward uncertain'' ''forward_uncertain'')))
     (\<lambda>outcome. let status = number_of outcome ''status''; body = bytes_of outcome ''response_body'';
          updigest = sha256_hex body; binding = binding_of r digest database in
     seqP (a_update operation ''intent'' ''awaiting_proof'' (Some status) (Some updigest) None None)
     (or_return (bindP (a_call ''prove'' binding) (\<lambda>v. lift (check_proof v binding)))
       (seqP (a_update operation ''awaiting_proof'' ''proof_uncertain'' (Some status) (Some updigest) None None)
         (ret (withheld ''admission proof uncertain'' ''proof_uncertain'')))
     (\<lambda>proof'. seqP (a_update operation ''awaiting_proof'' ''proven'' (Some status) (Some updigest)
          (Some (text_of proof' ''evidence_id'')) (Some (number_of proof' ''txid'')))
       (ret \<lparr>d_released = True, d_status = status, d_body = body, d_reason = ''proven''\<rparr>))))))"

end
