(* ===== verification/Admission_Properties.thy ===== *)
theory Admission_Properties
  imports Admission World
begin

text \<open>
  Local admission: what every statement keeps, that no identity is forwarded twice over any sequence of requests,
  that the rows keep their shape, and that a released success has its proof.
\<close>

section \<open>Forwarding once\<close>

definition forwarded :: "'w admission_scheme \<Rightarrow> string list" where
  "forwarded s = map (\<lambda>e. text_of (snd e) ''operation_id'') (filter (\<lambda>e. fst e = ''forward'') (ad_trace s))"

lemma put_rows_simps [simp]:
  "ad_trace (put_rows rows s) = ad_trace s" "ad_files (put_rows rows s) = ad_files s" "ad_root (put_rows rows s) = ad_root s"
  "ad_db (put_rows rows s) = ad_db s" "ad_disturb (put_rows rows s) = ad_disturb s" "ad_reply (put_rows rows s) = ad_reply s"
  "ad_fresh (put_rows rows s) = ad_fresh s" "ad_lock (put_rows rows s) = ad_lock s" "ad_root_id (put_rows rows s) = ad_root_id s"
  "ad_db_id (put_rows rows s) = ad_db_id s" "ad_euid (put_rows rows s) = ad_euid s" "ad_fault (put_rows rows s) = ad_fault s"
  "ad_commits (put_rows rows s) = ad_commits s"
  by (simp_all add: put_rows_def split: option.splits)

lemma rows_put [simp]: "ad_db s \<noteq> None \<Longrightarrow> ad_rows (put_rows rows s) = rows"
  by (auto simp: ad_rows_def put_rows_def)

lemma rows_commits [simp]: "ad_rows (s\<lparr>ad_commits := n\<rparr>) = ad_rows s"
  by (simp add: ad_rows_def cong: option.case_cong)

lemma journal_simps [simp]: "a_journal (put_rows rows s) = a_journal s" "a_journal (s\<lparr>ad_commits := n\<rparr>) = a_journal s"
  by (simp_all add: a_journal_def a_under_def)

text \<open>The file of the journal is left to its owner: what others do while a call runs leaves that name as it is, a new file
  has an identity of its own, and an open connection is on that file.\<close>

definition in_place :: "'w admission_scheme \<Rightarrow> bool" where
  "in_place s \<longleftrightarrow> (\<forall>calls q files. ad_disturb s calls q files (a_journal s) = files (a_journal s))
     \<and> (\<forall>f. ad_files s (a_journal s) = Some f \<longrightarrow> fst (f_id f) \<noteq> 0 \<or> snd (f_id f) < ad_fresh s)
     \<and> (\<forall>i. ad_db s = Some i \<longrightarrow> map_option f_id (ad_files s (a_journal s)) = Some i)"

text \<open>The identities recorded in that file.\<close>

definition recorded :: "'w admission_scheme \<Rightarrow> string list" where
  "recorded s = (case ad_files s (a_journal s) of None \<Rightarrow> [] | Some f \<Rightarrow> map ar_operation (adb_rows (ad_data s (f_id f))))"

lemma recorded_open: "in_place s \<Longrightarrow> ad_db s \<noteq> None \<Longrightarrow> recorded s = map ar_operation (ad_rows s)"
  by (auto simp: in_place_def recorded_def ad_rows_def)

lemma in_place_put [simp]: "in_place (put_rows rows s) = in_place s" "in_place (s\<lparr>ad_commits := n\<rparr>) = in_place s"
  by (simp_all add: in_place_def)

lemma recorded_commits [simp]: "recorded (s\<lparr>ad_commits := n\<rparr>) = recorded s"
  by (simp add: recorded_def cong: option.case_cong)

lemma recorded_put: "in_place s \<Longrightarrow> ad_db s \<noteq> None \<Longrightarrow> recorded (put_rows rows s) = map ar_operation rows"
  using recorded_open [of "put_rows rows s"] by simp

lemma forwarded_simps [simp]: "forwarded (put_rows rows s) = forwarded s" "forwarded (s\<lparr>ad_commits := n\<rparr>) = forwarded s"
  by (simp_all add: forwarded_def)

text \<open>The identities forwarded and the identities recorded.\<close>

definition marks :: "string \<Rightarrow> string list \<Rightarrow> string list \<Rightarrow> 'w admission_scheme \<Rightarrow> bool" where
  "marks p fwd ids s \<longleftrightarrow> in_place s \<and> a_journal s = p \<and> forwarded s = fwd \<and> recorded s = ids"

lemma keeps_authority [keeps_intros]: "keeps I a_check_authority"
  by (simp add: keeps_def a_check_authority_def)

lemma wp_authority: "(\<And>e. Q (Inl e) s) \<Longrightarrow> (ad_db s \<noteq> None \<Longrightarrow> Q (Inr ()) s) \<Longrightarrow> wp a_check_authority Q s"
  by (cases "fst (a_check_authority s)") (auto simp: wp_def a_check_authority_def split: if_splits)

lemma wp_commit:
  "(\<And>e n. Q (Inl e) (s\<lparr>ad_commits := n\<rparr>)) \<Longrightarrow> (\<And>r n. Q r (put_rows rows (s\<lparr>ad_commits := n\<rparr>))) \<Longrightarrow> wp (a_commit rows) Q s"
  by (auto simp: wp_def a_commit_def Let_def split: option.splits)

lemma wp_update:
  assumes "\<And>r. Q r s" and "\<And>r n. Q r (s\<lparr>ad_commits := n\<rparr>)"
    and "\<And>r n. ad_db s \<noteq> None \<Longrightarrow> Q r (put_rows (map (\<lambda>x. if ar_operation x = op \<and> ar_status x = old
           then moved new up updigest ev tx x else x) (ad_rows s)) (s\<lparr>ad_commits := n\<rparr>))"
  shows "wp (a_update op old new up updigest ev tx) Q s"
  unfolding a_update_def wp_seqP wp_bindP wp_gets wp_raise_when Let_def
  by (intro wp_authority thenQ_I) (auto simp: assms wp_seqP wp_raise_when intro!: thenQ_I wp_commit)

lemma moved_operation [simp]: "ar_operation (moved new up updigest ev tx r) = ar_operation r"
  by (simp add: moved_def)

lemma marks_update: "keeps (marks p fwd ids) (a_update op old new up updigest ev tx)"
  unfolding keeps_wp
proof (intro allI impI wp_update)
  fix s :: "'w admission_scheme" and n
  assume s: "marks p fwd ids s" and o': "ad_db s \<noteq> None"
  have same: "map ar_operation (map (\<lambda>x. if ar_operation x = op \<and> ar_status x = old then moved new up updigest ev tx x else x) (ad_rows s))
      = map ar_operation (ad_rows s)" by simp
  show "marks p fwd ids (put_rows (map (\<lambda>x. if ar_operation x = op \<and> ar_status x = old
      then moved new up updigest ev tx x else x) (ad_rows s)) (s\<lparr>ad_commits := n\<rparr>))"
    using s o' recorded_open [of s] by (simp add: marks_def recorded_put same)
qed (simp_all add: marks_def)

lemma wp_begin:
  assumes "\<And>e. Q (Inl e) s" and "\<And>e n. Q (Inl e) (s\<lparr>ad_commits := n\<rparr>)"
    and "\<And>r n. ad_db s \<noteq> None \<Longrightarrow> ar_operation row \<notin> ar_operation ` set (ad_rows s) \<Longrightarrow> (\<forall>x. r = Inr x \<longrightarrow> x = ar_operation row)
           \<Longrightarrow> Q r (put_rows (ad_rows s @ [row]) (s\<lparr>ad_commits := n\<rparr>))"
  shows "wp (a_begin row) Q s"
proof -
  have "wp (a_commit (ad_rows s @ [row])) (thenQ (\<lambda>_. ret (ar_operation row)) Q) s"
    if "ad_db s \<noteq> None" "ar_operation row \<notin> ar_operation ` set (ad_rows s)"
    by (rule wp_commit) (use that assms in \<open>auto intro!: thenQ_I\<close>)
  then show ?thesis
    unfolding a_begin_def wp_seqP wp_bindP wp_gets wp_raise_when
    by (intro wp_authority thenQ_I) (auto simp: assms wp_seqP wp_bindP raise_if_def split: if_splits intro!: thenQ_I)
qed

lemma marks_prove: "name \<noteq> ''forward'' \<Longrightarrow> keeps (marks p fwd ids) (a_call name arg)"
  by (auto simp: keeps_def a_call_def marks_def forwarded_def in_place_def recorded_def a_journal_def a_under_def
      cong: option.case_cong)

lemma keeps_or_return [keeps_intros]:
  "keeps I m \<Longrightarrow> keeps I d \<Longrightarrow> (\<And>x. keeps I (k x)) \<Longrightarrow> keeps I (or_return m d k)"
  unfolding or_return_def on_exception_def by (intro keeps_intros) (auto intro!: keeps_intros split: option.split)

text \<open>Only recorded identities were forwarded, each once.\<close>

definition once :: "string \<Rightarrow> 'w admission_scheme \<Rightarrow> bool" where
  "once p s \<longleftrightarrow> in_place s \<and> a_journal s = p \<and> distinct (forwarded s) \<and> set (forwarded s) \<subseteq> set (recorded s)"

lemma marks_once: "marks p fwd ids s \<Longrightarrow> once p s \<longleftrightarrow> distinct fwd \<and> set fwd \<subseteq> set ids"
  by (auto simp: marks_def once_def)

lemma keeps_marks_once:
  fixes m :: "('w admission_scheme, 'a) prog"
  assumes keep: "\<And>fwd ids. keeps (marks p fwd ids) m"
  shows "keeps (once p) m"
  unfolding keeps_def
proof (intro allI impI)
  fix s :: "'w admission_scheme" assume s: "once p s"
  then have m: "marks p (forwarded s) (recorded s) s" by (simp add: marks_def once_def)
  then have "marks p (forwarded s) (recorded s) (snd (m s))" using keep unfolding keeps_def by blast
  then show "once p (snd (m s))" using s marks_once m by blast
qed

definition called :: "string \<Rightarrow> adict \<Rightarrow> 'w admission_scheme \<Rightarrow> 'w admission_scheme" where
  "called name arg s = s\<lparr>ad_trace := ad_trace s @ [(name, arg)], ad_files := ad_disturb s (ad_trace s) (name, arg) (ad_files s)\<rparr>"

lemma or_return_call: "or_return (bindP (a_call name arg) f) d k s
    = or_return (bindP (lift (ad_reply s (ad_trace s) (name, arg))) f) d k (called name arg s)"
  by (cases "ad_reply s (ad_trace s) (name, arg)")
    (simp_all add: or_return_def on_exception_def on_exn_def bindP_def a_call_def lift_def called_def)

lemma wp_or_return_call: "wp (or_return (bindP (a_call name arg) f) d k) Q s
    \<longleftrightarrow> wp (or_return (bindP (lift (ad_reply s (ad_trace s) (name, arg))) f) d k) Q (called name arg s)"
  by (simp add: wp_def or_return_call)

definition admit_rest :: "string \<Rightarrow> adict \<Rightarrow> string \<Rightarrow> string \<Rightarrow> adict \<Rightarrow> ('w admission_scheme, decision) prog" where
  "admit_rest operation r digest database outcome = (let status = number_of outcome ''status''; body = bytes_of outcome ''response_body'';
          updigest = sha256_hex body; binding = binding_of r digest database in
     seqP (a_update operation ''intent'' ''awaiting_proof'' (Some status) (Some updigest) None None)
     (or_return (bindP (a_call ''prove'' binding) (\<lambda>v. lift (check_proof v binding)))
       (seqP (a_update operation ''awaiting_proof'' ''proof_uncertain'' (Some status) (Some updigest) None None)
         (ret (withheld ''admission proof uncertain'' ''proof_uncertain'')))
     (\<lambda>proof'. seqP (a_update operation ''awaiting_proof'' ''proven'' (Some status) (Some updigest)
          (Some (text_of proof' ''evidence_id'')) (Some (number_of proof' ''txid'')))
       (ret \<lparr>d_released = True, d_status = status, d_body = body, d_reason = ''proven''\<rparr>))))"

lemma marks_rest: "keeps (marks p fwd ids) (admit_rest operation r digest database outcome)"
  unfolding admit_rest_def Let_def
  by (intro keeps_intros marks_update marks_prove) simp_all

definition admit_forward :: "adict \<Rightarrow> string \<Rightarrow> string \<Rightarrow> ('w admission_scheme, adict) prog \<Rightarrow> string \<Rightarrow> ('w admission_scheme, decision) prog" where
  "admit_forward r digest database m op = or_return m
     (seqP (a_update op ''intent'' ''forward_uncertain'' None None None None)
       (ret (withheld ''admission forward uncertain'' ''forward_uncertain''))) (admit_rest op r digest database)"

lemma admit_forward: "admit request = bindP (lift (check_request request)) (\<lambda>(r, digest, database).
     bindP (a_begin (intent_row r digest database))
       (admit_forward r digest database (bindP (a_call ''forward'' r) (\<lambda>v. lift (check_outcome v)))))"
  unfolding admit_def admit_forward_def admit_rest_def ..

lemma marks_forward: "keeps (marks p fwd ids) (admit_forward r digest database (bindP (lift x) (\<lambda>v. lift (check_outcome v))) op)"
  unfolding admit_forward_def by (intro keeps_intros marks_update marks_rest)

lemma once_forward:
  fixes s :: "'w admission_scheme"
  assumes s: "once p s" and o': "ad_db s \<noteq> None" and new: "ar_operation row \<notin> ar_operation ` set (ad_rows s)"
    and row: "ar_operation row = text_of r ''operation_id''"
  shows "once p (put_rows (ad_rows s @ [row]) (s\<lparr>ad_commits := n\<rparr>))"
    and "wp (admit_forward r digest database (bindP (a_call ''forward'' r) (\<lambda>v. lift (check_outcome v))) op)
      (\<lambda>_. once p) (put_rows (ad_rows s @ [row]) (s\<lparr>ad_commits := n\<rparr>))"
proof -
  let ?u = "put_rows (ad_rows s @ [row]) (s\<lparr>ad_commits := n\<rparr>)"
  let ?t = "called ''forward'' r ?u"
  let ?fwd = "forwarded s @ [ar_operation row]" and ?ids = "map ar_operation (ad_rows s) @ [ar_operation row]"
  have ids: "recorded s = map ar_operation (ad_rows s)" using s o' recorded_open by (auto simp: once_def)
  have u: "marks p (forwarded s) ?ids ?u" using s o' by (simp add: marks_def once_def recorded_put)
  show "once p ?u" using marks_once [OF u] s ids by (auto simp: once_def)
  have t: "marks p ?fwd ?ids ?t" using u row
    by (auto simp: marks_def forwarded_def called_def in_place_def recorded_def a_journal_def a_under_def cong: option.case_cong)
  have good: "distinct ?fwd \<and> set ?fwd \<subseteq> set ?ids"
    using s new ids by (auto simp: once_def)
  have "wp (admit_forward r digest database (bindP (lift x) (\<lambda>v. lift (check_outcome v))) op) (\<lambda>_. marks p ?fwd ?ids) ?t" for x
    using t marks_forward unfolding keeps_wp by blast
  then show "wp (admit_forward r digest database (bindP (a_call ''forward'' r) (\<lambda>v. lift (check_outcome v))) op) (\<lambda>_. once p) ?u"
    unfolding admit_forward_def wp_or_return_call by (rule wp_mono) (use good marks_once in blast)
qed

lemma once_admit: "keeps (once p) (admit request)"
  unfolding keeps_wp
proof (intro allI impI)
  fix s :: "'w admission_scheme" assume s: "once p s"
  have "wp (a_begin (intent_row r digest database)) (thenQ (admit_forward r digest database
      (bindP (a_call ''forward'' r) (\<lambda>v. lift (check_outcome v)))) (\<lambda>_. once p)) s" for r digest database
  proof (rule wp_begin)
    let ?f = "admit_forward r digest database (bindP (a_call ''forward'' r) (\<lambda>v. lift (check_outcome v)))"
    show "thenQ ?f (\<lambda>_. once p) (Inl e) s" for e using s by simp
    show "thenQ ?f (\<lambda>_. once p) (Inl e) (s\<lparr>ad_commits := n\<rparr>)" for e n
      using s by (simp add: once_def)
    show "thenQ ?f (\<lambda>_. once p) x (put_rows (ad_rows s @ [intent_row r digest database]) (s\<lparr>ad_commits := n\<rparr>))"
      if "ad_db s \<noteq> None" "ar_operation (intent_row r digest database) \<notin> ar_operation ` set (ad_rows s)" for x n
      by (intro thenQ_I once_forward) (use s that in \<open>simp_all add: intent_row_def\<close>)
  qed
  then show "wp (admit request) (\<lambda>_. once p) s"
    unfolding admit_forward wp_bindP wp_lift using s by (intro thenQ_I) (auto simp: wp_bindP split: prod.splits)
qed

text \<open>What an owner does, and what others do to the files in between.\<close>

datatype owner = Open | Close | Admit "adict option"
  | Others "(string \<Rightarrow> file_stat option) \<Rightarrow> string \<Rightarrow> file_stat option"

fun owner_act :: "owner \<Rightarrow> 'w admission_scheme \<Rightarrow> 'w admission_scheme" where
  "owner_act Open s = snd (a_enter s)"
| "owner_act Close s = snd (a_close s)"
| "owner_act (Admit request) s = snd (admit request s)"
| "owner_act (Others f) s = s\<lparr>ad_files := f (ad_files s)\<rparr>"

text \<open>Opening creates files, never with the identity of the journal that is there.\<close>

lemma keeps_checks [keeps_intros]: "keeps I (\<lambda>s. (f s, s))"
  by (simp add: keeps_def)

lemma lock_differs: "a_under ''lock'' s \<noteq> a_journal s"
  by (auto simp: a_journal_def a_under_def path_join_def)

lemma marks_create: "a_journal s \<noteq> q \<Longrightarrow> marks p fwd ids s \<Longrightarrow> marks p fwd ids (snd (a_create q bytes s))"
  by (auto simp: marks_def in_place_def recorded_def forwarded_def a_create_def modify_def a_journal_def a_under_def split: option.splits)

lemma marks_same:
  assumes "marks p fwd ids s" and "ad_data t = ad_data s" and "ad_files t p = ad_files s p" and "ad_disturb t = ad_disturb s"
    and "ad_root t = ad_root s" and "ad_fresh t = ad_fresh s" and "ad_trace t = ad_trace s" and "ad_db t = ad_db s \<or> ad_db t = None"
  shows "marks p fwd ids t"
proof -
  have j: "a_journal s = p" "a_journal t = p" using assms by (auto simp: marks_def a_journal_def a_under_def)
  have "recorded t = recorded s" unfolding recorded_def j assms(2,3) ..
  moreover have "in_place t" using assms unfolding in_place_def marks_def j by auto
  ultimately show ?thesis using assms j by (auto simp: marks_def forwarded_def)
qed

lemma marks_lock: "keeps (marks p fwd ids) a_take_lock"
  unfolding keeps_def
proof (intro allI impI)
  fix s :: "'w admission_scheme" assume s: "marks p fwd ids s"
  note c = marks_create [OF lock_differs [symmetric] s, of "[]"]
  have set: "marks p fwd ids t \<Longrightarrow> marks p fwd ids (t\<lparr>ad_busy := b, ad_lock := l\<rparr>)" for t :: "'w admission_scheme" and b l
    by (erule marks_same) simp_all
  show "marks p fwd ids (snd (a_take_lock s))"
    using s c by (auto simp: a_take_lock_def prog_defs a_create_def raise_if_def intro!: set split: option.splits sum.splits)
qed

lemma marks_connect: "keeps (marks p fwd ids) a_connect"
  unfolding keeps_def
proof (intro allI impI)
  fix s :: "'w admission_scheme" assume s: "marks p fwd ids s"
  show "marks p fwd ids (snd (a_connect s))"
  proof (cases "ad_files s (a_journal s)")
    case None
    then show ?thesis using s
      by (auto simp: a_connect_def prog_defs a_create_def marks_def in_place_def recorded_def forwarded_def a_journal_def a_under_def blank_def)
  next
    case (Some f)
    then show ?thesis using s
      by (auto simp: a_connect_def prog_defs marks_def in_place_def recorded_def forwarded_def a_journal_def a_under_def)
  qed
qed

lemma marks_table: "keeps (marks p fwd ids) a_table"
  unfolding keeps_def
proof (intro allI impI)
  fix s :: "'w admission_scheme" assume s: "marks p fwd ids s"
  show "marks p fwd ids (snd (a_table s))"
  proof (cases "ad_db s")
    case (Some i)
    then obtain f where "ad_files s (a_journal s) = Some f" "f_id f = i" using s by (auto simp: marks_def in_place_def)
    then show ?thesis using s Some
      by (auto simp: a_table_def modify_def Let_def marks_def in_place_def recorded_def forwarded_def a_journal_def a_under_def)
  qed (use s in \<open>simp add: a_table_def modify_def\<close>)
qed

lemma marks_set: "(\<And>s. ad_data (f s) = ad_data s \<and> (ad_db (f s) = ad_db s \<or> ad_db (f s) = None) \<and> ad_files (f s) = ad_files s
    \<and> ad_root (f s) = ad_root s \<and> ad_trace (f s) = ad_trace s \<and> ad_disturb (f s) = ad_disturb s \<and> ad_fresh (f s) = ad_fresh s)
    \<Longrightarrow> keeps (marks p fwd ids) (modify f)"
  unfolding keeps_def modify_def by (intro allI impI) (erule marks_same; simp)

lemma marks_close: "keeps (marks p fwd ids) a_close"
  unfolding a_close_def by (intro marks_set) simp

lemma marks_enter: "keeps (marks p fwd ids) a_enter"
  unfolding a_enter_def a_open_body_def
  by (intro keeps_intros marks_lock marks_connect marks_table marks_close marks_set) simp_all

lemma once_owner:
  "once p s \<Longrightarrow> (\<And>f m. c = Others f \<Longrightarrow> f m p = m p) \<Longrightarrow> once p (owner_act c s)"
proof (cases c)
  case Open
  assume "once p s"
  then show ?thesis using Open keeps_marks_once [OF marks_enter] by (auto simp: keeps_def)
next
  case Close
  assume "once p s"
  then show ?thesis using Close keeps_marks_once [OF marks_close] by (auto simp: keeps_def)
next
  case (Admit request)
  assume "once p s"
  then show ?thesis using Admit once_admit by (auto simp: keeps_def)
next
  case (Others f)
  assume s: "once p s" and away: "\<And>f m. c = Others f \<Longrightarrow> f m p = m p"
  then have "marks p (forwarded s) (recorded s) s" by (simp add: marks_def once_def)
  then have "marks p (forwarded s) (recorded s) (s\<lparr>ad_files := f (ad_files s)\<rparr>)"
    by (rule marks_same) (simp_all add: away [OF Others])
  from marks_once [OF this] show ?thesis using s Others by (auto simp: once_def)
qed

text \<open>C24 Whatever requests an owner admits, in whatever order, with whatever answers of the upstream and the prover,
  failures of commits, reopenings in between and changes to other files by other processes: as long as nobody else
  removes or replaces the file of the journal, no operation identity is forwarded twice, and every identity forwarded
  is recorded in that file.\<close>

theorem forwarded_at_most_once:
  assumes "ad_trace s = []" and "in_place s" and "\<forall>f. Others f \<in> set cs \<longrightarrow> (\<forall>m. f m (a_journal s) = m (a_journal s))"
  shows "distinct (forwarded (fold owner_act cs s)) \<and> set (forwarded (fold owner_act cs s)) \<subseteq> set (recorded (fold owner_act cs s))"
proof -
  have "once p t \<Longrightarrow> \<forall>f. Others f \<in> set cs \<longrightarrow> (\<forall>m. f m p = m p) \<Longrightarrow> once p (fold owner_act cs t)" for p and t :: "'a admission_scheme"
    by (induction cs arbitrary: t) (simp_all add: once_owner)
  moreover have "once (a_journal s) s" using assms(1,2) by (simp add: once_def forwarded_def)
  ultimately show ?thesis using assms(3) by (auto simp: once_def)
qed

text \<open>An owner that opens its journal, admits a request and closes.\<close>

definition ex_admission :: admission where
  "ex_admission = \<lparr>ad_data = (\<lambda>_. blank), ad_db = None, ad_lock = None,
     ad_busy = False, ad_root = ''/j'', ad_root_id = (0, 0), ad_db_id = (0, 0), ad_files = (\<lambda>p. if p = ''/j'' then
       Some \<lparr>f_kind = Directory, f_uid = 0, f_mode = 448, f_nlink = 2, f_id = (0, 7), f_bytes = []\<rparr> else None),
     ad_fresh = 8, ad_euid = 0, ad_fault = (\<lambda>_. None), ad_commits = 0, ad_reply = (\<lambda>_ _. Inl OSError),
     ad_disturb = (\<lambda>_ _ f. f), ad_trace = []\<rparr>"

section \<open>The shape of the rows\<close>

definition row_shape :: "arow \<Rightarrow> bool" where
  "row_shape r \<longleftrightarrow> hex32 (ar_operation r) \<and> ((ar_method r, ar_path r), ar_database r) \<in> set SURFACES
     \<and> epoch_124 (ar_epoch r) \<and> boot_pattern (ar_boot r)
     \<and> (if ar_status r \<in> {''intent'', ''forward_uncertain''} then
          ar_upstream r = None \<and> ar_updigest r = None \<and> ar_evidence r = None \<and> ar_txid r = None
        else (\<exists>n b. ar_upstream r = Some n \<and> 100 \<le> n \<and> n \<le> 599 \<and> ar_updigest r = Some (sha256_hex b))
          \<and> (if ar_status r \<in> {''awaiting_proof'', ''proof_uncertain''} then ar_evidence r = None \<and> ar_txid r = None
             else ar_status r = ''proven'' \<and> (\<exists>e k. ar_evidence r = Some e \<and> evidence_pattern e \<and> ar_txid r = Some k \<and> 0 < k)))"

definition shaped :: "'w admission_scheme \<Rightarrow> bool" where
  "shaped s \<longleftrightarrow> (\<forall>i. \<forall>r \<in> set (adb_rows (ad_data s i)). row_shape r)"

lemma shaped_rows: "shaped s \<Longrightarrow> r \<in> set (ad_rows s) \<Longrightarrow> row_shape r"
  by (auto simp: shaped_def ad_rows_def split: option.splits)

lemma shaped_put: "shaped s \<Longrightarrow> \<forall>r \<in> set rows. row_shape r \<Longrightarrow> shaped (put_rows rows (s\<lparr>ad_commits := n\<rparr>))"
  by (auto simp: shaped_def put_rows_def split: option.splits)

lemma shaped_commits [simp]: "shaped (s\<lparr>ad_commits := n\<rparr>) = shaped s"
  by (simp add: shaped_def)

lemma shaped_update:
  "(\<And>r. row_shape r \<Longrightarrow> ar_status r = old \<Longrightarrow> row_shape (moved new up updigest ev tx r))
     \<Longrightarrow> keeps shaped (a_update op old new up updigest ev tx)"
  unfolding keeps_wp by (intro allI impI wp_update) (auto intro!: shaped_put simp: shaped_rows)

lemma shaped_begin: "row_shape row \<Longrightarrow> keeps shaped (a_begin row)"
  unfolding keeps_wp by (intro allI impI wp_begin) (auto intro!: shaped_put simp: shaped_rows)

lemma shaped_call: "keeps shaped (a_call name arg)"
  by (simp add: keeps_def a_call_def shaped_def)

lemma keeps_lifted: "(\<And>x. r = Inr x \<Longrightarrow> keeps I (f x)) \<Longrightarrow> keeps I (bindP (lift r) f)"
  by (cases r) (simp_all add: keeps_def bindP_def lift_def)

lemma keeps_or_return_value:
  assumes "keeps I m" and "\<And>s x t. m s = (Inr x, t) \<Longrightarrow> P x" and "keeps I d" and "\<And>x. P x \<Longrightarrow> keeps I (k x)"
  shows "keeps I (or_return m d k)"
  unfolding keeps_def
proof (intro allI impI)
  fix s assume s: "I s"
  obtain r t where m: "m s = (r, t)" by (cases "m s")
  have t: "I t" using assms(1) s m by (rule keepsD)
  show "I (snd (or_return m d k s))"
  proof (cases r)
    case (Inl e)
    with m t assms(3) show ?thesis
      by (simp add: or_return_def on_exception_def on_exn_def bindP_def ret_def raiseP_def keeps_def)
  next
    case (Inr x)
    with m have "P x" using assms(2) by simp
    with m Inr t assms(4) [of x] show ?thesis
      by (simp add: or_return_def on_exception_def on_exn_def bindP_def ret_def keeps_def)
  qed
qed

lemma call_value: "bindP (a_call name arg) (\<lambda>v. lift (f v)) s = (Inr x, t) \<Longrightarrow> \<exists>v. f v = Inr x"
  by (auto simp: bindP_def a_call_def lift_def split: sum.splits)

lemma outcome_status: "check_outcome v = Inr x \<Longrightarrow> 100 \<le> number_of x ''status'' \<and> number_of x ''status'' \<le> 599"
  by (auto simp: check_outcome_def outcome_valid_def number_at_def number_of_def split: if_splits option.splits aval.splits json.splits)

lemma proof_values: "check_proof v b = Inr x \<Longrightarrow> 0 < number_of x ''txid'' \<and> evidence_pattern (text_of x ''evidence_id'')"
  by (auto simp: check_proof_def proof_valid_def number_at_def number_of_def text_at_def text_of_def
      split: if_splits option.splits aval.splits json.splits)

lemma shaped_rest: "100 \<le> number_of x ''status'' \<Longrightarrow> number_of x ''status'' \<le> 599 \<Longrightarrow> keeps shaped (admit_rest op r digest database x)"
  unfolding admit_rest_def Let_def
  by (intro keeps_intros shaped_update
      keeps_or_return_value [where P = "\<lambda>p. 0 < number_of p ''txid'' \<and> evidence_pattern (text_of p ''evidence_id'')"] shaped_call)
    (auto simp: row_shape_def moved_def dest!: call_value proof_values)

lemma text_at_of: "text_at r k p \<Longrightarrow> p (text_of r k)"
  by (auto simp: text_at_def text_of_def split: option.splits aval.splits json.splits)

lemma map_of_member: "x \<in> fst ` set ps \<Longrightarrow> (x, the (map_of ps x)) \<in> set ps"
  by (metis map_of_SomeD map_of_fst_Some option.sel)

lemma request_row:
  assumes "check_request v = Inr (r, digest, database)"
  shows "row_shape (intent_row r digest database)"
proof -
  obtain q where "v = Some q" using assms by (cases v) (auto simp: check_request_def request_valid_def)
  with assms have q: "v = Some r" "request_valid (Some r)" "database = the (map_of SURFACES (text_of r ''method'', text_of r ''path''))"
    by (auto simp: check_request_def Let_def split: if_splits)
  then have valid: "text_at r ''operation_id'' hex32" "text_at r ''epoch'' epoch_124" "text_at r ''writer_boot'' boot_pattern"
    "text_at r ''method'' (\<lambda>m. text_at r ''path'' (\<lambda>p. (m, p) \<in> fst ` set SURFACES))"
    by (simp_all add: request_valid_def)
  from text_at_of [OF text_at_of [OF valid(4)]] have "((text_of r ''method'', text_of r ''path''), database) \<in> set SURFACES"
    unfolding q(3) by (rule map_of_member)
  with valid [THEN text_at_of] show ?thesis by (simp add: row_shape_def intent_row_def)
qed

lemma shaped_admit: "keeps shaped (admit request)"
proof -
  have "keeps shaped (admit_forward r digest database (bindP (a_call ''forward'' r) (\<lambda>v. lift (check_outcome v))) op)" for r digest database op
    unfolding admit_forward_def
    by (intro keeps_intros shaped_update shaped_call
        keeps_or_return_value [where P = "\<lambda>x. 100 \<le> number_of x ''status'' \<and> number_of x ''status'' \<le> 599"])
      (auto simp: row_shape_def moved_def intro: shaped_rest dest!: call_value outcome_status)
  then show ?thesis
    unfolding admit_forward by (intro keeps_lifted) (auto intro!: keeps_intros shaped_begin request_row)
qed

lemma shaped_set: "(\<And>s. shaped s \<Longrightarrow> shaped (f s)) \<Longrightarrow> keeps shaped (modify f)"
  by (simp add: keeps_def modify_def)

lemma shaped_create: "keeps shaped (a_create p bytes)"
  unfolding a_create_def by (intro shaped_set) (simp add: shaped_def blank_def)

lemma shaped_lock: "keeps shaped a_take_lock"
  unfolding a_take_lock_def
  by (intro keeps_intros) (auto intro!: keeps_intros shaped_create shaped_set simp: shaped_def split: prod.splits option.splits)

lemma shaped_connect: "keeps shaped a_connect"
  unfolding a_connect_def
  by (intro keeps_intros) (auto intro!: keeps_intros shaped_create shaped_set simp: shaped_def split: prod.splits option.splits)

lemma shaped_table: "keeps shaped a_table"
  unfolding a_table_def by (intro shaped_set) (auto simp: shaped_def Let_def split: option.splits)

lemma shaped_close: "keeps shaped a_close"
  unfolding a_close_def by (intro shaped_set) (simp add: shaped_def)

lemma shaped_enter: "keeps shaped a_enter"
  unfolding a_enter_def a_open_body_def
  by (intro keeps_intros shaped_lock shaped_connect shaped_table shaped_close shaped_set) (simp_all add: shaped_def)

lemma shaped_owner: "shaped s \<Longrightarrow> shaped (owner_act c s)"
  by (cases c) (simp_all add: shaped_enter [unfolded keeps_def, rule_format] shaped_close [unfolded keeps_def, rule_format]
      shaped_admit [unfolded keeps_def, rule_format], simp add: shaped_def)

text \<open>C25 Every row an owner ever writes is of its type, in every database: the identity is 32 hex digits, method, path and database are one of
  the five surfaces, the epoch and the boot match their patterns; a row has an upstream status (100 to 599) and digest
  exactly when it awaits or had its proof, and evidence and a positive transaction exactly when it is proven.\<close>

theorem rows_well_typed:
  assumes "shaped s"
  shows "shaped (fold owner_act cs s)"
  using assms by (induction cs arbitrary: s) (simp_all add: shaped_owner)

section \<open>A release\<close>

lemma or_return_Inr:
  assumes "or_return m d k s = (Inr y, t)"
  obtains (came) x u where "m s = (Inr x, u)" and "k x u = (Inr y, t)"
    | (raised) e u where "m s = (Inl e, u)" and "d u = (Inr y, t)"
proof (cases "m s")
  case (Pair r u)
  then show thesis
    using assms that by (cases r) (auto simp: or_return_def on_exception_def on_exn_def bindP_def ret_def raiseP_def split: if_splits)
qed

lemma withheld_update: "seqP (a_update op old new up updigest ev tx) (ret (withheld b w)) s = (Inr d, t) \<Longrightarrow> \<not> d_released d"
  by (auto simp: seqP_def bindP_def ret_def withheld_def split: prod.splits sum.splits)

lemma update_Inr:
  assumes "a_update op old new up updigest ev tx s = (Inr u, t)"
  shows "ad_trace t = ad_trace s \<and> ad_reply t = ad_reply s
    \<and> ad_rows t = map (\<lambda>r. if ar_operation r = op \<and> ar_status r = old then moved new up updigest ev tx r else r) (ad_rows s)
    \<and> (\<exists>r \<in> set (ad_rows s). ar_operation r = op \<and> ar_status r = old)"
proof -
  from assms have "ad_db s \<noteq> None" "a_commit (map (\<lambda>r. if ar_operation r = op \<and> ar_status r = old then moved new up updigest ev tx r else r) (ad_rows s)) s = (Inr u, t)"
    and one: "length (filter (\<lambda>r. ar_operation r = op \<and> ar_status r = old) (ad_rows s)) = 1"
    by (auto simp: a_update_def seqP_def bindP_def gets_def raise_when_def a_check_authority_def Let_def raise_if_def
        split: prod.splits sum.splits if_splits)
  moreover from one have "\<exists>r \<in> set (ad_rows s). ar_operation r = op \<and> ar_status r = old"
    by (metis (mono_tags, lifting) filter_False length_0_conv zero_neq_one)
  ultimately show ?thesis by (auto simp: a_commit_def Let_def split: option.splits prod.splits)
qed

lemma begin_Inr:
  assumes "a_begin row s = (Inr op, t)"
  shows "ad_trace t = ad_trace s \<and> ad_reply t = ad_reply s \<and> ad_rows t = ad_rows s @ [row] \<and> op = ar_operation row
    \<and> op \<notin> ar_operation ` set (ad_rows s)"
proof -
  from assms have "ad_db s \<noteq> None" "a_commit (ad_rows s @ [row]) s = (Inr (), t)" "op = ar_operation row" "op \<notin> ar_operation ` set (ad_rows s)"
    by (auto simp: a_begin_def seqP_def bindP_def gets_def raise_when_def a_check_authority_def ret_def raise_if_def
        split: prod.splits sum.splits if_splits)
  then show ?thesis by (auto simp: a_commit_def Let_def split: option.splits prod.splits)
qed

text \<open>A released decision: what was asked, what was answered, and what the row holds.\<close>

definition release :: "adict \<Rightarrow> 'w admission_scheme \<Rightarrow> decision \<Rightarrow> 'w admission_scheme \<Rightarrow> bool" where
  "release r s d t \<longleftrightarrow> (\<exists>digest database outcome proof'. check_request (Some r) = Inr (r, digest, database)
     \<and> text_of r ''operation_id'' \<notin> ar_operation ` set (ad_rows s)
     \<and> ad_trace t = ad_trace s @ [(''forward'', r), (''prove'', binding_of r digest database)]
     \<and> ad_reply s (ad_trace s) (''forward'', r) = Inr (Some outcome) \<and> outcome_valid (Some outcome)
     \<and> ad_reply s (ad_trace s @ [(''forward'', r)]) (''prove'', binding_of r digest database) = Inr (Some proof')
     \<and> proof_valid (Some proof') (binding_of r digest database)
     \<and> d_status d = number_of outcome ''status'' \<and> d_body d = bytes_of outcome ''response_body''
     \<and> (\<exists>row \<in> set (ad_rows t). ar_operation row = text_of r ''operation_id'' \<and> ar_status row = ''proven''
          \<and> ar_txid row = Some (number_of proof' ''txid'') \<and> ar_updigest row = Some (sha256_hex (d_body d))))"

lemma called_simps [simp]: "ad_trace (called n x s) = ad_trace s @ [(n, x)]" "ad_reply (called n x s) = ad_reply s"
  "ad_rows (called n x s) = ad_rows s"
  by (simp_all add: called_def ad_rows_def cong: option.case_cong)

lemma call_Inr: "bindP (a_call n x) (\<lambda>v. lift (f v)) s = (Inr y, t) \<longleftrightarrow>
    (\<exists>v. ad_reply s (ad_trace s) (n, x) = Inr v \<and> f v = Inr y) \<and> t = called n x s"
  by (auto simp: bindP_def a_call_def lift_def called_def split: sum.splits)

lemma check_outcome_Inr: "check_outcome v = Inr x \<longleftrightarrow> v = Some x \<and> outcome_valid v"
  by (cases v) (auto simp: check_outcome_def outcome_valid_def)

lemma check_proof_Inr: "check_proof v b = Inr x \<longleftrightarrow> v = Some x \<and> proof_valid v b"
  by (cases v) (auto simp: check_proof_def proof_valid_def)

lemma check_request_Inr: "check_request v = Inr (r, h, b) \<Longrightarrow> v = Some r"
  by (cases v) (auto simp: check_request_def request_valid_def Let_def split: if_splits)

lemma rest_released:
  assumes "admit_rest op r digest database outcome s = (Inr d, t)" and "d_released d"
  shows "\<exists>proof'. ad_trace t = ad_trace s @ [(''prove'', binding_of r digest database)]
    \<and> ad_reply s (ad_trace s) (''prove'', binding_of r digest database) = Inr (Some proof')
    \<and> proof_valid (Some proof') (binding_of r digest database)
    \<and> d_status d = number_of outcome ''status'' \<and> d_body d = bytes_of outcome ''response_body''
    \<and> (\<exists>row \<in> set (ad_rows t). ar_operation row = op \<and> ar_status row = ''proven''
         \<and> ar_txid row = Some (number_of proof' ''txid'') \<and> ar_updigest row = Some (sha256_hex (d_body d)))"
proof -
  let ?n = "number_of outcome ''status''" and ?b = "bytes_of outcome ''response_body''"
  note run = assms(1) [unfolded admit_rest_def Let_def seqP_eq_Inr]
  obtain u v where u: "a_update op ''intent'' ''awaiting_proof'' (Some ?n) (Some (sha256_hex ?b)) None None s = (Inr u, v)"
    and rest: "or_return (bindP (a_call ''prove'' (binding_of r digest database)) (\<lambda>v. lift (check_proof v (binding_of r digest database))))
       (seqP (a_update op ''awaiting_proof'' ''proof_uncertain'' (Some ?n) (Some (sha256_hex ?b)) None None)
         (ret (withheld ''admission proof uncertain'' ''proof_uncertain'')))
     (\<lambda>proof'. seqP (a_update op ''awaiting_proof'' ''proven'' (Some ?n) (Some (sha256_hex ?b))
          (Some (text_of proof' ''evidence_id'')) (Some (number_of proof' ''txid'')))
       (ret \<lparr>d_released = True, d_status = ?n, d_body = ?b, d_reason = ''proven''\<rparr>)) v = (Inr d, t)"
    using run by blast
  from rest show ?thesis
  proof (cases rule: or_return_Inr)
    case (raised e w)
    then show ?thesis using assms(2) withheld_update by blast
  next
    case (came proof' w)
    from came(1) have reply: "ad_reply v (ad_trace v) (''prove'', binding_of r digest database) = Inr (Some proof')"
      "proof_valid (Some proof') (binding_of r digest database)" and w: "w = called ''prove'' (binding_of r digest database) v"
      by (auto simp: call_Inr check_proof_Inr)
    from came(2) obtain u' where "a_update op ''awaiting_proof'' ''proven'' (Some ?n) (Some (sha256_hex ?b))
          (Some (text_of proof' ''evidence_id'')) (Some (number_of proof' ''txid'')) w = (Inr u', t)"
      and d: "d = \<lparr>d_released = True, d_status = ?n, d_body = ?b, d_reason = ''proven''\<rparr>"
      by (auto simp: seqP_eq_Inr ret_def)
    note last = update_Inr [OF this(1)] and first = update_Inr [OF u]
    from last obtain r0 where r0: "r0 \<in> set (ad_rows w)" "ar_operation r0 = op" "ar_status r0 = ''awaiting_proof''" by blast
    let ?row = "moved ''proven'' (Some ?n) (Some (sha256_hex ?b)) (Some (text_of proof' ''evidence_id'')) (Some (number_of proof' ''txid'')) r0"
    have "?row \<in> set (ad_rows t)" using last r0 by (auto intro: rev_image_eqI)
    moreover have "ar_operation ?row = op \<and> ar_status ?row = ''proven'' \<and> ar_txid ?row = Some (number_of proof' ''txid'')
        \<and> ar_updigest ?row = Some (sha256_hex (d_body d))"
      using r0 d by (simp add: moved_def)
    ultimately have "\<exists>row \<in> set (ad_rows t). ar_operation row = op \<and> ar_status row = ''proven''
        \<and> ar_txid row = Some (number_of proof' ''txid'') \<and> ar_updigest row = Some (sha256_hex (d_body d))"
      by (rule bexI [rotated])
    moreover have "ad_trace t = ad_trace s @ [(''prove'', binding_of r digest database)]"
      "ad_reply s (ad_trace s) (''prove'', binding_of r digest database) = Inr (Some proof')"
      using last first w reply by simp_all
    ultimately show ?thesis using reply(2) d by (intro exI [of _ proof']) simp
  qed
qed

lemma released_follows:
  assumes "admit request s = (Inr d, t)" and "d_released d"
  shows "\<exists>r. request = Some r \<and> release r s d t"
proof -
  note run = assms(1) [unfolded admit_forward bindP_eq_Inr]
  from run obtain r digest database where q: "check_request request = Inr (r, digest, database)"
    and "bindP (a_begin (intent_row r digest database)) (admit_forward r digest database
        (bindP (a_call ''forward'' r) (\<lambda>v. lift (check_outcome v)))) s = (Inr d, t)"
    by (auto simp: lift_def)
  then obtain op v where op: "a_begin (intent_row r digest database) s = (Inr op, v)"
    and fwd: "admit_forward r digest database (bindP (a_call ''forward'' r) (\<lambda>v. lift (check_outcome v))) op v = (Inr d, t)"
    by (auto simp: bindP_eq_Inr)
  note began = begin_Inr [OF op]
  from fwd [unfolded admit_forward_def] show ?thesis
  proof (cases rule: or_return_Inr)
    case (raised e w)
    then show ?thesis using assms(2) withheld_update by blast
  next
    case (came outcome w)
    from came(1) have reply: "ad_reply v (ad_trace v) (''forward'', r) = Inr (Some outcome)" "outcome_valid (Some outcome)"
      and w: "w = called ''forward'' r v"
      by (auto simp: call_Inr check_outcome_Inr)
    from rest_released [OF came(2) assms(2)] began reply w check_request_Inr [OF q] q show ?thesis
      unfolding release_def by (auto simp: intent_row_def)
  qed
qed

text \<open>C23 An admitted success is released only after the request was valid and new, was forwarded exactly once, its upstream
  outcome was valid, and a proof was asked for once and bound to this request, its digest, epoch, boot and database;
  the row is then proven with the transaction of that proof, and the released answer is the upstream's.\<close>

theorem release_is_proved:
  assumes "admit request s = (Inr d, t)" and "d_released d"
  shows "\<exists>r. request = Some r \<and> release r s d t"
  by (rule released_follows [OF assms])

definition ex_request :: adict where
  "ex_request = [(''operation_id'', AJson (JStr (replicate 32 (CHR ''a'')))), (''method'', AJson (JStr ''POST'')),
     (''path'', AJson (JStr ''/api/records/v1/main_ops'')), (''body'', ABytes ''{}''), (''headers'', AJson (JObj [])),
     (''epoch'', AJson (JStr ''d1-a'')), (''writer_boot'', AJson (JStr ''00000000-0000-0000-0000-000000000000''))]"

definition ex_answers :: "(string \<times> adict) list \<Rightarrow> string \<times> adict \<Rightarrow> adict option res" where
  "ex_answers calls q = Inr (Some (if fst q = ''forward''
     then [(''status'', AJson (JInt 200)), (''response_body'', ABytes ''ok''), (''mutation'', AJson (JStr ''completed''))]
     else snd q @ [(''txid'', AJson (JInt 5)), (''replica_txid'', AJson (JInt 5)),
       (''image_verified'', AJson (JBool True)), (''evidence_id'', AJson (JStr ''e1''))]))"

definition ex_file :: "nat \<Rightarrow> file_stat" where
  "ex_file n = \<lparr>f_kind = Regular, f_uid = 0, f_mode = 384, f_nlink = 1, f_id = (0, n), f_bytes = ''SQLite''\<rparr>"

definition ex_owner :: admission where
  "ex_owner = ex_admission\<lparr>ad_reply := ex_answers\<rparr>"

definition ex_table :: database where
  "ex_table = blank\<lparr>adb_tables := [''operations''], adb_columns := COLUMNS\<rparr>"

definition ex_opened :: admission where
  "ex_opened = ex_owner\<lparr>ad_db := Some (0, 9), ad_lock := Some (0, 8), ad_root_id := (0, 7), ad_db_id := (0, 9),
     ad_data := (\<lambda>_. blank)((0, 9) := ex_table), ad_fresh := 10,
     ad_files := (ad_files ex_admission)(''/j/lock'' \<mapsto> (ex_file 8)\<lparr>f_bytes := []\<rparr>, ''/j/journal.db'' \<mapsto> ex_file 9)\<rparr>"

lemma ex_texts: "hex32 (replicate 32 (CHR ''a''))" "epoch_124 ''d1-a''"
    "boot_pattern ''00000000-0000-0000-0000-000000000000''"
    "(''POST'', ''/api/records/v1/main_ops'') \<in> fst ` set SURFACES"
  by (simp_all add: hex_n_def list_all_iff is_hexlow_def is_lower_def is_digit_def less_eq_char_def epoch_124_def prefixed_def
      epoch_char_def boot_pattern_def SURFACES_def)

lemma ex_request_valid: "request_valid (Some ex_request)"
  using ex_texts by (simp add: request_valid_def ex_request_def text_at_def bytes_at_def headers_valid_def headers_of_def MAX_REQUEST_def)

text \<open>The owner between its calls, its journal open or closed.\<close>

definition settled :: "admission \<Rightarrow> bool" where
  "settled s \<longleftrightarrow> ad_root s = ''/j'' \<and> ad_files s = ad_files ex_opened \<and> ad_euid s = 0 \<and> ad_fault s = (\<lambda>_. None)
     \<and> \<not> ad_busy s \<and> ad_disturb s = (\<lambda>_ _ f. f) \<and> ad_reply s = ex_answers
     \<and> (\<exists>rows. ad_data s (0, 9) = ex_table\<lparr>adb_rows := rows\<rparr>)"

definition at_rest :: "admission \<Rightarrow> bool" where
  "at_rest s \<longleftrightarrow> settled s \<and> ad_lock s = Some (0, 8) \<and> ad_db s = Some (0, 9) \<and> ad_root_id s = (0, 7) \<and> ad_db_id s = (0, 9)"

lemma at_rest_simps [simp]:
  "at_rest (s\<lparr>ad_commits := n\<rparr>) = at_rest s" "at_rest s \<Longrightarrow> at_rest (put_rows rows s)"
  "at_rest s \<Longrightarrow> at_rest (called name arg s)" "at_rest s \<Longrightarrow> ad_rows (put_rows rows s) = rows"
  by (auto simp: at_rest_def settled_def called_def put_rows_def ad_rows_def)

lemma run_authority: "at_rest s \<Longrightarrow> a_check_authority s = (Inr (), s)"
  by (simp add: at_rest_def settled_def a_check_authority_def a_lstat_def a_private_def a_journal_def a_under_def path_join_def
      ex_opened_def ex_owner_def ex_admission_def ex_file_def)

lemma run_commit: "at_rest s \<Longrightarrow> a_commit rows s = (Inr (), put_rows rows (s\<lparr>ad_commits := Suc (ad_commits s)\<rparr>))"
  by (simp add: a_commit_def at_rest_def settled_def Let_def)

lemma run_begin: "at_rest s \<Longrightarrow> ad_rows s = [] \<Longrightarrow>
    a_begin row s = (Inr (ar_operation row), put_rows [row] (s\<lparr>ad_commits := Suc (ad_commits s)\<rparr>))"
  by (simp add: a_begin_def seqP_def bindP_def run_authority raise_when_def gets_def run_commit ret_def)

lemma run_refused: "at_rest s \<Longrightarrow> ar_operation row \<in> ar_operation ` set (ad_rows s) \<Longrightarrow> a_begin row s = (Inl RuntimeError, s)"
  by (simp add: a_begin_def seqP_def bindP_def run_authority raise_when_def raise_if_def)

lemma run_update: "at_rest s \<Longrightarrow> ad_rows s = [r] \<Longrightarrow> ar_operation r = op \<Longrightarrow> ar_status r = old \<Longrightarrow> new \<in> set statuses \<Longrightarrow>
    \<not> too_big tx \<Longrightarrow> a_update op old new up updigest ev tx s
      = (Inr (), put_rows [moved new up updigest ev tx r] (s\<lparr>ad_commits := Suc (ad_commits s)\<rparr>))"
  by (simp add: a_update_def seqP_def bindP_def run_authority raise_when_def gets_def run_commit Let_def)

lemma run_call: "at_rest s \<Longrightarrow> a_call name arg s = (ex_answers (ad_trace s) (name, arg), called name arg s)"
  by (simp add: a_call_def at_rest_def settled_def called_def)

lemma run_or_return: "m s = (Inr x, u) \<Longrightarrow> or_return m d k s = k x u"
  by (simp add: or_return_def on_exception_def on_exn_def bindP_def ret_def)

lemma run_forward: "at_rest s \<Longrightarrow> bindP (a_call ''forward'' r) (\<lambda>v. lift (check_outcome v)) s = (Inr
    [(''status'', AJson (JInt 200)), (''response_body'', ABytes ''ok''), (''mutation'', AJson (JStr ''completed''))], called ''forward'' r s)"
  by (simp add: bindP_def run_call ex_answers_def lift_def check_outcome_def outcome_valid_def number_at_def bytes_at_def
      text_at_def MAX_REQUEST_def)

lemma run_prove: "at_rest s \<Longrightarrow> b = binding_of r digest database \<Longrightarrow>
    bindP (a_call ''prove'' b) (\<lambda>v. lift (check_proof v b)) s = (Inr (b @ [(''txid'', AJson (JInt 5)),
      (''replica_txid'', AJson (JInt 5)), (''image_verified'', AJson (JBool True)), (''evidence_id'', AJson (JStr ''e1''))]), called ''prove'' b s)"
  by (simp add: bindP_def run_call ex_answers_def lift_def check_proof_def proof_valid_def number_at_def number_of_def
      text_at_def text_of_def binding_of_def bound_keys_def evidence_pattern_def is_alnum_def is_lower_def is_digit_def less_eq_char_def) auto

lemma ex_at_rest: "at_rest ex_opened" "ad_rows ex_opened = []" "ad_trace ex_opened = []"
  by (auto simp: at_rest_def settled_def ad_rows_def ex_opened_def ex_owner_def ex_table_def ex_admission_def blank_def)

lemma ex_check: "check_request (Some ex_request) = Inr (ex_request, sha256_hex (digest_input ex_request), ''main'')"
proof -
  have "map_of SURFACES (text_of ex_request ''method'', text_of ex_request ''path'') = Some ''main''"
    by (simp add: text_of_def ex_request_def SURFACES_def)
  then show ?thesis using ex_request_valid by (simp add: check_request_def Let_def)
qed

lemma ex_run: "\<exists>d t row. admit (Some ex_request) ex_opened = (Inr d, t) \<and> d_released d \<and> at_rest t \<and> ad_rows t = [row]
    \<and> ar_operation row = text_of ex_request ''operation_id'' \<and> forwarded t = [ar_operation row]"
  by (simp add: admit_def bindP_def [of "lift _"] lift_def ex_check run_begin ex_at_rest bindP_def [of "a_begin _"]
      run_or_return run_forward Let_def seqP_def bindP_def [of "a_update _ _ _ _ _ _ _"] run_update run_prove intent_row_def moved_def
      statuses_def too_big_def number_of_def text_of_def binding_of_def ret_def forwarded_def)

lemma ex_released: "\<exists>d t. admit (Some ex_request) ex_opened = (Inr d, t) \<and> d_released d"
  using ex_run by blast

theorem release_is_proved_witness:
  "\<exists>d t. admit (Some ex_request) ex_opened = (Inr d, t) \<and> release ex_request ex_opened d t"
proof -
  obtain d t where run: "admit (Some ex_request) ex_opened = (Inr d, t)" "d_released d" using ex_released by blast
  from release_is_proved [OF this] run(1) show ?thesis by auto
qed

text \<open>An owner that opens its journal, admits a request, closes, opens the journal again and is asked for the same request.\<close>

lemmas opening_eval = a_enter_def a_open_body_def on_exn_def prog_defs root_invalid_def a_lstat_def a_take_lock_def
  a_under_def a_journal_def a_private_def path_join_def a_create_def a_connect_def a_table_def check_existing_def
  journal_files_unsafe_def raise_if_def Let_def parents_def beginnings.simps mapR_def bindR_def

lemma run_open: "snd (a_enter ex_owner) = ex_opened"
  by (simp add: opening_eval ex_opened_def ex_owner_def ex_admission_def ex_file_def ex_table_def blank_def fun_eq_iff)

lemma run_reopen: "at_rest s \<Longrightarrow> snd (a_enter (snd (a_close s))) = s"
  by (clarsimp simp: at_rest_def settled_def opening_eval a_close_def ex_opened_def ex_owner_def ex_admission_def ex_file_def ex_table_def blank_def)

definition ex_owner_run :: "owner list" where
  "ex_owner_run = [Open, Admit (Some ex_request), Close, Open, Admit (Some ex_request)]"

lemma ex_run_all: "\<exists>row. forwarded (fold owner_act ex_owner_run ex_owner) = [ar_operation row]
    \<and> ad_rows (fold owner_act ex_owner_run ex_owner) = [row]"
proof -
  from ex_run obtain t row where t: "snd (admit (Some ex_request) ex_opened) = t" "at_rest t" "ad_rows t = [row]"
    "ar_operation row = text_of ex_request ''operation_id''" "forwarded t = [ar_operation row]" by auto
  have "snd (admit (Some ex_request) t) = t"
    by (simp add: admit_def bindP_def lift_def ex_check run_refused t intent_row_def)
  with t show ?thesis by (simp add: ex_owner_run_def run_open run_reopen)
qed

theorem forwarded_at_most_once_witness:
  "length (forwarded (fold owner_act ex_owner_run ex_owner)) = 1
     \<and> set (forwarded (fold owner_act ex_owner_run ex_owner)) \<subseteq> set (recorded (fold owner_act ex_owner_run ex_owner))"
proof -
  have "\<forall>f. Others f \<in> set ex_owner_run \<longrightarrow> (\<forall>m. f m (a_journal ex_owner) = m (a_journal ex_owner))"
    by (simp add: ex_owner_run_def)
  moreover have "ad_trace ex_owner = []" "in_place ex_owner"
    by (simp_all add: ex_owner_def ex_admission_def in_place_def a_journal_def a_under_def path_join_def)
  ultimately have "set (forwarded (fold owner_act ex_owner_run ex_owner)) \<subseteq> set (recorded (fold owner_act ex_owner_run ex_owner))"
    using forwarded_at_most_once by blast
  then show ?thesis using ex_run_all by auto
qed

theorem rows_well_typed_witness:
  "\<exists>row. ad_rows (fold owner_act ex_owner_run ex_owner) = [row] \<and> row_shape row"
proof -
  have "shaped ex_owner" by (simp add: shaped_def ex_owner_def ex_admission_def blank_def)
  from rows_well_typed [OF this, of ex_owner_run] show ?thesis
    using ex_run_all shaped_rows by (metis list.set_intros(1))
qed

end
