(* ===== verification/Command.thy ===== *)
theory Command
  imports Inputs Gate
begin

text \<open>
  \<open>hat/control.py\<close>, class \<open>ControlIO\<close>, the controller's commands: every effect on another machine goes through
  \<open>command\<close>, which makes its intent durable, runs the process, records the outcome, and says of a process
  that had to be stopped whether its end is proved. The controller's world is a host with its journal, whose
  files may be replaced between any two calls (\<open>found\<close>). The crash seams are calls like any other: what
  they raise is an answer.
\<close>

section \<open>State\<close>

record controller = host +
  jrn :: journal
  found :: "(string \<times> json) list \<Rightarrow> string \<Rightarrow> file_stat option"
  area :: string
  running_op :: operation
  settings :: json
  known :: json
  marker :: string

definition held_authority :: "('w controller_scheme, unit) prog" where
  "held_authority s = (fst (check_authority ((jrn s)\<lparr>files := found s (trace s)\<rparr>)), s)"

definition does :: "string \<Rightarrow> json \<Rightarrow> ('w host_scheme, unit) prog" where
  "does name x = bindP (hcall name x) (\<lambda>_. ret ())"

section \<open>Durable files\<close>

definition fsync_at :: "string \<Rightarrow> string \<Rightarrow> ('w host_scheme, unit) prog" where
  "fsync_at lab path =
     seqP (does ''before_fsync'' (JArr [JStr lab, JStr path]))
     (seqP (does ''fsync'' (JStr path)) (does ''after_fsync'' (JArr [JStr lab, JStr path])))"

definition fsync_dir :: "string \<Rightarrow> string \<Rightarrow> ('w host_scheme, unit) prog" where
  "fsync_dir lab dir =
     seqP (raise_when (\<lambda>s. Inr (\<not> h_exists dir s)) FileNotFoundError)
     (seqP (raise_when (\<lambda>s. Inr (\<not> h_is_dir dir s)) OSError) (fsync_at lab dir))"

definition set_bytes :: "string \<Rightarrow> string \<Rightarrow> ('w host_scheme, unit) prog" where
  "set_bytes path raw = modify (\<lambda>s. s\<lparr>fs := alter path (\<lambda>n. n\<lparr>h_bytes := raw\<rparr>) (fs s)\<rparr>)"

definition durable_json :: "string \<Rightarrow> json \<Rightarrow> string \<Rightarrow> ('w controller_scheme, unit) prog" where
  "durable_json path v lab =
     seqP (create_new RegularNode path 384 [])
     (bindP (lift (dumps_compact v)) (\<lambda>raw.
     seqP (set_bytes path raw)
     (seqP (fsync_at (lab @ ''.file'') path)
     (bindP (gets area) (\<lambda>dir. fsync_dir (lab @ ''.dir'') dir)))))"

text \<open>\<open>os.write\<close> takes part of what is left; nothing taken is an error. \<open>done\<close> is what the file has.\<close>

function write_rest :: "string \<Rightarrow> string \<Rightarrow> string \<Rightarrow> ('w host_scheme, unit) prog" where
  "write_rest path written view = (if view = [] then ret () else
     bindP (hcall ''write'' (JInt (int (length view)))) (\<lambda>v.
       let n = min (nat (int_val v)) (length view) in
       if n = 0 then raiseP OSError
       else seqP (set_bytes path (written @ take n view)) (write_rest path (written @ take n view) (drop n view))))"
  by pat_completeness auto

termination write_rest
  by (relation "measure (\<lambda>(path, written, view). length view)") auto

definition change :: "string \<Rightarrow> (hnode \<Rightarrow> hnode) \<Rightarrow> ('w host_scheme, unit) prog" where
  "change path g = modify (\<lambda>s. s\<lparr>fs := alter path g (fs s)\<rparr>)"

definition parent_dir :: "string \<Rightarrow> string" where
  "parent_dir p = (if parents p = [] then ''.'' else last (parents p))"

definition durable_bytes ::
  "string \<Rightarrow> string \<Rightarrow> string \<Rightarrow> nat \<Rightarrow> nat option \<Rightarrow> nat option \<Rightarrow> ('w controller_scheme, unit) prog" where
  "durable_bytes path raw lab mode uid gid =
     seqP (create_new RegularNode path mode [])
     (seqP (write_rest path [] raw)
     (seqP (if mode \<noteq> 384 then change path (\<lambda>n. n\<lparr>h_mode := mode\<rparr>) else ret ())
     (seqP (change path (\<lambda>n. n\<lparr>h_uid := case uid of None \<Rightarrow> h_uid n | Some u \<Rightarrow> u,
          h_gid := case gid of None \<Rightarrow> h_gid n | Some g \<Rightarrow> g\<rparr>))
     (seqP (fsync_at (lab @ ''.file'') path) (fsync_dir (lab @ ''.dir'') (parent_dir path))))))"

text \<open>\<open>_reopen_exact_bytes\<close>: the file, opened again without following a link, is exactly what was written.\<close>

definition reopen_differs :: "string \<Rightarrow> nat option \<Rightarrow> nat option \<Rightarrow> nat option \<Rightarrow> hnode \<Rightarrow> bool" where
  "reopen_differs expected mode uid gid n \<longleftrightarrow> h_kind n \<noteq> RegularNode \<or> h_nlink n \<noteq> 1
     \<or> (mode \<noteq> None \<and> h_mode n mod 4096 \<noteq> the mode) \<or> (uid \<noteq> None \<and> h_uid n \<noteq> the uid)
     \<or> (gid \<noteq> None \<and> h_gid n \<noteq> the gid) \<or> h_bytes n \<noteq> expected"

definition reopen_exact_bytes ::
  "string \<Rightarrow> string \<Rightarrow> nat option \<Rightarrow> nat option \<Rightarrow> nat option \<Rightarrow> ('w host_scheme, unit) prog" where
  "reopen_exact_bytes path expected mode uid gid =
     bindP (\<lambda>s. (h_lstat path s, s)) (\<lambda>n.
     if h_kind n = SymlinkNode then raiseP OSError
     else if reopen_differs expected mode uid gid n then raiseP ValueError else ret ())"

section \<open>Stopping a process\<close>

text \<open>\<open>type(exc).__name__\<close>.\<close>

fun exn_name :: "exn \<Rightarrow> string" where
  "exn_name ValueError = ''ValueError''"
| "exn_name JSONDecodeError = ''JSONDecodeError''"
| "exn_name UnicodeError = ''UnicodeError''"
| "exn_name UnicodeDecodeError = ''UnicodeDecodeError''"
| "exn_name RuntimeError = ''RuntimeError''"
| "exn_name RecursionError = ''RecursionError''"
| "exn_name KeyError = ''KeyError''"
| "exn_name IndexError = ''IndexError''"
| "exn_name TypeError = ''TypeError''"
| "exn_name AttributeError = ''AttributeError''"
| "exn_name OverflowError = ''OverflowError''"
| "exn_name StopIteration = ''StopIteration''"
| "exn_name OSError = ''OSError''"
| "exn_name FileNotFoundError = ''FileNotFoundError''"
| "exn_name FileExistsError = ''FileExistsError''"
| "exn_name ConnectionRefusedError = ''ConnectionRefusedError''"
| "exn_name TimeoutError = ''TimeoutError''"
| "exn_name URLError = ''URLError''"
| "exn_name SqliteError = ''OperationalError''"
| "exn_name IntegrityError = ''IntegrityError''"
| "exn_name TimeoutExpired = ''TimeoutExpired''"
| "exn_name CommandCleanupUncertain = ''CommandCleanupUncertain''"
| "exn_name SystemExit = ''SystemExit''"
| "exn_name KeyboardInterrupt = ''KeyboardInterrupt''"

definition bounded_error_type :: "exn \<Rightarrow> string" where
  "bounded_error_type e = (let v = exn_name e in if error_name v \<and> length v \<le> 64 then v else ''Error'')"

text \<open>\<open>_systemd_unit\<close>: the one well-formed \<open>--unit\<close> of a \<open>systemd-run\<close>.\<close>

definition unit_char :: "char \<Rightarrow> bool" where
  "unit_char c \<longleftrightarrow> is_alnum c \<or> c \<in> set ''_.:@-''"

definition unit_name :: "string \<Rightarrow> bool" where
  "unit_name u \<longleftrightarrow> (case u of [] \<Rightarrow> False | c # cs \<Rightarrow> is_alnum c \<and> list_all unit_char cs \<and> length cs \<le> 254)"

definition systemd_unit :: "string list \<Rightarrow> string option" where
  "systemd_unit argv = (case argv of [] \<Rightarrow> None | a # as \<Rightarrow>
     if a \<noteq> ''systemd-run'' then None
     else (case concat (map (\<lambda>x. case strip_prefix ''--unit='' x of Some u \<Rightarrow> [u] | None \<Rightarrow> []) argv) of
        [u] \<Rightarrow> if unit_name u then Some u else None
      | _ \<Rightarrow> None))"

definition cleanup_status :: "string \<Rightarrow> (string \<times> string) list \<Rightarrow> json" where
  "cleanup_status scope kvs =
     JObj ((''scope'', JStr scope) # map (\<lambda>(k, v). (k, JStr (take 32 v))) kvs)"

definition stop_command :: "('w host_scheme, unit) prog" where
  "stop_command = bindP (hcall ''poll'' JNull) (\<lambda>p.
     seqP (if p = JNull then does ''kill'' JNull else ret ()) (does ''wait'' (JInt 15)))"

text \<open>\<open>except BaseException\<close> around a result that is then the exception's name.\<close>

definition named :: "('s, string) prog \<Rightarrow> ('s, string) prog" where
  "named m = on_exn m (\<lambda>e. ret (bounded_error_type e))"

text \<open>\<open>decode('ascii', 'replace')\<close>: the replacement character is neither a line break nor \<open>=\<close>.\<close>

definition ascii_replace :: "string \<Rightarrow> string" where
  "ascii_replace s = map (\<lambda>c. if (of_char c :: nat) < 128 then c else CHR 0xFF) s"

definition unit_fields :: "string \<Rightarrow> string \<Rightarrow> string option" where
  "unit_fields raw = map_of (rev (List.map_filter (cut_at ''='') (splitlines raw)))"

definition unit_state :: "(string \<Rightarrow> string option) \<Rightarrow> string" where
  "unit_state f = (if f ''LoadState'' = Some ''loaded'' \<and> f ''ActiveState'' = Some ''inactive''
        \<and> f ''SubState'' = Some ''dead'' \<and> f ''MainPID'' = Some ''0'' then ''inactive-dead-mainpid0''
     else if f ''LoadState'' = Some ''not-found'' \<and> f ''MainPID'' = Some ''0'' then ''not-found-mainpid0''
     else ''not-proven'')"

definition proven_states :: "string set" where
  "proven_states = {''inactive-dead-mainpid0'', ''not-found-mainpid0''}"

definition stop_systemd_unit :: "string \<Rightarrow> ('w host_scheme, json \<times> bool) prog" where
  "stop_systemd_unit u =
     bindP (named (bindP (command [''systemctl'', ''stop'', ''--wait'', u])
         (\<lambda>p. ret (if code_of p = 0 then ''ok'' else ''failed'')))) (\<lambda>stop.
     bindP (named (bindP (command [''systemctl'', ''show'', ''--property=LoadState'', ''--property=ActiveState'',
           ''--property=SubState'', ''--property=MainPID'', u])
         (\<lambda>p. ret (if code_of p \<noteq> 0 then ''failed'' else unit_state (unit_fields (ascii_replace (take 65536 (out_of p)))))))) (\<lambda>verify.
     ret (JObj [(''scope'', JStr ''systemd-unit''), (''stop'', JStr stop), (''verify'', JStr verify)],
       stop = ''ok'' \<and> verify \<in> proven_states)))"

definition timeout_cleanup :: "string list \<Rightarrow> ('w host_scheme, json \<times> bool) prog" where
  "timeout_cleanup argv = (case systemd_unit argv of Some u \<Rightarrow> stop_systemd_unit u
     | None \<Rightarrow> bindP (named (seqP stop_command (ret ''terminated''))) (\<lambda>client.
         ret (cleanup_status ''client-process-only'' [(''client'', client), (''descendants'', ''unverified'')], False)))"

section \<open>Recording\<close>

definition items_in :: "json \<Rightarrow> (string \<times> json) list" where
  "items_in v = (case v of JObj kvs \<Rightarrow> kvs | _ \<Rightarrow> [])"

definition record_cleanup_uncertain :: "string \<Rightarrow> json \<Rightarrow> ('w controller_scheme, unit) prog" where
  "record_cleanup_uncertain path st = on_exn
     (durable_json path (JObj ([(''schema'', JStr ''command-cleanup-uncertain-1''),
        (''cleanup_uncertain'', JBool True)] @ items_in st)) ''command-cleanup-uncertain'')
     (\<lambda>_. ret ())"

definition outcome_value :: "string list \<Rightarrow> int option \<Rightarrow> bool \<Rightarrow> exn option \<Rightarrow> (json \<times> bool) option \<Rightarrow> json" where
  "outcome_value argv code uncertain error cleanup = JObj
     ([(''argv'', JArr (map JStr argv)),
       (''returncode'', case code of None \<Rightarrow> JNull | Some n \<Rightarrow> JInt n), (''uncertain'', JBool uncertain)]
      @ (case error of None \<Rightarrow> [] | Some e \<Rightarrow> [(''error_type'', JStr (bounded_error_type e))])
      @ (case cleanup of None \<Rightarrow> [] | Some (st, proven) \<Rightarrow>
           (''cleanup'', st) # (if proven then [] else [(''cleanup_uncertain'', JBool True)])))"

definition record_command_outcome :: "string \<Rightarrow> json \<Rightarrow> bool \<Rightarrow> ('w controller_scheme, unit) prog" where
  "record_command_outcome path v preserve_failure = on_exn
     (seqP held_authority (durable_json path v ''command-outcome''))
     (\<lambda>e. if preserve_failure then ret () else raiseP e)"

section \<open>A command\<close>

definition outcome_path :: "string \<Rightarrow> string" where
  "outcome_path prefix = prefix @ ''.outcome.json''"

text \<open>The process could not be started: nothing is uncertain.\<close>

definition spawn :: "string \<Rightarrow> string list \<Rightarrow> ('w controller_scheme, unit) prog" where
  "spawn prefix argv = on_exn (does ''spawn'' (JArr (map JStr argv))) (\<lambda>e.
     seqP (record_command_outcome (outcome_path prefix) (outcome_value argv None False (Some e) None) True) (raiseP e))"

definition started :: "string \<Rightarrow> string list \<Rightarrow> ('w controller_scheme, unit) prog" where
  "started prefix argv = on_exn (does ''after_command_start'' JNull) (\<lambda>e.
     seqP (on_exn stop_command (\<lambda>_. ret ()))
     (seqP (record_command_outcome (outcome_path prefix) (outcome_value argv None True (Some e) None) True) (raiseP e)))"

text \<open>The communication failed: the process is stopped, and unless its end is proved the failure becomes
  \<open>CommandCleanupUncertain\<close>.\<close>

definition communication_failed :: "string \<Rightarrow> string list \<Rightarrow> exn \<Rightarrow> ('w controller_scheme, json) prog" where
  "communication_failed prefix argv e =
     bindP (timeout_cleanup argv) (\<lambda>(cleanup, proven).
     seqP (if proven then ret () else record_cleanup_uncertain (prefix @ ''.cleanup-uncertain.json'') cleanup)
     (seqP (record_command_outcome (outcome_path prefix)
        (outcome_value argv None True (Some e) (Some (cleanup, proven))) True)
     (raiseP (if proven then e else CommandCleanupUncertain))))"

definition communicate :: "string \<Rightarrow> string list \<Rightarrow> json \<Rightarrow> int \<Rightarrow> ('w controller_scheme, json) prog" where
  "communicate prefix argv input seconds = on_exn (hcall ''communicate'' (JArr [input, JInt seconds])) (\<lambda>e.
     seqP (if isa e TimeoutExpired then on_exn (does ''before_command_timeout'' JNull) (\<lambda>_. ret ()) else ret ())
     (communication_failed prefix argv e))"

definition last_stop :: "('w host_scheme, unit) prog" where
  "last_stop = bindP (hcall ''poll'' JNull) (\<lambda>p. if p = JNull then on_exn stop_command (\<lambda>_. ret ()) else ret ())"

definition run_process :: "string \<Rightarrow> string list \<Rightarrow> json \<Rightarrow> int \<Rightarrow> ('w controller_scheme, int) prog" where
  "run_process prefix argv input seconds =
     seqP (create_new RegularNode (prefix @ ''.stdout'') 384 [])
     (seqP (create_new RegularNode (prefix @ ''.stderr'') 384 [])
     (seqP (spawn prefix argv)
     (bindP (ensuring (seqP (started prefix argv) (communicate prefix argv input seconds)) last_stop)
       (\<lambda>code. ret (int_val code)))))"

definition result_of :: "string \<Rightarrow> ('w host_scheme, string) prog" where
  "result_of path = bindP (\<lambda>s. (h_read path s, s)) (\<lambda>raw.
     if 4 * 1024 * 1024 < length raw then raiseP RuntimeError else ret raw)"

definition intent_value :: "string list \<Rightarrow> json" where
  "intent_value argv = JObj [(''argv'', JArr (map JStr argv))]"

definition control_command :: "string list \<Rightarrow> json \<Rightarrow> int \<Rightarrow> ('w controller_scheme, string) prog" where
  "control_command argv input seconds =
     seqP held_authority
     (bindP (hcall ''time_ns'' JNull) (\<lambda>ns.
     bindP (gets (\<lambda>s. path_join (area s) (show_int (int_val ns)))) (\<lambda>prefix.
     seqP (durable_json (prefix @ ''.intent.json'') (intent_value argv) ''command-intent'')
     (seqP (does ''before_command_spawn'' (JArr (map JStr argv)))
     (bindP (run_process prefix argv input seconds) (\<lambda>code.
     seqP (record_command_outcome (outcome_path prefix) (outcome_value argv (Some code) False None None) (code \<noteq> 0))
     (if code \<noteq> 0 then raiseP RuntimeError else result_of (prefix @ ''.stdout''))))))))"

end
