(* ===== verification/Observe.thy ===== *)
theory Observe
  imports Ledger
begin

text \<open>
  \<open>hat/observe.py\<close>: an inventory of captured evidence. It reports what a capture declares and never authorises
  an action.
\<close>

definition MAX_CAPTURE :: nat where "MAX_CAPTURE = 1024 * 1024"

definition CATEGORIES :: "string list" where
  "CATEGORIES = [''authority'', ''acknowledged_data'', ''auth_state'', ''restore_image'', ''fencing'',
     ''node_admission'', ''ingress'', ''controller_prerequisites'']"

text \<open>\<open>json.loads\<close> with the three hooks: no key twice, no constant and no float that is not finite.\<close>

definition capture_json :: "string \<Rightarrow> json res" where
  "capture_json raw = bindR (ascii_text raw) (\<lambda>t. bindR (loads_unique t) (\<lambda>v.
     refuse_if [Inr (\<not> finite_floats v)] (Inr v)))"

definition report :: "(string \<times> json) list \<Rightarrow> json list \<Rightarrow> json" where
  "report states reasons = JObj [(''mode'', JStr ''observation_only''), (''decision'', JStr ''refuse''),
     (''promotion_authorized'', JBool False), (''action_capabilities'', JArr []),
     (''evidence_statuses'', JObj states), (''reasons'', JArr reasons)]"

definition observe_entry :: "json \<Rightarrow> string \<Rightarrow> (string \<times> json) res" where
  "observe_entry evidence category =
     bindR (get_or evidence category (JObj [(''state'', JStr ''missing'')])) (\<lambda>entry.
     refuse_if [Inr (\<not> is_obj entry), notR (set_within entry [''state'', ''capture'']),
         got entry ''state'' (\<lambda>x. Inr (\<not> in_tuple x [''missing'', ''uncertain'', ''reported'']))]
     (itm entry ''state'' (\<lambda>state. bindR (contains entry ''capture'') (\<lambda>there.
      bindR (if there then itm entry ''capture'' (\<lambda>c.
               refuse_if [Inr (state = JStr ''missing'' \<or> \<not> (is_obj c \<or> is_arr c) \<or> \<not> truthy c)] (Inr ()))
             else refuse_if [Inr (state = JStr ''reported'')] (Inr ())) (\<lambda>_.
      Inr (category, if state = JStr ''reported'' then JStr ''reported_unverified'' else state))))))"

definition envelope_invalid :: "json \<Rightarrow> bool res" where
  "envelope_invalid capture = any_of
     [Inr (\<not> is_obj capture), notR (set_is capture [''version'', ''evidence'']),
      itm capture ''version'' (\<lambda>x. Inr (\<not> int_and x (\<lambda>n. n = 1))), itm capture ''evidence'' (\<lambda>x. Inr (\<not> is_obj x)),
      itm capture ''evidence'' (\<lambda>x. notR (set_within x CATEGORIES))]"

definition inventory :: "json \<Rightarrow> json res" where
  "inventory capture =
     refuse_if [envelope_invalid capture]
     (itm capture ''evidence'' (\<lambda>evidence. bindR (traverse (observe_entry evidence) CATEGORIES) (\<lambda>states.
      Inr (report states (JStr ''automatic_actions_disabled'' # map (\<lambda>(c, s). JStr (str_val s @ '':'' @ c)) states)))))"

text \<open>The program: the number of its arguments, its input, what it prints and its exit status.\<close>

definition observe_main :: "nat \<Rightarrow> string \<Rightarrow> (string \<times> nat) res" where
  "observe_main arguments raw =
     bindR (default_on [ValueError, RecursionError] (report [] [JStr ''invalid_capture''], 2)
       (refuse_if [Inr (arguments \<noteq> 1)] (refuse_if [Inr (MAX_CAPTURE < length raw)]
        (bindR (capture_json raw) (\<lambda>capture. bindR (inventory capture) (\<lambda>r. Inr (r, 0)))))))
     (\<lambda>(r, status). mapR (\<lambda>t. (t, status)) (dumps_compact r))"

section \<open>What it promises\<close>

definition refusing :: "json \<Rightarrow> bool" where
  "refusing r \<longleftrightarrow> (\<exists>states reasons. r = report states reasons)"

lemma entry_state:
  assumes "observe_entry evidence category = Inr (c, v)"
  shows "c = category \<and> (\<exists>t \<in> {''missing'', ''uncertain'', ''reported_unverified''}. v = JStr t)"
proof -
  from assms obtain entry where entry: "get_or evidence category (JObj [(''state'', JStr ''missing'')]) = Inr entry"
    and "refuse_if [Inr (\<not> is_obj entry), notR (set_within entry [''state'', ''capture'']),
         got entry ''state'' (\<lambda>x. Inr (\<not> in_tuple x [''missing'', ''uncertain'', ''reported'']))]
     (itm entry ''state'' (\<lambda>state. bindR (contains entry ''capture'') (\<lambda>there.
      bindR (if there then itm entry ''capture'' (\<lambda>c.
               refuse_if [Inr (state = JStr ''missing'' \<or> \<not> (is_obj c \<or> is_arr c) \<or> \<not> truthy c)] (Inr ()))
             else refuse_if [Inr (state = JStr ''reported'')] (Inr ())) (\<lambda>_.
      Inr (category, if state = JStr ''reported'' then JStr ''reported_unverified'' else state))))) = Inr (c, v)"
    unfolding observe_entry_def by (auto simp: bindR_eq_Inr)
  then show ?thesis by (auto simp: res_simps in_tuple_def split: option.splits)
qed

lemma entry_error:
  assumes "observe_entry (JObj kvs) category = Inl e"
  shows "e = ValueError"
proof -
  obtain entry where entry: "get_or (JObj kvs) category (JObj [(''state'', JStr ''missing'')]) = Inr entry" by simp
  then show ?thesis
    using assms unfolding observe_entry_def
    by (cases entry) (auto simp: raise_if_def any_of.simps notR_def contains_def in_tuple_def
        split: sum.splits if_splits option.splits dest: weak_map_of_SomeI)
qed

lemma envelope_total: "\<exists>b. envelope_invalid capture = Inr b"
proof (cases capture)
  case (JObj kvs)
  show ?thesis
  proof (cases "fst ` set kvs = {''version'', ''evidence''}")
    case True
    obtain v ev where v: "map_of kvs ''version'' = Some v" and ev: "map_of kvs ''evidence'' = Some ev"
      using True map_of_fst_Some [of "''version''" kvs] map_of_fst_Some [of "''evidence''" kvs] by auto
    show ?thesis
      by (cases ev) (auto simp: envelope_invalid_def JObj True v ev any_of.simps)
  qed (auto simp: envelope_invalid_def JObj)
qed (auto simp: envelope_invalid_def)

lemma traverse_error: "traverse f xs = Inl e \<Longrightarrow> \<exists>x \<in> set xs. f x = Inl e"
  by (induction xs) (auto split: sum.splits)

lemma inventory_error:
  assumes "inventory capture = Inl e"
  shows "e = ValueError"
proof (rule ccontr)
  assume e: "e \<noteq> ValueError"
  obtain b where "envelope_invalid capture = Inr b" using envelope_total by blast
  with assms e have ok: "envelope_invalid capture = Inr False"
    by (cases b) (auto simp: inventory_def any_of.simps)
  then obtain kvs where c: "is_obj capture" "getitem capture ''evidence'' = Inr (JObj kvs)"
    by (auto simp: envelope_invalid_def res_simps is_obj_iff)
  with assms ok e have "traverse (observe_entry (JObj kvs)) CATEGORIES = Inl e"
    by (auto simp: inventory_def any_of.simps bindR_def split: sum.splits)
  then show False using traverse_error entry_error e by blast
qed

lemma finite_report: "(\<And>k v. (k, v) \<in> set states \<Longrightarrow> is_str v) \<Longrightarrow> (\<And>r. r \<in> set reasons \<Longrightarrow> is_str r) \<Longrightarrow> finite_floats (report states reasons)"
proof -
  assume s: "\<And>k v. (k, v) \<in> set states \<Longrightarrow> is_str v" and r: "\<And>r. r \<in> set reasons \<Longrightarrow> is_str r"
  have "finite_floats_items states" using s
  proof (induction states)
    case (Cons e states)
    then show ?case by (cases e) (force simp: is_str_iff)
  qed simp
  moreover have "finite_floats_list reasons" using r
    by (induction reasons) (force simp: is_str_iff)+
  ultimately show ?thesis by (simp add: report_def)
qed

lemma inventory_states:
  assumes "inventory capture = Inr r"
  shows "\<exists>states reasons. r = report states reasons \<and> finite_floats r \<and> map fst states = CATEGORIES"
proof -
  from assms obtain evidence states where st: "traverse (observe_entry evidence) CATEGORIES = Inr states"
    and r: "r = report states (JStr ''automatic_actions_disabled'' # map (\<lambda>(c, s). JStr (str_val s @ '':'' @ c)) states)"
    by (auto simp: inventory_def res_simps)
  have "list_all2 (\<lambda>c e. observe_entry evidence c = Inr e) CATEGORIES states" using st by (simp add: traverse_eq_Inr)
  then have all: "list_all2 (\<lambda>c e. fst e = c \<and> is_str (snd e)) CATEGORIES states"
    by (rule list_all2_mono) (auto dest: entry_state)
  then have "map fst states = CATEGORIES" by (induction rule: list_all2_induct) simp_all
  moreover from all have "\<And>k v. (k, v) \<in> set states \<Longrightarrow> is_str v" by (auto simp: list_all2_conv_all_nth set_conv_nth) (metis snd_conv)
  ultimately show ?thesis unfolding r by (intro exI conjI refl finite_report) auto
qed

text \<open>Whatever the arguments and whatever the bytes of its input, the inventory ends with a report and status 0 or 2:
  no exception leaves it, the report's decision is to refuse, it authorises nothing and has no capabilities, and with
  status 0 it has exactly one state for each category.\<close>

theorem observation_refuses:
  "\<exists>states reasons status. observe_main arguments raw = Inr (show_json [] (report states reasons), status)
     \<and> (status = 0 \<and> map fst states = CATEGORIES \<or> status = 2 \<and> states = [])"
proof -
  let ?body = "refuse_if [Inr (arguments \<noteq> 1)] (refuse_if [Inr (MAX_CAPTURE < length raw)]
        (bindR (capture_json raw) (\<lambda>capture. bindR (inventory capture) (\<lambda>r. Inr (r, 0 :: nat)))))"
  have "raises [ValueError, RecursionError] (capture_json raw)"
    unfolding capture_json_def ascii_text_def
    by (intro raises_intros raises_Inl loads_unique_raises raises_mono [OF raises_Inl [of _ UnicodeDecodeError]])
      (auto simp: isa_def intro: raises_Inl)
  moreover have "raises [ValueError, RecursionError] (inventory v)" for v
    using inventory_error [of v] by (cases "inventory v") (auto simp: raises_def)
  ultimately have body: "raises [ValueError, RecursionError] ?body"
    by (intro raises_intros) auto
  show ?thesis
  proof (cases ?body)
    case (Inl e)
    with body have "default_on [ValueError, RecursionError] (report [] [JStr ''invalid_capture''], 2) ?body
        = Inr (report [] [JStr ''invalid_capture''], 2)"
      by (simp add: default_on_def raises_def)
    moreover have "finite_floats (report [] [JStr ''invalid_capture''])" by (simp add: report_def)
    ultimately show ?thesis
      unfolding observe_main_def by (auto simp: dumps_compact_def)
  next
    case (Inr x)
    then obtain capture r where "inventory capture = Inr r" "x = (r, 0)" by (auto simp: res_simps)
    with Inr inventory_states show ?thesis
      unfolding observe_main_def by (fastforce simp: dumps_compact_def)
  qed
qed

end
