(* ===== verification/Native.thy ===== *)
theory Native
  imports Admission Command Observe
begin

text \<open>
  \<open>experiments/d4/native_adapter.py\<close>: the adapter that forwards an admitted write to a local service and proves it:
  it synchronises the database's replica, restores the image at the position reached and reads the written row back
  from it. Its world is a host; processes, the service, the clock and SQLite answer as they like, and files may
  change at every call.
\<close>

section \<open>State\<close>

definition NATIVE_LIMIT :: nat where "NATIVE_LIMIT = 1024 * 1024"

definition FIRST_SLICE :: "((string \<times> string) \<times> string) list" where
  "FIRST_SLICE = [((''POST'', ''/api/records/v1/main_ops''), ''main''), ((''POST'', ''/api/records/v1/aux_ops''), ''aux'')]"

text \<open>What a forwarded operation leaves for its proof.\<close>

record forwarding =
  c_database :: string
  c_body :: json
  c_status :: int
  c_response :: string
  c_binding :: adict

record native = host +
  n_root :: string
  n_root_id :: ino
  n_ids :: "string \<Rightarrow> (ino \<times> string) option"
  n_url :: string
  n_litestream :: string
  n_config :: string
  n_socket :: string
  n_binary :: string
  n_databases :: "string \<Rightarrow> string option"
  n_evidence :: string
  n_runner :: bool
  n_contexts :: "string \<Rightarrow> forwarding option"
  n_cwd :: string
  n_is_socket :: "ino \<Rightarrow> bool"
  n_search :: string

section \<open>Reading\<close>

definition native_json :: "string \<Rightarrow> json res" where
  "native_json raw = bindR (unique_json raw) (\<lambda>v. refuse_if [Inr (\<not> finite_floats v)] (Inr v))"

definition asks :: "('s \<Rightarrow> 'a res) \<Rightarrow> ('s, 'a) prog" where
  "asks f s = (f s, s)"

definition others_may :: "hnode \<Rightarrow> bool" where
  "others_may n \<longleftrightarrow> h_mode n mod 64 \<noteq> 0"

definition private_regular :: "string \<Rightarrow> 'w host_scheme \<Rightarrow> unit res" where
  "private_regular p s = bindR (h_lstat p s) (\<lambda>n. refuse_if
     [Inr (h_kind n \<noteq> RegularNode \<or> h_uid n \<noteq> huid s \<or> others_may n \<or> h_nlink n \<noteq> 1)] (Inr ()))"

definition sort_of :: "'w native_scheme \<Rightarrow> hnode \<Rightarrow> string" where
  "sort_of s n = (case h_kind n of RegularNode \<Rightarrow> ''regular'' | DirectoryNode \<Rightarrow> ''directory''
     | SymlinkNode \<Rightarrow> ''other'' | OtherNode \<Rightarrow> if n_is_socket s (h_id n) then ''socket'' else ''other'')"

section \<open>Processes\<close>

text \<open>A group's process leader is signalled: sent, no such process, or not permitted.\<close>

datatype signalled = Sent | Gone | Denied

definition killpg :: "int \<Rightarrow> ('w host_scheme, signalled) prog" where
  "killpg sig = bindP (hcall ''killpg'' (JInt sig)) (\<lambda>v.
     ret (if v = JStr ''ProcessLookupError'' then Gone else if v = JStr ''PermissionError'' then Denied else Sent))"

text \<open>How a command ends, with what it wrote; an exception without output is an exception.\<close>

datatype ended = Completed int string string | TimedOut string string | Limited string string | Unclean string string

text \<open>\<open>communicate(timeout=2)\<close>: whether the time was up, and the output.\<close>

definition collect :: "('w host_scheme, bool \<times> string \<times> string) prog" where
  "collect = bindP (hcall ''communicate'' (JInt 2)) (\<lambda>v.
     ret (truthy (fld v ''expired''), str_val (fld v ''stdout''), str_val (fld v ''stderr'')))"

definition signal_or_gone :: "int \<Rightarrow> ('w host_scheme, unit) prog" where
  "signal_or_gone sig = bindP (killpg sig) (\<lambda>g. if g = Denied then raiseP OSError else ret ())"

fun await_gone :: "nat \<Rightarrow> rat \<Rightarrow> bool \<Rightarrow> ('w host_scheme, bool) prog" where
  "await_gone 0 deadline denied = raiseP StopIteration"
| "await_gone (Suc n) deadline denied = bindP (killpg 0) (\<lambda>g.
     if g = Gone then ret True
     else let denied' = denied \<or> g = Denied in bindP monotonic (\<lambda>now.
       if deadline \<le> now then (if denied' then ret False else raiseP RuntimeError)
       else seqP (sleep (1 / 100)) (await_gone n deadline denied')))"

text \<open>\<open>_stop_group\<close>: the output, unless the stopping itself ended otherwise.\<close>

definition stop_group :: "nat \<Rightarrow> ('w host_scheme, ended + string \<times> string) prog" where
  "stop_group fuel =
     seqP (signal_or_gone 15)
     (bindP collect (\<lambda>(expired, out, err).
      bindP (if expired then seqP (signal_or_gone 9) collect else ret (False, out, err)) (\<lambda>(again, out, err).
      if again then ret (Inl (TimedOut out err))
      else bindP monotonic (\<lambda>now. bindP (await_gone fuel (now + 2) False) (\<lambda>clean.
        ret (if clean then Inr (out, err) else Inl (Unclean (take NATIVE_LIMIT out) (take NATIVE_LIMIT err))))))))"

definition stopping :: "nat \<Rightarrow> (string \<Rightarrow> string \<Rightarrow> ended) \<Rightarrow> ('w host_scheme, ended) prog" where
  "stopping fuel k = bindP (stop_group fuel) (\<lambda>r. ret (case r of Inl e \<Rightarrow> e | Inr (out, err) \<Rightarrow> k out err))"

text \<open>What each pipe has so far, and which are still open.\<close>

type_synonym pipes = "(string \<Rightarrow> string) \<times> string list"

definition both_outputs :: "(string \<Rightarrow> string) \<Rightarrow> (string \<Rightarrow> string \<Rightarrow> ended) \<Rightarrow> ended" where
  "both_outputs out k = k (out ''stdout'') (out ''stderr'')"

text \<open>The pipes that are ready, one after the other; \<open>Inl\<close> is an early end.\<close>

fun read_ready :: "nat \<Rightarrow> string list \<Rightarrow> pipes \<Rightarrow> ('w host_scheme, ended + pipes) prog" where
  "read_ready fuel [] p = ret (Inr p)"
| "read_ready fuel (key # keys) (out, left) = bindP (hcall ''read'' (JArr [JStr key, JInt 65536])) (\<lambda>v.
     let chunk = take 65536 (str_val v); old = out key in
     if chunk = [] then read_ready fuel keys (out, filter (\<lambda>k. k \<noteq> key) left)
     else if NATIVE_LIMIT < length old + length chunk then
       (let full = out(key := old @ take (NATIVE_LIMIT - length old) chunk) in
        bindP (stopping fuel (\<lambda>_ _. both_outputs full Limited)) (\<lambda>e. ret (Inl e)))
     else read_ready fuel keys (out(key := old @ chunk), left))"

definition ready_of :: "json \<Rightarrow> string list \<Rightarrow> string list" where
  "ready_of v left = filter (\<lambda>k. k \<in> set left)
     (remdups (map str_val (case v of JArr ks \<Rightarrow> ks | _ \<Rightarrow> [])))"

fun read_loop :: "nat \<Rightarrow> rat \<Rightarrow> pipes \<Rightarrow> ('w host_scheme, ended) prog" where
  "read_loop 0 deadline (out, left) = raiseP StopIteration"
| "read_loop (Suc n) deadline (out, left) =
     (if left = [] then
        bindP monotonic (\<lambda>now.
        bindP (hcall ''wait'' (JFloat (Fin (max (1 / 1000) (deadline - now))))) (\<lambda>v.
        if fld v ''expired'' = JBool True then stopping (Suc n) (\<lambda>_ _. both_outputs out TimedOut)
        else ret (both_outputs out (Completed (int_val (fld v ''returncode''))))))
      else bindP monotonic (\<lambda>now. let remaining = deadline - now in
        if remaining \<le> 0 then stopping (Suc n) (\<lambda>tail_out tail_err.
          TimedOut (take NATIVE_LIMIT (out ''stdout'' @ tail_out)) (take NATIVE_LIMIT (out ''stderr'' @ tail_err)))
        else bindP (hcall ''select'' (JFloat (Fin (min remaining (1 / 10))))) (\<lambda>v.
          bindP (read_ready (Suc n) (ready_of v left) (out, left)) (\<lambda>r.
          case r of Inl e \<Rightarrow> ret e | Inr p \<Rightarrow> read_loop n deadline p))))"

definition run_group :: "nat \<Rightarrow> string list \<Rightarrow> json \<Rightarrow> rat \<Rightarrow> ('w host_scheme, ended) prog" where
  "run_group fuel argv environment timeout =
     seqP (does ''Popen'' (JArr [JArr (map JStr argv), environment]))
     (bindP monotonic (\<lambda>now. read_loop fuel (now + timeout) (\<lambda>_. [], [''stdout'', ''stderr''])))"

section \<open>Writing\<close>

definition native_write :: "string \<Rightarrow> string \<Rightarrow> ('w host_scheme, unit) prog" where
  "native_write path raw =
     seqP (create_new RegularNode path 384 [])
     (seqP (set_bytes path raw)
     (seqP (does ''fsync'' (JStr path))
     (seqP (raise_when (\<lambda>s. Inr (\<not> h_is_dir (parent_dir path) s)) OSError)
     (does ''fsync'' (JStr (parent_dir path))))))"

section \<open>Paths of the adapter\<close>

text \<open>\<open>Path(value).absolute()\<close> keeps \<open>..\<close>; a name is looked up without it, which is the same as long as no part is
  a link.\<close>

definition absolute :: "string \<Rightarrow> 'w native_scheme \<Rightarrow> string" where
  "absolute p s = (if is_absolute p then p else path_join (n_cwd s) p)"

definition prefixes :: "string list \<Rightarrow> string list list" where
  "prefixes parts = map (\<lambda>n. take n parts) [1..<Suc (length parts)]"

definition linked_below :: "string \<Rightarrow> string list \<Rightarrow> 'w host_scheme \<Rightarrow> bool" where
  "linked_below dir parts s \<longleftrightarrow> (\<exists>ps \<in> set (prefixes parts). h_is_symlink (normpath (path_join dir (join_with ''/'' ps))) s)"

definition inside :: "string \<Rightarrow> string \<Rightarrow> bool" where
  "inside dir p \<longleftrightarrow> (case in_tree dir p of None \<Rightarrow> False | Some r \<Rightarrow> r \<noteq> [])"

definition hold_identity :: "string \<Rightarrow> ino \<Rightarrow> string \<Rightarrow> ('w native_scheme, unit) prog" where
  "hold_identity p i k = modify (\<lambda>s. s\<lparr>n_ids := (n_ids s)(p \<mapsto> (i, k))\<rparr>)"

definition native_path :: "string \<Rightarrow> bool \<Rightarrow> ('w native_scheme, string) prog" where
  "native_path value regular =
     bindP (gets (absolute value)) (\<lambda>original. bindP (gets n_root) (\<lambda>dir.
     bindP (lift (case relative_parts original dir of None \<Rightarrow> Inl ValueError | Some ps \<Rightarrow> Inr ps)) (\<lambda>parts.
     seqP (raise_when (\<lambda>s. Inr (linked_below dir parts s)) ValueError)
     (let path = normpath original in
     seqP (if regular then asks (private_regular path) else ret ())
     (seqP (raise_when (\<lambda>_. Inr (\<not> inside dir path)) ValueError)
     (seqP (if regular then bindP (asks (h_lstat path)) (\<lambda>n. hold_identity path (h_id n) ''regular'') else ret ())
     (ret path)))))))"

definition revalidate :: "string \<Rightarrow> ('w native_scheme, unit) prog" where
  "revalidate path =
     bindP (gets n_root) (\<lambda>dir. bindP (asks (h_lstat dir)) (\<lambda>r.
     seqP (raise_when (\<lambda>s. Inr (h_id r \<noteq> n_root_id s)) RuntimeError)
     (bindP (lift (case relative_parts path dir of None \<Rightarrow> Inl ValueError | Some ps \<Rightarrow> Inr ps)) (\<lambda>parts.
     seqP (raise_when (\<lambda>s. Inr (linked_below dir parts s)) RuntimeError)
     (bindP (asks (h_lstat path)) (\<lambda>n.
     bindP (asks (\<lambda>s. case n_ids s path of None \<Rightarrow> Inl KeyError | Some i \<Rightarrow> Inr i)) (\<lambda>expected.
     raise_when (\<lambda>s. Inr ((h_id n, sort_of s n) \<noteq> expected \<or> h_uid n \<noteq> huid s \<or> others_may n
       \<or> sort_of s n = ''regular'' \<and> h_nlink n \<noteq> 1)) RuntimeError)))))))"

section \<open>Construction\<close>

text \<open>What \<open>urlsplit\<close> finds: the authority up to a slash, a query or a fragment; a user is refused unless it is
  empty, and so is a port that is none.\<close>

definition native_url :: "string \<Rightarrow> string res" where
  "native_url url0 = (let url = filter (\<lambda>c. c \<notin> set [CHR 0x09, CHR 0x0A, CHR 0x0D]) (dropWhile (\<lambda>c. (of_char c :: nat) \<le> 32) url0) in
     refuse_if [Inr (lower (take 7 url) \<noteq> ''http://'')]
     (let netloc = takeWhile (\<lambda>c. c \<notin> set ''/?#'') (drop 7 url); tail = dropWhile (\<lambda>c. c \<notin> set ''/?#'') (drop 7 url);
          host = (case strip_prefix ''@'' netloc of Some r \<Rightarrow> r
            | None \<Rightarrow> (case strip_prefix '':@'' netloc of Some r \<Rightarrow> r | None \<Rightarrow> netloc)) in
     case strip_prefix ''127.0.0.1:'' host of None \<Rightarrow> Inl ValueError
     | Some port \<Rightarrow> refuse_if [Inr (port = [] \<or> \<not> list_all is_digit port \<or> 65535 < read_nat port
            \<or> tail \<notin> {[], ''/'', ''?'', ''/?'', ''#'', ''/#'', ''?#'', ''/?#''})]
         (Inr (''http://127.0.0.1:'' @ show_nat (read_nat port)))))"

definition native_root :: "string \<Rightarrow> ('w native_scheme, unit) prog" where
  "native_root root0 =
     seqP (raise_when (\<lambda>_. Inr (''..'' \<in> set (path_comps root0))) ValueError)
     (bindP (gets (absolute root0)) (\<lambda>original.
     seqP (raise_when (\<lambda>s. Inr (\<exists>ps \<in> set (prefixes (path_comps original)).
         h_is_symlink (''/'' @ join_with ''/'' ps) s)) ValueError)
     (let dir = normpath original in
     bindP (asks (h_lstat dir)) (\<lambda>n.
     seqP (raise_when (\<lambda>s. Inr (h_kind n \<noteq> DirectoryNode \<or> h_uid n \<noteq> huid s \<or> others_may n \<or> linked_parent dir s)) ValueError)
     (modify (\<lambda>s. s\<lparr>n_root := dir, n_root_id := h_id n\<rparr>))))))"

definition native_socket :: "string \<Rightarrow> ('w native_scheme, unit) prog" where
  "native_socket socket = bindP (native_path socket False) (\<lambda>p. bindP (asks (h_lstat p)) (\<lambda>n.
     seqP (raise_when (\<lambda>s. Inr (sort_of s n \<noteq> ''socket'' \<or> h_uid n \<noteq> huid s \<or> others_may n)) ValueError)
     (seqP (modify (\<lambda>s. s\<lparr>n_socket := p\<rparr>)) (hold_identity p (h_id n) ''socket''))))"

definition native_evidence :: "('w native_scheme, unit) prog" where
  "native_evidence = bindP (gets (\<lambda>s. path_join (n_root s) ''evidence'')) (\<lambda>p.
     bindP (gets (\<lambda>s. h_there p s)) (\<lambda>there.
     seqP (if there then bindP (asks (h_lstat p)) (\<lambda>n. raise_when (\<lambda>s. Inr (h_kind n \<noteq> DirectoryNode \<or> h_uid n \<noteq> huid s
           \<or> others_may n)) ValueError)
         else mkdir p 448)
     (bindP (asks (h_lstat p)) (\<lambda>n. seqP (modify (\<lambda>s. s\<lparr>n_evidence := p\<rparr>)) (hold_identity p (h_id n) ''directory'')))))"

definition native_init ::
  "string \<Rightarrow> string \<Rightarrow> string \<Rightarrow> string \<Rightarrow> string \<Rightarrow> string \<Rightarrow> (string \<times> string) list \<Rightarrow> bool \<Rightarrow> ('w native_scheme, unit) prog" where
  "native_init root0 base_url litestream digest socket config databases runner =
     seqP (native_root root0)
     (bindP (lift (native_url base_url)) (\<lambda>url.
     seqP (modify (\<lambda>s. s\<lparr>n_ids := Map.empty, n_url := url\<rparr>))
     (bindP (native_path litestream True) (\<lambda>l.
     bindP (native_path config True) (\<lambda>c.
     seqP (modify (\<lambda>s. s\<lparr>n_litestream := l, n_config := c\<rparr>))
     (seqP (native_socket socket)
     (seqP (raise_when (\<lambda>_. Inr (\<not> hex_n 64 digest)) ValueError)
     (bindP (asks (h_read l)) (\<lambda>raw.
     seqP (raise_when (\<lambda>_. Inr (sha256_hex raw \<noteq> digest)) ValueError)
     (seqP (raise_when (\<lambda>_. Inr (fst ` set databases \<noteq> {''main'', ''aux''})) ValueError)
     (seqP (modify (\<lambda>s. s\<lparr>n_binary := digest, n_databases := Map.empty\<rparr>))
     (seqP (forP databases (\<lambda>(name, path). bindP (native_path path True) (\<lambda>p.
         modify (\<lambda>s. s\<lparr>n_databases := (n_databases s)(name \<mapsto> p)\<rparr>))))
     (seqP native_evidence
     (modify (\<lambda>s. s\<lparr>n_runner := runner, n_contexts := Map.empty\<rparr>)))))))))))))))"

section \<open>Policy and forwarding\<close>

definition op_of :: "adict \<Rightarrow> string \<times> string" where
  "op_of r = (text_of r ''method'', text_of r ''path'')"

definition native_body :: "json \<Rightarrow> bool res" where
  "native_body v = all_of [Inr (is_obj v), set_is v [''op_key'', ''payload''],
     itm v ''op_key'' (\<lambda>x. Inr (str_and x (\<lambda>t. 1 \<le> length t \<and> length t \<le> 1024))),
     itm v ''payload'' (\<lambda>x. Inr (str_and x (\<lambda>t. 1 \<le> length t \<and> length t \<le> 1024)))]"

definition validate_policy :: "adict option \<Rightarrow> (string \<times> json) res" where
  "validate_policy request = reraise [KeyError, TypeError, ValueError, UnicodeDecodeError] ValueError
     (case request of None \<Rightarrow> Inl ValueError | Some r \<Rightarrow>
        refuse_if [Inr (\<not> text_at r ''method'' (\<lambda>m. text_at r ''path'' (\<lambda>p. (m, p) \<in> fst ` set FIRST_SLICE))),
          Inr (\<not> bytes_at r ''body'' (\<lambda>_. True))]
        (bindR (native_json (bytes_of r ''body'')) (\<lambda>v. refuse_if [notR (native_body v)]
          (Inr (the (map_of FIRST_SLICE (op_of r)), v)))))"

text \<open>The key of an operation: a list or a dictionary has none.\<close>

definition operation_key :: "adict \<Rightarrow> string option res" where
  "operation_key r = (case map_of r ''operation_id'' of None \<Rightarrow> Inl KeyError
     | Some (AJson (JStr t)) \<Rightarrow> Inr (Some t) | Some (AJson (JArr _)) \<Rightarrow> Inl TypeError
     | Some (AJson (JObj _)) \<Rightarrow> Inl TypeError | _ \<Rightarrow> Inr None)"

definition known_forward :: "string option \<Rightarrow> 'w native_scheme \<Rightarrow> bool" where
  "known_forward k s \<longleftrightarrow> (case k of None \<Rightarrow> False | Some t \<Rightarrow> n_contexts s t \<noteq> None)"

definition headers_json :: "adict \<Rightarrow> json res" where
  "headers_json r = (case map_of r ''headers'' of None \<Rightarrow> Inl KeyError | Some (AJson v) \<Rightarrow> Inr v | Some (ABytes _) \<Rightarrow> Inl TypeError)"

text \<open>The service's answer, an error status like any other, its body read up to one byte beyond the limit.\<close>

definition ask_service :: "adict \<Rightarrow> ('w native_scheme, json \<times> string) prog" where
  "ask_service r =
     bindP (lift (headers_json r)) (\<lambda>headers. bindP (gets n_url) (\<lambda>url.
     bindP (hcall ''open'' (JArr [JStr (url @ text_of r ''path''), JStr (bytes_of r ''body''), headers,
         JStr (text_of r ''method''), JInt 5])) (\<lambda>code'.
     bindP (hcall ''response.read'' (JInt (int (NATIVE_LIMIT + 1)))) (\<lambda>raw.
     ret (code', take (NATIVE_LIMIT + 1) (str_val raw))))))"

definition native_outcome :: "int \<Rightarrow> string \<Rightarrow> adict" where
  "native_outcome code' raw = [(''status'', AJson (JInt code')), (''response_body'', ABytes raw),
     (''mutation'', AJson (JStr (if 200 \<le> code' \<and> code' \<le> 299 then ''completed'' else ''possible'')))]"

definition native_forward :: "adict \<Rightarrow> ('w native_scheme, adict) prog" where
  "native_forward r =
     bindP (lift (validate_policy (Some r))) (\<lambda>(dbn, body).
     bindP (lift (operation_key r)) (\<lambda>operation.
     seqP (raise_when (\<lambda>s. Inr (known_forward operation s)) RuntimeError)
     (bindP (ask_service r) (\<lambda>(code', raw).
     seqP (raise_when (\<lambda>_. Inr (NATIVE_LIMIT < length raw \<or> \<not> int_and code' (\<lambda>n. 100 \<le> n \<and> n \<le> 599))) ValueError)
     (bindP (lift (check_request (Some r))) (\<lambda>(_, digest, bound).
     seqP (raise_when (\<lambda>_. Inr (bound \<noteq> dbn)) RuntimeError)
     (seqP (modify (\<lambda>s. s\<lparr>n_contexts := (n_contexts s)(the operation \<mapsto> \<lparr>c_database = dbn, c_body = body,
          c_status = int_val code', c_response = raw, c_binding = binding_of r digest dbn\<rparr>)\<rparr>))
     (ret (native_outcome (int_val code') raw)))))))))"

section \<open>A command of the adapter\<close>

definition runner_end :: "json \<Rightarrow> ended" where
  "runner_end v = (let out = str_val (fld v ''stdout''); err = str_val (fld v ''stderr'') in
     if fld v ''kind'' = JStr ''timeout'' then TimedOut out err
     else if fld v ''kind'' = JStr ''cleanup'' then Unclean (take NATIVE_LIMIT out) (take NATIVE_LIMIT err)
     else if fld v ''kind'' = JStr ''limit'' then Limited out err
     else Completed (int_val (fld v ''returncode'')) out err)"

definition environment_of :: "'w native_scheme \<Rightarrow> json" where
  "environment_of s = JObj [(''PATH'', JStr (n_search s)), (''HOME'', JStr (n_root s)), (''TMPDIR'', JStr (n_root s))]"

definition run_native :: "nat \<Rightarrow> string list \<Rightarrow> ('w native_scheme, ended) prog" where
  "run_native fuel argv = bindP (gets environment_of) (\<lambda>environment. bindP (gets n_runner) (\<lambda>given.
     if given then bindP (hcall ''runner'' (JArr [JArr (map JStr argv), JInt 20, environment])) (\<lambda>v. ret (runner_end v))
     else run_group fuel argv environment 20))"

definition kept_outputs :: "string \<Rightarrow> string \<Rightarrow> string \<Rightarrow> json \<Rightarrow> ('w native_scheme, unit) prog" where
  "kept_outputs prefix out err end' =
     seqP (native_write (prefix @ ''.stdout'') out)
     (seqP (native_write (prefix @ ''.stderr'') err)
     (bindP (lift (dumps_compact end')) (native_write (prefix @ ''.outcome.json''))))"

definition uncertain_end :: "string \<Rightarrow> json" where
  "uncertain_end reason = JObj [(''outcome'', JStr reason), (''completion'', JStr ''uncertain'')]"

definition not_certain :: "string \<Rightarrow> string \<Rightarrow> string \<Rightarrow> string \<Rightarrow> string \<Rightarrow> ('w native_scheme, string) prog" where
  "not_certain directory prefix reason out err =
     seqP (revalidate directory) (seqP (kept_outputs prefix out err (uncertain_end reason)) (raiseP RuntimeError))"

definition completed_end :: "string \<Rightarrow> string \<Rightarrow> int \<Rightarrow> string \<Rightarrow> string \<Rightarrow> ('w native_scheme, string) prog" where
  "completed_end directory prefix code out err =
     seqP (revalidate directory)
     (if NATIVE_LIMIT < length out \<or> NATIVE_LIMIT < length err
      then seqP (kept_outputs prefix (take NATIVE_LIMIT out) (take NATIVE_LIMIT err) (uncertain_end ''output_limit''))
        (raiseP RuntimeError)
      else seqP (kept_outputs prefix out err (JObj [(''returncode'', JInt code)]))
        (if code \<noteq> 0 then raiseP RuntimeError else ret out))"

definition native_command :: "nat \<Rightarrow> string \<Rightarrow> string \<Rightarrow> string list \<Rightarrow> ('w native_scheme, string) prog" where
  "native_command fuel directory tag argv = (let prefix = path_join directory tag in
     seqP (revalidate directory)
     (bindP (lift (dumps_compact (intent_value argv))) (\<lambda>intent.
     seqP (native_write (prefix @ ''.intent.json'') intent)
     (bindP (run_native fuel argv) (\<lambda>e. case e of
        TimedOut out err \<Rightarrow> not_certain directory prefix ''timeout'' out err
      | Unclean out err \<Rightarrow> not_certain directory prefix ''cleanup'' out err
      | Limited out err \<Rightarrow> not_certain directory prefix ''output_limit'' out err
      | Completed code out err \<Rightarrow> completed_end directory prefix code out err)))))"

section \<open>Proving\<close>

fun hex_digits :: "nat \<Rightarrow> string" where
  "hex_digits n = (if n < 16 then [hex_char n] else hex_digits (n div 16) @ [hex_char (n mod 16)])"

declare hex_digits.simps [simp del]

definition hex16 :: "int \<Rightarrow> string" where
  "hex16 n = (let d = hex_digits (nat n) in replicate (16 - length d) (CHR ''0'') @ d)"

definition take_context :: "adict option \<Rightarrow> ('w native_scheme, forwarding) prog" where
  "take_context requirement =
     bindP (lift (case requirement of None \<Rightarrow> Inr None
       | Some r \<Rightarrow> if map_of r ''operation_id'' = None then Inr None else operation_key r)) (\<lambda>key.
     bindP (gets (\<lambda>s. case key of None \<Rightarrow> None | Some k \<Rightarrow> n_contexts s k)) (\<lambda>c.
     seqP (modify (\<lambda>s. case key of None \<Rightarrow> s | Some k \<Rightarrow> s\<lparr>n_contexts := (n_contexts s)(k := None)\<rparr>))
     (case (c, requirement) of
        (Some c', Some r) \<Rightarrow> if \<forall>(k, v) \<in> set (c_binding c'). map_of r k = Some v then ret c' else raiseP RuntimeError
      | _ \<Rightarrow> raiseP RuntimeError)))"

definition source_of :: "forwarding \<Rightarrow> 'w native_scheme \<Rightarrow> string res" where
  "source_of c s = (case n_databases s (c_database c) of None \<Rightarrow> Inl KeyError | Some p \<Rightarrow> Inr p)"

definition same_binary :: "('w native_scheme, unit) prog" where
  "same_binary = bindP (gets n_litestream) (\<lambda>l. bindP (asks (h_read l)) (\<lambda>raw.
     raise_when (\<lambda>s. Inr (sha256_hex raw \<noteq> n_binary s)) RuntimeError))"

definition operation_directory :: "string \<Rightarrow> ('w native_scheme, string) prog" where
  "operation_directory operation =
     bindP (gets (\<lambda>s. path_join (n_evidence s) operation)) (\<lambda>d.
     seqP (mkdir d 448)
     (bindP (asks (h_lstat d)) (\<lambda>n.
     seqP (raise_when (\<lambda>s. Inr (h_kind n \<noteq> DirectoryNode \<or> h_uid n \<noteq> huid s \<or> others_may n)) RuntimeError)
     (seqP (hold_identity d (h_id n) ''directory'') (ret d)))))"

definition position_invalid :: "string \<Rightarrow> json \<Rightarrow> bool res" where
  "position_invalid source v = any_of
     [Inr (\<not> is_obj v), notR (set_is v [''db_path'', ''txid'', ''replica_txid'', ''duration_ms'']),
      item_not v ''db_path'' source,
      itm v ''txid'' (\<lambda>x. Inr (\<not> int_and x (\<lambda>n. 0 < n))),
      itm v ''replica_txid'' (\<lambda>x. itm v ''txid'' (\<lambda>y. Inr (\<not> int_and x (\<lambda>_. True) \<or> \<not> py_eq x y))),
      itm v ''duration_ms'' (\<lambda>x. Inr (\<not> int_and x (\<lambda>n. 0 \<le> n)))]"

definition position_of :: "string \<Rightarrow> string \<Rightarrow> int res" where
  "position_of source raw = reraise [TypeError, ValueError, UnicodeDecodeError] RuntimeError
     (bindR (native_json raw) (\<lambda>v. refuse_if [position_invalid source v] (mapR int_val (getitem v ''txid''))))"

definition synchronise :: "nat \<Rightarrow> string \<Rightarrow> string \<Rightarrow> ('w native_scheme, int) prog" where
  "synchronise fuel directory source =
     bindP (gets (\<lambda>s. [n_litestream s, ''sync'', ''-socket'', n_socket s, ''-timeout'', ''10'', ''-wait'', ''-json'', source])) (\<lambda>argv.
     bindP (native_command fuel directory ''sync'' argv) (\<lambda>raw. lift (position_of source raw)))"

text \<open>The restored image, opened without following a link, made private and durable, then given its name.\<close>

definition image_limit :: nat where "image_limit = 256 * 1024 * 1024"

definition take_image :: "string \<Rightarrow> string \<Rightarrow> string \<Rightarrow> ('w native_scheme, unit) prog" where
  "take_image directory restored output =
     bindP (asks (h_lstat restored)) (\<lambda>n.
     seqP (raise_when (\<lambda>_. Inr (h_kind n = SymlinkNode)) OSError)
     (seqP (raise_when (\<lambda>s. Inr (h_kind n \<noteq> RegularNode \<or> h_uid n \<noteq> huid s \<or> h_nlink n \<noteq> 1
         \<or> image_limit < length (h_bytes n))) RuntimeError)
     (seqP (change restored (\<lambda>x. if h_id x = h_id n then x\<lparr>h_mode := 384\<rparr> else x))
     (seqP (does ''fsync'' (JStr restored))
     (bindP (asks (h_lstat restored)) (\<lambda>current. bindP (gets n_root) (\<lambda>dir.
     seqP (raise_when (\<lambda>_. Inr (h_id current \<noteq> h_id n \<or> h_kind current = SymlinkNode \<or> \<not> inside dir restored)) RuntimeError)
     (seqP (revalidate directory)
     (seqP (rename restored output)
     (seqP (does ''fsync'' (JStr directory))
     (bindP (asks (h_lstat output)) (\<lambda>value.
     raise_when (\<lambda>_. Inr (h_id value \<noteq> h_id n \<or> others_may value \<or> h_kind value \<noteq> RegularNode \<or> h_nlink value \<noteq> 1))
       RuntimeError))))))))))))"

definition restore_image :: "nat \<Rightarrow> string \<Rightarrow> string \<Rightarrow> string \<Rightarrow> int \<Rightarrow> ('w native_scheme, string) prog" where
  "restore_image fuel directory dbn source tx = (let restored = path_join directory (dbn @ ''.restore'');
       output = path_join directory (dbn @ ''.db'') in
     bindP (gets (\<lambda>s. (n_litestream s, n_config s))) (\<lambda>(l, c).
     seqP (revalidate l) (seqP (revalidate c) (seqP (revalidate source)
     (bindP (native_command fuel directory ''restore'' [l, ''restore'', ''-config'', c, ''-txid'', hex16 tx,
         ''-integrity-check'', ''none'', ''-o'', restored, source]) (\<lambda>_.
     seqP (revalidate directory)
     (seqP (take_image directory restored output) (ret output))))))))"

text \<open>The one identifier the service answered with.\<close>

definition answered_id :: "string \<Rightarrow> json res" where
  "answered_id raw = bindR (native_json raw) (\<lambda>response.
     bindR (if is_obj response then get_none response ''ids'' else Inr JNull) (\<lambda>ids. case ids of
       JArr [JInt n] \<Rightarrow> Inr (JInt n)
     | JArr [JStr t] \<Rightarrow> if t \<noteq> [] \<and> list_all is_digit t then Inr (JStr t) else Inl ValueError
     | _ \<Rightarrow> Inl ValueError))"

definition read_back :: "string \<Rightarrow> json \<Rightarrow> ('w native_scheme, json) prog" where
  "read_back output ident =
     seqP (does ''sqlite3.connect'' (JStr output))
     (ensuring (seqP (does ''PRAGMA ignore_check_constraints=ON'' JNull)
       (bindP (hcall ''PRAGMA integrity_check'' JNull) (\<lambda>whole.
        seqP (raise_when (\<lambda>_. Inr (whole \<noteq> JArr [JStr ''ok''])) ValueError)
        (bindP (hcall ''PRAGMA foreign_key_check'' JNull) (\<lambda>broken.
        seqP (raise_when (\<lambda>_. Inr (truthy broken)) ValueError)
        (hcall ''SELECT op_key,payload FROM hat_ops'' ident))))))
      (does ''sqlite3.close'' JNull))"

definition expected_row :: "json \<Rightarrow> json" where
  "expected_row body = JArr [fld body ''op_key'', fld body ''payload'']"

definition verify_membership :: "string \<Rightarrow> forwarding \<Rightarrow> ('w native_scheme, unit) prog" where
  "verify_membership output c = converting [SqliteError, TypeError, ValueError, UnicodeDecodeError] RuntimeError
     (bindP (lift (answered_id (c_response c))) (\<lambda>ident. bindP (read_back output ident) (\<lambda>row.
      raise_when (\<lambda>_. Inr (row \<noteq> expected_row (c_body c))) ValueError)))"

definition proof_value :: "adict \<Rightarrow> string \<Rightarrow> string \<Rightarrow> int \<Rightarrow> adict" where
  "proof_value r operation dbn tx =
     map (\<lambda>k. (k, the (map_of r k))) [''operation_id'', ''request_digest'', ''epoch'', ''writer_boot''] @
     [(''database'', AJson (JStr dbn)), (''txid'', AJson (JInt tx)), (''replica_txid'', AJson (JInt tx)),
      (''image_verified'', AJson (JBool True)),
      (''evidence_id'', AJson (JStr (''native-'' @ operation @ ''-'' @ dbn @ ''-'' @ show_int tx)))]"

definition proof_record :: "adict \<Rightarrow> string \<Rightarrow> json" where
  "proof_record value' img = JObj (map (\<lambda>(k, v). (k, case v of AJson j \<Rightarrow> j | ABytes b \<Rightarrow> JStr b)) value' @
     [(''membership'', JStr ''PASS''), (''image_sha256'', JStr img)])"

definition image_of :: "nat \<Rightarrow> string \<Rightarrow> forwarding \<Rightarrow> ('w native_scheme, string \<times> int \<times> string) prog" where
  "image_of fuel operation c =
     bindP (asks (source_of c)) (\<lambda>source.
     bindP (gets (\<lambda>s. [n_litestream s, n_config s, n_socket s, source, n_evidence s])) (\<lambda>paths.
     seqP (forP paths revalidate)
     (seqP same_binary
     (bindP (operation_directory operation) (\<lambda>directory.
     bindP (synchronise fuel directory source) (\<lambda>tx.
     bindP (restore_image fuel directory (c_database c) source tx) (\<lambda>out. ret (directory, tx, out))))))))"

definition record_proof :: "string \<Rightarrow> string \<Rightarrow> adict \<Rightarrow> ('w native_scheme, adict) prog" where
  "record_proof directory out value' =
     bindP (asks (h_read out)) (\<lambda>img.
     seqP (revalidate directory)
     (bindP (lift (dumps_compact (proof_record value' (sha256_hex img)))) (\<lambda>raw.
     seqP (native_write (path_join directory ''proof.json'') raw)
     (ret value'))))"

definition native_prove :: "nat \<Rightarrow> adict option \<Rightarrow> ('w native_scheme, adict) prog" where
  "native_prove fuel requirement =
     bindP (take_context requirement) (\<lambda>c. let r = the requirement; operation = text_of r ''operation_id'' in
     bindP (image_of fuel operation c) (\<lambda>(directory, tx, out).
     seqP (verify_membership out c) (record_proof directory out (proof_value r operation (c_database c) tx))))"

section \<open>Admission through the adapter\<close>

text \<open>The adapter is only reached through the two calls of an admission: its state is what the calls so far made of it.\<close>

definition native_call :: "nat \<Rightarrow> string \<times> adict \<Rightarrow> ('w native_scheme, adict option) prog" where
  "native_call fuel c = bindP (if fst c = ''forward'' then native_forward (snd c) else native_prove fuel (Some (snd c)))
     (\<lambda>v. ret (Some v))"

definition replayed :: "nat \<Rightarrow> native \<Rightarrow> (string \<times> adict) list \<Rightarrow> native" where
  "replayed fuel = foldl (\<lambda>a c. snd (native_call fuel c a))"

definition answered_by :: "nat \<Rightarrow> native \<Rightarrow> (string \<times> adict) list \<Rightarrow> string \<times> adict \<Rightarrow> adict option res" where
  "answered_by fuel a calls c = fst (native_call fuel c (replayed fuel a calls))"

definition admit_native :: "nat \<Rightarrow> native \<Rightarrow> adict option \<Rightarrow> ('w admission_scheme, decision) prog" where
  "admit_native fuel a request =
     bindP (lift (validate_policy request)) (\<lambda>_.
     seqP (modify (\<lambda>s. s\<lparr>ad_reply := answered_by fuel a\<rparr>)) (admit request))"

end
