(* ===== verification/Native_Properties.thy ===== *)
theory Native_Properties
  imports Native Admission_Properties "HOL-Library.Sublist"
begin

text \<open>
  What a proof of the adapter says, and what a release through it says: the row a client sent was read back, under the
  identifier the client is answered with, from an image restored at the position that is reported.
\<close>

section \<open>What the adapter's programs leave alone\<close>

locale adapting =
  fixes I :: "native \<Rightarrow> bool"
  assumes asked: "I s \<Longrightarrow> I (s\<lparr>trace := trace s @ [c], fs := f\<rparr>)"
    and files_of: "I s \<Longrightarrow> I (s\<lparr>fs := f\<rparr>)"
    and made: "I s \<Longrightarrow> I (s\<lparr>fs := f, fresh := n\<rparr>)"
    and held: "I s \<Longrightarrow> I (s\<lparr>n_ids := ids\<rparr>)"
begin

lemma keeps_hcall: "keeps I (hcall name arg)"
  by (simp add: keeps_def hcall_def asked)

lemma keeps_asks: "keeps I (asks f)"
  by (simp add: keeps_def asks_def)

lemma keeps_fs: "keeps I (modify (\<lambda>s. s\<lparr>fs := g s\<rparr>))"
  by (simp add: keeps_def modify_def files_of)

lemma keeps_create: "keeps I (create k p mode bytes)"
  by (simp add: keeps_def create_def modify_def made)

lemma keeps_hold: "keeps I (hold_identity p i k)"
  by (simp add: keeps_def hold_identity_def modify_def held)

lemmas adapting_rules = keeps_intros keeps_hcall keeps_asks keeps_fs keeps_create keeps_hold

lemma keeps_small:
  "keeps I (does name x)" "keeps I monotonic" "keeps I (sleep d)" "keeps I (killpg sig)" "keeps I (signal_or_gone sig)"
  "keeps I collect" "keeps I (create_new kind p mode bytes)" "keeps I (mkdir p mode)" "keeps I (set_bytes p raw)"
  "keeps I (change p g)" "keeps I (rename p q)" "keeps I (native_write p raw)"
  unfolding does_def monotonic_def sleep_def killpg_def signal_or_gone_def collect_def create_new_def mkdir_def set_bytes_def
    change_def rename_def missing_def native_write_def
  by (auto intro!: adapting_rules)

lemma keeps_await: "keeps I (await_gone n deadline denied)"
  by (induction n arbitrary: denied) (auto intro!: adapting_rules keeps_small)

lemma keeps_stopping: "keeps I (stopping fuel k)"
  unfolding stopping_def stop_group_def
  by (auto intro!: adapting_rules keeps_small keeps_await)

lemma keeps_ready: "keeps I (read_ready fuel keys p)"
  by (induction fuel keys p rule: read_ready.induct) (auto simp: Let_def intro!: adapting_rules keeps_stopping)

lemma keeps_sum: "(\<And>a. keeps I (f a)) \<Longrightarrow> (\<And>b. keeps I (g b)) \<Longrightarrow> keeps I (case r of Inl a \<Rightarrow> f a | Inr b \<Rightarrow> g b)"
  by (cases r) simp_all

lemma keeps_loop: "keeps I (read_loop n deadline p)"
proof (induction n arbitrary: p)
  case 0
  show ?case by (cases p) (simp add: adapting_rules)
next
  case (Suc n)
  show ?case
    by (cases p) (auto simp: Let_def Suc.IH intro!: adapting_rules keeps_small keeps_stopping keeps_ready keeps_sum)
qed

lemma keeps_revalidate: "keeps I (revalidate p)"
  unfolding revalidate_def by (auto intro!: adapting_rules)

lemma keeps_command: "keeps I (native_command fuel directory tag argv)"
  unfolding native_command_def run_native_def run_group_def not_certain_def completed_end_def kept_outputs_def Let_def
  by (auto split: ended.split intro!: adapting_rules keeps_small keeps_revalidate keeps_loop)

lemma keeps_directory: "keeps I (operation_directory operation)"
  unfolding operation_directory_def by (auto intro!: adapting_rules keeps_small)

lemma keeps_synchronise: "keeps I (synchronise fuel directory source)"
  unfolding synchronise_def by (auto intro!: adapting_rules keeps_command)

lemma keeps_restore: "keeps I (restore_image fuel directory dbn source tx)"
  unfolding restore_image_def take_image_def Let_def
  by (auto intro!: adapting_rules keeps_command keeps_revalidate keeps_small)

lemma keeps_binary: "keeps I same_binary"
  unfolding same_binary_def by (auto intro!: adapting_rules)

end

text \<open>The answers are the same, the operations waiting for their proof are the same, and calls were only added.\<close>

definition after :: "native \<Rightarrow> native \<Rightarrow> bool" where
  "after s t \<longleftrightarrow> answer t = answer s \<and> n_contexts t = n_contexts s \<and> prefix (trace s) (trace t)"

interpretation proving: adapting "after s" for s
  by unfold_locales (auto simp: after_def)

lemma after_refl: "after s s" by (simp add: after_def)

lemma after_trans: "after s t \<Longrightarrow> after t u \<Longrightarrow> after s u"
  unfolding after_def by (metis prefix_order.trans)

lemma kept_after: "(\<And>s. keeps (after s) m) \<Longrightarrow> m s = (r, t) \<Longrightarrow> after s t"
  using after_refl unfolding keeps_def by (metis snd_conv)

lemmas proving_rules = proving.adapting_rules proving.keeps_small proving.keeps_revalidate proving.keeps_directory
  proving.keeps_synchronise proving.keeps_restore proving.keeps_binary

section \<open>What was read back\<close>

text \<open>The image was found whole, and the statement for the row of \<open>ident\<close> was answered with \<open>row\<close>.\<close>

definition row_read ::
  "((string \<times> json) list \<Rightarrow> string \<times> json \<Rightarrow> json res) \<Rightarrow> (string \<times> json) list \<Rightarrow> json \<Rightarrow> json \<Rightarrow> bool" where
  "row_read answers calls ident row \<longleftrightarrow> (\<exists>before broken later.
     calls = before @ [(''PRAGMA integrity_check'', JNull), (''PRAGMA foreign_key_check'', JNull),
       (''SELECT op_key,payload FROM hat_ops'', ident)] @ later
     \<and> answers before (''PRAGMA integrity_check'', JNull) = Inr (JArr [JStr ''ok''])
     \<and> answers (before @ [(''PRAGMA integrity_check'', JNull)]) (''PRAGMA foreign_key_check'', JNull) = Inr broken
     \<and> \<not> truthy broken
     \<and> answers (before @ [(''PRAGMA integrity_check'', JNull), (''PRAGMA foreign_key_check'', JNull)])
         (''SELECT op_key,payload FROM hat_ops'', ident) = Inr row)"

lemma row_read_later: "row_read a tr i row \<Longrightarrow> prefix tr tr' \<Longrightarrow> row_read a tr' i row"
  unfolding row_read_def prefix_def by (metis append_assoc)

lemma hcall_Inr: "hcall name arg s = (Inr v, t) \<longleftrightarrow> answer s (trace s) (name, arg) = Inr v
    \<and> t = s\<lparr>trace := trace s @ [(name, arg)], fs := disturb s (trace s) (name, arg) (fs s)\<rparr>"
  by (auto simp: hcall_def)

lemma does_Inr: "does name arg s = (Inr u, t) \<Longrightarrow> answer t = answer s \<and> trace t = trace s @ [(name, arg)]"
  by (auto simp: does_def bindP_eq_Inr hcall_Inr ret_def)

lemma ensuring_Inr: "ensuring m c s = (Inr x, t) \<Longrightarrow> \<exists>u v. m s = (Inr x, v) \<and> c v = (Inr u, t)"
  by (auto simp: ensuring_def split: prod.splits sum.splits)

lemma read_back_row:
  assumes "read_back output ident s = (Inr row, t)"
  shows "row_read (answer s) (trace t) ident row"
proof -
  from assms obtain u s1 v s2 where one: "does ''sqlite3.connect'' (JStr output) s = (Inr u, s1)"
    and two: "seqP (does ''PRAGMA ignore_check_constraints=ON'' JNull)
       (bindP (hcall ''PRAGMA integrity_check'' JNull) (\<lambda>whole.
        seqP (raise_when (\<lambda>_. Inr (whole \<noteq> JArr [JStr ''ok''])) ValueError)
        (bindP (hcall ''PRAGMA foreign_key_check'' JNull) (\<lambda>broken.
        seqP (raise_when (\<lambda>_. Inr (truthy broken)) ValueError)
        (hcall ''SELECT op_key,payload FROM hat_ops'' ident))))) s1 = (Inr row, s2)"
    and three: "does ''sqlite3.close'' JNull s2 = (Inr v, t)"
    unfolding read_back_def by (auto simp: seqP_eq_Inr dest!: ensuring_Inr)
  from two obtain w s3 where pragma: "does ''PRAGMA ignore_check_constraints=ON'' JNull s1 = (Inr w, s3)"
    and rest: "bindP (hcall ''PRAGMA integrity_check'' JNull) (\<lambda>whole.
        seqP (raise_when (\<lambda>_. Inr (whole \<noteq> JArr [JStr ''ok''])) ValueError)
        (bindP (hcall ''PRAGMA foreign_key_check'' JNull) (\<lambda>broken.
        seqP (raise_when (\<lambda>_. Inr (truthy broken)) ValueError)
        (hcall ''SELECT op_key,payload FROM hat_ops'' ident)))) s3 = (Inr row, s2)"
    unfolding seqP_eq_Inr by blast
  have "row_read (answer s3) (trace s2) ident row"
    using rest unfolding row_read_def
    by (intro exI [of _ "trace s3"]) (auto simp: bindP_eq_Inr seqP_eq_Inr hcall_Inr raise_when_eq_Inr)
  moreover have "answer s3 = answer s" "prefix (trace s2) (trace t)"
    using does_Inr [OF one] does_Inr [OF pragma] does_Inr [OF three] by auto
  ultimately show ?thesis using row_read_later by metis
qed

section \<open>A proof\<close>

lemma converting_returns: "converting cs e m s = (Inr x, t) \<longleftrightarrow> m s = (Inr x, t)"
  by (auto simp: converting_def catching_def raiseP_def split: prod.splits sum.splits)

lemma membership_row:
  assumes "verify_membership output c s = (Inr u, t)"
  shows "\<exists>ident. answered_id (c_response c) = Inr ident \<and> row_read (answer s) (trace t) ident (expected_row (c_body c))"
  using assms unfolding verify_membership_def
  by (auto simp: converting_returns bindP_eq_Inr lift_def raise_when_eq_Inr dest!: read_back_row)

lemma operation_key_text: "operation_key r = Inr (Some k) \<Longrightarrow> text_of r ''operation_id'' = k"
  by (auto simp: operation_key_def text_of_def split: option.splits aval.splits json.splits)

definition bound_to :: "forwarding \<Rightarrow> adict \<Rightarrow> bool" where
  "bound_to c r \<longleftrightarrow> (\<forall>(k, v) \<in> set (c_binding c). map_of r k = Some v)"

lemma take_context_Inr:
  assumes "take_context requirement s = (Inr c, t)"
  shows "\<exists>r k. requirement = Some r \<and> operation_key r = Inr (Some k) \<and> n_contexts s k = Some c \<and> bound_to c r
    \<and> answer t = answer s \<and> trace t = trace s \<and> n_contexts t = (n_contexts s)(k := None)"
  using assms unfolding take_context_def bound_to_def
  by (auto simp: bindP_eq_Inr seqP_eq_Inr lift_def gets_def modify_def ret_def raiseP_def
    split: option.splits if_splits)

text \<open>What a returned proof rests on: the operation was forwarded and is bound as required, its transaction is positive,
  and its row was read back.\<close>

definition proved_by :: "adict \<Rightarrow> forwarding \<Rightarrow> adict \<Rightarrow> native \<Rightarrow> native \<Rightarrow> bool" where
  "proved_by r c v s t \<longleftrightarrow> (\<exists>k tx ident. operation_key r = Inr (Some k) \<and> n_contexts s k = Some c \<and> bound_to c r
     \<and> n_contexts t k = None \<and> v = proof_value r k (c_database c) tx \<and> 0 < tx
     \<and> answered_id (c_response c) = Inr ident \<and> row_read (answer s) (trace t) ident (expected_row (c_body c)))"

lemma position_positive:
  assumes "position_of source raw = Inr tx"
  shows "0 < tx"
proof -
  from assms obtain v where v: "position_invalid source v = Inr False" "mapR int_val (getitem v ''txid'') = Inr tx"
    unfolding position_of_def by (auto simp only: reraise_eq_Inr bindR_eq_Inr raise_if_eq_Inr any_of_eq_False)
  then have "itm v ''txid'' (\<lambda>x. Inr (\<not> int_and x (\<lambda>n. 0 < n))) = Inr False"
    unfolding position_invalid_def any_of_eq_False by simp
  with v(2) show ?thesis by (auto simp only: mapR_eq_Inr bindR_eq_Inr) (auto simp: int_and_def split: json.splits)
qed

lemma synchronise_Inr: "synchronise fuel directory source s = (Inr tx, t) \<Longrightarrow> 0 < tx"
  unfolding synchronise_def by (auto simp: bindP_eq_Inr lift_def dest: position_positive)

lemma image_of_Inr:
  assumes "image_of fuel operation c s = (Inr (directory, tx, out), t)"
  shows "0 < tx \<and> after s t"
proof
  show "0 < tx" using assms unfolding image_of_def by (auto simp: bindP_eq_Inr seqP_eq_Inr ret_def dest: synchronise_Inr)
  have "keeps (after s) (image_of fuel operation c)" for s
    unfolding image_of_def by (auto intro!: proving_rules)
  then show "after s t" using assms by (rule kept_after)
qed

lemma record_proof_Inr:
  assumes "record_proof directory out value' s = (Inr v, t)"
  shows "v = value' \<and> after s t"
proof
  show "v = value'" using assms unfolding record_proof_def by (auto simp: bindP_eq_Inr seqP_eq_Inr ret_def)
  have "keeps (after s) (record_proof directory out value')" for s
    unfolding record_proof_def by (auto intro!: proving_rules)
  then show "after s t" using assms by (rule kept_after)
qed

lemma membership_after: "verify_membership out c s = (Inr u, t) \<Longrightarrow> after s t"
proof (rule kept_after)
  show "keeps (after s) (verify_membership out c)" for s
    unfolding verify_membership_def read_back_def by (auto intro!: proving_rules)
qed

lemma proof_follows:
  assumes "native_prove fuel requirement s = (Inr v, t)"
  shows "\<exists>r c. requirement = Some r \<and> proved_by r c v s t"
proof -
  from assms obtain c s1 directory tx out s2 u s3 where c: "take_context requirement s = (Inr c, s1)"
    and img: "image_of fuel (text_of (the requirement) ''operation_id'') c s1 = (Inr (directory, tx, out), s2)"
    and read: "verify_membership out c s2 = (Inr u, s3)"
    and rec: "record_proof directory out (proof_value (the requirement) (text_of (the requirement) ''operation_id'')
        (c_database c) tx) s3 = (Inr v, t)"
    unfolding native_prove_def Let_def by (auto simp: bindP_eq_Inr seqP_eq_Inr)
  obtain r k where r: "requirement = Some r" "operation_key r = Inr (Some k)" "n_contexts s k = Some c" "bound_to c r"
    and s1: "answer s1 = answer s" "n_contexts s1 = (n_contexts s)(k := None)"
    using take_context_Inr [OF c] by blast
  note image_of_Inr [OF img] record_proof_Inr [OF rec] membership_after [OF read]
  moreover from membership_row [OF read] obtain ident where "answered_id (c_response c) = Inr ident"
    "row_read (answer s2) (trace s3) ident (expected_row (c_body c))" by blast
  ultimately show ?thesis
    using r s1 operation_key_text [OF r(2)] unfolding proved_by_def after_def by (auto intro: row_read_later)
qed

section \<open>A release through the adapter\<close>

interpretation answering: adapting "\<lambda>t. answer t = A" for A
  by unfold_locales simp_all

lemmas answering_rules = answering.adapting_rules answering.keeps_small answering.keeps_revalidate answering.keeps_directory
  answering.keeps_synchronise answering.keeps_restore answering.keeps_binary

lemma answers_stay: "answer (snd (native_call fuel c a)) = answer (a :: native)"
proof -
  have contexts: "keeps (\<lambda>t :: native. answer t = A) (modify (\<lambda>s. s\<lparr>n_contexts := f s\<rparr>))"
    "keeps (\<lambda>t :: native. answer t = A) (modify (\<lambda>s. case key of None \<Rightarrow> s | Some k \<Rightarrow> s\<lparr>n_contexts := g k s\<rparr>))" for A f g key
    by (auto simp: keeps_def modify_def split: option.split)
  have "keeps (\<lambda>t :: native. answer t = A) (native_call fuel c)" for A
    unfolding native_call_def native_forward_def native_prove_def ask_service_def take_context_def image_of_def
      record_proof_def verify_membership_def read_back_def Let_def
    by (auto split: option.split intro!: answering_rules contexts)
  from this [of "answer a"] show ?thesis by (simp add: keeps_def)
qed

lemma replayed_answers: "answer (replayed fuel a calls) = answer a"
  by (induction calls rule: rev_induct) (simp_all add: replayed_def answers_stay)

lemma native_forward_Inr:
  assumes "native_forward r a = (Inr v, a')"
  shows "\<exists>dbn body k code raw digest bound. validate_policy (Some r) = Inr (dbn, body) \<and> operation_key r = Inr k
    \<and> check_request (Some r) = Inr (r, digest, bound) \<and> v = native_outcome code raw
    \<and> n_contexts a' = (n_contexts a)(the k \<mapsto> \<lparr>c_database = dbn, c_body = body, c_status = code, c_response = raw,
         c_binding = binding_of r digest dbn\<rparr>)"
proof -
  from assms obtain dbn body k s1 code raw s2 r' digest bound where "validate_policy (Some r) = Inr (dbn, body)"
    "operation_key r = Inr k" and ask: "ask_service r a = (Inr (code, raw), s2)"
    and "check_request (Some r) = Inr (r', digest, bound)" "v = native_outcome (int_val code) raw"
    and a': "a' = s2\<lparr>n_contexts := (n_contexts s2)(the k \<mapsto> \<lparr>c_database = dbn, c_body = body, c_status = int_val code,
      c_response = raw, c_binding = binding_of r digest dbn\<rparr>)\<rparr>"
    unfolding native_forward_def
    by (auto simp: bindP_eq_Inr seqP_eq_Inr lift_def raise_when_eq_Inr modify_def ret_def)
  moreover from this have "r' = r" using check_request_Inr by fastforce
  moreover have "n_contexts s2 = n_contexts a"
    using ask unfolding ask_service_def by (auto simp: bindP_eq_Inr lift_def gets_def ret_def hcall_Inr)
  ultimately show ?thesis by auto
qed

text \<open>The adapter is the one the calls of the admission were replayed on; the client's row is the one of the body.\<close>

definition released_row :: "nat \<Rightarrow> native \<Rightarrow> (string \<times> adict) list \<Rightarrow> adict \<Rightarrow> decision \<Rightarrow> bool" where
  "released_row fuel a calls r d \<longleftrightarrow> (\<exists>dbn body ident. validate_policy (Some r) = Inr (dbn, body)
     \<and> answered_id (d_body d) = Inr ident
     \<and> row_read (answer a) (trace (replayed fuel a calls)) ident (expected_row body))"

lemma native_call_Inr:
  assumes "answered_by fuel a calls c = Inr (Some v)"
  shows "(if fst c = ''forward'' then native_forward (snd c) else native_prove fuel (Some (snd c))) (replayed fuel a calls)
    = (Inr v, replayed fuel a (calls @ [c]))"
  using assms by (auto simp: answered_by_def native_call_def bindP_def ret_def replayed_def split: prod.splits sum.splits)

lemma text_at_there: "text_at r k p \<Longrightarrow> \<exists>t. map_of r k = Some (AJson (JStr t))"
  by (auto simp: text_at_def split: option.splits aval.splits json.splits)

lemma key_of_request:
  assumes "check_request (Some r) = Inr x"
  shows "operation_key r = Inr (Some (text_of r ''operation_id''))"
proof -
  have "request_valid (Some r)" using assms unfolding check_request_def by (meson Inl_Inr_False)
  then have "text_at r ''operation_id'' hex32" unfolding request_valid_def option.case by blast
  from text_at_there [OF this] show ?thesis by (auto simp: operation_key_def text_of_def)
qed

lemma released_row_follows:
  assumes policy: "validate_policy (Some r) = Inr (dbn, body)" and rel: "release r s d t"
    and reply: "ad_reply s = answered_by fuel a"
  shows "released_row fuel a (ad_trace t) r d"
proof -
  from rel reply obtain digest dat outcome v where q: "check_request (Some r) = Inr (r, digest, dat)"
    and t: "ad_trace t = ad_trace s @ [(''forward'', r), (''prove'', binding_of r digest dat)]"
    and fwd: "answered_by fuel a (ad_trace s) (''forward'', r) = Inr (Some outcome)"
    and prv: "answered_by fuel a (ad_trace s @ [(''forward'', r)]) (''prove'', binding_of r digest dat) = Inr (Some v)"
    and d: "d_body d = bytes_of outcome ''response_body''"
    unfolding release_def by auto
  let ?a1 = "replayed fuel a (ad_trace s @ [(''forward'', r)])"
  obtain dbn' body' k code raw digest' where f: "validate_policy (Some r) = Inr (dbn', body')" "operation_key r = Inr k"
    "outcome = native_outcome code raw"
    "n_contexts ?a1 = (n_contexts (replayed fuel a (ad_trace s)))(the k \<mapsto> \<lparr>c_database = dbn', c_body = body',
      c_status = code, c_response = raw, c_binding = binding_of r digest' dbn'\<rparr>)"
    using native_forward_Inr native_call_Inr [OF fwd] by fastforce
  obtain c where c: "proved_by (binding_of r digest dat) c v ?a1 (replayed fuel a (ad_trace t))"
    using proof_follows native_call_Inr [OF prv] t by fastforce
  have "operation_key (binding_of r digest dat) = Inr (Some (text_of r ''operation_id''))"
    by (simp add: operation_key_def binding_of_def)
  moreover have "the k = text_of r ''operation_id''" using key_of_request [OF q] f(2) by simp
  ultimately have "c = \<lparr>c_database = dbn', c_body = body', c_status = code, c_response = raw, c_binding = binding_of r digest' dbn'\<rparr>"
    using c f(4) unfolding proved_by_def by auto
  then show ?thesis
    using c f policy d unfolding released_row_def proved_by_def
    by (auto simp: replayed_answers native_outcome_def bytes_of_def)
qed

text \<open>C39 What the native adapter lets a client see was read back. If an admission through the adapter releases its
  answer, the client's body passed the adapter's policy, the released answer names one identifier, and SQLite found the
  image the adapter opened whole and answered for the row of that identifier exactly the operation key and the payload
  the client sent.\<close>

theorem native_release_read_back:
  "case admit_native fuel a request s of (Inl e, t) \<Rightarrow> True
   | (Inr d, t) \<Rightarrow> if d_released d then \<exists>r. request = Some r \<and> released_row fuel a (ad_trace t) r d else True"
proof (cases "admit_native fuel a request s")
  case (Pair x t)
  have "\<exists>r. request = Some r \<and> released_row fuel a (ad_trace t) r d" if x: "x = Inr d" and d: "d_released d" for d
  proof -
    from x Pair obtain p where p: "validate_policy request = Inr p"
      and run: "admit request (s\<lparr>ad_reply := answered_by fuel a\<rparr>) = (Inr d, t)"
      unfolding admit_native_def by (auto simp: bindP_eq_Inr seqP_eq_Inr lift_def modify_def)
    obtain r where r: "request = Some r" "release r (s\<lparr>ad_reply := answered_by fuel a\<rparr>) d t"
      using released_follows [OF run d] by blast
    show ?thesis using released_row_follows [OF _ r(2)] p r(1) by (cases p) auto
  qed
  then show ?thesis using Pair by (simp split: sum.split)
qed

end
