(* ===== verification/Descriptor.thy ===== *)
theory Descriptor
  imports Admission
begin

text \<open>
  \<open>hat/descriptor.py\<close>: authority over a local artifact held as open descriptors. Every directory from the root to
  the artifact is opened relative to its parent, without following a link, and can be resolved again later.
\<close>

section \<open>A file system that others change\<close>

text \<open>\<open>d_lookup t d n\<close> is what the name \<open>n\<close> stands for in directory \<open>d\<close> at instant \<open>t\<close>, \<open>d_node t i\<close> the state of
  a file then; every system call happens at an instant of its own, and nothing relates one instant to another.
  Descriptors are numbers; the table says what each open one stands for.\<close>

record dnode =
  dn_kind :: node_kind
  dn_mode :: nat
  dn_uid :: nat
  dn_gid :: nat
  dn_nlink :: nat
  dn_bytes :: string

record dworld =
  d_lookup :: "nat \<Rightarrow> ino \<Rightarrow> string \<Rightarrow> ino option"
  d_node :: "nat \<Rightarrow> ino \<Rightarrow> dnode"
  d_top :: ino
  d_new :: "nat \<Rightarrow> ino"
  d_written :: "nat \<Rightarrow> nat \<Rightarrow> nat"
  d_trouble :: "nat \<Rightarrow> exn option"
  d_now :: nat
  d_table :: "(nat \<times> ino) list"
  d_next :: nat

definition tick :: "('w dworld_scheme \<Rightarrow> nat \<Rightarrow> 'a res) \<Rightarrow> ('w dworld_scheme, 'a) prog" where
  "tick f s = (f s (d_now s), s\<lparr>d_now := Suc (d_now s)\<rparr>)"

text \<open>A new descriptor for a file found; a descriptor that is not open gives \<open>OSError\<close>.\<close>

definition hold :: "ino \<Rightarrow> ('w dworld_scheme, nat) prog" where
  "hold i s = (Inr (d_next s), s\<lparr>d_table := (d_next s, i) # d_table s, d_next := Suc (d_next s)\<rparr>)"

definition file_of :: "nat \<Rightarrow> 'w dworld_scheme \<Rightarrow> ino res" where
  "file_of fd s = (case map_of (d_table s) fd of None \<Rightarrow> Inl OSError | Some i \<Rightarrow> Inr i)"

definition os_close :: "nat \<Rightarrow> ('w dworld_scheme, unit) prog" where
  "os_close fd = seqP (raise_when (\<lambda>s. Inr (fd \<notin> fst ` set (d_table s))) OSError)
     (modify (\<lambda>s. s\<lparr>d_table := filter (\<lambda>e. fst e \<noteq> fd) (d_table s)\<rparr>))"

definition os_fstat :: "nat \<Rightarrow> ('w dworld_scheme, ino \<times> dnode) prog" where
  "os_fstat fd = tick (\<lambda>s t. mapR (\<lambda>i. (i, d_node s t i)) (file_of fd s))"

text \<open>\<open>os.open(name, ..., dir_fd=fd)\<close> of a directory and of a file, never through a link.\<close>

definition open_top :: "('w dworld_scheme, nat) prog" where
  "open_top = bindP (tick (\<lambda>s t. case d_trouble s t of Some e \<Rightarrow> Inl e | None \<Rightarrow> Inr (d_top s))) hold"

definition open_at :: "bool \<Rightarrow> nat \<Rightarrow> string \<Rightarrow> ('w dworld_scheme, nat) prog" where
  "open_at directory fd name = bindP (tick (\<lambda>s t. bindR (file_of fd s) (\<lambda>d. case d_lookup s t d name of
       None \<Rightarrow> Inl FileNotFoundError
     | Some i \<Rightarrow> (let k = dn_kind (d_node s t i) in
         if k = SymlinkNode \<or> directory \<and> k \<noteq> DirectoryNode then Inl OSError else Inr i)))) hold"

section \<open>Identities\<close>

type_synonym dir_identity = "ino \<times> node_kind \<times> nat \<times> nat \<times> nat"
type_synonym file_identity = "dir_identity \<times> nat \<times> nat"

definition directory_identity_of :: "ino \<times> dnode \<Rightarrow> dir_identity" where
  "directory_identity_of e = (fst e, dn_kind (snd e), dn_mode (snd e), dn_uid (snd e), dn_gid (snd e))"

definition stat_identity :: "ino \<times> dnode \<Rightarrow> file_identity" where
  "stat_identity e = (directory_identity_of e, dn_nlink (snd e), length (dn_bytes (snd e)))"

text \<open>\<open>_bounded_read\<close>: pieces of at most 65536 bytes until nothing is left or the limit is passed.\<close>

definition os_pread :: "nat \<Rightarrow> nat \<Rightarrow> nat \<Rightarrow> ('w dworld_scheme, string) prog" where
  "os_pread fd n offset = tick (\<lambda>s t. mapR (\<lambda>i. take n (drop offset (dn_bytes (d_node s t i)))) (file_of fd s))"

function read_on :: "nat \<Rightarrow> nat \<Rightarrow> string \<Rightarrow> 'w dworld_scheme \<Rightarrow> string res \<times> 'w dworld_scheme" where
  "read_on fd limit data s = (if limit < length data then (Inr data, s)
     else case os_pread fd (min 65536 (limit + 1 - length data)) (length data) s of
         (Inl e, t) \<Rightarrow> (Inl e, t)
       | (Inr part, t) \<Rightarrow> if part = [] then (Inr data, t) else read_on fd limit (data @ part) t)"
  by pat_completeness auto
termination read_on
  by (relation "measure (\<lambda>(fd, limit, data, s). Suc limit - length data)") (auto intro!: diff_less_mono2 simp: length_greater_0_conv)

definition bounded_read :: "nat \<Rightarrow> nat \<Rightarrow> ('w dworld_scheme, string \<times> string \<times> file_identity) prog" where
  "bounded_read fd limit =
     bindP (os_fstat fd) (\<lambda>before. bindP (read_on fd limit []) (\<lambda>data. bindP (os_fstat fd) (\<lambda>after.
     seqP (raise_when (\<lambda>_. Inr (limit < length data \<or> stat_identity before \<noteq> stat_identity after
         \<or> length (dn_bytes (snd before)) \<noteq> length data)) ValueError)
     (ret (data, sha256_hex data, stat_identity after)))))"

section \<open>Authorities\<close>

text \<open>\<open>DescriptorAuthority\<close>: the directories held from \<open>/\<close> on, each with its name, descriptor, identity and whether
  it is at or below the trusted root, and the file with what was read of it.\<close>

record held_dir =
  hd_path :: "string list"
  hd_fd :: nat
  hd_identity :: dir_identity
  hd_trusted :: bool

record held_file =
  hf_fd :: nat
  hf_identity :: file_identity
  hf_raw :: string
  hf_sha256 :: string
  hf_limit :: nat

record desc_authority =
  da_path :: "string list"
  da_root :: "string list"
  da_uids :: "nat list"
  da_dirs :: "held_dir list"
  da_file :: "held_file option"

fun close_fds :: "nat list \<Rightarrow> ('w dworld_scheme, unit) prog" where
  "close_fds [] = ret ()"
| "close_fds (fd # fds) = seqP (os_close fd) (close_fds fds)"

definition close_authority :: "desc_authority \<Rightarrow> ('w dworld_scheme, unit) prog" where
  "close_authority a = seqP (case da_file a of None \<Rightarrow> ret () | Some f \<Rightarrow> os_close (hf_fd f))
     (close_fds (rev (map hd_fd (da_dirs a))))"

text \<open>\<open>close_all\<close>: every one in reverse; the first failure is raised unless another exception is being handled.\<close>

fun close_each :: "desc_authority list \<Rightarrow> exn option \<Rightarrow> ('w dworld_scheme, exn option) prog" where
  "close_each [] first = ret first"
| "close_each (a # as) first = bindP (on_exn (seqP (close_authority a) (ret first))
     (\<lambda>e. ret (case first of None \<Rightarrow> Some e | Some e' \<Rightarrow> Some e'))) (close_each as)"

definition close_all :: "bool \<Rightarrow> desc_authority list \<Rightarrow> ('w dworld_scheme, unit) prog" where
  "close_all active as = bindP (close_each (rev as) None) (\<lambda>first. case first of
     None \<Rightarrow> ret () | Some e \<Rightarrow> if active then ret () else raiseP e)"

text \<open>\<open>_record_directory\<close> closes the descriptor it refuses.\<close>

definition untrusted :: "nat list \<Rightarrow> dnode \<Rightarrow> bool" where
  "untrusted uids n \<longleftrightarrow> dn_uid n \<notin> set uids \<or> others_write (dn_mode n)"

definition record_directory :: "nat list \<Rightarrow> string list \<Rightarrow> nat \<Rightarrow> bool \<Rightarrow> ('w dworld_scheme, held_dir) prog" where
  "record_directory uids p fd trusted = on_exn
     (bindP (os_fstat fd) (\<lambda>e.
      seqP (raise_when (\<lambda>_. Inr (dn_kind (snd e) \<noteq> DirectoryNode)) ValueError)
      (seqP (raise_when (\<lambda>_. Inr (trusted \<and> untrusted uids (snd e))) ValueError)
      (ret \<lparr>hd_path = p, hd_fd = fd, hd_identity = directory_identity_of e, hd_trusted = trusted\<rparr>))))
     (\<lambda>x. seqP (os_close fd) (raiseP x))"

text \<open>The loop over the names: \<open>current\<close> is the path so far, \<open>dirs\<close> the directories held, the newest last. A failure
  closes those already held.\<close>

definition abandon :: "held_dir list \<Rightarrow> exn \<Rightarrow> ('w dworld_scheme, 'a) prog" where
  "abandon dirs e = seqP (close_fds (rev (map hd_fd dirs))) (raiseP (if isa e OSError then ValueError else e))"

fun open_below :: "nat list \<Rightarrow> nat \<Rightarrow> string list \<Rightarrow> held_dir list \<Rightarrow> string list \<Rightarrow> ('w dworld_scheme, held_dir list) prog" where
  "open_below uids depth current dirs [] = ret dirs"
| "open_below uids depth current dirs (name # names) = bindP (on_exn
     (bindP (open_at True (hd_fd (last dirs)) name) (\<lambda>fd.
      record_directory uids (current @ [name]) fd (depth \<le> length current + 1))) (abandon dirs))
     (\<lambda>d. open_below uids depth (current @ [name]) (dirs @ [d]) names)"

text \<open>The root's descriptor is still the handler's when recording it fails: it is closed once more.\<close>

definition open_directories :: "nat list \<Rightarrow> string list \<Rightarrow> string list \<Rightarrow> ('w dworld_scheme, held_dir list) prog" where
  "open_directories uids base_names target =
     bindP open_top (\<lambda>fd.
     bindP (on_exn (record_directory uids [] fd (base_names = []))
        (\<lambda>e. seqP (os_close fd) (raiseP (if isa e OSError then ValueError else e)))) (\<lambda>d.
     open_below uids (length base_names) [] [d] target))"

definition new_authority :: "string \<Rightarrow> string \<Rightarrow> nat list \<Rightarrow> bool \<Rightarrow> ('w dworld_scheme, desc_authority) prog" where
  "new_authority p base_dir uids directory =
     (let cs = path_comps p; rs = path_comps base_dir in
     seqP (raise_when (\<lambda>_. Inr (''..'' \<in> set cs \<or> ''..'' \<in> set rs)) ValueError)
     (seqP (raise_when (\<lambda>_. Inr (relative_parts p base_dir = None)) ValueError)
     (seqP (raise_when (\<lambda>_. Inr (uids = [])) ValueError)
     (bindP (open_directories uids rs (if directory \<or> cs = rs then cs else butlast cs)) (\<lambda>dirs.
      ret \<lparr>da_path = cs, da_root = rs, da_uids = uids, da_dirs = dirs, da_file = None\<rparr>)))))"

definition open_directory :: "string \<Rightarrow> string \<Rightarrow> nat list \<Rightarrow> ('w dworld_scheme, desc_authority) prog" where
  "open_directory p base_dir uids = bindP (new_authority p base_dir uids True) (\<lambda>a.
     if hd_path (last (da_dirs a)) \<noteq> da_path a then seqP (close_all False [a]) (raiseP ValueError) else ret a)"

text \<open>What a file is expected to be; \<open>None\<close> asks for nothing.\<close>

record expected =
  e_uid :: "nat option"
  e_gid :: "nat option"
  e_mode :: "nat option"
  e_nlink :: "nat option"
  e_size :: "nat option"
  e_sha256 :: "string option"
  e_limit :: nat
  e_empty :: bool

definition unless :: "'a option \<Rightarrow> 'a \<Rightarrow> bool" where
  "unless want x \<longleftrightarrow> (case want of None \<Rightarrow> False | Some y \<Rightarrow> x \<noteq> y)"

definition file_differs :: "expected \<Rightarrow> dnode \<Rightarrow> bool" where
  "file_differs e n \<longleftrightarrow> dn_kind n \<noteq> RegularNode \<or> unless (e_uid e) (dn_uid n) \<or> unless (e_gid e) (dn_gid n)
     \<or> unless (e_mode e) (dn_mode n mod 4096) \<or> unless (e_nlink e) (dn_nlink n) \<or> unless (e_size e) (length (dn_bytes n))
     \<or> (\<not> e_empty e \<and> dn_bytes n = []) \<or> e_limit e < length (dn_bytes n)"

definition open_held_file :: "desc_authority \<Rightarrow> expected \<Rightarrow> ('w dworld_scheme, held_file) prog" where
  "open_held_file a e =
     bindP (converting [OSError] ValueError (open_at False (hd_fd (last (da_dirs a))) (if da_path a = [] then [] else last (da_path a)))) (\<lambda>fd.
     on_exn
      (bindP (os_fstat fd) (\<lambda>info.
       seqP (raise_when (\<lambda>_. Inr (file_differs e (snd info))) ValueError)
       (bindP (bounded_read fd (e_limit e)) (\<lambda>(raw, digest, identity).
       seqP (raise_when (\<lambda>_. Inr (unless (e_sha256 e) digest)) ValueError)
       (ret \<lparr>hf_fd = fd, hf_identity = identity, hf_raw = raw, hf_sha256 = digest, hf_limit = e_limit e\<rparr>)))))
      (\<lambda>x. seqP (os_close fd) (raiseP x)))"

definition open_file :: "string \<Rightarrow> string \<Rightarrow> nat list \<Rightarrow> expected \<Rightarrow> ('w dworld_scheme, desc_authority) prog" where
  "open_file p base_dir uids e = bindP (new_authority p base_dir uids False) (\<lambda>a.
     on_exn (bindP (open_held_file a e) (\<lambda>f. ret (a\<lparr>da_file := Some f\<rparr>)))
       (\<lambda>x. seqP (close_all True [a]) (raiseP x)))"

section \<open>Resolving again\<close>

fun recheck_held :: "held_dir list \<Rightarrow> ('w dworld_scheme, unit) prog" where
  "recheck_held [] = ret ()"
| "recheck_held (d # ds) = bindP (os_fstat (hd_fd d)) (\<lambda>e.
     seqP (raise_when (\<lambda>_. Inr (directory_identity_of e \<noteq> hd_identity d)) ValueError) (recheck_held ds))"

text \<open>\<open>try: m finally: close\<close> of every descriptor opened since \<open>n\<close>: the list \<open>reopened\<close>.\<close>

definition reopened :: "nat \<Rightarrow> 'w dworld_scheme \<Rightarrow> nat list" where
  "reopened n s = filter (\<lambda>fd. n \<le> fd) (map fst (d_table s))"

definition closing_new :: "('w dworld_scheme, 'a) prog \<Rightarrow> ('w dworld_scheme, 'a) prog" where
  "closing_new m = bindP (gets d_next) (\<lambda>n. ensuring m (bindP (gets (reopened n)) close_fds))"

text \<open>From the newly opened root down the names of the path to the directory held last.\<close>

fun rewalk :: "nat \<Rightarrow> held_dir list \<Rightarrow> string list \<Rightarrow> ('w dworld_scheme, nat) prog" where
  "rewalk fd (d # ds) (name # names) = bindP (open_at True fd name) (\<lambda>child.
     bindP (os_fstat child) (\<lambda>e.
     seqP (raise_when (\<lambda>_. Inr (directory_identity_of e \<noteq> hd_identity d)) ValueError) (rewalk child ds names)))"
| "rewalk fd ds names = ret fd"

definition recheck_file :: "nat \<Rightarrow> string \<Rightarrow> held_file \<Rightarrow> ('w dworld_scheme, unit) prog" where
  "recheck_file fd name f =
     bindP (bounded_read (hf_fd f) (hf_limit f)) (\<lambda>(raw, digest, identity).
     seqP (raise_when (\<lambda>_. Inr (identity \<noteq> hf_identity f \<or> digest \<noteq> hf_sha256 f \<or> raw \<noteq> hf_raw f)) ValueError)
     (bindP (open_at False fd name) (\<lambda>current.
      bindP (bounded_read current (hf_limit f)) (\<lambda>(_, digest', identity').
      raise_when (\<lambda>_. Inr (identity' \<noteq> hf_identity f \<or> digest' \<noteq> hf_sha256 f)) ValueError))))"

definition recheck_names :: "desc_authority \<Rightarrow> ('w dworld_scheme, unit) prog" where
  "recheck_names a =
     bindP open_top (\<lambda>fd. bindP (os_fstat fd) (\<lambda>e.
     seqP (raise_when (\<lambda>_. Inr (directory_identity_of e \<noteq> hd_identity (hd (da_dirs a)))) ValueError)
     (bindP (rewalk fd (tl (da_dirs a)) (hd_path (last (da_dirs a)))) (\<lambda>parent.
      case da_file a of None \<Rightarrow> ret () | Some f \<Rightarrow> recheck_file parent (if da_path a = [] then [] else last (da_path a)) f))))"

definition recheck :: "desc_authority \<Rightarrow> ('w dworld_scheme, unit) prog" where
  "recheck a = seqP (recheck_held (da_dirs a)) (converting [OSError] ValueError (closing_new (recheck_names a)))"

section \<open>Copies\<close>

text \<open>Effects on an open file that may fail: \<open>fchmod\<close>, \<open>fchown\<close> and \<open>fsync\<close>.\<close>

definition effect :: "('w dworld_scheme, unit) prog" where
  "effect = tick (\<lambda>s t. case d_trouble s t of Some e \<Rightarrow> Inl e | None \<Rightarrow> Inr ())"

definition create_at :: "nat \<Rightarrow> string \<Rightarrow> ('w dworld_scheme, nat) prog" where
  "create_at fd name = bindP (tick (\<lambda>s t. bindR (file_of fd s) (\<lambda>d. case d_trouble s t of Some e \<Rightarrow> Inl e
     | None \<Rightarrow> (case d_lookup s t d name of Some _ \<Rightarrow> Inl FileExistsError | None \<Rightarrow> Inr (d_new s t))))) hold"

text \<open>\<open>os.write\<close> takes part of what is left; nothing taken is an error.\<close>

function write_on :: "string \<Rightarrow> 'w dworld_scheme \<Rightarrow> unit res \<times> 'w dworld_scheme" where
  "write_on view s = (if view = [] then (Inr (), s)
     else let n = min (d_written s (d_now s) (length view)) (length view) in
       if n = 0 then (Inl OSError, s\<lparr>d_now := Suc (d_now s)\<rparr>)
       else write_on (drop n view) (s\<lparr>d_now := Suc (d_now s)\<rparr>))"
  by pat_completeness auto
termination write_on
  by (relation "measure (\<lambda>(view, s). length view)") auto

definition copy_refused :: "held_file \<Rightarrow> nat \<Rightarrow> nat \<Rightarrow> nat \<Rightarrow> dnode \<Rightarrow> bool" where
  "copy_refused f mode uid gid n \<longleftrightarrow> dn_mode n mod 4096 \<noteq> mode \<or> dn_uid n \<noteq> uid \<or> dn_gid n \<noteq> gid
     \<or> dn_nlink n \<noteq> 1 \<or> length (dn_bytes n) \<noteq> length (hf_raw f)"

definition write_copy :: "desc_authority \<Rightarrow> string \<Rightarrow> held_file \<Rightarrow> nat \<Rightarrow> nat \<Rightarrow> nat \<Rightarrow> ('w dworld_scheme, unit) prog" where
  "write_copy destination name f mode uid gid =
     bindP (create_at (hd_fd (last (da_dirs destination))) name) (\<lambda>out.
     ensuring (seqP (write_on (hf_raw f)) (seqP effect (seqP effect (seqP effect
       (bindP (os_fstat out) (\<lambda>info. raise_when (\<lambda>_. Inr (copy_refused f mode uid gid (snd info))) ValueError))))))
      (os_close out))"

definition copy_to :: "desc_authority \<Rightarrow> desc_authority \<Rightarrow> string \<Rightarrow> nat \<Rightarrow> nat \<Rightarrow> nat \<Rightarrow> ('w dworld_scheme, desc_authority) prog" where
  "copy_to a destination name mode uid gid = (case da_file a of None \<Rightarrow> raiseP ValueError | Some f \<Rightarrow>
     seqP (raise_when (\<lambda>_. Inr (CHR ''/'' \<in> set name \<or> name \<in> {[], ''.'', ''..''})) ValueError)
     (seqP (recheck a) (seqP (recheck destination)
     (seqP (write_copy destination name f mode uid gid)
     (seqP effect
     (bindP (open_file (path_text (da_path destination @ [name])) (path_text (da_root destination)) (da_uids destination)
        \<lparr>e_uid = Some uid, e_gid = Some gid, e_mode = Some mode, e_nlink = Some 1, e_size = Some (length (hf_raw f)),
          e_sha256 = Some (hf_sha256 f), e_limit = hf_limit f, e_empty = (hf_raw f = [])\<rparr>) (\<lambda>copied.
      on_exn (seqP (recheck a) (seqP (recheck destination) (seqP (recheck copied) (ret copied))))
        (\<lambda>e. seqP (close_all True [copied]) (raiseP e)))))))))"

end
