(* ===== verification/Descriptor_Properties.thy ===== *)
theory Descriptor_Properties
  imports Descriptor
begin

text \<open>
  What a successful recheck of a descriptor authority establishes of the file system that others change, and the
  refusal of an untrusted root.
\<close>

section \<open>Single calls\<close>

text \<open>The world does not change, the instant only grows.\<close>

definition later :: "dworld \<Rightarrow> dworld \<Rightarrow> bool" where
  "later s t \<longleftrightarrow> d_lookup t = d_lookup s \<and> d_node t = d_node s \<and> d_top t = d_top s \<and> d_now s \<le> d_now t"

lemma later_refl [simp]: "later s s"
  by (simp add: later_def)

lemma later_trans: "later s t \<Longrightarrow> later t u \<Longrightarrow> later s u"
  by (auto simp: later_def)

lemma open_at_Inr:
  assumes "open_at directory fd name s = (Inr c, t)"
  shows "\<exists>d j. file_of fd s = Inr d \<and> d_lookup s (d_now s) d name = Some j \<and> file_of c t = Inr j
    \<and> later s t \<and> d_now s < d_now t"
  using assms by (auto simp: open_at_def bindP_def tick_def hold_def file_of_def later_def Let_def
      split: option.splits if_splits)

lemma fstat_Inr:
  assumes "os_fstat fd s = (Inr e, t)"
  shows "\<exists>i. file_of fd s = Inr i \<and> e = (i, d_node s (d_now s) i) \<and> t = s\<lparr>d_now := Suc (d_now s)\<rparr>"
  using assms by (auto simp: os_fstat_def tick_def file_of_def split: option.splits)

lemma later_now [simp]: "later s (s\<lparr>d_now := Suc (d_now s)\<rparr>)"
  by (simp add: later_def)

lemma file_of_now [simp]: "file_of fd (s\<lparr>d_now := n\<rparr>) = file_of fd s"
  by (simp add: file_of_def)

lemma fst_identity [simp]: "fst (directory_identity_of e) = fst e"
  by (simp add: directory_identity_of_def)

section \<open>Walking down again\<close>

text \<open>At instants from \<open>lo\<close> to \<open>hi\<close> the name led from one directory to the other, which had the identity held.\<close>

definition entry_found :: "nat \<Rightarrow> nat \<Rightarrow> dworld \<Rightarrow> dir_identity \<Rightarrow> dir_identity \<Rightarrow> string \<Rightarrow> bool" where
  "entry_found lo hi s d d' name \<longleftrightarrow> (\<exists>u u'. lo \<le> u \<and> u < hi \<and> lo \<le> u' \<and> u' < hi
     \<and> d_lookup s u (fst d) name = Some (fst d') \<and> directory_identity_of (fst d', d_node s u' (fst d')) = d')"

lemma entry_found_mono: "entry_found lo hi s d d' name \<Longrightarrow> lo' \<le> lo \<Longrightarrow> hi \<le> hi' \<Longrightarrow> entry_found lo' hi' s d d' name"
  unfolding entry_found_def by (meson le_trans less_le_trans)

lemma entry_found_later: "later s t \<Longrightarrow> entry_found lo hi t d d' name = entry_found lo hi s d d' name"
  by (simp add: entry_found_def later_def)

text \<open>The same for a list of directories below one.\<close>

fun all_found :: "nat \<Rightarrow> nat \<Rightarrow> dworld \<Rightarrow> dir_identity \<Rightarrow> held_dir list \<Rightarrow> string list \<Rightarrow> bool" where
  "all_found lo hi s d (e # es) (name # names) \<longleftrightarrow>
     entry_found lo hi s d (hd_identity e) name \<and> all_found lo hi s (hd_identity e) es names"
| "all_found lo hi s d es names \<longleftrightarrow> True"

lemma all_found_mono: "all_found lo hi s d es names \<Longrightarrow> lo' \<le> lo \<Longrightarrow> hi \<le> hi' \<Longrightarrow> all_found lo' hi' s d es names"
  by (induction lo hi s d es names rule: all_found.induct) (auto intro: entry_found_mono)

lemma all_found_later: "later s t \<Longrightarrow> all_found lo hi t d es names = all_found lo hi s d es names"
  by (induction lo hi s d es names rule: all_found.induct) (simp_all add: entry_found_later)

lemma rewalk_Inr:
  assumes "rewalk fd ds names s = (Inr p, t)" and "file_of fd s = Inr (fst d)" and "length ds = length names"
  shows "later s t \<and> all_found (d_now s) (d_now t) s d ds names
    \<and> file_of p t = Inr (fst (if ds = [] then d else hd_identity (last ds)))"
  using assms
proof (induction fd ds names arbitrary: s d rule: rewalk.induct)
  case (1 fd e es name names)
  from 1(2) obtain c u where c: "open_at True fd name s = (Inr c, u)"
    and "bindP (os_fstat c) (\<lambda>x. seqP (raise_when (\<lambda>_. Inr (directory_identity_of x \<noteq> hd_identity e)) ValueError)
          (rewalk c es names)) u = (Inr p, t)"
    by (auto simp: bindP_eq_Inr)
  then obtain x v where x: "os_fstat c u = (Inr x, v)" "directory_identity_of x = hd_identity e"
    and rest: "rewalk c es names v = (Inr p, t)"
    by (auto simp: bindP_eq_Inr seqP_eq_Inr raise_when_def raise_if_def split: if_splits)
  from open_at_Inr [OF c] 1(3) obtain j where j: "d_lookup s (d_now s) (fst d) name = Some j" "file_of c u = Inr j"
    "later s u" "d_now s < d_now u" by auto
  from fstat_Inr [OF x(1)] j have xj: "x = (j, d_node u (d_now u) j)" and v: "v = u\<lparr>d_now := Suc (d_now u)\<rparr>" by auto
  have je: "j = fst (hd_identity e)" using x(2) [symmetric] xj by simp
  have "file_of c v = Inr (fst (hd_identity e))" using j(2) v je by simp
  moreover have "length es = length names" using 1(4) by simp
  ultimately have ih: "later v t" "all_found (d_now v) (d_now t) v (hd_identity e) es names"
    "file_of p t = Inr (fst (if es = [] then hd_identity e else hd_identity (last es)))"
    using 1(1) [OF rest] by blast+
  have sv: "later s v" using j(3) v later_trans later_now by blast
  then have st: "later s t" using ih(1) later_trans by blast
  have le: "d_now s \<le> d_now v" "d_now v \<le> d_now t" using sv ih(1) by (simp_all add: later_def)
  have "entry_found (d_now s) (d_now t) s d (hd_identity e) name"
    unfolding entry_found_def
    using j(1,3,4) je xj x(2) v le(2) by (intro exI [of _ "d_now s"] exI [of _ "d_now u"]) (auto simp: later_def)
  moreover have "all_found (d_now s) (d_now t) s (hd_identity e) es names"
    using ih(2) all_found_mono [OF _ le(1) order_refl] all_found_later [OF sv] by blast
  ultimately show ?case using st ih(3) by simp
qed (auto simp: ret_def)

section \<open>A recheck\<close>

lemma close_fds_later: "later s (snd (close_fds fds s)) \<and> d_now (snd (close_fds fds s)) = d_now s"
proof (induction fds arbitrary: s)
  case (Cons fd fds)
  have "later s (snd (os_close fd s)) \<and> d_now (snd (os_close fd s)) = d_now s"
    by (auto simp: os_close_def seqP_def bindP_def raise_when_def modify_def later_def split: sum.splits)
  with Cons show ?case
    by (auto simp: seqP_def bindP_def split: prod.splits sum.splits) (metis later_trans snd_conv)+
qed (simp add: ret_def)

lemma close_fds_run: "close_fds fds s = (r, t) \<Longrightarrow> later s t \<and> d_now t = d_now s"
  using close_fds_later [of s fds] by simp

lemma closing_Inr: "closing_new m s = (Inr x, t) \<Longrightarrow> \<exists>u. m s = (Inr x, u) \<and> later u t \<and> d_now t = d_now u"
  by (auto simp: closing_new_def bindP_def gets_def ensuring_def dest!: close_fds_run split: prod.splits sum.splits)

lemma held_later: "recheck_held ds s = (Inr u, t) \<Longrightarrow> later s t"
proof (induction ds arbitrary: s)
  case (Cons d ds)
  then obtain e v where "os_fstat (hd_fd d) s = (Inr e, v)" "recheck_held ds v = (Inr u, t)"
    by (auto simp: bindP_eq_Inr seqP_eq_Inr raise_when_def raise_if_def split: if_splits)
  with Cons.IH fstat_Inr later_trans later_now show ?case by metis
qed (simp add: ret_def)

text \<open>Reading keeps the descriptors.\<close>

definition reads :: "dworld \<Rightarrow> dworld \<Rightarrow> bool" where
  "reads s t \<longleftrightarrow> later s t \<and> d_table t = d_table s"

lemma reads_refl [simp]: "reads s s"
  by (simp add: reads_def)

lemma reads_trans: "reads s t \<Longrightarrow> reads t u \<Longrightarrow> reads s u"
  by (auto simp: reads_def intro: later_trans)

lemma pread_later: "os_pread fd n k s = (r, t) \<Longrightarrow> reads s t"
  by (auto simp: os_pread_def tick_def reads_def later_def)

lemma read_on_later: "reads s (snd (read_on fd limit data s))"
proof (induction fd limit data s rule: read_on.induct)
  case (1 fd limit data s)
  show ?case
  proof (cases "limit < length data")
    case False
    obtain r t where p: "os_pread fd (min 65536 (limit + 1 - length data)) (length data) s = (r, t)" by fastforce
    from pread_later [OF p] False p 1 show ?thesis
      by (cases r) (auto simp: read_on.simps [of fd limit data s] intro: reads_trans)
  qed (simp add: read_on.simps [of fd limit data s])
qed

lemma bounded_Inr:
  assumes "bounded_read fd limit s = (Inr (raw, dg, identity), t)"
  shows "\<exists>i u. file_of fd s = Inr i \<and> reads s t \<and> d_now s \<le> u \<and> u < d_now t \<and> identity = stat_identity (i, d_node s u i)
    \<and> dg = sha256_hex raw"
proof -
  from assms obtain e v data w e' where e: "os_fstat fd s = (Inr e, v)" and data: "read_on fd limit [] v = (Inr data, w)"
    and e': "os_fstat fd w = (Inr e', t)" and eq: "stat_identity e = stat_identity e'"
    "identity = stat_identity e'" "raw = data" "dg = sha256_hex data"
    by (auto simp: bounded_read_def bindP_eq_Inr seqP_eq_Inr raise_when_def raise_if_def ret_def split: if_splits)
  from fstat_Inr [OF e] obtain i where i: "file_of fd s = Inr i" "e = (i, d_node s (d_now s) i)" "v = s\<lparr>d_now := Suc (d_now s)\<rparr>"
    by blast
  have "reads v w" using read_on_later [of v fd limit "[]"] data by simp
  moreover have "reads w t" "d_now w < d_now t" using fstat_Inr [OF e'] by (auto simp: reads_def)
  ultimately have "reads s t" "d_now s < d_now t" using i(3) by (auto simp: reads_def later_def)
  then show ?thesis using i eq by (intro exI [of _ i] exI [of _ "d_now s"]) auto
qed

text \<open>The name of the file led from the last directory to a file of the held identity.\<close>

definition file_found :: "nat \<Rightarrow> nat \<Rightarrow> dworld \<Rightarrow> dir_identity \<Rightarrow> string \<Rightarrow> file_identity \<Rightarrow> bool" where
  "file_found lo hi s d name f \<longleftrightarrow> (\<exists>u u'. lo \<le> u \<and> u < hi \<and> lo \<le> u' \<and> u' < hi
     \<and> d_lookup s u (fst d) name = Some (fst (fst f)) \<and> stat_identity (fst (fst f), d_node s u' (fst (fst f))) = f)"

lemma file_found_wider:
  assumes "file_found lo hi t d name f" and "later s t" and "lo' \<le> lo" and "hi \<le> hi'"
  shows "file_found lo' hi' s d name f"
proof -
  from assms(1) obtain u u' where "lo \<le> u" "u < hi" "lo \<le> u'" "u' < hi" "d_lookup t u (fst d) name = Some (fst (fst f))"
    "stat_identity (fst (fst f), d_node t u' (fst (fst f))) = f"
    by (auto simp: file_found_def)
  with assms(2-4) show ?thesis unfolding file_found_def later_def by (intro exI [of _ u] exI [of _ u']) auto
qed

lemma fst_stat [simp]: "fst (fst (stat_identity e)) = fst e"
  by (simp add: stat_identity_def)

lemma recheck_file_Inr:
  assumes "recheck_file fd name f s = (Inr u, t)" and "file_of fd s = Inr (fst d)"
  shows "later s t \<and> file_found (d_now s) (d_now t) s d name (hf_identity f)"
proof -
  from assms(1) obtain raw dg identity v c w raw' dg' identity'
    where one: "bounded_read (hf_fd f) (hf_limit f) s = (Inr (raw, dg, identity), v)"
      and c: "open_at False fd name v = (Inr c, w)"
      and two: "bounded_read c (hf_limit f) w = (Inr (raw', dg', identity'), t)" and same: "identity' = hf_identity f"
    by (auto simp: recheck_file_def bindP_eq_Inr seqP_eq_Inr raise_when_def raise_if_def split: if_splits)
  from bounded_Inr [OF one] have sv: "reads s v" by blast
  with assms(2) have "file_of fd v = Inr (fst d)" by (simp add: reads_def file_of_def)
  with open_at_Inr [OF c] obtain j where j: "d_lookup v (d_now v) (fst d) name = Some j" "file_of c w = Inr j"
    "later v w" "d_now v < d_now w" by auto
  from bounded_Inr [OF two] j(2) obtain u' where u': "reads w t" "d_now w \<le> u'" "u' < d_now t"
    "identity' = stat_identity (j, d_node w u' j)" by auto
  have jf: "j = fst (fst (hf_identity f))" using same u'(4) by (metis fst_conv fst_stat)
  have "later s w" using sv j(3) by (auto simp: reads_def intro: later_trans)
  then have st: "later s t" using u'(1) by (auto simp: reads_def intro: later_trans)
  moreover have "file_found (d_now s) (d_now t) s d name (hf_identity f)"
    unfolding file_found_def
    using j jf u' same sv \<open>later s w\<close> by (intro exI [of _ "d_now v"] exI [of _ u']) (auto simp: reads_def later_def)
  ultimately show ?thesis ..
qed

lemma converting_Inr: "converting cs c m s = (Inr x, t) \<longleftrightarrow> m s = (Inr x, t)"
  by (cases "m s") (auto simp: converting_def catching_def raiseP_def split: sum.splits)

lemma recheck_Inr:
  assumes run: "recheck a s = (Inr u, t)" and dirs: "da_dirs a = d # ds" "length ds = length (hd_path (last (da_dirs a)))"
  shows "later s t \<and> fst (hd_identity d) = d_top s \<and> all_found (d_now s) (d_now t) s (hd_identity d) ds (hd_path (last (da_dirs a)))
    \<and> (\<forall>f. da_file a = Some f \<longrightarrow> file_found (d_now s) (d_now t) s (hd_identity (last (da_dirs a)))
         (if da_path a = [] then [] else last (da_path a)) (hf_identity f))"
proof -
  let ?last = "last (da_dirs a)" and ?names = "hd_path (last (da_dirs a))"
  from run obtain u0 v where held: "recheck_held (da_dirs a) s = (Inr u0, v)"
    and again: "closing_new (recheck_names a) v = (Inr u, t)"
    by (auto simp: recheck_def seqP_eq_Inr converting_Inr)
  from closing_Inr [OF again] obtain w where names: "recheck_names a v = (Inr u, w)" and wt: "later w t" "d_now t = d_now w"
    by blast
  let ?below = "\<lambda>p. case da_file a of None \<Rightarrow> ret () | Some f \<Rightarrow> recheck_file p (if da_path a = [] then [] else last (da_path a)) f"
  let ?same = "\<lambda>e. raise_when (\<lambda>_. Inr (directory_identity_of e \<noteq> hd_identity d)) ValueError"
  have form: "recheck_names a = bindP open_top (\<lambda>fd. bindP (os_fstat fd) (\<lambda>e. seqP (?same e) (bindP (rewalk fd ds ?names) ?below)))"
    by (simp add: recheck_names_def dirs(1))
  from names [unfolded form bindP_eq_Inr seqP_eq_Inr]
  obtain fd v1 e v2 v3 u1 p w1 where top: "open_top v = (Inr fd, v1)" and e0: "os_fstat fd v1 = (Inr e, v2)"
    and same: "?same e v2 = (Inr u1, v3)" and walk0: "rewalk fd ds ?names v3 = (Inr p, w1)" and file': "?below p w1 = (Inr u, w)"
    by (elim exE conjE) (rule that; assumption)
  have e: "os_fstat fd v1 = (Inr e, v2)" "directory_identity_of e = hd_identity d" and walk: "rewalk fd ds ?names v2 = (Inr p, w1)"
    using e0 same walk0 by (cases "directory_identity_of e = hd_identity d"; simp add: raise_when_def)+
  have sv: "later s v" using held by (rule held_later)
  have v1: "later v v1" "file_of fd v1 = Inr (d_top v)"
    using top by (auto simp: open_top_def bindP_def tick_def hold_def file_of_def later_def split: option.splits)
  from fstat_Inr [OF e(1)] v1 have e1: "e = (d_top v, d_node v1 (d_now v1) (d_top v))" and v2: "v2 = v1\<lparr>d_now := Suc (d_now v1)\<rparr>"
    by auto
  have topd: "fst (hd_identity d) = d_top v" using e(2) [symmetric] e1 by simp
  have "file_of fd v2 = Inr (fst (hd_identity d))" using v1(2) v2 topd by simp
  from rewalk_Inr [OF walk this dirs(2)] have w1: "later v2 w1" "all_found (d_now v2) (d_now w1) v2 (hd_identity d) ds ?names"
    "file_of p w1 = Inr (fst (if ds = [] then hd_identity d else hd_identity (last ds)))" by blast+
  have last: "(if ds = [] then hd_identity d else hd_identity (last ds)) = hd_identity ?last" using dirs(1) by simp
  have sv2: "later s v2" using sv v1(1) v2 later_trans later_now by metis
  have sw1: "later s w1" using sv2 w1(1) later_trans by blast
  have w: "later w1 w \<and> (\<forall>f. da_file a = Some f \<longrightarrow> file_found (d_now w1) (d_now w) w1 (hd_identity ?last)
       (if da_path a = [] then [] else last (da_path a)) (hf_identity f))"
    using file' recheck_file_Inr [where fd = p and d = "hd_identity ?last"] w1(3) last
    by (auto simp: ret_def split: option.splits)
  have st: "later s t" using sw1 w wt later_trans by blast
  have "d_now s \<le> d_now v2" "d_now w1 \<le> d_now t" using sv2 w wt by (auto simp: later_def)
  then have found: "all_found (d_now s) (d_now t) s (hd_identity d) ds ?names"
    using w1(2) all_found_mono all_found_later [OF sv2] by blast
  have "d_now s \<le> d_now w1" "d_now w \<le> d_now t" using sw1 wt by (auto simp: later_def)
  then have "file_found (d_now s) (d_now t) s (hd_identity ?last) x y" if "file_found (d_now w1) (d_now w) w1 (hd_identity ?last) x y" for x y
    using that file_found_wider [OF that sw1] by simp
  with w st found topd sv show ?thesis by (auto simp: later_def)
qed

section \<open>An opening\<close>

definition trusted_identity :: "nat list \<Rightarrow> dir_identity \<Rightarrow> bool" where
  "trusted_identity uids i \<longleftrightarrow> (case i of (_, k, mode, uid, _) \<Rightarrow> k = DirectoryNode \<and> uid \<in> set uids \<and> \<not> others_write mode)"

lemma on_exn_Inr: "(\<And>e u. h e u \<noteq> (Inr x, t)) \<Longrightarrow> on_exn m h s = (Inr x, t) \<longleftrightarrow> m s = (Inr x, t)"
  by (cases "m s") (auto simp: on_exn_def split: sum.splits)

lemma then_raise: "seqP m (raiseP e) s \<noteq> (Inr x, t)"
  by (auto simp: seqP_def bindP_def raiseP_def split: prod.splits sum.splits)

lemma record_Inr:
  assumes "record_directory uids p fd trusted s = (Inr d, t)"
  shows "hd_path d = p \<and> (trusted \<longrightarrow> trusted_identity uids (hd_identity d))"
  using assms unfolding record_directory_def on_exn_Inr [OF then_raise]
  by (auto simp: bindP_eq_Inr seqP_eq_Inr raise_when_def raise_if_def ret_def trusted_identity_def untrusted_def
      directory_identity_of_def split: if_splits)

lemma open_below_Inr:
  assumes "open_below uids depth current dirs names s = (Inr ds, t)" and "hd_path (last dirs) = current" and "dirs \<noteq> []"
  shows "\<exists>es. ds = dirs @ es \<and> length es = length names
    \<and> (\<forall>k < length es. hd_path (es ! k) = current @ take (Suc k) names)
    \<and> (\<forall>k < length es. depth \<le> length current + Suc k \<longrightarrow> trusted_identity uids (hd_identity (es ! k)))"
  using assms
proof (induction uids depth current dirs names arbitrary: s rule: open_below.induct)
  case (1 uids depth current dirs)
  then show ?case by (auto simp: ret_def)
next
  case (2 uids depth current dirs name names)
  have no: "abandon dirs e u \<noteq> (Inr d, w)" for e u w and d :: held_dir by (simp add: abandon_def then_raise)
  from 2(2) obtain d u where "bindP (open_at True (hd_fd (last dirs)) name) (\<lambda>fd.
      record_directory uids (current @ [name]) fd (depth \<le> length current + 1)) s = (Inr d, u)"
    and rest: "open_below uids depth (current @ [name]) (dirs @ [d]) names u = (Inr ds, t)"
    by (auto simp: bindP_eq_Inr [of "on_exn _ _"] on_exn_Inr [OF no])
  then obtain fd v where "record_directory uids (current @ [name]) fd (depth \<le> length current + 1) v = (Inr d, u)"
    by (auto simp: bindP_eq_Inr)
  from record_Inr [OF this] have d: "hd_path d = current @ [name]"
    "depth \<le> length current + 1 \<longrightarrow> trusted_identity uids (hd_identity d)" by auto
  from 2(1) [OF rest] d obtain es where es: "ds = (dirs @ [d]) @ es" "length es = length names"
    "\<forall>k < length es. hd_path (es ! k) = (current @ [name]) @ take (Suc k) names"
    "\<forall>k < length es. depth \<le> length (current @ [name]) + Suc k \<longrightarrow> trusted_identity uids (hd_identity (es ! k))"
    by auto
  show ?case
  proof (intro exI [of _ "d # es"] conjI allI impI)
    fix k assume "k < length (d # es)" "depth \<le> length current + Suc k"
    then show "trusted_identity uids (hd_identity ((d # es) ! k))" using d(2) es(4) by (cases k) auto
  next
    fix k assume "k < length (d # es)"
    then show "hd_path ((d # es) ! k) = current @ take (Suc k) (name # names)" using d(1) es(3) by (cases k) auto
  qed (use es in auto)
qed

text \<open>The directories of an authority: one for the root and one for each beginning of the path to the target, the trusted
  root and all below it belonging to trusted owners and closed to other writers.\<close>

definition well_held :: "nat list \<Rightarrow> string list \<Rightarrow> string list \<Rightarrow> held_dir list \<Rightarrow> bool" where
  "well_held uids base_names target dirs \<longleftrightarrow> length dirs = Suc (length target)
     \<and> (\<forall>k \<le> length target. hd_path (dirs ! k) = take k target
          \<and> (length base_names \<le> k \<longrightarrow> trusted_identity uids (hd_identity (dirs ! k))))"

lemma well_held_parts:
  assumes "well_held uids base_names target dirs"
  obtains d ds where "dirs = d # ds" "length ds = length target" "hd_path (last dirs) = target"
proof -
  have n: "length dirs = Suc (length target)" "hd_path (dirs ! length target) = target" using assms by (auto simp: well_held_def)
  then have "dirs \<noteq> []" by auto
  then have "hd_path (last dirs) = target" using n by (simp add: last_conv_nth)
  then show thesis using that n(1) by (cases dirs) auto
qed

lemma open_directories_Inr:
  assumes "open_directories uids base_names target s = (Inr dirs, t)"
  shows "well_held uids base_names target dirs"
proof -
  from assms obtain fd u d v where r: "record_directory uids [] fd (base_names = []) u = (Inr d, v)"
    and rest: "open_below uids (length base_names) [] [d] target v = (Inr dirs, t)"
    unfolding open_directories_def by (auto simp: bindP_eq_Inr on_exn_Inr [OF then_raise])
  note d = record_Inr [OF r]
  from open_below_Inr [OF rest] d obtain es where es: "dirs = [d] @ es" "length es = length target"
    "\<forall>k < length es. hd_path (es ! k) = take (Suc k) target"
    "\<forall>k < length es. length base_names \<le> Suc k \<longrightarrow> trusted_identity uids (hd_identity (es ! k))"
    by auto
  have "hd_path (dirs ! k) = take k target \<and> (length base_names \<le> k \<longrightarrow> trusted_identity uids (hd_identity (dirs ! k)))"
    if "k \<le> length target" for k
    using that d es by (cases k) auto
  then show ?thesis using es(1,2) by (simp add: well_held_def)
qed

text \<open>The directory a file's authority opens down to: the parent, or the trusted root itself.\<close>

definition directory_names :: "string \<Rightarrow> string \<Rightarrow> string list" where
  "directory_names p base_dir = (if path_comps p = path_comps base_dir then path_comps p else butlast (path_comps p))"

lemma open_file_Inr:
  assumes "open_file p base_dir uids e s = (Inr a, t)"
  shows "da_path a = path_comps p \<and> well_held uids (path_comps base_dir) (directory_names p base_dir) (da_dirs a)
    \<and> (\<exists>f. da_file a = Some f)"
proof -
  from assms obtain b u f v where b: "new_authority p base_dir uids False s = (Inr b, u)" and a: "a = b\<lparr>da_file := Some f\<rparr>"
    unfolding open_file_def by (auto simp: bindP_eq_Inr on_exn_Inr [OF then_raise] ret_def)
  have names: "(if False \<or> path_comps p = path_comps base_dir then path_comps p else butlast (path_comps p))
      = directory_names p base_dir" by (simp add: directory_names_def)
  from b [unfolded new_authority_def Let_def names] obtain dirs w
    where d: "open_directories uids (path_comps base_dir) (directory_names p base_dir) w = (Inr dirs, u)"
      and bb: "b = \<lparr>da_path = path_comps p, da_root = path_comps base_dir, da_uids = uids, da_dirs = dirs, da_file = None\<rparr>"
    by (auto simp: bindP_eq_Inr seqP_eq_Inr ret_def)
  show ?thesis using open_directories_Inr [OF d] a bb by simp
qed

section \<open>Properties\<close>

text \<open>C26 After a file was opened below a trusted root and a later recheck succeeded: there is one directory held for the
  root of the file system and one for each name down to the directory of that file; at instants of that recheck the root
  and every one of these names, in their order, led to the directory held for it; the trusted root and each directory
  below it, even if that is the root of the file system, belong to a trusted owner and are closed to other writers; and
  the file's own name led from its directory to a file of the identity held.\<close>

theorem rechecked_path_is_trusted:
  assumes "open_file p base_dir uids e s0 = (Inr a, s1)" and "recheck a s = (Inr (), t)"
  shows "\<exists>d ds f. da_dirs a = d # ds \<and> fst (hd_identity d) = d_top s
    \<and> length ds = length (directory_names p base_dir)
    \<and> (\<forall>k \<le> length ds. hd_path (da_dirs a ! k) = take k (directory_names p base_dir))
    \<and> all_found (d_now s) (d_now t) s (hd_identity d) ds (directory_names p base_dir)
    \<and> (\<forall>k \<le> length ds. length (path_comps base_dir) \<le> k \<longrightarrow> trusted_identity uids (hd_identity (da_dirs a ! k)))
    \<and> da_file a = Some f \<and> file_found (d_now s) (d_now t) s (hd_identity (last (da_dirs a)))
         (if path_comps p = [] then [] else last (path_comps p)) (hf_identity f)"
proof -
  from open_file_Inr [OF assms(1)] obtain f where a: "da_path a = path_comps p" "da_file a = Some f"
    and w: "well_held uids (path_comps base_dir) (directory_names p base_dir) (da_dirs a)" by blast
  obtain d ds where d: "da_dirs a = d # ds" "length ds = length (directory_names p base_dir)"
    "hd_path (last (da_dirs a)) = directory_names p base_dir" by (rule well_held_parts [OF w])
  have "length ds = length (hd_path (last (da_dirs a)))" using d by simp
  from recheck_Inr [OF assms(2) d(1) this] show ?thesis
    using a d w by (intro exI [of _ d] exI [of _ ds] exI [of _ f]) (auto simp: well_held_def)
qed

definition ex_world :: dworld where
  "ex_world = \<lparr>d_lookup = (\<lambda>_ d n. if d = (0, 1) \<and> n = ''a'' then Some (0, 2) else if d = (0, 2) \<and> n = ''f'' then Some (0, 3) else None),
     d_node = (\<lambda>_ i. if i = (0, 3) then \<lparr>dn_kind = RegularNode, dn_mode = 384, dn_uid = 0, dn_gid = 0, dn_nlink = 1, dn_bytes = ''x''\<rparr>
        else \<lparr>dn_kind = DirectoryNode, dn_mode = 448, dn_uid = 0, dn_gid = 0, dn_nlink = 2, dn_bytes = []\<rparr>),
     d_top = (0, 1), d_new = (\<lambda>_. (0, 9)), d_written = (\<lambda>_ n. n), d_trouble = (\<lambda>_. None), d_now = 0, d_table = [], d_next = 3\<rparr>"

definition ex_expected :: expected where
  "ex_expected = \<lparr>e_uid = Some 0, e_gid = None, e_mode = Some 384, e_nlink = Some 1, e_size = None, e_sha256 = None,
     e_limit = 10, e_empty = False\<rparr>"

lemma ex_paths: "path_comps ''/a/f'' = [''a'', ''f'']" "path_comps ''/a'' = [''a'']" "relative_parts ''/a/f'' ''/a'' \<noteq> None"
  by (simp_all add: path_comps_def relative_parts_def path_root_def)

lemma ex_runs: "\<exists>a s1 t. open_file ''/a/f'' ''/a'' [0] ex_expected ex_world = (Inr a, s1) \<and> recheck a s1 = (Inr (), t)"
  by (simp add: open_file_def new_authority_def ex_paths open_directories_def open_top_def tick_def hold_def ex_world_def
      record_directory_def os_fstat_def file_of_def open_at_def open_held_file_def bounded_read_def os_pread_def read_on.simps
      file_differs_def unless_def untrusted_def others_write_def ex_expected_def converting_def catching_def
      recheck_def recheck_names_def recheck_file_def closing_new_def reopened_def ensuring_def os_close_def
      directory_identity_of_def stat_identity_def prog_defs Let_def)

theorem rechecked_path_is_trusted_witness:
  "\<exists>a s1 t d ds. open_file ''/a/f'' ''/a'' [0] ex_expected ex_world = (Inr a, s1) \<and> recheck a s1 = (Inr (), t)
     \<and> all_found (d_now s1) (d_now t) s1 (hd_identity d) ds [''a''] \<and> da_dirs a = d # ds \<and> length ds = 1
     \<and> trusted_identity [0] (hd_identity (da_dirs a ! 1))"
proof -
  obtain a s1 t where run: "open_file ''/a/f'' ''/a'' [0] ex_expected ex_world = (Inr a, s1)" "recheck a s1 = (Inr (), t)"
    using ex_runs by blast
  have names: "directory_names ''/a/f'' ''/a'' = [''a'']" by (simp add: directory_names_def ex_paths)
  show ?thesis using rechecked_path_is_trusted [OF run, unfolded names ex_paths(2)] run by fastforce
qed

text \<open>When the file system's root is itself the trusted root and does not belong to a trusted owner, or others may
  write to it, the refusal of the root closes its descriptor and the handler around it closes it again: the second close
  raises \<open>OSError\<close>, and the \<open>ValueError\<close> the refusal raised is lost.\<close>

theorem root_refusal_is_masked:
  assumes "d_trouble s (d_now s) = None" and "dn_kind (d_node s (Suc (d_now s)) (d_top s)) = DirectoryNode"
    and "untrusted uids (d_node s (Suc (d_now s)) (d_top s))" and "d_next s \<notin> fst ` set (d_table s)"
  shows "fst (open_directories uids [] target s) = Inl OSError"
proof -
  have "filter (\<lambda>e. fst e \<noteq> d_next s) (d_table s) = d_table s" using assms(4) by (force simp: filter_id_conv)
  then show ?thesis
    using assms
    by (simp add: open_directories_def open_top_def tick_def hold_def record_directory_def os_fstat_def file_of_def
        os_close_def prog_defs)
qed

theorem root_refusal_is_masked_witness:
  "fst (open_directories [7] [] [] ex_world) = Inl OSError"
  by (rule root_refusal_is_masked) (simp_all add: ex_world_def untrusted_def)

end
