(* ===== verification/Authority.thy ===== *)
theory Authority
  imports Gate
begin

text \<open>
  \<open>hat/control.py\<close>, the questions a restarted controller asks: \<open>current_writer\<close>, who may write now, and
  \<open>reconcile_existing\<close>, what to do with the public ingress before anything else. Both run on the machine
  of the boot gate, where other processes may change a file between two accesses; the controller holds
  its lock and connection in \<open>keeper\<close>. What it does to the machine (writing the marker, stopping the
  proxy, removing the marker) is the list \<open>effects\<close>, and whether an effect succeeds is any function of
  the effects before it.
\<close>

record keeper = gate +
  k_root :: string
  k_lock :: "ino option"
  k_open :: bool
  k_directory :: ino
  k_database :: ino
  effects :: "(string \<times> json) list"
  outcome :: "(string \<times> json) list \<Rightarrow> string \<times> json \<Rightarrow> unit res"

definition act :: "string \<Rightarrow> json \<Rightarrow> ('w keeper_scheme, unit) prog" where
  "act name args s = (outcome s (effects s) (name, args), s\<lparr>effects := effects s @ [(name, args)]\<rparr>)"

section \<open>Authority\<close>

text \<open>\<open>check_authority\<close> on files that may change: the directory, the lock and the database are still the
  ones the controller opened. The descriptor of the lock keeps its file.\<close>

definition keeper_authority :: "('w keeper_scheme, unit) prog" where
  "keeper_authority =
     bindP (gets (\<lambda>s. (k_root s, k_lock s, k_open s, k_directory s, k_database s))) (\<lambda>(dir, held, connected, directory, database).
     case held of None \<Rightarrow> raiseP RuntimeError
     | Some owned \<Rightarrow>
        if \<not> connected then raiseP RuntimeError
        else bindP (lstat_node dir) (\<lambda>(i, n).
          if i \<noteq> directory then raiseP RuntimeError
          else bindP (private_node (path_join dir ''controller.lock'')) (\<lambda>l.
          if l \<noteq> owned then raiseP RuntimeError
          else bindP (private_node (path_join dir ''journal.db'')) (\<lambda>j.
          if j \<noteq> database then raiseP RuntimeError else ret ()))))"

section \<open>The current writer\<close>

definition first_unfinished :: "db \<Rightarrow> op_row option" where
  "first_unfinished d = find (\<lambda>r. \<not> r_complete r) (ops d)"

definition last_complete :: "db \<Rightarrow> op_row option" where
  "last_complete d = (case filter r_complete (ops d) of [] \<Rightarrow> None | r # rs \<Rightarrow> Some (last (r # rs)))"

definition known_contracts :: "string set" where
  "known_contracts = {LEGACY_RESTORE_CONTRACT, RESTORE_CONTRACT}"

text \<open>The whole journal of the operation, and the route it recorded.\<close>

definition whole_journal :: "op_row \<Rightarrow> step_row list \<Rightarrow> json res" where
  "whole_journal r rs = bindR (phase_plan (r_source r) (r_target r)) (\<lambda>plan.
     if map step_key rs \<noteq> interleaved 0 plan \<or> \<not> intents_clean rs then Inl RuntimeError
     else reraise [StopIteration, TypeError, ValueError] RuntimeError
       (case find (\<lambda>x. s_phase x = ''route'' \<and> s_status x = Done) rs of
          None \<Rightarrow> Inl StopIteration
        | Some x \<Rightarrow> loads (s_evidence x)))"

definition writer_answer :: "op_row \<Rightarrow> json" where
  "writer_answer r = JObj [(''operation'', JStr (r_id r)), (''writer'', JStr (r_target r)),
     (''epoch'', JStr (r_new_epoch r))]"

definition current_writer :: "string \<Rightarrow> ('w keeper_scheme, json) prog" where
  "current_writer ingress =
     seqP keeper_authority
     (bindP (query (\<lambda>c. first_unfinished (c_db c))) (\<lambda>pending_row.
     if pending_row \<noteq> None then raiseP RuntimeError
     else bindP (query (\<lambda>c. last_complete (c_db c))) (\<lambda>row. case row of
       None \<Rightarrow> raiseP RuntimeError
     | Some r \<Rightarrow>
         if r_contract r \<notin> known_contracts then raiseP RuntimeError
         else seqP (lift (phase_plan (r_source r) (r_target r)))
           (bindP (query (\<lambda>c. steps_of (r_id r) (c_db c))) (\<lambda>rs.
            bindP (lift (whole_journal r rs)) (\<lambda>route.
            bindP (read_node ingress) (\<lambda>raw.
            if \<not> exact_route route (r_target r) (r_new_epoch r) (sha256_hex raw) then raiseP RuntimeError
            else ret (writer_answer r))))))))"

section \<open>Reconciling the ingress\<close>

definition ignored_errors :: "exn list" where
  "ignored_errors = [OSError, ValueError, KeyError, TypeError, SqliteError]"

text \<open>Whether an unfinished operation is a verified recovery that still serves: every refusal and every
  swallowed exception is a no.\<close>

definition still_serves :: "string \<Rightarrow> string \<Rightarrow> op_row \<Rightarrow> ('w keeper_scheme, bool) prog" where
  "still_serves maintenance ingress r =
     catching ignored_errors
       (if r_contract r \<noteq> RESTORE_CONTRACT then ret False
        else bindP (exists_path maintenance) (\<lambda>there.
        if \<not> there then ret False
        else bindP (private_node maintenance) (\<lambda>_.
          bindP (load_node maintenance) (\<lambda>m.
          if \<not> py_eq m (marker_json (r_id r)) then ret False
          else bindP (read_node ingress) (\<lambda>raw.
            bindP (gets k_root) (\<lambda>dir.
            d3_serving_state (r_id r) (sha256_hex raw) (path_join (path_join dir (r_id r)) ''failure.json'')
              None None))))))
       (ret False)"

definition close_ingress_now :: "string \<Rightarrow> op_row \<Rightarrow> ('w keeper_scheme, unit) prog" where
  "close_ingress_now maintenance r = ensuring
     (bindP (exists_path maintenance) (\<lambda>there.
        if there then ret () else act ''atomic_json'' (JArr [JStr maintenance, marker_json (r_id r)])))
     (act ''stop_ingress'' (JArr []))"

definition reconcile_unfinished :: "string \<Rightarrow> string \<Rightarrow> op_row \<Rightarrow> ('w keeper_scheme, bool) prog" where
  "reconcile_unfinished maintenance ingress r =
     bindP (still_serves maintenance ingress r) (\<lambda>safe.
     if safe then raiseP RuntimeError
     else seqP (close_ingress_now maintenance r) (raiseP RuntimeError))"

definition route_value :: "string option \<Rightarrow> json res" where
  "route_value ev = reraise [TypeError, ValueError, SqliteError] RuntimeError
     (case ev of None \<Rightarrow> Inr JNull | Some text \<Rightarrow> loads text)"

definition retire_marker :: "string \<Rightarrow> op_row \<Rightarrow> ('w keeper_scheme, unit) prog" where
  "retire_marker maintenance r =
     bindP (exists_path maintenance) (\<lambda>there.
     if \<not> there then ret ()
     else bindP (private_node maintenance) (\<lambda>_.
       bindP (load_node maintenance) (\<lambda>m.
       if \<not> py_eq m (marker_json (r_id r)) then raiseP RuntimeError
       else seqP (act ''unlink'' (JStr maintenance)) (act ''fsync_parent'' (JStr maintenance)))))"

definition reconcile_complete :: "string \<Rightarrow> string \<Rightarrow> op_row \<Rightarrow> ('w keeper_scheme, bool) prog" where
  "reconcile_complete maintenance ingress r =
     (if r_contract r \<notin> known_contracts then raiseP RuntimeError
      else bindP (query (\<lambda>c. route_evidence (r_id r) (c_db c))) (\<lambda>ev.
        bindP (read_node ingress) (\<lambda>raw.
        bindP (lift (route_value ev)) (\<lambda>route.
        if r_target r \<noteq> ''B'' \<or> \<not> exact_route route (r_target r) (r_new_epoch r) (sha256_hex raw)
        then raiseP RuntimeError
        else seqP (retire_marker maintenance r) (ret True)))))"

definition reconcile_existing :: "string \<Rightarrow> string \<Rightarrow> ('w keeper_scheme, bool) prog" where
  "reconcile_existing maintenance ingress =
     seqP keeper_authority
     (bindP (query (\<lambda>c. first_unfinished (c_db c))) (\<lambda>row. case row of
       Some r \<Rightarrow> reconcile_unfinished maintenance ingress r
     | None \<Rightarrow>
         bindP (query (\<lambda>c. last_complete (c_db c))) (\<lambda>done_row. case done_row of
           Some r \<Rightarrow> reconcile_complete maintenance ingress r
         | None \<Rightarrow> ret False)))"

end
