(* ===== verification/Authority_Properties.thy ===== *)
theory Authority_Properties
  imports Authority Gate_Facts
begin

text \<open>
  What the authority questions promise although the files may change while they are asked: the writer
  named is the target of the newest complete operation, with its whole journal and its route; an
  unfinished operation never leaves the ingress open unless it is a verified recovery.
\<close>

section \<open>The machine stays the same\<close>

lemma same_machine_act [simp]: "same_machine a (s\<lparr>effects := x\<rparr>) \<longleftrightarrow> same_machine a (s :: 'w keeper_scheme)"
  by (simp add: same_machine_def)

lemma steady_act [keeps_intros]: "steady a (act n x)"
  by (simp add: keeps_def act_def)

lemma steady_authority [keeps_intros]: "steady a keeper_authority"
  unfolding keeper_authority_def by (intro keeps_intros)

section \<open>The writer\<close>

definition held_bytes :: "'w gate_scheme \<Rightarrow> string \<Rightarrow> string \<Rightarrow> bool" where
  "held_bytes a p raw \<longleftrightarrow> (\<exists>k i. follow a k p = Some i \<and> n_bytes (inode_at a k i) = raw)"

lemma gives_read [gives_intros]:
  "(\<And>raw. held_bytes a p raw \<Longrightarrow> gives (same_machine a) (k raw) Q) \<Longrightarrow>
     gives (same_machine a) (bindP (read_node p) k) Q"
proof (rule gives_then [where P = "held_bytes a p"])
  show "steady a (read_node p)" by (rule steady_files)
  show "held_bytes a p x" if "read_node p s = (Inr x, t)" "same_machine a s" for s x t
    using that unfolding read_node_def held_bytes_def
    by (auto simp: run_simps same_machine_def split: option.splits if_splits)
qed

text \<open>The newest complete operation, in a database without an unfinished one, whose rows are the whole
  plan with clean intents and whose recorded route is the live configuration.\<close>

definition writer_of :: "'w gate_scheme \<Rightarrow> string \<Rightarrow> op_row \<Rightarrow> bool" where
  "writer_of a ingress r \<longleftrightarrow> seen_db a first_unfinished None \<and> seen_db a last_complete (Some r)
     \<and> r_contract r \<in> known_contracts
     \<and> (\<exists>plan rs x route raw. phase_plan (r_source r) (r_target r) = Inr plan
        \<and> seen_db a (steps_of (r_id r)) rs \<and> map step_key rs = interleaved 0 plan \<and> intents_clean rs
        \<and> x \<in> set rs \<and> s_phase x = ''route'' \<and> s_status x = Done \<and> loads (s_evidence x) = Inr route
        \<and> held_bytes a ingress raw \<and> exact_route route (r_target r) (r_new_epoch r) (sha256_hex raw))"

lemma whole_journal_Inr:
  assumes "whole_journal r rs = Inr route"
  shows "\<exists>plan x. phase_plan (r_source r) (r_target r) = Inr plan \<and> map step_key rs = interleaved 0 plan
    \<and> intents_clean rs \<and> x \<in> set rs \<and> s_phase x = ''route'' \<and> s_status x = Done \<and> loads (s_evidence x) = Inr route"
proof -
  obtain plan x where "phase_plan (r_source r) (r_target r) = Inr plan" "map step_key rs = interleaved 0 plan"
      "intents_clean rs" "loads (s_evidence x) = Inr route"
    and x: "find (\<lambda>x. s_phase x = ''route'' \<and> s_status x = Done) rs = Some x"
    using assms unfolding whole_journal_def by (auto simp: res_simps split: if_splits option.splits)
  moreover have "x \<in> set rs" "s_phase x = ''route''" "s_status x = Done"
    using x by (auto simp: find_Some_iff)
  ultimately show ?thesis by blast
qed

lemma writer_of_intro:
  assumes "seen_db a first_unfinished None" "seen_db a last_complete (Some r)" "r_contract r \<in> known_contracts"
    "seen_db a (steps_of (r_id r)) rs" "whole_journal r rs = Inr route" "held_bytes a ingress raw"
    "exact_route route (r_target r) (r_new_epoch r) (sha256_hex raw)"
  shows "writer_of a ingress r"
  using assms(1-4,6,7) whole_journal_Inr [OF assms(5)] unfolding writer_of_def by blast

lemma gives_writer:
  "gives (same_machine a) (current_writer ingress) (\<lambda>v. \<exists>r. writer_of a ingress r \<and> v = writer_answer r)"
  unfolding current_writer_def
  by (intro gives_seq [OF gives_true [OF steady_authority]] gives_intros exI conjI refl)
    (simp_all add: writer_of_intro)

text \<open>C29 The current writer is never guessed: when \<open>current_writer\<close> names a writer, although files and
  database may change while it looks, it is the target, with its epoch, of the newest complete operation
  of a database in which no operation was unfinished; that operation's rows were exactly its whole plan,
  intent before done with clean intents, and the route it recorded names this writer, this epoch and the
  digest of bytes the public ingress configuration really had.\<close>

theorem writer_is_proved:
  assumes "current_writer ingress s = (Inr v, t)"
  shows "\<exists>r. writer_of s ingress r \<and> v = writer_answer r"
  using givesD [OF gives_writer _ assms] by simp

section \<open>Errors that can escape\<close>

definition only_raises :: "('s \<Rightarrow> bool) \<Rightarrow> exn list \<Rightarrow> ('s, 'a) prog \<Rightarrow> bool" where
  "only_raises I cs m \<longleftrightarrow> (\<forall>s. I s \<longrightarrow> I (snd (m s)) \<and> raises cs (fst (m s)))"

named_theorems only_intros

lemma only_ret [only_intros]: "only_raises I cs (ret x)"
  by (simp add: only_raises_def ret_def)

lemma only_gets [only_intros]: "only_raises I cs (gets f)"
  by (simp add: only_raises_def gets_def)

lemma only_lift [only_intros]: "raises cs r \<Longrightarrow> only_raises I cs (lift r)"
  by (simp add: only_raises_def lift_def)

lemma only_raiseP [only_intros]: "caught cs e \<Longrightarrow> only_raises I cs (raiseP e)"
  by (simp add: only_raises_def raiseP_def raises_Inl)

lemma only_raise_when [only_intros]:
  "caught cs e \<Longrightarrow> (\<And>s. I s \<Longrightarrow> raises cs (c s)) \<Longrightarrow> only_raises I cs (raise_when c e)"
  by (simp add: only_raises_def raise_when_def raises_raise_if)

lemma only_if [only_intros]:
  "only_raises I cs m \<Longrightarrow> only_raises I cs k \<Longrightarrow> only_raises I cs (if b then m else k)"
  by simp

lemma only_case_option [only_intros]:
  "only_raises I cs m \<Longrightarrow> (\<And>a. only_raises I cs (f a)) \<Longrightarrow> only_raises I cs (case x of None \<Rightarrow> m | Some a \<Rightarrow> f a)"
  by (cases x) simp_all

lemma only_case_prod [only_intros]:
  "(\<And>a b. only_raises I cs (f a b)) \<Longrightarrow> only_raises I cs (case x of (a, b) \<Rightarrow> f a b)"
  by (cases x) simp

lemma only_bind [only_intros]:
  assumes "only_raises I cs m" "\<And>x. only_raises I cs (f x)"
  shows "only_raises I cs (bindP m f)"
  unfolding only_raises_def
proof (intro allI impI)
  fix s assume s: "I s"
  obtain r t where m: "m s = (r, t)" by fastforce
  with assms(1) s have t: "I t" "raises cs r" by (auto simp: only_raises_def)
  show "I (snd (bindP m f s)) \<and> raises cs (fst (bindP m f s))"
  proof (cases r)
    case (Inl e)
    with m t show ?thesis by (simp add: bindP_def raises_def)
  next
    case (Inr x)
    with m t(1) assms(2) [of x] show ?thesis by (simp add: bindP_def only_raises_def)
  qed
qed

lemma only_seq [only_intros]: "only_raises I cs m \<Longrightarrow> only_raises I cs k \<Longrightarrow> only_raises I cs (seqP m k)"
  unfolding seqP_def by (rule only_bind)

lemma only_catching: "only_raises I ds m \<Longrightarrow> only_raises I cs h \<Longrightarrow>
    (\<And>e. caught ds e \<Longrightarrow> \<not> caught es e \<Longrightarrow> caught cs e) \<Longrightarrow> only_raises I cs (catching es m h)"
  by (fastforce simp: only_raises_def catching_def raises_def split: prod.splits sum.splits)

lemma only_catching_same [only_intros]:
  "only_raises I cs m \<Longrightarrow> only_raises I cs h \<Longrightarrow> only_raises I cs (catching es m h)"
  by (rule only_catching)

lemma only_look [only_intros]:
  "(\<And>s t. I s \<Longrightarrow> raises cs (f s t)) \<Longrightarrow> (\<And>s t. I s \<Longrightarrow> I (s\<lparr>clock := t\<rparr>)) \<Longrightarrow> only_raises I cs (look f)"
  by (simp add: only_raises_def look_def)

section \<open>An unfinished operation\<close>

text \<open>Looking leaves machine and effects as they are.\<close>

definition untouched :: "'w keeper_scheme \<Rightarrow> 'w keeper_scheme \<Rightarrow> bool" where
  "untouched a s \<longleftrightarrow> same_machine a s \<and> effects s = effects a"

definition answering :: "'w keeper_scheme \<Rightarrow> bool" where
  "answering a \<longleftrightarrow> (\<forall>k. \<exists>c. database a k = Inr c)"

abbreviation quiet :: "'w keeper_scheme \<Rightarrow> exn list \<Rightarrow> ('w keeper_scheme, 'b) prog \<Rightarrow> bool" where
  "quiet a \<equiv> only_raises (untouched a)"

lemma untouched_refl [simp]: "untouched a a"
  by (simp add: untouched_def)

lemma untouched_clock: "untouched a s \<Longrightarrow> untouched a (s\<lparr>clock := t\<rparr>)"
  by (simp add: untouched_def)

lemma quiet_look: "(\<And>s t. untouched a s \<Longrightarrow> raises cs (f s t)) \<Longrightarrow> quiet a cs (look f)"
  by (rule only_look) (simp_all add: untouched_clock)

lemma quiet_files [only_intros]:
  assumes "caught cs FileNotFoundError" "caught cs OSError"
  shows "quiet a cs (lstat_node p)" "quiet a cs (exists_path p)" "quiet a cs (read_node p)" "quiet a cs (fstat_node i)"
    "quiet a cs (read_fd i n)"
  unfolding lstat_node_def exists_path_def read_node_def fstat_node_def read_fd_def
  by (intro quiet_look; simp add: raises_def assms split: option.splits)+

lemma quiet_query [only_intros]: "answering a \<Longrightarrow> quiet a cs (query f)"
  unfolding query_def
proof (rule quiet_look)
  fix s :: "'a keeper_scheme" and t assume "answering a" "untouched a s"
  then obtain c where "database s t = Inr c" by (metis answering_def same_machine_def untouched_def)
  then show "raises cs (mapR f (database s t))" by simp
qed

lemma raises_ascii: "caught cs UnicodeDecodeError \<Longrightarrow> raises cs (ascii_text b)"
  by (simp add: ascii_text_def raises_Inl)

lemma raises_loads_text:
  "caught cs UnicodeDecodeError \<Longrightarrow> (\<And>e. caught [ValueError, RecursionError] e \<Longrightarrow> caught cs e) \<Longrightarrow> raises cs (loads_text b)"
  unfolding loads_text_def by (intro raises_intros raises_ascii raises_mono [OF loads_raises])

lemma quiet_load [only_intros]:
  assumes "caught cs FileNotFoundError" "caught cs OSError" "caught cs UnicodeDecodeError"
    "\<And>e. caught [ValueError, RecursionError] e \<Longrightarrow> caught cs e"
  shows "quiet a cs (load_node p)"
  unfolding load_node_def by (intro only_intros raises_loads_text assms)

lemma quiet_private [only_intros]:
  assumes "caught cs FileNotFoundError" "caught cs OSError" "caught cs ValueError"
  shows "quiet a cs (private_node p)" "quiet a cs (stable_private_bytes p b)"
  unfolding private_node_def stable_private_bytes_def open_nofollow_def
  by (intro only_intros assms raises_intros)+

abbreviation "loose \<equiv> ignored_errors @ [RecursionError]"

lemma loose_caught: "caught loose e \<longleftrightarrow> caught ignored_errors e \<or> isa e RecursionError"
  by (simp add: ignored_errors_def)

lemma loose_members [simp]:
  "caught loose OSError" "caught loose FileNotFoundError" "caught loose ValueError" "caught loose KeyError"
  "caught loose TypeError" "caught loose UnicodeDecodeError" "caught loose RecursionError"
  by (simp_all add: ignored_errors_def isa_def)

lemma loose_parse: "caught [ValueError, RecursionError] e \<Longrightarrow> caught loose e"
  by (auto simp: ignored_errors_def)

lemma raises_default_on [raises_intros]:
  "(\<And>e. caught ds e \<Longrightarrow> caught es e \<or> caught cs e) \<Longrightarrow> raises ds m \<Longrightarrow> raises cs (default_on es d m)"
  by (cases m) (auto simp: raises_def default_on_def)

lemma evidence_raises: "raises [ValueError, RecursionError] (evidence_of rs)"
  unfolding evidence_of_def by (intro raises_intros loads_raises)

lemma recursion_is_runtime:
  "isa e ValueError \<or> isa e RecursionError \<Longrightarrow> isa e ValueError \<or> isa e RuntimeError"
  by (cases e) (simp_all add: isa_def)

lemma proved_never_raises: "raises [] (proved_evidence operation rs)"
  unfolding proved_evidence_def
proof (rule raises_default_on [where ds = "[ValueError, RuntimeError]"])
  show "raises [ValueError, RuntimeError] (bindR (evidence_of rs)
      (\<lambda>ev. bindR (validate_d3_proof operation ev True) (\<lambda>_. Inr (Some ev))))"
    by (intro raises_intros raises_mono [OF evidence_raises] raises_mono [OF d3_proof_raises])
      (simp_all add: recursion_is_runtime)
qed simp

lemma serving_raises: "raises loose (serving_rows row rs digest)"
  unfolding serving_rows_def
  by (intro raises_intros raises_mono [OF proved_never_raises]) simp_all

lemma parsed_or_loose:
  "isa e ValueError \<or> isa e RecursionError \<Longrightarrow> isa e ValueError \<or> isa e TypeError \<or> caught loose e"
  by (auto simp: ignored_errors_def)

lemma excused_raises: "raises loose (failure_excused rs raw)"
  unfolding failure_excused_def
  by (intro raises_intros raises_default_on [where ds = "[ValueError, RecursionError]"]
      raises_loads_text) (simp_all add: loose_parse isa_ValueError parsed_or_loose)

lemma quiet_serving: "answering a \<Longrightarrow> quiet a loose (d3_serving_state i h f sn bytes)"
  unfolding d3_serving_state_def
  by (intro only_intros raises_intros serving_raises excused_raises) simp_all

lemma quiet_weaken: "quiet a cs m \<Longrightarrow> (\<And>e. caught cs e \<Longrightarrow> caught ds e) \<Longrightarrow> quiet a ds m"
  by (auto simp: only_raises_def raises_def)

lemma quiet_still_serves:
  assumes "answering a"
  shows "quiet a [RecursionError] (still_serves maintenance ingress r)"
  unfolding still_serves_def
proof (rule only_catching)
  show "quiet a loose (if r_contract r \<noteq> RESTORE_CONTRACT then ret False
        else bindP (exists_path maintenance) (\<lambda>there.
        if \<not> there then ret False
        else bindP (private_node maintenance) (\<lambda>_.
          bindP (load_node maintenance) (\<lambda>m.
          if \<not> py_eq m (marker_json (r_id r)) then ret False
          else bindP (read_node ingress) (\<lambda>raw.
            bindP (gets k_root) (\<lambda>dir.
            d3_serving_state (r_id r) (sha256_hex raw) (path_join (path_join dir (r_id r)) ''failure.json'')
              None None))))))"
    by (intro only_intros quiet_serving assms) (simp_all add: loose_parse)
qed (simp_all add: only_intros loose_caught)

text \<open>A recovery that still serves: its rows, its proof and its route, for the configuration held.\<close>

definition recovery_kept :: "'w gate_scheme \<Rightarrow> string \<Rightarrow> string \<Rightarrow> op_row \<Rightarrow> bool" where
  "recovery_kept a maintenance ingress r \<longleftrightarrow> r_contract r = RESTORE_CONTRACT \<and> marker_names a maintenance (r_id r)
     \<and> (\<exists>raw. held_bytes a ingress raw \<and> recovery_serves a (r_id r) (sha256_hex raw))"

lemma recovery_kept_intro:
  "\<not> r_contract r \<noteq> RESTORE_CONTRACT \<Longrightarrow> seen_json a maintenance m \<Longrightarrow> \<not> \<not> py_eq m (marker_json (r_id r))
    \<Longrightarrow> held_bytes a ingress raw \<Longrightarrow> recovery_serves a (r_id r) (sha256_hex raw)
    \<Longrightarrow> recovery_kept a maintenance ingress r"
  unfolding recovery_kept_def using marker_of_json by blast

lemma gives_gets_any: "(\<And>x. gives I (f x) P) \<Longrightarrow> gives I (bindP (gets g) f) P"
  by (simp add: gives_def)

lemma gives_still_serves:
  "gives (same_machine a) (still_serves maintenance ingress r) (\<lambda>b. b \<longrightarrow> recovery_kept a maintenance ingress r)"
  unfolding still_serves_def
  by (intro gives_intros gives_mono [OF gives_serving]) (simp_all add: recovery_kept_intro)

lemma close_stops:
  assumes "close_ingress_now maintenance r s = (x, t)"
  shows "\<exists>xs. effects t = effects s @ xs @ [(''stop_ingress'', JArr [])] \<and> length xs \<le> 1"
  using assms unfolding close_ingress_now_def ensuring_def exists_path_def
  by (auto simp: bindP_def look_def act_def ret_def split: prod.splits sum.splits if_splits)

lemma reconcile_reads:
  fixes s :: "'w keeper_scheme"
  assumes run: "reconcile_existing maintenance ingress s = (r, t)" and ok: "fst (keeper_authority s) = Inr ()"
    and found: "\<forall>k. \<exists>c q. database s k = Inr c \<and> first_unfinished (c_db c) = Some q"
  shows "\<exists>q u. reconcile_unfinished maintenance ingress q u = (r, t) \<and> untouched s u
    \<and> seen_db s first_unfinished (Some q)"
proof -
  obtain u where u: "keeper_authority s = (Inr (), u)" using ok by (metis prod.collapse)
  have "quiet s [RuntimeError, OSError, FileNotFoundError, ValueError] keeper_authority"
    unfolding keeper_authority_def by (intro only_intros) simp_all
  then have same: "untouched s u" using u by (metis only_raises_def snd_conv untouched_refl)
  obtain c q where q: "database s (clock u) = Inr c" "first_unfinished (c_db c) = Some q" using found by blast
  have "query (\<lambda>c. first_unfinished (c_db c)) u = (Inr (Some q), u\<lparr>clock := Suc (clock u)\<rparr>)"
    using q same by (simp add: query_def look_def untouched_def same_machine_def)
  then have "reconcile_unfinished maintenance ingress q (u\<lparr>clock := Suc (clock u)\<rparr>) = (r, t)"
    using run u by (simp add: reconcile_existing_def seqP_def bindP_def)
  moreover have "seen_db s first_unfinished (Some q)" using q by (auto simp: seen_db_def)
  ultimately show ?thesis using untouched_clock [OF same] by blast
qed

text \<open>C30 An unfinished operation never leaves the ingress open by accident: when a controller with its
  authority intact reconciles while an operation is unfinished, it always raises, and its last effect is
  to stop the ingress, after at most one attempt to write the maintenance marker, whether or not that
  attempt succeeded; the two exceptions, in which nothing is done, are a verified recovery whose marker,
  rows, proof and route are all in place, and a file nested so deeply that parsing it exhausts the stack.\<close>

theorem unfinished_closes_ingress:
  fixes s :: "'w keeper_scheme"
  assumes "reconcile_existing maintenance ingress s = (r, t)" and "fst (keeper_authority s) = Inr ()"
    and "\<forall>k. \<exists>c q. database s k = Inr c \<and> first_unfinished (c_db c) = Some q"
  shows "\<exists>e. r = Inl e \<and>
    ((\<exists>xs. effects t = effects s @ xs @ [(''stop_ingress'', JArr [])] \<and> length xs \<le> 1)
     \<or> effects t = effects s \<and> (isa e RecursionError
         \<or> (\<exists>q. seen_db s first_unfinished (Some q) \<and> recovery_kept s maintenance ingress q)))"
proof -
  obtain q u where run: "reconcile_unfinished maintenance ingress q u = (r, t)" and u: "untouched s u"
    and q: "seen_db s first_unfinished (Some q)"
    using reconcile_reads [OF assms] by blast
  obtain b v where b: "still_serves maintenance ingress q u = (b, v)" by fastforce
  have "answering s" using assms(3) by (metis answering_def)
  from quiet_still_serves [OF this, of maintenance ingress q] u b
  have v: "untouched s v" "raises [RecursionError] b" by (auto simp: only_raises_def)
  show ?thesis
  proof (cases b)
    case (Inl e)
    then show ?thesis using run b v by (auto simp: reconcile_unfinished_def bindP_def untouched_def raises_def)
  next
    case (Inr safe)
    show ?thesis
    proof (cases safe)
      case True
      then have "recovery_kept s maintenance ingress q"
        using givesD [OF gives_still_serves, of s u] u b Inr by (auto simp: untouched_def)
      then show ?thesis using run b v q Inr True
        by (auto simp: reconcile_unfinished_def bindP_def untouched_def raiseP_def)
    next
      case False
      obtain x w where c: "close_ingress_now maintenance q v = (x, w)" by fastforce
      have "t = w" "\<exists>e. r = Inl e" using run b c Inr False
        by (auto simp: reconcile_unfinished_def bindP_def seqP_def raiseP_def split: sum.splits)
      then show ?thesis using close_stops [OF c] v by (auto simp: untouched_def)
    qed
  qed
qed

definition ex_row :: op_row where
  "ex_row = \<lparr>r_id = ''op'', r_source = ''A'', r_target = ''B'', r_source_epoch = ''d1-a'', r_new_epoch = ''d1-b'',
     r_complete = False, r_contract = RESTORE_CONTRACT\<rparr>"

definition ex_keeper :: "db \<Rightarrow> keeper" where
  "ex_keeper d = \<lparr>
     namei = (\<lambda>_ p. map_of [(''/r'', (1, 1)), (''/r/controller.lock'', (1, 2)), (''/r/journal.db'', (1, 3)), (''/i'', (1, 4))] p),
     follow = (\<lambda>_ p. map_of [(''/r'', (1, 1)), (''/r/controller.lock'', (1, 2)), (''/r/journal.db'', (1, 3)), (''/i'', (1, 4))] p),
     inode_at = (\<lambda>_ i. \<lparr>n_kind = if snd i = 1 then DirectoryNode else RegularNode, n_uid = 7,
        n_mode = if snd i = 1 then 448 else 384, n_nlink = 1, n_mtime = 5, n_bytes = []\<rparr>),
     me = 7, clock = 0, database = (\<lambda>_. Inr \<lparr>c_mode = ''delete'', c_catalog = undefined, c_db = d\<rparr>),
     tracked = Map.empty, failure_bytes = None, paths = [], k_root = ''/r'', k_lock = Some (1, 2), k_open = True,
     k_directory = (1, 1), k_database = (1, 3), effects = [], outcome = (\<lambda>_ _. Inr ())\<rparr>"

lemmas keeper_eval = keeper_authority_def ex_keeper_def lstat_node_def private_node_def look_def prog_defs path_join_def

lemma ex_authority: "keeper_authority (ex_keeper d) = (Inr (), (ex_keeper d)\<lparr>clock := 3\<rparr>)"
  by (simp add: keeper_eval)

lemma ex_keeper_parts [simp]:
  "follow (ex_keeper d) k ''/m'' = None" "follow (ex_keeper d) k ''/i'' = Some (1, 4)"
  "inode_at (ex_keeper d) k (Suc 0, 4) = \<lparr>n_kind = RegularNode, n_uid = 7, n_mode = 384, n_nlink = 1, n_mtime = 5, n_bytes = []\<rparr>"
  "clock (ex_keeper d) = 0" "effects (ex_keeper d) = []" "outcome (ex_keeper d) = (\<lambda>_ _. Inr ())"
  "database (ex_keeper d) = (\<lambda>_. Inr \<lparr>c_mode = ''delete'', c_catalog = undefined, c_db = d\<rparr>)"
  by (simp_all add: ex_keeper_def)

theorem unfinished_closes_ingress_witness:
  "\<exists>e xs. fst (reconcile_existing ''/m'' ''/i'' (ex_keeper \<lparr>ops = [ex_row], steps = []\<rparr>)) = Inl e
    \<and> effects (snd (reconcile_existing ''/m'' ''/i'' (ex_keeper \<lparr>ops = [ex_row], steps = []\<rparr>))) =
        xs @ [(''stop_ingress'', JArr [])]"
proof -
  define s where "s = ex_keeper \<lparr>ops = [ex_row], steps = []\<rparr>"
  obtain r t where rt: "reconcile_existing ''/m'' ''/i'' s = (r, t)" by fastforce
  have one: "\<forall>k. \<exists>c q. database s k = Inr c \<and> first_unfinished (c_db c) = Some q"
    by (simp add: s_def first_unfinished_def ex_row_def)
  have "fst (keeper_authority s) = Inr ()" by (simp add: s_def ex_authority)
  from unfinished_closes_ingress [OF rt this one] obtain e where e: "r = Inl e"
    and or: "(\<exists>xs. effects t = effects s @ xs @ [(''stop_ingress'', JArr [])] \<and> length xs \<le> 1)
       \<or> effects t = effects s" by blast
  have "effects t \<noteq> effects s"
    using rt by (auto simp: reconcile_existing_def reconcile_unfinished_def still_serves_def close_ingress_now_def
      seqP_def bindP_def query_def look_def s_def ex_authority first_unfinished_def ex_row_def exists_path_def
      catching_def ensuring_def act_def ret_def raiseP_def)
  then show ?thesis using e or rt by (auto simp: s_def)
qed

text \<open>A complete switchover with its route.\<close>

definition ex_route :: json where
  "ex_route = JObj [(''writer'', JStr ''B''), (''epoch'', JStr ''d1-b''), (''config_sha'', JStr (sha256_hex []))]"

definition ex_complete :: op_row where
  "ex_complete = ex_row\<lparr>r_complete := True\<rparr>"

definition ex_rows :: "step_row list" where
  "ex_rows = map (\<lambda>(i, p, st). \<lparr>s_op = ''op'', s_pos = i, s_phase = p, s_status = st,
     s_evidence = if p = ''route'' \<and> st = Done then show_json [] ex_route else ''{}''\<rparr>) (interleaved 0 PHASES)"

lemma ex_route_codable: "codable ex_route"
  by (simp add: ex_route_def)

lemma ex_rows_keys: "map step_key ex_rows = interleaved 0 PHASES"
  by (simp add: ex_rows_def o_def case_prod_beta step_key_def)

lemma ex_rows_own: "steps_of ''op'' \<lparr>ops = os, steps = ex_rows\<rparr> = ex_rows"
  by (simp add: steps_of_def ex_rows_def filter_map o_def case_prod_beta)

lemma ex_whole: "whole_journal ex_complete ex_rows = Inr ex_route"
proof -
  have "find (\<lambda>x. s_phase x = ''route'' \<and> s_status x = Done) ex_rows =
      Some \<lparr>s_op = ''op'', s_pos = 8, s_phase = ''route'', s_status = Done, s_evidence = show_json [] ex_route\<rparr>"
    by (simp add: ex_rows_def interleaved_def PHASES_def both_def)
  moreover have "intents_clean ex_rows" by (auto simp: intents_clean_def ex_rows_def)
  moreover have "loads (show_json [] ex_route) = Inr ex_route"
    by (simp add: ex_route_codable)
  ultimately show ?thesis
    by (simp add: whole_journal_def ex_rows_keys ex_complete_def ex_row_def phase_plan_def)
qed

lemma ex_current:
  "current_writer ''/i'' (ex_keeper \<lparr>ops = [ex_complete], steps = ex_rows\<rparr>) = (Inr (writer_answer ex_complete),
     (ex_keeper \<lparr>ops = [ex_complete], steps = ex_rows\<rparr>)\<lparr>clock := 7\<rparr>)"
proof -
  have "exact_route ex_route ''B'' ''d1-b'' (sha256_hex [])"
    by (simp add: exact_route_def ex_route_def route_keys_def set_is_def is_obj_iff)
  then show ?thesis
    using ex_whole by (simp add: current_writer_def seqP_def bindP_def ex_authority query_def look_def
      first_unfinished_def last_complete_def ex_complete_def ex_row_def known_contracts_def lift_def
      read_node_def ex_rows_own raiseP_def ret_def phase_plan_def)
qed

theorem writer_is_proved_witness:
  "\<exists>r. writer_of (ex_keeper \<lparr>ops = [ex_complete], steps = ex_rows\<rparr>) ''/i'' r \<and> writer_answer ex_complete = writer_answer r"
  by (rule writer_is_proved [OF ex_current])

end
