(* ===== verification/Command_Properties.thy ===== *)
theory Command_Properties
  imports Command
begin

text \<open>
  What a command promises, from the calls it makes: its process is started at most once, and not before its intent is
  durable; nothing else is started but what stops that process; a process whose communication failed is reported as uncertain unless
  its unit was stopped and seen dead.
\<close>

section \<open>Calls\<close>

text \<open>A call that starts no process: neither the command's own (\<open>spawn\<close>) nor another (\<open>run\<close>).\<close>

abbreviation quiet :: "string \<times> json \<Rightarrow> bool" where
  "quiet c \<equiv> fst c \<notin> {''spawn'', ''run''}"

abbreviation stop_call :: "string \<Rightarrow> string \<times> json" where
  "stop_call u \<equiv> (''run'', JArr (map JStr [''systemctl'', ''stop'', ''--wait'', u]))"

abbreviation show_call :: "string \<Rightarrow> string \<times> json" where
  "show_call u \<equiv> (''run'', JArr (map JStr [''systemctl'', ''show'', ''--property=LoadState'', ''--property=ActiveState'',
     ''--property=SubState'', ''--property=MainPID'', u]))"

text \<open>After the command's process only the stop and the query of the unit the command names may be started.\<close>

definition closing :: "string list \<Rightarrow> string \<times> json \<Rightarrow> bool" where
  "closing argv c \<longleftrightarrow> quiet c \<or> (\<exists>u. systemd_unit argv = Some u \<and> c \<in> {stop_call u, show_call u})"

text \<open>\<open>asks A m\<close>: the calls the program adds to the trace all have \<open>A\<close>.\<close>

definition asks :: "(string \<times> json \<Rightarrow> bool) \<Rightarrow> ('w host_scheme, 'a) prog \<Rightarrow> bool" where
  "asks A m \<longleftrightarrow> (\<forall>s. \<exists>new. trace (snd (m s)) = trace s @ new \<and> list_all A new)"

named_theorems asks_intros

lemma asks_pure [asks_intros]: "asks A (ret x)" "asks A (raiseP e)" "asks A (lift r)" "asks A (gets f)" "asks A (raise_when c e)"
  by (simp_all add: asks_def ret_def raiseP_def lift_def gets_def raise_when_def)

lemma asks_modify: "(\<And>s. trace (f s) = trace s) \<Longrightarrow> asks A (modify f)"
  by (simp add: asks_def modify_def)

lemma asks_hcall [asks_intros]: "A (n, x) \<Longrightarrow> asks A (hcall n x)"
  by (simp add: asks_def hcall_def)

lemma asks_bind [asks_intros]:
  assumes "asks A m" "\<And>x. asks A (f x)" shows "asks A (bindP m f)"
  unfolding asks_def
proof
  fix s
  obtain r t where m: "m s = (r, t)" by fastforce
  obtain a where a: "trace t = trace s @ a" "list_all A a" using assms(1) m by (metis asks_def snd_conv)
  show "\<exists>new. trace (snd (bindP m f s)) = trace s @ new \<and> list_all A new"
  proof (cases r)
    case (Inl e)
    then show ?thesis using m a by (auto simp: bindP_def)
  next
    case (Inr x)
    obtain b where b: "trace (snd (f x t)) = trace t @ b" "list_all A b" using assms(2) by (metis asks_def)
    have "trace (snd (bindP m f s)) = trace s @ (a @ b)" "list_all A (a @ b)"
      using m a b Inr by (simp_all add: bindP_def)
    then show ?thesis by blast
  qed
qed

lemma asks_seq [asks_intros]: "asks A m \<Longrightarrow> asks A k \<Longrightarrow> asks A (seqP m k)"
  unfolding seqP_def by (rule asks_bind)

lemma asks_on_exn [asks_intros]:
  assumes "asks A m" "\<And>e. asks A (h e)" shows "asks A (on_exn m h)"
  unfolding asks_def
proof
  fix s
  obtain r t where m: "m s = (r, t)" by fastforce
  obtain a where a: "trace t = trace s @ a" "list_all A a" using assms(1) m by (metis asks_def snd_conv)
  show "\<exists>new. trace (snd (on_exn m h s)) = trace s @ new \<and> list_all A new"
  proof (cases r)
    case (Inl e)
    obtain b where b: "trace (snd (h e t)) = trace t @ b" "list_all A b" using assms(2) by (metis asks_def)
    have "trace (snd (on_exn m h s)) = trace s @ (a @ b)" "list_all A (a @ b)"
      using m a b Inl by (simp_all add: on_exn_def)
    then show ?thesis by blast
  next
    case (Inr x)
    then show ?thesis using m a by (auto simp: on_exn_def)
  qed
qed

lemma asks_ensuring [asks_intros]:
  assumes "asks A m" "asks A c" shows "asks A (ensuring m c)"
  unfolding asks_def
proof
  fix s
  obtain r t where m: "m s = (r, t)" by fastforce
  obtain a where a: "trace t = trace s @ a" "list_all A a" using assms(1) m by (metis asks_def snd_conv)
  obtain b where b: "trace (snd (c t)) = trace t @ b" "list_all A b" using assms(2) by (metis asks_def)
  have "trace (snd (ensuring m c s)) = trace s @ (a @ b)" "list_all A (a @ b)"
    using m a b by (auto simp: ensuring_def split: prod.splits sum.splits)
  then show "\<exists>new. trace (snd (ensuring m c s)) = trace s @ new \<and> list_all A new" by blast
qed

lemma asks_case [asks_intros]:
  "(\<And>a b. asks A (f a b)) \<Longrightarrow> asks A (case x of (a, b) \<Rightarrow> f a b)"
  "asks A m \<Longrightarrow> asks A k \<Longrightarrow> asks A (if c then m else k)"
  "asks A m \<Longrightarrow> (\<And>y. asks A (g y)) \<Longrightarrow> asks A (case z of None \<Rightarrow> m | Some y \<Rightarrow> g y)"
  by (simp_all split: prod.splits option.splits)

lemma asks_state [asks_intros]: "asks A (\<lambda>s. (f s, s))"
  by (simp add: asks_def)

lemma asks_files [asks_intros]:
  "asks A (create_new k p mode raw)" "asks A (set_bytes p raw)" "asks A (change p g)" "asks A held_authority"
  unfolding create_new_def create_def set_bytes_def change_def held_authority_def
  by (intro asks_intros asks_modify; simp)+

lemma asks_does [asks_intros]: "A (n, x) \<Longrightarrow> asks A (does n x)"
  unfolding does_def by (intro asks_intros)

lemma asks_mono: "asks A m \<Longrightarrow> (\<And>c. A c \<Longrightarrow> B c) \<Longrightarrow> asks B m"
  unfolding asks_def by (metis list_all_iff)

lemma asks_fsync [asks_intros]:
  "asks quiet (fsync_at l p)" "asks quiet (fsync_dir l p)"
  unfolding fsync_at_def fsync_dir_def by (intro asks_intros; simp)+

lemma asks_durable [asks_intros]: "asks quiet (durable_json p v l)"
  unfolding durable_json_def by (intro asks_intros)

lemma asks_stop [asks_intros]: "asks quiet stop_command" "asks quiet last_stop"
  unfolding stop_command_def last_stop_def by (intro asks_intros; simp)+

lemma asks_record [asks_intros]:
  "asks quiet (record_cleanup_uncertain p v)" "asks quiet (record_command_outcome p v b)"
  unfolding record_cleanup_uncertain_def record_command_outcome_def by (intro asks_intros)+

lemma asks_result [asks_intros]: "asks quiet (result_of q)"
  unfolding result_of_def by (intro asks_intros)

lemma quiet_closing: "asks quiet m \<Longrightarrow> asks (closing argv) m"
  by (erule asks_mono) (simp add: closing_def)

lemmas closing_parts [asks_intros] = asks_stop [THEN quiet_closing] asks_record [THEN quiet_closing] asks_result [THEN quiet_closing]

lemma asks_cleanup [asks_intros]: "asks (closing argv) (timeout_cleanup argv)"
  unfolding timeout_cleanup_def stop_systemd_unit_def named_def command_def
  by (cases "systemd_unit argv") (auto intro!: asks_intros simp: closing_def)

lemma asks_process [asks_intros]:
  "asks (closing argv) (started p argv)" "asks (closing argv) (communicate p argv v n)"
  unfolding started_def communicate_def communication_failed_def by (intro asks_intros; simp add: closing_def)+

section \<open>Intent before effect\<close>

abbreviation spawn_call :: "string list \<Rightarrow> string \<times> json" where
  "spawn_call argv \<equiv> (''spawn'', JArr (map JStr argv))"

text \<open>No process at all, or the command's own and then at most what stops it.\<close>

definition orderly :: "string list \<Rightarrow> (string \<times> json) list \<Rightarrow> bool" where
  "orderly argv new \<longleftrightarrow> list_all quiet new
     \<or> (\<exists>before after. new = before @ spawn_call argv # after \<and> list_all quiet before \<and> list_all (closing argv) after)"

definition starts_orderly :: "string list \<Rightarrow> ('w host_scheme, 'a) prog \<Rightarrow> bool" where
  "starts_orderly argv m \<longleftrightarrow> (\<forall>s. \<exists>new. trace (snd (m s)) = trace s @ new \<and> orderly argv new)"

lemma orderly_quiet: "list_all quiet a \<Longrightarrow> orderly argv a"
  by (simp add: orderly_def)

lemma orderly_spawn:
  "list_all quiet before \<Longrightarrow> list_all (closing argv) after \<Longrightarrow> orderly argv (before @ spawn_call argv # after)"
  unfolding orderly_def by blast

lemma orderly_before: "list_all quiet a \<Longrightarrow> orderly argv b \<Longrightarrow> orderly argv (a @ b)"
  unfolding orderly_def
proof (elim disjE exE conjE)
  fix before after
  assume "list_all quiet a" "b = before @ spawn_call argv # after" "list_all quiet before" "list_all (closing argv) after"
  then show "list_all quiet (a @ b) \<or> (\<exists>before after. a @ b = before @ spawn_call argv # after \<and> list_all quiet before
      \<and> list_all (closing argv) after)" by (intro disjI2 exI [of _ "a @ before"] exI [of _ after]) simp
qed simp

lemma then_orderly:
  assumes "asks quiet m" "\<And>x. starts_orderly argv (f x)"
  shows "starts_orderly argv (bindP m f)"
  unfolding starts_orderly_def
proof
  fix s
  obtain r t where m: "m s = (r, t)" by fastforce
  obtain a where a: "trace t = trace s @ a" "list_all quiet a" using assms(1) m by (metis asks_def snd_conv)
  show "\<exists>new. trace (snd (bindP m f s)) = trace s @ new \<and> orderly argv new"
  proof (cases r)
    case (Inl e)
    then show ?thesis using m a orderly_quiet by (auto simp: bindP_def)
  next
    case (Inr x)
    obtain b where b: "trace (snd (f x t)) = trace t @ b" "orderly argv b" using assms(2) by (metis starts_orderly_def)
    have "trace (snd (bindP m f s)) = trace s @ (a @ b)" using m a b Inr by (simp add: bindP_def)
    then show ?thesis using orderly_before [OF a(2) b(2)] by blast
  qed
qed

lemma then_orderly_seq: "asks quiet m \<Longrightarrow> starts_orderly argv k \<Longrightarrow> starts_orderly argv (seqP m k)"
  unfolding seqP_def by (rule then_orderly)

text \<open>The process is started by one call; whatever it answers, what follows only closes.\<close>

lemma spawn_then:
  fixes f :: "unit \<Rightarrow> ('w controller_scheme, 'a) prog"
  assumes f: "\<And>x. asks (closing argv) (f x)"
  shows "starts_orderly argv (bindP (spawn p argv) f)"
  unfolding starts_orderly_def
proof
  fix s :: "'w controller_scheme"
  obtain r t where d: "does ''spawn'' (JArr (map JStr argv)) s = (r, t)" by fastforce
  then have one: "trace t = trace s @ [spawn_call argv]"
    by (auto simp: does_def hcall_def bindP_def ret_def split: sum.splits)
  define k :: "('w controller_scheme, 'a) prog" where "k = (case r of Inr u \<Rightarrow> f u | Inl e \<Rightarrow>
    seqP (record_command_outcome (outcome_path p) (outcome_value argv None False (Some e) None) True) (raiseP e))"
  have "asks (closing argv) k" unfolding k_def using f by (cases r) (auto intro!: asks_intros)
  then obtain b where b: "trace (snd (k t)) = trace t @ b" "list_all (closing argv) b" unfolding asks_def by blast
  have "snd (bindP (spawn p argv) f s) = snd (k t)"
    using d by (auto simp: spawn_def on_exn_def k_def bindP_def seqP_def raiseP_def split: sum.splits prod.splits)
  then have "trace (snd (bindP (spawn p argv) f s)) = trace s @ ([] @ spawn_call argv # b)" using one b by simp
  moreover have "orderly argv ([] @ spawn_call argv # b)" using b(2) by (intro orderly_spawn) simp_all
  ultimately show "\<exists>new. trace (snd (bindP (spawn p argv) f s)) = trace s @ new \<and> orderly argv new" by blast
qed

lemma bind_assoc: "bindP (bindP m f) g = bindP m (\<lambda>x. bindP (f x) g)"
  by (auto simp: bindP_def fun_eq_iff split: prod.splits sum.splits)

lemma run_orderly:
  assumes "\<And>code. asks (closing argv) (f code)"
  shows "starts_orderly argv (bindP (run_process p argv v n) f)"
proof -
  let ?own = "bindP (spawn p argv) (\<lambda>_. bindP (bindP (ensuring (seqP (started p argv) (communicate p argv v n)) last_stop)
     (\<lambda>code. ret (int_val code))) f)"
  have form: "bindP (run_process p argv v n) f = seqP (create_new RegularNode (p @ ''.stdout'') 384 [])
     (seqP (create_new RegularNode (p @ ''.stderr'') 384 []) ?own)"
    by (simp add: run_process_def seqP_def bind_assoc)
  have "starts_orderly argv ?own" by (rule spawn_then) (intro asks_intros assms)
  then show ?thesis unfolding form by (intro then_orderly_seq asks_files)
qed

text \<open>A file was flushed, and after it its directory, and both flushes succeeded.\<close>

definition flushed :: "'w host_scheme \<Rightarrow> (string \<times> json) list \<Rightarrow> string \<Rightarrow> string \<Rightarrow> bool" where
  "flushed s calls file dir \<longleftrightarrow> (\<exists>a b c v w. calls = a @ (''fsync'', JStr file) # b @ (''fsync'', JStr dir) # c
     \<and> answer s (trace s @ a) (''fsync'', JStr file) = Inr v
     \<and> answer s (trace s @ a @ (''fsync'', JStr file) # b) (''fsync'', JStr dir) = Inr w)"

lemma flushed_more: "flushed s calls file dir \<Longrightarrow> flushed s (calls @ others) file dir"
  unfolding flushed_def by (metis append_assoc append_Cons)

lemma flushed_from:
  assumes "flushed s1 calls file dir" and "trace s1 = trace s @ [x]" and "answer s1 = answer s"
  shows "flushed s (x # calls) file dir"
proof -
  from assms(1) obtain a b c v w where "calls = a @ (''fsync'', JStr file) # b @ (''fsync'', JStr dir) # c"
    "answer s1 (trace s1 @ a) (''fsync'', JStr file) = Inr v"
    "answer s1 (trace s1 @ a @ (''fsync'', JStr file) # b) (''fsync'', JStr dir) = Inr w"
    unfolding flushed_def by blast
  then show ?thesis using assms(2,3) unfolding flushed_def
    by (intro exI [of _ "x # a"] exI [of _ b] exI [of _ c] exI [of _ v] exI [of _ w]) simp
qed

lemma fsync_called:
  assumes "fsync_at l p s = (Inr u, t)"
  shows "\<exists>a b v. trace t = trace s @ a @ (''fsync'', JStr p) # b \<and> list_all quiet a \<and> list_all quiet b
    \<and> answer s (trace s @ a) (''fsync'', JStr p) = Inr v \<and> answer t = answer s"
  using assms
  by (intro exI [of _ "[(''before_fsync'', JArr [JStr l, JStr p])]"] exI [of _ "[(''after_fsync'', JArr [JStr l, JStr p])]"])
    (auto simp: fsync_at_def does_def seqP_def bindP_def hcall_def ret_def split: sum.splits)

lemma fsync_area: "fsync_at l p s = (Inr u, t) \<Longrightarrow> area t = area s"
  by (auto simp: fsync_at_def does_def seqP_def bindP_def hcall_def ret_def split: sum.splits)

lemma durable_called:
  assumes "durable_json p v l s = (Inr u, t)"
  shows "\<exists>a. trace t = trace s @ a \<and> list_all quiet a \<and> flushed s a p (area s)"
proof -
  obtain s1 raw s2 s3 where s1: "create_new RegularNode p 384 [] s = (Inr (), s1)" and s2: "set_bytes p raw s1 = (Inr (), s2)"
    and f: "fsync_at (l @ ''.file'') p s2 = (Inr (), s3)" and d: "fsync_dir (l @ ''.dir'') (area s3) s3 = (Inr u, t)"
    using assms unfolding durable_json_def by (auto simp: seqP_eq_Inr bindP_eq_Inr lift_def gets_def)
  have same: "trace s2 = trace s" "area s3 = area s" "answer s2 = answer s"
    using s1 s2 fsync_area [OF f]
    by (auto simp: create_new_def create_def set_bytes_def seqP_eq_Inr raise_when_def modify_def)
  obtain a a' va where a: "trace s3 = trace s2 @ a @ (''fsync'', JStr p) # a'" "list_all quiet a" "list_all quiet a'"
    "answer s2 (trace s2 @ a) (''fsync'', JStr p) = Inr va" "answer s3 = answer s2"
    using fsync_called [OF f] by blast
  have "fsync_at (l @ ''.dir'') (area s3) s3 = (Inr u, t)"
    using d by (auto simp: fsync_dir_def seqP_eq_Inr raise_when_def)
  then obtain b b' vb where b: "trace t = trace s3 @ b @ (''fsync'', JStr (area s3)) # b'" "list_all quiet b" "list_all quiet b'"
    "answer s3 (trace s3 @ b) (''fsync'', JStr (area s3)) = Inr vb"
    using fsync_called by blast
  let ?new = "a @ (''fsync'', JStr p) # (a' @ b) @ (''fsync'', JStr (area s)) # b'"
  have "trace t = trace s @ ?new" "list_all quiet ?new" using a b same by simp_all
  moreover have "flushed s ?new p (area s)"
    unfolding flushed_def using a(1,4,5) b(1,4) same
    by (intro exI [of _ a] exI [of _ "a' @ b"] exI [of _ b'] exI [of _ va] exI [of _ vb]) simp
  ultimately show ?thesis by blast
qed

text \<open>After a durable intent, the rest of the command may start its process.\<close>

definition intended :: "'w host_scheme \<Rightarrow> string list \<Rightarrow> string \<Rightarrow> string \<Rightarrow> (string \<times> json) list \<Rightarrow> bool" where
  "intended s argv file dir new \<longleftrightarrow> list_all quiet new
     \<or> (\<exists>before after. new = before @ spawn_call argv # after \<and> list_all quiet before \<and> list_all (closing argv) after
          \<and> flushed s before file dir)"

lemma intent_then:
  assumes "starts_orderly argv k"
  shows "\<exists>new. trace (snd (seqP (durable_json p v l) k s)) = trace s @ new \<and> intended s argv p (area s) new"
proof -
  obtain r t where d: "durable_json p v l s = (r, t)" by fastforce
  show ?thesis
  proof (cases r)
    case (Inl e)
    obtain a where "trace t = trace s @ a" "list_all quiet a"
      using asks_durable [of p v l] d unfolding asks_def by (metis snd_conv)
    then show ?thesis using Inl d by (auto simp: seqP_def bindP_def intended_def)
  next
    case (Inr u)
    obtain a where a: "trace t = trace s @ a" "list_all quiet a" "flushed s a p (area s)"
      using durable_called d Inr by blast
    obtain b where b: "trace (snd (k t)) = trace t @ b" "orderly argv b" using assms unfolding starts_orderly_def by blast
    have tr: "trace (snd (seqP (durable_json p v l) k s)) = trace s @ (a @ b)"
      using a b d Inr by (simp add: seqP_def bindP_def)
    from b(2) have "intended s argv p (area s) (a @ b)"
      unfolding orderly_def intended_def
    proof (elim disjE exE conjE)
      fix before after
      assume "b = before @ spawn_call argv # after" "list_all quiet before" "list_all (closing argv) after"
      then show "list_all quiet (a @ b) \<or> (\<exists>before after. a @ b = before @ spawn_call argv # after \<and> list_all quiet before
          \<and> list_all (closing argv) after \<and> flushed s before p (area s))"
        using a(2) flushed_more [OF a(3)] by (intro disjI2 exI [of _ "a @ before"] exI [of _ after]) simp
    qed (use a(2) in simp)
    with tr show ?thesis by blast
  qed
qed

text \<open>The file a command writes its intent to: in its operation's directory, named after the clock.\<close>

definition intent_path :: "'w controller_scheme \<Rightarrow> string" where
  "intent_path s = path_join (area s) (show_int (int_val (case answer s (trace s) (''time_ns'', JNull) of
     Inr ns \<Rightarrow> ns | Inl e \<Rightarrow> JNull))) @ ''.intent.json''"

text \<open>C31 No effect without a durable intent: in every run of \<open>command\<close>, whatever fails, its process is started at most
  once, with exactly its arguments, and before it the intent file of this command and then the directory that holds it
  were both flushed to disk, and both flushes succeeded. No other process is started before it; after it only the stop
  and the query of the systemd unit the command names.\<close>

theorem intent_before_spawn:
  fixes s :: "'w controller_scheme"
  shows "\<exists>new. trace (snd (control_command argv input seconds s)) = trace s @ new
    \<and> (list_all quiet new
       \<or> (\<exists>before after. new = before @ spawn_call argv # after \<and> list_all quiet before \<and> list_all (closing argv) after
            \<and> flushed s before (intent_path s) (area s)))"
proof -
  define rest :: "string \<Rightarrow> ('w controller_scheme, string) prog" where "rest = (\<lambda>prefix. seqP (does ''before_command_spawn'' (JArr (map JStr argv)))
     (bindP (run_process prefix argv input seconds) (\<lambda>code.
     seqP (record_command_outcome (outcome_path prefix) (outcome_value argv (Some code) False None None) (code \<noteq> 0))
     (if code \<noteq> 0 then raiseP RuntimeError else result_of (prefix @ ''.stdout'')))))"
  have rest: "starts_orderly argv (rest prefix)" for prefix
    unfolding rest_def by (rule then_orderly_seq, intro asks_intros, simp) (rule run_orderly, intro asks_intros)
  have "\<exists>new. trace (snd (control_command argv input seconds s)) = trace s @ new \<and> intended s argv (intent_path s) (area s) new"
  proof (cases "fst (held_authority s)")
    case (Inl e)
    then show ?thesis
      by (intro exI [of _ "[]"]) (simp add: control_command_def seqP_def bindP_def held_authority_def intended_def)
  next
    case (Inr u)
    then have h: "held_authority s = (Inr u, s)" by (simp add: held_authority_def)
    obtain q s1 where ns: "hcall ''time_ns'' JNull s = (q, s1)" by fastforce
    then have s1: "trace s1 = trace s @ [(''time_ns'', JNull)]" "area s1 = area s" "answer s1 = answer s"
      and q: "q = answer s (trace s) (''time_ns'', JNull)" by (auto simp: hcall_def)
    show ?thesis
    proof (cases q)
      case (Inl e)
      then have "trace (snd (control_command argv input seconds s)) = trace s @ [(''time_ns'', JNull)]"
        using h ns s1 by (simp add: control_command_def seqP_def bindP_def)
      then show ?thesis by (intro exI conjI) (assumption, simp add: intended_def)
    next
      case (Inr v)
      let ?p = "path_join (area s1) (show_int (int_val v))"
      have p: "?p @ ''.intent.json'' = intent_path s" unfolding intent_path_def q [symmetric] Inr using s1(2) by simp
      obtain new where new: "trace (snd (seqP (durable_json (?p @ ''.intent.json'') (intent_value argv) ''command-intent'')
          (rest ?p) s1)) = trace s1 @ new" "intended s1 argv (intent_path s) (area s) new"
        using intent_then [OF rest] p s1(2) by metis
      have "control_command argv input seconds s = seqP (durable_json (?p @ ''.intent.json'') (intent_value argv) ''command-intent'')
          (rest ?p) s1"
        using h ns Inr by (simp add: control_command_def rest_def seqP_def bindP_def gets_def)
      then have "trace (snd (control_command argv input seconds s)) = trace s @ ((''time_ns'', JNull) # new)"
        using new(1) s1(1) by simp
      moreover from new(2) have "intended s argv (intent_path s) (area s) ((''time_ns'', JNull) # new)"
        unfolding intended_def
      proof (elim disjE exE conjE)
        fix before after
        assume "new = before @ spawn_call argv # after" "list_all quiet before" "list_all (closing argv) after"
          and "flushed s1 before (intent_path s) (area s)"
        then show "list_all quiet ((''time_ns'', JNull) # new) \<or> (\<exists>before after. (''time_ns'', JNull) # new = before @ spawn_call argv # after
            \<and> list_all quiet before \<and> list_all (closing argv) after \<and> flushed s before (intent_path s) (area s))"
          using flushed_from [OF _ s1(1,3)] by (intro disjI2 exI [of _ "(''time_ns'', JNull) # before"] exI [of _ after]) simp
      qed simp
      ultimately show ?thesis by blast
    qed
  qed
  then show ?thesis unfolding intended_def .
qed

section \<open>The end of a stopped process\<close>

text \<open>The one unit the command names was stopped, successfully, and then seen without a process.\<close>

definition unit_proved :: "string list \<Rightarrow> 'w controller_scheme \<Rightarrow> 'w controller_scheme \<Rightarrow> bool" where
  "unit_proved argv s t \<longleftrightarrow> (\<exists>u before after p q. systemd_unit argv = Some u
     \<and> trace t = before @ [stop_call u, show_call u] @ after
     \<and> answer s before (stop_call u) = Inr p \<and> code_of p = 0
     \<and> answer s (before @ [stop_call u]) (show_call u) = Inr q \<and> code_of q = 0
     \<and> unit_state (unit_fields (ascii_replace (take 65536 (out_of q)))) \<in> proven_states)"

lemma not_ok: "bounded_error_type e \<noteq> ''ok''"
  by (cases e) (simp_all add: bounded_error_type_def error_name_def Let_def is_lower_def is_upper_def is_alnum_def is_digit_def)

lemma not_proven: "bounded_error_type e \<notin> proven_states"
  by (cases e) (simp_all add: bounded_error_type_def proven_states_def Let_def)

lemma stop_proves:
  assumes "stop_systemd_unit u s = (Inr (st, True), t)"
  shows "\<exists>p q. trace t = trace s @ [stop_call u, show_call u]
     \<and> answer s (trace s) (stop_call u) = Inr p \<and> code_of p = 0
     \<and> answer s (trace s @ [stop_call u]) (show_call u) = Inr q \<and> code_of q = 0
     \<and> unit_state (unit_fields (ascii_replace (take 65536 (out_of q)))) \<in> proven_states"
  using assms not_ok not_proven
  by (auto simp: stop_systemd_unit_def named_def on_exn_def bindP_def ret_def command_def hcall_def proven_states_def
      split: sum.splits if_splits)

lemma cleanup_proves:
  "timeout_cleanup argv s = (Inr (st, True), t) \<Longrightarrow> \<exists>u. systemd_unit argv = Some u \<and> stop_systemd_unit u s = (Inr (st, True), t)"
  by (auto simp: timeout_cleanup_def bindP_def ret_def split: option.splits prod.splits sum.splits)

lemma cleanup_returns: "\<exists>st proven t. timeout_cleanup argv s = (Inr (st, proven), t)"
  by (auto simp: timeout_cleanup_def stop_systemd_unit_def named_def on_exn_def bindP_def ret_def
      split: option.splits prod.splits sum.splits)

lemma records_return:
  "fst (record_cleanup_uncertain p v s) = Inr ()" "fst (record_command_outcome p v True s) = Inr ()"
  by (simp_all add: record_cleanup_uncertain_def record_command_outcome_def on_exn_def ret_def split: prod.splits sum.splits)

lemma failed_is_proved:
  assumes "communication_failed prefix argv e s = (r, t)"
  shows "r = Inl CommandCleanupUncertain \<or> r = Inl e \<and> unit_proved argv s t"
proof -
  obtain st proven s1 where c: "timeout_cleanup argv s = (Inr (st, proven), s1)" using cleanup_returns by blast
  show ?thesis
  proof (cases proven)
    case False
    obtain s2 where a: "record_cleanup_uncertain (prefix @ ''.cleanup-uncertain.json'') st s1 = (Inr (), s2)"
      using records_return(1) by (metis prod.collapse)
    obtain s3 where b: "record_command_outcome (outcome_path prefix)
        (outcome_value argv None True (Some e) (Some (st, False))) True s2 = (Inr (), s3)"
      using records_return(2) by (metis prod.collapse)
    show ?thesis using assms c a b False by (simp add: communication_failed_def bindP_def seqP_def raiseP_def)
  next
    case True
    obtain s3 where b: "record_command_outcome (outcome_path prefix)
        (outcome_value argv None True (Some e) (Some (st, True))) True s1 = (Inr (), s3)"
      using records_return(2) by (metis prod.collapse)
    then obtain after where after: "trace s3 = trace s1 @ after"
      using asks_record(2) unfolding asks_def by (metis snd_conv)
    have rt: "r = Inl e" "t = s3" using assms c b True
      by (simp_all add: communication_failed_def bindP_def seqP_def raiseP_def ret_def)
    obtain u where u: "systemd_unit argv = Some u" "stop_systemd_unit u s = (Inr (st, True), s1)"
      using cleanup_proves [of argv s st s1] c True by auto
    have "unit_proved argv s t"
      using stop_proves [OF u(2)] u(1) after rt(2) unfolding unit_proved_def by auto
    then show ?thesis using rt by simp
  qed
qed

text \<open>C32 Uncertainty is never dropped: when waiting for a started process fails, for whatever reason, what the
  caller sees is \<open>CommandCleanupUncertain\<close>, unless the command ran one well-formed systemd unit, that unit was
  stopped successfully, and a later query saw it without a main process, inactive and dead or gone; only
  then does the original failure come through.\<close>

theorem uncertain_unless_proved:
  "case communicate prefix argv input seconds s of
      (Inl e, t) \<Rightarrow> e = CommandCleanupUncertain \<or> unit_proved argv s t
    | (Inr _, t) \<Rightarrow> trace t = trace s @ [(''communicate'', JArr [input, JInt seconds])]"
proof -
  let ?call = "(''communicate'', JArr [input, JInt seconds])"
  show ?thesis
  proof (cases "answer s (trace s) ?call")
    case (Inr v)
    then show ?thesis by (simp add: communicate_def on_exn_def hcall_def)
  next
    case (Inl e)
    obtain r1 s1 where h: "hcall ''communicate'' (JArr [input, JInt seconds]) s = (r1, s1)" by fastforce
    then have r1: "r1 = Inl e" "answer s1 = answer s" using Inl by (auto simp: hcall_def)
    define m :: "('a controller_scheme, unit) prog" where
      "m = (if isa e TimeoutExpired then on_exn (does ''before_command_timeout'' JNull) (\<lambda>_. ret ()) else ret ())"
    have m: "\<exists>s2. m s1 = (Inr (), s2) \<and> answer s2 = answer s"
      using r1(2) by (auto simp: m_def on_exn_def does_def bindP_def hcall_def ret_def split: sum.splits)
    then obtain s2 where s2: "m s1 = (Inr (), s2)" "answer s2 = answer s" by blast
    obtain r t where f: "communication_failed prefix argv e s2 = (r, t)" by fastforce
    have run: "communicate prefix argv input seconds s = (r, t)"
      using h r1 s2 f by (simp add: communicate_def on_exn_def seqP_def bindP_def m_def [symmetric])
    have "unit_proved argv s2 t = unit_proved argv s t" using s2(2) by (simp add: unit_proved_def)
    then show ?thesis using failed_is_proved [OF f] run by auto
  qed
qed

end
