(* ===== verification/Controls.thy ===== *)
theory Controls
  imports Command
begin

text \<open>
  \<open>hat/control.py\<close>, class \<open>ControlIO\<close>, what the controller does with its commands: requests to a node, the
  wait for a node, the fence and its receipt, the public ingress, the proof that the fault producer is dead,
  and the authority over the protected inputs that was committed with the preflight.
\<close>

section \<open>Requests to a node\<close>

definition SSH_FLAGS :: "string list" where
  "SSH_FLAGS = [''-i'', ''/etc/hat-control/id_ed25519'', ''-o'', ''IdentitiesOnly=yes'',
     ''-o'', ''BatchMode=yes'', ''-o'', ''ConnectTimeout=10'',
     ''-o'', ''StrictHostKeyChecking=yes'',
     ''-o'', ''UserKnownHostsFile=/etc/hat-control/known_hosts'',
     ''-o'', ''GlobalKnownHostsFile=/dev/null'']"

definition REMOTE_ACTIONS :: "(string \<times> string \<times> string) list" where
  "REMOTE_ACTIONS = [
     (''probe-source'', ''probe'', ''source_epoch''), (''probe-new'', ''probe'', ''new_epoch''),
     (''quiesce'', ''quiesce'', ''source_epoch''), (''freeze'', ''freeze'', ''source_epoch''),
     (''restore'', ''restore'', ''source_epoch''), (''prepare'', ''prepare'', ''source_epoch''),
     (''inspect-frozen'', ''inspect-frozen'', ''source_epoch''),
     (''restore-recovery'', ''restore-recovery'', ''source_epoch''),
     (''rejoin'', ''rejoin'', ''source_epoch''), (''activate-new'', ''activate'', ''new_epoch''),
     (''inspect-cold'', ''inspect-cold'', ''current''),
     (''prepare-recovery'', ''prepare-recovery'', ''current'')]"

text \<open>\<open>self.state.get(label, {}).get(key, default)\<close>.\<close>

definition known_of :: "string \<Rightarrow> string \<Rightarrow> json \<Rightarrow> 'w controller_scheme \<Rightarrow> json res" where
  "known_of who key dflt s = bindR (get_or (known s) who (JObj [])) (\<lambda>v. get_or v key dflt)"

definition op_epoch :: "operation \<Rightarrow> string \<Rightarrow> string" where
  "op_epoch q source = (if source = ''source_epoch'' then o_source_epoch q else o_new_epoch q)"

definition wire_action :: "string \<Rightarrow> string \<Rightarrow> 'w controller_scheme \<Rightarrow> (string \<times> json) res" where
  "wire_action who action s = reraise [KeyError, TypeError] ValueError
     (case map_of REMOTE_ACTIONS action of None \<Rightarrow> Inl KeyError
      | Some (wire, source) \<Rightarrow>
          if source = ''current''
          then mapR (\<lambda>e. (wire, e)) (known_of who ''epoch'' (JStr (o_source_epoch (running_op s))) s)
          else Inr (wire, JStr (op_epoch (running_op s) source)))"

definition node_address :: "string \<Rightarrow> 'w controller_scheme \<Rightarrow> json res" where
  "node_address who s = bindR (getitem (settings s) ''nodes'') (\<lambda>nodes. bindR (getitem nodes who) (\<lambda>n. getitem n ''address''))"

definition remote_request :: "string \<Rightarrow> string \<Rightarrow> json \<Rightarrow> 'w controller_scheme \<Rightarrow> (string list \<times> string) res" where
  "remote_request who action payload s =
     bindR (getitem (settings s) ''nodes'') (\<lambda>nodes. bindR (getitem nodes who) (\<lambda>n.
     bindR (wire_action who action s) (\<lambda>(wire, epoch).
     bindR (known_of who ''boot_id'' JNull s) (\<lambda>boot.
     bindR (getitem n ''address'') (\<lambda>address. case address of
       JStr a \<Rightarrow> bindR (dumps (JObj [(''action'', JStr wire), (''operation'', JStr (o_id (running_op s))),
             (''epoch'', epoch), (''boot_id'', boot), (''payload'', if truthy payload then payload else JObj [])])) (\<lambda>data.
           Inr ([''ssh''] @ SSH_FLAGS @ [''root@'' @ a, ''hat-node''], data))
     | _ \<Rightarrow> Inl TypeError)))))"

definition remote :: "string \<Rightarrow> string \<Rightarrow> json \<Rightarrow> int \<Rightarrow> ('w controller_scheme, json) prog" where
  "remote who action payload seconds =
     bindP (\<lambda>s. (remote_request who action payload s, s)) (\<lambda>(argv, data).
     bindP (control_command argv (JStr data) seconds) (\<lambda>raw. lift (loads_text raw)))"

text \<open>The wait polls until the deadline; \<open>fuel\<close> bounds the polls.\<close>

fun poll_reachable :: "nat \<Rightarrow> json \<Rightarrow> rat \<Rightarrow> ('w controller_scheme, unit) prog" where
  "poll_reachable 0 address deadline = raiseP StopIteration"
| "poll_reachable (Suc n) address deadline =
     seqP held_authority
     (bindP (catching [ConnectionRefusedError, TimeoutError, OSError]
         (bindP monotonic (\<lambda>now. seqP (does ''connect'' (JArr [address, JInt 22, JFloat (Fin (min 2 (max (1/10) (deadline - now))))]))
           (ret True))) (ret False)) (\<lambda>connected.
      if connected then does ''close_connection'' JNull
      else bindP monotonic (\<lambda>now. if deadline \<le> now then raiseP RuntimeError
        else seqP (sleep (1/5)) (poll_reachable n address deadline))))"

definition wait_reachable :: "nat \<Rightarrow> string \<Rightarrow> rat \<Rightarrow> ('w controller_scheme, json) prog" where
  "wait_reachable fuel who timeout =
     bindP (\<lambda>s. (node_address who s, s)) (\<lambda>address.
     bindP monotonic (\<lambda>now.
     seqP (poll_reachable fuel address (now + timeout))
     (ret (JObj [(''label'', JStr who), (''address'', address), (''port'', JInt 22)]))))"

section \<open>The fence\<close>

definition TARGET_FIELDS :: "string list" where
  "TARGET_FIELDS = [''node'', ''instance_id'', ''provider_label'', ''address'', ''host_key'']"

definition trusted_pin :: "string \<Rightarrow> json \<Rightarrow> (string \<times> json) res" where
  "trusted_pin who config =
     (if who = ''A'' then mapR (\<lambda>p. (''/etc/hat-control/target-fm1.json'', p)) (getitem config ''fence_target'')
      else if who = ''B'' then
        bindR (get_or config ''fence_targets'' JNull) (\<lambda>targets.
        refuse_if [Inr (\<not> is_obj targets), notR (contains targets ''B'')]
        (bindR (getitem targets ''B'') (\<lambda>p.
         bindR (if is_obj p then contains p ''trustedpin'' else Inr False) (\<lambda>nested.
         mapR (\<lambda>q. (''/etc/hat-control/target-fm2.json'', q)) (if nested then getitem p ''trustedpin'' else Inr p)))))
      else Inl ValueError)"

definition pin_checked :: "string \<Rightarrow> 'w controller_scheme \<Rightarrow> (string \<times> json) res" where
  "pin_checked who s = bindR (trusted_pin who (settings s)) (\<lambda>(path, p).
     refuse_if [Inr (\<not> is_obj p), notR (set_is p TARGET_FIELDS)]
     (refuse_if [item_not p ''node'' (if who = ''A'' then ''fm1'' else ''fm2'')]
     (bindR (reraise [KeyError, TypeError] ValueError (node_address who s)) (\<lambda>address.
      refuse_if [itm p ''address'' (\<lambda>x. differs x address)] (Inr (path, p))))))"

definition host_private :: "string \<Rightarrow> 'w host_scheme \<Rightarrow> unit res" where
  "host_private path s = bindR (h_lstat path s) (\<lambda>n.
     if h_kind n \<noteq> RegularNode \<or> h_uid n \<noteq> huid s \<or> h_mode n mod 64 \<noteq> 0 \<or> h_nlink n \<noteq> 1
     then Inl ValueError else Inr ())"

definition fence_target :: "string \<Rightarrow> ('w controller_scheme, string \<times> json) prog" where
  "fence_target who =
     bindP (\<lambda>s. (pin_checked who s, s)) (\<lambda>(path, p).
     bindP (\<lambda>s. (host_private path s, s)) (\<lambda>_.
     bindP (\<lambda>s. (h_loads path s, s)) (\<lambda>target.
     if \<not> py_eq target p then raiseP ValueError else ret (path, target))))"

definition now_of :: "('w host_scheme, rat) prog" where
  "now_of = bindP (hcall ''time'' JNull) (\<lambda>v. ret (clock_of v))"

fun still_reachable :: "nat \<Rightarrow> json \<Rightarrow> ('w controller_scheme, unit) prog" where
  "still_reachable 0 address = ret ()"
| "still_reachable (Suc n) address =
     bindP (catching [ConnectionRefusedError, TimeoutError]
        (seqP (does ''connect'' (JArr [address, JInt 22, JInt 2])) (ret True)) (ret False)) (\<lambda>connected.
     if connected then seqP (does ''close_connection'' JNull) (raiseP RuntimeError)
     else seqP (sleep (1/5)) (still_reachable n address))"

definition fence ::
  "moments \<Rightarrow> (json \<Rightarrow> string list res) \<Rightarrow> string \<Rightarrow> string \<Rightarrow> string \<Rightarrow> ('w controller_scheme, json) prog" where
  "fence moment resolve action expected who =
     bindP (fence_target who) (\<lambda>(path, target).
     bindP now_of (\<lambda>started_at.
     bindP (control_command [''/root/.config/hat/m1-fence-linode'', action, path] JNull 180) (\<lambda>raw.
     bindP (lift (loads_text raw)) (\<lambda>receipt.
     bindP now_of (\<lambda>now.
     seqP (lift (validate_fence moment resolve now receipt target action expected started_at))
     (if expected = ''offline''
      then bindP (\<lambda>s. (node_address who s, s)) (\<lambda>address.
        seqP (still_reachable 3 address) (ret receipt))
      else ret receipt))))))"

section \<open>The public ingress\<close>

definition operation_marker :: "'w controller_scheme \<Rightarrow> json" where
  "operation_marker s = JObj [(''operation'', JStr (o_id (running_op s)))]"

definition learn :: "string \<Rightarrow> json \<Rightarrow> ('w controller_scheme, unit) prog" where
  "learn key v = modify (\<lambda>s. s\<lparr>known := JObj (dict_set (items_in (known s)) key v)\<rparr>)"

definition close_ingress :: "('w controller_scheme, json) prog" where
  "close_ingress =
     seqP (learn ''ingress_touched'' (JBool True))
     (bindP (gets (\<lambda>s. (marker s, h_exists (marker s) s, operation_marker s))) (\<lambda>(path, there, v).
     seqP (if there then ret () else atomic_json path v 384)
     (bindP (control_command [''systemctl'', ''stop'', ''hat-ingress.service''] JNull 180) (\<lambda>_.
     bindP (control_command [''systemctl'', ''show'', ''-p'', ''MainPID'', ''--value'', ''hat-ingress.service''] JNull 180) (\<lambda>pid.
     if strip pid \<noteq> ''0'' then raiseP RuntimeError else ret (JObj [(''closed'', JBool True)]))))))"

text \<open>\<open>process_identity\<close> on the controller's own host.\<close>

definition host_process_identity :: "int \<Rightarrow> ('w host_scheme, json) prog" where
  "host_process_identity pid =
     (if pid \<le> 0 then ret JNull
      else catching [OSError, IndexError]
        (bindP (\<lambda>s. (h_text (''/proc/'' @ show_int pid @ ''/stat'') s, s)) (\<lambda>raw.
         bindP (lift (birth_of raw)) (\<lambda>b. ret (case b of None \<Rightarrow> JNull | Some x \<Rightarrow> JStr x))))
        (ret JNull))"

definition start_ingress :: "string \<Rightarrow> ('w controller_scheme, unit) prog" where
  "start_ingress digest =
     bindP (gets (\<lambda>s. o_id (running_op s))) (\<lambda>ident.
     bindP boot_id (\<lambda>boot.
     bindP (hcall ''getpid'' JNull) (\<lambda>pid.
     bindP (host_process_identity (int_val pid)) (\<lambda>birth.
     seqP (atomic_json ''/run/hat-control-route.json'' (JObj [(''operation'', JStr ident), (''boot_id'', JStr boot),
         (''pid'', pid), (''birth'', birth), (''config_sha'', JStr digest)]) 384)
     (bindP (control_command [''systemctl'', ''start'', ''hat-ingress.service''] JNull 180) (\<lambda>_. ret ()))))))"

section \<open>The fault producer\<close>

definition producer_path_invalid :: "json \<Rightarrow> json \<Rightarrow> bool" where
  "producer_path_invalid u cgroup \<longleftrightarrow> (case (u, cgroup) of
     (JStr name, JStr path) \<Rightarrow> producer_unit name = None
        \<or> path_root path \<noteq> ''/'' \<or> path_comps path \<noteq> [''sys'', ''fs'', ''cgroup'', ''system.slice'', name]
   | _ \<Rightarrow> True)"

text \<open>\<open>line.partition('=')\<close>: a line without the separator or a second value is malformed.\<close>

fun partition_fields :: "(string \<times> string) list \<Rightarrow> string list \<Rightarrow> (string \<times> string) list res" where
  "partition_fields acc [] = Inr acc"
| "partition_fields acc (l # ls) = (case cut_at ''='' l of
     None \<Rightarrow> Inl RuntimeError
   | Some (k, v) \<Rightarrow> if k \<in> fst ` set acc then Inl RuntimeError else partition_fields (acc @ [(k, v)]) ls)"

definition unit_live :: "(string \<times> string) list \<Rightarrow> bool" where
  "unit_live f \<longleftrightarrow> fst ` set f \<noteq> {''LoadState'', ''MainPID'', ''ActiveState'', ''SubState''}
     \<or> map_of f ''LoadState'' \<noteq> Some ''loaded'' \<or> map_of f ''MainPID'' \<noteq> Some ''0''
     \<or> map_of f ''ActiveState'' \<notin> {Some ''inactive'', Some ''failed''}"

definition producer_cgroup :: "string \<Rightarrow> 'w host_scheme \<Rightarrow> string res" where
  "producer_cgroup path s =
     (if \<not> h_there path s then Inr ''absent''
      else bindR (h_lstat path s) (\<lambda>n.
        if h_kind n \<noteq> DirectoryNode then Inl RuntimeError
        else let procs = path_join path ''cgroup.procs'' in
          raise_if (any_of [Inr (h_is_symlink procs s), Inr (\<not> h_is_file procs s),
              mapR (\<lambda>raw. strip raw \<noteq> []) (h_text procs s)]) RuntimeError (Inr ''empty'')))"

definition producer_stopped :: "json \<Rightarrow> json \<Rightarrow> ('w controller_scheme, json) prog" where
  "producer_stopped u cgroup =
     (if producer_path_invalid u cgroup then raiseP ValueError
      else bindP (control_command [''systemctl'', ''show'', ''--property=LoadState'', ''--property=MainPID'',
          ''--property=ActiveState'', ''--property=SubState'', str_val u] JNull 180) (\<lambda>raw.
        bindP (lift (ascii_text raw)) (\<lambda>txt'.
        bindP (lift (partition_fields [] (splitlines txt'))) (\<lambda>f.
        if unit_live f then raiseP RuntimeError
        else bindP (\<lambda>s. (producer_cgroup (str_val cgroup) s, s)) (\<lambda>state.
          ret (JObj [(''unit'', u), (''load_state'', JStr ''loaded''), (''main_pid'', JInt 0),
            (''active_state'', JStr (the (map_of f ''ActiveState''))), (''sub_state'', JStr (the (map_of f ''SubState''))),
            (''cgroup'', JStr state)]))))))"

section \<open>Selecting the cut\<close>

definition oracle_directory :: "string \<Rightarrow> ('w host_scheme, unit) prog" where
  "oracle_directory dir = mkdir dir 488"

definition account_of :: "json \<Rightarrow> nat \<times> nat" where
  "account_of v = (nat (int_val (fld v ''pw_uid'')), nat (int_val (fld v ''pw_gid'')))"

definition database_source :: "string \<Rightarrow> string" where
  "database_source db = ''/var/lib/hat-demo/depot/data/'' @ db @ ''.db''"

definition plan_argv :: "string \<Rightarrow> string \<Rightarrow> string \<Rightarrow> string \<Rightarrow> string list" where
  "plan_argv ident db config target = [''systemd-run'', ''--unit=hat-d3-'' @ ident @ ''-plan-'' @ db, ''--wait'',
     ''--collect'', ''--pipe'', ''--property=User=hat-oracle'', ''--property=EnvironmentFile=/etc/hat-oracle/backup.env'',
     ''--property=NoNewPrivileges=yes'', ''--property=RuntimeMaxSec=90'', ''--property=KillMode=control-group'',
     ''/opt/hat-oracle/bin/litestream'', ''restore'', ''-config'', config, ''-dry-run'', ''-json'', ''-o'', target,
     database_source db]"

text \<open>One plan for each database, each retained before the next.\<close>

fun plan_cuts :: "moments \<Rightarrow> string \<Rightarrow> string \<Rightarrow> string \<Rightarrow> json \<Rightarrow> string list \<Rightarrow>
    ('w controller_scheme, ((string \<times> json) \<times> (string \<times> json)) list) prog" where
  "plan_cuts moment ident output config minimum [] = ret []"
| "plan_cuts moment ident output config minimum (db # dbs) =
     (let target = path_join output (db @ ''.db'') in
      bindP (control_command (plan_argv ident db config target) JNull 120) (\<lambda>raw.
      seqP (raise_when (\<lambda>s. Inr (h_there target s)) RuntimeError)
      (bindP (lift (loads_text raw)) (\<lambda>plan.
      bindP (lift (itm minimum db (\<lambda>low. restore_endpoint moment plan (JStr (database_source db)) (JStr target) low))) (\<lambda>high.
      bindP (gets area) (\<lambda>dir.
      seqP (durable_json (path_join dir (''restore-plan-'' @ db @ ''.json'')) plan ''json'')
      (bindP (plan_cuts moment ident output config minimum dbs) (\<lambda>rest.
       ret (((db, JInt high), (db, plan)) # rest)))))))))"

definition select_cut :: "moments \<Rightarrow> string \<Rightarrow> json \<Rightarrow> ('w controller_scheme, json) prog" where
  "select_cut moment replica minimum =
     seqP (lift (validate_cut minimum))
     (bindP (hcall ''getpwnam'' (JStr ''hat-oracle'')) (\<lambda>v.
      bindP (gets (\<lambda>s. o_id (running_op s))) (\<lambda>ident.
      let (uid, gid) = account_of v; dir = ''/var/lib/hat-oracle/d3-'' @ ident @ ''-select-cut'';
          output = path_join dir ''work''; config = path_join dir ''replica.yml'' in
      seqP (oracle_directory dir)
      (seqP (chown dir 0 gid)
      (seqP (mkdir output 448)
      (seqP (chown output uid gid)
      (seqP (create_new RegularNode config 416 (utf8 replica))
      (seqP (chown config 0 gid)
      (seqP (does ''fsync'' (JStr config))
      (bindP (plan_cuts moment ident output config minimum DBS) (\<lambda>rows.
       ret (JObj [(''positions'', JObj (map fst rows)), (''plans'', JObj (map snd rows))]))))))))))))"

section \<open>The authority committed with the preflight\<close>

definition CONTROLLER_ROOT :: string where
  "CONTROLLER_ROOT = ''/var/lib/hat-control''"

definition operation_profile :: "operation \<Rightarrow> string" where
  "operation_profile q = (if o_source q = ''B'' then ''recovery-comparison'' else ''comparison'')"

definition preflight_evidence :: "'w controller_scheme \<Rightarrow> string option" where
  "preflight_evidence s = (if \<not> opened (jrn s) then None
     else map_option s_evidence (find (\<lambda>r. s_phase r = ''preflight'' \<and> s_status r = Done)
       (steps_of (o_id (running_op s)) (work (jrn s)))))"

definition committed_preflight_authority :: "bool \<Rightarrow> 'w controller_scheme \<Rightarrow> json option res" where
  "committed_preflight_authority required s = (case preflight_evidence s of
     None \<Rightarrow> if required then Inl ValueError else Inr None
   | Some raw \<Rightarrow> reraise [TypeError, KeyError, ValueError, IndexError] ValueError
       (bindR (loads raw) (\<lambda>v. bindR (getitem v ''ledger_authority'') (\<lambda>a.
        bindR (check_authority_value CONTROLLER_ROOT a (op_json (running_op s)) (operation_profile (running_op s)))
          (\<lambda>_. Inr (Some a))))))"

text \<open>One node's known configuration, if it has one with a manifest: the support files and the binaries.\<close>

definition has_manifest :: "json \<Rightarrow> bool" where
  "has_manifest c \<longleftrightarrow> is_obj c \<and> (contains c ''support'' = Inr True \<or> contains c ''binaries'' = Inr True)"

definition node_manifest :: "json \<Rightarrow> (json \<times> json) option res" where
  "node_manifest v = bindR (if is_obj v then get_none v ''config'' else Inr JNull) (\<lambda>c.
     if \<not> has_manifest c then Inr None
     else raise_if (any_of
       [bindR (get_or c ''support'' (JObj [])) (\<lambda>x. notR (set_is x support_keys)),
        bindR (get_or c ''binaries'' (JObj [])) (\<lambda>x. notR (set_is x [''trail'', ''litestream'']))]) ValueError
       (bindR (getitem c ''support'') (\<lambda>x. bindR (getitem c ''binaries'') (\<lambda>y. Inr (Some (x, y))))))"

definition manifest_differs :: "(json \<times> json) list \<Rightarrow> bool" where
  "manifest_differs ms \<longleftrightarrow> (case ms of [] \<Rightarrow> True
     | m # rest \<Rightarrow> list_ex (\<lambda>n. \<not> (py_eq (fst n) (fst m) \<and> py_eq (snd n) (snd m))) rest)"

definition authorized_manifests :: "'w controller_scheme \<Rightarrow> (json \<times> json) res" where
  "authorized_manifests s =
     bindR (values_of (known s)) (\<lambda>vs. bindR (traverse node_manifest vs) (\<lambda>ms.
     bindR (committed_preflight_authority False s) (\<lambda>committed.
     bindR (case committed of None \<Rightarrow> Inr []
       | Some a \<Rightarrow> bindR (getitem a ''support'') (\<lambda>x. bindR (getitem a ''binaries'') (\<lambda>y. Inr [(x, y)]))) (\<lambda>last_one.
     let found_all = List.map_filter id ms @ last_one in
     if manifest_differs found_all then Inl ValueError else Inr (hd found_all)))))"

end
