(* ===== verification/Opening.thy ===== *)
theory Opening
  imports Gate Host
begin

text \<open>
  \<open>hat/control.py\<close>, \<open>Journal.__enter__\<close>: how a controller takes its directory. The record of the
  journal is extended by the schema of the database file, durable and as the connection sees it, and by
  what SQLite answers: \<open>connecting\<close> to the n-th
  opening, \<open>script_leaves\<close> to the creating script and \<open>alter_leaves\<close> to the migration. The seams around
  the directory's \<open>fsync\<close> and the reopening are faults of the same counter as the commits.
\<close>

record opener = journal +
  catalog_disk :: catalog
  catalog_work :: catalog
  connecting :: "nat \<Rightarrow> unit res"
  openings :: nat
  script_leaves :: "string \<Rightarrow> unit res \<times> catalog"
  alter_leaves :: "string \<Rightarrow> catalog \<Rightarrow> unit res \<times> catalog"
  held_elsewhere :: bool
  new_id :: "string \<Rightarrow> nat \<times> nat"

section \<open>Seams\<close>

definition seam :: "string \<Rightarrow> ('w journal_scheme, unit) prog" where
  "seam label s = (case fault s (commits s) label of
     NoFault \<Rightarrow> Inr () | FailBefore e \<Rightarrow> Inl e | FailCommit e \<Rightarrow> Inl e | FailAfter e \<Rightarrow> Inl e,
   s\<lparr>commits := Suc (commits s)\<rparr>)"

text \<open>\<open>_root_fsync\<close>: opening the root as a directory and flushing it changes nothing.\<close>

definition root_fsync :: "string \<Rightarrow> ('w journal_scheme, unit) prog" where
  "root_fsync label =
     bindP (gets (\<lambda>s. lstat (base s) s)) (\<lambda>r.
     bindP (lift r) (\<lambda>f.
     if f_kind f \<noteq> Directory then raiseP OSError else seam label))"

section \<open>The connection\<close>

text \<open>\<open>sqlite3.connect\<close> and the three pragmas: the connection sees what is durable.\<close>

definition connect :: "('w opener_scheme, unit) prog" where
  "connect = bindP (gets (\<lambda>s. connecting s (openings s))) (\<lambda>answer.
     seqP (modify (\<lambda>s. s\<lparr>opened := True, work := disk s, catalog_work := catalog_disk s, openings := Suc (openings s)\<rparr>))
     (lift answer))"

definition close_db :: "('w opener_scheme, unit) prog" where
  "close_db = modify (\<lambda>s. s\<lparr>opened := False, work := disk s, catalog_work := catalog_disk s\<rparr>)"

definition reopen :: "('w opener_scheme, unit) prog" where
  "reopen = seqP (seam ''before-reopen'') (seqP close_db (seqP connect (seam ''after-reopen'')))"

definition schema_is :: "string \<Rightarrow> ('w opener_scheme, unit) prog" where
  "schema_is kind = bindP (gets (\<lambda>s. journal_schema (catalog_work s))) (\<lambda>r.
     bindP (lift r) (\<lambda>k. if k \<noteq> kind then raiseP ValueError else ret ()))"

section \<open>The files of the directory\<close>

definition root_unsafe :: "'w journal_scheme \<Rightarrow> bool res" where
  "root_unsafe s = mapR (\<lambda>f. f_kind f \<noteq> Directory \<or> f_uid f \<noteq> euid s \<or> f_mode f mod 64 \<noteq> 0
       \<or> list_ex (\<lambda>p. case files s p of None \<Rightarrow> False | Some g \<Rightarrow> f_kind g = Symlink) (parents (base s)))
     (lstat (base s) s)"

definition take_identity :: "('w journal_scheme, unit) prog" where
  "take_identity = bindP (gets (\<lambda>s. lstat (base s) s)) (\<lambda>r.
     bindP (lift r) (\<lambda>f. modify (\<lambda>s. s\<lparr>directory_identity := f_id f\<rparr>)))"

definition new_file :: "string \<Rightarrow> ('w opener_scheme, unit) prog" where
  "new_file path = modify (\<lambda>s. s\<lparr>files := (files s)(path \<mapsto>
     \<lparr>f_kind = Regular, f_uid = euid s, f_mode = 384, f_nlink = 1, f_id = new_id s path, f_bytes = []\<rparr>)\<rparr>)"

text \<open>\<open>os.open(p, O_CREAT | O_RDWR | O_NOFOLLOW, 0o600)\<close> gives the descriptor of what the name is.\<close>

definition open_lock :: "string \<Rightarrow> ('w opener_scheme, unit) prog" where
  "open_lock path =
     seqP (bindP (gets (\<lambda>s. files s path)) (\<lambda>there. case there of
         None \<Rightarrow> new_file path
       | Some f \<Rightarrow> if f_kind f \<noteq> Regular then raiseP OSError else ret ()))
     (modify (\<lambda>s. s\<lparr>lock := map_option f_id (files s path)\<rparr>))"

text \<open>\<open>fcntl.flock(fd, LOCK_EX | LOCK_NB)\<close> refuses at once when another process holds the lock.\<close>

definition flock :: "('w opener_scheme, unit) prog" where
  "flock = bindP (gets held_elsewhere) (\<lambda>b. if b then raiseP OSError else ret ())"

definition is_private :: "string \<Rightarrow> ('w journal_scheme, nat \<times> nat) prog" where
  "is_private name = bindP (gets (\<lambda>s. private_file (under name s) s)) lift"

definition side_file :: "string \<Rightarrow> ('w journal_scheme, unit) prog" where
  "side_file suffix = bindP (gets (\<lambda>s. files s (under (''journal.db'' @ suffix) s) \<noteq> None)) (\<lambda>there.
     if \<not> there then ret ()
     else seqP (is_private (''journal.db'' @ suffix))
       (if suffix \<in> {''-wal'', ''-shm''} then raiseP ValueError else ret ()))"

section \<open>Creating and migrating the tables\<close>

definition SCRIPT :: string where
  "SCRIPT = OPERATIONS_SQL @ '';'' @ nl @ UNFINISHED_SQL @ '';'' @ nl @ STEPS_SQL @ '';''"

text \<open>\<open>executescript\<close> commits statement by statement: whatever it left is durable.\<close>

definition create_tables :: "('w opener_scheme, unit) prog" where
  "create_tables = bindP (gets (\<lambda>s. script_leaves s SCRIPT)) (\<lambda>(outcome, made).
     seqP (modify (\<lambda>s. s\<lparr>catalog_work := made, catalog_disk := made\<rparr>)) (lift outcome))"

definition MIGRATION :: string where
  "MIGRATION = ''ALTER TABLE operations ADD COLUMN '' @ contract_column"

text \<open>The added column has its default in every old row.\<close>

definition migration_alter :: "('w opener_scheme, unit) prog" where
  "migration_alter = bindP (gets (\<lambda>s. alter_leaves s MIGRATION (catalog_work s))) (\<lambda>(outcome, altered).
     bindP (lift outcome) (\<lambda>_. modify (\<lambda>s. s\<lparr>catalog_work := altered,
       work := (work s)\<lparr>ops := map (\<lambda>r. r\<lparr>r_contract := LEGACY_RESTORE_CONTRACT\<rparr>) (ops (work s))\<rparr>\<rparr>)))"

text \<open>A commit makes the schema durable exactly when it makes the rows durable.\<close>

definition reaches_disk :: "fault \<Rightarrow> bool" where
  "reaches_disk f = (case f of NoFault \<Rightarrow> True | FailAfter e \<Rightarrow> True | FailBefore e \<Rightarrow> False | FailCommit e \<Rightarrow> False)"

definition commit_all :: "string \<Rightarrow> ('w opener_scheme, unit) prog" where
  "commit_all label = bindP (gets (\<lambda>s. reaches_disk (fault s (commits s) label))) (\<lambda>b.
     seqP (modify (\<lambda>s. if b then s\<lparr>catalog_disk := catalog_work s\<rparr> else s)) (commit label))"

definition rollback_all :: "('w opener_scheme, unit) prog" where
  "rollback_all = modify (\<lambda>s. s\<lparr>work := disk s, catalog_work := catalog_disk s\<rparr>)"

definition migrate :: "('w opener_scheme, unit) prog" where
  "migrate =
     bindP (gets (\<lambda>s. validate_legacy_rows (map raw_op_of (ops (work s))) (map raw_step_of (steps (work s))))) (\<lambda>r.
     seqP (lift r)
     (on_exn (seqP migration_alter (seqP (schema_is RESTORE_CONTRACT) (commit_all ''migration'')))
       (\<lambda>e. seqP rollback_all (raiseP e))))"

text \<open>An existing file: its generation decides; the value is whether the file changed.\<close>

definition open_existing :: "('w opener_scheme, bool) prog" where
  "open_existing = bindP (gets (\<lambda>s. journal_schema (catalog_work s))) (\<lambda>r.
     bindP (lift r) (\<lambda>kind.
     if kind = LEGACY_RESTORE_CONTRACT then seqP migrate (ret True) else ret False))"

section \<open>Entering\<close>

definition database_there :: "'w journal_scheme \<Rightarrow> bool" where
  "database_there s \<longleftrightarrow> files s (under ''journal.db'' s) \<noteq> None"

definition database_empty :: "'w journal_scheme \<Rightarrow> bool" where
  "database_empty s \<longleftrightarrow> (case files s (under ''journal.db'' s) of None \<Rightarrow> False | Some f \<Rightarrow> f_bytes f = [])"

definition empty_catalog :: "catalog \<Rightarrow> catalog" where
  "empty_catalog c = c\<lparr>objects := [], contracts := []\<rparr>"

text \<open>A new file is an empty database.\<close>

definition new_database :: "('w opener_scheme, unit) prog" where
  "new_database = bindP (gets (under ''journal.db'')) (\<lambda>path.
     seqP (new_file path)
     (modify (\<lambda>s. s\<lparr>disk := \<lparr>ops = [], steps = []\<rparr>, catalog_disk := empty_catalog (catalog_disk s)\<rparr>)))"

definition enter_body :: "('w opener_scheme, unit) prog" where
  "enter_body =
     seqP (raise_when root_unsafe ValueError)
     (seqP take_identity
     (bindP (gets (under ''controller.lock'')) (\<lambda>lock_path.
     seqP (open_lock lock_path)
     (bindP (is_private ''controller.lock'') (\<lambda>_.
     seqP flock
     (seqP (forP [[], ''-journal'', ''-wal'', ''-shm''] side_file)
     (bindP (gets database_there) (\<lambda>existing.
     seqP (if existing then raise_when (\<lambda>s. Inr (database_empty s)) ValueError else new_database)
     (seqP connect
     (bindP (if existing then open_existing else seqP create_tables (ret True)) (\<lambda>changed.
     seqP (schema_is RESTORE_CONTRACT)
     (seqP (if changed
        then seqP (root_fsync ''journal-root-fsync'') (seqP reopen (schema_is RESTORE_CONTRACT))
        else ret ())
     (bindP (is_private ''journal.db'') (\<lambda>i.
     seqP (modify (\<lambda>s. s\<lparr>database_identity := i\<rparr>))
     (root_fsync ''root-fsync'')))))))))))))))"

definition enter_journal :: "('w opener_scheme, unit) prog" where
  "enter_journal = on_exn enter_body (\<lambda>e. seqP exit_journal (raiseP e))"

end
