(* ===== verification/Opening_Properties.thy ===== *)
theory Opening_Properties
  imports Opening Journal_Properties
begin

text \<open>
  What entering the journal establishes, and what an interrupted migration leaves: the durable file
  moves from the first generation to the second in one step, rows and schema together.
\<close>

section \<open>Programs that return\<close>

definition attains :: "('s \<Rightarrow> bool) \<Rightarrow> ('s, 'a) prog \<Rightarrow> ('a \<Rightarrow> 's \<Rightarrow> bool) \<Rightarrow> bool" where
  "attains P m Q \<longleftrightarrow> (\<forall>s x t. P s \<longrightarrow> m s = (Inr x, t) \<longrightarrow> Q x t)"

lemma attains_bind: "attains P m R \<Longrightarrow> (\<And>x. attains (R x) (f x) Q) \<Longrightarrow> attains P (bindP m f) Q"
  unfolding attains_def by (auto simp: bindP_eq_Inr)

lemma attains_seq: "attains P m (\<lambda>_. R) \<Longrightarrow> attains R k Q \<Longrightarrow> attains P (seqP m k) Q"
  unfolding seqP_def by (rule attains_bind)

lemma attains_keeps: "keeps P m \<Longrightarrow> attains P m (\<lambda>_. P)"
  unfolding attains_def keeps_def by (metis snd_conv)

lemma attains_mono: "attains P m Q \<Longrightarrow> (\<And>x s. Q x s \<Longrightarrow> R x s) \<Longrightarrow> attains P m R"
  unfolding attains_def by blast

lemma attains_if: "(b \<Longrightarrow> attains P m Q) \<Longrightarrow> (\<not> b \<Longrightarrow> attains P k Q) \<Longrightarrow> attains P (if b then m else k) Q"
  by simp

section \<open>The lock and the identities\<close>

lemma under_not_base [simp]: "under name s \<noteq> base s"
  by (auto simp: under_def path_join_def split: if_splits)

definition owns :: "'w opener_scheme \<Rightarrow> bool" where
  "owns s \<longleftrightarrow> mapR f_id (lstat (base s) s) = Inr (directory_identity s)
     \<and> (\<exists>l. lock s = Some l \<and> private_file (under ''controller.lock'' s) s = Inr l)"

lemma owns_cong:
  "files t = files s \<Longrightarrow> base t = base s \<Longrightarrow> euid t = euid s \<Longrightarrow> lock t = lock s
     \<Longrightarrow> directory_identity t = directory_identity s \<Longrightarrow> owns t = owns s"
  by (simp add: owns_def lstat_def private_file_def under_def)

lemma lock_not_journal [simp]: "under ''controller.lock'' s \<noteq> under ''journal.db'' s'" if "base s = base s'"
  using that by (simp add: under_def path_join_def)

text \<open>Statements that leave files, lock and identities alone.\<close>

definition frames :: "('w opener_scheme, 'a) prog \<Rightarrow> bool" where
  "frames m \<longleftrightarrow> (\<forall>s. let t = snd (m s) in files t = files s \<and> base t = base s \<and> euid t = euid s
     \<and> lock t = lock s \<and> directory_identity t = directory_identity s \<and> database_identity t = database_identity s)"

named_theorems frames_intros

lemma frames_modify: "(\<And>s. files (f s) = files s \<and> base (f s) = base s \<and> euid (f s) = euid s \<and> lock (f s) = lock s
    \<and> directory_identity (f s) = directory_identity s \<and> database_identity (f s) = database_identity s)
    \<Longrightarrow> frames (modify f)"
  by (simp add: frames_def modify_def)

lemma frames_pure [frames_intros]: "frames (ret x)" "frames (raiseP e)" "frames (lift r)" "frames (gets g)"
    "frames (raise_when c e)"
  by (simp_all add: frames_def ret_def raiseP_def lift_def gets_def raise_when_def)

lemma frames_bind [frames_intros]: "frames m \<Longrightarrow> (\<And>x. frames (f x)) \<Longrightarrow> frames (bindP m f)"
  unfolding frames_def Let_def bindP_def by (simp split: prod.splits sum.splits) (metis snd_conv)

lemma frames_seq [frames_intros]: "frames m \<Longrightarrow> frames k \<Longrightarrow> frames (seqP m k)"
  unfolding seqP_def by (rule frames_bind)

lemma frames_on_exn [frames_intros]: "frames m \<Longrightarrow> (\<And>e. frames (h e)) \<Longrightarrow> frames (on_exn m h)"
  unfolding frames_def Let_def on_exn_def by (simp split: prod.splits sum.splits) (metis snd_conv)

lemma frames_case [frames_intros]:
  "(\<And>a b. frames (f a b)) \<Longrightarrow> frames (case x of (a, b) \<Rightarrow> f a b)"
  "frames m \<Longrightarrow> frames k \<Longrightarrow> frames (if b then m else k)"
  by (simp_all split: prod.splits)

lemma frames_for [frames_intros]: "(\<And>x. frames (f x)) \<Longrightarrow> frames (forP xs f)"
  by (induction xs) (simp_all add: frames_intros)

lemma frames_seam [frames_intros]: "frames (seam l)" "frames (commit l)"
  by (auto simp: frames_def seam_def commit_def Let_def split: fault.splits)

lemma frames_private [frames_intros]: "frames (is_private n)" "frames (side_file n)" "frames (root_fsync l)" "frames flock"
  unfolding is_private_def side_file_def root_fsync_def flock_def by (intro frames_intros)+

lemma frames_db [frames_intros]: "frames connect" "frames close_db" "frames (schema_is k)" "frames create_tables"
    "frames migration_alter" "frames (commit_all l)" "frames rollback_all"
  unfolding connect_def close_db_def schema_is_def create_tables_def migration_alter_def commit_all_def rollback_all_def
  by (intro frames_intros frames_modify; simp)+

lemma frames_open [frames_intros]: "frames reopen" "frames migrate" "frames open_existing"
  unfolding reopen_def migrate_def open_existing_def by (intro frames_intros)+

lemma keeps_owns: "frames m \<Longrightarrow> keeps owns m"
  unfolding keeps_def frames_def Let_def by (metis owns_cong)

definition knows_root :: "'w opener_scheme \<Rightarrow> bool" where
  "knows_root s \<longleftrightarrow> mapR f_id (lstat (base s) s) = Inr (directory_identity s)"

lemma take_identity_attains: "attains (\<lambda>_. True) take_identity (\<lambda>_. knows_root)"
  by (auto simp: attains_def take_identity_def knows_root_def lstat_def bindP_def gets_def lift_def modify_def
      split: sum.splits option.splits)

lemma open_lock_attains:
  "attains (\<lambda>s. knows_root s \<and> path = under ''controller.lock'' s) (open_lock path)
     (\<lambda>_ s. knows_root s \<and> lock s = map_option f_id (files s (under ''controller.lock'' s)))"
  unfolding attains_def
proof (intro allI impI)
  fix s x t assume s: "knows_root s \<and> path = under ''controller.lock'' s" and run: "open_lock path s = (Inr x, t)"
  have p: "path \<noteq> base s" using s by simp
  show "knows_root t \<and> lock t = map_option f_id (files t (under ''controller.lock'' t))"
    using run s p by (auto simp: open_lock_def new_file_def knows_root_def lstat_def under_def seqP_def bindP_def
        gets_def modify_def ret_def raiseP_def split: option.splits if_splits sum.splits)
qed

lemma is_private_attains:
  "attains (\<lambda>s. knows_root s \<and> lock s = map_option f_id (files s (under ''controller.lock'' s)))
     (is_private ''controller.lock'') (\<lambda>_. owns)"
  by (auto simp: attains_def is_private_def owns_def knows_root_def private_file_def lstat_def bindP_def gets_def lift_def
      split: option.splits if_splits)

lemma new_database_attains: "attains owns new_database (\<lambda>_. owns)"
  unfolding attains_def
proof (intro allI impI)
  fix s :: "'w opener_scheme" and x t assume s: "owns s" and run: "new_database s = (Inr x, t)"
  have "under ''journal.db'' s \<noteq> base s" by simp
  with s run show "owns t"
    by (auto simp: new_database_def new_file_def owns_def private_file_def lstat_def under_def path_join_def
        seqP_def bindP_def gets_def modify_def)
qed

text \<open>The connection sees the durable file, of the current generation.\<close>

definition sees_disk :: "'w opener_scheme \<Rightarrow> bool" where
  "sees_disk s \<longleftrightarrow> opened s \<and> work s = disk s \<and> catalog_work s = catalog_disk s"

definition current_file :: "'w opener_scheme \<Rightarrow> bool" where
  "current_file s \<longleftrightarrow> journal_schema (catalog_work s) = Inr RESTORE_CONTRACT"

lemma commits_irrelevant [simp]:
  "owns (s\<lparr>commits := n\<rparr>) = owns s" "sees_disk (s\<lparr>commits := n\<rparr>) = sees_disk s"
  "current_file (s\<lparr>commits := n\<rparr>) = current_file s" "private_file p (s\<lparr>commits := n\<rparr>) = private_file p s"
  by (simp_all add: owns_def sees_disk_def current_file_def private_file_def lstat_def under_def)

lemma connect_sees: "attains P connect (\<lambda>_. sees_disk)"
  by (auto simp: attains_def connect_def sees_disk_def seqP_def bindP_def gets_def lift_def modify_def)

lemma reopen_sees: "attains P reopen (\<lambda>_. sees_disk)"
  unfolding reopen_def
  by (rule attains_seq [where R = "\<lambda>_. True"], simp add: attains_def)
    (rule attains_seq [where R = "\<lambda>_. True"], simp add: attains_def,
      rule attains_seq [OF connect_sees], rule attains_keeps, simp add: keeps_def seam_def)

lemma schema_is_attains: "attains P (schema_is RESTORE_CONTRACT) (\<lambda>_ s. P s \<and> current_file s)"
  by (auto simp: attains_def schema_is_def current_file_def bindP_def gets_def lift_def raiseP_def ret_def
      split: sum.splits if_splits)

lemma open_existing_sees: "attains sees_disk open_existing (\<lambda>changed s. \<not> changed \<longrightarrow> sees_disk s)"
  by (auto simp: attains_def open_existing_def seqP_def bindP_def gets_def lift_def ret_def
      split: sum.splits if_splits prod.splits)

lemma root_fsync_keeps: "(\<And>s n. P (s\<lparr>commits := n\<rparr>) = P s) \<Longrightarrow> keeps P (root_fsync l)"
  unfolding root_fsync_def by (intro keeps_intros) (simp add: keeps_def seam_def)

section \<open>Entering\<close>

definition entered :: "'w opener_scheme \<Rightarrow> bool" where
  "entered s \<longleftrightarrow> (owns s \<and> sees_disk s \<and> current_file s)
     \<and> private_file (under ''journal.db'' s) s = Inr (database_identity s)"

lemma attains_and: "attains P m (\<lambda>_. Q) \<Longrightarrow> keeps R m \<Longrightarrow> attains (\<lambda>s. P s \<and> R s) m (\<lambda>_ s. R s \<and> Q s)"
  unfolding attains_def keeps_def by (metis snd_conv)

lemma attains_pre: "attains P m Q \<Longrightarrow> (\<And>s. P' s \<Longrightarrow> P s) \<Longrightarrow> attains P' m Q"
  unfolding attains_def by blast

lemma attains_any: "(\<And>s x t. P s \<Longrightarrow> m s = (Inr x, t) \<Longrightarrow> Q x t) \<Longrightarrow> attains P m Q"
  unfolding attains_def by blast

text \<open>From the descriptor of the lock to the connection.\<close>

lemma opening_attains:
  "attains owns (bindP (if existing then open_existing else seqP create_tables (ret True)) (\<lambda>changed.
     seqP (schema_is RESTORE_CONTRACT)
     (if changed then seqP (root_fsync ''journal-root-fsync'') (seqP reopen (schema_is RESTORE_CONTRACT)) else ret ())))
   (\<lambda>_. owns)"
  by (intro attains_keeps keeps_owns frames_intros)

lemma changed_attains:
  "attains (\<lambda>s. \<not> changed \<longrightarrow> sees_disk s) (seqP (schema_is RESTORE_CONTRACT)
     (if changed then seqP (root_fsync ''journal-root-fsync'') (seqP reopen (schema_is RESTORE_CONTRACT)) else ret ()))
   (\<lambda>_ s. sees_disk s \<and> current_file s)"
proof (cases changed)
  case True
  have "attains (\<lambda>_. True) (seqP reopen (schema_is RESTORE_CONTRACT)) (\<lambda>_ s. sees_disk s \<and> current_file s)"
    by (rule attains_seq [OF reopen_sees schema_is_attains])
  then show ?thesis using True unfolding attains_def seqP_eq_Inr by (simp add: seqP_eq_Inr) blast
next
  case False
  then show ?thesis
    using schema_is_attains [of sees_disk] by (auto simp: attains_def seqP_eq_Inr ret_def)
qed

lemma last_attains:
  "attains (\<lambda>s. owns s \<and> sees_disk s \<and> current_file s)
     (bindP (is_private ''journal.db'') (\<lambda>i. seqP (modify (\<lambda>s. s\<lparr>database_identity := i\<rparr>)) (root_fsync ''root-fsync'')))
   (\<lambda>_. entered)"
proof (rule attains_bind)
  show "attains (\<lambda>s. owns s \<and> sees_disk s \<and> current_file s) (is_private ''journal.db'')
     (\<lambda>i s. (owns s \<and> sees_disk s \<and> current_file s) \<and> private_file (under ''journal.db'' s) s = Inr i)"
    by (auto simp: attains_def is_private_def bindP_def gets_def lift_def split: sum.splits)
  show "attains (\<lambda>s. (owns s \<and> sees_disk s \<and> current_file s) \<and> private_file (under ''journal.db'' s) s = Inr i)
     (seqP (modify (\<lambda>s. s\<lparr>database_identity := i\<rparr>)) (root_fsync ''root-fsync'')) (\<lambda>_. entered)" for i
  proof (rule attains_seq)
    show "attains (\<lambda>s. (owns s \<and> sees_disk s \<and> current_file s) \<and> private_file (under ''journal.db'' s) s = Inr i)
       (modify (\<lambda>s. s\<lparr>database_identity := i\<rparr>)) (\<lambda>_. entered)"
      by (auto simp: attains_def modify_def entered_def owns_def sees_disk_def current_file_def private_file_def
          lstat_def under_def)
    show "attains entered (root_fsync ''root-fsync'') (\<lambda>_. entered)"
      by (intro attains_keeps root_fsync_keeps) (simp add: entered_def under_def)
  qed
qed

text \<open>The tables, from a connection that sees the disk.\<close>

lemma tables_attain:
  "attains (\<lambda>s. owns s \<and> sees_disk s) (if existing then open_existing else seqP create_tables (ret True))
     (\<lambda>changed s. owns s \<and> (\<not> changed \<longrightarrow> sees_disk s))"
proof (cases existing)
  case True
  show ?thesis
  proof (rule attains_any)
    fix s x t assume s: "owns s \<and> sees_disk s"
      and run: "(if existing then open_existing else seqP create_tables (ret True)) s = (Inr x, t)"
    then have "open_existing s = (Inr x, t)" using True by simp
    moreover have "keeps owns open_existing" by (intro keeps_owns frames_intros)
    ultimately show "owns t \<and> (\<not> x \<longrightarrow> sees_disk t)"
      using s open_existing_sees unfolding attains_def by (metis keepsD)
  qed
next
  case False
  have "keeps owns (seqP create_tables (ret True))" by (intro keeps_owns frames_intros)
  then show ?thesis using False
    by (auto intro!: attains_any dest: keepsD simp: seqP_eq_Inr ret_def)
qed

lemma changed_keeps: "keeps owns (seqP (schema_is RESTORE_CONTRACT)
     (if changed then seqP (root_fsync ''journal-root-fsync'') (seqP reopen (schema_is RESTORE_CONTRACT)) else ret ()))"
  by (intro keeps_owns frames_intros)

lemma tail_attains:
  "attains (\<lambda>s. owns s \<and> sees_disk s)
     (bindP (if existing then open_existing else seqP create_tables (ret True)) (\<lambda>changed.
      seqP (schema_is RESTORE_CONTRACT)
      (seqP (if changed then seqP (root_fsync ''journal-root-fsync'') (seqP reopen (schema_is RESTORE_CONTRACT)) else ret ())
      (bindP (is_private ''journal.db'') (\<lambda>i. seqP (modify (\<lambda>s. s\<lparr>database_identity := i\<rparr>)) (root_fsync ''root-fsync''))))))
   (\<lambda>_. entered)"
proof (rule attains_bind [OF tables_attain])
  fix changed
  have "attains (\<lambda>s. (\<not> changed \<longrightarrow> sees_disk s) \<and> owns s) (seqP (schema_is RESTORE_CONTRACT)
     (if changed then seqP (root_fsync ''journal-root-fsync'') (seqP reopen (schema_is RESTORE_CONTRACT)) else ret ()))
     (\<lambda>_ s. owns s \<and> sees_disk s \<and> current_file s)"
    by (rule attains_mono [OF attains_and [OF changed_attains changed_keeps]]) simp
  from attains_seq [OF this last_attains]
  show "attains (\<lambda>s. owns s \<and> (\<not> changed \<longrightarrow> sees_disk s)) (seqP (schema_is RESTORE_CONTRACT)
      (seqP (if changed then seqP (root_fsync ''journal-root-fsync'') (seqP reopen (schema_is RESTORE_CONTRACT)) else ret ())
      (bindP (is_private ''journal.db'') (\<lambda>i. seqP (modify (\<lambda>s. s\<lparr>database_identity := i\<rparr>)) (root_fsync ''root-fsync'')))))
    (\<lambda>_. entered)"
    unfolding seqP_assoc by (rule attains_pre) simp
qed

lemma enter_body_attains: "attains (\<lambda>_. True) enter_body (\<lambda>_. entered)"
  unfolding enter_body_def
proof (rule attains_seq [where R = "\<lambda>_. True"])
  have connected: "attains owns connect (\<lambda>_ s. owns s \<and> sees_disk s)"
    using attains_and [OF connect_sees [of "\<lambda>_. True"] keeps_owns [OF frames_db(1)]] by simp
  have path: "attains knows_root (gets (under ''controller.lock''))
      (\<lambda>p s. knows_root s \<and> p = under ''controller.lock'' s)"
    by (auto simp: attains_def gets_def)
  have database: "attains owns (if existing then raise_when (\<lambda>s. Inr (database_empty s)) ValueError else new_database) (\<lambda>_. owns)"
    for existing by (intro attains_if new_database_attains attains_keeps keeps_owns frames_intros)
  have files: "attains owns flock (\<lambda>_. owns)"
    "attains owns (forP [[], ''-journal'', ''-wal'', ''-shm''] side_file) (\<lambda>_. owns)"
    "attains owns (gets database_there) (\<lambda>_. owns)"
    by (intro attains_keeps keeps_owns frames_intros)+
  show "attains (\<lambda>_. True) (seqP take_identity
     (bindP (gets (under ''controller.lock'')) (\<lambda>lock_path.
     seqP (open_lock lock_path)
     (bindP (is_private ''controller.lock'') (\<lambda>_.
     seqP flock
     (seqP (forP [[], ''-journal'', ''-wal'', ''-shm''] side_file)
     (bindP (gets database_there) (\<lambda>existing.
     seqP (if existing then raise_when (\<lambda>s. Inr (database_empty s)) ValueError else new_database)
     (seqP connect
     (bindP (if existing then open_existing else seqP create_tables (ret True)) (\<lambda>changed.
     seqP (schema_is RESTORE_CONTRACT)
     (seqP (if changed
        then seqP (root_fsync ''journal-root-fsync'') (seqP reopen (schema_is RESTORE_CONTRACT))
        else ret ())
     (bindP (is_private ''journal.db'') (\<lambda>i.
     seqP (modify (\<lambda>s. s\<lparr>database_identity := i\<rparr>))
     (root_fsync ''root-fsync''))))))))))))))) (\<lambda>_. entered)"
    by (rule attains_seq [OF take_identity_attains] attains_bind [OF path] attains_seq [OF open_lock_attains]
        attains_bind [OF is_private_attains] attains_seq [OF files(1)] attains_seq [OF files(2)]
        attains_bind [OF files(3)] attains_seq [OF database] attains_seq [OF connected] tail_attains)+
qed (simp add: attains_def)

lemma entered_authority: "entered s \<Longrightarrow> fst (check_authority s) = Inr ()"
  by (auto simp: entered_def owns_def sees_disk_def check_authority_def lstat_def private_file_def mapR_eq_Inr
      split: option.splits)

text \<open>C28 Entering takes the whole journal or nothing: when \<open>__enter__\<close> returns, the authority check that every
  later operation begins with passes at that moment, the durable database has exactly the current schema, and the connection sees
  exactly what is durable; when it raises, at whatever check, seam or commit, neither lock nor
  connection is left.\<close>

theorem entering_is_whole:
  "case enter_journal s of
      (Inr _, t) \<Rightarrow> fst (check_authority t) = Inr () \<and> journal_schema (catalog_disk t) = Inr RESTORE_CONTRACT
        \<and> opened t \<and> work t = disk t \<and> catalog_work t = catalog_disk t
    | (Inl _, t) \<Rightarrow> lock t = None \<and> \<not> opened t"
proof (cases "enter_body s")
  case (Pair r t)
  show ?thesis
  proof (cases r)
    case (Inl e)
    then show ?thesis using Pair
      by (simp add: enter_journal_def on_exn_def seqP_def bindP_def exit_journal_def modify_def raiseP_def)
  next
    case (Inr u)
    then have e: "entered t" using enter_body_attains Pair unfolding attains_def by blast
    then have "sees_disk t" "current_file t" by (simp_all add: entered_def)
    then show ?thesis using Inr Pair entered_authority [OF e]
      by (simp add: enter_journal_def on_exn_def sees_disk_def current_file_def)
  qed
qed

section \<open>Migration\<close>

text \<open>\<open>leaves P m Q E\<close>: from \<open>P\<close>, a value leaves \<open>Q\<close> and an exception leaves \<open>E\<close>.\<close>

definition leaves :: "('s \<Rightarrow> bool) \<Rightarrow> ('s, 'a) prog \<Rightarrow> ('a \<Rightarrow> 's \<Rightarrow> bool) \<Rightarrow> ('s \<Rightarrow> bool) \<Rightarrow> bool" where
  "leaves P m Q E \<longleftrightarrow> (\<forall>s. P s \<longrightarrow> wp m (\<lambda>r t. case r of Inr x \<Rightarrow> Q x t | Inl e \<Rightarrow> E t) s)"

lemma leaves_bind: "leaves P m R E \<Longrightarrow> (\<And>x. leaves (R x) (f x) Q E) \<Longrightarrow> leaves P (bindP m f) Q E"
  unfolding leaves_def wp_def bindP_def by (fastforce split: prod.splits sum.splits)

lemma leaves_seq: "leaves P m (\<lambda>_. R) E \<Longrightarrow> leaves R k Q E \<Longrightarrow> leaves P (seqP m k) Q E"
  unfolding seqP_def by (rule leaves_bind)

lemma leaves_keeps: "keeps P m \<Longrightarrow> (\<And>s. P s \<Longrightarrow> E s) \<Longrightarrow> leaves P m (\<lambda>_. P) E"
  unfolding leaves_def keeps_def wp_def by (auto split: sum.splits)

lemma leaves_mono: "leaves P m Q E \<Longrightarrow> (\<And>s. P' s \<Longrightarrow> P s) \<Longrightarrow> (\<And>x s. Q x s \<Longrightarrow> Q' x s) \<Longrightarrow> leaves P' m Q' E"
  unfolding leaves_def wp_def by (force split: sum.splits)

lemma leaves_if: "(b \<Longrightarrow> leaves P m Q E) \<Longrightarrow> (\<not> b \<Longrightarrow> leaves P k Q E) \<Longrightarrow> leaves P (if b then m else k) Q E"
  by simp

lemma leaves_lift: "(\<And>s. P s \<Longrightarrow> E s) \<Longrightarrow> (\<And>x. r = Inr x \<Longrightarrow> leaves P (f x) Q E) \<Longrightarrow> leaves P (bindP (lift r) f) Q E"
  by (cases r) (simp_all add: leaves_def)

lemma leaves_given: "(c \<Longrightarrow> leaves P m Q E) \<Longrightarrow> leaves (\<lambda>s. c \<and> P s) m Q E"
  by (simp add: leaves_def)

definition relabelled :: "db \<Rightarrow> db" where
  "relabelled d = d\<lparr>ops := map (\<lambda>r. r\<lparr>r_contract := LEGACY_RESTORE_CONTRACT\<rparr>) (ops d)\<rparr>"

definition durable :: "'w opener_scheme \<Rightarrow> db \<times> catalog" where
  "durable s = (disk s, catalog_disk s)"

definition upgraded :: "db \<times> catalog \<Rightarrow> db \<times> catalog \<Rightarrow> bool" where
  "upgraded d d' \<longleftrightarrow> d' = d \<or>
     (journal_schema (snd d) = Inr LEGACY_RESTORE_CONTRACT
      \<and> validate_legacy_rows (map raw_op_of (ops (fst d))) (map raw_step_of (steps (fst d))) = Inr ()
      \<and> fst d' = relabelled (fst d) \<and> journal_schema (snd d') = Inr RESTORE_CONTRACT)"

lemma upgraded_refl [simp]: "upgraded d d"
  by (simp add: upgraded_def)

text \<open>What leaves the durable file alone.\<close>

abbreviation lasting :: "(db \<times> catalog \<Rightarrow> bool) \<Rightarrow> ('w opener_scheme, 'a) prog \<Rightarrow> bool" where
  "lasting D \<equiv> keeps (\<lambda>s. D (durable s))"

lemma lasting_modify [keeps_intros]: "(\<And>s. durable (f s) = durable s) \<Longrightarrow> lasting D (modify f)"
  by (rule keeps_modify) simp

lemma lasting_seam [keeps_intros]: "lasting D (seam l)"
  by (simp add: keeps_def seam_def durable_def)

lemma lasting_files [keeps_intros]:
  "lasting D (root_fsync l)" "lasting D (is_private n)" "lasting D (side_file n)" "lasting D flock" "lasting D take_identity"
  "lasting D (new_file p)"
  unfolding root_fsync_def is_private_def side_file_def flock_def take_identity_def new_file_def
  by (intro keeps_intros; simp add: durable_def)+

lemma lasting_lock [keeps_intros]: "lasting D (open_lock p)"
  unfolding open_lock_def by (intro keeps_intros) (simp add: durable_def)

lemma lasting_db [keeps_intros]:
  "lasting D connect" "lasting D close_db" "lasting D (schema_is k)" "lasting D rollback_all" "lasting D migration_alter"
  unfolding connect_def close_db_def schema_is_def rollback_all_def migration_alter_def
  by (intro keeps_intros; simp add: durable_def)+

lemma lasting_reopen [keeps_intros]: "lasting D reopen"
  unfolding reopen_def by (intro keeps_intros)

lemma commit_all_upgrades:
  assumes "journal_schema (snd d) = Inr LEGACY_RESTORE_CONTRACT"
    "validate_legacy_rows (map raw_op_of (ops (fst d))) (map raw_step_of (steps (fst d))) = Inr ()"
  shows "leaves (\<lambda>s. (durable s = d \<and> work s = relabelled (fst d)) \<and> current_file s) (commit_all l)
    (\<lambda>_ s. upgraded d (durable s)) (\<lambda>s. upgraded d (durable s))"
  using assms
  by (auto simp: leaves_def wp_def commit_all_def commit_def reaches_disk_def current_file_def upgraded_def durable_def
      seqP_def bindP_def gets_def modify_def Let_def split: fault.splits)

lemma alter_relabels:
  "leaves (\<lambda>s. durable s = d \<and> work s = fst d) migration_alter
     (\<lambda>_ s. durable s = d \<and> work s = relabelled (fst d)) (\<lambda>s. upgraded d (durable s))"
  by (auto simp: leaves_def wp_def migration_alter_def durable_def relabelled_def seqP_def bindP_def gets_def lift_def
      modify_def split: prod.splits sum.splits)

lemma schema_leaves: "(\<And>s. P s \<Longrightarrow> E s) \<Longrightarrow>
    leaves P (schema_is RESTORE_CONTRACT) (\<lambda>_ s. P s \<and> current_file s) E"
  by (auto simp: leaves_def wp_def schema_is_def current_file_def bindP_def gets_def lift_def raiseP_def ret_def
      split: sum.splits if_splits)

lemma leaves_on_exn: "leaves P m Q E \<Longrightarrow> (\<And>e. leaves E (h e) Q F) \<Longrightarrow> leaves P (on_exn m h) Q F"
  by (fastforce simp: leaves_def wp_def on_exn_def split: prod.splits sum.splits)

lemma migrate_upgrades:
  assumes "journal_schema (snd d) = Inr LEGACY_RESTORE_CONTRACT"
  shows "leaves (\<lambda>s. durable s = d \<and> work s = fst d) migrate (\<lambda>_ s. upgraded d (durable s)) (\<lambda>s. upgraded d (durable s))"
  unfolding migrate_def
proof (rule leaves_bind)
  let ?P = "\<lambda>s :: 'a opener_scheme. durable s = d \<and> work s = fst d"
  let ?U = "\<lambda>s :: 'a opener_scheme. upgraded d (durable s)"
  let ?v = "validate_legacy_rows (map raw_op_of (ops (fst d))) (map raw_step_of (steps (fst d)))"
  show "leaves ?P (gets (\<lambda>s. validate_legacy_rows (map raw_op_of (ops (work s))) (map raw_step_of (steps (work s)))))
      (\<lambda>r s. r = ?v \<and> ?P s) ?U"
    by (simp add: leaves_def)
  show "leaves (\<lambda>s. r = ?v \<and> ?P s) (seqP (lift r)
     (on_exn (seqP migration_alter (seqP (schema_is RESTORE_CONTRACT) (commit_all ''migration'')))
       (\<lambda>e. seqP rollback_all (raiseP e)))) (\<lambda>_. ?U) ?U" for r
    unfolding seqP_def [of "lift r"]
  proof (rule leaves_given, rule leaves_lift)
    fix x assume valid: "r = ?v" "r = Inr x"
    have body: "leaves ?P (seqP migration_alter (seqP (schema_is RESTORE_CONTRACT) (commit_all ''migration''))) (\<lambda>_. ?U) ?U"
      by (rule leaves_seq [OF alter_relabels leaves_seq [OF schema_leaves commit_all_upgrades]])
        (use assms valid in \<open>auto simp: upgraded_def\<close>)
    have "leaves ?U (seqP rollback_all (raiseP e)) (\<lambda>_. ?U) ?U" for e :: exn
      by (simp add: leaves_def rollback_all_def durable_def)
    with body show "leaves ?P (on_exn (seqP migration_alter (seqP (schema_is RESTORE_CONTRACT) (commit_all ''migration'')))
       (\<lambda>e. seqP rollback_all (raiseP e))) (\<lambda>_. ?U) ?U" by (rule leaves_on_exn)
  qed simp
qed

lemma open_existing_upgrades:
  "leaves (\<lambda>s. durable s = d \<and> sees_disk s) open_existing (\<lambda>_ s. upgraded d (durable s)) (\<lambda>s. upgraded d (durable s))"
  unfolding open_existing_def
proof (rule leaves_bind)
  let ?U = "\<lambda>s :: 'a opener_scheme. upgraded d (durable s)"
  show "leaves (\<lambda>s. durable s = d \<and> sees_disk s) (gets (\<lambda>s. journal_schema (catalog_work s)))
     (\<lambda>r s. r = journal_schema (snd d) \<and> durable s = d \<and> work s = fst d) ?U"
    by (auto simp: leaves_def durable_def sees_disk_def)
  show "leaves (\<lambda>s. r = journal_schema (snd d) \<and> durable s = d \<and> work s = fst d) (bindP (lift r) (\<lambda>kind.
     if kind = LEGACY_RESTORE_CONTRACT then seqP migrate (ret True) else ret False)) (\<lambda>_. ?U) ?U" for r
  proof (rule leaves_given, rule leaves_lift)
    fix kind assume k: "r = journal_schema (snd d)" "r = Inr kind"
    show "leaves (\<lambda>s. durable s = d \<and> work s = fst d)
       (if kind = LEGACY_RESTORE_CONTRACT then seqP migrate (ret True) else ret False) (\<lambda>_. ?U) ?U"
    proof (rule leaves_if)
      assume "kind = LEGACY_RESTORE_CONTRACT"
      with k have "leaves (\<lambda>s. durable s = d \<and> work s = fst d) migrate (\<lambda>_. ?U) ?U" by (intro migrate_upgrades) simp
      then show "leaves (\<lambda>s. durable s = d \<and> work s = fst d) (seqP migrate (ret True)) (\<lambda>_. ?U) ?U"
        by (rule leaves_seq) (simp add: leaves_def)
    qed (simp add: leaves_def)
  qed simp
qed

lemma connect_leaves: "leaves (\<lambda>s. durable s = d) connect (\<lambda>_ s. durable s = d \<and> sees_disk s) (\<lambda>s. upgraded d (durable s))"
  by (auto simp: leaves_def wp_def connect_def durable_def sees_disk_def seqP_def bindP_def gets_def lift_def modify_def
      split: sum.splits)

text \<open>An existing database is found again after the lock is created.\<close>

definition there :: "db \<times> catalog \<Rightarrow> 'w opener_scheme \<Rightarrow> bool" where
  "there d s \<longleftrightarrow> durable s = d \<and> database_there s"

lemma there_upgraded: "there d s \<Longrightarrow> upgraded d (durable s)"
  by (simp add: there_def)

lemma there_frames: "frames m \<Longrightarrow> lasting (\<lambda>x. x = d) m \<Longrightarrow> keeps (there d) m"
  unfolding keeps_def frames_def there_def database_there_def under_def Let_def by metis

lemma there_identity: "keeps (there d) take_identity"
  unfolding take_identity_def
  by (intro keeps_intros keeps_modify) (simp add: there_def durable_def database_there_def under_def)

lemma there_lock: "keeps (there d) (open_lock p)"
  unfolding open_lock_def new_file_def
  by (intro keeps_intros keeps_modify) (simp_all add: there_def durable_def database_there_def under_def)

lemma enter_body_upgrades:
  "leaves (there d) enter_body (\<lambda>_ s. upgraded d (durable s)) (\<lambda>s. upgraded d (durable s))"
  unfolding enter_body_def
proof -
  let ?T = "there d :: 'a opener_scheme \<Rightarrow> bool"
  let ?U = "\<lambda>s :: 'a opener_scheme. upgraded d (durable s)"
  have unit: "leaves ?T m (\<lambda>_. ?T) ?U" if "keeps ?T m" for m :: "('a opener_scheme, unit) prog"
    using that by (rule leaves_keeps) (rule there_upgraded)
  have pair: "leaves ?T (is_private n) (\<lambda>_. ?T) ?U" for n
    by (rule leaves_keeps [OF _ there_upgraded]) (intro there_frames frames_intros keeps_intros)
  have path: "leaves ?T (gets f) (\<lambda>_. ?T) ?U" for f :: "'a opener_scheme \<Rightarrow> string"
    by (simp add: leaves_def there_def)
  have found: "leaves ?T (gets database_there) (\<lambda>b s. b \<and> ?T s) ?U"
    by (simp add: leaves_def there_def)
  have files: "leaves ?T (raise_when c e) (\<lambda>_. ?T) ?U" "leaves ?T take_identity (\<lambda>_. ?T) ?U"
    "leaves ?T (open_lock p) (\<lambda>_. ?T) ?U" "leaves ?T flock (\<lambda>_. ?T) ?U"
    "leaves ?T (forP [[], ''-journal'', ''-wal'', ''-shm''] side_file) (\<lambda>_. ?T) ?U" for c e p
    by (intro unit there_identity there_lock there_frames frames_intros keeps_intros)+
  have rest: "leaves ?U (seqP (schema_is RESTORE_CONTRACT)
     (seqP (if changed
        then seqP (root_fsync ''journal-root-fsync'') (seqP reopen (schema_is RESTORE_CONTRACT))
        else ret ())
     (bindP (is_private ''journal.db'') (\<lambda>i.
     seqP (modify (\<lambda>s. s\<lparr>database_identity := i\<rparr>))
     (root_fsync ''root-fsync''))))) (\<lambda>_. ?U) ?U" for changed
    by (rule leaves_keeps) (intro keeps_intros; simp add: durable_def)
  have opened: "leaves (\<lambda>s. b \<and> ?T s)
     (seqP (if b then raise_when (\<lambda>s. Inr (database_empty s)) ValueError else new_database)
     (seqP connect
     (bindP (if b then open_existing else seqP create_tables (ret True)) (\<lambda>changed.
     seqP (schema_is RESTORE_CONTRACT)
     (seqP (if changed
        then seqP (root_fsync ''journal-root-fsync'') (seqP reopen (schema_is RESTORE_CONTRACT))
        else ret ())
     (bindP (is_private ''journal.db'') (\<lambda>i.
     seqP (modify (\<lambda>s. s\<lparr>database_identity := i\<rparr>))
     (root_fsync ''root-fsync''))))))) ) (\<lambda>_. ?U) ?U" for b
  proof (rule leaves_given)
    assume b
    have durable: "leaves ?T (raise_when (\<lambda>s. Inr (database_empty s)) ValueError) (\<lambda>_ s. durable s = d) ?U"
      by (rule leaves_mono [OF files(1)]) (simp_all add: there_def)
    show "leaves ?T
     (seqP (if b then raise_when (\<lambda>s. Inr (database_empty s)) ValueError else new_database)
     (seqP connect
     (bindP (if b then open_existing else seqP create_tables (ret True)) (\<lambda>changed.
     seqP (schema_is RESTORE_CONTRACT)
     (seqP (if changed
        then seqP (root_fsync ''journal-root-fsync'') (seqP reopen (schema_is RESTORE_CONTRACT))
        else ret ())
     (bindP (is_private ''journal.db'') (\<lambda>i.
     seqP (modify (\<lambda>s. s\<lparr>database_identity := i\<rparr>))
     (root_fsync ''root-fsync''))))))) ) (\<lambda>_. ?U) ?U"
      using \<open>b\<close> by (simp only: if_True)
        (rule leaves_seq [OF durable leaves_seq [OF connect_leaves leaves_bind [OF open_existing_upgrades rest]]])
  qed
  show "leaves ?T
    (seqP (raise_when root_unsafe ValueError)
     (seqP take_identity
     (bindP (gets (under ''controller.lock'')) (\<lambda>lock_path.
     seqP (open_lock lock_path)
     (bindP (is_private ''controller.lock'') (\<lambda>_.
     seqP flock
     (seqP (forP [[], ''-journal'', ''-wal'', ''-shm''] side_file)
     (bindP (gets database_there) (\<lambda>existing.
     seqP (if existing then raise_when (\<lambda>s. Inr (database_empty s)) ValueError else new_database)
     (seqP connect
     (bindP (if existing then open_existing else seqP create_tables (ret True)) (\<lambda>changed.
     seqP (schema_is RESTORE_CONTRACT)
     (seqP (if changed
        then seqP (root_fsync ''journal-root-fsync'') (seqP reopen (schema_is RESTORE_CONTRACT))
        else ret ())
     (bindP (is_private ''journal.db'') (\<lambda>i.
     seqP (modify (\<lambda>s. s\<lparr>database_identity := i\<rparr>))
     (root_fsync ''root-fsync'')))))))))))))))) (\<lambda>_. ?U) ?U"
    by (rule leaves_seq [OF files(1)] leaves_seq [OF files(2)] leaves_bind [OF path] leaves_seq [OF files(3)]
        leaves_bind [OF pair] leaves_seq [OF files(4)] leaves_seq [OF files(5)] leaves_bind [OF found] opened)+
qed

text \<open>C27 A migration is all or nothing: however entering an existing journal ends, with any check failing,
  any commit or flush failing or becoming durable before the failure, the durable file is either exactly
  what it was, or the whole next generation: rows and schema moved together, from a file of the first
  generation whose rows had been validated, with every operation under the legacy contract and nothing
  else changed.\<close>

theorem migration_is_atomic:
  assumes "database_there s"
  shows "upgraded (durable s) (durable (snd (enter_journal s)))"
proof -
  have "leaves (there (durable s)) enter_journal (\<lambda>_ t. upgraded (durable s) (durable t))
      (\<lambda>t. upgraded (durable s) (durable t))"
    unfolding enter_journal_def
    by (rule leaves_on_exn [OF enter_body_upgrades]) (simp add: leaves_def exit_journal_def durable_def)
  then show ?thesis using assms by (auto simp: leaves_def wp_def there_def split: sum.splits)
qed

text \<open>A journal of the first generation, with its tables and no operation yet, whose migration fails
  after the commit became durable.\<close>

definition ex_catalog :: "(string \<times> string) list \<Rightarrow> json list list \<Rightarrow> catalog" where
  "ex_catalog sql columns = \<lparr>
     objects = map (\<lambda>(n, q). (if n = ''one_unfinished'' then ''index'' else ''table'', n, Some q)) sql,
     integrity_ok = True, broken_references = False,
     table_xinfo = (\<lambda>t. map (\<lambda>c. JInt 0 # c) (if t = ''steps'' then STEP_COLUMNS else columns)),
     index_list = (\<lambda>t. if t = ''steps'' then [(0, ''sqlite_autoindex_steps_1'', 1, ''pk'', 0)]
        else [(0, ''one_unfinished'', 1, ''c'', 1), (1, ''sqlite_autoindex_operations_2'', 1, ''u'', 0),
          (2, ''sqlite_autoindex_operations_1'', 1, ''pk'', 0)]),
     index_info = (\<lambda>i. if i = ''one_unfinished'' then [(0, 5, Some ''complete'')]
        else if i = ''sqlite_autoindex_operations_2'' then [(0, 4, Some ''new_epoch'')] else [(0, 0, Some ''id'')]),
     foreign_keys = (\<lambda>_. [(0, 0, ''operations'', ''operation'', ''id'', ''NO ACTION'', ''NO ACTION'', ''NONE'')]),
     script_result = (\<lambda>_. Inr ()), insert_accepted = (\<lambda>_ _ st. st \<in> set good_inserts), contracts = []\<rparr>"

definition ex_opener :: opener where
  "ex_opener = \<lparr>disk = \<lparr>ops = [], steps = []\<rparr>, work = \<lparr>ops = [], steps = []\<rparr>, oper = None, nxt = 0, pending = False,
     lock = None, opened = False, directory_identity = (0, 0), database_identity = (0, 0),
     files = [''/r'' \<mapsto> \<lparr>f_kind = Directory, f_uid = 7, f_mode = 448, f_nlink = 2, f_id = (1, 1), f_bytes = []\<rparr>,
        ''/r/journal.db'' \<mapsto> \<lparr>f_kind = Regular, f_uid = 7, f_mode = 384, f_nlink = 1, f_id = (1, 2), f_bytes = ''x''\<rparr>],
     base = ''/r'', euid = 7, uuids = (\<lambda>_. []), drawn = 0,
     fault = (\<lambda>_ l. if l = ''migration'' then FailAfter OSError else NoFault), commits = 0,
     catalog_disk = ex_catalog legacy_sql LEGACY_OP_COLUMNS, catalog_work = ex_catalog [] [],
     connecting = (\<lambda>_. Inr ()), openings = 0, script_leaves = (\<lambda>_. (Inl SqliteError, ex_catalog [] [])),
     alter_leaves = (\<lambda>_ _. (Inr (), ex_catalog new_sql NEW_OP_COLUMNS)), held_elsewhere = False, new_id = (\<lambda>_. (1, 3))\<rparr>"

theorem migration_is_atomic_witness: "upgraded (durable ex_opener) (durable (snd (enter_journal ex_opener)))"
  by (rule migration_is_atomic) (simp add: ex_opener_def database_there_def under_def path_join_def)

end
