(* ===== verification/Held.thy ===== *)
theory Held
  imports Controls Descriptor
begin

text \<open>
  \<open>hat/control.py\<close>, class \<open>ControlIO\<close>, and \<open>hat/recovery.py\<close>: the inputs that are held open while an oracle works on
  them. The controller's world gets the file system of \<open>Descriptor\<close>, where nothing relates one instant to another, and
  the lists of authorities a run holds: \<open>tree_held\<close> of \<open>_installed_manifest\<close>, \<open>installed\<close> and \<open>sources\<close> of
  \<open>_acceptance_request\<close>, \<open>inputs_held\<close> of \<open>oracle\<close>. A list that goes out of scope is empty.
\<close>

section \<open>State\<close>

record acceptor = controller +
  ground :: dworld
  fresh_hold :: "(desc_authority \<times> json) option"
  tree_held :: "desc_authority list"
  installed :: "desc_authority list"
  sources :: "desc_authority list"
  inputs_held :: "desc_authority list"

definition on_ground :: "(dworld, 'a) prog \<Rightarrow> ('w acceptor_scheme, 'a) prog" where
  "on_ground m s = (case m (ground s) of (r, d) \<Rightarrow> (r, s\<lparr>ground := d\<rparr>))"

text \<open>\<open>with\<close> and \<open>finally: close_all\<close>: a failure to close is raised only when nothing else was.\<close>

definition closing_after :: "('w acceptor_scheme, 'a) prog \<Rightarrow> ('w acceptor_scheme \<Rightarrow> desc_authority list) \<Rightarrow> ('w acceptor_scheme, 'a) prog" where
  "closing_after m as = bindP (on_exn m (\<lambda>e. bindP (gets as) (\<lambda>xs. seqP (on_ground (close_all True xs)) (raiseP e))))
     (\<lambda>x. bindP (gets as) (\<lambda>xs. seqP (on_ground (close_all False xs)) (ret x)))"

definition with_authority ::
  "('w acceptor_scheme, desc_authority) prog \<Rightarrow> (desc_authority \<Rightarrow> ('w acceptor_scheme, 'a) prog) \<Rightarrow> ('w acceptor_scheme, 'a) prog" where
  "with_authority m body = bindP m (\<lambda>a. closing_after (body a) (\<lambda>_. [a]))"

text \<open>The file of an authority; asking an authority of a directory for its identity or digest raises.\<close>

definition file_held :: "desc_authority \<Rightarrow> held_file res" where
  "file_held a = (case da_file a of None \<Rightarrow> Inl ValueError | Some f \<Rightarrow> Inr f)"

definition trusted_ids :: "'w host_scheme \<Rightarrow> nat list" where
  "trusted_ids s = [0, huid s]"

definition any_file :: expected where
  "any_file = \<lparr>e_uid = None, e_gid = None, e_mode = None, e_nlink = None, e_size = None, e_sha256 = None,
     e_limit = 4 * 2 ^ 20, e_empty = False\<rparr>"

text \<open>A private file of the controller itself.\<close>

definition own_file :: "'w host_scheme \<Rightarrow> expected" where
  "own_file s = any_file\<lparr>e_uid := Some (huid s), e_mode := Some 384, e_nlink := Some 1\<rparr>"

definition open_from :: "string \<Rightarrow> string \<Rightarrow> nat list \<Rightarrow> expected \<Rightarrow> ('w acceptor_scheme, desc_authority) prog" where
  "open_from p base_dir uids e = on_ground (open_file p base_dir uids e)"

section \<open>Authority over a ledger\<close>

definition id_device :: "file_identity \<Rightarrow> nat" where "id_device i = fst (fst (fst i))"
definition id_inode :: "file_identity \<Rightarrow> nat" where "id_inode i = snd (fst (fst i))"
definition id_mode :: "file_identity \<Rightarrow> nat" where "id_mode i = fst (snd (snd (fst i))) mod 4096"
definition id_uid :: "file_identity \<Rightarrow> nat" where "id_uid i = fst (snd (snd (snd (fst i))))"
definition id_gid :: "file_identity \<Rightarrow> nat" where "id_gid i = snd (snd (snd (snd (fst i))))"
definition id_links :: "file_identity \<Rightarrow> nat" where "id_links i = fst (snd i)"
definition id_bytes :: "file_identity \<Rightarrow> nat" where "id_bytes i = snd (snd i)"

definition identity_list :: "file_identity \<Rightarrow> nat list" where
  "identity_list i = [id_device i, id_inode i, id_mode i, id_uid i, id_gid i, id_links i, id_bytes i]"

definition ledger_wire :: "string \<Rightarrow> held_file \<Rightarrow> json" where
  "ledger_wire path f = (let i = hf_identity f in JObj
     [(''path'', JStr path), (''device'', JInt (int (id_device i))), (''inode'', JInt (int (id_inode i))),
      (''mode'', JInt (int (id_mode i))), (''uid'', JInt (int (id_uid i))), (''links'', JInt (int (id_links i))),
      (''bytes'', JInt (int (id_bytes i))), (''sha256'', JStr (hf_sha256 f))])"

definition authority_value :: "string \<Rightarrow> string \<Rightarrow> string \<Rightarrow> held_file \<Rightarrow> json \<Rightarrow> json \<Rightarrow> json" where
  "authority_value ident origin path f support binaries = JObj
     [(''schema'', JStr AUTHORITY_SCHEMA), (''operation'', JStr ident), (''origin'', JStr origin),
      (''ledger'', ledger_wire path f), (''support'', support), (''binaries'', binaries)]"

definition manifests_or :: "(json \<times> json) option \<Rightarrow> ('w acceptor_scheme, json \<times> json) prog" where
  "manifests_or given = (case given of Some m \<Rightarrow> ret m | None \<Rightarrow> (\<lambda>s. (authorized_manifests s, s)))"

definition capture_protected_authority ::
  "string \<Rightarrow> string \<Rightarrow> (json \<times> json) option \<Rightarrow> ('w acceptor_scheme, json) prog" where
  "capture_protected_authority path origin given =
     bindP (manifests_or given) (\<lambda>(support, binaries).
     bindP (gets (\<lambda>s. (trusted_ids s, own_file s, running_op s))) (\<lambda>(uids, own, q).
     with_authority (open_from path ''/'' uids own) (\<lambda>selected.
       bindP (lift (file_held selected)) (\<lambda>f.
       let v = authority_value (o_id q) origin path f support binaries in
       seqP (lift (check_authority_value CONTROLLER_ROOT v (op_json q)
           (if origin = ''d3-recovery-input'' then ''recovery-comparison'' else ''comparison'')))
       (ret v)))))"

definition fresh_authority_file :: string where
  "fresh_authority_file = ''new-writes-input-authority.json''"

text \<open>The ledger a smoke run just made, bound before any oracle request; it stays open.\<close>

definition authorize_fresh_writes :: "string \<Rightarrow> ('w acceptor_scheme, json) prog" where
  "authorize_fresh_writes path =
     seqP (raise_when (\<lambda>s. Inr (path \<noteq> path_join (area s) ''new-writes.jsonl'' \<or> fresh_hold s \<noteq> None)) ValueError)
     (bindP (manifests_or None) (\<lambda>(support, binaries).
     bindP (gets (\<lambda>s. (area s, trusted_ids s, own_file s, running_op s))) (\<lambda>(dir, uids, own, q).
     bindP (open_from path dir uids own) (\<lambda>selected.
     on_exn
       (bindP (lift (file_held selected)) (\<lambda>f.
        let v = authority_value (o_id q) ''current-verify-exclusive'' path f support binaries in
        bindP (lift (canonical_json v)) (\<lambda>raw.
        seqP (durable_bytes (path_join dir fresh_authority_file) raw ''bytes'' 384 None None)
        (seqP (modify (\<lambda>s. s\<lparr>fresh_hold := Some (selected, v)\<rparr>)) (ret v)))))
       (\<lambda>e. seqP (on_ground (close_all True [selected])) (raiseP e))))))"

definition close_fresh_writes :: "('w acceptor_scheme, unit) prog" where
  "close_fresh_writes = bindP (gets fresh_hold) (\<lambda>h. case h of None \<Rightarrow> ret ()
     | Some (a, _) \<Rightarrow> seqP (modify (\<lambda>s. s\<lparr>fresh_hold := None\<rparr>)) (on_ground (close_all True [a])))"

section \<open>Copies and held inputs\<close>

text \<open>\<open>_copy_bound_input\<close>: the source is held and copied into a held directory; the copy is closed at once. A new file
  appears in both views, the descriptors' and the host's.\<close>

definition appears :: "string \<Rightarrow> nat \<Rightarrow> nat \<Rightarrow> nat \<Rightarrow> string \<Rightarrow> ('w acceptor_scheme, unit) prog" where
  "appears path mode uid gid raw = seqP (create_new RegularNode path mode raw) (chown path uid gid)"

definition copy_expected :: "nat \<Rightarrow> string \<Rightarrow> file_identity option \<Rightarrow> expected" where
  "copy_expected uid digest identity = (case identity of
     None \<Rightarrow> any_file\<lparr>e_uid := Some uid, e_mode := Some 384, e_nlink := Some 1, e_sha256 := Some digest\<rparr>
   | Some i \<Rightarrow> any_file\<lparr>e_uid := Some (id_uid i), e_gid := Some (id_gid i), e_mode := Some (id_mode i), e_nlink := Some 1,
       e_size := Some (id_bytes i), e_sha256 := Some digest\<rparr>)"

definition copy_bound ::
  "string \<Rightarrow> string \<Rightarrow> nat \<Rightarrow> nat \<Rightarrow> nat \<Rightarrow> string \<Rightarrow> file_identity option \<Rightarrow> ('w acceptor_scheme, nat list) prog" where
  "copy_bound src dest mode uid gid digest identity =
     bindP (gets trusted_ids) (\<lambda>uids.
     with_authority (open_from src ''/'' uids (copy_expected uid digest identity)) (\<lambda>bound.
     with_authority (on_ground (open_directory (parent_dir dest) ''/'' uids)) (\<lambda>parent.
       bindP (lift (file_held bound)) (\<lambda>f.
       seqP (raise_when (\<lambda>_. Inr (identity \<noteq> None \<and> Some (hf_identity f) \<noteq> identity)) ValueError)
       (seqP (appears dest mode uid gid (hf_raw f))
       (bindP (on_ground (copy_to bound parent (path_name dest) mode uid gid)) (\<lambda>copied.
       seqP (on_ground (close_all False [copied]))
       (seqP (on_ground (recheck bound)) (seqP (on_ground (recheck parent)) (ret (identity_list (hf_identity f))))))))))))"

type_synonym input_file = "string \<times> nat \<times> nat \<times> nat \<times> nat"

text \<open>\<open>_open_held_inputs\<close>: all of them or none.\<close>

fun open_held_inputs :: "nat list \<Rightarrow> desc_authority list \<Rightarrow> input_file list \<Rightarrow> ('w acceptor_scheme, desc_authority list) prog" where
  "open_held_inputs uids held [] = ret held"
| "open_held_inputs uids held ((path, uid, gid, mode, limit) # rest) =
     bindP (on_exn (open_from path ''/'' uids \<lparr>e_uid = Some uid, e_gid = Some gid, e_mode = Some mode, e_nlink = Some 1,
          e_size = None, e_sha256 = None, e_limit = limit, e_empty = False\<rparr>)
         (\<lambda>e. seqP (on_ground (close_all True held)) (raiseP e)))
       (\<lambda>a. open_held_inputs uids (held @ [a]) rest)"

fun recheck_each :: "desc_authority list \<Rightarrow> ('w acceptor_scheme, unit) prog" where
  "recheck_each [] = ret ()"
| "recheck_each (a # as) = seqP (on_ground (recheck a)) (recheck_each as)"

section \<open>Installed trees\<close>

text \<open>The directories the names lie in, relative to the root; the root itself is not among them.\<close>

definition tree_dirs :: "string list \<Rightarrow> string list" where
  "tree_dirs names = remdups (concat (map (\<lambda>n. map (\<lambda>k. join_with ''/'' (take k (path_comps n)))
     [1..<length (path_comps n)]) names))"

definition listdir :: "nat \<Rightarrow> ('w host_scheme, string list) prog" where
  "listdir fd = bindP (hcall ''listdir'' (JInt (int fd))) (\<lambda>v. ret (case v of JArr xs \<Rightarrow> map str_val xs | _ \<Rightarrow> []))"

text \<open>What was found so far: files, directories, and the directories still to be listed.\<close>

record tree_walk =
  found_files :: "string list"
  found_dirs :: "string list"
  to_list :: "(string \<times> desc_authority) list"

definition below_dir :: "string \<Rightarrow> string \<Rightarrow> string" where
  "below_dir prefix entry = (if prefix = [] then entry else path_join prefix entry)"

fun walk_entries :: "string \<Rightarrow> nat list \<Rightarrow> string list \<Rightarrow> string \<Rightarrow> tree_walk \<Rightarrow> string list \<Rightarrow> ('w acceptor_scheme, tree_walk) prog" where
  "walk_entries top_dir uids expected_files prefix w [] = ret w"
| "walk_entries top_dir uids expected_files prefix w (entry # entries) =
     (let rel = below_dir prefix entry in
      bindP (on_exn (bindP (on_ground (open_directory (path_join top_dir rel) ''/'' uids)) (\<lambda>a. ret (Some a)))
          (\<lambda>e. if isa e ValueError \<or> isa e OSError then ret None else raiseP e)) (\<lambda>child.
      case child of
        None \<Rightarrow> if rel \<notin> set expected_files then raiseP ValueError
          else walk_entries top_dir uids expected_files prefix (w\<lparr>found_files := rel # found_files w\<rparr>) entries
      | Some a \<Rightarrow> seqP (modify (\<lambda>s. s\<lparr>tree_held := tree_held s @ [a]\<rparr>))
          (walk_entries top_dir uids expected_files prefix
            (w\<lparr>found_dirs := rel # found_dirs w, to_list := (rel, a) # to_list w\<rparr>) entries)))"

text \<open>The newest directory is listed first; \<open>fuel\<close> bounds the directories.\<close>

fun walk_tree :: "nat \<Rightarrow> string \<Rightarrow> nat list \<Rightarrow> string list \<Rightarrow> tree_walk \<Rightarrow> ('w acceptor_scheme, tree_walk) prog" where
  "walk_tree 0 top_dir uids expected_files w = (if to_list w = [] then ret w else raiseP StopIteration)"
| "walk_tree (Suc n) top_dir uids expected_files w = (case to_list w of [] \<Rightarrow> ret w
     | (prefix, a) # rest \<Rightarrow> bindP (listdir (hd_fd (last (da_dirs a)))) (\<lambda>entries.
         bindP (walk_entries top_dir uids expected_files prefix (w\<lparr>to_list := rest\<rparr>) entries)
           (walk_tree n top_dir uids expected_files)))"

fun digest_files :: "string \<Rightarrow> nat list \<Rightarrow> nat \<Rightarrow> nat \<Rightarrow> nat \<Rightarrow> string list \<Rightarrow> ('w acceptor_scheme, (string \<times> json) list) prog" where
  "digest_files top_dir uids uid gid mode [] = ret []"
| "digest_files top_dir uids uid gid mode (name # names) =
     bindP (open_from (path_join top_dir name) ''/'' uids \<lparr>e_uid = Some uid, e_gid = Some gid, e_mode = Some mode,
         e_nlink = Some 1, e_size = None, e_sha256 = None, e_limit = 128 * 2 ^ 20, e_empty = False\<rparr>) (\<lambda>a.
     seqP (modify (\<lambda>s. s\<lparr>tree_held := tree_held s @ [a]\<rparr>))
     (bindP (lift (file_held a)) (\<lambda>f.
      bindP (digest_files top_dir uids uid gid mode names) (\<lambda>rest. ret ((name, JStr (hf_sha256 f)) # rest)))))"

definition manifest_body :: "nat \<Rightarrow> string \<Rightarrow> string list \<Rightarrow> nat \<Rightarrow> nat \<Rightarrow> nat \<Rightarrow> ('w acceptor_scheme, json) prog" where
  "manifest_body fuel top_dir names uid gid mode =
     bindP (gets trusted_ids) (\<lambda>uids.
     bindP (on_ground (open_directory top_dir ''/'' uids)) (\<lambda>top.
     seqP (modify (\<lambda>s. s\<lparr>tree_held := [top]\<rparr>))
     (bindP (walk_tree fuel top_dir uids names \<lparr>found_files = [], found_dirs = [], to_list = [([], top)]\<rparr>) (\<lambda>w.
      if set (found_files w) \<noteq> set names \<or> set (found_dirs w) \<noteq> set (tree_dirs names) then raiseP ValueError
      else bindP (digest_files top_dir uids uid gid mode names) (\<lambda>kvs. ret (JObj kvs))))))"

text \<open>With \<open>hold\<close> the authorities are handed over, otherwise closed.\<close>

definition installed_manifest ::
  "nat \<Rightarrow> string \<Rightarrow> string list \<Rightarrow> nat \<Rightarrow> nat \<Rightarrow> nat \<Rightarrow> bool \<Rightarrow> ('w acceptor_scheme, json \<times> desc_authority list) prog" where
  "installed_manifest fuel top_dir names uid gid mode hold' =
     seqP (modify (\<lambda>s. s\<lparr>tree_held := []\<rparr>))
     (closing_after
       (bindP (manifest_body fuel top_dir names uid gid mode) (\<lambda>v.
        if hold' then bindP (gets tree_held) (\<lambda>held. seqP (modify (\<lambda>s. s\<lparr>tree_held := []\<rparr>)) (ret (v, held)))
        else ret (v, [])))
       tree_held)"

text \<open>\<open>_recheck_installed_manifest\<close>: every authority still holds, the directories are all there, and each lists exactly
  its expected children.\<close>

definition relative_dir :: "string \<Rightarrow> desc_authority \<Rightarrow> string option" where
  "relative_dir top_dir a = (if da_file a \<noteq> None then None
     else map_option (join_with ''/'') (strip_prefix (path_comps top_dir) (da_path a)))"

fun put_dir :: "(string \<times> desc_authority) list \<Rightarrow> string \<Rightarrow> desc_authority \<Rightarrow> (string \<times> desc_authority) list" where
  "put_dir [] k a = [(k, a)]"
| "put_dir ((k', a') # kvs) k a = (if k' = k then (k, a) # kvs else (k', a') # put_dir kvs k a)"

fun recheck_tree :: "string \<Rightarrow> desc_authority list \<Rightarrow> (string \<times> desc_authority) list \<Rightarrow> ('w acceptor_scheme, (string \<times> desc_authority) list) prog" where
  "recheck_tree top_dir [] dirs = ret dirs"
| "recheck_tree top_dir (a # as) dirs = seqP (on_ground (recheck a))
     (recheck_tree top_dir as (case relative_dir top_dir a of None \<Rightarrow> dirs | Some rel \<Rightarrow> put_dir dirs rel a))"

definition dir_of :: "string \<Rightarrow> string" where
  "dir_of rel = join_with ''/'' (butlast (path_comps rel))"

definition children_of :: "string list \<Rightarrow> string \<Rightarrow> string list" where
  "children_of names dir = map path_name (filter (\<lambda>rel. dir_of rel = dir) (names @ tree_dirs names))"

fun list_again :: "string list \<Rightarrow> (string \<times> desc_authority) list \<Rightarrow> ('w acceptor_scheme, unit) prog" where
  "list_again names [] = ret ()"
| "list_again names ((rel, a) # rest) = bindP (listdir (hd_fd (last (da_dirs a)))) (\<lambda>entries.
     if set entries \<noteq> set (children_of names rel) then raiseP ValueError else list_again names rest)"

definition recheck_installed_manifest :: "string \<Rightarrow> string list \<Rightarrow> desc_authority list \<Rightarrow> ('w acceptor_scheme, unit) prog" where
  "recheck_installed_manifest top_dir names held =
     bindP (recheck_tree top_dir held []) (\<lambda>dirs.
     if fst ` set dirs \<noteq> insert [] (set (tree_dirs names)) then raiseP ValueError else list_again names dirs)"

end
