(* ===== verification/Sealed.thy ===== *)
theory Sealed
  imports Held
begin

text \<open>
  \<open>hat/recovery.py\<close>: the fault ledger, held by its descriptor, copied once into an intake directory with a seal that
  names both identities, and compared with its seal before every use; and the identity of the oracle's support files and
  binaries.
\<close>

section \<open>Opening a fault ledger\<close>

definition fault_identity_of :: "file_identity \<Rightarrow> json" where
  "fault_identity_of i = JObj [(''device'', JInt (int (id_device i))), (''inode'', JInt (int (id_inode i))),
     (''mode'', JInt (int (id_mode i))), (''uid'', JInt (int (id_uid i))), (''gid'', JInt (int (id_gid i))),
     (''links'', JInt (int (id_links i))), (''bytes'', JInt (int (id_bytes i)))]"

definition FAULT_IDENTITY_FIELDS :: "string list" where
  "FAULT_IDENTITY_FIELDS = [''device'', ''inode'', ''mode'', ''uid'', ''gid'', ''links'', ''bytes'']"

text \<open>\<open>expected.get(key, default)\<close>; a value that is no number is refused by the comparison of the identities.\<close>

definition want :: "json \<Rightarrow> string \<Rightarrow> nat option \<Rightarrow> nat option" where
  "want v k dflt = (case v of JObj kvs \<Rightarrow> (case map_of kvs k of None \<Rightarrow> dflt
     | Some x \<Rightarrow> (if 0 \<le> int_val x \<and> is_int x then Some (nat (int_val x)) else None)) | _ \<Rightarrow> dflt)"

text \<open>\<open>identity or {}\<close>.\<close>

definition fault_expected :: "json \<Rightarrow> json \<Rightarrow> nat \<Rightarrow> expected res" where
  "fault_expected identity digest own = (if truthy identity \<and> \<not> is_obj identity then Inl AttributeError
     else Inr \<lparr>e_uid = want identity ''uid'' (Some own), e_gid = want identity ''gid'' None,
       e_mode = want identity ''mode'' (Some 384), e_nlink = want identity ''links'' (Some 1),
       e_size = want identity ''bytes'' None, e_sha256 = (if digest = JNull then None else Some (str_val digest)),
       e_limit = nat MAX_ARTIFACT, e_empty = False\<rparr>)"

fun check_private_dirs :: "held_dir list \<Rightarrow> ('w acceptor_scheme, unit) prog" where
  "check_private_dirs [] = ret ()"
| "check_private_dirs (d # ds) = (if \<not> hd_trusted d then check_private_dirs ds
     else bindP (on_ground (os_fstat (hd_fd d))) (\<lambda>a.
       seqP (raise_when (\<lambda>s. Inr (dn_uid (snd a) \<noteq> huid s)) ValueError)
       (bindP (on_ground (os_fstat (hd_fd d))) (\<lambda>b.
       seqP (raise_when (\<lambda>_. Inr (dn_mode (snd b) mod 64 \<noteq> 0)) ValueError) (check_private_dirs ds)))))"

definition fault_differs :: "json \<Rightarrow> held_file \<Rightarrow> bool res" where
  "fault_differs identity f = (if identity = JNull then Inr False else any_of
     [Inr (\<not> py_eq (fault_identity_of (hf_identity f)) identity), notR (set_is identity FAULT_IDENTITY_FIELDS)])"

definition open_fault :: "string \<Rightarrow> string \<Rightarrow> json \<Rightarrow> json \<Rightarrow> ('w acceptor_scheme, desc_authority) prog" where
  "open_fault path base_dir identity digest =
     bindP (gets huid) (\<lambda>own.
     bindP (lift (fault_expected identity digest own)) (\<lambda>e.
     bindP (open_from path base_dir [own] e) (\<lambda>a.
     on_exn
       (seqP (check_private_dirs (da_dirs a))
       (bindP (lift (file_held a)) (\<lambda>f.
        seqP (raise_when (\<lambda>_. fault_differs identity f) ValueError) (ret a))))
       (\<lambda>x. seqP (on_ground (close_all True [a])) (raiseP x)))))"

section \<open>Sealing\<close>

definition create_private_at :: "desc_authority \<Rightarrow> string \<Rightarrow> string \<Rightarrow> string \<Rightarrow> ('w acceptor_scheme, unit) prog" where
  "create_private_at directory path name raw =
     bindP (gets (\<lambda>s. (huid s, hgid s))) (\<lambda>(uid, gid).
     seqP (appears (path_join path name) 384 uid gid raw)
     (seqP (on_ground (bindP (create_at (hd_fd (last (da_dirs directory))) name) (\<lambda>fd.
       ensuring (seqP (write_on raw) (seqP effect (seqP effect effect))) (os_close fd))))
     (on_ground effect)))"

definition seal_of :: "json \<Rightarrow> held_file \<Rightarrow> held_file \<Rightarrow> string \<Rightarrow> json res" where
  "seal_of input source copied raw = itm input ''source_epoch'' (\<lambda>epoch. itm input ''producer_unit'' (\<lambda>u.
     Inr (JObj [(''schema'', JStr ''hat-d3-fault-seal-1''), (''sha256'', JStr (hf_sha256 source)),
       (''bytes'', JInt (int (length raw))), (''source_epoch'', epoch), (''producer_unit'', u),
       (''source'', fault_identity_of (hf_identity source)), (''destination'', fault_identity_of (hf_identity copied))])))"

definition intake_name :: "json \<Rightarrow> string res" where
  "intake_name input = itm input ''producer_unit'' (\<lambda>u. case u of
     JStr t \<Rightarrow> (case producer_unit t of Some run \<Rightarrow> Inr (''recovery-intake-'' @ run) | None \<Rightarrow> Inl AttributeError)
   | _ \<Rightarrow> Inl TypeError)"

definition root_private :: "desc_authority \<Rightarrow> ('w acceptor_scheme, unit) prog" where
  "root_private home = bindP (on_ground (os_fstat (hd_fd (last (da_dirs home))))) (\<lambda>a.
     seqP (raise_when (\<lambda>s. Inr (dn_uid (snd a) \<noteq> huid s)) ValueError)
     (bindP (on_ground (os_fstat (hd_fd (last (da_dirs home))))) (\<lambda>b.
      raise_when (\<lambda>_. Inr (dn_mode (snd b) mod 64 \<noteq> 0)) ValueError)))"

definition text_item :: "json \<Rightarrow> string \<Rightarrow> string res" where
  "text_item v k = itm v k (\<lambda>x. case x of JStr t \<Rightarrow> Inr t | _ \<Rightarrow> Inl TypeError)"

definition sealed_name :: string where
  "sealed_name = ''fault-ledger.jsonl''"

definition seal_into ::
  "string \<Rightarrow> json \<Rightarrow> string \<Rightarrow> string \<Rightarrow> desc_authority \<Rightarrow> desc_authority \<Rightarrow> ('w acceptor_scheme, string \<times> string \<times> json) prog" where
  "seal_into base_dir input raw intake source into =
     bindP (gets (\<lambda>s. (huid s, hgid s))) (\<lambda>(uid, gid).
     bindP (lift (file_held source)) (\<lambda>f.
     seqP (appears (path_join intake sealed_name) 384 uid gid (hf_raw f))
     (with_authority (on_ground (copy_to source into sealed_name 384 uid gid)) (\<lambda>copied.
       bindP (lift (file_held copied)) (\<lambda>g.
       bindP (lift (seal_of input f g raw)) (\<lambda>seal.
       bindP (lift (dumps_compact seal)) (\<lambda>text'.
       seqP (create_private_at into intake ''fault-seal.json'' text')
       (seqP (on_ground (recheck source)) (seqP (on_ground (recheck into)) (seqP (on_ground (recheck copied))
       (ret (intake, path_join intake sealed_name, seal))))))))))))"

definition seal_fault :: "string \<Rightarrow> json \<Rightarrow> string \<Rightarrow> ('w acceptor_scheme, string \<times> string \<times> json) prog" where
  "seal_fault base_dir input raw =
     bindP (lift (intake_name input)) (\<lambda>name. let intake = path_join base_dir name in
     bindP (lift (text_item input ''fault_ledger'')) (\<lambda>path.
     with_authority (open_fault path base_dir JNull JNull) (\<lambda>source.
       bindP (lift (file_held source)) (\<lambda>f.
       seqP (raise_when (\<lambda>_. Inr (hf_raw f \<noteq> raw)) ValueError)
       (bindP (gets huid) (\<lambda>own.
       with_authority (on_ground (open_directory base_dir base_dir [own])) (\<lambda>home.
         seqP (root_private home)
         (seqP (seqP (on_ground effect) (mkdir intake 448))
         (seqP (on_ground effect)
         (with_authority (on_ground (open_directory intake base_dir [own]))
           (seal_into base_dir input raw intake source)))))))))))"

section \<open>Comparing with the seal\<close>

definition seal_invalid :: "json \<Rightarrow> json \<Rightarrow> bool res" where
  "seal_invalid input seal = any_of
     [Inr (\<not> is_obj seal),
      notR (set_is seal [''schema'', ''sha256'', ''bytes'', ''source_epoch'', ''producer_unit'', ''source'', ''destination'']),
      item_not seal ''schema'' ''hat-d3-fault-seal-1'',
      itm seal ''source_epoch'' (\<lambda>x. itm input ''source_epoch'' (\<lambda>y. differs x y)),
      itm seal ''producer_unit'' (\<lambda>x. itm input ''producer_unit'' (\<lambda>y. differs x y)),
      itm seal ''bytes'' (\<lambda>n. Inr (\<not> int_and n (\<lambda>i. 0 < i \<and> i \<le> MAX_ARTIFACT))),
      itm seal ''sha256'' (\<lambda>x. Inr (\<not> str_and x hex64))]"

definition keep_open :: "('w acceptor_scheme, desc_authority) prog \<Rightarrow> ('w acceptor_scheme, desc_authority) prog" where
  "keep_open m = bindP m (\<lambda>a. seqP (modify (\<lambda>s. s\<lparr>tree_held := tree_held s @ [a]\<rparr>)) (ret a))"

definition recheck_fault_body :: "json \<Rightarrow> string \<Rightarrow> string \<Rightarrow> json \<Rightarrow> ('w acceptor_scheme, json) prog" where
  "recheck_fault_body input base_dir sealed seal =
     seqP (raise_when (\<lambda>_. seal_invalid input seal) ValueError)
     (bindP (lift (text_item input ''fault_ledger'')) (\<lambda>path.
     bindP (lift (getitem seal ''sha256'')) (\<lambda>digest.
     bindP (lift (getitem seal ''source'')) (\<lambda>from.
     bindP (keep_open (open_fault path base_dir from digest)) (\<lambda>source.
     bindP (lift (getitem seal ''destination'')) (\<lambda>to.
     bindP (keep_open (open_fault sealed base_dir to digest)) (\<lambda>copied.
     bindP (lift (file_held source)) (\<lambda>f. bindP (lift (file_held copied)) (\<lambda>g.
     seqP (raise_when (\<lambda>_. any_of [itm seal ''bytes'' (\<lambda>n. Inr (int (length (hf_raw f)) \<noteq> int_val n)),
        Inr (hf_raw f \<noteq> hf_raw g)]) ValueError)
     (seqP (on_ground (recheck source)) (seqP (on_ground (recheck copied))
     (bindP (lift (text_item input ''source_epoch'')) (\<lambda>epoch.
     bindP (\<lambda>s. (read_closed_ledger sealed epoch s, s)) (\<lambda>_.
     seqP (on_ground (recheck source)) (seqP (on_ground (recheck copied)) (ret digest))))))))))))))))"

definition recheck_fault :: "json \<Rightarrow> string \<Rightarrow> string \<Rightarrow> json \<Rightarrow> ('w acceptor_scheme, json) prog" where
  "recheck_fault input base_dir sealed seal =
     seqP (modify (\<lambda>s. s\<lparr>tree_held := []\<rparr>))
     (closing_after
       (converting [KeyError, TypeError, ValueError, OSError] RuntimeError (recheck_fault_body input base_dir sealed seal))
       tree_held)"

section \<open>The identity of the oracle\<close>

definition dir_unsafe :: "nat list \<Rightarrow> hnode \<Rightarrow> bool" where
  "dir_unsafe uids n \<longleftrightarrow> h_kind n \<noteq> DirectoryNode \<or> h_uid n \<notin> set uids \<or> others_write (h_mode n)"

definition tool_unsafe :: "nat \<Rightarrow> hnode \<Rightarrow> bool" where
  "tool_unsafe own n \<longleftrightarrow> h_kind n \<noteq> RegularNode \<or> h_uid n \<noteq> own \<or> others_write (h_mode n) \<or> h_nlink n \<noteq> 1"

definition safe_dirs :: "nat list \<Rightarrow> 'w host_scheme \<Rightarrow> string list \<Rightarrow> unit res" where
  "safe_dirs uids s ds = mapR (\<lambda>_. ()) (traverse (\<lambda>d. bindR (h_lstat d s) (\<lambda>n.
     refuse_if [Inr (dir_unsafe uids n)] (Inr ()))) ds)"

text \<open>From the root down to the directory of a name.\<close>

definition dirs_down :: "string \<Rightarrow> string \<Rightarrow> string list" where
  "dirs_down top_dir name = top_dir # map (\<lambda>k. path_join top_dir (join_with ''/'' (take k (path_comps name))))
     [1..<length (path_comps name)]"

definition trusted_files :: "string \<Rightarrow> string list \<Rightarrow> 'w host_scheme \<Rightarrow> unit res" where
  "trusted_files top_dir names s = reraise [OSError] ValueError
     (bindR (safe_dirs [0, huid s] s (top_dir # parents top_dir)) (\<lambda>_.
      mapR (\<lambda>_. ()) (traverse (\<lambda>name. bindR (safe_dirs [huid s] s (dirs_down top_dir name)) (\<lambda>_.
        bindR (h_lstat (path_join top_dir name) s) (\<lambda>n. refuse_if [Inr (tool_unsafe (huid s) n)] (Inr ())))) names)))"

fun hold_tools :: "string \<Rightarrow> (string \<times> json) list \<Rightarrow> ('w acceptor_scheme, unit) prog" where
  "hold_tools top_dir [] = ret ()"
| "hold_tools top_dir ((name, digest) # rest) =
     bindP (gets (\<lambda>s. (huid s, trusted_ids s))) (\<lambda>(own, uids).
     bindP (keep_open (open_from (path_join top_dir name) ''/'' uids
        (any_file\<lparr>e_uid := Some own, e_nlink := Some 1, e_limit := 128 * 2 ^ 20,
           e_sha256 := (if digest = JNull then None else Some (str_val digest))\<rparr>))) (\<lambda>a.
     bindP (lift (file_held a)) (\<lambda>f.
     seqP (raise_when (\<lambda>_. differs (JStr (hf_sha256 f)) digest) RuntimeError) (hold_tools top_dir rest))))"

definition oracle_identity :: "json \<Rightarrow> string \<Rightarrow> string \<Rightarrow> ('w acceptor_scheme, unit) prog" where
  "oracle_identity config support binaries =
     bindP (lift (bindR (getitem config ''support'') items_of)) (\<lambda>sup.
     seqP (\<lambda>s. (trusted_files support (map fst sup) s, s))
     (bindP (lift (bindR (getitem config ''binaries'') items_of)) (\<lambda>bin.
     seqP (\<lambda>s. (trusted_files binaries (map fst bin) s, s))
     (seqP (modify (\<lambda>s. s\<lparr>tree_held := []\<rparr>))
     (closing_after
       (bindP (gets trusted_ids) (\<lambda>uids.
        seqP (bindP (keep_open (on_ground (open_directory support ''/'' uids))) (\<lambda>_. hold_tools support sup))
        (seqP (bindP (keep_open (on_ground (open_directory binaries ''/'' uids))) (\<lambda>_. hold_tools binaries bin))
        (bindP (gets tree_held) recheck_each))))
       tree_held)))))"

end
