(* ===== verification/Oracle_Run.thy ===== *)
theory Oracle_Run
  imports Sealed
begin

text \<open>
  \<open>hat/control.py\<close>, \<open>_acceptance_request\<close> and \<open>oracle\<close>: a request is derived from what the journal authorizes, never
  from the caller; its inputs are held open, copied for the oracle, checked again before and after the run, and the
  result is believed only when it answers exactly that request. \<open>hold_installed\<close> is set by the one caller.
\<close>

section \<open>Helpers\<close>

fun get_in :: "json \<Rightarrow> string list \<Rightarrow> json res" where
  "get_in v [] = Inr v"
| "get_in v (k # ks) = itm v k (\<lambda>x. get_in x ks)"

definition as_text :: "json \<Rightarrow> string res" where
  "as_text v = (case v of JStr t \<Rightarrow> Inr t | _ \<Rightarrow> Inl TypeError)"

text \<open>\<open>v.encode() if isinstance(v, str) else bytes(v)\<close>.\<close>

definition byte_of :: "json \<Rightarrow> char res" where
  "byte_of v = (case v of
     JInt n \<Rightarrow> if 0 \<le> n \<and> n < 256 then Inr (char_of (nat n)) else Inl ValueError
   | JBool b \<Rightarrow> Inr (char_of (if b then 1 else 0 :: nat))
   | _ \<Rightarrow> Inl TypeError)"

definition config_bytes :: "json \<Rightarrow> string res" where
  "config_bytes v = (case v of
     JStr t \<Rightarrow> Inr (utf8 t)
   | JInt n \<Rightarrow> if n < 0 then Inl ValueError else Inr (replicate (nat n) (char_of (0 :: nat)))
   | JBool b \<Rightarrow> Inr (if b then [char_of (0 :: nat)] else [])
   | JArr xs \<Rightarrow> traverse byte_of xs
   | JObj kvs \<Rightarrow> if kvs = [] then Inr [] else Inl TypeError
   | _ \<Rightarrow> Inl TypeError)"

text \<open>The journal a controller command asks, on the files as they are now.\<close>

definition asks_journal :: "(journal, 'a) prog \<Rightarrow> ('w controller_scheme, 'a) prog" where
  "asks_journal m s = (fst (m ((jrn s)\<lparr>files := found s (trace s)\<rparr>)), s)"

definition host_stable_private :: "string \<Rightarrow> 'w host_scheme \<Rightarrow> string res" where
  "host_stable_private path s = bindR (h_lstat path s) (\<lambda>n.
     if h_kind n = SymlinkNode then Inl OSError
     else if h_kind n \<noteq> RegularNode \<or> h_uid n \<noteq> huid s \<or> h_mode n mod 64 \<noteq> 0 \<or> h_nlink n \<noteq> 1 then Inl ValueError
     else Inr (h_bytes n))"

section \<open>At which boundary\<close>

definition reconciliation_of :: "string \<Rightarrow> (string \<times> string) res" where
  "reconciliation_of phase = (if phase = ''reconciled-compare'' then Inr (''reconciliation.json'', ''accept-checked-comparison'')
     else if phase = ''verification-baseline'' then Inr (''verification-reconciliation.json'', ''verification-only'')
     else Inl KeyError)"

definition reconciliation_differs :: "json \<Rightarrow> string \<Rightarrow> string \<Rightarrow> bool res" where
  "reconciliation_differs intent ident action = any_of
     [Inr (\<not> is_obj intent), notR (set_is intent [''operation'', ''action'', ''failure_sha'']),
      item_not intent ''operation'' ident, item_not intent ''action'' action,
      itm intent ''failure_sha'' (\<lambda>x. Inr (\<not> str_and x hex64))]"

definition evidence_path :: "string \<Rightarrow> string \<Rightarrow> 'w controller_scheme \<Rightarrow> string" where
  "evidence_path phase suffix s = path_join (area s) (phase @ suffix)"

definition reconciled_boundary :: "string \<Rightarrow> int \<Rightarrow> ('w controller_scheme, unit) prog" where
  "reconciled_boundary phase position =
     seqP (raise_when (\<lambda>s. Inr (pending (jrn s))) RuntimeError)
     (bindP (gets running_op) (\<lambda>q.
     bindP (asks_journal (boundary (JStr (o_id q)) (nat position) (''A'', ''B''))) (\<lambda>(found_op, _).
     if found_op \<noteq> q then raiseP RuntimeError
     else bindP (lift (reconciliation_of phase)) (\<lambda>(filename, action).
       bindP (\<lambda>s. (host_stable_private (path_join (area s) filename) s, s)) (\<lambda>raw.
       bindP (lift (parse_canonical_json raw)) (\<lambda>intent.
       seqP (raise_when (\<lambda>_. reconciliation_differs intent (o_id q) action) RuntimeError)
       (raise_when (\<lambda>s. Inr (h_there (evidence_path phase ''-acceptance-request.json'' s) s)) RuntimeError)))))))"

definition at_boundary :: "string \<Rightarrow> int \<Rightarrow> bool \<Rightarrow> ('w controller_scheme, unit) prog" where
  "at_boundary phase position reconciled =
     (if reconciled then reconciled_boundary phase position
      else raise_when (\<lambda>s. Inr (\<not> pending (jrn s) \<or> int (nxt (jrn s)) \<noteq> position)) RuntimeError)"

section \<open>The inputs of a request\<close>

definition ORACLE_ROOT :: string where "ORACLE_ROOT = ''/var/lib/hat-oracle''"
definition ORACLE_BIN_ROOT :: string where "ORACLE_BIN_ROOT = ''/opt/hat-oracle/bin''"

definition take_installed ::
  "nat \<Rightarrow> string \<Rightarrow> string list \<Rightarrow> nat \<Rightarrow> nat \<Rightarrow> nat \<Rightarrow> json \<Rightarrow> ('w acceptor_scheme, unit) prog" where
  "take_installed fuel dir names uid gid mode wanted =
     bindP (installed_manifest fuel dir names uid gid mode True) (\<lambda>(v, holds).
     seqP (modify (\<lambda>s. s\<lparr>installed := installed s @ holds\<rparr>))
     (raise_when (\<lambda>_. differs v wanted) ValueError))"

definition hold_source :: "desc_authority \<Rightarrow> ('w acceptor_scheme, unit) prog" where
  "hold_source a = modify (\<lambda>s. s\<lparr>sources := sources s @ [a]\<rparr>)"

text \<open>The wire form of an identity: device, inode, mode, owner, links and bytes.\<close>

definition wire_differs :: "json \<Rightarrow> file_identity \<Rightarrow> bool res" where
  "wire_differs wire i = any_of (map (\<lambda>(k, n). itm wire k (\<lambda>x. differs x (JInt (int n))))
     [(''device'', id_device i), (''inode'', id_inode i), (''mode'', id_mode i), (''uid'', id_uid i),
      (''links'', id_links i), (''bytes'', id_bytes i)])"

definition fresh_source :: "string \<Rightarrow> json \<Rightarrow> json \<Rightarrow> ('w acceptor_scheme, json \<times> file_identity) prog" where
  "fresh_source ledger support binaries =
     bindP (gets fresh_hold) (\<lambda>h. case h of None \<Rightarrow> raiseP ValueError
     | Some (selected, captured) \<Rightarrow>
       bindP (gets (\<lambda>s. (area s, trusted_ids s, own_file s, running_op s))) (\<lambda>(dir, uids, own, q).
       bindP (with_authority (open_from (path_join dir fresh_authority_file) dir uids (own\<lparr>e_limit := 2 ^ 20\<rparr>))
         (\<lambda>sidecar. bindP (lift (file_held sidecar)) (\<lambda>f. lift (parse_canonical_json (hf_raw f))))) (\<lambda>authority.
       seqP (lift (check_authority_value CONTROLLER_ROOT authority (op_json q) ''fresh-writes''))
       (seqP (on_ground (recheck selected))
       (bindP (lift (file_held selected)) (\<lambda>f.
       seqP (hold_source selected)
       (bindP (lift (getitem authority ''ledger'')) (\<lambda>wire.
       seqP (raise_when (\<lambda>_. any_of [differs authority captured, item_not wire ''path'' ledger,
          item_not wire ''sha256'' (hf_sha256 f), wire_differs wire (hf_identity f),
          itm authority ''support'' (\<lambda>x. differs x support), itm authority ''binaries'' (\<lambda>x. differs x binaries)]) ValueError)
       (ret (authority, hf_identity f))))))))))"

definition wire_expected :: "json \<Rightarrow> expected" where
  "wire_expected wire = any_file\<lparr>e_uid := want wire ''uid'' None, e_mode := want wire ''mode'' None,
     e_nlink := want wire ''links'' None, e_size := want wire ''bytes'' None,
     e_sha256 := Some (str_val (fld wire ''sha256''))\<rparr>"

definition protected_source :: "string \<Rightarrow> json \<Rightarrow> json \<Rightarrow> ('w acceptor_scheme, json \<times> file_identity) prog" where
  "protected_source ledger support binaries =
     bindP (\<lambda>s. (committed_preflight_authority True s, s)) (\<lambda>committed. let authority = the committed in
     bindP (lift (getitem authority ''ledger'')) (\<lambda>wire.
     seqP (raise_when (\<lambda>_. any_of [item_not wire ''path'' ledger, itm authority ''support'' (\<lambda>x. differs x support),
        itm authority ''binaries'' (\<lambda>x. differs x binaries)]) ValueError)
     (bindP (gets trusted_ids) (\<lambda>uids.
     bindP (open_from ledger ''/'' uids (wire_expected wire)) (\<lambda>selected.
     seqP (hold_source selected)
     (bindP (lift (file_held selected)) (\<lambda>f.
     seqP (raise_when (\<lambda>_. wire_differs wire (hf_identity f)) ValueError)
     (ret (authority, hf_identity f)))))))))"

definition restore_points :: "json \<Rightarrow> json" where
  "restore_points positions = JObj (map (\<lambda>(db, p). (db, JObj [(''source'', JStr (database_source db)), (''position'', p)]))
     (items_in positions))"

definition request_inputs :: "string \<Rightarrow> json \<Rightarrow> json \<Rightarrow> json \<Rightarrow> json \<Rightarrow> (string \<times> json) list res" where
  "request_inputs config_raw auth positions support binaries =
     bindR (get_in auth [''ledger'', ''sha256'']) (\<lambda>digest. Inr
     [(''replica_config_sha256'', JStr (sha256_hex config_raw)), (''ledger_sha256'', digest), (''ledger_authority'', auth),
      (''restore_points'', restore_points positions), (''support'', support), (''binaries'', binaries)])"

text \<open>For a recovery also what the sealed fault ledger submitted.\<close>

definition fault_inputs :: "string \<Rightarrow> ('w acceptor_scheme, (string \<times> json) list) prog" where
  "fault_inputs fault_ledger =
     bindP (\<lambda>s. (get_or (known s) ''fault_seal'' JNull, s)) (\<lambda>seal.
     if \<not> is_obj seal then raiseP ValueError
     else bindP (lift (get_or seal ''destination'' JNull)) (\<lambda>dest. bindP (lift (get_or seal ''sha256'' JNull)) (\<lambda>digest.
       bindP (gets (\<lambda>s. (parent_dir (area s), running_op s))) (\<lambda>(base_dir, q).
       bindP (open_fault fault_ledger base_dir dest digest) (\<lambda>a.
       seqP (hold_source a)
       (bindP (lift (file_held a)) (\<lambda>f.
       seqP (on_ground (recheck a))
       (bindP (lift (read_ledger (hf_raw f) (o_source_epoch q))) (\<lambda>events.
       seqP (on_ground (recheck a))
       (bindP (lift (fault_operations (JArr events))) (\<lambda>operations.
       bindP (lift (canonical_json (JArr (map JStr operations)))) (\<lambda>listed.
       ret [(''fault_ledger_sha256'', JStr (hf_sha256 f)), (''fault_operations'', JArr (map JStr operations)),
         (''fault_operation_count'', JInt (int (length operations))),
         (''fault_operations_sha256'', JStr (sha256_hex listed))]))))))))))))"

definition request_value ::
  "operation \<Rightarrow> string \<Rightarrow> json \<Rightarrow> json \<Rightarrow> string \<Rightarrow> (string \<times> json) list \<Rightarrow> json" where
  "request_value q phase epoch positions profile inputs = JObj
     [(''schema'', JStr ACCEPTANCE_SCHEMA), (''operation'', JStr (o_id q)), (''phase'', JStr phase), (''source'', JStr (o_source q)),
      (''target'', JStr (o_target q)), (''epoch'', epoch), (''positions'', positions), (''profile'', JStr profile),
      (''inputs'', JObj inputs)]"

section \<open>The request\<close>

definition gather_request ::
  "nat \<Rightarrow> string \<Rightarrow> json \<Rightarrow> json \<Rightarrow> string \<Rightarrow> string option \<Rightarrow> string \<times> json \<Rightarrow> json \<times> json \<Rightarrow> nat \<Rightarrow>
    ('w acceptor_scheme, json \<times> string \<times> file_identity) prog" where
  "gather_request fuel phase replica positions ledger fault_ledger pe manifests gid =
     (let (profile, epoch) = pe; (support, binaries) = manifests in
     seqP (take_installed fuel (path_join ORACLE_ROOT ''support'') support_keys 0 gid 416 support)
     (seqP (take_installed fuel ORACLE_BIN_ROOT [''trail'', ''litestream''] 0 0 493 binaries)
     (bindP (if profile = ''fresh-writes'' then fresh_source ledger support binaries
             else protected_source ledger support binaries) (\<lambda>(auth, identity).
     bindP (lift (config_bytes replica)) (\<lambda>config_raw.
     bindP (lift (request_inputs config_raw auth positions support binaries)) (\<lambda>inputs.
     bindP (if profile = ''recovery-comparison'' then fault_inputs (the fault_ledger) else ret []) (\<lambda>more.
     bindP (gets running_op) (\<lambda>q.
     let request = request_value q phase epoch positions profile (inputs @ more) in
     bindP (lift (validate_acceptance_request CONTROLLER_ROOT request (op_json q))) (\<lambda>validated.
     bindP (lift (canonical_json request)) (\<lambda>raw.
     ret (validated, raw, identity)))))))))))"

definition drop_request :: "string \<Rightarrow> exn \<Rightarrow> ('w acceptor_scheme, 'a) prog" where
  "drop_request profile e =
     bindP (gets (\<lambda>s. installed s @ sources s)) (\<lambda>as.
     seqP (on_ground (close_all True as))
     (seqP (modify (\<lambda>s. s\<lparr>installed := [], sources := []\<rparr>))
     (seqP (if profile = ''fresh-writes'' then close_fresh_writes else ret ()) (raiseP e))))"

definition acceptance_request ::
  "nat \<Rightarrow> string \<Rightarrow> json \<Rightarrow> json \<Rightarrow> string \<Rightarrow> string option \<Rightarrow> json option \<Rightarrow>
    ('w acceptor_scheme, json \<times> string \<times> file_identity) prog" where
  "acceptance_request fuel phase replica positions ledger fault_ledger evidence =
     seqP (raise_when (\<lambda>s. case evidence of None \<Rightarrow> Inr False | Some v \<Rightarrow> differs v (op_json (running_op s))) ValueError)
     (bindP (\<lambda>s. (derive_restore_profile (op_json (running_op s)) (JStr phase) (fault_ledger \<noteq> None), s))
       (\<lambda>(profile, epoch, position, reconciled).
     seqP (at_boundary phase position reconciled)
     (seqP (raise_when (\<lambda>s. Inr (h_there (evidence_path phase ''-acceptance-result.json'' s) s)) RuntimeError)
     (seqP (raise_when (\<lambda>_. any_of [Inr (\<not> is_obj positions), notR (set_is positions DBS)]) ValueError)
     (seqP (raise_when (\<lambda>_. Inr (path_name ledger \<noteq> (if profile = ''fresh-writes'' then ''new-writes.jsonl'' else ''ledger.jsonl''))) ValueError)
     (bindP (hcall ''getpwnam'' (JStr ''hat-oracle'')) (\<lambda>account.
     bindP (\<lambda>s. (authorized_manifests s, s)) (\<lambda>manifests.
     seqP (modify (\<lambda>s. s\<lparr>installed := [], sources := []\<rparr>))
     (on_exn (gather_request fuel phase replica positions ledger fault_ledger (profile, epoch) manifests (snd (account_of account)))
       (drop_request profile))))))))))"

section \<open>The run\<close>

text \<open>The operation's evidence is written, opened again and held.\<close>

definition hold_operation :: "string \<Rightarrow> ('w acceptor_scheme, json) prog" where
  "hold_operation phase =
     bindP (gets (\<lambda>s. (area s, trusted_ids s, own_file s, running_op s))) (\<lambda>(dir, uids, own, q).
     let path = path_join dir (phase @ ''-operation-evidence.json'') in
     bindP (lift (canonical_json (op_json q))) (\<lambda>raw.
     seqP (durable_bytes path raw ''operation-evidence'' 384 None None)
     (bindP (open_from path dir uids (own\<lparr>e_size := Some (length raw), e_sha256 := Some (sha256_hex raw), e_limit := 2 ^ 20\<rparr>)) (\<lambda>a.
     bindP (lift (bindR (file_held a) (\<lambda>f. parse_canonical_json (hf_raw f)))) (\<lambda>v.
     if \<not> py_eq v (op_json q) then seqP (on_ground (close_all False [a])) (raiseP ValueError)
     else seqP (modify (\<lambda>s. s\<lparr>inputs_held := [a], installed := [], sources := []\<rparr>)) (ret v))))))"

definition profile_of :: "json \<Rightarrow> json res" where
  "profile_of request = getitem request ''profile''"

definition request_mismatch :: "json \<Rightarrow> string \<Rightarrow> json \<Rightarrow> string \<Rightarrow> json \<Rightarrow> bool \<Rightarrow> unit res" where
  "request_mismatch request phase positions selected config has_fault =
     refuse_if [item_not request ''phase'' phase, itm request ''positions'' (\<lambda>x. differs x positions)]
     (refuse_if [itm request ''profile'' (\<lambda>p. Inr ((p = JStr ''recovery-comparison'') \<noteq> has_fault))]
     (bindR (config_bytes config) (\<lambda>raw.
      refuse_if [bindR (get_in request [''inputs'', ''replica_config_sha256'']) (\<lambda>x. differs (JStr (sha256_hex raw)) x)]
      (bindR (get_in request [''inputs'', ''ledger_authority'', ''ledger'', ''path'']) (\<lambda>p.
       bindR (as_text p) (\<lambda>path.
       refuse_if [Inr (path \<noteq> selected), Inr (\<not> is_absolute path)] (Inr ())))))))"

definition held_at :: "string \<Rightarrow> desc_authority list \<Rightarrow> desc_authority option" where
  "held_at path as = find (\<lambda>a. da_path a = path_comps path) as"

definition check_selected :: "json \<Rightarrow> string \<Rightarrow> ('w acceptor_scheme, unit) prog" where
  "check_selected request path =
     bindP (gets sources) (\<lambda>as.
     seqP (recheck_each as)
     (case held_at path as of None \<Rightarrow> raiseP ValueError
      | Some a \<Rightarrow> seqP (on_ground (recheck a))
          (bindP (lift (profile_of request)) (\<lambda>p.
           if p = JStr ''fresh-writes'' then ret ()
           else bindP (lift (file_held a)) (\<lambda>f. bindP (lift (protected_ledger (hf_raw f))) (\<lambda>_. ret ()))))))"

definition run_prefix :: "operation \<Rightarrow> string" where
  "run_prefix q = (if (o_source q, o_target q) = (''A'', ''B'') then ''d2'' else ''d3'')"

definition run_name :: "operation \<Rightarrow> string \<Rightarrow> string" where
  "run_name q phase = run_prefix q @ ''-'' @ o_id q @ ''-'' @ phase"

text \<open>The directory of the run: its inputs are root's, its output the oracle's.\<close>

definition lay_out :: "string \<Rightarrow> string \<Rightarrow> nat \<Rightarrow> nat \<Rightarrow> ('w acceptor_scheme, unit) prog" where
  "lay_out dir config_raw uid gid =
     seqP (oracle_directory dir)
     (seqP (fsync_dir ''oracle-root.dir'' ORACLE_ROOT)
     (seqP (chown dir 0 gid)
     (seqP (mkdir (path_join dir ''work'') 448)
     (seqP (chown (path_join dir ''work'') uid gid)
     (seqP (fsync_dir ''oracle-area.dir'' dir)
     (seqP (durable_bytes (path_join dir ''replica.yml'') config_raw ''oracle-replica-config'' 416 (Some 0) (Some gid))
     (reopen_exact_bytes (path_join dir ''replica.yml'') config_raw (Some 416) (Some 0) (Some gid))))))))"

definition copy_fault :: "string \<Rightarrow> json \<Rightarrow> string \<Rightarrow> nat \<Rightarrow> nat \<Rightarrow> ('w acceptor_scheme, desc_authority) prog" where
  "copy_fault dir request fault_ledger uid gid =
     bindP (\<lambda>s. (get_or (known s) ''fault_seal'' JNull, s)) (\<lambda>seal.
     if \<not> is_obj seal then raiseP ValueError
     else bindP (gets (\<lambda>s. held_at fault_ledger (sources s))) (\<lambda>h. case h of None \<Rightarrow> raiseP ValueError
       | Some a \<Rightarrow>
         seqP (on_ground (recheck a))
         (bindP (lift (file_held a)) (\<lambda>f.
          bindP (lift (bindR (get_in request [''inputs'', ''fault_ledger_sha256'']) as_text)) (\<lambda>digest.
          bindP (copy_bound fault_ledger (path_join dir ''fault-ledger.jsonl'') 384 uid gid digest (Some (hf_identity f))) (\<lambda>_.
          ret a))))))"

definition run_argv :: "string \<Rightarrow> string \<Rightarrow> bool \<Rightarrow> string list" where
  "run_argv dir name has_fault =
     [''systemd-run'', ''--unit=hat-'' @ name, ''--wait'', ''--collect'', ''--pipe'',
      ''--property=User=hat-oracle'', ''--property=EnvironmentFile=/etc/hat-oracle/backup.env'',
      ''--property=NoNewPrivileges=yes'', ''--property=RuntimeMaxSec=240'', ''--property=KillMode=control-group'',
      ''python3'', ''/opt/hat-oracle/restore_baseline.py'', ''--root'', path_join dir ''work'',
      ''--acceptance-request'', path_join dir ''acceptance-request.json'', ''-O'', path_join dir ''operation-evidence.json'',
      ''--config'', path_join dir ''replica.yml'',
      ''--ledger'', path_join dir ''ledger.jsonl'', ''--support'', path_join ORACLE_ROOT ''support'',
      ''--binaries'', ORACLE_BIN_ROOT, ''--result'', path_join (path_join dir ''work'') ''result.json'']
     @ (if has_fault then [''--fault-ledger'', path_join dir ''fault-ledger.jsonl''] else [])"

definition run_inputs :: "string \<Rightarrow> nat \<Rightarrow> nat \<Rightarrow> bool \<Rightarrow> input_file list" where
  "run_inputs dir uid gid has_fault =
     [(path_join dir ''ledger.jsonl'', uid, gid, 384, 4 * 2 ^ 20), (path_join dir ''replica.yml'', 0, gid, 416, 2 ^ 20),
      (path_join dir ''acceptance-request.json'', 0, gid, 416, 2 ^ 20),
      (path_join dir ''operation-evidence.json'', 0, gid, 416, 2 ^ 20)]
     @ (if has_fault then [(path_join dir ''fault-ledger.jsonl'', uid, gid, 384, 4 * 2 ^ 20)] else [])"

definition recheck_sources :: "('w acceptor_scheme, unit) prog" where
  "recheck_sources = bindP (gets sources) recheck_each"

definition recheck_all :: "json \<Rightarrow> ('w acceptor_scheme, unit) prog" where
  "recheck_all request =
     bindP (lift (bindR (get_in request [''inputs'', ''support'']) items_of)) (\<lambda>sup.
     bindP (lift (bindR (get_in request [''inputs'', ''binaries'']) items_of)) (\<lambda>bin.
     bindP (gets installed) (\<lambda>as.
     seqP (recheck_installed_manifest (path_join ORACLE_ROOT ''support'') (map fst sup) as)
     (recheck_installed_manifest ORACLE_BIN_ROOT (map fst bin) as))))"

definition recheck_held_inputs :: "('w acceptor_scheme, unit) prog" where
  "recheck_held_inputs = bindP (gets (\<lambda>s. inputs_held s @ sources s)) recheck_each"

text \<open>The oracle's answer: read by descriptor, parsed against the request, compared with the fault ledger the
  controller holds, and retained.\<close>

definition take_result ::
  "string \<Rightarrow> string \<Rightarrow> json \<Rightarrow> desc_authority option \<Rightarrow> nat \<Rightarrow> nat \<Rightarrow> ('w acceptor_scheme, json) prog" where
  "take_result result phase request held_fault uid gid =
     with_authority (open_from result ''/'' [0, uid] (any_file\<lparr>e_uid := Some uid, e_gid := Some gid, e_mode := Some 384,
         e_nlink := Some 1\<rparr>)) (\<lambda>a.
       bindP (lift (file_held a)) (\<lambda>f.
       bindP (gets running_op) (\<lambda>q.
       bindP (lift (profile_of request)) (\<lambda>p.
       bindP (case held_fault of Some fa \<Rightarrow> if p = JStr ''recovery-comparison''
           then seqP (on_ground (recheck fa)) (bindP (lift (bindR (file_held fa) (\<lambda>g. read_ledger (hf_raw g) (o_source_epoch q))))
             (\<lambda>events. seqP (on_ground (recheck fa)) (ret (Some events)))) else ret None
         | None \<Rightarrow> ret None) (\<lambda>events.
       bindP (lift (parse_acceptance_result (hf_raw f) request (op_json q))) (\<lambda>v.
       seqP (case events of None \<Rightarrow> ret () | Some es \<Rightarrow>
          lift (bindR (get_in v [''checks'', ''fault_outcomes'']) (\<lambda>o'. mapR (\<lambda>_. ()) (validate_fault_outcomes o' (JArr es)))))
       (bindP (gets (evidence_path phase ''-acceptance-result.json'')) (\<lambda>retained.
       bindP (copy_bound result retained 384 uid gid (hf_sha256 f) None) (\<lambda>_.
       seqP (on_ground (recheck a)) (seqP (on_ground (recheck a)) (ret v)))))))))))"

definition oracle_body ::
  "nat \<Rightarrow> string \<Rightarrow> json \<Rightarrow> json \<Rightarrow> string \<Rightarrow> string option \<Rightarrow> json \<Rightarrow> ('w acceptor_scheme, json) prog" where
  "oracle_body fuel phase replica positions selected fault_ledger evidence =
     bindP (acceptance_request fuel phase replica positions selected fault_ledger (Some evidence)) (\<lambda>(request, request_raw, identity).
     bindP (gets (\<lambda>s. (evidence_path phase ''-acceptance-request.json'' s, area s, running_op s))) (\<lambda>(request_path, work_dir, q).
     seqP (durable_bytes request_path request_raw ''acceptance-request'' 384 None None)
     (seqP (lift (request_mismatch request phase positions selected replica (fault_ledger \<noteq> None)))
     (seqP (check_selected request selected)
     (bindP (hcall ''getpwnam'' (JStr ''hat-oracle'')) (\<lambda>account.
     bindP (lift (config_bytes replica)) (\<lambda>config_raw.
     let (uid, gid) = account_of account; dir = path_join ORACLE_ROOT (run_name q phase); has_fault = (fault_ledger \<noteq> None) in
     seqP (lay_out dir config_raw uid gid)
     (bindP (lift (bindR (get_in request [''inputs'', ''ledger_authority'', ''ledger'', ''sha256'']) as_text)) (\<lambda>ledger_sha.
     bindP (copy_bound selected (path_join dir ''ledger.jsonl'') 384 uid gid ledger_sha (Some identity)) (\<lambda>_.
     bindP (case fault_ledger of None \<Rightarrow> ret None | Some p \<Rightarrow> bindP (copy_fault dir request p uid gid) (\<lambda>a. ret (Some a))) (\<lambda>held_fault.
     bindP (copy_bound request_path (path_join dir ''acceptance-request.json'') 416 0 gid (sha256_hex request_raw) None) (\<lambda>_.
     seqP (fsync_dir ''oracle-output.dir'' (path_join dir ''work''))
     (seqP (fsync_dir ''acceptance-work.dir'' work_dir)
     (bindP (lift (canonical_json (op_json q))) (\<lambda>op_raw.
     seqP (durable_bytes (path_join dir ''operation-evidence.json'') op_raw ''oracle-operation-evidence'' 416 (Some 0) (Some gid))
     (bindP (gets trusted_ids) (\<lambda>uids.
     bindP (open_held_inputs (uids @ [uid]) [] (run_inputs dir uid gid has_fault)) (\<lambda>more.
     seqP (modify (\<lambda>s. s\<lparr>inputs_held := inputs_held s @ more\<rparr>))
     (seqP recheck_sources
     (bindP (control_command (run_argv dir (run_name q phase) has_fault) JNull 270) (\<lambda>_.
     seqP recheck_sources
     (seqP (recheck_all request)
     (seqP recheck_held_inputs
     (bindP (take_result (path_join (path_join dir ''work'') ''result.json'') phase request held_fault uid gid) (\<lambda>v.
     seqP recheck_held_inputs (seqP (recheck_all request) (ret v)))))))))))))))))))))))))))"

definition run_oracle ::
  "nat \<Rightarrow> string \<Rightarrow> json \<Rightarrow> json \<Rightarrow> string \<Rightarrow> string option \<Rightarrow> ('w acceptor_scheme, json) prog" where
  "run_oracle fuel phase replica positions selected fault_ledger =
     seqP held_authority
     (seqP (raise_when (\<lambda>s. Inr (h_there (evidence_path phase ''-acceptance-result.json'' s) s)) RuntimeError)
     (bindP (hold_operation phase) (\<lambda>evidence.
     closing_after (ensuring (oracle_body fuel phase replica positions selected fault_ledger evidence)
         (modify (\<lambda>s. s\<lparr>fresh_hold := None\<rparr>)))
       (\<lambda>s. installed s @ inputs_held s @ sources s))))"

section \<open>The baseline checked again\<close>

definition set_phase :: "json \<Rightarrow> string \<Rightarrow> json res" where
  "set_phase request phase = (case request of
     JObj kvs \<Rightarrow> Inr (JObj (dict_set kvs ''phase'' (JStr phase)))
   | JArr _ \<Rightarrow> Inl ValueError | JStr _ \<Rightarrow> Inl ValueError | _ \<Rightarrow> Inl TypeError)"

definition validate_verification_baseline_recheck :: "json \<Rightarrow> json \<Rightarrow> json \<Rightarrow> unit res" where
  "validate_verification_baseline_recheck prev actual operation = reraise [KeyError, TypeError, ValueError] RuntimeError
     (itm prev ''request'' (\<lambda>request. bindR (set_phase request ''verification-baseline'') (\<lambda>wanted.
      bindR (validate_acceptance_request CONTROLLER_ROOT wanted operation) (\<lambda>_.
      raise_if (any_of [itm actual ''request'' (\<lambda>x. differs x wanted),
        itm actual ''signature'' (\<lambda>x. itm prev ''signature'' (\<lambda>y. differs x y))]) RuntimeError (Inr ())))))"

end
