(* ===== verification/Steady.thy ===== *)
theory Steady
  imports Oracle_Run
begin

text \<open>
  What the controller's commands leave alone. A locale names the updates the commands make of the world they share; a
  predicate on that world which those updates keep is kept by every command, whether it returns or raises. The predicate
  may look at the processes that were started: \<open>ok\<close> says which command lines keep it, and all but those of the fence
  tool must.
\<close>

section \<open>Updates\<close>

definition FENCE_TOOL :: string where "FENCE_TOOL = ''/root/.config/hat/m1-fence-linode''"

definition other_tool :: "string list \<Rightarrow> bool" where
  "other_tool argv \<longleftrightarrow> (case argv of [] \<Rightarrow> True | a # as \<Rightarrow> a \<noteq> FENCE_TOOL)"

locale steady =
  fixes I :: "acceptor \<Rightarrow> bool" and ok :: "string list \<Rightarrow> bool"
  assumes call: "I s \<Longrightarrow> name \<noteq> ''spawn'' \<Longrightarrow> I (s\<lparr>trace := trace s @ [(name, x)], fs := f\<rparr>)"
    and spawned: "I s \<Longrightarrow> ok argv \<Longrightarrow> I (s\<lparr>trace := trace s @ [(''spawn'', JArr (map JStr argv))], fs := f\<rparr>)"
    and harmless: "other_tool argv \<Longrightarrow> ok argv"
    and made: "I s \<Longrightarrow> I (s\<lparr>fs := f, fresh := n\<rparr>)"
    and files_of: "I s \<Longrightarrow> I (s\<lparr>fs := f\<rparr>)"
    and learns: "I s \<Longrightarrow> I (s\<lparr>known := v\<rparr>)"
    and grounded: "I s \<Longrightarrow> I (s\<lparr>ground := d\<rparr>)"
    and tree: "I s \<Longrightarrow> I (s\<lparr>tree_held := as\<rparr>)"
    and lists: "I s \<Longrightarrow> I (s\<lparr>installed := as, sources := bs\<rparr>)"
    and inputs: "I s \<Longrightarrow> I (s\<lparr>inputs_held := as\<rparr>)"
    and installs: "I s \<Longrightarrow> I (s\<lparr>installed := as\<rparr>)"
    and sourced: "I s \<Longrightarrow> I (s\<lparr>sources := as\<rparr>)"
    and begun: "I s \<Longrightarrow> I (s\<lparr>inputs_held := as, installed := bs, sources := cs\<rparr>)"
    and dropped: "I s \<Longrightarrow> I (s\<lparr>fresh_hold := None\<rparr>)"
begin

lemma keeps_hcall: "name \<noteq> ''spawn'' \<Longrightarrow> keeps I (hcall name arg)"
  by (simp add: keeps_def hcall_def call)

lemma keeps_asked: "keeps I (\<lambda>s. (f s, s))"
  by (simp add: keeps_def)

lemma keeps_ground: "keeps I (on_ground m)"
  by (simp add: keeps_def on_ground_def grounded split: prod.split)

lemma keeps_held: "keeps I held_authority"
  by (simp add: keeps_def held_authority_def)

lemma keeps_fs: "keeps I (modify (\<lambda>s. s\<lparr>fs := g s\<rparr>))"
  by (simp add: keeps_def modify_def files_of)

lemma keeps_create: "keeps I (create k p mode bytes)"
  by (simp add: keeps_def create_def modify_def made)

lemma keeps_tree: "keeps I (modify (\<lambda>s. s\<lparr>tree_held := g s\<rparr>))"
  by (simp add: keeps_def modify_def tree)

lemma keeps_lists: "keeps I (modify (\<lambda>s. s\<lparr>installed := g s, sources := h s\<rparr>))"
  by (simp add: keeps_def modify_def lists)

lemma keeps_installed: "keeps I (modify (\<lambda>s. s\<lparr>installed := g s\<rparr>))"
  by (simp add: keeps_def modify_def installs)

lemma keeps_sources: "keeps I (modify (\<lambda>s. s\<lparr>sources := g s\<rparr>))"
  by (simp add: keeps_def modify_def sourced)

lemma keeps_inputs: "keeps I (modify (\<lambda>s. s\<lparr>inputs_held := g s\<rparr>))"
  by (simp add: keeps_def modify_def inputs)

lemma keeps_begun: "keeps I (modify (\<lambda>s. s\<lparr>inputs_held := f s, installed := g s, sources := h s\<rparr>))"
  by (simp add: keeps_def modify_def begun)

lemma keeps_dropped: "keeps I (modify (\<lambda>s. s\<lparr>fresh_hold := None\<rparr>))"
  by (simp add: keeps_def modify_def dropped)

lemma keeps_learn: "keeps I (learn key v)"
  by (simp add: keeps_def learn_def modify_def learns)

lemmas steady_rules = keeps_intros keeps_hcall keeps_asked keeps_ground keeps_held keeps_fs keeps_create keeps_tree
  keeps_lists keeps_installed keeps_sources keeps_inputs keeps_begun keeps_dropped keeps_learn

section \<open>Commands\<close>

lemma keeps_files:
  "keeps I (create_new k p mode bytes)" "keeps I (mkdir p mode)" "keeps I (rename a b)" "keeps I (unlink p)"
  "keeps I (chown p u g)" "keeps I (set_bytes p raw)" "keeps I (change p c)"
  "keeps I monotonic" "keeps I (sleep d)"
  unfolding create_new_def mkdir_def rename_def unlink_def chown_def does_def set_bytes_def change_def missing_def
    monotonic_def sleep_def
  by (auto intro!: steady_rules)

lemma keeps_does: "name \<noteq> ''spawn'' \<Longrightarrow> keeps I (does name x)"
  unfolding does_def by (auto intro!: steady_rules)

lemma keeps_spawned: "ok argv \<Longrightarrow> keeps I (does ''spawn'' (JArr (map JStr argv)))"
  by (simp add: keeps_def does_def bindP_def hcall_def ret_def spawned split: sum.split)

lemma keeps_copy2: "keeps I (copy2 a b)"
  unfolding copy2_def by (auto intro!: steady_rules) (simp add: keeps_def modify_def made Let_def)

lemma keeps_atomic: "keeps I (atomic_json p v mode)"
  unfolding atomic_json_def replace_file_def by (auto intro!: steady_rules keeps_files keeps_does)

lemma keeps_fsync: "keeps I (fsync_at lab p)" "keeps I (fsync_dir lab p)"
  unfolding fsync_dir_def fsync_at_def by (auto intro!: steady_rules keeps_files keeps_does)

lemma keeps_durable_json: "keeps I (durable_json p v lab)"
  unfolding durable_json_def by (auto intro!: steady_rules keeps_files keeps_does keeps_fsync)

lemma keeps_write_rest: "keeps I (write_rest p w v)"
proof (induction p w v rule: write_rest.induct)
  case (1 path written view)
  show ?case unfolding write_rest.simps [of path written view] Let_def
    by (auto intro!: steady_rules keeps_files "1.IH")
qed

lemma keeps_durable_bytes: "keeps I (durable_bytes p raw lab mode u g)"
  unfolding durable_bytes_def by (auto intro!: steady_rules keeps_files keeps_does keeps_fsync keeps_write_rest)

lemma keeps_stop: "keeps I stop_command" "keeps I (timeout_cleanup argv)"
  unfolding timeout_cleanup_def stop_systemd_unit_def stop_command_def named_def command_def
  by (auto intro!: steady_rules keeps_files keeps_does)

lemma keeps_outcome: "keeps I (record_command_outcome p v b)"
  unfolding record_command_outcome_def by (auto intro!: steady_rules keeps_durable_json)

lemma keeps_process: "ok argv \<Longrightarrow> keeps I (run_process prefix argv input seconds)"
  unfolding run_process_def spawn_def started_def communicate_def communication_failed_def last_stop_def
    record_cleanup_uncertain_def
  by (auto intro!: steady_rules keeps_files keeps_does keeps_spawned keeps_stop keeps_outcome keeps_durable_json)

lemma keeps_command: "ok argv \<Longrightarrow> keeps I (control_command argv input seconds)"
  unfolding control_command_def result_of_def
  by (auto intro!: steady_rules keeps_files keeps_does keeps_process keeps_outcome keeps_durable_json)

lemma keeps_other: "a \<noteq> FENCE_TOOL \<Longrightarrow> keeps I (control_command (a # as) input seconds)"
  by (rule keeps_command, rule harmless) (simp add: other_tool_def)

lemmas keeps_tool = keeps_other [unfolded FENCE_TOOL_def]

lemma keeps_then_read: "(\<And>s x. f s = Inr x \<Longrightarrow> keeps I (k x)) \<Longrightarrow> keeps I (bindP (\<lambda>s. (f s, s)) k)"
  by (auto simp: keeps_def bindP_def split: sum.split)

lemma keeps_remote: "keeps I (remote who action payload seconds)"
proof -
  have "keeps I (control_command argv (JStr data) seconds)" if "remote_request who action payload s = Inr (argv, data)" for s :: acceptor and argv data
  proof -
    have "\<exists>as. argv = ''ssh'' # as"
      using that by (auto simp: remote_request_def res_simps split: json.split_asm) (metis json.exhaust)
    then show ?thesis by (auto intro: keeps_tool)
  qed
  then show ?thesis unfolding remote_def
    by (intro keeps_then_read) (auto intro!: steady_rules)
qed

lemma keeps_still_reachable: "keeps I (still_reachable n address)"
  by (induction n address rule: still_reachable.induct) (auto intro!: steady_rules keeps_files keeps_does)

lemma keeps_fence:
  assumes "\<And>path. ok [''/root/.config/hat/m1-fence-linode'', action, path]"
  shows "keeps I (fence moment resolve action expected who)"
  unfolding fence_def fence_target_def now_of_def
  by (auto intro!: steady_rules keeps_command keeps_still_reachable assms)

lemma keeps_close_ingress: "keeps I close_ingress"
  unfolding close_ingress_def by (auto intro!: steady_rules keeps_tool keeps_atomic)

lemma keeps_start_ingress: "keeps I (start_ingress digest)"
  unfolding start_ingress_def host_process_identity_def boot_id_def
  by (auto intro!: steady_rules keeps_tool keeps_atomic)

lemma keeps_poll: "keeps I (poll_reachable n address deadline)"
  by (induction n address deadline rule: poll_reachable.induct) (auto intro!: steady_rules keeps_files keeps_does)

lemma keeps_wait: "keeps I (wait_reachable fuel who timeout)"
  unfolding wait_reachable_def by (auto intro!: steady_rules keeps_files keeps_poll)

lemma keeps_producer: "keeps I (producer_stopped u c)"
  unfolding producer_stopped_def by (auto intro!: steady_rules keeps_tool)

lemma keeps_plan_cuts: "keeps I (plan_cuts moment ident output config low dbs)"
  by (induction dbs) (auto simp: Let_def plan_argv_def intro!: steady_rules keeps_tool keeps_durable_json)

lemma keeps_select_cut: "keeps I (select_cut moment replica low)"
  unfolding select_cut_def oracle_directory_def Let_def
  by (auto intro!: steady_rules keeps_files keeps_does keeps_plan_cuts)

section \<open>The oracle\<close>

lemma keeps_closing_after: "keeps I m \<Longrightarrow> keeps I (closing_after m as)"
  unfolding closing_after_def by (auto intro!: steady_rules)

lemma keeps_with_authority: "keeps I m \<Longrightarrow> (\<And>a. keeps I (body a)) \<Longrightarrow> keeps I (with_authority m body)"
  unfolding with_authority_def by (auto intro!: steady_rules keeps_closing_after)

lemma keeps_open: "keeps I (open_from p d uids e)"
  unfolding open_from_def by (rule keeps_ground)

lemma keeps_copy_bound: "keeps I (copy_bound src dest mode uid gid digest i)"
  unfolding copy_bound_def appears_def by (auto intro!: steady_rules keeps_files keeps_with_authority keeps_open)

lemma keeps_open_held: "keeps I (open_held_inputs uids held xs)"
  by (induction uids held xs rule: open_held_inputs.induct) (auto intro!: steady_rules keeps_open)

lemma keeps_recheck_each: "keeps I (recheck_each as)"
  by (induction as rule: recheck_each.induct) (simp_all add: steady_rules)

lemma keeps_listdir: "keeps I (listdir fd)"
  unfolding listdir_def by (auto intro!: steady_rules)

lemma keeps_walk_entries: "keeps I (walk_entries d uids names prefix w es)"
  by (induction d uids names prefix w es rule: walk_entries.induct) (auto simp: Let_def intro!: steady_rules)

lemma keeps_walk_tree: "keeps I (walk_tree n d uids names w)"
  by (induction n d uids names w rule: walk_tree.induct)
    (auto intro!: steady_rules keeps_listdir keeps_walk_entries split: list.split)

lemma keeps_digest_files: "keeps I (digest_files d uids u g mode names)"
  by (induction d uids u g mode names rule: digest_files.induct) (auto intro!: steady_rules keeps_open)

lemma keeps_installed_manifest: "keeps I (installed_manifest fuel d names u g mode h)"
  unfolding installed_manifest_def manifest_body_def
  by (auto intro!: steady_rules keeps_closing_after keeps_walk_tree keeps_digest_files)

lemma keeps_list_again: "keeps I (list_again names ds)"
  by (induction names ds rule: list_again.induct) (auto intro!: steady_rules keeps_listdir)

lemma keeps_recheck_tree: "keeps I (recheck_tree d as ds)"
  by (induction d as ds rule: recheck_tree.induct) (auto intro!: steady_rules)

lemma keeps_recheck_installed: "keeps I (recheck_installed_manifest d names as)"
  unfolding recheck_installed_manifest_def by (auto intro!: steady_rules keeps_recheck_tree keeps_list_again)

lemma keeps_check_private_dirs: "keeps I (check_private_dirs ds)"
  by (induction ds rule: check_private_dirs.induct) (auto intro!: steady_rules)

lemma keeps_open_fault: "keeps I (open_fault p d i digest)"
  unfolding open_fault_def by (auto intro!: steady_rules keeps_open keeps_check_private_dirs)

lemma keeps_close_fresh: "keeps I close_fresh_writes"
  unfolding close_fresh_writes_def by (auto intro!: steady_rules)

lemma keeps_asks: "keeps I (asks_journal m)"
  by (simp add: keeps_def asks_journal_def)

lemma keeps_at_boundary: "keeps I (at_boundary phase position reconciled)"
  unfolding at_boundary_def reconciled_boundary_def by (auto intro!: steady_rules keeps_asks)

lemma keeps_fresh_source: "keeps I (fresh_source l x y)"
  unfolding fresh_source_def hold_source_def by (auto intro!: steady_rules keeps_open keeps_with_authority)

lemma keeps_protected_source: "keeps I (protected_source l x y)"
  unfolding protected_source_def hold_source_def Let_def by (auto intro!: steady_rules keeps_open)

lemma keeps_fault_inputs: "keeps I (fault_inputs p)"
  unfolding fault_inputs_def hold_source_def by (auto intro!: steady_rules keeps_open_fault)

lemma keeps_gather: "keeps I (gather_request fuel phase r ps l f pe ms gid)"
  unfolding gather_request_def take_installed_def
  by (auto intro!: steady_rules keeps_installed_manifest keeps_fresh_source keeps_protected_source keeps_fault_inputs)

lemma keeps_request: "keeps I (acceptance_request fuel phase r ps l f e)"
  unfolding acceptance_request_def drop_request_def
  by (auto intro!: steady_rules keeps_at_boundary keeps_gather keeps_close_fresh)

lemma keeps_run_parts:
  "keeps I (hold_operation phase)" "keeps I (check_selected request p)" "keeps I (lay_out d c u g)"
  "keeps I (copy_fault d request p u g)" "keeps I (reopen_exact_bytes p e x y z)"
  unfolding hold_operation_def check_selected_def lay_out_def copy_fault_def reopen_exact_bytes_def oracle_directory_def Let_def
  by (auto intro!: steady_rules keeps_durable_bytes keeps_open keeps_recheck_each keeps_files keeps_does keeps_fsync keeps_copy_bound)

lemma keeps_rechecks: "keeps I recheck_sources" "keeps I recheck_held_inputs" "keeps I (recheck_all request)"
  unfolding recheck_sources_def recheck_held_inputs_def recheck_all_def
  by (auto intro!: steady_rules keeps_recheck_each keeps_recheck_installed)

lemma keeps_take_result: "keeps I (take_result result phase request held_fault u g)"
  unfolding take_result_def by (auto intro!: steady_rules keeps_with_authority keeps_open keeps_copy_bound)

lemma keeps_oracle_body: "keeps I (oracle_body fuel phase r ps l f e)"
  unfolding oracle_body_def Let_def run_argv_def
  by (auto intro!: steady_rules keeps_request keeps_durable_bytes keeps_run_parts keeps_copy_bound keeps_fsync keeps_open_held
    keeps_rechecks keeps_tool keeps_take_result)

lemma keeps_run_oracle: "keeps I (run_oracle fuel phase r ps l f)"
  unfolding run_oracle_def by (auto intro!: steady_rules keeps_closing_after keeps_run_parts keeps_oracle_body)

end

end
