(* ===== verification/Switchover.thy ===== *)
theory Switchover
  imports Oracle_Run Authority Opening
begin

text \<open>
  \<open>hat/control.py\<close>, \<open>switchover\<close>: the planned move of the writer from A to B. The driver holds the journal, the
  controller's commands (\<open>io\<close>) and the machine on which a restarted controller looks (\<open>watch\<close>); its ten actions run
  as the steps of the journal, in the order of the phases. The smoke programs are not in the repository: they are calls.
\<close>

section \<open>The driver's world\<close>

record driver = opener +
  io :: acceptor
  watch :: keeper

text \<open>A command of the controller sees the journal as it is and leaves it alone; afterwards the files of the journal are
  what they are then.\<close>

definition with_io :: "(acceptor, 'a) prog \<Rightarrow> ('w driver_scheme, 'a) prog" where
  "with_io m s = (case m ((io s)\<lparr>jrn := journal.truncate s\<rparr>) of (r, w) \<Rightarrow>
     (r, s\<lparr>io := w, files := found w (trace w)\<rparr>))"

definition keeper_of :: "'w driver_scheme \<Rightarrow> keeper" where
  "keeper_of s = (watch s)\<lparr>k_root := base s, k_lock := lock s, k_open := opened s, k_directory := directory_identity s,
     k_database := journal.database_identity s,
     database := (\<lambda>t. mapR (\<lambda>c. c\<lparr>c_db := work s\<rparr>) (database (watch s) t))\<rparr>"

definition with_watch :: "(keeper, 'a) prog \<Rightarrow> ('w driver_scheme, 'a) prog" where
  "with_watch m s = (case m (keeper_of s) of (r, k) \<Rightarrow> (r, s\<lparr>watch := k\<rparr>))"

section \<open>Small parts\<close>

definition INGRESS :: string where "INGRESS = ''/etc/hat-ingress/haproxy.cfg''"
definition CREDENTIALS :: string where "CREDENTIALS = ''/etc/hat-control/demo-login.json''"
definition HISTORY :: string where "HISTORY = ''/etc/hat-control/history.jsonl''"
definition PUBLIC_URL :: string where "PUBLIC_URL = ''http://127.0.0.1:18080''"

definition reading :: "('w host_scheme \<Rightarrow> 'a res) \<Rightarrow> ('w host_scheme, 'a) prog" where
  "reading f s = (f s, s)"

definition known_in :: "string list \<Rightarrow> 'w controller_scheme \<Rightarrow> json res" where
  "known_in ks s = get_in (known s) ks"

definition setting_in :: "string list \<Rightarrow> 'w controller_scheme \<Rightarrow> json res" where
  "setting_in ks s = get_in (settings s) ks"

text \<open>\<open>json.dumps(v, sort_keys=True)\<close> and its digest.\<close>

definition dumps_sorted :: "json \<Rightarrow> string" where
  "dumps_sorted v = show_json '' '' (sort_keys v)"

definition file_digest :: "string \<Rightarrow> 'w host_scheme \<Rightarrow> string res" where
  "file_digest path s = mapR sha256_hex (h_read path s)"

definition smoke :: "string \<Rightarrow> string \<Rightarrow> ('w host_scheme, unit) prog" where
  "smoke creds ledger = bindP (reading (h_loads creds)) (\<lambda>c. does ''smoke'' (JArr [JStr PUBLIC_URL, c, JStr ledger]))"

definition verify_restore :: "string \<Rightarrow> ('w host_scheme, unit) prog" where
  "verify_restore ledger = does ''verify_restore'' (JArr [JStr PUBLIC_URL, JStr ledger])"

definition release_differs :: "json \<Rightarrow> 'w host_scheme \<Rightarrow> unit res" where
  "release_differs binaries s = bindR (items_of binaries) (\<lambda>kvs. mapR (\<lambda>_. ()) (traverse (\<lambda>(name, digest).
     bindR (file_digest (path_join ORACLE_BIN_ROOT name) s) (\<lambda>d.
     raise_if (differs (JStr d) digest) RuntimeError (Inr ()))) kvs))"

definition oracle_release :: "json \<Rightarrow> ('w host_scheme, unit) prog" where
  "oracle_release config =
     bindP (lift (getitem config ''support'')) (\<lambda>sup.
     seqP (reading (validate_support (path_join ORACLE_ROOT ''support'') sup False))
     (bindP (lift (getitem config ''binaries'')) (\<lambda>bin. reading (release_differs bin))))"

definition fsync_parent :: "string \<Rightarrow> ('w host_scheme, unit) prog" where
  "fsync_parent path = seqP (raise_when (\<lambda>s. Inr (\<not> h_exists (parent_dir path) s)) FileNotFoundError)
     (seqP (raise_when (\<lambda>s. Inr (\<not> h_is_dir (parent_dir path) s)) OSError) (does ''fsync'' (JStr (parent_dir path))))"

section \<open>The actions\<close>

definition probe_mismatch :: "string \<Rightarrow> string \<Rightarrow> 'w controller_scheme \<Rightarrow> bool res" where
  "probe_mismatch who role s = bindR (known_in [who] s) (\<lambda>v. any_of
     [bindR (get_in v [''config'', ''role'']) (\<lambda>x. differs x (JStr role)),
      bindR (get_in v [''status'', ''epoch'']) (\<lambda>x. bindR (setting_in [''epoch''] s) (\<lambda>y. differs x y)),
      bindR (get_in v [''status'', ''trailbase_running'']) (\<lambda>x. differs x (JBool (role = ''writer'')))])"

definition candidates_differ :: "'w controller_scheme \<Rightarrow> bool res" where
  "candidates_differ s = any_of (map (\<lambda>field. bindR (known_in [''A'', ''config'', field] s) (\<lambda>x.
     bindR (known_in [''B'', ''config'', field] s) (\<lambda>y. differs x y))) [''binaries'', ''support''])"

text \<open>One line of the history: a revoked token must be refused, a retained one is asked for its state.\<close>

definition refresh :: "json \<Rightarrow> ('w host_scheme, json) prog" where
  "refresh tok = hcall ''request'' (JArr [JStr PUBLIC_URL, JStr ''/api/auth/v1/refresh'', JStr ''POST'', JObj [(''refresh_token'', tok)]])"

definition code_in :: "json \<Rightarrow> int set \<Rightarrow> bool" where
  "code_in code ns \<longleftrightarrow> (\<exists>n \<in> ns. py_eq code (JInt n))"

definition historical_line :: "json \<Rightarrow> ('w host_scheme, json) prog" where
  "historical_line v =
     bindP (lift (get_none v ''event'')) (\<lambda>event.
     if py_eq event (JStr ''historical_auth'') then
       bindP (lift (getitem v ''revoked_refresh'')) (\<lambda>revoked.
       bindP (refresh revoked) (\<lambda>code.
       if \<not> code_in code {400, 401, 403} then raiseP ValueError
       else bindP (lift (getitem v ''retained_refresh'')) (\<lambda>retained.
         bindP (refresh retained) (\<lambda>code'.
         if \<not> code_in code' {200, 400, 401, 403} then raiseP ValueError
         else ret (JObj (dict_set (items_in v) ''retained_expected''
           (JStr (if code_in code' {200} then ''accepted'' else ''denied''))))))))
     else if py_eq event (JStr ''acknowledged'') then ret v else raiseP ValueError)"

fun append_history :: "string \<Rightarrow> string list \<Rightarrow> ('w host_scheme, unit) prog" where
  "append_history ledger [] = ret ()"
| "append_history ledger (l # ls) =
     bindP (lift (loads l)) (\<lambda>v. bindP (historical_line v) (\<lambda>w.
     seqP (modify (\<lambda>s. s\<lparr>fs := alter ledger (\<lambda>n. n\<lparr>h_bytes := h_bytes n @ show_json '' '' w @ [CHR 0x0A]\<rparr>) (fs s)\<rparr>))
     (append_history ledger ls)))"

definition extend_ledger :: "string \<Rightarrow> ('w host_scheme, unit) prog" where
  "extend_ledger ledger =
     seqP (reading (host_private HISTORY))
     (bindP (gets (taken ledger)) (\<lambda>there.
     seqP (if there then ret () else create RegularNode ledger 384 [])
     (bindP (reading (h_text HISTORY)) (\<lambda>lines.
     seqP (append_history ledger (splitlines lines))
     (seqP (does ''fsync'' (JStr ledger)) (fsync_parent ledger))))))"

definition a_ledger :: "'w controller_scheme \<Rightarrow> string" where
  "a_ledger s = path_join (area s) ''ledger.jsonl''"

definition remember :: "string \<Rightarrow> (acceptor, json) prog \<Rightarrow> (acceptor, json) prog" where
  "remember key m = bindP m (\<lambda>v. seqP (learn key v) (ret v))"

definition preflight ::
  "moments \<Rightarrow> (json \<Rightarrow> string list res) \<Rightarrow> (acceptor, json) prog" where
  "preflight moment resolve =
     bindP (hcall ''gethostname'' JNull) (\<lambda>host.
     seqP (raise_when (\<lambda>s. bindR (setting_in [''hostname''] s) (\<lambda>h. differs host h)) ValueError)
     (seqP (raise_when (\<lambda>s. Inr (h_exists (marker s) s)) RuntimeError)
     (bindP (remember ''A'' (remote ''A'' ''probe-source'' JNull 180)) (\<lambda>_.
     bindP (remember ''B'' (remote ''B'' ''probe-source'' JNull 180)) (\<lambda>_.
     seqP (raise_when (probe_mismatch ''A'' ''writer'') RuntimeError)
     (seqP (raise_when (probe_mismatch ''B'' ''standby'') RuntimeError)
     (seqP (raise_when candidates_differ RuntimeError)
     (bindP (\<lambda>s. (known_in [''A'', ''config''] s, s)) (\<lambda>config.
     seqP (oracle_release config)
     (bindP (fence moment resolve ''inspect'' ''running'' ''A'') (\<lambda>_.
     bindP (reading (h_text INGRESS)) (\<lambda>text'.
     bindP (lift (route_to_b text')) (\<lambda>_.
     bindP (gets (\<lambda>s. (area s, a_ledger s))) (\<lambda>(dir, ledger).
     seqP (copy2 INGRESS (path_join dir ''ingress-before.cfg''))
     (seqP (reading (host_private CREDENTIALS))
     (seqP (smoke CREDENTIALS ledger)
     (seqP (extend_ledger ledger)
     (bindP (\<lambda>s. (known_in [''A'', ''boot_id''] s, s)) (\<lambda>a. bindP (\<lambda>s. (known_in [''B'', ''boot_id''] s, s)) (\<lambda>b.
     bindP (capture_protected_authority ledger ''d2-preflight'' None) (\<lambda>la.
     ret (JObj [(''source_boot'', a), (''candidate_boot'', b), (''identity'', JStr ''matched''),
       (''ledger_authority'', la)]))))))))))))))))))))))"

definition quiesce_a :: "(acceptor, json) prog" where
  "quiesce_a = bindP (remote ''A'' ''quiesce'' JNull 180) (\<lambda>v.
     bindP (lift (getitem v ''cut'')) (\<lambda>c. seqP (lift (validate_cut c)) (seqP (learn ''cut'' c) (ret v))))"

definition power_off :: "moments \<Rightarrow> (json \<Rightarrow> string list res) \<Rightarrow> (acceptor, json) prog" where
  "power_off moment resolve = remember ''fence'' (fence moment resolve ''power-off'' ''offline'' ''A'')"

definition freeze_b :: "(acceptor, json) prog" where
  "freeze_b = bindP (\<lambda>s. (known_in [''cut''] s, s)) (\<lambda>c.
     remember ''frozen'' (remote ''B'' ''freeze'' (JObj [(''cut'', c)]) 180))"

definition with_source :: "json \<Rightarrow> string \<Rightarrow> json" where
  "with_source v source = JObj (dict_set (items_in v) ''candidate_source'' (JStr source))"

definition signature_differs :: "json \<Rightarrow> 'w controller_scheme \<Rightarrow> bool res" where
  "signature_differs v s = itm v ''signature'' (\<lambda>x. bindR (known_in [''frozen'', ''signature''] s) (\<lambda>y. differs x y))"

definition compare_b :: "nat \<Rightarrow> (acceptor, json) prog" where
  "compare_b fuel =
     bindP (\<lambda>s. (known_in [''A'', ''replica_config''] s, s)) (\<lambda>replica. bindP (\<lambda>s. (known_in [''cut''] s, s)) (\<lambda>c.
     bindP (gets a_ledger) (\<lambda>ledger.
     bindP (run_oracle fuel ''compare'' replica c ledger None) (\<lambda>v.
     bindP (bindP (\<lambda>s. (signature_differs v s, s)) (\<lambda>bad.
       if bad then
         bindP (remember ''frozen'' (remote ''B'' ''restore'' (JObj [(''cut'', c)]) 180)) (\<lambda>_.
         seqP (raise_when (signature_differs v) RuntimeError)
         (ret (with_source v ''fresh-restore; rejected follower retained'')))
       else ret (with_source v ''frozen-follower''))) (\<lambda>w.
     seqP (learn ''comparison'' w) (ret w))))))"

definition activate_b :: "(acceptor, json) prog" where
  "activate_b =
     bindP (\<lambda>s. (known_in [''fence''] s, s)) (\<lambda>f.
     bindP (\<lambda>s. (known_in [''comparison'', ''signature''] s, s)) (\<lambda>sig.
     bindP (gets running_op) (\<lambda>q.
     bindP (remote ''B'' ''prepare'' (JObj [(''new_epoch'', JStr (o_new_epoch q)), (''signature'', sig),
        (''fence_digest'', JStr (sha256_hex (dumps_sorted f)))]) 180) (\<lambda>_.
     bindP (remote ''B'' ''activate-new'' JNull 180) (\<lambda>v.
     bindP (remember ''new'' (remote ''B'' ''probe-new'' JNull 180)) (\<lambda>_. ret v))))))"

definition baseline_b :: "nat \<Rightarrow> (acceptor, json) prog" where
  "baseline_b fuel =
     bindP (\<lambda>s. (known_in [''new'', ''replica_config''] s, s)) (\<lambda>replica.
     bindP (\<lambda>s. (known_in [''new'', ''status'', ''positions''] s, s)) (\<lambda>positions.
     bindP (gets a_ledger) (\<lambda>ledger.
     remember ''baseline'' (run_oracle fuel ''baseline'' replica positions ledger None))))"

text \<open>The new route: checked by the proxy itself, then put in place by a rename.\<close>

definition put_route :: "string \<Rightarrow> string \<Rightarrow> string \<Rightarrow> ('w host_scheme, unit) prog" where
  "put_route pending_path path raw =
     seqP (create_new RegularNode pending_path 420 raw)
     (seqP (does ''fsync'' (JStr pending_path)) (seqP (rename pending_path path) (fsync_parent path)))"

definition route_b :: "moments \<Rightarrow> (json \<Rightarrow> string list res) \<Rightarrow> (acceptor, json) prog" where
  "route_b moment resolve =
     bindP (fence moment resolve ''inspect'' ''offline'' ''A'') (\<lambda>_.
     bindP (gets (\<lambda>s. (area s, running_op s))) (\<lambda>(dir, q).
     bindP (reading (h_text (path_join dir ''ingress-before.cfg''))) (\<lambda>old.
     bindP (lift (route_to_b old)) (\<lambda>text'. let candidate = path_join dir ''haproxy.cfg'' in
     seqP (bindP (gets (taken candidate)) (\<lambda>there. if there then ret () else create RegularNode candidate 384 []))
     (seqP (set_bytes candidate text')
     (bindP (control_command [''haproxy'', ''-c'', ''-f'', candidate] JNull 180) (\<lambda>_.
     seqP (put_route ''/etc/hat-ingress/haproxy.d2-pending'' INGRESS text')
     (bindP (reading (file_digest INGRESS)) (\<lambda>digest.
     seqP (start_ingress digest)
     (ret (JObj [(''writer'', JStr ''B''), (''epoch'', JStr (o_new_epoch q)), (''config_sha'', JStr digest)])))))))))))"

definition beyond :: "json \<Rightarrow> json \<Rightarrow> bool res" where
  "beyond positions low = bindR (items_of low) (\<lambda>kvs. all_of (map (\<lambda>(db, pos). itm positions db (\<lambda>x. py_less pos x)) kvs))"

text \<open>The new writes are waited for until the deadline; \<open>fuel\<close> bounds the polls.\<close>

fun await_writes :: "nat \<Rightarrow> rat \<Rightarrow> (acceptor, json) prog" where
  "await_writes 0 deadline = raiseP StopIteration"
| "await_writes (Suc n) deadline =
     bindP (remote ''B'' ''probe-new'' JNull 180) (\<lambda>v.
     bindP (\<lambda>s. (bindR (known_in [''baseline'', ''request'', ''positions''] s) (\<lambda>low. bindR (items_of low) (\<lambda>kvs.
         all_of (map (\<lambda>(db, pos). bindR (get_in v [''status'', ''positions'', db]) (\<lambda>x. py_less pos x)) kvs))), s)) (\<lambda>there.
     if there then ret v
     else bindP monotonic (\<lambda>now. if deadline < now then raiseP RuntimeError
       else seqP (sleep 1) (await_writes n deadline))))"

definition verify_b :: "nat \<Rightarrow> (acceptor, json) prog" where
  "verify_b fuel =
     bindP (gets (\<lambda>s. (a_ledger s, path_join (area s) ''new-writes.jsonl'', running_op s))) (\<lambda>(ledger, fresh_path, q).
     seqP (verify_restore ledger)
     (seqP (smoke CREDENTIALS fresh_path)
     (bindP (authorize_fresh_writes fresh_path) (\<lambda>_.
     bindP monotonic (\<lambda>start.
     bindP (await_writes fuel (start + 90)) (\<lambda>v.
     bindP (\<lambda>s. (known_in [''new'', ''replica_config''] s, s)) (\<lambda>replica.
     bindP (\<lambda>s. (known_in [''baseline'', ''request'', ''positions''] s, s)) (\<lambda>positions.
     bindP (run_oracle fuel ''verification-baseline'' replica positions ledger None) (\<lambda>again.
     bindP (\<lambda>s. (known_in [''baseline''] s, s)) (\<lambda>first.
     seqP (lift (validate_verification_baseline_recheck first again (op_json q)))
     (bindP (lift (getitem v ''replica_config'')) (\<lambda>replica'.
     bindP (lift (get_in v [''status'', ''positions''])) (\<lambda>positions'.
     bindP (run_oracle fuel ''new-writes'' replica' positions' fresh_path None) (\<lambda>evidence.
     ret (JObj [(''writer'', JStr ''B''), (''epoch'', JStr (o_new_epoch q)), (''positions'', positions'),
       (''baseline_recheck'', again), (''new_writes'', evidence)])))))))))))))))"

section \<open>The steps\<close>

definition switch_actions ::
  "nat \<Rightarrow> moments \<Rightarrow> (json \<Rightarrow> string list res) \<Rightarrow> (acceptor, json) prog list" where
  "switch_actions fuel moment resolve =
     [preflight moment resolve, close_ingress, quiesce_a, power_off moment resolve, freeze_b, compare_b fuel, activate_b,
      baseline_b fuel, route_b moment resolve, verify_b fuel]"

fun run_steps :: "(string \<times> (acceptor, json) prog) list \<Rightarrow> (driver, unit) prog" where
  "run_steps [] = ret ()"
| "run_steps ((phase, action) # rest) = bindP (step phase (with_io action)) (\<lambda>_. run_steps rest)"

definition remove_marker :: "('w controller_scheme, unit) prog" where
  "remove_marker = bindP (gets marker) (\<lambda>m. seqP (unlink m) (fsync_parent m))"

definition remaining_steps ::
  "nat \<Rightarrow> moments \<Rightarrow> (json \<Rightarrow> string list res) \<Rightarrow> (driver, unit) prog" where
  "remaining_steps fuel moment resolve =
     bindP (gets nxt) (\<lambda>n.
     seqP (run_steps (drop n (zip PHASES (switch_actions fuel moment resolve))))
     (seqP finish (with_io remove_marker)))"

section \<open>Reconciling a failed comparison or verification\<close>

definition archive_failure :: "string \<Rightarrow> string \<Rightarrow> ('w host_scheme, unit) prog" where
  "archive_failure failure archived =
     seqP (raise_when (\<lambda>s. Inr (h_exists archived s)) RuntimeError)
     (seqP (rename failure archived) (fsync_parent failure))"

text \<open>The marker and the failure are this operation's, and nothing was attempted before; then the intent is made
  durable.\<close>

definition reconcile_intent ::
  "string \<Rightarrow> string \<Rightarrow> string \<Rightarrow> (json \<Rightarrow> 'w acceptor_scheme \<Rightarrow> bool res) \<Rightarrow> ('w acceptor_scheme, unit) prog" where
  "reconcile_intent ident name action wrong_failure =
     bindP (gets (\<lambda>s. (marker s, operation_marker s, path_join (area s) ''failure.json'', path_join (area s) name)))
       (\<lambda>(m, expected_marker, failure, intent).
     seqP (reading (host_private m))
     (bindP (reading (h_loads m)) (\<lambda>v.
     if \<not> py_eq v expected_marker then raiseP RuntimeError
     else seqP (reading (host_private failure))
       (bindP (reading (h_loads failure)) (\<lambda>f.
        seqP (raise_when (wrong_failure f) RuntimeError)
        (seqP (raise_when (\<lambda>s. Inr (h_there intent s)) RuntimeError)
        (bindP (reading (file_digest failure)) (\<lambda>digest.
        bindP (lift (canonical_json (JObj [(''operation'', JStr ident), (''action'', JStr action), (''failure_sha'', JStr digest)])))
          (\<lambda>raw. durable_bytes intent raw ''bytes'' 384 None None)))))))))"

definition verify_failure :: "json \<Rightarrow> 'w acceptor_scheme \<Rightarrow> bool res" where
  "verify_failure f s = any_of
     [differs f (JObj [(''phase'', JStr ''verify''), (''error'', JStr ''URLError'')]),
      Inr (h_exists (path_join (area s) ''new-writes.jsonl'') s)]"

definition compare_failure :: "json \<Rightarrow> 'w acceptor_scheme \<Rightarrow> bool res" where
  "compare_failure f s = got_not f ''phase'' ''compare''"

definition route_changed :: "json \<Rightarrow> operation \<Rightarrow> string \<Rightarrow> bool res" where
  "route_changed prev q digest = itm prev ''route'' (\<lambda>r. any_of
     [item_not r ''writer'' ''B'', item_not r ''epoch'' (o_new_epoch q), item_not r ''config_sha'' digest,
      itm prev ''baseline'' (\<lambda>b. bindR (get_none b ''checks'')
        (\<lambda>c. differs c (JObj [(''records'', JStr ''PASS''), (''authentication'', JStr ''PASS'')])))])"

definition candidate_boot :: "json \<Rightarrow> json res" where
  "candidate_boot prev = get_in prev [''preflight'', ''candidate_boot'']"

definition with_fence :: "json \<Rightarrow> json \<Rightarrow> json" where
  "with_fence v receipt = JObj (dict_set (items_in v) ''reconciliation_fence'' receipt)"

text \<open>Everything up to the acceptance of the verification.\<close>

definition reverify ::
  "nat \<Rightarrow> moments \<Rightarrow> (json \<Rightarrow> string list res) \<Rightarrow> string \<Rightarrow> json \<Rightarrow> (acceptor, json) prog" where
  "reverify fuel moment resolve ident prev =
     seqP (reconcile_intent ident ''verification-reconciliation.json'' ''verification-only'' verify_failure)
     (bindP close_ingress (\<lambda>_.
     bindP (fence moment resolve ''inspect'' ''offline'' ''A'') (\<lambda>receipt.
     bindP (lift (candidate_boot prev)) (\<lambda>boot.
     seqP (learn ''B'' (JObj [(''boot_id'', boot)]))
     (bindP (remote ''B'' ''probe-new'' JNull 180) (\<lambda>current.
     seqP (raise_when (\<lambda>_. any_of [bindR (get_in current [''config'', ''role'']) (\<lambda>x. differs x (JStr ''writer'')),
        bindR (get_in current [''status'', ''trailbase_running'']) (\<lambda>x. Inr (\<not> truthy x))]) RuntimeError)
     (bindP (lift (getitem prev ''baseline'')) (\<lambda>base_line.
     seqP (learn ''baseline'' base_line)
     (bindP (gets (\<lambda>s. (running_op s, a_ledger s, path_join (area s) ''failure.json'', area s))) (\<lambda>(q, ledger, failure, dir).
     bindP (reading (file_digest INGRESS)) (\<lambda>digest.
     seqP (raise_when (\<lambda>_. route_changed prev q digest) RuntimeError)
     (bindP (lift (getitem current ''config'')) (\<lambda>config.
     seqP (oracle_release config)
     (bindP (lift (getitem current ''replica_config'')) (\<lambda>replica.
     bindP (lift (get_in prev [''baseline'', ''request'', ''positions''])) (\<lambda>positions.
     bindP (run_oracle fuel ''verification-baseline'' replica positions ledger None) (\<lambda>again.
     seqP (lift (validate_verification_baseline_recheck base_line again (op_json q)))
     (seqP (archive_failure failure (path_join dir ''failure.before-verification.json''))
     (seqP (start_ingress digest)
     (bindP (verify_b fuel) (\<lambda>v.
      ret (JObj (dict_set (items_in (with_fence v receipt)) ''baseline_recheck'' again)))))))))))))))))))))))"

definition recompare ::
  "nat \<Rightarrow> moments \<Rightarrow> (json \<Rightarrow> string list res) \<Rightarrow> string \<Rightarrow> json \<Rightarrow> (acceptor, json) prog" where
  "recompare fuel moment resolve ident prev =
     seqP (reconcile_intent ident ''reconciliation.json'' ''accept-checked-comparison'' compare_failure)
     (bindP close_ingress (\<lambda>_.
     bindP (lift (getitem prev ''fence'')) (\<lambda>old_fence.
     seqP (learn ''fence'' old_fence)
     (bindP (fence moment resolve ''inspect'' ''offline'' ''A'') (\<lambda>receipt.
     bindP (lift (candidate_boot prev)) (\<lambda>boot.
     seqP (learn ''B'' (JObj [(''boot_id'', boot)]))
     (bindP (remote ''B'' ''inspect-frozen'' JNull 180) (\<lambda>current.
     seqP (raise_when (\<lambda>_. itm current ''frozen'' (\<lambda>x. itm prev ''freeze'' (\<lambda>y. differs x y))) RuntimeError)
     (bindP (lift (getitem current ''config'')) (\<lambda>config.
     seqP (oracle_release config)
     (bindP (lift (get_in prev [''freeze'', ''cut''])) (\<lambda>c.
     bindP (lift (getitem prev ''freeze'')) (\<lambda>frozen.
     seqP (learn ''cut'' c) (seqP (learn ''frozen'' frozen)
     (bindP (lift (getitem current ''replica_config'')) (\<lambda>replica.
     bindP (gets (\<lambda>s. (a_ledger s, path_join (area s) ''failure.json'', area s))) (\<lambda>(ledger, failure, dir).
     bindP (run_oracle fuel ''reconciled-compare'' replica c ledger None) (\<lambda>v.
     seqP (archive_failure failure (path_join dir ''failure.before-reconciliation.json''))
     (ret (with_fence v receipt))))))))))))))))))))"

section \<open>The driver\<close>

definition start_operation :: "json option \<Rightarrow> bool \<Rightarrow> ('w driver_scheme, operation \<times> json) prog" where
  "start_operation reconcile verification_only =
     bindP (gets (\<lambda>s. getitem (settings (io s)) ''epoch'')) (\<lambda>epoch. case reconcile of
       None \<Rightarrow> bindP (lift epoch) (\<lambda>e. bindP (begin_op ''A'' ''B'' e) (\<lambda>q. ret (q, JNull)))
     | Some ident \<Rightarrow>
         bindP (if verification_only then verification_boundary ident else comparison_boundary ident) (\<lambda>(q, prev).
         seqP (modify (\<lambda>s. s\<lparr>nxt := if verification_only then 9 else 5\<rparr>))
         (bindP (lift epoch) (\<lambda>e. seqP (raise_when (\<lambda>_. differs (JStr (o_source_epoch q)) e) RuntimeError) (ret (q, prev))))))"

definition area_unsafe :: "string \<Rightarrow> 'w host_scheme \<Rightarrow> bool res" where
  "area_unsafe dir s = any_of [Inr (h_is_symlink dir s), Inr (\<not> h_is_dir dir s),
     mapR (\<lambda>n. h_uid n \<noteq> 0 \<or> h_mode n mod 64 \<noteq> 0) (h_lstat dir s)]"

text \<open>The directory of the operation and the state its commands share.\<close>

definition open_area :: "operation \<Rightarrow> bool \<Rightarrow> ('w acceptor_scheme, unit) prog" where
  "open_area q again = (let dir = path_join CONTROLLER_ROOT (o_id q) in
     seqP (if again then raise_when (area_unsafe dir) ValueError else mkdir dir 448)
     (modify (\<lambda>s. s\<lparr>area := dir, running_op := q, known := JObj [(''ingress_touched'', JBool again)],
        marker := ''/etc/hat-control/maintenance'', fresh_hold := None\<rparr>)))"

definition reconciliation ::
  "nat \<Rightarrow> moments \<Rightarrow> (json \<Rightarrow> string list res) \<Rightarrow> json \<Rightarrow> json \<Rightarrow> bool \<Rightarrow> (driver, unit) prog" where
  "reconciliation fuel moment resolve ident prev verification_only =
     (if verification_only then
        bindP (with_io (reverify fuel moment resolve (str_val ident) prev)) (accept_verification ident)
      else
        bindP (with_io (recompare fuel moment resolve (str_val ident) prev)) (\<lambda>v.
        seqP (accept_comparison ident v)
        (with_io (seqP (learn ''comparison'' v) (bindP (gets area) (\<lambda>dir. fsync_parent (path_join dir ''failure.json'')))))))"

definition failed_phase :: "string list \<Rightarrow> nat \<Rightarrow> string" where
  "failed_phase plan n = nth plan (min n (length plan - 1))"

definition record_failure :: "bool \<Rightarrow> string \<Rightarrow> exn \<Rightarrow> (acceptor, unit) prog" where
  "record_failure again phase e =
     bindP (gets area) (\<lambda>dir. let failure = path_join dir ''failure.json'' in
     bindP (gets (\<lambda>s. again \<and> h_exists failure s)) (\<lambda>kept.
     bindP (if kept then bindP (hcall ''time_ns'' JNull) (\<lambda>t. ret (path_join dir (''reconciliation-failure-'' @ show_int (int_val t) @ ''.json'')))
            else ret failure) (\<lambda>path.
     seqP (atomic_json path (JObj [(''phase'', JStr phase), (''error'', JStr (exn_name e))]) 384)
     (bindP (gets (\<lambda>s. known_in [''ingress_touched''] s)) (\<lambda>t. bindP (lift t) (\<lambda>touched.
      if truthy touched then bindP close_ingress (\<lambda>_. ret ()) else ret ()))))))"

definition switch_body ::
  "nat \<Rightarrow> moments \<Rightarrow> (json \<Rightarrow> string list res) \<Rightarrow> json option \<Rightarrow> bool \<Rightarrow> (driver, unit) prog" where
  "switch_body fuel moment resolve reconcile verification_only =
     bindP (if reconcile = None then with_watch (reconcile_existing ''/etc/hat-control/maintenance'' INGRESS) else ret False) (\<lambda>settled.
     if settled then with_io (does ''run'' (JArr [JStr ''systemctl'', JStr ''start'', JStr ''hat-ingress.service'']))
     else bindP (start_operation reconcile verification_only) (\<lambda>(q, prev).
       seqP (with_io (open_area q (reconcile \<noteq> None)))
       (on_exn
         (seqP (case reconcile of None \<Rightarrow> ret () | Some ident \<Rightarrow> reconciliation fuel moment resolve ident prev verification_only)
           (remaining_steps fuel moment resolve))
         (\<lambda>e. bindP (gets nxt) (\<lambda>n. seqP (with_io (record_failure (reconcile \<noteq> None) (failed_phase PHASES n) e)) (raiseP e))))))"

definition switchover ::
  "nat \<Rightarrow> moments \<Rightarrow> (json \<Rightarrow> string list res) \<Rightarrow> json option \<Rightarrow> bool \<Rightarrow> (driver, unit) prog" where
  "switchover fuel moment resolve reconcile verification_only =
     seqP (modify (\<lambda>s. s\<lparr>base := CONTROLLER_ROOT\<rparr>))
     (seqP enter_journal
     (ensuring (switch_body fuel moment resolve reconcile verification_only) exit_journal))"

end
