(* ===== verification/Switchover_Properties.thy ===== *)
theory Switchover_Properties
  imports Steady Switchover
begin

text \<open>
  The driver of a switchover: what its steps can and cannot reach.
\<close>

section \<open>The ledger of the new writes is gone\<close>

definition disarmed :: "acceptor \<Rightarrow> bool" where
  "disarmed s \<longleftrightarrow> fresh_hold s = None"

interpretation disarmed: steady disarmed "\<lambda>_. True"
  by unfold_locales (simp_all add: disarmed_def)

lemma gives_reads: "(\<And>s x. I s \<Longrightarrow> f s = Inr x \<Longrightarrow> P x) \<Longrightarrow> gives I (\<lambda>s. (f s, s)) P"
  by (simp add: gives_def wp_def)

lemma gives_skip: "keeps I m \<Longrightarrow> (\<And>x. gives I (f x) P) \<Longrightarrow> gives I (bindP m f) P"
  by (rule gives_bind [OF gives_true])

lemma gives_skip_seq: "keeps I m \<Longrightarrow> gives I k P \<Longrightarrow> gives I (seqP m k) P"
  unfolding seqP_def by (rule gives_skip)

lemma no_fresh_source: "gives disarmed (fresh_source l x y) (\<lambda>_. False)"
  unfolding fresh_source_def by (rule gives_then_gets) (simp add: disarmed_def gives_raiseP)

lemma new_writes_profile:
  "derive_restore_profile q (JStr ''new-writes'') False = Inr (profile, rest) \<Longrightarrow> profile = ''fresh-writes''"
  by (auto simp: derive_restore_profile_def restore_matrix_def res_simps bindR_def
    split: sum.splits if_splits json.splits option.splits)

lemma no_gather: "gives disarmed (gather_request fuel phase r ps l f (''fresh-writes'', epoch) ms gid) (\<lambda>_. False)"
  unfolding gather_request_def take_installed_def Let_def prod.case
  by (cases ms) (auto intro!: gives_skip_seq gives_bind [OF no_fresh_source] disarmed.keeps_installed_manifest
    disarmed.steady_rules)

lemma no_drop: "gives disarmed (drop_request p e) (\<lambda>_. False)"
  unfolding drop_request_def
  by (intro gives_then_gets gives_skip_seq disarmed.steady_rules disarmed.keeps_close_fresh gives_raiseP)

lemma gives_on_exn: "gives I m P \<Longrightarrow> (\<And>e. gives I (h e) P) \<Longrightarrow> gives I (on_exn m h) P"
  by (fastforce simp: gives_def wp_def on_exn_def split: prod.splits sum.splits)

lemma no_request: "gives disarmed (acceptance_request fuel ''new-writes'' r ps l None e) (\<lambda>_. False)"
  unfolding acceptance_request_def
proof (rule gives_skip_seq [OF keeps_raise_when], rule gives_bind)
  show "gives disarmed (\<lambda>s. (derive_restore_profile (op_json (running_op s)) (JStr ''new-writes'') (None \<noteq> None), s))
     (\<lambda>x. fst x = ''fresh-writes'')"
    by (rule gives_reads) (auto dest: new_writes_profile split: prod.splits)
qed (auto intro!: gives_skip_seq gives_skip gives_on_exn no_gather no_drop disarmed.steady_rules disarmed.keeps_at_boundary)

lemma gives_ensuring: "gives I m P \<Longrightarrow> keeps I c \<Longrightarrow> gives I (ensuring m c) P"
  by (fastforce simp: gives_def keeps_def wp_def ensuring_def split: prod.splits sum.splits)

lemma no_after_closing: "gives disarmed m (\<lambda>_. False) \<Longrightarrow> gives disarmed (closing_after m as) (\<lambda>_. False)"
  unfolding closing_after_def
  by (rule gives_bind [where P = "\<lambda>_. False"], rule gives_on_exn)
    (auto intro!: gives_then_gets gives_skip_seq gives_raiseP disarmed.steady_rules)

lemma no_new_writes: "gives disarmed (run_oracle fuel ''new-writes'' r ps l None) (\<lambda>_. False)"
proof -
  have body: "gives disarmed (oracle_body fuel ''new-writes'' r ps l None e) (\<lambda>_. False)" for e
    unfolding oracle_body_def by (rule gives_bind [OF no_request]) simp
  show ?thesis
    unfolding run_oracle_def
    by (intro gives_skip_seq gives_skip no_after_closing gives_ensuring body disarmed.keeps_held disarmed.keeps_run_parts
      keeps_raise_when disarmed.keeps_dropped)
qed

text \<open>An oracle run leaves nothing of the fresh ledger behind, however it ends.\<close>

definition leads :: "('s \<Rightarrow> bool) \<Rightarrow> ('s, 'a) prog \<Rightarrow> bool" where
  "leads J m \<longleftrightarrow> (\<forall>s x t. m s = (Inr x, t) \<longrightarrow> J t)"

lemma leads_bind: "(\<And>x. leads J (f x)) \<Longrightarrow> leads J (bindP m f)"
  by (auto simp: leads_def res_simps)

lemma leads_seq: "leads J k \<Longrightarrow> leads J (seqP m k)"
  by (simp add: seqP_def leads_bind)

lemma leads_then: "leads J m \<Longrightarrow> (\<And>x. keeps J (f x)) \<Longrightarrow> leads J (bindP m f)"
  unfolding leads_def bindP_eq_Inr by (meson keepsD)

lemma leads_on_exn: "leads J m \<Longrightarrow> (\<And>e. leads J (h e)) \<Longrightarrow> leads J (on_exn m h)"
  by (auto simp: leads_def on_exn_def split: prod.splits sum.splits)

lemma leads_raiseP: "leads J (raiseP e)"
  by (simp add: leads_def raiseP_def)

lemma leads_ensuring: "leads J c \<Longrightarrow> leads J (ensuring m c)"
  by (auto simp: leads_def ensuring_def split: prod.splits sum.splits)

lemma leads_closing: "leads disarmed m \<Longrightarrow> leads disarmed (closing_after m as)"
  unfolding closing_after_def
  by (intro leads_then [of _ "on_exn _ _"] leads_on_exn leads_bind leads_seq leads_raiseP disarmed.steady_rules)

lemma leads_dropped: "leads disarmed (modify (\<lambda>s. s\<lparr>fresh_hold := None\<rparr>))"
  by (simp add: leads_def modify_def disarmed_def)

lemma oracle_disarms: "leads disarmed (run_oracle fuel phase r ps l f)"
  unfolding run_oracle_def by (intro leads_seq leads_bind leads_closing leads_ensuring leads_dropped)

lemma gives_leads:
  assumes "leads J m" and "\<And>x. gives J (f x) (\<lambda>_. False)"
  shows "gives (\<lambda>_. True) (bindP m f) (\<lambda>_. False)"
  using assms by (fastforce simp: leads_def gives_def wp_def bindP_def split: prod.splits sum.splits)

lemma keeps_True: "keeps (\<lambda>_. True) m"
  by (simp add: keeps_def)

lemma verify_stops: "gives (\<lambda>_. True) (verify_b fuel) (\<lambda>_. False)"
  unfolding verify_b_def prod.case
  by (rule gives_then_gets, unfold prod.case, (rule gives_skip_seq [OF keeps_True] gives_leads [OF oracle_disarms] gives_skip [OF keeps_True])+)
    (intro gives_skip_seq gives_skip gives_bind [OF no_new_writes] disarmed.steady_rules, simp)

section \<open>The driver does not get past the verification\<close>

definition never :: "('s, 'a) prog \<Rightarrow> bool" where
  "never m \<longleftrightarrow> (\<forall>s. isl (fst (m s)))"

lemma never_gives: "never m \<longleftrightarrow> gives (\<lambda>_. True) m (\<lambda>_. False)"
  by (simp add: never_def gives_def wp_def isl_def) (metis sum.exhaust sum.simps(4))

lemma never_first: "never m \<Longrightarrow> never (bindP m f)"
  unfolding never_gives by (rule gives_bind [where P = "\<lambda>_. False"]) simp_all

lemma never_next: "(\<And>x. never (f x)) \<Longrightarrow> never (bindP m f)"
  by (auto simp: never_def bindP_def isl_def split: prod.splits sum.splits)

lemma never_Inr: "never m \<Longrightarrow> m s \<noteq> (Inr x, t)"
  by (metis never_def fst_conv sum.disc(2))

lemma never_choice:
  assumes "bindP m (\<lambda>b. if b then x else y) s = (Inr v, t)" and "never y"
  shows "\<exists>u. m s = (Inr True, u)"
proof -
  from assms(1) obtain b u where b: "m s = (Inr b, u)" and r: "(if b then x else y) u = (Inr v, t)"
    by (auto simp: res_simps)
  from r never_Inr [OF assms(2)] have "b" by (cases b) simp_all
  with b show ?thesis by simp
qed

lemma never_seq: "never k \<Longrightarrow> never (seqP m k)"
  unfolding seqP_def by (rule never_next)

lemma never_io: "never m \<Longrightarrow> never (with_io m)"
  by (auto simp: never_def with_io_def isl_def split: prod.splits) (metis fst_conv)

lemma never_step: "never m \<Longrightarrow> never (step phase m)"
  unfolding step_def by (intro never_seq never_first)

lemma bindP_bindP: "bindP (bindP m f) g = bindP m (\<lambda>x. bindP (f x) g)"
  by (auto simp: bindP_def fun_eq_iff split: prod.splits sum.splits)

lemma run_steps_append: "run_steps (xs @ ys) = seqP (run_steps xs) (run_steps ys)"
proof (induction xs)
  case Nil
  show ?case by (simp add: seqP_def bindP_def ret_def)
next
  case (Cons x xs)
  then show ?case by (cases x) (simp add: seqP_def bindP_bindP)
qed

lemma plan_split: "zip PHASES (switch_actions fuel moment resolve)
    = zip (take 9 PHASES) (take 9 (switch_actions fuel moment resolve)) @ [(''verify'', verify_b fuel)]"
  by (simp add: PHASES_def switch_actions_def del: zip_append)

lemma last_step:
  assumes "n \<le> 9"
  shows "\<exists>xs. drop n (zip PHASES (switch_actions fuel moment resolve)) = xs @ [(''verify'', verify_b fuel)]"
proof -
  have "length (zip (take 9 PHASES) (take 9 (switch_actions fuel moment resolve))) = 9"
    by (simp add: PHASES_def switch_actions_def)
  then show ?thesis using assms unfolding plan_split by simp
qed

lemma steps_stop: "n \<le> 9 \<Longrightarrow> never (run_steps (drop n (zip PHASES (switch_actions fuel moment resolve))))"
proof -
  assume "n \<le> 9"
  then obtain xs where xs: "drop n (zip PHASES (switch_actions fuel moment resolve)) = xs @ [(''verify'', verify_b fuel)]"
    using last_step by blast
  have "never (step ''verify'' (with_io (verify_b fuel)) :: (driver, json) prog)"
    by (intro never_step never_io) (simp add: never_gives verify_stops)
  then show ?thesis unfolding xs run_steps_append by (intro never_seq) (simp add: never_first)
qed

text \<open>From states before the end of the plan.\<close>

definition early :: "'w journal_scheme \<Rightarrow> bool" where
  "early s \<longleftrightarrow> nxt s \<le> 9"

definition stuck :: "('s \<Rightarrow> bool) \<Rightarrow> ('s, 'a) prog \<Rightarrow> bool" where
  "stuck J m \<longleftrightarrow> (\<forall>s. J s \<longrightarrow> isl (fst (m s)))"

lemma stuck_leads: "leads J m \<Longrightarrow> (\<And>x. stuck J (f x)) \<Longrightarrow> never (bindP m f)"
  by (auto simp: never_def stuck_def leads_def bindP_def isl_def split: prod.splits sum.splits)

lemma stuck_keeps: "keeps J m \<Longrightarrow> (\<And>x. stuck J (f x)) \<Longrightarrow> stuck J (bindP m f)"
  by (fastforce simp: stuck_def keeps_def bindP_def isl_def split: prod.splits sum.splits)

lemma stuck_step: "(leads J m \<or> keeps J m) \<Longrightarrow> (\<And>x. stuck J (f x)) \<Longrightarrow> stuck J (bindP m f)"
  using stuck_leads stuck_keeps by (metis never_def stuck_def)

lemma stuck_on_exn: "stuck J m \<Longrightarrow> (\<And>e. never (h e)) \<Longrightarrow> stuck J (on_exn m h)"
  by (fastforce simp: stuck_def never_def on_exn_def isl_def split: prod.splits sum.splits)

lemma never_stuck: "never m \<Longrightarrow> stuck J m"
  by (simp add: stuck_def never_def)

lemma never_raise: "never (raiseP e)"
  by (simp add: never_def raiseP_def)

lemma early_io: "keeps early (with_io m)"
  by (simp add: keeps_def with_io_def early_def split: prod.split)

lemma remaining_stuck: "stuck early (remaining_steps fuel moment resolve)"
  unfolding stuck_def remaining_steps_def
proof (intro allI impI)
  fix s :: driver
  assume "early s"
  then have "never (run_steps (drop (nxt s) (zip PHASES (switch_actions fuel moment resolve))))"
    by (intro steps_stop) (simp add: early_def)
  then have "never (seqP (run_steps (drop (nxt s) (zip PHASES (switch_actions fuel moment resolve))))
      (seqP finish (with_io remove_marker)))"
    unfolding seqP_def by (rule never_first)
  then show "isl (fst (bindP (gets nxt) (\<lambda>n. seqP (run_steps (drop n (zip PHASES (switch_actions fuel moment resolve))))
      (seqP finish (with_io remove_marker))) s))"
    by (simp add: never_def bindP_def gets_def)
qed

lemma never_pair: "(\<And>a b. never (f a b)) \<Longrightarrow> never (case x of (a, b) \<Rightarrow> f a b)"
  by (cases x) simp

lemma verify_never: "never (verify_b fuel)"
  by (simp add: never_gives verify_stops)

lemma reverify_never: "never (reverify fuel moment resolve ident prev)"
  unfolding reverify_def
  by (rule never_first [OF verify_never] never_seq never_next never_pair)+

lemma accepted_early: "leads early (accept_comparison ident v)"
  unfolding accept_comparison_def
  by (auto simp: leads_def resume_at_def early_def res_simps modify_def split: prod.splits)

lemma start_early: "leads early (start_operation reconcile only)"
  unfolding start_operation_def leads_def
  by (cases reconcile) (auto simp: res_simps begin_op_def early_def modify_def ret_def lift_def Let_def raise_when_def split: prod.splits if_splits)

lemma reconciliation_early:
  "leads early (reconciliation fuel moment resolve ident prev only)"
proof (cases only)
  case True
  have "never (reconciliation fuel moment resolve ident prev True)"
    unfolding reconciliation_def by (simp add: never_first never_io reverify_never)
  with True show ?thesis by (auto simp: leads_def never_def isl_def) (metis fst_conv sum.distinct(1))
next
  case False
  have "leads early (bindP m (\<lambda>v. seqP (accept_comparison ident v) (with_io (k v))))" for m :: "(driver, json) prog" and k :: "json \<Rightarrow> (acceptor, unit) prog"
    unfolding seqP_def by (intro leads_bind leads_then accepted_early early_io)
  with False show ?thesis by (simp add: reconciliation_def)
qed

lemma failed_never: "never (bindP (gets nxt) (\<lambda>n. seqP m (raiseP e)))"
  by (intro never_next never_seq never_raise)

lemma operation_never:
  "never (bindP (start_operation reconcile only) (\<lambda>(q, prev).
     seqP (with_io (open_area q again))
     (on_exn
       (seqP (case reconcile of None \<Rightarrow> ret () | Some ident \<Rightarrow> reconciliation fuel moment resolve ident prev only)
         (remaining_steps fuel moment resolve))
       (\<lambda>e. bindP (gets nxt) (\<lambda>n. seqP (with_io (record_failure again (failed_phase PHASES n) e)) (raiseP e))))))"
proof (rule stuck_leads [OF start_early], clarify)
  fix q prev
  have "leads early (case reconcile of None \<Rightarrow> ret () | Some ident \<Rightarrow> reconciliation fuel moment resolve ident prev only)
    \<or> keeps early (case reconcile of None \<Rightarrow> ret () | Some ident \<Rightarrow> reconciliation fuel moment resolve ident prev only)"
    by (cases reconcile) (simp_all add: reconciliation_early keeps_ret)
  then show "stuck early (seqP (with_io (open_area q again)) (on_exn
       (seqP (case reconcile of None \<Rightarrow> ret () | Some ident \<Rightarrow> reconciliation fuel moment resolve ident prev only)
         (remaining_steps fuel moment resolve))
       (\<lambda>e. bindP (gets nxt) (\<lambda>n. seqP (with_io (record_failure again (failed_phase PHASES n) e)) (raiseP e)))))"
    unfolding seqP_def [of "with_io (open_area q again)"]
    by (intro stuck_keeps early_io stuck_on_exn never_next never_seq never_raise) (simp add: seqP_def stuck_step remaining_stuck)
qed

text \<open>C38 No promotion returns. Whatever the nodes, the oracle and the proxy answer, and whether it starts an
  operation or reconciles one, a switchover ends normally only when it found an already finished transition to serve
  again: its verification cannot return, because the oracle run for the baseline, in its \<open>finally\<close>, drops the
  authority over the new writes that the oracle run for the new writes needs.\<close>

theorem promotion_never_returns:
  "isl (fst (switchover fuel moment resolve reconcile only d))
   \<or> reconcile = None \<and> (\<exists>u v. enter_journal (d\<lparr>base := CONTROLLER_ROOT\<rparr>) = (Inr (), u)
       \<and> with_watch (reconcile_existing ''/etc/hat-control/maintenance'' INGRESS) u = (Inr True, v))"
proof (cases "fst (switchover fuel moment resolve reconcile only d)")
  case (Inr x)
  then obtain u v where u: "enter_journal (d\<lparr>base := CONTROLLER_ROOT\<rparr>) = (Inr (), u)"
      and body: "switch_body fuel moment resolve reconcile only u = (Inr (), v)"
    by (auto simp: switchover_def bindP_def seqP_def modify_def ensuring_def split: prod.splits sum.splits)
  from never_choice [OF body [unfolded switch_body_def] operation_never]
  obtain w where "(if reconcile = None then with_watch (reconcile_existing ''/etc/hat-control/maintenance'' INGRESS)
        else ret False) u = (Inr True, w)" by blast
  with u show ?thesis by (auto simp: ret_def split: if_splits)
qed simp

end
