(* ===== verification/Recover.thy ===== *)
theory Recover
  imports Switchover
begin

text \<open>
  \<open>hat/recovery.py\<close>, \<open>recover\<close>: after B was fenced from outside, the cold A is restored to a selected cut, compared with
  an independent restore, activated in a new epoch and routed to; then it stops, before the tail of \<open>rejoin\<close>. The
  paths are the defaults. The world is the driver's; \<open>state\<close> of the code is \<open>known\<close>.
\<close>

section \<open>What is taken in\<close>

definition MAINTENANCE :: string where "MAINTENANCE = ''/etc/hat-control/maintenance''"
definition RECOVERY_INPUT :: string where "RECOVERY_INPUT = ''/etc/hat-control/recovery-input.json''"

record recovery =
  in_value :: json
  in_protected :: json
  in_writer :: json
  in_death :: json
  in_seal :: json
  in_sealed :: string

definition field :: "recovery \<Rightarrow> string \<Rightarrow> json" where
  "field r k = fld (in_value r) k"

definition writer_differs :: "json \<Rightarrow> json \<Rightarrow> bool res" where
  "writer_differs w input = itm input ''authority_operation'' (\<lambda>op. itm input ''source_epoch'' (\<lambda>e.
     differs w (JObj [(''operation'', op), (''writer'', JStr ''B''), (''epoch'', e)])))"

definition preflight_row :: "string \<Rightarrow> 'w journal_scheme \<Rightarrow> string option" where
  "preflight_row ident s = map_option s_evidence
     (find (\<lambda>r. s_phase r = ''preflight'' \<and> s_status r = Done) (steps_of ident (work s)))"

definition source_boot_checked :: "json \<Rightarrow> string option \<Rightarrow> unit res" where
  "source_boot_checked input row = reraise [TypeError, KeyError, ValueError, IndexError] RuntimeError
     (bindR (case row of None \<Rightarrow> Inl TypeError | Some raw \<Rightarrow> loads raw) (\<lambda>v.
      itm input ''source_boot'' (\<lambda>b. itm v ''candidate_boot'' (\<lambda>c. raise_if (differs b c) RuntimeError (Inr ())))))"

definition not_in_maintenance :: "('w host_scheme, unit) prog" where
  "not_in_maintenance = raise_when (\<lambda>s. Inr (h_there MAINTENANCE s)) RuntimeError"

text \<open>The operation of the guard has no new epoch yet; only commands run under it.\<close>

definition provisional :: "json \<Rightarrow> operation" where
  "provisional w = \<lparr>o_id = str_val (fld w ''operation''), o_source = ''B'', o_target = ''A'',
     o_source_epoch = str_val (fld w ''epoch''), o_new_epoch = []\<rparr>"

definition first_state :: "json \<Rightarrow> json \<Rightarrow> json" where
  "first_state input seal = JObj [(''ingress_touched'', JBool False), (''fault_seal'', seal),
     (''A'', JObj [(''boot_id'', fld input ''candidate_boot''), (''epoch'', fld input ''candidate_epoch'')])]"

definition guard :: "json \<Rightarrow> string \<Rightarrow> json \<Rightarrow> json \<Rightarrow> ('w acceptor_scheme, unit) prog" where
  "guard w intake input seal = modify (\<lambda>s. s\<lparr>area := intake, running_op := provisional w,
     known := first_state input seal, marker := MAINTENANCE, fresh_hold := None\<rparr>)"

definition producer_dead :: "json \<Rightarrow> ('w controller_scheme, json) prog" where
  "producer_dead input =
     bindP (lift (getitem input ''producer_unit'')) (\<lambda>u.
     bindP (lift (getitem input ''producer_cgroup'')) (\<lambda>c.
     bindP (producer_stopped u c) (\<lambda>v. lift (producer_proof v u))))"

text \<open>The fault ledger is read, sealed, its producer proved dead, and the seal checked.\<close>

definition seal_input :: "json \<Rightarrow> json \<Rightarrow> ('w acceptor_scheme, (string \<times> string \<times> json) \<times> json list \<times> json) prog" where
  "seal_input w input =
     bindP (lift (text_item input ''fault_ledger'')) (\<lambda>path.
     bindP (reading (owned_bytes path (nat MAX_ARTIFACT) (Some CONTROLLER_ROOT))) (\<lambda>raw.
     bindP (lift (text_item input ''source_epoch'')) (\<lambda>epoch.
     bindP (reading (read_closed_ledger path epoch)) (\<lambda>events.
     bindP (seal_fault CONTROLLER_ROOT input raw) (\<lambda>(intake, sealed, seal).
     seqP (guard w intake input seal)
     (bindP (producer_dead input) (\<lambda>death.
     bindP (recheck_fault input CONTROLLER_ROOT sealed seal) (\<lambda>_.
     ret ((intake, sealed, seal), events, death)))))))))"

text \<open>The intake directory becomes the directory of the operation.\<close>

definition adopt :: "operation \<Rightarrow> string \<Rightarrow> json list \<Rightarrow> ('w controller_scheme, unit) prog" where
  "adopt q intake events = (let dir = path_join CONTROLLER_ROOT (o_id q) in
     seqP (rename intake dir)
     (seqP (fsync_parent dir)
     (seqP (learn ''events'' (JArr events)) (modify (\<lambda>s. s\<lparr>area := dir, running_op := q\<rparr>)))))"

definition take_in :: "(driver, operation \<times> recovery) prog" where
  "take_in =
     bindP (with_watch (current_writer INGRESS)) (\<lambda>w.
     bindP (with_io (reading (load_input RECOVERY_INPUT CONTROLLER_ROOT))) (\<lambda>(input, protected).
     seqP (raise_when (\<lambda>_. writer_differs w input) RuntimeError)
     (seqP (\<lambda>s. (source_boot_checked input (preflight_row (str_val (fld w ''operation'')) s), s))
     (seqP (with_io not_in_maintenance)
     (bindP (with_io (seal_input w input)) (\<lambda>((intake, sealed, seal), events, death).
     bindP (lift (getitem input ''source_epoch'')) (\<lambda>epoch.
     bindP (begin_op ''B'' ''A'' epoch) (\<lambda>q.
     seqP (raise_when (\<lambda>_. notR (differs (JStr (o_new_epoch q)) epoch)) RuntimeError)
     (seqP (with_io (adopt q intake events))
     (ret (q, \<lparr>in_value = input, in_protected = protected, in_writer = w, in_death = death, in_seal = seal,
        in_sealed = path_join (path_join CONTROLLER_ROOT (o_id q)) (path_name sealed)\<rparr>)))))))))))"

section \<open>The actions\<close>

definition learn_at :: "string \<Rightarrow> string \<Rightarrow> json \<Rightarrow> ('w controller_scheme, unit) prog" where
  "learn_at who key v = bindP (gets (\<lambda>s. fld (known s) who)) (\<lambda>x. learn who (JObj (dict_set (items_in x) key v)))"

definition expected_replica :: "recovery \<Rightarrow> json \<Rightarrow> string res" where
  "expected_replica r candidate = bindR (get_or candidate ''replica_config'' (JStr [])) (\<lambda>c. bindR (as_text c) (\<lambda>t.
     replace_replica_prefix t (str_val (field r ''candidate_epoch'')) (str_val (field r ''source_epoch''))))"

definition preflight_value :: "recovery \<Rightarrow> json \<Rightarrow> json" where
  "preflight_value r la = JObj
     [(''authority_operation'', fld (in_writer r) ''operation''), (''source_epoch'', fld (in_writer r) ''epoch''),
      (''source_boot'', field r ''source_boot''), (''candidate_boot'', field r ''candidate_boot''),
      (''candidate_epoch'', field r ''candidate_epoch''), (''producer'', in_death r),
      (''fault_ledger_sha256'', fld (in_seal r) ''sha256''), (''fault_seal'', in_seal r),
      (''protected_baseline'', in_protected r), (''source_health'', field r ''source_health''), (''ledger_authority'', la)]"

definition recover_preflight :: "operation \<Rightarrow> recovery \<Rightarrow> (acceptor, json) prog" where
  "recover_preflight q r =
     bindP (hcall ''gethostname'' JNull) (\<lambda>host.
     seqP (raise_when (\<lambda>s. bindR (setting_in [''hostname''] s) (\<lambda>h. differs host h)) ValueError)
     (seqP not_in_maintenance
     (bindP (remote ''A'' ''inspect-cold'' JNull 180) (\<lambda>candidate.
     bindP (lift (expected_replica r candidate)) (\<lambda>expected.
     seqP (raise_when (\<lambda>_. differs (JStr expected) (field r ''source_replica'')) RuntimeError)
     (bindP (lift (getitem candidate ''replica_config'')) (\<lambda>replica.
     bindP (lift (cold candidate (JStr (o_id q)) (field r ''candidate_epoch'') (field r ''candidate_boot'') ''writer''
        (field r ''source_config'') replica)) (\<lambda>_.
     seqP (oracle_identity (field r ''source_config'') (path_join ORACLE_ROOT ''support'') ORACLE_BIN_ROOT)
     (bindP (capture_protected_authority (str_val (field r ''protected_ledger'')) ''d3-recovery-input''
        (Some (fld (field r ''source_config'') ''support'', fld (field r ''source_config'') ''binaries''))) (\<lambda>la.
     bindP (reading (h_text INGRESS)) (\<lambda>text'.
     bindP (lift (route_to text' ''B'' ''A'' ROUTE_ENDPOINTS)) (\<lambda>_.
     bindP (gets (\<lambda>s. path_join (area s) ''ingress-before.cfg'')) (\<lambda>before.
     bindP (reading (h_read INGRESS)) (\<lambda>raw.
     seqP (write_private before raw)
     (seqP (learn ''candidate'' candidate)
     (ret (preflight_value r la)))))))))))))))))"

definition recover_fence :: "moments \<Rightarrow> (json \<Rightarrow> string list res) \<Rightarrow> (acceptor, json) prog" where
  "recover_fence moment resolve = remember ''fence'' (fence moment resolve ''inspect'' ''offline'' ''B'')"

definition protected_positions :: "recovery \<Rightarrow> json res" where
  "protected_positions r = get_in (in_protected r) [''request'', ''positions'']"

definition recover_cut :: "moments \<Rightarrow> recovery \<Rightarrow> (acceptor, json) prog" where
  "recover_cut moment r =
     bindP (lift (protected_positions r)) (\<lambda>low.
     bindP (select_cut moment (str_val (field r ''source_replica'')) low) (\<lambda>selected.
     seqP (raise_when (\<lambda>_. Inr (\<not> is_obj selected)) RuntimeError)
     (bindP (lift (get_none selected ''positions'')) (\<lambda>ps.
     seqP (lift (validate_cut ps))
     (seqP (raise_when (\<lambda>_. positions_below ps low) RuntimeError)
     (seqP (learn ''cut'' ps) (ret selected)))))))"

definition prepared_differs :: "operation \<Rightarrow> recovery \<Rightarrow> json \<Rightarrow> bool res" where
  "prepared_differs q r v = any_of
     [got_not v ''operation'' (o_id q), not_value v ''original_epoch'' (field r ''candidate_epoch''),
      not_value v ''original_boot_id'' (field r ''candidate_boot''), got_not v ''epoch'' (o_source_epoch q),
      got_not v ''role'' ''standby'']"

definition restored_differs :: "operation \<Rightarrow> recovery \<Rightarrow> json \<Rightarrow> string \<Rightarrow> json \<Rightarrow> bool res" where
  "restored_differs q r c digest v = got v ''signature'' (\<lambda>sig. any_of
     [got_not v ''operation'' (o_id q), itm v ''cut'' (\<lambda>x. differs x c),
      not_value v ''original_epoch'' (field r ''candidate_epoch''), not_value v ''original_boot_id'' (field r ''candidate_boot''),
      got_not v ''epoch'' (o_source_epoch q), got_not v ''source_epoch'' (o_source_epoch q),
      got_not v ''fence_digest'' digest, Inr (\<not> is_obj sig), notR (set_is sig DBS), some_not_hex64 sig])"

definition recover_restore :: "operation \<Rightarrow> recovery \<Rightarrow> (acceptor, json) prog" where
  "recover_restore q r =
     bindP (remote ''A'' ''prepare-recovery'' (JObj [(''source_epoch'', JStr (o_source_epoch q))]) 180) (\<lambda>prepared.
     seqP (raise_when (\<lambda>_. prepared_differs q r prepared) RuntimeError)
     (seqP (learn_at ''A'' ''epoch'' (JStr (o_source_epoch q)))
     (bindP (reading (known_in [''fence''])) (\<lambda>f. let digest = sha256_hex (dumps_sorted f) in
     bindP (reading (known_in [''cut''])) (\<lambda>c.
     bindP (remote ''A'' ''restore-recovery'' (JObj [(''cut'', c), (''fence_digest'', JStr digest)]) 180) (\<lambda>restored.
     seqP (lift (got restored ''cut'' validate_cut))
     (seqP (raise_when (\<lambda>_. restored_differs q r c digest restored) RuntimeError)
     (seqP (learn ''restore'' restored)
     (seqP (learn ''fence_digest'' (JStr digest)) (ret restored))))))))))"

definition images_differ :: "json \<Rightarrow> 'w controller_scheme \<Rightarrow> bool res" where
  "images_differ v s = any_of
     [bindR (get_in v [''request'', ''positions'']) (\<lambda>x. bindR (known_in [''cut''] s) (\<lambda>y. differs x y)),
      itm v ''signature'' (\<lambda>x. bindR (known_in [''restore'', ''signature''] s) (\<lambda>y. differs x y))]"

definition recover_compare :: "nat \<Rightarrow> recovery \<Rightarrow> (acceptor, json) prog" where
  "recover_compare fuel r =
     bindP (recheck_fault (in_value r) CONTROLLER_ROOT (in_sealed r) (in_seal r)) (\<lambda>_.
     bindP (reading (known_in [''cut''])) (\<lambda>c.
     bindP (run_oracle fuel ''compare'' (field r ''source_replica'') c (str_val (field r ''protected_ledger'')) (Some (in_sealed r)))
       (\<lambda>v.
     seqP (bindP (lift (cut_report v None)) (\<lambda>_. ret ()))
     (seqP (raise_when (images_differ v) RuntimeError)
     (bindP (lift (get_in v [''checks''])) (\<lambda>checks. bindP (lift (get_none checks ''fault_outcomes'')) (\<lambda>outcomes.
     bindP (reading (known_in [''events''])) (\<lambda>events.
     bindP (lift (bindR (iter_of events) (fault_outcomes outcomes))) (\<lambda>_.
     seqP (learn ''comparison'' v) (ret v))))))))))"

definition activation_differs :: "operation \<Rightarrow> json \<Rightarrow> 'w controller_scheme \<Rightarrow> bool res" where
  "activation_differs q v s = any_of
     [got_not v ''epoch'' (o_new_epoch q),
      got v ''signature'' (\<lambda>x. bindR (known_in [''comparison'', ''signature''] s) (\<lambda>y. differs x y)),
      got v ''fence_digest'' (\<lambda>x. bindR (known_in [''fence_digest''] s) (\<lambda>y. differs x y))]"

definition probe_writer :: "operation \<Rightarrow> recovery \<Rightarrow> (acceptor, json) prog" where
  "probe_writer q r = bindP (remote ''A'' ''probe-new'' JNull 180) (\<lambda>v.
     lift (writer v (JStr (o_new_epoch q)) (field r ''candidate_boot'') (field r ''source_config'')))"

definition recover_activate :: "moments \<Rightarrow> (json \<Rightarrow> string list res) \<Rightarrow> operation \<Rightarrow> recovery \<Rightarrow> (acceptor, json) prog" where
  "recover_activate moment resolve q r =
     bindP (recheck_fault (in_value r) CONTROLLER_ROOT (in_sealed r) (in_seal r)) (\<lambda>_.
     bindP (producer_dead (in_value r)) (\<lambda>producer.
     bindP (fence moment resolve ''inspect'' ''offline'' ''B'') (\<lambda>receipt.
     bindP (remote ''A'' ''inspect-cold'' JNull 180) (\<lambda>current.
     bindP (lift (cold current (JStr (o_id q)) (JStr (o_source_epoch q)) (field r ''candidate_boot'') ''standby''
        (field r ''source_config'') (field r ''source_replica''))) (\<lambda>_.
     bindP (reading (known_in [''comparison'', ''signature''])) (\<lambda>sig. bindP (reading (known_in [''fence_digest''])) (\<lambda>digest.
     bindP (remote ''A'' ''prepare'' (JObj [(''new_epoch'', JStr (o_new_epoch q)), (''signature'', sig), (''fence_digest'', digest)]) 180)
       (\<lambda>prepared.
     seqP (raise_when (activation_differs q prepared) RuntimeError)
     (seqP (learn_at ''A'' ''epoch'' (JStr (o_new_epoch q)))
     (bindP (remote ''A'' ''activate-new'' JNull 180) (\<lambda>activated.
     bindP (probe_writer q r) (\<lambda>w.
     seqP (learn ''new'' w)
     (ret (JObj [(''producer'', producer), (''source_fence'', receipt), (''prepare'', prepared),
       (''activate'', activated), (''probe'', w)]))))))))))))))"

definition recover_baseline :: "nat \<Rightarrow> operation \<Rightarrow> recovery \<Rightarrow> (acceptor, json) prog" where
  "recover_baseline fuel q r =
     bindP (reading (known_in [''new'', ''status''])) (\<lambda>st.
     bindP (reading (known_in [''new'', ''replica_config''])) (\<lambda>replica.
     bindP (lift (getitem st ''positions'')) (\<lambda>ps.
     bindP (run_oracle fuel ''baseline'' replica ps (str_val (field r ''protected_ledger'')) None) (\<lambda>v.
     seqP (bindP (lift (cut_report v (Some (o_new_epoch q)))) (\<lambda>_. ret ()))
     (seqP (raise_when (\<lambda>_. bindR (get_in v [''request'', ''positions'']) (\<lambda>x. differs x ps)) RuntimeError)
     (seqP (learn ''baseline'' v) (ret v)))))))"

definition recover_route :: "operation \<Rightarrow> (acceptor, json) prog" where
  "recover_route q =
     bindP (gets area) (\<lambda>dir.
     bindP (reading (h_text (path_join dir ''ingress-before.cfg''))) (\<lambda>old.
     bindP (lift (route_to old ''B'' ''A'' ROUTE_ENDPOINTS)) (\<lambda>text'. let candidate = path_join dir ''haproxy.cfg'' in
     seqP (write_private candidate text')
     (bindP (control_command [''haproxy'', ''-c'', ''-f'', candidate] JNull 180) (\<lambda>_.
     seqP (put_route ''/etc/hat-ingress/haproxy.d3-pending'' INGRESS text')
     (bindP (reading (file_digest INGRESS)) (\<lambda>digest.
     seqP (start_ingress digest)
     (ret (JObj [(''writer'', JStr ''A''), (''epoch'', JStr (o_new_epoch q)), (''config_sha'', JStr digest)])))))))))"

definition published :: "json \<Rightarrow> 'w controller_scheme \<Rightarrow> bool res" where
  "published positions s = all_of (map (\<lambda>db. itm positions db (\<lambda>x.
     bindR (known_in [''baseline'', ''request'', ''positions'', db] s) (\<lambda>y. py_less y x))) DBS)"

fun await_recovered :: "nat \<Rightarrow> rat \<Rightarrow> operation \<Rightarrow> recovery \<Rightarrow> (acceptor, json \<times> json) prog" where
  "await_recovered 0 deadline q r = raiseP StopIteration"
| "await_recovered (Suc n) deadline q r =
     bindP (probe_writer q r) (\<lambda>w.
     bindP (lift (get_in w [''status'', ''positions''])) (\<lambda>ps.
     bindP (reading (published ps)) (\<lambda>there.
     if there then ret (w, ps)
     else bindP monotonic (\<lambda>now. if deadline < now then raiseP RuntimeError
       else seqP (sleep 1) (await_recovered n deadline q r)))))"

definition recover_verify :: "nat \<Rightarrow> operation \<Rightarrow> recovery \<Rightarrow> (acceptor, json) prog" where
  "recover_verify fuel q r =
     seqP (verify_restore (str_val (field r ''protected_ledger'')))
     (bindP (reading (owned_bytes CREDENTIALS MAX_INPUT None)) (\<lambda>_.
     bindP (gets (\<lambda>s. path_join (area s) ''new-writes.jsonl'')) (\<lambda>fresh_path.
     seqP (smoke CREDENTIALS fresh_path)
     (bindP (authorize_fresh_writes fresh_path) (\<lambda>_.
     bindP (reading (owned_bytes fresh_path (nat MAX_ARTIFACT) (Some CONTROLLER_ROOT))) (\<lambda>_.
     bindP monotonic (\<lambda>start.
     bindP (await_recovered fuel (start + 90) q r) (\<lambda>(w, ps).
     bindP (lift (getitem w ''replica_config'')) (\<lambda>replica.
     bindP (run_oracle fuel ''new-writes'' replica ps fresh_path None) (\<lambda>v.
     seqP (bindP (lift (cut_report v None)) (\<lambda>_. ret ()))
     (seqP (raise_when (\<lambda>_. bindR (get_in v [''request'', ''positions'']) (\<lambda>x. differs x ps)) RuntimeError)
     (ret (JObj [(''writer'', JStr ''A''), (''epoch'', JStr (o_new_epoch q)), (''positions'', ps), (''new_writes'', v)])))))))))))))"

section \<open>The driver\<close>

definition recover_actions ::
  "nat \<Rightarrow> moments \<Rightarrow> (json \<Rightarrow> string list res) \<Rightarrow> operation \<Rightarrow> recovery \<Rightarrow> (acceptor, json) prog list" where
  "recover_actions fuel moment resolve q r =
     [recover_preflight q r, close_ingress, recover_fence moment resolve, recover_cut moment r, recover_restore q r,
      recover_compare fuel r, recover_activate moment resolve q r, recover_baseline fuel q r, recover_route q,
      recover_verify fuel q r]"

definition evidence_of :: "string \<Rightarrow> 'w journal_scheme \<Rightarrow> json res" where
  "evidence_of ident s = mapR (\<lambda>kvs. JObj (dict_of kvs))
     (traverse (\<lambda>x. mapR (\<lambda>v. (s_phase x, v)) (loads (s_evidence x)))
       (filter (\<lambda>x. s_status x = Done) (steps_of ident (work s))))"

definition recover_steps ::
  "nat \<Rightarrow> moments \<Rightarrow> (json \<Rightarrow> string list res) \<Rightarrow> operation \<Rightarrow> recovery \<Rightarrow> (driver, string) prog" where
  "recover_steps fuel moment resolve q r =
     seqP (run_steps (zip (take 10 D3_PHASES) (recover_actions fuel moment resolve q r)))
     (bindP (\<lambda>s. (evidence_of (o_id q) s, s)) (\<lambda>evidence.
     seqP (lift (validate_d3_proof (op_json q) evidence True))
     (ret (o_id q))))"

text \<open>The first failure is kept; the ingress is closed whatever closing it raises.\<close>

definition recover_failed :: "string \<Rightarrow> exn \<Rightarrow> (acceptor, unit) prog" where
  "recover_failed phase e =
     bindP (gets (\<lambda>s. path_join (area s) ''failure.json'')) (\<lambda>failure.
     bindP (gets (h_there failure)) (\<lambda>there.
     seqP (if there then ret () else atomic_json failure (JObj [(''phase'', JStr phase), (''error'', JStr (exn_name e))]) 384)
     (on_exn (bindP close_ingress (\<lambda>_. ret ())) (\<lambda>_. ret ()))))"

definition recover_body ::
  "nat \<Rightarrow> moments \<Rightarrow> (json \<Rightarrow> string list res) \<Rightarrow> (driver, string) prog" where
  "recover_body fuel moment resolve =
     bindP take_in (\<lambda>(q, r).
     on_exn (recover_steps fuel moment resolve q r)
       (\<lambda>e. bindP (gets nxt) (\<lambda>n. seqP (with_io (recover_failed (nth D3_PHASES (min n 9)) e)) (raiseP e))))"

definition recover :: "nat \<Rightarrow> moments \<Rightarrow> (json \<Rightarrow> string list res) \<Rightarrow> (driver, string) prog" where
  "recover fuel moment resolve =
     seqP (modify (\<lambda>s. s\<lparr>base := CONTROLLER_ROOT\<rparr>))
     (seqP enter_journal (ensuring (recover_body fuel moment resolve) exit_journal))"

end
