(* ===== verification/Recover_Properties.thy ===== *)
theory Recover_Properties
  imports Switchover_Properties Recover
begin

text \<open>
  The driver of a recovery: what its steps can and cannot reach.
\<close>

section \<open>A closed ledger, read, is not a fault ledger\<close>

lemma any_of_Inr: "any_of (Inr b # cs) = (if b then Inr True else any_of cs)"
  by simp

lemma ledger_event_not_start:
  assumes "ledger_event st e = Inr st'"
  shows "is_obj e \<and> start_invalid e = Inr True"
proof -
  from assms obtain kvs k where e: "e = JObj kvs" "get_or e ''event'' JNull = Inr (JStr k)" "k \<in> set counters"
    by (auto simp: ledger_event_def res_simps str_and_iff)
  from e(3) have "k \<noteq> ''start''" by (auto simp: counters_def)
  with e show ?thesis by (simp add: start_invalid_def any_of_Inr differs_def notR_simps)
qed

lemma foldR_each: "foldR f st xs = Inr st' \<Longrightarrow> x \<in> set xs \<Longrightarrow> \<exists>a b. f a x = Inr b"
  by (induction xs arbitrary: st) (auto simp: res_simps split: sum.splits)

lemma read_ledger_events: "read_ledger raw epoch = Inr es \<Longrightarrow> e \<in> set es \<Longrightarrow> \<exists>a b. ledger_event a e = Inr b"
  by (auto simp: read_ledger_def res_simps Let_def raise_if_eq_Inr intro: foldR_each)

lemma read_ledger_refused:
  assumes "read_ledger raw epoch = Inr es"
  shows "fault_operations (JArr es) = Inl ValueError"
proof (cases "2 \<le> length es \<and> length es \<le> 2002")
  case True
  then have "es \<noteq> []" by auto
  then have "hd es \<in> set es" "last es \<in> set es" by simp_all
  with read_ledger_events [OF assms] ledger_event_not_start
  have "is_obj (hd es)" "start_invalid (hd es) = Inr True" "is_obj (last es)" by blast+
  with True show ?thesis by (simp add: fault_operations_def fault_operations_inner_def any_of_Inr raise_if_simps reraise_def lookup_errors_def caught_def isa_refl)
next
  case False
  then show ?thesis by (auto simp: fault_operations_def fault_operations_inner_def any_of_Inr raise_if_simps reraise_def lookup_errors_def caught_def isa_refl)
qed

section \<open>The comparison of a recovery cannot return\<close>

lemma never_iff: "never m \<longleftrightarrow> (\<forall>s x t. m s \<noteq> (Inr x, t))"
  unfolding never_def isl_def by (metis fst_conv prod.collapse sum.exhaust sum.distinct(1))

lemma never_reads: "(\<And>s x. f s = Inr x \<Longrightarrow> never (k x)) \<Longrightarrow> never (bindP (\<lambda>s. (f s, s)) k)"
  by (auto simp: never_iff res_simps)

lemma never_lifted: "(\<And>x. r = Inr x \<Longrightarrow> never (k x)) \<Longrightarrow> never (bindP (lift r) k)"
  by (auto simp: never_iff lift_def res_simps)

lemma never_lift: "never (lift (Inl e))"
  by (simp add: never_def lift_def)

lemma never_on_exn: "never m \<Longrightarrow> (\<And>e. never (h e)) \<Longrightarrow> never (on_exn m h)"
  by (auto simp: never_iff on_exn_def split: prod.splits sum.splits)

lemma never_ensuring: "never m \<Longrightarrow> never (ensuring m c)"
  by (auto simp: never_iff ensuring_def split: prod.splits sum.splits)

lemma never_seq_first: "never m \<Longrightarrow> never (seqP m k)"
  unfolding seqP_def by (rule never_first)

lemma never_closing: "never m \<Longrightarrow> never (closing_after m as)"
  unfolding closing_after_def by (intro never_first never_on_exn never_next never_seq never_raise)

lemma never_if: "(b \<Longrightarrow> never x) \<Longrightarrow> (\<not> b \<Longrightarrow> never y) \<Longrightarrow> never (if b then x else y)"
  by simp

lemma fault_inputs_never: "never (fault_inputs p)"
proof -
  have "never (bindP (lift (read_ledger raw e)) (\<lambda>events. seqP m (bindP (lift (fault_operations (JArr events))) k)))" for raw e k and m :: "('w acceptor_scheme, unit) prog"
    by (rule never_lifted) (simp add: read_ledger_refused never_seq never_first never_lift)
  then have key: "never (bindP (lift (read_ledger raw e)) (\<lambda>events. seqP m (bindP (lift (fault_operations (JArr events))) k)))"
    for raw e k and m :: "('w acceptor_scheme, unit) prog" .
  show ?thesis unfolding fault_inputs_def
    by (rule key never_raise never_if never_next never_seq never_pair)+
qed

lemma gather_never: "never (gather_request fuel phase r ps l f (''recovery-comparison'', epoch) ms gid)"
proof (cases ms)
  case (Pair x y)
  show ?thesis unfolding gather_request_def Let_def prod.case Pair simp_thms if_True
    by (rule never_first [OF fault_inputs_never] never_next never_seq never_pair)+
qed

lemma drop_never: "never (drop_request p e)"
  unfolding drop_request_def by (intro never_next never_seq never_raise)

lemma comparison_profile:
  "derive_restore_profile q (JStr ''compare'') True = Inr (profile, rest) \<Longrightarrow> profile = ''recovery-comparison''"
  by (auto simp: derive_restore_profile_def restore_matrix_def res_simps bindR_def
    split: sum.splits if_splits json.splits option.splits)

lemma never_comparison:
  assumes "\<And>e p c. never (k ''recovery-comparison'' e p c)"
  shows "never (bindP (\<lambda>s. (derive_restore_profile (g s) (JStr ''compare'') (Some f \<noteq> None), s)) (\<lambda>(a, e, p, c). k a e p c))"
proof (rule never_reads)
  fix s x assume "derive_restore_profile (g s) (JStr ''compare'') (Some f \<noteq> None) = Inr x"
  then have "fst x = ''recovery-comparison''" by (cases x) (auto dest: comparison_profile)
  with assms show "never (case x of (a, e, p, c) \<Rightarrow> k a e p c)" by (cases x) simp
qed

lemma request_never: "never (acceptance_request fuel ''compare'' r ps l (Some f) e)"
  unfolding acceptance_request_def
  by (rule never_comparison never_on_exn gather_never drop_never never_seq never_next)+

lemma recovery_oracle_never: "never (run_oracle fuel ''compare'' r ps l (Some f))"
  unfolding run_oracle_def oracle_body_def
  by (intro never_seq never_next never_closing never_ensuring never_first request_never)

lemma recover_compare_never: "never (recover_compare fuel r)"
  unfolding recover_compare_def
  by (rule never_first [OF recovery_oracle_never] never_next)+

lemma recover_plan: "zip (take 10 D3_PHASES) (recover_actions fuel moment resolve q r)
    = zip (take 5 D3_PHASES) (take 5 (recover_actions fuel moment resolve q r)) @ (''compare'', recover_compare fuel r)
      # zip (drop 6 (take 10 D3_PHASES)) (drop 6 (recover_actions fuel moment resolve q r))"
  by (simp add: D3_PHASES_def recover_actions_def del: zip_append)

lemma recover_steps_never: "never (recover_steps fuel moment resolve q r)"
  unfolding recover_steps_def recover_plan run_steps_append run_steps.simps
  by (intro never_seq_first never_seq never_first never_step never_io recover_compare_never)

text \<open>C37 No recovery returns either. Whatever the nodes and the oracle answer, \<open>recover\<close> ends with an exception: its
  comparison derives the operations of the fault ledger from what the reader of a closed ledger gives, the events without
  the start and stop markers, and the derivation refuses every ledger without them.\<close>

theorem recovery_never_returns: "isl (fst (recover fuel moment resolve d))"
proof -
  have "never (recover_body fuel moment resolve)"
    unfolding recover_body_def
    by (intro never_next never_pair never_on_exn recover_steps_never never_seq never_raise)
  then have "never (recover fuel moment resolve)"
    unfolding recover_def by (intro never_seq never_ensuring)
  then show ?thesis by (simp add: never_def)
qed

end
