(* ===== verification/Rejoin.thy ===== *)
theory Rejoin
  imports Recover
begin

text \<open>
  \<open>hat/control.py\<close>, \<open>rejoin\<close> and \<open>reconcile_rejoin_boot\<close>: after a verified recovery the old writer B is powered on,
  taken back as a follower of A in the new epoch, and the operation is finished; a boot step that failed after the
  power action is completed from the evidence it left, without another power action. The timeout of a call is a whole
  number of seconds here.
\<close>

section \<open>What was retained\<close>

record rejoining =
  j_route :: json
  j_config :: json
  j_activated :: json
  j_candidate :: json
  j_old :: json

definition j_boot :: "rejoining \<Rightarrow> json" where
  "j_boot r = (if truthy (j_activated r) then j_activated r else j_candidate r)"

definition retained :: "json \<Rightarrow> rejoining res" where
  "retained prev = itm prev ''route'' (\<lambda>route.
     bindR (get_or prev ''activate'' (JObj [])) (\<lambda>a. bindR (get_or a ''probe'' (JObj [])) (\<lambda>p.
     bindR (get_or p ''config'' (JObj [])) (\<lambda>c. got p ''boot_id'' (\<lambda>activated.
     bindR (get_or prev ''preflight'' (JObj [])) (\<lambda>pf. got pf ''candidate_boot'' (\<lambda>candidate.
     itm prev ''preflight'' (\<lambda>pf'. got pf' ''source_boot'' (\<lambda>old.
     Inr \<lparr>j_route = route, j_config = c, j_activated = activated, j_candidate = candidate, j_old = old\<rparr>)))))))))"

definition same_release :: "json \<Rightarrow> rejoining \<Rightarrow> bool res list" where
  "same_release c r = map (\<lambda>k. got c k (\<lambda>x. got (j_config r) k (\<lambda>y. differs x y))) [''binaries'', ''support'']"

definition is_not_true :: "json \<Rightarrow> string \<Rightarrow> bool res" where
  "is_not_true v k = mapR (\<lambda>x. x \<noteq> JBool True) (get_none v k)"

text \<open>A is still the writer of the new epoch; its positions.\<close>

definition writer_positions :: "operation \<Rightarrow> rejoining \<Rightarrow> json \<Rightarrow> json \<Rightarrow> json res" where
  "writer_positions q r v boot =
     bindR (get_or v ''config'' (JObj [])) (\<lambda>c. bindR (get_or v ''status'' (JObj [])) (\<lambda>st.
     got st ''positions'' (\<lambda>ps. bindR (validate_cut ps) (\<lambda>_.
     raise_if (any_of ([not_value v ''boot_id'' boot, got_not c ''role'' ''writer'', got_not c ''epoch'' (o_new_epoch q)]
       @ same_release c r @ [got_not st ''epoch'' (o_new_epoch q), is_not_true st ''healthy'', is_not_true st ''trailbase_running'']))
       RuntimeError (Inr ps)))))"

section \<open>Booting B\<close>

definition route_stale :: "operation \<Rightarrow> rejoining \<Rightarrow> 'w host_scheme \<Rightarrow> bool res" where
  "route_stale q r s = any_of
     [got_not (j_route r) ''writer'' ''A'', got_not (j_route r) ''epoch'' (o_new_epoch q),
      bindR (file_digest INGRESS s) (\<lambda>d. got (j_route r) ''config_sha'' (\<lambda>x. differs (JStr d) x))]"

definition route_moved :: "rejoining \<Rightarrow> 'w host_scheme \<Rightarrow> bool res" where
  "route_moved r s = bindR (file_digest INGRESS s) (\<lambda>d. got (j_route r) ''config_sha'' (\<lambda>x. differs (JStr d) x))"

text \<open>\<open>str(uuid.UUID(v)) == v\<close>.\<close>

definition canonical_uuid :: "json \<Rightarrow> bool" where
  "canonical_uuid v \<longleftrightarrow> str_and v (\<lambda>t. case split_on (CHR ''-'') t of
     [a, b, c, d, e] \<Rightarrow> map length [a, b, c, d, e] = [8, 4, 4, 4, 12] \<and> list_all is_hexlow (a @ b @ c @ d @ e)
   | _ \<Rightarrow> False)"

definition boot_not_new :: "json \<Rightarrow> json \<Rightarrow> bool" where
  "boot_not_new boot old \<longleftrightarrow> \<not> canonical_uuid boot \<or> py_eq boot old"

definition services_unsafe :: "json \<Rightarrow> bool res list" where
  "services_unsafe sv = [notR (set_is sv [''node_service'', ''restart'', ''legacy_services'']),
     got sv ''node_service'' (\<lambda>x. Inr (\<not> in_tuple x [''static'', ''disabled''])),
     got_not sv ''restart'' ''no'', got_not sv ''legacy_services'' ''masked'']"

definition quarantine_differs :: "operation \<Rightarrow> rejoining \<Rightarrow> string \<Rightarrow> json \<Rightarrow> bool res" where
  "quarantine_differs q r ident v =
     bindR (get_or v ''config'' (JObj [])) (\<lambda>c. bindR (get_or v ''services'' (JObj [])) (\<lambda>sv. any_of
     ([got_not v ''operation'' ident, got_not v ''epoch'' (o_source_epoch q),
       got v ''authority'' (\<lambda>x. Inr (\<not> in_tuple x [''absent'', ''stale''])), got_not v ''cgroup'' ''empty'',
       got_not v ''mutators'' ''none'', got_not c ''role'' ''writer'', got_not c ''epoch'' (o_source_epoch q)]
      @ same_release c r @ services_unsafe sv
      @ [got v ''replica_config'' (\<lambda>x. Inr (\<not> is_str x)),
         bindR (get_or v ''config_sha'' (JStr [])) hex64_fails, bindR (get_or v ''replica_sha'' (JStr [])) hex64_fails])))"

definition boot_unavailable :: "rejoining \<Rightarrow> bool res" where
  "boot_unavailable r = all_of [Inr (j_activated r \<noteq> JNull), Inr (j_candidate r \<noteq> JNull), differs (j_activated r) (j_candidate r)]"

definition receipt_unpinned :: "json \<Rightarrow> bool res" where
  "receipt_unpinned v = any_of [Inr (\<not> is_obj v), got_not v ''action'' ''power-on'', got_not v ''state'' ''running'']"

definition know_a :: "rejoining \<Rightarrow> json \<Rightarrow> ('w controller_scheme, unit) prog" where
  "know_a r ps = learn ''A'' (JObj [(''boot_id'', j_boot r), (''positions'', ps)])"

definition know_b :: "json \<Rightarrow> json \<Rightarrow> ('w controller_scheme, unit) prog" where
  "know_b boot v = bindP (lift (getitem v ''config_sha'')) (\<lambda>c. bindP (lift (getitem v ''replica_sha'')) (\<lambda>x.
     learn ''B'' (JObj [(''boot_id'', boot), (''config_sha'', c), (''replica_sha'', x)])))"

definition boot_b ::
  "nat \<Rightarrow> moments \<Rightarrow> (json \<Rightarrow> string list res) \<Rightarrow> operation \<Rightarrow> rejoining \<Rightarrow> string \<Rightarrow> (acceptor, json) prog" where
  "boot_b fuel moment resolve q r ident =
     seqP (raise_when (\<lambda>_. boot_unavailable r) RuntimeError)
     (seqP (raise_when (route_stale q r) RuntimeError)
     (seqP (raise_when (\<lambda>_. Inr (\<not> str_and (j_boot r) (\<lambda>t. t \<noteq> []))) RuntimeError)
     (bindP (remote ''A'' ''probe-new'' JNull 180) (\<lambda>probe.
     bindP (lift (writer_positions q r probe (j_boot r))) (\<lambda>ps.
     seqP (know_a r ps)
     (bindP (fence moment resolve ''power-on'' ''running'' ''B'') (\<lambda>receipt.
     seqP (raise_when (\<lambda>_. receipt_unpinned receipt) RuntimeError)
     (bindP (wait_reachable fuel ''B'' 90) (\<lambda>readiness.
     bindP (remote ''B'' ''inspect-cold'' JNull 180) (\<lambda>found_cold.
     bindP (lift (get_none found_cold ''boot_id'')) (\<lambda>boot.
     seqP (raise_when (\<lambda>_. Inr (boot_not_new boot (j_old r))) RuntimeError)
     (seqP (raise_when (\<lambda>_. quarantine_differs q r ident found_cold) RuntimeError)
     (seqP (know_b boot found_cold)
     (ret (JObj [(''receipt'', receipt), (''readiness'', readiness), (''cold'', found_cold), (''boot_id'', boot)])))))))))))))))"

section \<open>Rejoining\<close>

definition rejoin_differs :: "operation \<Rightarrow> string \<Rightarrow> json \<Rightarrow> 'w controller_scheme \<Rightarrow> bool res" where
  "rejoin_differs q ident v s = any_of
     ([got_not v ''operation'' ident, got_not v ''role'' ''standby'', got_not v ''epoch'' (o_new_epoch q),
       got_not v ''original_epoch'' (o_source_epoch q)]
      @ map (\<lambda>(k, old). got v k (\<lambda>x. bindR (known_in [''B'', old] s) (\<lambda>y. differs x y)))
        [(''original_boot_id'', ''boot_id''), (''original_config_sha'', ''config_sha''), (''original_replica_sha'', ''replica_sha'')])"

definition rejoin_b :: "operation \<Rightarrow> string \<Rightarrow> (acceptor, json) prog" where
  "rejoin_b q ident =
     bindP (remote ''B'' ''rejoin'' (JObj [(''new_epoch'', JStr (o_new_epoch q))]) 180) (\<lambda>v.
     seqP (lift (got v ''cut'' validate_cut))
     (seqP (raise_when (rejoin_differs q ident v) RuntimeError) (ret v)))"

definition standby_differs :: "operation \<Rightarrow> rejoining \<Rightarrow> json \<Rightarrow> json \<Rightarrow> json \<Rightarrow> 'w controller_scheme \<Rightarrow> bool res" where
  "standby_differs q r v c st s = got st ''processes'' (\<lambda>procs. any_of
     ([got v ''boot_id'' (\<lambda>x. bindR (known_in [''B'', ''boot_id''] s) (\<lambda>y. differs x y)),
       got_not c ''role'' ''standby'', got_not c ''epoch'' (o_new_epoch q)] @ same_release c r
      @ [got_not st ''role'' ''standby'', got_not st ''epoch'' (o_new_epoch q), is_not_true st ''healthy'',
         mapR (\<lambda>x. x \<noteq> JBool False) (get_none st ''trailbase_running''), Inr (\<not> is_obj procs), notR (set_is procs DBS),
         bindR (values_of procs) (\<lambda>xs. Inr (\<exists>x \<in> set xs. x \<noteq> JBool True)),
         not_value st ''refusals'' (JArr [])]))"

definition follower_reached :: "operation \<Rightarrow> rejoining \<Rightarrow> json \<Rightarrow> 'w controller_scheme \<Rightarrow> bool res" where
  "follower_reached q r v s =
     bindR (get_or v ''config'' (JObj [])) (\<lambda>c. bindR (get_or v ''status'' (JObj [])) (\<lambda>st.
     got st ''positions'' (\<lambda>ps. bindR (validate_cut ps) (\<lambda>_.
     raise_if (standby_differs q r v c st s) RuntimeError
     (all_of (map (\<lambda>db. itm ps db (\<lambda>x. bindR (known_in [''A'', ''positions'', db] s) (\<lambda>y. py_le y x))) DBS))))))"

text \<open>A probe that fails while the health check is not yet good is tried again until the deadline.\<close>

definition probe_follower :: "rat \<Rightarrow> (acceptor, json option) prog" where
  "probe_follower deadline = catching [RuntimeError, TimeoutExpired]
     (bindP monotonic (\<lambda>now. bindP (remote ''B'' ''probe-new'' JNull (\<lfloor>max 1 (min 10 (deadline - now))\<rfloor>)) (\<lambda>v. ret (Some v))))
     (ret None)"

fun await_follower :: "nat \<Rightarrow> rat \<Rightarrow> operation \<Rightarrow> rejoining \<Rightarrow> (acceptor, json) prog" where
  "await_follower 0 deadline q r = raiseP StopIteration"
| "await_follower (Suc n) deadline q r =
     bindP (probe_follower deadline) (\<lambda>result.
     bindP (case result of None \<Rightarrow> ret False | Some v \<Rightarrow> reading (follower_reached q r v)) (\<lambda>there.
     if there then ret (the result)
     else bindP monotonic (\<lambda>now. if deadline \<le> now then raiseP RuntimeError
       else seqP (sleep 1) (await_follower n deadline q r))))"

definition verify_redundancy :: "nat \<Rightarrow> operation \<Rightarrow> rejoining \<Rightarrow> (acceptor, json) prog" where
  "verify_redundancy fuel q r =
     bindP monotonic (\<lambda>start.
     bindP (await_follower fuel (start + 90) q r) (\<lambda>follower.
     bindP (remote ''A'' ''probe-new'' JNull 180) (\<lambda>final.
     bindP (reading (known_in [''A'', ''boot_id''])) (\<lambda>boot.
     bindP (lift (writer_positions q r final boot)) (\<lambda>_.
     seqP (raise_when (route_moved r) RuntimeError)
     (ret (JObj [(''writer'', JStr ''A''), (''epoch'', JStr (o_new_epoch q)), (''writer_probe'', final),
       (''followers'', follower)])))))))"

text \<open>After a reconciliation both nodes must still be what the retained evidence says.\<close>

definition resume_boot :: "operation \<Rightarrow> rejoining \<Rightarrow> json \<Rightarrow> (acceptor, unit) prog" where
  "resume_boot q r prev =
     bindP (lift (get_in prev [''rejoin_boot'', ''cold''])) (\<lambda>kept.
     seqP (raise_when (route_moved r) RuntimeError)
     (bindP (remote ''A'' ''probe-new'' JNull 180) (\<lambda>current.
     bindP (lift (writer_positions q r current (j_boot r))) (\<lambda>ps.
     seqP (know_a r ps)
     (bindP (lift (getitem kept ''boot_id'')) (\<lambda>boot.
     seqP (know_b boot kept)
     (bindP (remote ''B'' ''inspect-cold'' JNull 180) (\<lambda>v. raise_when (\<lambda>_. differs v kept) RuntimeError))))))))"

section \<open>The driver\<close>

definition open_rejoin :: "operation \<Rightarrow> string \<Rightarrow> ('w acceptor_scheme, unit) prog" where
  "open_rejoin q ident = modify (\<lambda>s. s\<lparr>area := path_join CONTROLLER_ROOT ident, running_op := q,
     known := JObj [(''A'', JObj []), (''ingress_touched'', JBool False)], marker := MAINTENANCE, fresh_hold := None\<rparr>)"

definition rejoin_steps ::
  "nat \<Rightarrow> moments \<Rightarrow> (json \<Rightarrow> string list res) \<Rightarrow> string \<Rightarrow> bool \<Rightarrow> operation \<Rightarrow> json \<Rightarrow> rejoining \<Rightarrow> (driver, string) prog" where
  "rejoin_steps fuel moment resolve ident boot_done q prev r =
     seqP (if boot_done then with_io (resume_boot q r prev)
           else bindP (step ''rejoin_boot'' (with_io (boot_b fuel moment resolve q r ident))) (\<lambda>_. ret ()))
     (seqP (step ''rejoin'' (with_io (rejoin_b q ident)))
     (seqP (step ''verify_redundancy'' (with_io (verify_redundancy fuel q r)))
     (seqP finish
     (seqP (with_io (bindP (gets (\<lambda>s. h_exists (marker s) s)) (\<lambda>there. if there then bindP (gets marker) unlink else ret ())))
     (ret ident)))))"

definition rejoin_failed :: "string \<Rightarrow> exn \<Rightarrow> (acceptor, unit) prog" where
  "rejoin_failed phase e =
     bindP (gets (\<lambda>s. path_join (area s) ''failure.json'')) (\<lambda>failure.
     bindP (gets (h_exists failure)) (\<lambda>there.
     if there then ret () else atomic_json failure (JObj [(''phase'', JStr phase), (''error'', JStr (exn_name e))]) 384))"

text \<open>On an open journal.\<close>

definition rejoin_open ::
  "nat \<Rightarrow> moments \<Rightarrow> (json \<Rightarrow> string list res) \<Rightarrow> string \<Rightarrow> bool \<Rightarrow> (driver, string) prog" where
  "rejoin_open fuel moment resolve ident boot_done =
     bindP (continue_rejoin (JStr ident) boot_done) (\<lambda>(q, prev).
     bindP (lift (retained prev)) (\<lambda>r.
     seqP (with_io (open_rejoin q ident))
     (on_exn (rejoin_steps fuel moment resolve ident boot_done q prev r)
       (\<lambda>e. bindP (gets nxt) (\<lambda>n. seqP (with_io (rejoin_failed (nth D3_PHASES (min n (length D3_PHASES - 1))) e)) (raiseP e))))))"

definition rejoin :: "nat \<Rightarrow> moments \<Rightarrow> (json \<Rightarrow> string list res) \<Rightarrow> string \<Rightarrow> (driver, string) prog" where
  "rejoin fuel moment resolve ident =
     seqP (modify (\<lambda>s. s\<lparr>base := CONTROLLER_ROOT\<rparr>))
     (seqP enter_journal (ensuring (rejoin_open fuel moment resolve ident False) exit_journal))"

end
