(* ===== verification/Rejoin_Boot.thy ===== *)
theory Rejoin_Boot
  imports Rejoin
begin

text \<open>
  \<open>hat/control.py\<close>, \<open>reconcile_rejoin_boot\<close> and \<open>main\<close>: the original power action and the cold report of B are found
  again in the records every command left, checked against the retained evidence and against fresh reads, and only then
  the boot step is completed and the rejoin continued on the same open journal.
\<close>

section \<open>The records of the commands\<close>

text \<open>\<open>Path(name).with_suffix('')\<close>.\<close>

definition drop_suffix :: "string \<Rightarrow> string" where
  "drop_suffix n = (let r = rev n; tail = takeWhile (\<lambda>c. c \<noteq> CHR ''.'') r; rest = dropWhile (\<lambda>c. c \<noteq> CHR ''.'') r in
     if tail \<noteq> [] \<and> rest \<noteq> [] \<and> tl rest \<noteq> [] then rev (tl rest) else n)"

definition is_stdout :: "string \<Rightarrow> bool" where
  "is_stdout n \<longleftrightarrow> strip_prefix (rev ''.stdout'') (rev n) \<noteq> None"

text \<open>A file beside the record: nothing when it is not there.\<close>

definition private_side :: "string \<Rightarrow> 'w host_scheme \<Rightarrow> unit res" where
  "private_side path s = (if h_exists path s then host_private path s else Inr ())"

definition side_value :: "string \<Rightarrow> 'w host_scheme \<Rightarrow> json res" where
  "side_value path s = (if h_exists path s then h_loads path s else Inr JNull)"

type_synonym command_record = "json \<times> json \<times> json"

definition stdout_record :: "string \<Rightarrow> 'w host_scheme \<Rightarrow> string \<Rightarrow> command_record option res" where
  "stdout_record dir s name =
     (let path = path_join dir name; stem = drop_suffix (drop_suffix name);
          intent = path_join dir (stem @ ''.intent.json''); outcome = path_join dir (stem @ ''.outcome.json'') in
      bindR (host_private path s) (\<lambda>_. bindR (h_lstat path s) (\<lambda>n.
      raise_if (Inr (4 * 1024 * 1024 < length (h_bytes n))) RuntimeError
      (case h_loads path s of
         Inl e \<Rightarrow> if caught [ValueError, OSError] e then Inr None else Inl e
       | Inr v \<Rightarrow> bindR (private_side intent s) (\<lambda>_. bindR (private_side outcome s) (\<lambda>_.
           bindR (side_value intent s) (\<lambda>i. bindR (side_value outcome s) (\<lambda>out. Inr (Some (v, i, out))))))))))"

definition stdout_records :: "string \<Rightarrow> 'w host_scheme \<Rightarrow> command_record list res" where
  "stdout_records dir s = mapR (List.map_filter id)
     (traverse (stdout_record dir s) (sort (filter is_stdout (names_in dir s))))"

section \<open>The one power action and the one cold report\<close>

definition trusted_b :: "'w controller_scheme \<Rightarrow> json res" where
  "trusted_b s = bindR (get_or (settings s) ''fence_targets'' (JObj [])) (\<lambda>ts. got ts ''B'' (\<lambda>target.
     raise_if (any_of [Inr (\<not> is_obj target), notR (set_is target TARGET_FIELDS), got_not target ''node'' ''fm2'',
       got target ''address'' (\<lambda>x. bindR (node_address ''B'' s) (\<lambda>y. differs x y))]) RuntimeError (Inr target)))"

definition argv_json :: "string list \<Rightarrow> json" where
  "argv_json ws = JArr (map JStr ws)"

definition power_argv :: json where
  "power_argv = argv_json [''/root/.config/hat/m1-fence-linode'', ''power-on'', ''/etc/hat-control/target-fm2.json'']"

definition cold_argv :: "string \<Rightarrow> json" where
  "cold_argv address = argv_json ([''ssh''] @ SSH_FLAGS @ [''root@'' @ address, ''hat-node''])"

definition recorded_argv :: "json \<Rightarrow> json res" where
  "recorded_argv intent = (if is_obj intent then get_none intent ''argv'' else Inr JNull)"

definition proven :: "json \<Rightarrow> json \<Rightarrow> bool res" where
  "proven argv out = all_of [Inr (is_obj out), notR (not_value out ''argv'' argv),
     got out ''returncode'' (\<lambda>n. Inr (int_and n (\<lambda>i. i = 0))), mapR (\<lambda>x. x = JBool False) (get_none out ''uncertain'')]"

definition power_record :: "json \<Rightarrow> json \<Rightarrow> json \<Rightarrow> bool \<Rightarrow> json list res" where
  "power_record target v argv ok =
     got v ''action'' (\<lambda>a. if \<not> py_eq a (JStr ''power-on'') then Inr []
     else raise_if (any_of [Inr (\<not> ok), differs argv power_argv, not_value v ''target'' target, got_not v ''state'' ''running''])
       RuntimeError (Inr [v]))"

definition cold_record :: "operation \<Rightarrow> string \<Rightarrow> string \<Rightarrow> json \<Rightarrow> json \<Rightarrow> bool \<Rightarrow> json list res" where
  "cold_record q ident address v argv ok =
     bindR (all_of [notR (got_not v ''operation'' ident), notR (got_not v ''epoch'' (o_source_epoch q)),
       bindR (get_or v ''config'' (JObj [])) (\<lambda>c. notR (got_not c ''role'' ''writer'')), contains v ''authority'']) (\<lambda>matches.
     if \<not> matches then Inr []
     else raise_if (any_of [Inr (\<not> ok), differs argv (cold_argv address)]) RuntimeError (Inr [v]))"

text \<open>The loop: the power actions and the cold reports seen so far.\<close>

definition classify_record ::
  "operation \<Rightarrow> string \<Rightarrow> json \<Rightarrow> string \<Rightarrow> json list \<times> json list \<Rightarrow> command_record \<Rightarrow> (json list \<times> json list) res" where
  "classify_record q ident target address acc rec = (case rec of (v, intent, out) \<Rightarrow>
     if \<not> is_obj v then Inr acc
     else bindR (recorded_argv intent) (\<lambda>argv. bindR (proven argv out) (\<lambda>ok.
       bindR (power_record target v argv ok) (\<lambda>ps. bindR (cold_record q ident address v argv ok) (\<lambda>cs.
       Inr (fst acc @ ps, snd acc @ cs))))))"

definition original_boot :: "operation \<Rightarrow> string \<Rightarrow> 'w controller_scheme \<Rightarrow> (json \<times> json \<times> json) res" where
  "original_boot q ident s =
     bindR (stdout_records (area s) s) (\<lambda>recs.
     bindR (trusted_b s) (\<lambda>target.
     bindR (bindR (node_address ''B'' s) as_text) (\<lambda>address.
     bindR (foldR (classify_record q ident target address) ([], []) recs) (\<lambda>(powers, colds).
     if length powers \<noteq> 1 \<or> length colds \<noteq> 1 then Inl RuntimeError else Inr (target, hd powers, hd colds)))))"

section \<open>What they must say\<close>

definition original_config :: "json \<Rightarrow> json res" where
  "original_config prev = itm prev ''preflight'' (\<lambda>pf. bindR (get_or pf ''source_health'' (JObj [])) (\<lambda>h.
     bindR (get_or h ''probe'' (JObj [])) (\<lambda>p. get_none p ''config'')))"

definition original_differs :: "json \<Rightarrow> json \<Rightarrow> bool res" where
  "original_differs prev v =
     bindR (get_or v ''services'' (JObj [])) (\<lambda>sv. bindR (original_config prev) (\<lambda>c. any_of
     ([got_not v ''authority'' ''absent'', got_not v ''cgroup'' ''empty'', got_not v ''mutators'' ''none'', not_value v ''config'' c]
      @ services_unsafe sv
      @ [bindR (get_or v ''config_sha'' (JStr [])) hex64_fails, bindR (get_or v ''replica_sha'' (JStr [])) hex64_fails])))"

definition history_differs :: "json \<Rightarrow> json \<Rightarrow> json list \<Rightarrow> json \<Rightarrow> string list \<Rightarrow> rat \<Rightarrow> rat \<Rightarrow> rat \<Rightarrow> rat list \<Rightarrow> bool res" where
  "history_differs receipt target os identity addresses now requested completed stamps = any_of
     [bindR (get_in receipt [''request'', ''id'']) (\<lambda>i. Inr (\<not> str_and i (\<lambda>t. t \<noteq> []))),
      Inr (length stamps < 2), Inr (\<not> (requested \<le> completed \<and> completed \<le> last stamps \<and> last stamps \<le> now + 5)),
      Inr (\<exists>t \<in> set stamps. t < requested), Inr (\<not> sorted stamps),
      item_not (last os) ''state'' ''running'', got identity ''instance_id'' (\<lambda>i. Inr (\<not> is_int i)),
      itm identity ''instance_id'' (\<lambda>i. itm target ''instance_id'' (\<lambda>j. differs i j)),
      Inr (addresses = []), notR (covers identity addresses),
      got identity ''provider_label'' (\<lambda>i. itm target ''provider_label'' (\<lambda>j. differs i j))]"

text \<open>The clock is read once.\<close>

definition historical_receipt :: "moments \<Rightarrow> (json \<Rightarrow> string list res) \<Rightarrow> rat \<Rightarrow> json \<Rightarrow> json \<Rightarrow> unit res" where
  "historical_receipt moment resolve now receipt target =
     reraise [KeyError, TypeError, ValueError, IndexError, AttributeError] RuntimeError
     (itm receipt ''request'' (\<lambda>r. bindR (stamp_at moment r) (\<lambda>requested.
      itm receipt ''completion'' (\<lambda>c. bindR (stamp_at moment c) (\<lambda>completed.
      itm receipt ''observations'' (\<lambda>observations. bindR (item_at observations (-1)) (\<lambda>final. itm final ''identity'' (\<lambda>identity.
      bindR (iter_of observations) (\<lambda>os. bindR (traverse (stamp_at moment) os) (\<lambda>stamps.
      itm target ''address'' (\<lambda>a. bindR (resolve a) (\<lambda>addresses.
      refuse_if [history_differs receipt target os identity addresses now requested completed stamps] (Inr ())))))))))))))"

definition old_source :: "json \<Rightarrow> json res" where
  "old_source prev = bindR (get_or prev ''preflight'' (JObj [])) (\<lambda>pf. get_none pf ''source_boot'')"

definition boot_marker :: "string \<Rightarrow> string \<Rightarrow> json \<Rightarrow> json \<Rightarrow> json res" where
  "boot_marker ident failure_sha receipt v = bindR (sha_canonical receipt) (\<lambda>a. bindR (sha_canonical v) (\<lambda>b.
     Inr (JObj [(''operation'', JStr ident), (''action'', JStr ''reconcile-rejoin-boot''), (''failure_sha'', JStr failure_sha),
       (''receipt_sha'', JStr a), (''cold_sha'', JStr b)])))"

section \<open>The reconciliation\<close>

definition boot_files :: "string list" where
  "boot_files = [''reconciliation-rejoin-boot.json'', ''failure.before-reconciliation-rejoin-boot.json'']"

definition retained_failure :: "(acceptor, unit) prog" where
  "retained_failure =
     bindP (gets area) (\<lambda>dir. let failure = path_join dir ''failure.json'' in
     seqP (reading (host_private failure))
     (bindP (reading (h_loads failure)) (\<lambda>f.
      seqP (raise_when (\<lambda>_. differs f (JObj [(''phase'', JStr ''rejoin_boot''), (''error'', JStr ''RuntimeError'')])) RuntimeError)
      (raise_when (\<lambda>s. Inr (\<exists>name \<in> set boot_files. h_there (path_join dir name) s)) RuntimeError))))"

text \<open>From the records to the marker: nothing is asked of the provider or a node before it is written.\<close>

definition find_boot ::
  "moments \<Rightarrow> (json \<Rightarrow> string list res) \<Rightarrow> operation \<Rightarrow> json \<Rightarrow> string \<Rightarrow> (acceptor, json \<times> json) prog" where
  "find_boot moment resolve q prev ident =
     seqP retained_failure
     (bindP (reading (original_boot q ident)) (\<lambda>(target, receipt, found_cold).
     seqP (raise_when (\<lambda>_. original_differs prev found_cold) RuntimeError)
     (bindP now_of (\<lambda>now.
     seqP (lift (historical_receipt moment resolve now receipt target))
     (bindP (lift (old_source prev)) (\<lambda>old.
     bindP (lift (get_none found_cold ''boot_id'')) (\<lambda>boot.
     seqP (raise_when (\<lambda>_. Inr (boot_not_new boot old)) RuntimeError)
     (bindP (gets area) (\<lambda>dir.
     bindP (reading (file_digest (path_join dir ''failure.json''))) (\<lambda>digest.
     bindP (lift (boot_marker ident digest receipt found_cold)) (\<lambda>v.
     seqP (atomic_json (path_join dir ''reconciliation-rejoin-boot.json'') v 384)
     (ret (receipt, found_cold)))))))))))))"

definition expected_boot :: "json \<Rightarrow> json res" where
  "expected_boot prev =
     bindR (get_or prev ''activate'' (JObj [])) (\<lambda>a. bindR (get_or a ''probe'' (JObj [])) (\<lambda>p. got p ''boot_id'' (\<lambda>b.
     if truthy b then Inr b else itm prev ''preflight'' (\<lambda>pf. get_none pf ''candidate_boot''))))"

definition cold_changed :: "json \<Rightarrow> json \<Rightarrow> json \<Rightarrow> bool res" where
  "cold_changed fresh_cold kept old = any_of
     [differs fresh_cold kept, got_not fresh_cold ''authority'' ''absent'', notR (not_value fresh_cold ''boot_id'' old)]"

definition fresh_boot_evidence ::
  "moments \<Rightarrow> (json \<Rightarrow> string list res) \<Rightarrow> operation \<Rightarrow> json \<Rightarrow> json \<Rightarrow> json \<Rightarrow> (acceptor, json) prog" where
  "fresh_boot_evidence moment resolve q prev receipt kept =
     bindP (lift (retained prev)) (\<lambda>r.
     bindP (lift (expected_boot prev)) (\<lambda>boot.
     seqP (raise_when (route_stale q r) RuntimeError)
     (bindP (remote ''A'' ''probe-new'' JNull 180) (\<lambda>fresh_a.
     bindP (lift (writer_positions q r fresh_a boot)) (\<lambda>_.
     bindP (fence moment resolve ''inspect'' ''running'' ''B'') (\<lambda>provider.
     bindP (lift (getitem kept ''boot_id'')) (\<lambda>b.
     seqP (learn ''B'' (JObj [(''boot_id'', b)]))
     (bindP (remote ''B'' ''inspect-cold'' JNull 180) (\<lambda>fresh_cold.
     bindP (lift (old_source prev)) (\<lambda>old.
     seqP (raise_when (\<lambda>_. cold_changed fresh_cold kept old) RuntimeError)
     (bindP (gets (\<lambda>s. path_join (area s) ''reconciliation-rejoin-boot.json'')) (\<lambda>path.
     bindP (reading (h_loads path)) (\<lambda>v.
     ret (JObj [(''receipt'', receipt), (''fresh_provider'', provider), (''cold'', fresh_cold), (''reconciliation'', v),
       (''a_probe'', fresh_a)]))))))))))))))"

definition reconcile_boot_body ::
  "nat \<Rightarrow> moments \<Rightarrow> (json \<Rightarrow> string list res) \<Rightarrow> string \<Rightarrow> (driver, string) prog" where
  "reconcile_boot_body fuel moment resolve ident =
     bindP (boundary (JStr ident) 10 (''B'', ''A'')) (\<lambda>(q, prev).
     seqP (lift (validate_d3_proof (op_json q) prev True))
     (seqP (modify (\<lambda>s. s\<lparr>oper := Some q, nxt := 10, pending := True\<rparr>))
     (seqP (with_io (open_rejoin q ident))
     (bindP (with_io (find_boot moment resolve q prev ident)) (\<lambda>(receipt, kept).
     bindP (with_io (fresh_boot_evidence moment resolve q prev receipt kept)) (\<lambda>evidence.
     bindP (reconcile_rejoin_boot_done (JStr ident) evidence) (\<lambda>(checked, _).
     seqP (raise_when (\<lambda>_. Inr (checked \<noteq> q)) RuntimeError)
     (seqP (with_io (bindP (gets area) (\<lambda>dir. let failure = path_join dir ''failure.json'' in
        seqP (rename failure (path_join dir ''failure.before-reconciliation-rejoin-boot.json'')) (fsync_parent failure))))
     (seqP (modify (\<lambda>s. s\<lparr>oper := None\<rparr>))
     (rejoin_open fuel moment resolve ident True))))))))))"

definition reconcile_rejoin_boot ::
  "nat \<Rightarrow> moments \<Rightarrow> (json \<Rightarrow> string list res) \<Rightarrow> string \<Rightarrow> (driver, string) prog" where
  "reconcile_rejoin_boot fuel moment resolve ident =
     seqP (modify (\<lambda>s. s\<lparr>base := CONTROLLER_ROOT\<rparr>))
     (seqP enter_journal (ensuring (reconcile_boot_body fuel moment resolve ident) exit_journal))"

section \<open>The command line\<close>

text \<open>After the parser: the command is one of the choices; an argument that was not given is \<open>None\<close>.\<close>

definition exact_id :: "string option \<Rightarrow> bool" where
  "exact_id x \<longleftrightarrow> (case x of None \<Rightarrow> False | Some t \<Rightarrow> hex32 t)"

definition usage_error :: "string \<Rightarrow> string option \<Rightarrow> string option \<Rightarrow> bool" where
  "usage_error cmd target operation \<longleftrightarrow>
     cmd = ''ingress-check'' \<and> (target \<noteq> None \<or> operation \<noteq> None)
     \<or> cmd \<noteq> ''ingress-check'' \<and>
       (cmd \<in> {''switchover'', ''recover''} \<and> operation \<noteq> None
        \<or> cmd = ''switchover'' \<and> target \<noteq> Some ''B'' \<or> cmd = ''recover'' \<and> target \<noteq> Some ''A''
        \<or> cmd = ''rejoin'' \<and> (target \<noteq> Some ''B'' \<or> \<not> exact_id operation)
        \<or> cmd \<in> {''reconcile-rejoin-boot'', ''reconcile-compare'', ''reconcile-verify''}
          \<and> (operation \<noteq> None \<or> \<not> exact_id target))"

definition quiet :: "('s, 'a) prog \<Rightarrow> ('s, unit) prog" where
  "quiet m = bindP m (\<lambda>_. ret ())"

definition chosen ::
  "nat \<Rightarrow> moments \<Rightarrow> (json \<Rightarrow> string list res) \<Rightarrow> string \<Rightarrow> string option \<Rightarrow> string option \<Rightarrow> (driver, unit) prog" where
  "chosen fuel moment resolve cmd target operation =
     (if cmd = ''recover'' then quiet (recover fuel moment resolve)
      else if cmd = ''rejoin'' then quiet (rejoin fuel moment resolve (the operation))
      else if cmd = ''reconcile-rejoin-boot'' then quiet (reconcile_rejoin_boot fuel moment resolve (the target))
      else switchover fuel moment resolve
        (if cmd \<in> {''reconcile-compare'', ''reconcile-verify''} then Some (JStr (the target)) else None)
        (cmd = ''reconcile-verify''))"

definition CONTROL_CONFIG :: string where "CONTROL_CONFIG = ''/etc/hat-control/config.json''"

text \<open>The exit status; the check of the ingress runs in the world of the boot gate.\<close>

definition ingress_check :: "(driver, int) prog" where
  "ingress_check = bindP (with_io boot_id) (\<lambda>boot.
     bindP (with_watch (ingress_allowed CONTROLLER_ROOT MAINTENANCE ''/run/hat-control-route.json'' INGRESS boot))
       (\<lambda>allowed. ret (if allowed then 0 else 1)))"

definition control_main ::
  "nat \<Rightarrow> moments \<Rightarrow> (json \<Rightarrow> string list res) \<Rightarrow> string \<Rightarrow> string option \<Rightarrow> string option \<Rightarrow> (driver, int) prog" where
  "control_main fuel moment resolve cmd target operation =
     seqP (raise_when (\<lambda>s. Inr (huid (io s) \<noteq> 0)) ValueError)
     (if usage_error cmd target operation then raiseP SystemExit
      else if cmd = ''ingress-check'' then ingress_check
      else seqP (with_io (reading (host_private CONTROL_CONFIG)))
        (bindP (with_io (reading (h_loads CONTROL_CONFIG))) (\<lambda>config.
         bindP (lift (getitem config ''hostname'')) (\<lambda>name.
         bindP (with_io (hcall ''gethostname'' JNull)) (\<lambda>host.
         seqP (raise_when (\<lambda>_. differs name host) ValueError)
         (seqP (with_io (modify (\<lambda>s. s\<lparr>settings := config\<rparr>)))
         (seqP (chosen fuel moment resolve cmd target operation) (ret 0))))))))"

end
