(* ===== verification/Arming.thy ===== *)
theory Arming
  imports Steady Rejoin_Boot
begin

text \<open>
  Which commands of the fence tool the drivers start. The locale of \<open>Steady\<close> is extended to everything a driver does to
  the controller's world; its predicate is then carried through the journal, which never touches that world, and
  instantiated with the power commands among the processes that were started.
\<close>

section \<open>What a driver does to the controller\<close>

locale arming = steady I ok for I :: "acceptor \<Rightarrow> bool" and ok :: "string list \<Rightarrow> bool" +
  assumes armed: "I s \<Longrightarrow> I (s\<lparr>fresh_hold := h\<rparr>)"
    and placed: "I s \<Longrightarrow> I (s\<lparr>area := a, running_op := q\<rparr>)"
    and placed_all: "I s \<Longrightarrow> I (s\<lparr>area := a, running_op := q, known := v, marker := m, fresh_hold := h\<rparr>)"
    and set_up: "I s \<Longrightarrow> I (s\<lparr>settings := v\<rparr>)"
    and journaled: "I s \<Longrightarrow> I (s\<lparr>jrn := j\<rparr>)"
begin

lemma keeps_armed: "keeps I (modify (\<lambda>s. s\<lparr>fresh_hold := g s\<rparr>))"
  by (simp add: keeps_def modify_def armed)

lemma keeps_placed: "keeps I (modify (\<lambda>s. s\<lparr>area := f s, running_op := g s\<rparr>))"
  by (simp add: keeps_def modify_def placed)

lemma keeps_placed_all:
  "keeps I (modify (\<lambda>s. s\<lparr>area := a s, running_op := q s, known := v s, marker := m s, fresh_hold := h s\<rparr>))"
  by (simp add: keeps_def modify_def placed_all)

lemma keeps_set_up: "keeps I (modify (\<lambda>s. s\<lparr>settings := g s\<rparr>))"
  by (simp add: keeps_def modify_def set_up)

lemma keeps_reading: "keeps I (reading f)"
  by (simp add: keeps_def reading_def)

lemmas arming_rules = steady_rules keeps_armed keeps_placed keeps_placed_all keeps_set_up keeps_reading
  keeps_does keeps_files keeps_remote keeps_atomic keeps_close_ingress

lemma keeps_capture: "keeps I (capture_protected_authority p origin given)"
  unfolding capture_protected_authority_def manifests_or_def Let_def
  by (auto intro!: arming_rules keeps_with_authority keeps_open)

lemma keeps_authorize: "keeps I (authorize_fresh_writes p)"
  unfolding authorize_fresh_writes_def manifests_or_def Let_def
  by (auto intro!: arming_rules keeps_durable_bytes keeps_open)

lemma keeps_small:
  "keeps I (smoke c l)" "keeps I (verify_restore l)" "keeps I (oracle_release v)" "keeps I (fsync_parent p)"
  "keeps I (refresh tok)" "keeps I (write_private p raw)" "keeps I (put_route a b raw)" "keeps I not_in_maintenance"
  "keeps I (archive_failure a b)"
  unfolding smoke_def verify_restore_def oracle_release_def fsync_parent_def refresh_def write_private_def put_route_def
    not_in_maintenance_def archive_failure_def
  by (auto intro!: arming_rules)

lemma keeps_remember: "keeps I m \<Longrightarrow> keeps I (remember key m)"
  unfolding remember_def by (auto intro!: arming_rules)

lemma keeps_history: "keeps I (append_history l ls)"
  by (induction l ls rule: append_history.induct) (auto simp: historical_line_def intro!: arming_rules keeps_small)

lemma keeps_extend: "keeps I (extend_ledger l)"
  unfolding extend_ledger_def by (auto intro!: arming_rules keeps_create keeps_small keeps_history)

lemma keeps_intent: "keeps I (reconcile_intent ident name action wrong)"
  unfolding reconcile_intent_def by (auto simp: Let_def intro!: arming_rules keeps_durable_bytes)

section \<open>The actions of a recovery\<close>

lemma keeps_oracle_identity: "keeps I (oracle_identity c a b)"
proof -
  have "keeps I (hold_tools top xs)" for top xs
    by (induction top xs rule: hold_tools.induct) (auto simp: keep_open_def intro!: arming_rules keeps_open)
  then show ?thesis unfolding oracle_identity_def keep_open_def
    by (auto intro!: arming_rules keeps_closing_after keeps_recheck_each)
qed

lemma keeps_seal_fault: "keeps I (seal_fault d v raw)"
  unfolding seal_fault_def seal_into_def root_private_def create_private_at_def appears_def Let_def
  by (auto intro!: arming_rules keeps_with_authority keeps_open_fault)

lemma keeps_recheck_fault: "keeps I (recheck_fault v d p seal)"
  unfolding recheck_fault_def recheck_fault_body_def keep_open_def
  by (auto intro!: arming_rules keeps_closing_after keeps_open_fault)

lemma keeps_producer_dead: "keeps I (producer_dead v)"
  unfolding producer_dead_def by (auto intro!: arming_rules keeps_producer)

lemma keeps_seal_input: "keeps I (seal_input w v)"
  unfolding seal_input_def guard_def
  by (auto intro!: arming_rules keeps_seal_fault keeps_producer_dead keeps_recheck_fault)

lemma keeps_adopt: "keeps I (adopt q intake events)"
  unfolding adopt_def by (auto simp: Let_def intro!: arming_rules keeps_small)

lemma keeps_learn_at: "keeps I (learn_at who key v)"
  unfolding learn_at_def by (auto intro!: arming_rules)

lemma keeps_probe: "keeps I (probe_writer q r)"
  unfolding probe_writer_def by (auto intro!: arming_rules)

lemma keeps_await_recovered: "keeps I (await_recovered n deadline q r)"
  by (induction n deadline q r rule: await_recovered.induct) (auto intro!: arming_rules keeps_probe)

lemma keeps_recovery_actions:
  assumes "\<And>path. ok [''/root/.config/hat/m1-fence-linode'', ''inspect'', path]"
    and "m \<in> set (recover_actions fuel moment resolve q r)"
  shows "keeps I m"
proof -
  have "keeps I (recover_preflight q r)" unfolding recover_preflight_def
    by (auto intro!: arming_rules keeps_small keeps_capture keeps_oracle_identity)
  moreover have "keeps I (recover_cut moment r)" unfolding recover_cut_def
    by (auto intro!: arming_rules keeps_select_cut)
  moreover have "keeps I (recover_restore q r)" unfolding recover_restore_def Let_def
    by (auto intro!: arming_rules keeps_learn_at)
  moreover have "keeps I (recover_compare fuel r)" unfolding recover_compare_def
    by (auto intro!: arming_rules keeps_recheck_fault keeps_run_oracle)
  moreover have "keeps I (recover_activate moment resolve q r)" unfolding recover_activate_def
    by (auto intro!: arming_rules keeps_recheck_fault keeps_producer_dead keeps_fence keeps_learn_at keeps_probe assms(1))
  moreover have "keeps I (recover_baseline fuel q r)" unfolding recover_baseline_def
    by (auto intro!: arming_rules keeps_run_oracle)
  moreover have "keeps I (recover_route q)" unfolding recover_route_def Let_def
    by (auto intro!: arming_rules keeps_small keeps_tool keeps_start_ingress)
  moreover have "keeps I (recover_verify fuel q r)" unfolding recover_verify_def
    by (auto intro!: arming_rules keeps_small keeps_authorize keeps_await_recovered keeps_run_oracle)
  moreover have "keeps I (recover_fence moment resolve)" unfolding recover_fence_def
    by (auto intro!: keeps_remember keeps_fence assms(1))
  ultimately show ?thesis using assms(2) keeps_close_ingress by (auto simp: recover_actions_def)
qed

section \<open>The actions of a rejoin\<close>

lemma keeps_know: "keeps I (know_a r ps)" "keeps I (know_b b v)"
  unfolding know_a_def know_b_def by (auto intro!: arming_rules)

lemma keeps_rejoin_b: "keeps I (rejoin_b q ident)"
  unfolding rejoin_b_def by (auto intro!: arming_rules)

lemma keeps_await_follower: "keeps I (await_follower n deadline q r)"
  by (induction n deadline q r rule: await_follower.induct)
    (auto simp: probe_follower_def split: option.split intro!: arming_rules)

lemma keeps_redundancy: "keeps I (verify_redundancy fuel q r)"
  unfolding verify_redundancy_def by (auto intro!: arming_rules keeps_await_follower)

lemma keeps_resume: "keeps I (resume_boot q r prev)"
  unfolding resume_boot_def by (auto intro!: arming_rules keeps_know)

lemma keeps_find_boot: "keeps I (find_boot moment resolve q prev ident)"
  unfolding find_boot_def retained_failure_def now_of_def Let_def by (auto intro!: arming_rules)

lemma keeps_fresh_boot:
  assumes "\<And>path. ok [''/root/.config/hat/m1-fence-linode'', ''inspect'', path]"
  shows "keeps I (fresh_boot_evidence moment resolve q prev receipt kept)"
  unfolding fresh_boot_evidence_def by (auto intro!: arming_rules keeps_fence assms)

section \<open>The journal rides along\<close>

lemma rides_io: "keeps I m \<Longrightarrow> keeps (\<lambda>d. I (io d)) (with_io m)"
  by (auto simp: keeps_def with_io_def split: prod.split) (metis journaled snd_conv)

end

text \<open>What only the journal's own fields see.\<close>

definition aside :: "(acceptor \<Rightarrow> bool) \<Rightarrow> 'w driver_scheme \<Rightarrow> bool" where
  "aside I d \<longleftrightarrow> I (io d)"

named_theorems aside_intros \<open>programs of the journal leave the controller's world alone\<close>

lemma aside_modify: "(\<And>d. io (f d) = io d) \<Longrightarrow> keeps (aside I) (modify f)"
  by (simp add: keeps_def modify_def aside_def)

lemma aside_watch [aside_intros]: "keeps (aside I) (with_watch m)"
  by (simp add: keeps_def with_watch_def aside_def split: prod.split)

lemma aside_same [aside_intros]: "keeps (aside I) (\<lambda>d. (f d, d))"
  by (simp add: keeps_def)

lemma aside_commit [aside_intros]: "keeps (aside I) (commit l)"
  by (simp add: keeps_def commit_def aside_def Let_def split: fault.split)

lemma aside_seam [aside_intros]: "keeps (aside I) (seam l)"
  by (simp add: keeps_def seam_def aside_def)

lemma aside_rows [aside_intros]:
  "keeps (aside I) (insert_op r)" "keeps (aside I) (insert_step x)" "keeps (aside I) uuid4" "keeps (aside I) rollback"
  "keeps (aside I) (complete_op i)" "keeps (aside I) check_authority" "keeps (aside I) exit_journal" "keeps (aside I) (resume_at q n)"
  by (simp_all add: keeps_def insert_op_def insert_step_def uuid4_def rollback_def modify_def complete_op_def
    check_authority_def exit_journal_def resume_at_def aside_def)

lemma aside_transaction [aside_intros]: "keeps (aside I) m \<Longrightarrow> keeps (aside I) (transaction m l)"
  unfolding transaction_def by (intro keeps_intros aside_intros)

lemma aside_begin [aside_intros]: "keeps (aside I) (begin_op a b e)"
  unfolding begin_op_def Let_def by (intro keeps_intros aside_intros aside_modify) simp

lemma aside_step [aside_intros]: "keeps (aside I) m \<Longrightarrow> keeps (aside I) (step phase m)"
  unfolding step_def record_step_def by (intro keeps_intros aside_intros aside_modify) simp_all

lemma aside_boundary [aside_intros]: "keeps (aside I) (boundary i n d)"
  unfolding boundary_def by (intro keeps_intros aside_intros)

lemma aside_reconciled [aside_intros]:
  "keeps (aside I) (accept_verification i v)" "keeps (aside I) (accept_comparison i v)"
  "keeps (aside I) (reconcile_rejoin_boot_done i v)" "keeps (aside I) (continue_rejoin i b)" "keeps (aside I) finish"
  unfolding accept_verification_def accept_comparison_def reconcile_rejoin_boot_done_def continue_rejoin_def finish_def
    verification_boundary_def comparison_boundary_def
  by (intro keeps_intros aside_intros aside_modify; simp)+

lemma aside_opening [aside_intros]:
  "keeps (aside I) (root_fsync l)" "keeps (aside I) connect" "keeps (aside I) close_db" "keeps (aside I) (schema_is k)"
  "keeps (aside I) take_identity" "keeps (aside I) (new_file p)" "keeps (aside I) flock" "keeps (aside I) (is_private n)"
  "keeps (aside I) (side_file n)" "keeps (aside I) create_tables" "keeps (aside I) migration_alter" "keeps (aside I) rollback_all"
  unfolding root_fsync_def connect_def close_db_def schema_is_def take_identity_def new_file_def flock_def is_private_def
    side_file_def create_tables_def migration_alter_def rollback_all_def
  by (intro keeps_intros aside_intros aside_modify; simp)+

lemma aside_enter [aside_intros]: "keeps (aside I) enter_journal"
  unfolding enter_journal_def enter_body_def open_lock_def new_database_def open_existing_def migrate_def commit_all_def reopen_def
  by (intro keeps_intros aside_intros aside_modify; simp)

end
