(* ===== verification/Power_Properties.thy ===== *)
theory Power_Properties
  imports Arming
begin

text \<open>
  The power actions of the drivers: a recovery and the reconciliation of a boot start none, a rejoin at most one.
\<close>

section \<open>Power commands\<close>

definition is_power :: "string \<times> json \<Rightarrow> bool" where
  "is_power c \<longleftrightarrow> fst c = ''spawn'' \<and> (case snd c of
     JArr (JStr t # JStr a # _) \<Rightarrow> t = FENCE_TOOL \<and> a \<noteq> ''inspect'' | _ \<Rightarrow> False)"

definition powers :: "(string \<times> json) list \<Rightarrow> json list" where
  "powers tr = map snd (filter is_power tr)"

lemma powers_append [simp]: "powers (a @ b) = powers a @ powers b"
  by (simp add: powers_def)

lemma powers_call: "name \<noteq> ''spawn'' \<Longrightarrow> powers [(name, x)] = []"
  by (simp add: powers_def is_power_def)

definition powerless :: "string list \<Rightarrow> bool" where
  "powerless argv \<longleftrightarrow> \<not> is_power (''spawn'', JArr (map JStr argv))"

lemma powers_spawn: "powerless argv \<Longrightarrow> powers [(''spawn'', JArr (map JStr argv))] = []"
  by (simp add: powers_def powerless_def)

lemma powerless_other: "other_tool argv \<Longrightarrow> powerless argv"
proof (cases argv)
  case (Cons a as)
  then show "other_tool argv \<Longrightarrow> powerless argv"
    by (cases as) (auto simp: powerless_def is_power_def other_tool_def)
qed (simp add: powerless_def is_power_def)

lemma powerless_inspect: "powerless [''/root/.config/hat/m1-fence-linode'', ''inspect'', path]"
  by (simp add: powerless_def is_power_def)

text \<open>Any predicate on the power commands so far.\<close>

definition sees :: "(json list \<Rightarrow> bool) \<Rightarrow> acceptor \<Rightarrow> bool" where
  "sees P s \<longleftrightarrow> P (powers (trace s))"

interpretation calm: arming "sees P" powerless for P
  by unfold_locales (simp_all add: sees_def powers_call powers_spawn powerless_other)

section \<open>The drivers\<close>

lemma aside_run_steps:
  assumes "\<And>phase m. (phase, m) \<in> set xs \<Longrightarrow> keeps (aside I) (with_io m :: (driver, json) prog)"
  shows "keeps (aside I) (run_steps xs)"
  using assms
proof (induction xs rule: run_steps.induct)
  case (2 phase action rest)
  have "keeps (aside I) (with_io action :: (driver, json) prog)" by (rule "2.prems" [of phase action]) simp
  moreover have "keeps (aside I) (run_steps rest)" by (rule "2.IH") (auto intro: "2.prems")
  ultimately show ?case by (auto intro!: keeps_intros aside_intros)
qed (simp add: keeps_ret)

lemma aside_io: "keeps (sees P) m \<Longrightarrow> keeps (aside (sees P)) (with_io m)"
  unfolding aside_def [abs_def] by (rule calm.rides_io)

lemma calm_rejoin_failed: "keeps (sees P) (rejoin_failed phase e)"
  unfolding rejoin_failed_def by (auto intro!: calm.arming_rules)

lemma calm_recover_failed: "keeps (sees P) (recover_failed phase e)"
  unfolding recover_failed_def by (auto intro!: calm.arming_rules)

lemma calm_take_in: "keeps (aside (sees P)) take_in"
  unfolding take_in_def
  by (auto intro!: keeps_intros aside_intros aside_io calm.keeps_reading calm.keeps_small calm.keeps_seal_input calm.keeps_adopt)

lemma calm_recover_steps: "keeps (aside (sees P)) (recover_steps fuel moment resolve q r)"
  unfolding recover_steps_def
  by (auto intro!: keeps_intros aside_intros aside_run_steps aside_io calm.keeps_recovery_actions powerless_inspect
    dest: set_zip_rightD)

lemma calm_base: "keeps (aside I) (modify (\<lambda>d. d\<lparr>base := b\<rparr>))"
  by (rule aside_modify) simp

lemma powers_kept:
  assumes "\<And>P. keeps (aside (sees P)) m"
  shows "powers (trace (io (snd (m d)))) = powers (trace (io d))"
  using assms [of "\<lambda>x. x = powers (trace (io d))"] by (auto simp: keeps_def aside_def sees_def)

text \<open>C35 A recovery acts on no machine's power. Whatever answers it gets, and however it ends, \<open>recover\<close> starts no
  command of the fence tool but inspections: B must have been fenced from outside.\<close>

theorem recovery_without_power:
  "powers (trace (io (snd (recover fuel moment resolve d)))) = powers (trace (io d))"
  unfolding recover_def recover_body_def
  by (rule powers_kept)
    (auto intro!: keeps_intros aside_intros aside_io calm_base calm_take_in calm_recover_steps calm_recover_failed)

lemma calm_open_rejoin: "keeps (sees P) (open_rejoin q ident)"
  unfolding open_rejoin_def by (rule calm.keeps_placed_all)

lemma calm_last: "keeps (sees P) (bindP (gets (\<lambda>s. h_exists (marker s) s)) (\<lambda>there. if there then bindP (gets marker) unlink else ret ()))"
  by (auto intro!: calm.arming_rules)

lemma calm_rejoin_tail: "keeps (aside (sees P)) (rejoin_open fuel moment resolve ident True)"
  unfolding rejoin_open_def rejoin_steps_def
  by (auto intro!: keeps_intros aside_intros aside_io calm_open_rejoin calm.keeps_resume calm.keeps_rejoin_b
    calm.keeps_redundancy calm_last calm_rejoin_failed)

lemma calm_reconcile_body: "keeps (aside (sees P)) (reconcile_boot_body fuel moment resolve ident)"
proof -
  have oper: "keeps (aside (sees P)) (modify (\<lambda>d :: driver. d\<lparr>oper := q, nxt := n, pending := b\<rparr>))"
    "keeps (aside (sees P)) (modify (\<lambda>d :: driver. d\<lparr>oper := q\<rparr>))" for q n b
    by (rule aside_modify; simp)+
  show ?thesis unfolding reconcile_boot_body_def
    by (auto simp: Let_def intro!: keeps_intros aside_intros oper aside_io calm_open_rejoin calm.keeps_find_boot
      calm.keeps_fresh_boot powerless_inspect calm_rejoin_tail calm.arming_rules calm.keeps_small)
qed

text \<open>C36 A reconciled boot acts on no machine's power. \<open>reconcile_rejoin_boot\<close> completes a boot step from the evidence
  of the power command that was already sent; whatever answers it gets, and through the rejoin it continues with, it
  starts no power command again.\<close>

theorem reconciliation_without_power:
  "powers (trace (io (snd (reconcile_rejoin_boot fuel moment resolve ident d)))) = powers (trace (io d))"
  unfolding reconcile_rejoin_boot_def
  by (rule powers_kept) (auto intro!: keeps_intros aside_intros calm_base calm_reconcile_body)

end
