(* ===== verification/Store.thy ===== *)
theory Store
  imports Admission Node Observe
begin

text \<open>
  \<open>experiments/m1/s3.py\<close>: the client of the object store the replicas live in. Requests are signed (version 4 of the
  store's scheme), and a write whose answer was lost is reconciled by reading, in a bounded number of rounds. The
  network answers as it likes; the clock is a call.
\<close>

section \<open>Small parts\<close>

definition RESPONSE_MAX :: nat where "RESPONSE_MAX = 16 * 1024 * 1024"

definition quote_etag :: "string \<Rightarrow> string" where
  "quote_etag v0 = (let v = strip v0; q = CHR 0x22 in
     if v \<noteq> [] \<and> hd v = q \<and> last v = q then v
     else [q] @ rev (dropWhile (\<lambda>c. c = q) (rev (dropWhile (\<lambda>c. c = q) v))) @ [q])"

definition classify_status :: "int option \<Rightarrow> string" where
  "classify_status n = (if n \<in> {Some 200, Some 201, Some 204} then ''ok'' else if n = Some 409 then ''conflict''
     else if n = Some 412 then ''precondition'' else ''unknown'')"

definition classify_precondition :: "int option \<Rightarrow> string" where
  "classify_precondition n = (if n \<in> {Some 200, Some 201, Some 204} then ''applied'' else if n = Some 409 then ''conflict''
     else if n = Some 412 then ''refused'' else ''unknown'')"

definition header_value :: "(string \<times> string) list \<Rightarrow> string \<Rightarrow> string" where
  "header_value headers name = (case find (\<lambda>(k, _). lower k = lower name) headers of None \<Rightarrow> [] | Some (_, v) \<Rightarrow> v)"

text \<open>\<open>d[k] = v\<close> on a dictionary of texts.\<close>

fun put_text :: "string \<Rightarrow> string \<Rightarrow> (string \<times> string) list \<Rightarrow> (string \<times> string) list" where
  "put_text k v [] = [(k, v)]"
| "put_text k v ((k', v') # kvs) = (if k' = k then (k, v) # kvs else (k', v') # put_text k v kvs)"

definition put_all :: "(string \<times> string) list \<Rightarrow> (string \<times> string) list \<Rightarrow> (string \<times> string) list" where
  "put_all d kvs = foldl (\<lambda>d (k, v). put_text k v d) d kvs"

section \<open>Signing\<close>

definition word_bytes :: "32 word \<Rightarrow> string" where
  "word_bytes w = map (\<lambda>i. char_of (unat (drop_bit (8 * i) w AND 255))) (rev [0..<4])"

definition sha256_bytes :: "string \<Rightarrow> string" where
  "sha256_bytes raw = concat (map word_bytes (sha256_words raw))"

definition xor_bytes :: "nat \<Rightarrow> string \<Rightarrow> string" where
  "xor_bytes n s = map (\<lambda>c. char_of ((of_char c :: nat) XOR n)) s"

text \<open>\<open>hmac\<close> with SHA-256: the key filled to a block of 64 bytes.\<close>

definition hmac_key :: "string \<Rightarrow> string" where
  "hmac_key key = (let k = if 64 < length key then sha256_bytes key else key in k @ replicate (64 - length k) (char_of (0 :: nat)))"

definition hmac_bytes :: "string \<Rightarrow> string \<Rightarrow> string" where
  "hmac_bytes key msg = sha256_bytes (xor_bytes 92 (hmac_key key) @ sha256_bytes (xor_bytes 54 (hmac_key key) @ msg))"

definition hex_bytes :: "string \<Rightarrow> string" where
  "hex_bytes s = concat (map (\<lambda>c. [hex_char (of_char c div 16), hex_char (of_char c mod 16)]) s)"

definition hmac_text :: "string \<Rightarrow> string \<Rightarrow> string" where
  "hmac_text key t = hmac_bytes key (utf8 t)"

text \<open>\<open>quote(s, safe='-_.~')\<close>.\<close>

definition upper_hex :: "nat \<Rightarrow> char" where
  "upper_hex d = (if d < 10 then char_of (48 + d) else char_of (55 + d))"

definition quote_char :: "char \<Rightarrow> string" where
  "quote_char c = (if is_alnum c \<or> c \<in> set ''-_.~'' then [c]
     else [CHR ''%'', upper_hex (of_char c div 16), upper_hex (of_char c mod 16)])"

definition quote_url :: "string \<Rightarrow> string" where
  "quote_url s = concat (map quote_char (utf8 s))"

definition canonical_query :: "(string \<times> string) list \<Rightarrow> string" where
  "canonical_query query = join_with ''&'' (map (\<lambda>(k, v). k @ ''='' @ v)
     (sort_key fst (map (\<lambda>(k, v). (quote_url k, quote_url v)) query)))"

record store_client =
  sc_bucket :: string
  sc_region :: string
  sc_access :: string
  sc_secret :: string
  sc_endpoint :: string
  sc_host :: string

text \<open>The authority of a URL; a user, even an empty one, is refused.\<close>

definition host_label :: "string \<Rightarrow> bool" where
  "host_label w \<longleftrightarrow> w \<noteq> [] \<and> is_alnum (hd w) \<and> is_alnum (last w) \<and> length w \<le> 63
     \<and> list_all (\<lambda>c. is_alnum c \<or> c = CHR ''-'') w"

definition control_char :: "char \<Rightarrow> bool" where
  "control_char c \<longleftrightarrow> (of_char c :: nat) < 32 \<or> (of_char c :: nat) = 127"

text \<open>The host and what follows it. Of the hosts in brackets only \<open>v\<close>, digits, a dot and a name is left to later checks: any
  other raises \<open>ValueError\<close> or has a colon, which the check of the labels refuses with it.\<close>

definition future_host :: "string \<Rightarrow> bool" where
  "future_host h \<longleftrightarrow> (case h of [] \<Rightarrow> False | c # r \<Rightarrow> c = CHR ''v'' \<and> (let d = takeWhile (\<lambda>c. c \<noteq> CHR ''.'') r in
     d \<noteq> [] \<and> list_all (\<lambda>c. is_digit c \<or> c \<in> set ''abcdefABCDEF'') d \<and> length d + 1 < length r))"

definition split_host :: "string \<Rightarrow> (string \<times> string) res" where
  "split_host netloc = (if CHR ''['' \<in> set netloc \<or> CHR '']'' \<in> set netloc
     then (case strip_prefix ''['' netloc of None \<Rightarrow> Inl ValueError
       | Some r \<Rightarrow> let h = takeWhile (\<lambda>c. c \<noteq> CHR '']'') r; after = drop (Suc (length h)) r in
          if length h < length r \<and> future_host h \<and> (after = [] \<or> hd after = CHR '':'') then Inr (h, after) else Inl ValueError)
     else Inr (takeWhile (\<lambda>c. c \<noteq> CHR '':'') netloc, dropWhile (\<lambda>c. c \<noteq> CHR '':'') netloc))"

text \<open>The host is \<open>None\<close> when the authority has none; a port is \<open>None\<close> when there is none or it is empty.\<close>

definition split_authority :: "string \<Rightarrow> (string option \<times> nat option) res" where
  "split_authority netloc = bindR (split_host netloc) (\<lambda>(host, after).
     let name = (if host = [] then None else Some (lower host)); port = tl after in
     if port = [] then Inr (name, None)
     else if list_all is_digit port \<and> read_nat port \<le> 65535 then Inr (name, Some (read_nat port))
     else Inl ValueError)"

definition host_text :: "string option \<Rightarrow> nat option \<Rightarrow> string" where
  "host_text host port = (case host of None \<Rightarrow> ''None'' | Some h \<Rightarrow> h) @ (case port of None \<Rightarrow> [] | Some n \<Rightarrow> '':'' @ show_nat n)"

definition store_new :: "string \<Rightarrow> string \<Rightarrow> string \<Rightarrow> string \<Rightarrow> string \<Rightarrow> store_client res" where
  "store_new bucket region access secret endpoint =
     refuse_if [Inr (bucket = [] \<or> \<not> list_all (\<lambda>c. is_alnum c \<or> c \<in> set ''.-'') bucket \<or> region = [])]
     (let url = dropWhile (\<lambda>c. c = CHR '' '') endpoint;
          (netloc, tail) = (case strip_prefix ''//'' (drop 6 url) of None \<Rightarrow> ([], drop 6 url)
            | Some r \<Rightarrow> (takeWhile (\<lambda>c. c \<notin> set ''/?#'') r, dropWhile (\<lambda>c. c \<notin> set ''/?#'') r)) in
     refuse_if [Inr (lower (take 6 url) \<noteq> ''https:''), Inr (list_ex control_char endpoint), Inr (CHR ''@'' \<in> set netloc),
        Inr (tail \<notin> {[], ''/'', ''?'', ''/?'', ''#'', ''/#'', ''?#'', ''/?#''})]
     (bindR (split_authority netloc) (\<lambda>(host, port).
      refuse_if [Inr (case host of None \<Rightarrow> False
           | Some h \<Rightarrow> 253 < length h \<or> \<not> list_all host_label (split_on (CHR ''.'') h)), Inr (port = Some 0)]
      (Inr \<lparr>sc_bucket = bucket, sc_region = region, sc_access = access, sc_secret = secret,
         sc_endpoint = ''https://'' @ host_text host port, sc_host = host_text host port\<rparr>))))"

definition all_headers :: "store_client \<Rightarrow> (string \<times> string) list \<Rightarrow> string \<Rightarrow> string \<Rightarrow> (string \<times> string) list" where
  "all_headers c headers payload now = (let given = put_all [] (map (\<lambda>(k, v). (lower k, strip v)) headers);
       hosted = (if ''host'' \<in> fst ` set given then given else given @ [(''host'', sc_host c)]) in
     put_text ''x-amz-date'' now (put_text ''x-amz-content-sha256'' payload hosted))"

definition canonical_uri :: "string \<Rightarrow> string" where
  "canonical_uri path = ''/'' @ join_with ''/'' (map quote_url (split_on (CHR ''/'') (dropWhile (\<lambda>c. c = CHR ''/'') path)))"

definition newline :: string where "newline = [CHR 0x0A]"

definition signed_names :: "(string \<times> string) list \<Rightarrow> string list" where
  "signed_names actual = sort_key (\<lambda>k. k) (map fst actual)"

definition upper_char :: "char \<Rightarrow> char" where
  "upper_char c = (if is_lower c then char_of ((of_char c :: nat) - 32) else c)"

definition canonical_request ::
  "string \<Rightarrow> string \<Rightarrow> (string \<times> string) list \<Rightarrow> (string \<times> string) list \<Rightarrow> string \<Rightarrow> string" where
  "canonical_request http_method path query actual payload = join_with newline
     [map upper_char http_method, canonical_uri path, canonical_query query,
      concat (map (\<lambda>k. k @ '':'' @ join_with '' '' (split_space (the (map_of actual k))) @ newline) (signed_names actual)),
      join_with '';'' (signed_names actual), payload]"

definition signing_key :: "store_client \<Rightarrow> string \<Rightarrow> string" where
  "signing_key c day = hmac_bytes (hmac_bytes (hmac_bytes (hmac_text (utf8 (''AWS4'' @ sc_secret c)) day) (utf8 (sc_region c)))
     ''s3'') ''aws4_request''"

definition signed_request ::
  "store_client \<Rightarrow> string \<Rightarrow> string \<Rightarrow> (string \<times> string) list \<Rightarrow> string \<Rightarrow> (string \<times> string) list \<Rightarrow> string
   \<Rightarrow> string \<times> (string \<times> string) list" where
  "signed_request c http_method path headers raw query now = (let day = take 8 now; payload = sha256_hex raw;
       actual = all_headers c headers payload now;
       scope = day @ ''/'' @ sc_region c @ ''/s3/aws4_request'';
       digest = sha256_hex (utf8 (canonical_request http_method path query actual payload));
       signature = hex_bytes (hmac_bytes (signing_key c day)
         (utf8 (join_with newline [''AWS4-HMAC-SHA256'', now, scope, digest]))) in
     (sc_endpoint c @ canonical_uri path, put_text ''Authorization''
        (''AWS4-HMAC-SHA256 Credential='' @ sc_access c @ ''/'' @ scope @ '', SignedHeaders='' @
         join_with '';'' (signed_names actual) @ '', Signature='' @ signature) actual))"

section \<open>Requests\<close>

type_synonym response = "int \<times> (string \<times> string) list \<times> string"

definition headers_text :: "json \<Rightarrow> (string \<times> string) list" where
  "headers_text v = (case v of JObj kvs \<Rightarrow> map (\<lambda>(k, x). (k, str_val x)) kvs | _ \<Rightarrow> [])"

definition json_headers :: "(string \<times> string) list \<Rightarrow> json" where
  "json_headers headers = JObj (map (\<lambda>(k, v). (k, JStr v)) headers)"

definition bounded_response :: "json \<Rightarrow> response res" where
  "bounded_response v = (let raw = take (RESPONSE_MAX + 1) (str_val (fld v ''body'')) in
     raise_if (Inr (RESPONSE_MAX < length raw)) RuntimeError (Inr (int_val (fld v ''status''), headers_text (fld v ''headers''), raw)))"

definition now_text :: "('w services_scheme, string) prog" where
  "now_text = bindP (call ''utcnow'' JNull) (\<lambda>v. ret (str_val v))"

definition store_path :: "store_client \<Rightarrow> string \<Rightarrow> string" where
  "store_path c key = (if key = [] then ''/'' @ sc_bucket c else ''/'' @ sc_bucket c @ ''/'' @ key)"

text \<open>An error status is answered like any other; a body is sent unless the method only reads.\<close>

definition store_request ::
  "store_client \<Rightarrow> string \<Rightarrow> string \<Rightarrow> string \<Rightarrow> (string \<times> string) list \<Rightarrow> (string \<times> string) list
   \<Rightarrow> ('w services_scheme, response) prog" where
  "store_request c http_method key raw headers query = bindP now_text (\<lambda>now.
     let (url, sent) = signed_request c http_method (store_path c key) headers raw query now in
     bindP (call ''urlopen'' (JArr [JStr (url @ (if query = [] then [] else ''?'' @ canonical_query query)),
       if http_method \<in> {''GET'', ''HEAD''} then JNull else JStr raw, json_headers sent, JStr http_method, JInt 30]))
     (\<lambda>v. lift (bounded_response v)))"

definition conditions :: "string option \<Rightarrow> bool \<Rightarrow> (string \<times> string) list" where
  "conditions etag none = (case etag of Some e \<Rightarrow> [(''If-Match'', quote_etag e)]
     | None \<Rightarrow> if none then [(''If-None-Match'', ''*'')] else [])"

definition store_put ::
  "store_client \<Rightarrow> string \<Rightarrow> string \<Rightarrow> string option \<Rightarrow> bool \<Rightarrow> (string \<times> string) list \<Rightarrow> ('w services_scheme, response) prog" where
  "store_put c key raw etag none headers =
     seqP (raise_when (\<lambda>_. Inr (etag \<noteq> None \<and> none)) ValueError)
     (store_request c ''PUT'' key raw (put_all (conditions etag none) headers) [])"

datatype reconciliation = Committed | Discarded | Unknown

text \<open>The whole request is sent and the connection closed before its status is read.\<close>

definition put_discarded :: "store_client \<Rightarrow> string \<Rightarrow> string \<Rightarrow> string option \<Rightarrow> bool \<Rightarrow> ('w services_scheme, reconciliation) prog" where
  "put_discarded c key raw etag none =
     seqP (raise_when (\<lambda>_. Inr (etag \<noteq> None \<and> none)) ValueError)
     (bindP now_text (\<lambda>now.
     let path = ''/'' @ sc_bucket c @ ''/'' @ key;
         (_, sent) = signed_request c ''PUT'' path (conditions etag none) raw [] now in
     seqP (bindP (call ''HTTPSConnection'' (JArr [JStr (sc_host c), JInt 30])) (\<lambda>_. ret ()))
     (seqP (ensuring (bindP (call ''connection.request'' (JArr [JStr ''PUT'', JStr (canonical_uri path), JStr raw, json_headers sent])) (\<lambda>_. ret ()))
       (bindP (call ''connection.close'' JNull) (\<lambda>_. ret ())))
     (ret Unknown))))"

definition store_get :: "store_client \<Rightarrow> string \<Rightarrow> ('w services_scheme, response) prog" where
  "store_get c key = store_request c ''GET'' key [] [] []"

definition store_head :: "store_client \<Rightarrow> string \<Rightarrow> ('w services_scheme, response) prog" where
  "store_head c key = store_request c ''HEAD'' key [] [] []"

definition store_list :: "store_client \<Rightarrow> string \<Rightarrow> ('w services_scheme, response) prog" where
  "store_list c pre = store_request c ''GET'' [] [] [] [(''list-type'', ''2''), (''prefix'', pre), (''max-keys'', ''1000'')]"

definition store_delete :: "store_client \<Rightarrow> string \<Rightarrow> string option \<Rightarrow> ('w services_scheme, response) prog" where
  "store_delete c key etag = store_request c ''DELETE'' key [] (conditions etag False) []"

section \<open>Reconciling a write\<close>

record probe =
  p_method :: string
  p_status :: "int option"
  p_etag :: string
  p_sha256 :: string
  p_request :: string

definition probe_of :: "string \<Rightarrow> response \<Rightarrow> probe" where
  "probe_of http_method r = (case r of (code, headers, raw) \<Rightarrow>
     \<lparr>p_method = http_method, p_status = Some code, p_etag = header_value headers ''etag'', p_sha256 = sha256_hex raw,
      p_request = (let i = header_value headers ''x-amz-request-id'' in if i \<noteq> [] then i else header_value headers ''x-request-id'')\<rparr>)"

definition probe_failed :: "string \<Rightarrow> probe" where
  "probe_failed http_method = \<lparr>p_method = http_method, p_status = None, p_etag = [], p_sha256 = sha256_hex [], p_request = []\<rparr>"

definition reads_back :: "string \<Rightarrow> string option \<Rightarrow> response \<Rightarrow> bool" where
  "reads_back raw etag r \<longleftrightarrow> (case r of (code, headers, body0) \<Rightarrow> code = 200 \<and> body0 = raw \<and> header_value headers ''etag'' \<noteq> []
     \<and> (case etag of None \<Rightarrow> True | Some e \<Rightarrow> header_value headers ''etag'' = quote_etag e))"

text \<open>One reading: its probe, and what it was answered with unless the network failed.\<close>

definition probe_once :: "store_client \<Rightarrow> string \<Rightarrow> string \<Rightarrow> ('w services_scheme, probe \<times> response option) prog" where
  "probe_once c http_method key = catching [OSError, URLError]
     (bindP (if http_method = ''HEAD'' then store_head c key else store_get c key) (\<lambda>r. ret (probe_of http_method r, Some r)))
     (ret (probe_failed http_method, None))"

definition absent :: "response option \<Rightarrow> bool" where
  "absent r \<longleftrightarrow> (case r of None \<Rightarrow> False | Some (code, _) \<Rightarrow> code = 404)"

text \<open>A round asks for the head, then the object.\<close>

fun reconcile_rounds ::
  "nat \<Rightarrow> store_client \<Rightarrow> string \<Rightarrow> string \<Rightarrow> string option \<Rightarrow> probe list \<Rightarrow> ('w services_scheme, reconciliation \<times> probe list) prog" where
  "reconcile_rounds 0 c key raw etag probes = ret (Unknown, probes)"
| "reconcile_rounds (Suc n) c key raw etag probes =
     bindP (probe_once c ''HEAD'' key) (\<lambda>(p, head).
     bindP (probe_once c ''GET'' key) (\<lambda>(q, seen).
     if (case seen of None \<Rightarrow> False | Some r \<Rightarrow> reads_back raw etag r) then ret (Committed, probes @ [p, q])
     else if absent head \<and> absent seen then ret (Discarded, probes @ [p, q])
     else reconcile_rounds n c key raw etag (probes @ [p, q])))"

definition reconcile_put_detailed ::
  "store_client \<Rightarrow> string \<Rightarrow> string \<Rightarrow> string option \<Rightarrow> ('w services_scheme, reconciliation \<times> probe list) prog" where
  "reconcile_put_detailed c key raw etag = reconcile_rounds 3 c key raw etag []"

definition reconcile_put :: "store_client \<Rightarrow> string \<Rightarrow> string \<Rightarrow> string option \<Rightarrow> ('w services_scheme, reconciliation) prog" where
  "reconcile_put c key raw etag = bindP (reconcile_put_detailed c key raw etag) (\<lambda>(outcome, _). ret outcome)"

section \<open>The environment file\<close>

definition env_names :: "string list" where
  "env_names = [''IDRIVE_ENDPOINT'', ''IDRIVE_BUCKET'', ''IDRIVE_REGION'', ''IDRIVE_ACCESS_KEY'', ''IDRIVE_SECRET_KEY'']"

definition env_alias :: "string \<Rightarrow> string" where
  "env_alias k = (case map_of [(''AWS_ACCESS_KEY_ID'', ''IDRIVE_ACCESS_KEY''), (''AWS_SECRET_ACCESS_KEY'', ''IDRIVE_SECRET_KEY''),
       (''AWS_REGION'', ''IDRIVE_REGION''), (''HAT_S3_ENDPOINT'', ''IDRIVE_ENDPOINT''), (''HAT_S3_BUCKET'', ''IDRIVE_BUCKET'')] k of
     None \<Rightarrow> k | Some a \<Rightarrow> a)"

text \<open>\<open>'...'\<close>, \<open>"..."\<close> or a word without blanks.\<close>

definition quoted_by :: "char \<Rightarrow> string \<Rightarrow> string option" where
  "quoted_by q t = (if 2 \<le> length t \<and> hd t = q \<and> last t = q \<and> q \<notin> set (butlast (tl t)) \<and> CHR 0x0A \<notin> set t
     then Some (butlast (tl t)) else None)"

definition env_value :: "string \<Rightarrow> string option" where
  "env_value t = (case quoted_by (CHR 0x27) t of Some v \<Rightarrow> Some v
     | None \<Rightarrow> (case quoted_by (CHR 0x22) t of Some v \<Rightarrow> Some v
        | None \<Rightarrow> if t \<noteq> [] \<and> list_all (\<lambda>c. \<not> py_space c) t then Some t else None))"

definition env_line :: "string \<Rightarrow> (string \<times> string) option" where
  "env_line line = (case strip_prefix ''export '' line of None \<Rightarrow> None
     | Some r \<Rightarrow> (let name = takeWhile (\<lambda>c. c \<noteq> CHR ''='') r in
        if name \<noteq> [] \<and> is_upper (hd name) \<and> list_all (\<lambda>c. is_upper c \<or> is_digit c \<or> c = CHR ''_'') name \<and> length name < length r
        then map_option (Pair name) (env_value (drop (Suc (length name)) r)) else None))"

fun env_values :: "(string \<times> string) list \<Rightarrow> string list \<Rightarrow> (string \<times> string) list res" where
  "env_values d [] = Inr d"
| "env_values d (line # rest) = (case env_line line of None \<Rightarrow> Inl ValueError
     | Some (k0, v) \<Rightarrow> let k = env_alias k0 in
        if k \<notin> set env_names \<or> k \<in> fst ` set d \<or> v = [] then Inl ValueError else env_values (d @ [(k, v)]) rest)"

definition read_store_values :: "string \<Rightarrow> ('w services_scheme, (string \<times> string) list) prog" where
  "read_store_values path =
     seqP (bindP (call ''require_private_file'' (JStr path)) (\<lambda>_. ret ()))
     (bindP (call ''read_text'' (JStr path)) (\<lambda>t.
     bindP (lift (env_values [] (splitlines (str_val t)))) (\<lambda>values.
     seqP (raise_when (\<lambda>_. Inr (fst ` set values \<noteq> set env_names)) ValueError) (ret values))))"

definition load_store_env :: "string \<Rightarrow> ('w services_scheme, (string \<times> string) list) prog" where
  "load_store_env path = bindP (read_store_values path) (\<lambda>values.
     ret (filter (\<lambda>(k, _). k \<notin> {''IDRIVE_ACCESS_KEY'', ''IDRIVE_SECRET_KEY''}) values))"

definition client_from_env :: "string \<Rightarrow> ('w services_scheme, store_client) prog" where
  "client_from_env path = bindP (read_store_values path) (\<lambda>values. let v = (\<lambda>k. the (map_of values k)) in
     lift (store_new (v ''IDRIVE_BUCKET'') (v ''IDRIVE_REGION'') (v ''IDRIVE_ACCESS_KEY'') (v ''IDRIVE_SECRET_KEY'')
       (v ''IDRIVE_ENDPOINT'')))"

end
