(* ===== verification/Store_Properties.thy ===== *)
theory Store_Properties
  imports Store "HOL-Library.Sublist"
begin

text \<open>
  What a reconciled write rests on: an answer of the store, read after the write was lost.
\<close>

section \<open>Answers of the store\<close>

text \<open>A request for the object \<open>key\<close> of the client's bucket: the method and the headers, which hold a time, are left open.\<close>

definition read_call :: "store_client \<Rightarrow> string \<Rightarrow> string \<Rightarrow> json \<Rightarrow> string \<times> json" where
  "read_call c key m headers =
     (''urlopen'', JArr [JStr (sc_endpoint c @ canonical_uri (store_path c key)), JNull, headers, JStr m, JInt 30])"

text \<open>After the calls \<open>before\<close> the store was asked \<open>asked\<close> and answered \<open>r\<close>.\<close>

definition answers_with :: "services \<Rightarrow> (string \<times> json) list \<Rightarrow> string \<times> json \<Rightarrow> response \<Rightarrow> bool" where
  "answers_with s before asked r \<longleftrightarrow> (\<exists>v. answer s before asked = Inr v \<and> bounded_response v = Inr r)"

definition requests :: "(string \<times> json) list \<Rightarrow> nat" where
  "requests calls = length (filter (\<lambda>e. fst e = ''urlopen'') calls)"

lemma requests_append [simp]: "requests (a @ b) = requests a + requests b" "requests [] = 0"
  by (simp_all add: requests_def)

text \<open>Since \<open>s\<close> nothing was done but looking at the clock and at most \<open>n\<close> times reading the object.\<close>

definition looks :: "store_client \<Rightarrow> string \<Rightarrow> string \<times> json \<Rightarrow> bool" where
  "looks c key e \<longleftrightarrow> fst e = ''utcnow'' \<or> (\<exists>m headers. m \<in> {''HEAD'', ''GET''} \<and> e = read_call c key m headers)"

definition only_read :: "store_client \<Rightarrow> string \<Rightarrow> nat \<Rightarrow> services \<Rightarrow> services \<Rightarrow> bool" where
  "only_read c key n s t \<longleftrightarrow> answer t = answer s
     \<and> (\<exists>new. trace t = trace s @ new \<and> list_all (looks c key) new \<and> requests new \<le> n)"

lemma only_read_refl: "only_read c key 0 s s" by (simp add: only_read_def)

lemma only_read_trans:
  assumes "only_read c key n s t" and "only_read c key m t u"
  shows "only_read c key (n + m) s u"
proof -
  from assms obtain a b where "trace t = trace s @ a" "list_all (looks c key) a" "requests a \<le> n"
    "trace u = trace t @ b" "list_all (looks c key) b" "requests b \<le> m" "answer u = answer s"
    by (auto simp: only_read_def)
  then show ?thesis unfolding only_read_def by (intro conjI exI [of _ "a @ b"]) auto
qed

lemma only_read_more: "only_read c key n s t \<Longrightarrow> n \<le> m \<Longrightarrow> only_read c key m s t"
  by (auto simp: only_read_def)

text \<open>One reading: the clock, then, unless that failed, the request, with what the store answered it.\<close>

definition one_read :: "store_client \<Rightarrow> string \<Rightarrow> string \<Rightarrow> services \<Rightarrow> services \<Rightarrow> response option \<Rightarrow> bool" where
  "one_read c key m s t seen \<longleftrightarrow> answer t = answer s
     \<and> (trace t = trace s @ [(''utcnow'', JNull)] \<and> seen = None
       \<or> (\<exists>headers. trace t = trace s @ [(''utcnow'', JNull), read_call c key m headers]
           \<and> (\<forall>r. seen = Some r \<longrightarrow> answers_with s (trace s @ [(''utcnow'', JNull)]) (read_call c key m headers) r)))"

lemma one_read_only: "one_read c key m s t seen \<Longrightarrow> m \<in> {''HEAD'', ''GET''} \<Longrightarrow> only_read c key 1 s t"
  unfolding one_read_def only_read_def by (elim conjE disjE exE) (auto simp: looks_def requests_def read_call_def)

lemma reading_request:
  assumes m: "m = ''HEAD'' \<or> m = ''GET''" and run: "store_request c m key raw [] [] s = (x, t)"
  shows "one_read c key m s t (case x of Inl e \<Rightarrow> None | Inr r \<Rightarrow> Some r)"
proof -
  let ?now = "(''utcnow'', JNull)"
  obtain now s1 where now: "call ''utcnow'' JNull s = (now, s1)" by (cases "call ''utcnow'' JNull s")
  then have s1: "s1 = s\<lparr>trace := trace s @ [?now]\<rparr>" by (simp add: call_def)
  show ?thesis
  proof (cases now)
    case (Inl e)
    then show ?thesis using run now s1 by (auto simp: store_request_def now_text_def bindP_def one_read_def)
  next
    case (Inr v)
    obtain url sent where u: "signed_request c m (store_path c key) [] raw [] (str_val v) = (url, sent)" by fastforce
    then have url: "url = sc_endpoint c @ canonical_uri (store_path c key)" by (auto simp: signed_request_def Let_def)
    let ?c = "read_call c key m (json_headers sent)"
    have t: "t = s1\<lparr>trace := trace s1 @ [?c]\<rparr>" and x: "x = bindR (answer s1 (trace s1) ?c) bounded_response"
      using run now Inr u url m
      by (auto simp: store_request_def now_text_def bindP_def ret_def call_def lift_def read_call_def bindR_def split: sum.splits)
    show ?thesis
      unfolding one_read_def using t x s1
      by (auto simp: answers_with_def bindR_def split: sum.splits)
  qed
qed

lemma probe_reads:
  assumes m: "m = ''HEAD'' \<or> m = ''GET''" and run: "probe_once c m key s = (Inr (p, seen), t)"
  shows "one_read c key m s t seen"
proof -
  obtain y t' where y: "store_request c m key [] [] [] s = (y, t')" by fastforce
  have "t = t' \<and> (seen = None \<or> seen = (case y of Inl e \<Rightarrow> None | Inr r \<Rightarrow> Some r))"
    using run y m
    by (cases y) (auto simp: probe_once_def store_head_def store_get_def catching_def bindP_def ret_def split: if_splits)
  then show ?thesis
    using reading_request [OF m y] by (auto simp: one_read_def)
qed

text \<open>A failed reading, too, only reads.\<close>

lemma probe_only:
  assumes m: "m = ''HEAD'' \<or> m = ''GET''" and run: "probe_once c m key s = (x, t)"
  shows "only_read c key 1 s t"
proof -
  obtain y t' where y: "store_request c m key [] [] [] s = (y, t')" by fastforce
  have "t = t'"
    using run y m
    by (cases y) (auto simp: probe_once_def store_head_def store_get_def catching_def bindP_def ret_def split: if_splits)
  then show ?thesis using one_read_only [OF reading_request [OF m y]] m by simp
qed

section \<open>Reconciling\<close>

text \<open>The store answered a request for the object with the bytes and an entity tag, the expected one if one is expected.\<close>

definition came_back :: "store_client \<Rightarrow> string \<Rightarrow> services \<Rightarrow> services \<Rightarrow> string \<Rightarrow> string option \<Rightarrow> bool" where
  "came_back c key s t raw etag \<longleftrightarrow> (\<exists>before sent after headers. trace t = trace s @ before @ [read_call c key ''GET'' sent] @ after
     \<and> answers_with s (trace s @ before) (read_call c key ''GET'' sent) (200, headers, raw) \<and> header_value headers ''etag'' \<noteq> []
     \<and> (case etag of None \<Rightarrow> True | Some e \<Rightarrow> header_value headers ''etag'' = quote_etag e))"

text \<open>A request for the head and, with nothing but a look at the clock between them, the next one, for the object, were
  both answered with 404.\<close>

definition both_absent :: "store_client \<Rightarrow> string \<Rightarrow> services \<Rightarrow> services \<Rightarrow> bool" where
  "both_absent c key s t \<longleftrightarrow> (\<exists>before sent sent' after h b h' b'. let
       asked = read_call c key ''HEAD'' sent; again = read_call c key ''GET'' sent' in
     trace t = trace s @ before @ [asked, (''utcnow'', JNull), again] @ after
     \<and> answers_with s (trace s @ before) asked (404, h, b)
     \<and> answers_with s (trace s @ before @ [asked, (''utcnow'', JNull)]) again (404, h', b'))"

definition settled :: "store_client \<Rightarrow> string \<Rightarrow> services \<Rightarrow> services \<Rightarrow> string \<Rightarrow> string option \<Rightarrow> reconciliation \<Rightarrow> bool" where
  "settled c key s t raw etag outcome \<longleftrightarrow> (case outcome of
     Committed \<Rightarrow> came_back c key s t raw etag | Discarded \<Rightarrow> both_absent c key s t | Unknown \<Rightarrow> True)"

lemma came_back_before: "only_read c key n s u \<Longrightarrow> came_back c key u t raw etag \<Longrightarrow> came_back c key s t raw etag"
  unfolding came_back_def only_read_def answers_with_def by clarsimp (metis append_assoc)

lemma both_absent_before: "only_read c key n s u \<Longrightarrow> both_absent c key u t \<Longrightarrow> both_absent c key s t"
  unfolding both_absent_def only_read_def answers_with_def Let_def by clarsimp (metis append_assoc)

lemma settled_before: "only_read c key n s u \<Longrightarrow> settled c key u t raw etag o' \<Longrightarrow> settled c key s t raw etag o'"
  using came_back_before both_absent_before by (auto simp: settled_def split: reconciliation.splits)

lemma reads_back_settles:
  assumes "one_read c key ''GET'' s t (Some r)" and "reads_back raw etag r"
  shows "settled c key s t raw etag Committed"
proof -
  obtain headers where r: "r = (200, headers, raw)" "header_value headers ''etag'' \<noteq> []"
    "case etag of None \<Rightarrow> True | Some e \<Rightarrow> header_value headers ''etag'' = quote_etag e"
    using assms(2) by (cases r) (auto simp: reads_back_def)
  then show ?thesis
    using assms(1) unfolding settled_def came_back_def one_read_def
    by clarsimp (rule exI [of _ "[(''utcnow'', JNull)]"], auto)
qed

lemma absent_settles:
  assumes one: "one_read c key ''HEAD'' s u head" "one_read c key ''GET'' u t seen" and "absent head" "absent seen"
  shows "settled c key s t raw etag Discarded"
proof -
  obtain h b h' b' where seen: "head = Some (404, h, b)" "seen = Some (404, h', b')"
    using assms(3,4) by (auto simp: absent_def split: option.splits)
  let ?now = "(''utcnow'', JNull)"
  from one(1) seen obtain sent where u: "answer u = answer s" "trace u = trace s @ [?now, read_call c key ''HEAD'' sent]"
    "answers_with s (trace s @ [?now]) (read_call c key ''HEAD'' sent) (404, h, b)" by (auto simp: one_read_def)
  from one(2) seen obtain sent' where t: "trace t = trace u @ [?now, read_call c key ''GET'' sent']"
    "answers_with u (trace u @ [?now]) (read_call c key ''GET'' sent') (404, h', b')" by (auto simp: one_read_def)
  show ?thesis
    unfolding settled_def both_absent_def Let_def reconciliation.case
    using u t
    by (intro exI [of _ "[?now]"] exI [of _ sent] exI [of _ sent'] exI [of _ "[]"] exI [of _ h] exI [of _ b] exI [of _ h'] exI [of _ b'])
      (simp add: answers_with_def)
qed

lemma rounds_settle:
  "reconcile_rounds n c key raw etag probes s = (x, t) \<Longrightarrow> only_read c key (2 * n) s t
    \<and> (\<forall>o' ps. x = Inr (o', ps) \<longrightarrow> settled c key s t raw etag o' \<and> length ps \<le> length probes + 2 * n
        \<and> (o' = Unknown \<longrightarrow> length ps = length probes + 2 * n))"
proof (induction n arbitrary: probes s)
  case 0
  then show ?case by (auto simp: ret_def only_read_refl settled_def)
next
  case (Suc n)
  obtain y s1 where y: "probe_once c ''HEAD'' key s = (y, s1)" by fastforce
  have s1: "only_read c key 1 s s1" using probe_only [OF _ y] by simp
  show ?case
  proof (cases y)
    case (Inl e)
    then show ?thesis using Suc.prems y only_read_more [OF s1] by (auto simp: bindP_def)
  next
    case (Inr w)
    obtain p head where head: "probe_once c ''HEAD'' key s = (Inr (p, head), s1)" using y Inr by (cases w) simp
    obtain z s2 where z: "probe_once c ''GET'' key s1 = (z, s2)" by fastforce
    have s2: "only_read c key 2 s s2" using only_read_trans [OF s1 probe_only [OF _ z]] by (simp add: numeral_2_eq_2)
    show ?thesis
    proof (cases z)
      case (Inl e)
      then show ?thesis using Suc.prems head z only_read_more [OF s2] by (auto simp: bindP_def)
    next
      case (Inr w)
      obtain q seen where seen: "probe_once c ''GET'' key s1 = (Inr (q, seen), s2)" using z Inr by (cases w) simp
      note one = probe_reads [OF _ head, simplified] probe_reads [OF _ seen, simplified]
      have rest: "(if (case seen of None \<Rightarrow> False | Some r \<Rightarrow> reads_back raw etag r) then ret (Committed, probes @ [p, q])
         else if absent head \<and> absent seen then ret (Discarded, probes @ [p, q])
         else reconcile_rounds n c key raw etag (probes @ [p, q])) s2 = (x, t)"
        using Suc.prems head seen by (simp add: bindP_def)
      consider r where "seen = Some r" "reads_back raw etag r" "x = Inr (Committed, probes @ [p, q])" "t = s2"
        | "absent head \<and> absent seen" "x = Inr (Discarded, probes @ [p, q])" "t = s2"
        | "reconcile_rounds n c key raw etag (probes @ [p, q]) s2 = (x, t)"
        using rest by (auto simp: ret_def split: if_splits option.splits)
      then show ?thesis
      proof cases
        case 1
        then have "settled c key s t raw etag Committed"
          using settled_before [OF s1 reads_back_settles] one(2) by simp
        then show ?thesis using 1 only_read_more [OF s2] by simp
      next
        case 2
        then have "settled c key s t raw etag Discarded" using absent_settles [OF one] by simp
        then show ?thesis using 2 only_read_more [OF s2] by simp
      next
        case 3
        from Suc.IH [OF this] show ?thesis using only_read_trans [OF s2] settled_before [OF s2] by auto
      qed
    qed
  qed
qed

text \<open>C40 A lost write is settled only by reading. Reconciling does nothing but look at the clock and send the store requests
  for the head of this object and for this object, at most six of them, whether it returns or raises; it calls the write
  committed only if the store answered a request for the object with exactly the written bytes and an entity tag (the
  expected one, if one is expected), discarded only if a request for the head and the very next one, for the object, were
  both answered with 404, and gives up as unknown only after six probes.\<close>

theorem lost_write_settled:
  "case reconcile_put_detailed c key raw etag s of (x, t) \<Rightarrow> only_read c key 6 s t
     \<and> (case x of Inl e \<Rightarrow> True
        | Inr (outcome, probes) \<Rightarrow> settled c key s t raw etag outcome \<and> length probes \<le> 6
            \<and> (if outcome = Unknown then length probes = 6 else True))"
proof (cases "reconcile_put_detailed c key raw etag s")
  case (Pair x t)
  from rounds_settle [of 3 c key raw etag "[]" s x t] show ?thesis
    using Pair by (auto simp: reconcile_put_detailed_def split: sum.splits)
qed

end
