(* ===== verification/Spec2Isabelle.thy ===== *)
theory Spec2Isabelle
  imports Acceptance_Properties Journal_Reconcile Journal_Liveness Schema_Properties Gate_Facts Fence_Facts Waits Node_Properties Ledger_Properties Canonical_Properties Inputs Admission_Properties Native_Properties Observe Descriptor_Properties Authority_Properties Command_Properties Controls Opening_Properties Switchover_Properties Recover_Properties Power_Properties Store_Properties
begin

text \<open>
  \<^bold>\<open>A planned failover and its recovery.\<close> The repository moves the single writer of a small database service
  between two nodes, A and B. A controller (\<open>hat/control.py\<close>) holds one locked journal and drives the phases of an
  operation; each node runs a supervisor (\<open>hat/node.py\<close>) and a root-only program of guarded actions
  (\<open>hat/transition.py\<close>); an independent oracle, whose requests and results are validated by \<open>hat/recovery.py\<close>, says
  whether a restored image has everything a ledger says was acknowledged; \<open>hat/client.py\<close> produces and reads that
  ledger, \<open>hat/descriptor.py\<close> holds files by descriptors, \<open>hat/observe.py\<close> inventories the evidence, and
  \<open>experiments/d4/admission.py\<close> admits single forwarded requests, which \<open>experiments/d4/native_adapter.py\<close> proves. \<open>experiments/m1/s3.py\<close> talks to the object
  store of the replicas.

  \<^bold>\<open>How the model is built.\<close> A computation that can fail is a value of \<open>exn + 'a\<close> (\<open>res\<close> in \<open>Prelude\<close>); the left
  side names the Python class that is raised, and a handler catches a class and its subclasses. A program with state
  is \<open>'s \<Rightarrow> 'a res \<times> 's\<close> (\<open>prog\<close>), so that the state after an exception is there to be looked at. JSON values are
  the datatype \<open>json\<close> with Python's comparisons and lookups (\<open>Py_Values\<close>), texts and bytes are lists of characters.
  What is not in this repository is a parameter: the answers of commands, services, SQLite, the clock and the network
  are functions of everything asked before, any value or exception, and the files a program does not
  hold may change at every access. Nothing is assumed of them except what a theorem states.

  \<^bold>\<open>Theories and code.\<close>
  \<^item> \<open>Prelude\<close>, \<open>Paths\<close>, \<open>World\<close>, \<open>Host\<close>: results, programs, their rules (\<open>wp\<close>, \<open>keeps\<close>, \<open>gives\<close>, \<open>raises\<close>), paths,
    a machine seen at instants, a host with files and calls.
  \<^item> \<open>Json_Text\<close>, \<open>Py_Values\<close>, \<open>Canonical\<close>, \<open>Canonical_Properties\<close>, \<open>Sha256\<close>: reading and writing JSON, the canonical form and its digest
    (\<open>hat/recovery.py\<close>).
  \<^item> \<open>Acceptance\<close>, \<open>Acceptance_Facts\<close>, \<open>Acceptance_Properties\<close>: requests and results of the oracle, the closed fault
    ledger and the reported outcomes (\<open>hat/recovery.py\<close>).
  \<^item> \<open>D3_Proof\<close>: the evidence of a recovery (\<open>_validate_d3_proof\<close>, \<open>_validate_rejoin_boot_boundary\<close>).
  \<^item> \<open>Journal\<close>, \<open>Journal_Facts\<close>, \<open>Journal_Sessions\<close>, \<open>Journal_Properties\<close>, \<open>Journal_Reconcile\<close>,
    \<open>Journal_Liveness\<close>: class \<open>Journal\<close>, an abstract
    specification of operations and their positions, and the refinement of the one by the other.
  \<^item> \<open>Schema\<close>, \<open>Schema_Properties\<close>: which database files are journals. \<open>Opening\<close>, \<open>Opening_Properties\<close>: \<open>Journal.__enter__\<close>
    with the lock, creation, migration and reopening.
  \<^item> \<open>Gate\<close>, \<open>Gate_Facts\<close>: \<open>ingress_allowed\<close>. \<open>Authority\<close>, \<open>Authority_Properties\<close>: \<open>current_writer\<close>, \<open>reconcile_existing\<close>.
  \<^item> \<open>Fence_Route\<close>, \<open>Fence_Facts\<close>: \<open>validate_fence\<close>, \<open>route_to\<close>.
  \<^item> \<open>Command\<close>, \<open>Command_Properties\<close>, \<open>Controls\<close>, \<open>Held\<close>, \<open>Oracle_Run\<close>: class \<open>ControlIO\<close>, its commands, the files it holds,
    and the request and the run of the oracle.
  \<^item> \<open>Switchover\<close>: \<open>switchover\<close> with its two reconciliations. \<open>Recover\<close>: \<open>recover\<close> of \<open>hat/recovery.py\<close>. \<open>Rejoin\<close>,
    \<open>Rejoin_Boot\<close>: \<open>rejoin\<close>, \<open>reconcile_rejoin_boot\<close> and \<open>main\<close>. Their state (\<open>driver\<close>) is the opened journal with the
    world of the controller beside it; \<open>with_io\<close> runs a command in that world, \<open>step\<close> brackets it with the journal's rows.
  \<^item> \<open>Steady\<close>: a locale of what a sequence of commands keeps, given the command lines it may use; \<open>Arming\<close> extends it
    to the recovery and the rejoin. \<open>Switchover_Properties\<close>, \<open>Recover_Properties\<close>, \<open>Power_Properties\<close> interpret them.
  \<^item> \<open>Node\<close>, \<open>Serve\<close>, \<open>Waits\<close>, \<open>Node_Properties\<close>: the supervisor. \<open>Transition\<close>, \<open>Actions\<close>, \<open>Dispatch\<close>, \<open>Host_Facts\<close>,
    \<open>Dispatch_Facts\<close>, \<open>Dispatch_Properties\<close>: the node's actions and their retained records.
  \<^item> \<open>Ledger\<close>, \<open>Ledger_Facts\<close>, \<open>Ledger_Properties\<close>: the client and its ledger. \<open>Inputs\<close>, \<open>Sealed\<close>: restore plans, fault
    classification, the inputs of a recovery, the sealed ledger and the identity of the oracle.
  \<^item> \<open>Native\<close>, \<open>Native_Properties\<close>: \<open>experiments/d4/native_adapter.py\<close>, which forwards an admitted request and proves
    it; \<open>admit_native\<close> answers the admission's calls by replaying them on the adapter.
  \<^item> \<open>Store\<close>, \<open>Store_Properties\<close>: \<open>experiments/m1/s3.py\<close>, the signed client of the object store and the reconciliation
    of a write whose answer was lost.
  \<^item> \<open>Admission\<close>, \<open>Admission_Properties\<close>: \<open>experiments/d4/admission.py\<close>, whose rows belong to the database file, by its
    device and inode: a journal that is removed takes them with it, and opening makes a new one. \<open>Observe\<close>; \<open>Descriptor\<close>, \<open>Descriptor_Properties\<close>.

  \<^bold>\<open>What the lemmas show.\<close> The acceptance contract binds results to requests and requests to one operation, and
  never loses an acknowledged write. The journal commits intent before effect, never retries an uncertain step, keeps
  its invariant over any number of sessions with crashes at any commit, lets every operation be brought to its end as long
  as nothing fails, and opens or migrates whole or not at all. The
  ingress opens only for a reason that was seen, a writer is named only from a complete journal, and an unfinished
  operation closes the ingress. A command starts its process at most once, after its durable intent, and reports uncertainty
  unless a unit was seen dead. A node executes an action at most once and its waits end. Requests are forwarded at most
  once as long as nobody takes the admission journal away, what the native adapter releases was read back, and descriptors name what they are said to hold. A lost write to the
  object store is settled only by reading it back. The ledger a client writes is read back as what it did, and
  the canonical reader accepts exactly the canonical texts. A recovery and a reconciled boot never act on a machine's
  power; and, as the code stands, neither a switchover nor a recovery can return: the requests for their last checks are
  always refused.

  \<^bold>\<open>Bounds and fuel.\<close> The JSON reader has fuel one above the length of its text, which is enough because every level
  consumes a character. Waits and polls take fuel; running out is \<open>StopIteration\<close>, and \<open>Waits\<close> proves that a wait whose
  clock advances ends before. Integers are unbounded where Python's are; the digest uses 32-bit words, and a column of
  SQLite refuses integers of more than 64 bits.

  \<^bold>\<open>Not modelled.\<close> Bytes above 127 are not decoded: such input raises \<open>UnicodeDecodeError\<close>. The parser of command
  lines, the HTTP server and signal handlers are glue; the demonstration programs a switchover calls are calls. The
  runners (\<open>run.py\<close> under \<open>experiments/m0\<close> and \<open>experiments/m1\<close>) drive machines and providers from a workstation and keep no state
  of this program; the census and the adapter for logouts under \<open>experiments/d4\<close> concern a third-party program.
\<close>

end
